(* ===== verification/Prelude_RBI.thy ===== *)
theory Prelude_RBI
  imports Complex_Main "HOL-Library.Multiset"
begin

text \<open>
  Shared vocabulary of the development: the types every component uses (identifiers, instants,
  results, JSON values), the Python string methods the backend calls, and keyed tables (a table
  of the database is the list of its rows, in storage order) with their laws stated once in the
  locale \<open>keyed_table\<close>. The collection \<open>tbl\<close> holds the facts that carry the component proofs.

  Strings are lists of characters read as code points 0 to 255, so \<open>lower\<close> and \<open>strip\<close>
  follow Python's \<open>str\<close> methods on that range.
\<close>

named_theorems tbl \<open>facts about keyed tables and the database accessors\<close>

section \<open>Basic types\<close>

text \<open>UUID primary keys. A fresh one is drawn from a counter of the database (\<open>next_id\<close>).\<close>

type_synonym uuid = nat

text \<open>Instants and durations are integers counting microseconds, the resolution of \<open>datetime\<close>.\<close>

type_synonym instant = int

definition seconds :: "int \<Rightarrow> instant" where
  "seconds n = n * 1000000"

definition minutes :: "int \<Rightarrow> instant" where
  "minutes n = seconds (60 * n)"

definition days :: "int \<Rightarrow> instant" where
  "days n = seconds (86400 * n)"

text \<open>A JSON value, for the JSONB columns. \<open>JId\<close> is the text of a UUID (\<open>str(uuid)\<close>).\<close>

datatype json =
    JNull
  | JBool bool
  | JInt int
  | JFloat rat
  | JStr string
  | JId uuid
  | JList "json list"
  | JObj "(string \<times> json) list"

type_synonym jobj = "(string \<times> json) list"

text \<open>\<open>dict.get(key)\<close>: the value, or None.\<close>

definition jget :: "jobj \<Rightarrow> string \<Rightarrow> json" where
  "jget d k = (case map_of d k of None \<Rightarrow> JNull | Some v \<Rightarrow> v)"

text \<open>\<open>isinstance(v, int)\<close> with the value: in Python a bool is an int.\<close>

fun as_int :: "json \<Rightarrow> int option" where
  "as_int (JInt i) = Some i"
| "as_int (JBool b) = Some (if b then 1 else 0)"
| "as_int _ = None"

section \<open>Python string methods\<close>

definition code :: "char \<Rightarrow> nat" where
  "code c = of_char c"

definition is_space :: "char \<Rightarrow> bool" where
  "is_space c = (let n = code c in
     (9 \<le> n \<and> n \<le> 13) \<or> (28 \<le> n \<and> n \<le> 32) \<or> n = 133 \<or> n = 160)"

definition lstrip_by :: "(char \<Rightarrow> bool) \<Rightarrow> string \<Rightarrow> string" where
  "lstrip_by P s = dropWhile P s"

definition rstrip_by :: "(char \<Rightarrow> bool) \<Rightarrow> string \<Rightarrow> string" where
  "rstrip_by P s = rev (dropWhile P (rev s))"

definition strip :: "string \<Rightarrow> string" where
  "strip s = rstrip_by is_space (lstrip_by is_space s)"

definition lower_char :: "char \<Rightarrow> char" where
  "lower_char c = (let n = code c in
     if (65 \<le> n \<and> n \<le> 90) \<or> (192 \<le> n \<and> n \<le> 222 \<and> n \<noteq> 215) then char_of (n + 32) else c)"

definition lower :: "string \<Rightarrow> string" where
  "lower s = map lower_char s"

definition startswith :: "string \<Rightarrow> string \<Rightarrow> bool" where
  "startswith s p = (take (length p) s = p)"

definition endswith :: "string \<Rightarrow> string \<Rightarrow> bool" where
  "endswith s p = (length p \<le> length s \<and> drop (length s - length p) s = p)"

text \<open>\<open>needle in s\<close>.\<close>

fun contains :: "string \<Rightarrow> string \<Rightarrow> bool" where
  "contains [] needle = (needle = [])"
| "contains (c # cs) needle = (startswith (c # cs) needle \<or> contains cs needle)"

text \<open>
  \<open>s.partition(c)\<close> as (before, found, after), and \<open>s.rpartition(c)[2]\<close> (the whole string when
  the separator is absent).
\<close>

fun partition_at :: "char \<Rightarrow> string \<Rightarrow> string \<times> bool \<times> string" where
  "partition_at c [] = ([], False, [])"
| "partition_at c (x # xs) =
     (if x = c then ([], True, xs)
      else (let (a, f, b) = partition_at c xs in (x # a, f, b)))"

definition after_last :: "char \<Rightarrow> string \<Rightarrow> string" where
  "after_last c s = rev (takeWhile (\<lambda>x. x \<noteq> c) (rev s))"

text \<open>Decimal text of an integer, for the f-strings that print counts.\<close>

fun show_nat :: "nat \<Rightarrow> string" where
  "show_nat n = (if n < 10 then [char_of (48 + n)] else show_nat (n div 10) @ [char_of (48 + n mod 10)])"

declare show_nat.simps [simp del]

definition show_int :: "int \<Rightarrow> string" where
  "show_int i = (if i < 0 then ''-'' @ show_nat (nat (- i)) else show_nat (nat i))"

lemma startswith_iff: "startswith s p \<longleftrightarrow> (\<exists>r. s = p @ r)"
  unfolding startswith_def by (metis append_eq_conv_conj append_take_drop_id)

lemma endswith_iff: "endswith s p \<longleftrightarrow> (\<exists>r. s = r @ p)"
  unfolding endswith_def
  by (metis append_take_drop_id append_eq_conv_conj diff_le_self length_append le_add2
      add_diff_cancel_right')

lemma startswith_append [simp]: "startswith (p @ r) p"
  by (auto simp: startswith_iff)

lemma endswith_append [simp]: "endswith (r @ p) p"
  by (auto simp: endswith_iff)

lemma lower_append [simp]: "lower (a @ b) = lower a @ lower b"
  by (simp add: lower_def)

lemma lower_Nil [simp]: "lower [] = []"
  by (simp add: lower_def)

lemma code_less: "code c < 256"
  by (simp add: code_def)

lemma lower_char_idem [simp]: "lower_char (lower_char c) = lower_char c"
proof -
  have "code (char_of (code c + 32)) = code c + 32" if "code c \<le> 222"
    using that by (simp add: code_def)
  then show ?thesis
    by (auto simp: lower_char_def Let_def)
qed

lemma lower_idem [simp]: "lower (lower s) = lower s"
  by (simp add: lower_def)

section \<open>Keyed tables\<close>

text \<open>
  A table is a list of rows. \<open>row_get\<close> is a primary-key lookup (\<open>db.get\<close>), \<open>row_update\<close> an
  UPDATE of the row with that key, \<open>rows_delete\<close> a DELETE with a WHERE clause, \<open>row_insert\<close> an
  INSERT.
\<close>

definition row_get :: "('r \<Rightarrow> 'k) \<Rightarrow> 'k \<Rightarrow> 'r list \<Rightarrow> 'r option" where
  "row_get key k rows = find (\<lambda>r. key r = k) rows"

definition row_update :: "('r \<Rightarrow> 'k) \<Rightarrow> 'k \<Rightarrow> ('r \<Rightarrow> 'r) \<Rightarrow> 'r list \<Rightarrow> 'r list" where
  "row_update key k f rows = map (\<lambda>r. if key r = k then f r else r) rows"

definition rows_delete :: "('r \<Rightarrow> bool) \<Rightarrow> 'r list \<Rightarrow> 'r list" where
  "rows_delete P rows = filter (\<lambda>r. \<not> P r) rows"

definition row_insert :: "'r \<Rightarrow> 'r list \<Rightarrow> 'r list" where
  "row_insert r rows = rows @ [r]"

definition distinct_keys :: "('r \<Rightarrow> 'k) \<Rightarrow> 'r list \<Rightarrow> bool" where
  "distinct_keys key rows = distinct (map key rows)"

text \<open>
  The laws of a table, for any implementation of the four operations; the components rely on
  these and nothing else of the representation.
\<close>

locale keyed_table =
  fixes key :: "'r \<Rightarrow> 'k"
    and get :: "'k \<Rightarrow> 't \<Rightarrow> 'r option"
    and update :: "'k \<Rightarrow> ('r \<Rightarrow> 'r) \<Rightarrow> 't \<Rightarrow> 't"
    and insert_row :: "'r \<Rightarrow> 't \<Rightarrow> 't"
    and rows :: "'t \<Rightarrow> 'r set"
    and invar :: "'t \<Rightarrow> bool"
  assumes get_Some: "invar t \<Longrightarrow> get k t = Some r \<longleftrightarrow> r \<in> rows t \<and> key r = k"
    and rows_update: "rows (update k f t) = (\<lambda>r. if key r = k then f r else r) ` rows t"
    and rows_insert: "rows (insert_row r t) = insert r (rows t)"
    and invar_update: "invar t \<Longrightarrow> (\<And>r. key (f r) = key r) \<Longrightarrow> invar (update k f t)"
    and invar_insert: "invar t \<Longrightarrow> get (key r) t = None \<Longrightarrow> invar (insert_row r t)"
begin

lemma get_None: "invar t \<Longrightarrow> get k t = None \<longleftrightarrow> (\<forall>r \<in> rows t. key r \<noteq> k)"
  by (metis get_Some not_None_eq)

lemma get_update_same:
  assumes "invar t" and "\<And>r. key (f r) = key r"
  shows "get k (update k f t) = map_option f (get k t)"
proof (cases "get k t")
  case None
  then have "\<forall>r \<in> rows (update k f t). key r \<noteq> k"
    using get_None [OF assms(1)] by (auto simp: rows_update)
  then have "get k (update k f t) = None"
    using get_None [OF invar_update [OF assms]] by blast
  with None show ?thesis by simp
next
  case (Some r)
  then have "r \<in> rows t" "key r = k" using get_Some [OF assms(1)] by auto
  then have "f r \<in> rows (update k f t)" "key (f r) = k"
    using assms(2) by (auto simp: rows_update)
  then have "get k (update k f t) = Some (f r)"
    using get_Some [OF invar_update [OF assms]] by blast
  with Some show ?thesis by simp
qed

lemma get_update_other:
  assumes "invar t" and "\<And>r. key (f r) = key r" and "k \<noteq> j"
  shows "get k (update j f t) = get k t"
proof -
  have "r \<in> rows (update j f t) \<and> key r = k \<longleftrightarrow> r \<in> rows t \<and> key r = k" for r
    using assms(2,3) by (fastforce simp: rows_update)
  then show ?thesis
    by (metis get_Some assms(1,2) invar_update option.exhaust)
qed

lemma get_insert_same:
  assumes "invar t" and "get (key r) t = None"
  shows "get (key r) (insert_row r t) = Some r"
  using get_Some [OF invar_insert [OF assms]] by (simp add: rows_insert)

lemma get_insert_other:
  assumes "invar t" and "get (key r) t = None" and "k \<noteq> key r"
  shows "get k (insert_row r t) = get k t"
proof -
  have "x \<in> rows (insert_row r t) \<and> key x = k \<longleftrightarrow> x \<in> rows t \<and> key x = k" for x
    using assms(3) by (auto simp: rows_insert)
  then show ?thesis
    by (metis get_Some assms(1,2) invar_insert option.exhaust)
qed

end

lemma row_get_Some:
  "distinct_keys key rows \<Longrightarrow> row_get key k rows = Some r \<longleftrightarrow> r \<in> set rows \<and> key r = k"
  unfolding row_get_def distinct_keys_def
  by (induction rows) (auto simp: image_iff)

lemma row_get_SomeD: "row_get key k rows = Some r \<Longrightarrow> r \<in> set rows \<and> key r = k"
  unfolding row_get_def by (auto simp: find_Some_iff)

lemma row_get_None [tbl]: "row_get key k rows = None \<longleftrightarrow> (\<forall>r \<in> set rows. key r \<noteq> k)"
  unfolding row_get_def by (auto simp: find_None_iff)

lemma set_row_update [tbl]: "set (row_update key k f rows) = (\<lambda>r. if key r = k then f r else r) ` set rows"
  by (simp add: row_update_def)

lemma set_row_insert [tbl]: "set (row_insert r rows) = insert r (set rows)"
  by (simp add: row_insert_def)

lemma set_rows_delete [tbl]: "set (rows_delete P rows) = {r \<in> set rows. \<not> P r}"
  by (auto simp: rows_delete_def)

lemma map_key_row_update [tbl]:
  "(\<And>r. key (f r) = key r) \<Longrightarrow> map key (row_update key k f rows) = map key rows"
  by (auto simp: row_update_def)

lemma map_other_row_update [tbl]:
  "(\<And>r. g (f r) = g r) \<Longrightarrow> map g (row_update key k f rows) = map g rows"
  by (auto simp: row_update_def)

lemma length_row_update [tbl]: "length (row_update key k f rows) = length rows"
  by (simp add: row_update_def)

lemma distinct_keys_row_update [tbl]:
  "(\<And>r. key (f r) = key r) \<Longrightarrow> distinct_keys key (row_update key k f rows) = distinct_keys key rows"
  by (simp add: distinct_keys_def map_key_row_update)

lemma distinct_keys_row_insert [tbl]:
  "distinct_keys key (row_insert r rows) \<longleftrightarrow> distinct_keys key rows \<and> row_get key (key r) rows = None"
  by (auto simp: distinct_keys_def row_insert_def row_get_None image_iff)

lemma distinct_keys_rows_delete [tbl]:
  "distinct_keys key rows \<Longrightarrow> distinct_keys key (rows_delete P rows)"
  unfolding distinct_keys_def rows_delete_def by (rule distinct_map_filter)

lemma distinct_keys_eq:
  "distinct_keys key rows \<Longrightarrow> a \<in> set rows \<Longrightarrow> b \<in> set rows \<Longrightarrow> key a = key b \<Longrightarrow> a = b"
  unfolding distinct_keys_def distinct_map inj_on_def by blast

text \<open>The list representation satisfies the laws, for every key function.\<close>

interpretation tab: keyed_table key "row_get key" "row_update key" row_insert set "distinct_keys key"
  for key :: "'r \<Rightarrow> 'k"
  by unfold_locales (auto simp: row_get_Some tbl)

lemma row_get_update_same [tbl]:
  "(\<And>r. key (f r) = key r) \<Longrightarrow> row_get key k (row_update key k f rows) = map_option f (row_get key k rows)"
  unfolding row_get_def row_update_def by (induction rows) auto

lemma row_get_update_other [tbl]:
  "(\<And>r. key (f r) = key r) \<Longrightarrow> k \<noteq> j \<Longrightarrow> row_get key k (row_update key j f rows) = row_get key k rows"
  unfolding row_get_def row_update_def by (induction rows) auto

lemma row_get_insert [tbl]:
  "row_get key k (row_insert r rows) =
     (case row_get key k rows of Some x \<Rightarrow> Some x | None \<Rightarrow> (if key r = k then Some r else None))"
  unfolding row_get_def row_insert_def by (induction rows) auto

lemma row_update_id: "\<forall>r \<in> set rows. key r \<noteq> k \<Longrightarrow> row_update key k f rows = rows"
  unfolding row_update_def by (induction rows) auto

end
