(* ===== verification/Enums.thy ===== *)
theory Enums
  imports Prelude_RBI
begin

text \<open>
  The enumerations of \<open>backend/app/models/enums.py\<close>. Each class is a datatype; \<open>..._value\<close>
  is the member's \<open>.value\<close>, \<open>all_...\<close> the members in definition order, and \<open>..._of_value\<close>
  the call \<open>Cls(text)\<close>, with None where Python raises \<open>ValueError\<close>. Constructor prefixes keep
  members of different classes apart. The locale \<open>enumeration\<close> states the round trip once for all of them.
\<close>

text \<open>\<open>Cls(text)\<close>: the first member whose value is the text, or \<open>ValueError\<close>.\<close>

definition enum_of_value :: "('a \<Rightarrow> string) \<Rightarrow> 'a list \<Rightarrow> string \<Rightarrow> 'a option" where
  "enum_of_value val_of members s = find (\<lambda>m. val_of m = s) members"

locale enumeration =
  fixes val_of :: "'a \<Rightarrow> string"
    and members :: "'a list"
  assumes complete: "x \<in> set members"
    and distinct_vals: "distinct (map val_of members)"
begin

lemma value_inj: "val_of x = val_of y \<longleftrightarrow> x = y"
  using distinct_vals complete by (metis distinct_map inj_on_def)

lemma of_value_value: "enum_of_value val_of members (val_of x) = Some x"
proof -
  obtain y where y: "enum_of_value val_of members (val_of x) = Some y"
    using complete [of x] by (cases "enum_of_value val_of members (val_of x)")
      (auto simp: enum_of_value_def find_None_iff)
  then have "val_of y = val_of x"
    by (auto simp: enum_of_value_def find_Some_iff)
  with y show ?thesis by (simp add: value_inj)
qed

lemma of_value_Some: "enum_of_value val_of members s = Some x \<longleftrightarrow> s = val_of x"
  by (metis (mono_tags, lifting) enum_of_value_def find_Some_iff of_value_value)

lemma of_value_None: "enum_of_value val_of members s = None \<longleftrightarrow> s \<notin> range val_of"
  by (metis of_value_Some not_None_eq rangeE rangeI)

end

section \<open>RoleName\<close>

datatype role_name =
    R_USER | R_SECURITY_REVIEWER | R_ADMIN

primrec role_name_value :: "role_name \<Rightarrow> string" where
  "role_name_value R_USER = ''USER''"
| "role_name_value R_SECURITY_REVIEWER = ''SECURITY_REVIEWER''"
| "role_name_value R_ADMIN = ''ADMIN''"

definition all_role_name :: "role_name list" where
  "all_role_name = [
     R_USER, R_SECURITY_REVIEWER, R_ADMIN]"

definition role_name_of_value :: "string \<Rightarrow> role_name option" where
  "role_name_of_value s = enum_of_value role_name_value all_role_name s"

interpretation r_enum: enumeration role_name_value all_role_name
proof unfold_locales
  show "x \<in> set all_role_name" for x
    by (cases x) (simp_all add: all_role_name_def)
  show "distinct (map role_name_value all_role_name)"
    by code_simp
qed

text \<open>Roles MFA is mandatory for.\<close>

definition MFA_MANDATORY_ROLES :: "string list" where
  "MFA_MANDATORY_ROLES = [role_name_value R_ADMIN, role_name_value R_SECURITY_REVIEWER]"

section \<open>PolicyType\<close>

datatype policy_type =
    PT_NETWORK | PT_DOWNLOADS | PT_UPLOADS | PT_CLIPBOARD | PT_BROWSER | PT_SESSION | PT_MIME
    | PT_SOURCE

primrec policy_type_value :: "policy_type \<Rightarrow> string" where
  "policy_type_value PT_NETWORK = ''NETWORK''"
| "policy_type_value PT_DOWNLOADS = ''DOWNLOADS''"
| "policy_type_value PT_UPLOADS = ''UPLOADS''"
| "policy_type_value PT_CLIPBOARD = ''CLIPBOARD''"
| "policy_type_value PT_BROWSER = ''BROWSER''"
| "policy_type_value PT_SESSION = ''SESSION''"
| "policy_type_value PT_MIME = ''MIME''"
| "policy_type_value PT_SOURCE = ''SOURCE''"

definition all_policy_type :: "policy_type list" where
  "all_policy_type = [
     PT_NETWORK, PT_DOWNLOADS, PT_UPLOADS, PT_CLIPBOARD, PT_BROWSER, PT_SESSION, PT_MIME
     , PT_SOURCE]"

definition policy_type_of_value :: "string \<Rightarrow> policy_type option" where
  "policy_type_of_value s = enum_of_value policy_type_value all_policy_type s"

interpretation pt_enum: enumeration policy_type_value all_policy_type
proof unfold_locales
  show "x \<in> set all_policy_type" for x
    by (cases x) (simp_all add: all_policy_type_def)
  show "distinct (map policy_type_value all_policy_type)"
    by code_simp
qed

section \<open>ClipboardMode\<close>

datatype clipboard_mode =
    CM_NONE | CM_LOCAL_TO_REMOTE | CM_REMOTE_TO_LOCAL | CM_BIDIRECTIONAL_TEXT

primrec clipboard_mode_value :: "clipboard_mode \<Rightarrow> string" where
  "clipboard_mode_value CM_NONE = ''NONE''"
| "clipboard_mode_value CM_LOCAL_TO_REMOTE = ''LOCAL_TO_REMOTE''"
| "clipboard_mode_value CM_REMOTE_TO_LOCAL = ''REMOTE_TO_LOCAL''"
| "clipboard_mode_value CM_BIDIRECTIONAL_TEXT = ''BIDIRECTIONAL_TEXT''"

definition all_clipboard_mode :: "clipboard_mode list" where
  "all_clipboard_mode = [
     CM_NONE, CM_LOCAL_TO_REMOTE, CM_REMOTE_TO_LOCAL, CM_BIDIRECTIONAL_TEXT]"

definition clipboard_mode_of_value :: "string \<Rightarrow> clipboard_mode option" where
  "clipboard_mode_of_value s = enum_of_value clipboard_mode_value all_clipboard_mode s"

interpretation cm_enum: enumeration clipboard_mode_value all_clipboard_mode
proof unfold_locales
  show "x \<in> set all_clipboard_mode" for x
    by (cases x) (simp_all add: all_clipboard_mode_def)
  show "distinct (map clipboard_mode_value all_clipboard_mode)"
    by code_simp
qed

section \<open>PolicyVersionStatus\<close>

datatype policy_version_status =
    PV_DRAFT | PV_PUBLISHED | PV_SUPERSEDED

primrec policy_version_status_value :: "policy_version_status \<Rightarrow> string" where
  "policy_version_status_value PV_DRAFT = ''DRAFT''"
| "policy_version_status_value PV_PUBLISHED = ''PUBLISHED''"
| "policy_version_status_value PV_SUPERSEDED = ''SUPERSEDED''"

definition all_policy_version_status :: "policy_version_status list" where
  "all_policy_version_status = [
     PV_DRAFT, PV_PUBLISHED, PV_SUPERSEDED]"

definition policy_version_status_of_value :: "string \<Rightarrow> policy_version_status option" where
  "policy_version_status_of_value s = enum_of_value policy_version_status_value all_policy_version_status s"

interpretation pv_enum: enumeration policy_version_status_value all_policy_version_status
proof unfold_locales
  show "x \<in> set all_policy_version_status" for x
    by (cases x) (simp_all add: all_policy_version_status_def)
  show "distinct (map policy_version_status_value all_policy_version_status)"
    by code_simp
qed

section \<open>FileRuleType\<close>

datatype file_rule_type =
    FR_MIME | FR_SOURCE

primrec file_rule_type_value :: "file_rule_type \<Rightarrow> string" where
  "file_rule_type_value FR_MIME = ''MIME''"
| "file_rule_type_value FR_SOURCE = ''SOURCE''"

definition all_file_rule_type :: "file_rule_type list" where
  "all_file_rule_type = [
     FR_MIME, FR_SOURCE]"

definition file_rule_type_of_value :: "string \<Rightarrow> file_rule_type option" where
  "file_rule_type_of_value s = enum_of_value file_rule_type_value all_file_rule_type s"

interpretation fr_enum: enumeration file_rule_type_value all_file_rule_type
proof unfold_locales
  show "x \<in> set all_file_rule_type" for x
    by (cases x) (simp_all add: all_file_rule_type_def)
  show "distinct (map file_rule_type_value all_file_rule_type)"
    by code_simp
qed

section \<open>FileAction\<close>

datatype file_action =
    FA_AUTO_RELEASE | FA_QUARANTINE | FA_DENY

primrec file_action_value :: "file_action \<Rightarrow> string" where
  "file_action_value FA_AUTO_RELEASE = ''AUTO_RELEASE''"
| "file_action_value FA_QUARANTINE = ''QUARANTINE''"
| "file_action_value FA_DENY = ''DENY''"

definition all_file_action :: "file_action list" where
  "all_file_action = [
     FA_AUTO_RELEASE, FA_QUARANTINE, FA_DENY]"

definition file_action_of_value :: "string \<Rightarrow> file_action option" where
  "file_action_of_value s = enum_of_value file_action_value all_file_action s"

interpretation fa_enum: enumeration file_action_value all_file_action
proof unfold_locales
  show "x \<in> set all_file_action" for x
    by (cases x) (simp_all add: all_file_action_def)
  show "distinct (map file_action_value all_file_action)"
    by code_simp
qed

section \<open>BrowserNodeStatus\<close>

datatype browser_node_status =
    NS_ONLINE | NS_DRAINING | NS_OFFLINE | NS_DEGRADED | NS_MAINTENANCE

primrec browser_node_status_value :: "browser_node_status \<Rightarrow> string" where
  "browser_node_status_value NS_ONLINE = ''ONLINE''"
| "browser_node_status_value NS_DRAINING = ''DRAINING''"
| "browser_node_status_value NS_OFFLINE = ''OFFLINE''"
| "browser_node_status_value NS_DEGRADED = ''DEGRADED''"
| "browser_node_status_value NS_MAINTENANCE = ''MAINTENANCE''"

definition all_browser_node_status :: "browser_node_status list" where
  "all_browser_node_status = [
     NS_ONLINE, NS_DRAINING, NS_OFFLINE, NS_DEGRADED, NS_MAINTENANCE]"

definition browser_node_status_of_value :: "string \<Rightarrow> browser_node_status option" where
  "browser_node_status_of_value s = enum_of_value browser_node_status_value all_browser_node_status s"

interpretation ns_enum: enumeration browser_node_status_value all_browser_node_status
proof unfold_locales
  show "x \<in> set all_browser_node_status" for x
    by (cases x) (simp_all add: all_browser_node_status_def)
  show "distinct (map browser_node_status_value all_browser_node_status)"
    by code_simp
qed

section \<open>NodeEnrollmentStatus\<close>

datatype node_enrollment_status =
    NE_PENDING | NE_APPROVED | NE_REVOKED

primrec node_enrollment_status_value :: "node_enrollment_status \<Rightarrow> string" where
  "node_enrollment_status_value NE_PENDING = ''PENDING''"
| "node_enrollment_status_value NE_APPROVED = ''APPROVED''"
| "node_enrollment_status_value NE_REVOKED = ''REVOKED''"

definition all_node_enrollment_status :: "node_enrollment_status list" where
  "all_node_enrollment_status = [
     NE_PENDING, NE_APPROVED, NE_REVOKED]"

definition node_enrollment_status_of_value :: "string \<Rightarrow> node_enrollment_status option" where
  "node_enrollment_status_of_value s = enum_of_value node_enrollment_status_value all_node_enrollment_status s"

interpretation ne_enum: enumeration node_enrollment_status_value all_node_enrollment_status
proof unfold_locales
  show "x \<in> set all_node_enrollment_status" for x
    by (cases x) (simp_all add: all_node_enrollment_status_def)
  show "distinct (map node_enrollment_status_value all_node_enrollment_status)"
    by code_simp
qed

section \<open>SessionStatus\<close>

datatype session_status =
    SS_QUEUED | SS_STARTING | SS_ACTIVE | SS_DISCONNECTED | SS_ISOLATING | SS_ISOLATED
    | SS_TERMINATING | SS_TERMINATED | SS_FAILED

primrec session_status_value :: "session_status \<Rightarrow> string" where
  "session_status_value SS_QUEUED = ''QUEUED''"
| "session_status_value SS_STARTING = ''STARTING''"
| "session_status_value SS_ACTIVE = ''ACTIVE''"
| "session_status_value SS_DISCONNECTED = ''DISCONNECTED''"
| "session_status_value SS_ISOLATING = ''ISOLATING''"
| "session_status_value SS_ISOLATED = ''ISOLATED''"
| "session_status_value SS_TERMINATING = ''TERMINATING''"
| "session_status_value SS_TERMINATED = ''TERMINATED''"
| "session_status_value SS_FAILED = ''FAILED''"

definition all_session_status :: "session_status list" where
  "all_session_status = [
     SS_QUEUED, SS_STARTING, SS_ACTIVE, SS_DISCONNECTED, SS_ISOLATING, SS_ISOLATED
     , SS_TERMINATING, SS_TERMINATED, SS_FAILED]"

definition session_status_of_value :: "string \<Rightarrow> session_status option" where
  "session_status_of_value s = enum_of_value session_status_value all_session_status s"

interpretation ss_enum: enumeration session_status_value all_session_status
proof unfold_locales
  show "x \<in> set all_session_status" for x
    by (cases x) (simp_all add: all_session_status_def)
  show "distinct (map session_status_value all_session_status)"
    by code_simp
qed

section \<open>QuarantineStatus\<close>

datatype quarantine_status =
    QS_PENDING_SCAN | QS_SCANNING | QS_QUARANTINED | QS_RELEASED | QS_REJECTED | QS_DELETED

primrec quarantine_status_value :: "quarantine_status \<Rightarrow> string" where
  "quarantine_status_value QS_PENDING_SCAN = ''PENDING_SCAN''"
| "quarantine_status_value QS_SCANNING = ''SCANNING''"
| "quarantine_status_value QS_QUARANTINED = ''QUARANTINED''"
| "quarantine_status_value QS_RELEASED = ''RELEASED''"
| "quarantine_status_value QS_REJECTED = ''REJECTED''"
| "quarantine_status_value QS_DELETED = ''DELETED''"

definition all_quarantine_status :: "quarantine_status list" where
  "all_quarantine_status = [
     QS_PENDING_SCAN, QS_SCANNING, QS_QUARANTINED, QS_RELEASED, QS_REJECTED, QS_DELETED]"

definition quarantine_status_of_value :: "string \<Rightarrow> quarantine_status option" where
  "quarantine_status_of_value s = enum_of_value quarantine_status_value all_quarantine_status s"

interpretation qs_enum: enumeration quarantine_status_value all_quarantine_status
proof unfold_locales
  show "x \<in> set all_quarantine_status" for x
    by (cases x) (simp_all add: all_quarantine_status_def)
  show "distinct (map quarantine_status_value all_quarantine_status)"
    by code_simp
qed

section \<open>ScannerStatus\<close>

datatype scanner_status =
    SC_PENDING | SC_SCANNING | SC_CLEAN | SC_INFECTED | SC_ERROR

primrec scanner_status_value :: "scanner_status \<Rightarrow> string" where
  "scanner_status_value SC_PENDING = ''PENDING''"
| "scanner_status_value SC_SCANNING = ''SCANNING''"
| "scanner_status_value SC_CLEAN = ''CLEAN''"
| "scanner_status_value SC_INFECTED = ''INFECTED''"
| "scanner_status_value SC_ERROR = ''ERROR''"

definition all_scanner_status :: "scanner_status list" where
  "all_scanner_status = [
     SC_PENDING, SC_SCANNING, SC_CLEAN, SC_INFECTED, SC_ERROR]"

definition scanner_status_of_value :: "string \<Rightarrow> scanner_status option" where
  "scanner_status_of_value s = enum_of_value scanner_status_value all_scanner_status s"

interpretation sc_enum: enumeration scanner_status_value all_scanner_status
proof unfold_locales
  show "x \<in> set all_scanner_status" for x
    by (cases x) (simp_all add: all_scanner_status_def)
  show "distinct (map scanner_status_value all_scanner_status)"
    by code_simp
qed

section \<open>IncidentSeverity\<close>

datatype incident_severity =
    IV_INFO | IV_LOW | IV_MEDIUM | IV_HIGH | IV_CRITICAL

primrec incident_severity_value :: "incident_severity \<Rightarrow> string" where
  "incident_severity_value IV_INFO = ''INFO''"
| "incident_severity_value IV_LOW = ''LOW''"
| "incident_severity_value IV_MEDIUM = ''MEDIUM''"
| "incident_severity_value IV_HIGH = ''HIGH''"
| "incident_severity_value IV_CRITICAL = ''CRITICAL''"

definition all_incident_severity :: "incident_severity list" where
  "all_incident_severity = [
     IV_INFO, IV_LOW, IV_MEDIUM, IV_HIGH, IV_CRITICAL]"

definition incident_severity_of_value :: "string \<Rightarrow> incident_severity option" where
  "incident_severity_of_value s = enum_of_value incident_severity_value all_incident_severity s"

interpretation iv_enum: enumeration incident_severity_value all_incident_severity
proof unfold_locales
  show "x \<in> set all_incident_severity" for x
    by (cases x) (simp_all add: all_incident_severity_def)
  show "distinct (map incident_severity_value all_incident_severity)"
    by code_simp
qed

section \<open>IncidentStatus\<close>

datatype incident_status =
    IS_NEW | IS_INVESTIGATING | IS_RESOLVED | IS_FALSE_POSITIVE

primrec incident_status_value :: "incident_status \<Rightarrow> string" where
  "incident_status_value IS_NEW = ''NEW''"
| "incident_status_value IS_INVESTIGATING = ''INVESTIGATING''"
| "incident_status_value IS_RESOLVED = ''RESOLVED''"
| "incident_status_value IS_FALSE_POSITIVE = ''FALSE_POSITIVE''"

definition all_incident_status :: "incident_status list" where
  "all_incident_status = [
     IS_NEW, IS_INVESTIGATING, IS_RESOLVED, IS_FALSE_POSITIVE]"

definition incident_status_of_value :: "string \<Rightarrow> incident_status option" where
  "incident_status_of_value s = enum_of_value incident_status_value all_incident_status s"

interpretation is_enum: enumeration incident_status_value all_incident_status
proof unfold_locales
  show "x \<in> set all_incident_status" for x
    by (cases x) (simp_all add: all_incident_status_def)
  show "distinct (map incident_status_value all_incident_status)"
    by code_simp
qed

section \<open>SecurityEventType\<close>

datatype (plugins only: code size) security_event_type =
    EV_USER_CREATED | EV_USER_DISABLED | EV_USER_ENABLED | EV_USER_LOGIN | EV_USER_LOGIN_FAILED
    | EV_LOGIN_LOCKED | EV_MFA_ENROLLED | EV_MFA_FAILED | EV_MFA_RESET | EV_RECOVERY_CODE_USED
    | EV_SESSION_STARTED | EV_SESSION_DISCONNECTED | EV_SESSION_ISOLATED | EV_SESSION_RESTORED
    | EV_SESSION_TERMINATED | EV_NETWORK_ACCESS_BLOCKED | EV_DOWNLOAD_REQUESTED
    | EV_DOWNLOAD_BLOCKED | EV_FILE_QUARANTINED | EV_FILE_RELEASED | EV_FILE_REJECTED
    | EV_MALWARE_DETECTED | EV_POLICY_CHANGED | EV_POLICY_PUBLISHED | EV_NODE_DRAINED
    | EV_USER_ROLE_CHANGED | EV_USER_GROUPS_CHANGED | EV_PASSWORD_RESET_BY_ADMIN
    | EV_PASSWORD_CHANGED | EV_GROUP_CREATED | EV_GROUP_DELETED | EV_UPLOAD_REQUESTED
    | EV_UPLOAD_BLOCKED | EV_USER_PROVISIONED_VIA_LDAP | EV_LDAP_CONFIG_CHANGED
    | EV_LDAP_ENABLED | EV_LDAP_DISABLED | EV_LDAP_CONNECTION_TESTED | EV_LDAP_CONFIG_READ
    | EV_CLIPBOARD_ACCESS_BLOCKED | EV_INITIAL_ADMIN_CREATED | EV_SYSTEM_INITIALIZED
    | EV_WORKER_DRAIN_ENABLED | EV_WORKER_DRAIN_DISABLED | EV_WORKER_MAINTENANCE_ENABLED
    | EV_WORKER_MAINTENANCE_DISABLED | EV_USER_SESSIONS_REVOKED | EV_ACCOUNT_LOCKED
    | EV_ACCOUNT_UNLOCKED | EV_ORPHAN_SESSION_RECONCILED | EV_SESSION_LOST_RECONCILED
    | EV_SESSION_START_FAILED | EV_SESSION_TIMED_OUT | EV_QUARANTINE_FILE_RETENTION_EXPIRED
    | EV_NODE_ENROLLMENT_REQUESTED | EV_NODE_APPROVED | EV_NODE_REVOKED

primrec security_event_type_value :: "security_event_type \<Rightarrow> string" where
  "security_event_type_value EV_USER_CREATED = ''USER_CREATED''"
| "security_event_type_value EV_USER_DISABLED = ''USER_DISABLED''"
| "security_event_type_value EV_USER_ENABLED = ''USER_ENABLED''"
| "security_event_type_value EV_USER_LOGIN = ''USER_LOGIN''"
| "security_event_type_value EV_USER_LOGIN_FAILED = ''USER_LOGIN_FAILED''"
| "security_event_type_value EV_LOGIN_LOCKED = ''LOGIN_LOCKED''"
| "security_event_type_value EV_MFA_ENROLLED = ''MFA_ENROLLED''"
| "security_event_type_value EV_MFA_FAILED = ''MFA_FAILED''"
| "security_event_type_value EV_MFA_RESET = ''MFA_RESET''"
| "security_event_type_value EV_RECOVERY_CODE_USED = ''RECOVERY_CODE_USED''"
| "security_event_type_value EV_SESSION_STARTED = ''SESSION_STARTED''"
| "security_event_type_value EV_SESSION_DISCONNECTED = ''SESSION_DISCONNECTED''"
| "security_event_type_value EV_SESSION_ISOLATED = ''SESSION_ISOLATED''"
| "security_event_type_value EV_SESSION_RESTORED = ''SESSION_RESTORED''"
| "security_event_type_value EV_SESSION_TERMINATED = ''SESSION_TERMINATED''"
| "security_event_type_value EV_NETWORK_ACCESS_BLOCKED = ''NETWORK_ACCESS_BLOCKED''"
| "security_event_type_value EV_DOWNLOAD_REQUESTED = ''DOWNLOAD_REQUESTED''"
| "security_event_type_value EV_DOWNLOAD_BLOCKED = ''DOWNLOAD_BLOCKED''"
| "security_event_type_value EV_FILE_QUARANTINED = ''FILE_QUARANTINED''"
| "security_event_type_value EV_FILE_RELEASED = ''FILE_RELEASED''"
| "security_event_type_value EV_FILE_REJECTED = ''FILE_REJECTED''"
| "security_event_type_value EV_MALWARE_DETECTED = ''MALWARE_DETECTED''"
| "security_event_type_value EV_POLICY_CHANGED = ''POLICY_CHANGED''"
| "security_event_type_value EV_POLICY_PUBLISHED = ''POLICY_PUBLISHED''"
| "security_event_type_value EV_NODE_DRAINED = ''NODE_DRAINED''"
| "security_event_type_value EV_USER_ROLE_CHANGED = ''USER_ROLE_CHANGED''"
| "security_event_type_value EV_USER_GROUPS_CHANGED = ''USER_GROUPS_CHANGED''"
| "security_event_type_value EV_PASSWORD_RESET_BY_ADMIN = ''PASSWORD_RESET_BY_ADMIN''"
| "security_event_type_value EV_PASSWORD_CHANGED = ''PASSWORD_CHANGED''"
| "security_event_type_value EV_GROUP_CREATED = ''GROUP_CREATED''"
| "security_event_type_value EV_GROUP_DELETED = ''GROUP_DELETED''"
| "security_event_type_value EV_UPLOAD_REQUESTED = ''UPLOAD_REQUESTED''"
| "security_event_type_value EV_UPLOAD_BLOCKED = ''UPLOAD_BLOCKED''"
| "security_event_type_value EV_USER_PROVISIONED_VIA_LDAP = ''USER_PROVISIONED_VIA_LDAP''"
| "security_event_type_value EV_LDAP_CONFIG_CHANGED = ''LDAP_CONFIG_CHANGED''"
| "security_event_type_value EV_LDAP_ENABLED = ''LDAP_ENABLED''"
| "security_event_type_value EV_LDAP_DISABLED = ''LDAP_DISABLED''"
| "security_event_type_value EV_LDAP_CONNECTION_TESTED = ''LDAP_CONNECTION_TESTED''"
| "security_event_type_value EV_LDAP_CONFIG_READ = ''LDAP_CONFIG_READ''"
| "security_event_type_value EV_CLIPBOARD_ACCESS_BLOCKED = ''CLIPBOARD_ACCESS_BLOCKED''"
| "security_event_type_value EV_INITIAL_ADMIN_CREATED = ''INITIAL_ADMIN_CREATED''"
| "security_event_type_value EV_SYSTEM_INITIALIZED = ''SYSTEM_INITIALIZED''"
| "security_event_type_value EV_WORKER_DRAIN_ENABLED = ''WORKER_DRAIN_ENABLED''"
| "security_event_type_value EV_WORKER_DRAIN_DISABLED = ''WORKER_DRAIN_DISABLED''"
| "security_event_type_value EV_WORKER_MAINTENANCE_ENABLED = ''WORKER_MAINTENANCE_ENABLED''"
| "security_event_type_value EV_WORKER_MAINTENANCE_DISABLED = ''WORKER_MAINTENANCE_DISABLED''"
| "security_event_type_value EV_USER_SESSIONS_REVOKED = ''USER_SESSIONS_REVOKED''"
| "security_event_type_value EV_ACCOUNT_LOCKED = ''ACCOUNT_LOCKED''"
| "security_event_type_value EV_ACCOUNT_UNLOCKED = ''ACCOUNT_UNLOCKED''"
| "security_event_type_value EV_ORPHAN_SESSION_RECONCILED = ''ORPHAN_SESSION_RECONCILED''"
| "security_event_type_value EV_SESSION_LOST_RECONCILED = ''SESSION_LOST_RECONCILED''"
| "security_event_type_value EV_SESSION_START_FAILED = ''SESSION_START_FAILED''"
| "security_event_type_value EV_SESSION_TIMED_OUT = ''SESSION_TIMED_OUT''"
| "security_event_type_value EV_QUARANTINE_FILE_RETENTION_EXPIRED = ''QUARANTINE_FILE_RETENTION_EXPIRED''"
| "security_event_type_value EV_NODE_ENROLLMENT_REQUESTED = ''NODE_ENROLLMENT_REQUESTED''"
| "security_event_type_value EV_NODE_APPROVED = ''NODE_APPROVED''"
| "security_event_type_value EV_NODE_REVOKED = ''NODE_REVOKED''"

definition all_security_event_type :: "security_event_type list" where
  "all_security_event_type = [
     EV_USER_CREATED, EV_USER_DISABLED, EV_USER_ENABLED, EV_USER_LOGIN, EV_USER_LOGIN_FAILED
     , EV_LOGIN_LOCKED, EV_MFA_ENROLLED, EV_MFA_FAILED, EV_MFA_RESET, EV_RECOVERY_CODE_USED
     , EV_SESSION_STARTED, EV_SESSION_DISCONNECTED, EV_SESSION_ISOLATED, EV_SESSION_RESTORED
     , EV_SESSION_TERMINATED, EV_NETWORK_ACCESS_BLOCKED, EV_DOWNLOAD_REQUESTED
     , EV_DOWNLOAD_BLOCKED, EV_FILE_QUARANTINED, EV_FILE_RELEASED, EV_FILE_REJECTED
     , EV_MALWARE_DETECTED, EV_POLICY_CHANGED, EV_POLICY_PUBLISHED, EV_NODE_DRAINED
     , EV_USER_ROLE_CHANGED, EV_USER_GROUPS_CHANGED, EV_PASSWORD_RESET_BY_ADMIN
     , EV_PASSWORD_CHANGED, EV_GROUP_CREATED, EV_GROUP_DELETED, EV_UPLOAD_REQUESTED
     , EV_UPLOAD_BLOCKED, EV_USER_PROVISIONED_VIA_LDAP, EV_LDAP_CONFIG_CHANGED, EV_LDAP_ENABLED
     , EV_LDAP_DISABLED, EV_LDAP_CONNECTION_TESTED, EV_LDAP_CONFIG_READ
     , EV_CLIPBOARD_ACCESS_BLOCKED, EV_INITIAL_ADMIN_CREATED, EV_SYSTEM_INITIALIZED
     , EV_WORKER_DRAIN_ENABLED, EV_WORKER_DRAIN_DISABLED, EV_WORKER_MAINTENANCE_ENABLED
     , EV_WORKER_MAINTENANCE_DISABLED, EV_USER_SESSIONS_REVOKED, EV_ACCOUNT_LOCKED
     , EV_ACCOUNT_UNLOCKED, EV_ORPHAN_SESSION_RECONCILED, EV_SESSION_LOST_RECONCILED
     , EV_SESSION_START_FAILED, EV_SESSION_TIMED_OUT, EV_QUARANTINE_FILE_RETENTION_EXPIRED
     , EV_NODE_ENROLLMENT_REQUESTED, EV_NODE_APPROVED, EV_NODE_REVOKED]"

definition security_event_type_of_value :: "string \<Rightarrow> security_event_type option" where
  "security_event_type_of_value s = enum_of_value security_event_type_value all_security_event_type s"

interpretation ev_enum: enumeration security_event_type_value all_security_event_type
proof unfold_locales
  show "x \<in> set all_security_event_type" for x
    by (cases x) (simp_all add: all_security_event_type_def)
  show "distinct (map security_event_type_value all_security_event_type)"
    by code_simp
qed

end
