(* ===== verification/Models.thy ===== *)
theory Models
  imports Enums "HOL-Library.Word"
begin

text \<open>
  The entities of \<open>backend/app/models\<close>, one record per ORM class with a field per column, and
  the database: one table per entity. A record's prefix keeps columns of different tables apart.
  Foreign keys are the identifiers they hold. Encrypted columns hold ciphertext bytes.

  \<open>next_id\<close> is the supply of \<open>uuid.uuid4\<close>: identifiers are never handed out twice.
\<close>

type_synonym bytes = "8 word list"

section \<open>Accounts and groups\<close>

record role =
  r_id :: uuid
  r_created_at :: instant
  r_name :: string
  r_description :: "string option"

record user =
  u_id :: uuid
  u_created_at :: instant
  u_updated_at :: instant
  u_username :: string
  u_password_hash :: "string option"
  u_role_id :: uuid
  u_is_active :: bool
  u_mfa_enabled :: bool
  u_totp_secret_encrypted :: "bytes option"
  u_disabled_at :: "instant option"

record group =
  g_id :: uuid
  g_created_at :: instant
  g_name :: string
  g_description :: "string option"

record user_group =
  ug_id :: uuid
  ug_created_at :: instant
  ug_user_id :: uuid
  ug_group_id :: uuid

record recovery_code =
  rc_id :: uuid
  rc_created_at :: instant
  rc_user_id :: uuid
  rc_code_hash :: string
  rc_used_at :: "instant option"

section \<open>Policies\<close>

record policy =
  p_id :: uuid
  p_created_at :: instant
  p_updated_at :: instant
  p_name :: string
  p_policy_type :: policy_type
  p_description :: "string option"
  p_current_version_id :: "uuid option"
  p_archived_at :: "instant option"

record policy_version =
  pv_id :: uuid
  pv_created_at :: instant
  pv_policy_id :: uuid
  pv_version_number :: int
  pv_status :: policy_version_status
  pv_content :: json
  pv_created_by :: "uuid option"
  pv_published_at :: "instant option"

record group_policy =
  gp_id :: uuid
  gp_created_at :: instant
  gp_group_id :: uuid
  gp_policy_id :: uuid

record file_policy_rule =
  fr_id :: uuid
  fr_created_at :: instant
  fr_policy_version_id :: uuid
  fr_rule_type :: file_rule_type
  fr_match_pattern :: string
  fr_action :: file_action
  fr_priority :: int

section \<open>Nodes and sessions\<close>

record browser_node =
  n_id :: uuid
  n_created_at :: instant
  n_hostname :: string
  n_status :: browser_node_status
  n_capacity :: int
  n_active_sessions :: int
  n_last_heartbeat :: "instant option"
  n_runtime :: string
  n_version :: "string option"
  n_cpu_percent :: "rat option"
  n_ram_total_mb :: "int option"
  n_ram_used_mb :: "int option"
  n_capacity_bound :: "string option"
  n_ram_capacity :: "int option"
  n_cpu_capacity :: "int option"
  n_node_started_at :: "instant option"
  n_enrollment_status :: node_enrollment_status
  n_endpoint_url :: "string option"
  n_agent_token_encrypted :: "bytes option"

record worker_metric_sample =
  wm_id :: uuid
  wm_node_id :: uuid
  wm_recorded_at :: instant
  wm_cpu_percent :: "rat option"
  wm_ram_used_mb :: "int option"
  wm_ram_total_mb :: "int option"
  wm_active_sessions :: int
  wm_capacity_bound :: "string option"
  wm_capacity :: "int option"

record browser_session =
  s_id :: uuid
  s_created_at :: instant
  s_updated_at :: instant
  s_user_id :: uuid
  s_node_id :: "uuid option"
  s_status :: session_status
  s_browser :: string
  s_sandbox_backend :: string
  s_display_backend :: string
  s_cpu_limit :: rat
  s_ram_limit_mb :: int
  s_pid_limit :: int
  s_disk_limit_mb :: int
  s_screen_width :: int
  s_screen_height :: int
  s_clipboard_mode :: clipboard_mode
  s_started_at :: "instant option"
  s_ended_at :: "instant option"
  s_last_activity_at :: "instant option"
  s_viewer_connected_at :: "instant option"

section \<open>Files, incidents, audit\<close>

record quarantine_file =
  q_id :: uuid
  q_created_at :: instant
  q_session_id :: uuid
  q_user_id :: uuid
  q_original_name :: string
  q_extension :: "string option"
  q_declared_mime :: "string option"
  q_detected_mime :: "string option"
  q_size_bytes :: int
  q_sha256 :: string
  q_initial_url :: "string option"
  q_final_url :: "string option"
  q_source_host :: "string option"
  q_redirect_chain :: "json option"
  q_tls_used :: "bool option"
  q_scanner_status :: scanner_status
  q_scanner_result :: "string option"
  q_policy_action :: "file_action option"
  q_policy_version_id :: "uuid option"
  q_status :: quarantine_status
  q_storage_object_id :: "string option"
  q_reviewed_at :: "instant option"
  q_reviewed_by :: "uuid option"
  q_review_comment :: "string option"

record incident =
  i_id :: uuid
  i_created_at :: instant
  i_updated_at :: instant
  i_severity :: incident_severity
  i_status :: incident_status
  i_title :: string
  i_description :: string
  i_user_id :: "uuid option"
  i_session_id :: "uuid option"
  i_quarantine_file_id :: "uuid option"
  i_assigned_to :: "uuid option"
  i_resolution :: "string option"

record security_event =
  e_id :: uuid
  e_created_at :: instant
  e_event_type :: security_event_type
  e_user_id :: "uuid option"
  e_session_id :: "uuid option"
  e_quarantine_file_id :: "uuid option"
  e_metadata_json :: "jobj option"

section \<open>Singletons\<close>

record ldap_config =
  l_created_at :: instant
  l_updated_at :: instant
  l_enabled :: bool
  l_server_uri :: string
  l_use_starttls :: bool
  l_bind_dn :: string
  l_bind_password_encrypted :: "bytes option"
  l_base_dn :: string
  l_user_search_filter :: string
  l_group_attribute :: string
  l_group_role_mapping :: "(string \<times> string) list"
  l_updated_by :: "uuid option"

record system_state =
  ss_initialized :: bool
  ss_initialized_at :: "instant option"
  ss_setup_admin_user_id :: "uuid option"
  ss_setup_token_hash :: "string option"
  ss_setup_token_created_at :: "instant option"
  ss_seeded_policy_templates :: "string list"

section \<open>The database\<close>

text \<open>
  The two tables with a fixed primary key (\<open>LDAP_CONFIG_ID\<close>, \<open>SYSTEM_STATE_ID\<close>) hold at most
  one row and are an option each.
\<close>

record database =
  roles :: "role list"
  users :: "user list"
  groups :: "group list"
  user_groups :: "user_group list"
  recovery_codes :: "recovery_code list"
  policies :: "policy list"
  policy_versions :: "policy_version list"
  group_policies :: "group_policy list"
  file_rules :: "file_policy_rule list"
  nodes :: "browser_node list"
  samples :: "worker_metric_sample list"
  sessions :: "browser_session list"
  quarantine_files :: "quarantine_file list"
  incidents :: "incident list"
  events :: "security_event list"
  ldap_configs :: "ldap_config option"
  system_states :: "system_state option"
  next_id :: uuid

definition empty_db :: database where
  "empty_db = \<lparr> roles = [], users = [], groups = [], user_groups = [], recovery_codes = [],
     policies = [], policy_versions = [], group_policies = [], file_rules = [], nodes = [],
     samples = [], sessions = [], quarantine_files = [], incidents = [], events = [],
     ldap_configs = None, system_states = None, next_id = 0 \<rparr>"

definition fresh :: "database \<Rightarrow> uuid \<times> database" where
  "fresh d = (next_id d, d\<lparr>next_id := Suc (next_id d)\<rparr>)"

section \<open>The audit log\<close>

text \<open>
  \<open>record_security_event\<close> of \<open>services/security_events.py\<close>: the only way an event row is made.
  It appends one row and returns nothing the callers use.
\<close>

definition record_security_event ::
  "instant \<Rightarrow> security_event_type \<Rightarrow> uuid option \<Rightarrow> uuid option \<Rightarrow> uuid option \<Rightarrow> jobj option
   \<Rightarrow> database \<Rightarrow> database" where
  "record_security_event now event_type user_id session_id quarantine_file_id metadata d =
     (let (i, d) = fresh d in
      d\<lparr>events := row_insert
          \<lparr> e_id = i, e_created_at = now, e_event_type = event_type, e_user_id = user_id,
            e_session_id = session_id, e_quarantine_file_id = quarantine_file_id,
            e_metadata_json = metadata \<rparr> (events d)\<rparr>)"

lemma fresh_simps [simp]: "fst (fresh d) = next_id d" "snd (fresh d) = d\<lparr>next_id := Suc (next_id d)\<rparr>"
  by (simp_all add: fresh_def)

text \<open>What recording an event touches: the event table and the identifier supply.\<close>

lemma record_event_frame [simp, tbl]:
  "roles (record_security_event now t u s q m d) = roles d"
  "users (record_security_event now t u s q m d) = users d"
  "groups (record_security_event now t u s q m d) = groups d"
  "user_groups (record_security_event now t u s q m d) = user_groups d"
  "recovery_codes (record_security_event now t u s q m d) = recovery_codes d"
  "policies (record_security_event now t u s q m d) = policies d"
  "policy_versions (record_security_event now t u s q m d) = policy_versions d"
  "group_policies (record_security_event now t u s q m d) = group_policies d"
  "file_rules (record_security_event now t u s q m d) = file_rules d"
  "nodes (record_security_event now t u s q m d) = nodes d"
  "samples (record_security_event now t u s q m d) = samples d"
  "sessions (record_security_event now t u s q m d) = sessions d"
  "quarantine_files (record_security_event now t u s q m d) = quarantine_files d"
  "incidents (record_security_event now t u s q m d) = incidents d"
  "ldap_configs (record_security_event now t u s q m d) = ldap_configs d"
  "system_states (record_security_event now t u s q m d) = system_states d"
  "next_id (record_security_event now t u s q m d) = Suc (next_id d)"
  by (simp_all add: record_security_event_def fresh_def Let_def)

lemma record_event_events [simp, tbl]:
  "events (record_security_event now t u s q m d) =
     events d @ [\<lparr> e_id = next_id d, e_created_at = now, e_event_type = t, e_user_id = u,
                   e_session_id = s, e_quarantine_file_id = q, e_metadata_json = m \<rparr>]"
  by (simp add: record_security_event_def fresh_def Let_def row_insert_def)

text \<open>
  The audit log of \<open>e\<close> extends that of \<open>d\<close>: nothing already recorded was changed or removed.
\<close>

definition audit_extends :: "database \<Rightarrow> database \<Rightarrow> bool" where
  "audit_extends d e \<longleftrightarrow> (\<exists>new. events e = events d @ new)"

lemma audit_extends_refl [simp, intro]: "audit_extends d d"
  by (simp add: audit_extends_def)

lemma audit_extends_trans: "audit_extends a b \<Longrightarrow> audit_extends b c \<Longrightarrow> audit_extends a c"
  by (auto simp: audit_extends_def)

lemma audit_extends_same: "events e = events d \<Longrightarrow> audit_extends d e"
  by (simp add: audit_extends_def)

lemma audit_extends_record [simp, intro]: "audit_extends d (record_security_event now t u s q m d)"
  by (simp add: audit_extends_def)

lemma audit_extends_record': "audit_extends d e \<Longrightarrow> audit_extends d (record_security_event now t u s q m e)"
  by (auto simp: audit_extends_def)

end
