(* ===== verification/Service.thy ===== *)
theory Service
  imports Models
begin

text \<open>
  Errors of the service layer and how an endpoint turns them into an HTTP status. Every service
  module raises its own subclass of \<open>ValueError\<close> or \<open>RuntimeError\<close>; the constructors here are
  those classes, with the message. \<open>DbIntegrityError\<close> is a violated constraint, \<open>DbDataError\<close> a
  value too long for its column. An endpoint commits on success; on an error it rolls back (or
  the request's database session is closed uncommitted, which has the same effect) and answers.
\<close>

datatype service_error =
    PolicyServiceError string
  | PolicyRuleError string
  | GroupServiceError string
  | UserServiceError string
  | QuarantineServiceError string
  | SessionServiceError string
  | NoCapacityError string
  | QuotaExceededError string
  | SessionAgentError string
  | NodeServiceError string
  | ClamAVError string
  | OsError string
  | ValueErr string
  | RuntimeErr string
  | DbDataError
  | DbIntegrityError

primrec error_detail :: "service_error \<Rightarrow> string" where
  "error_detail (PolicyServiceError m) = m"
| "error_detail (PolicyRuleError m) = m"
| "error_detail (GroupServiceError m) = m"
| "error_detail (UserServiceError m) = m"
| "error_detail (QuarantineServiceError m) = m"
| "error_detail (SessionServiceError m) = m"
| "error_detail (NoCapacityError m) = m"
| "error_detail (QuotaExceededError m) = m"
| "error_detail (SessionAgentError m) = m"
| "error_detail (NodeServiceError m) = m"
| "error_detail (ClamAVError m) = m"
| "error_detail (OsError m) = m"
| "error_detail (ValueErr m) = m"
| "error_detail (RuntimeErr m) = m"
| "error_detail DbDataError = ''Internal Server Error''"
| "error_detail DbIntegrityError = ''Internal Server Error''"

type_synonym 'a outcome = "(service_error + 'a) \<times> database"

text \<open>An HTTP error response: the status code and the detail text.\<close>

type_synonym http_error = "nat \<times> string"

type_synonym 'a response = "(http_error + 'a) \<times> database"

text \<open>
  The \<open>try\<close> block of an endpoint: \<open>status_of\<close> maps the exceptions it catches to their status;
  what it does not catch (a violated constraint, a \<open>RuntimeError\<close>) is a 500.
\<close>

definition respond :: "(service_error \<Rightarrow> nat) \<Rightarrow> database \<Rightarrow> 'a outcome \<Rightarrow> 'a response" where
  "respond status_of d r =
     (case r of
        (Inl e, _) \<Rightarrow> (Inl (status_of e, error_detail e), d)
      | (Inr x, d') \<Rightarrow> (Inr x, d'))"

definition not_found :: "string \<Rightarrow> database \<Rightarrow> 'a response" where
  "not_found what d = (Inl (404, what @ '' not found''), d)"

text \<open>An error response leaves the database as it was.\<close>

lemma respond_Inl: "respond st d r = (Inl e, d') \<Longrightarrow> d' = d"
  by (auto simp: respond_def split: prod.splits sum.splits)

lemma respond_Inr: "respond st d r = (Inr x, d') \<longleftrightarrow> r = (Inr x, d')"
  by (auto simp: respond_def split: prod.splits sum.splits)

lemma respond_db: "snd (respond st d r) = (case fst r of Inl e \<Rightarrow> d | Inr x \<Rightarrow> snd r)"
  by (auto simp: respond_def split: prod.splits sum.splits)

end
