(* ===== verification/Agent_Client.thy ===== *)
theory Agent_Client
  imports Service Config
begin

text \<open>
  How the backend reaches a node's Session Agent: \<open>core/session_agent_client.py\<close>, the resolution
  of a node's address and credential (\<open>connection_for_node\<close> of \<open>services/nodes.py\<close>).

  What lies behind the HTTP calls is a parameter: \<open>'w\<close> is the state of everything outside the
  backend and a \<open>'w backend\<close> holds one function per route of the agent, each returning the HTTP
  outcome and the new outside state, besides the configuration and the two functions of
  \<open>core/crypto.py\<close> (Fernet encryption with the configured key).
\<close>

section \<open>The agent's routes\<close>

record connection =
  base_url :: string
  token :: string

text \<open>
  An HTTP outcome: a transport error (\<open>httpx.HTTPError\<close>) with its text, or a response with its
  status code, its text and its decoded body.
\<close>

datatype 'a reply =
    Unreachable string
  | Response nat string 'a

record node_report =
  ns_hostname :: string
  ns_status :: string
  ns_capacity :: int
  ns_capacity_bound :: string
  ns_ram_capacity :: int
  ns_cpu_capacity :: int
  ns_active_sessions :: int
  ns_runtime :: string
  ns_version :: string
  ns_sandbox_image_available :: bool
  ns_cpu_percent :: rat
  ns_ram_total_mb :: int
  ns_ram_used_mb :: int
  ns_node_started_at :: instant

record sandbox_limits =
  sl_cpu_limit :: rat
  sl_ram_limit_mb :: int
  sl_pid_limit :: int
  sl_disk_limit_mb :: int
  sl_screen_width :: int
  sl_screen_height :: int

text \<open>A session id as an agent reports it: \<open>str\<close> of a UUID, or text that is not one.\<close>

datatype reported_id =
    Reported uuid
  | Malformed string

record downloaded_file =
  df_filename :: string
  df_size_bytes :: int

record 'w backend =
  cfg :: settings
  encrypt_secret :: "string \<Rightarrow> bytes"
  decrypt_secret :: "bytes \<Rightarrow> string"
  http_node_self :: "connection \<Rightarrow> 'w \<Rightarrow> node_report reply \<times> 'w"
  http_display_ready :: "uuid \<Rightarrow> connection \<Rightarrow> 'w \<Rightarrow> unit reply \<times> 'w"
  http_sandboxes :: "bool \<Rightarrow> connection \<Rightarrow> 'w \<Rightarrow> reported_id list reply \<times> 'w"
  http_create :: "uuid \<Rightarrow> sandbox_limits \<Rightarrow> connection \<Rightarrow> 'w \<Rightarrow> unit reply \<times> 'w"
  http_start :: "uuid \<Rightarrow> connection \<Rightarrow> 'w \<Rightarrow> unit reply \<times> 'w"
  http_isolate :: "uuid \<Rightarrow> connection \<Rightarrow> 'w \<Rightarrow> unit reply \<times> 'w"
  http_restore :: "uuid \<Rightarrow> connection \<Rightarrow> 'w \<Rightarrow> unit reply \<times> 'w"
  http_terminate :: "uuid \<Rightarrow> connection \<Rightarrow> 'w \<Rightarrow> unit reply \<times> 'w"
  http_list_downloads :: "uuid \<Rightarrow> connection \<Rightarrow> 'w \<Rightarrow> downloaded_file list reply \<times> 'w"
  http_fetch_download :: "uuid \<Rightarrow> string \<Rightarrow> connection \<Rightarrow> 'w \<Rightarrow> (bytes \<times> string option) reply \<times> 'w"
  http_delete_download :: "uuid \<Rightarrow> string \<Rightarrow> connection \<Rightarrow> 'w \<Rightarrow> unit reply \<times> 'w"
  http_write_upload :: "uuid \<Rightarrow> string \<Rightarrow> bytes \<Rightarrow> connection \<Rightarrow> 'w \<Rightarrow> unit reply \<times> 'w"

section \<open>The client\<close>

type_synonym ('a, 'w) agent_call = "(service_error + 'a) \<times> 'w"

definition no_credential :: "connection \<Rightarrow> service_error" where
  "no_credential c =
     SessionAgentError (''no agent credential for '' @ base_url c @ '' (node revoked)'')"

definition agent_refused :: "nat \<Rightarrow> string \<Rightarrow> service_error" where
  "agent_refused status txt =
     SessionAgentError (''session agent returned '' @ show_nat status @ '': '' @ txt)"

text \<open>\<open>_client\<close> and \<open>_request\<close>: no call leaves without a credential; any status of 400 or more is an error.\<close>

definition request :: "(connection \<Rightarrow> 'w \<Rightarrow> 'a reply \<times> 'w) \<Rightarrow> connection \<Rightarrow> 'w \<Rightarrow> ('a, 'w) agent_call" where
  "request call c w =
     (if token c = [] then (Inl (no_credential c), w)
      else case call c w of
          (Unreachable m, w') \<Rightarrow> (Inl (SessionAgentError (''session agent unreachable: '' @ m)), w')
        | (Response status txt body, w') \<Rightarrow>
            if status \<ge> 400 then (Inl (agent_refused status txt), w') else (Inr body, w'))"

definition get_node_status :: "'w backend \<Rightarrow> connection \<Rightarrow> 'w \<Rightarrow> (node_report, 'w) agent_call" where
  "get_node_status B c w = request (http_node_self B) c w"

definition check_display_ready :: "'w backend \<Rightarrow> uuid \<Rightarrow> connection \<Rightarrow> 'w \<Rightarrow> (bool, 'w) agent_call" where
  "check_display_ready B session_id c w =
     (if token c = [] then (Inl (no_credential c), w)
      else case http_display_ready B session_id c w of
          (Unreachable m, w') \<Rightarrow> (Inl (SessionAgentError (''session agent unreachable: '' @ m)), w')
        | (Response status txt _, w') \<Rightarrow>
            if status = 502 then (Inr False, w')
            else if status \<ge> 400 then (Inl (agent_refused status txt), w')
            else (Inr True, w'))"

definition list_active_sandboxes :: "'w backend \<Rightarrow> connection \<Rightarrow> 'w \<Rightarrow> (reported_id list, 'w) agent_call" where
  "list_active_sandboxes B c w = request (http_sandboxes B False) c w"

definition list_managed_sandboxes :: "'w backend \<Rightarrow> connection \<Rightarrow> 'w \<Rightarrow> (reported_id list, 'w) agent_call" where
  "list_managed_sandboxes B c w = request (http_sandboxes B True) c w"

definition create_sandbox :: "'w backend \<Rightarrow> uuid \<Rightarrow> sandbox_limits \<Rightarrow> connection \<Rightarrow> 'w \<Rightarrow> (unit, 'w) agent_call" where
  "create_sandbox B session_id limits c w = request (http_create B session_id limits) c w"

definition start_sandbox :: "'w backend \<Rightarrow> uuid \<Rightarrow> connection \<Rightarrow> 'w \<Rightarrow> (unit, 'w) agent_call" where
  "start_sandbox B session_id c w = request (http_start B session_id) c w"

definition isolate_sandbox :: "'w backend \<Rightarrow> uuid \<Rightarrow> connection \<Rightarrow> 'w \<Rightarrow> (unit, 'w) agent_call" where
  "isolate_sandbox B session_id c w = request (http_isolate B session_id) c w"

definition restore_sandbox :: "'w backend \<Rightarrow> uuid \<Rightarrow> connection \<Rightarrow> 'w \<Rightarrow> (unit, 'w) agent_call" where
  "restore_sandbox B session_id c w = request (http_restore B session_id) c w"

definition terminate_sandbox :: "'w backend \<Rightarrow> uuid \<Rightarrow> connection \<Rightarrow> 'w \<Rightarrow> (unit, 'w) agent_call" where
  "terminate_sandbox B session_id c w = request (http_terminate B session_id) c w"

definition list_downloads :: "'w backend \<Rightarrow> uuid \<Rightarrow> connection \<Rightarrow> 'w \<Rightarrow> (downloaded_file list, 'w) agent_call" where
  "list_downloads B session_id c w = request (http_list_downloads B session_id) c w"

definition fetch_download ::
  "'w backend \<Rightarrow> uuid \<Rightarrow> string \<Rightarrow> connection \<Rightarrow> 'w \<Rightarrow> (bytes \<times> string option, 'w) agent_call" where
  "fetch_download B session_id filename c w = request (http_fetch_download B session_id filename) c w"

definition delete_download :: "'w backend \<Rightarrow> uuid \<Rightarrow> string \<Rightarrow> connection \<Rightarrow> 'w \<Rightarrow> (unit, 'w) agent_call" where
  "delete_download B session_id filename c w = request (http_delete_download B session_id filename) c w"

definition write_upload ::
  "'w backend \<Rightarrow> uuid \<Rightarrow> string \<Rightarrow> bytes \<Rightarrow> connection \<Rightarrow> 'w \<Rightarrow> (unit, 'w) agent_call" where
  "write_upload B session_id filename data c w = request (http_write_upload B session_id filename data) c w"

section \<open>Which agent to talk to\<close>

definition resolve_session_agent_token :: "settings \<Rightarrow> string" where
  "resolve_session_agent_token s =
     (if listener_mode s = Listener_user \<and> session_agent_api_token_user s \<noteq> [] then session_agent_api_token_user s
      else if listener_mode s = Listener_admin \<and> session_agent_api_token_admin s \<noteq> [] then session_agent_api_token_admin s
      else session_agent_api_token s)"

definition truthy :: "'a list option \<Rightarrow> bool" where
  "truthy x = (case x of None \<Rightarrow> False | Some y \<Rightarrow> y \<noteq> [])"

definition default_connection :: "'w backend \<Rightarrow> connection" where
  "default_connection B =
     \<lparr> base_url = session_agent_base_url (cfg B), token = resolve_session_agent_token (cfg B) \<rparr>"

definition connection_for_node :: "'w backend \<Rightarrow> browser_node option \<Rightarrow> connection" where
  "connection_for_node B node =
     (case node of
        None \<Rightarrow> default_connection B
      | Some n \<Rightarrow>
          if truthy (n_endpoint_url n) \<and> truthy (n_agent_token_encrypted n) then
            \<lparr> base_url = the (n_endpoint_url n), token = decrypt_secret B (the (n_agent_token_encrypted n)) \<rparr>
          else if truthy (n_endpoint_url n) then
            \<lparr> base_url = the (n_endpoint_url n), token = [] \<rparr>
          else default_connection B)"

definition get_node :: "uuid option \<Rightarrow> database \<Rightarrow> browser_node option" where
  "get_node node_id d = (case node_id of None \<Rightarrow> None | Some i \<Rightarrow> row_get n_id i (nodes d))"

text \<open>A call without a credential reaches nobody.\<close>

lemma request_no_token: "token c = [] \<Longrightarrow> request call c w = (Inl (no_credential c), w)"
  by (simp add: request_def)

lemma request_error:
  "request call c w = (Inl e, w') \<Longrightarrow> \<exists>m. e = SessionAgentError m"
  by (auto simp: request_def no_credential_def agent_refused_def split: if_splits prod.splits reply.splits)

lemma check_display_ready_error:
  "check_display_ready B i c w = (Inl e, w') \<Longrightarrow> \<exists>m. e = SessionAgentError m"
  by (auto simp: check_display_ready_def no_credential_def agent_refused_def split: if_splits prod.splits reply.splits)

lemma connection_revoked:
  assumes "truthy (n_endpoint_url n)" and "n_agent_token_encrypted n = None"
  shows "token (connection_for_node B (Some n)) = []"
    and "base_url (connection_for_node B (Some n)) = the (n_endpoint_url n)"
  using assms by (simp_all add: connection_for_node_def truthy_def)

end
