(* ===== verification/Nodes.thy ===== *)
theory Nodes
  imports Agent_Client
begin

text \<open>
  Node administration: \<open>services/nodes.py\<close> (drain, maintenance, enrollment, approval, revocation)
  with its endpoints of \<open>api/admin_nodes.py\<close>, and \<open>services/worker_health.py\<close>.
  \<open>trust_step\<close> is the trust gate as a state machine: a node becomes APPROVED through an
  administrator's approval only, and a revoked one has no credential left.
\<close>

definition set_node :: "uuid \<Rightarrow> (browser_node \<Rightarrow> browser_node) \<Rightarrow> database \<Rightarrow> database" where
  "set_node k f d = d\<lparr>nodes := row_update n_id k f (nodes d)\<rparr>"

definition actor_node :: "uuid \<Rightarrow> uuid \<Rightarrow> jobj option" where
  "actor_node actor node_id = Some [(''actor'', JId actor), (''node_id'', JId node_id)]"

definition set_node_status ::
  "instant \<Rightarrow> browser_node_status \<Rightarrow> security_event_type \<Rightarrow> browser_node \<Rightarrow> uuid \<Rightarrow> database \<Rightarrow> database" where
  "set_node_status now st ev node actor d =
     record_security_event now ev None None None (actor_node actor (n_id node))
       (set_node (n_id node) (\<lambda>n. n\<lparr>n_status := st\<rparr>) d)"

definition drain_node :: "instant \<Rightarrow> browser_node \<Rightarrow> uuid \<Rightarrow> database \<Rightarrow> unit outcome" where
  "drain_node now node actor d =
     (if n_status node = NS_DRAINING then (Inr (), d)
      else if n_status node = NS_MAINTENANCE then
        (Inl (NodeServiceError ''node is in maintenance -- disable maintenance first''), d)
      else (Inr (), set_node_status now NS_DRAINING EV_WORKER_DRAIN_ENABLED node actor d))"

definition undrain_node :: "instant \<Rightarrow> browser_node \<Rightarrow> uuid \<Rightarrow> database \<Rightarrow> unit outcome" where
  "undrain_node now node actor d =
     (if n_status node \<noteq> NS_DRAINING then
        (Inl (NodeServiceError (''node is not draining (status='' @ browser_node_status_value (n_status node) @ '')'')), d)
      else (Inr (), set_node_status now NS_ONLINE EV_WORKER_DRAIN_DISABLED node actor d))"

definition maintenance_node :: "instant \<Rightarrow> browser_node \<Rightarrow> uuid \<Rightarrow> database \<Rightarrow> unit outcome" where
  "maintenance_node now node actor d =
     (if n_status node = NS_MAINTENANCE then (Inr (), d)
      else (Inr (), set_node_status now NS_MAINTENANCE EV_WORKER_MAINTENANCE_ENABLED node actor d))"

definition unmaintenance_node :: "instant \<Rightarrow> browser_node \<Rightarrow> uuid \<Rightarrow> database \<Rightarrow> unit outcome" where
  "unmaintenance_node now node actor d =
     (if n_status node \<noteq> NS_MAINTENANCE then
        (Inl (NodeServiceError (''node is not in maintenance (status='' @ browser_node_status_value (n_status node) @ '')'')), d)
      else (Inr (), set_node_status now NS_ONLINE EV_WORKER_MAINTENANCE_DISABLED node actor d))"

text \<open>The columns of a new row that its constructor does not set.\<close>

definition new_node :: "uuid \<Rightarrow> instant \<Rightarrow> string \<Rightarrow> browser_node" where
  "new_node i now hostname =
     \<lparr> n_id = i, n_created_at = now, n_hostname = hostname, n_status = NS_OFFLINE, n_capacity = 0,
       n_active_sessions = 0, n_last_heartbeat = None, n_runtime = ''docker'', n_version = None,
       n_cpu_percent = None, n_ram_total_mb = None, n_ram_used_mb = None, n_capacity_bound = None,
       n_ram_capacity = None, n_cpu_capacity = None, n_node_started_at = None,
       n_enrollment_status = NE_APPROVED, n_endpoint_url = None, n_agent_token_encrypted = None \<rparr>"

definition enroll_node ::
  "'w backend \<Rightarrow> instant \<Rightarrow> string \<Rightarrow> string \<Rightarrow> database \<Rightarrow> uuid outcome" where
  "enroll_node B now hostname api_token d =
     (case row_get n_hostname hostname (nodes d) of
        Some existing \<Rightarrow>
          if n_enrollment_status existing \<noteq> NE_REVOKED then
            (Inl (NodeServiceError (''hostname already registered (enrollment_status=''
                @ node_enrollment_status_value (n_enrollment_status existing) @ '')'')), d)
          else
            let d = set_node (n_id existing)
                  (\<lambda>n. n\<lparr>n_status := NS_OFFLINE, n_enrollment_status := NE_PENDING, n_endpoint_url := None,
                          n_agent_token_encrypted := Some (encrypt_secret B api_token)\<rparr>) d
            in (Inr (n_id existing),
                record_security_event now EV_NODE_ENROLLMENT_REQUESTED None None None
                  (Some [(''node_id'', JId (n_id existing)), (''hostname'', JStr hostname)]) d)
      | None \<Rightarrow>
          let (i, d) = fresh d;
              node = (new_node i now hostname)
                \<lparr>n_enrollment_status := NE_PENDING, n_agent_token_encrypted := Some (encrypt_secret B api_token)\<rparr>;
              d = d\<lparr>nodes := row_insert node (nodes d)\<rparr>
          in (Inr i,
              record_security_event now EV_NODE_ENROLLMENT_REQUESTED None None None
                (Some [(''node_id'', JId i), (''hostname'', JStr hostname)]) d))"

definition approve_node :: "instant \<Rightarrow> browser_node \<Rightarrow> string \<Rightarrow> uuid \<Rightarrow> database \<Rightarrow> unit outcome" where
  "approve_node now node endpoint_url actor d =
     (if n_enrollment_status node = NE_REVOKED then
        (Inl (NodeServiceError ''cannot approve a revoked node -- re-enroll it first''), d)
      else if n_enrollment_status node = NE_APPROVED \<and> n_endpoint_url node = Some endpoint_url then (Inr (), d)
      else
        let d = set_node (n_id node)
              (\<lambda>n. n\<lparr>n_enrollment_status := NE_APPROVED, n_endpoint_url := Some endpoint_url\<rparr>) d
        in (Inr (), record_security_event now EV_NODE_APPROVED (Some actor) None None
             (Some [(''actor'', JId actor), (''node_id'', JId (n_id node)), (''endpoint_url'', JStr endpoint_url)]) d))"

definition revoke_node :: "instant \<Rightarrow> browser_node \<Rightarrow> uuid \<Rightarrow> database \<Rightarrow> unit outcome" where
  "revoke_node now node actor d =
     (if n_enrollment_status node = NE_REVOKED then (Inr (), d)
      else
        let d = set_node (n_id node)
              (\<lambda>n. n\<lparr>n_enrollment_status := NE_REVOKED, n_status := NS_OFFLINE, n_agent_token_encrypted := None\<rparr>) d
        in (Inr (), record_security_event now EV_NODE_REVOKED (Some actor) None None (actor_node actor (n_id node)) d))"

section \<open>Endpoints\<close>

text \<open>\<open>_get_or_404\<close> and the commit or rollback of each route; \<open>drain\<close> catches nothing.\<close>

definition node_status_409 :: "service_error \<Rightarrow> nat" where
  "node_status_409 e = (case e of NodeServiceError _ \<Rightarrow> 409 | _ \<Rightarrow> 500)"

definition with_node ::
  "(service_error \<Rightarrow> nat) \<Rightarrow> (browser_node \<Rightarrow> database \<Rightarrow> unit outcome) \<Rightarrow> uuid \<Rightarrow> database \<Rightarrow> unit response" where
  "with_node status_of f node_id d =
     (case row_get n_id node_id (nodes d) of
        None \<Rightarrow> not_found ''node'' d
      | Some node \<Rightarrow> respond status_of d (f node d))"

definition drain_node_endpoint :: "instant \<Rightarrow> uuid \<Rightarrow> uuid \<Rightarrow> database \<Rightarrow> unit response" where
  "drain_node_endpoint now actor = with_node (\<lambda>e. 500) (\<lambda>n. drain_node now n actor)"

definition undrain_node_endpoint :: "instant \<Rightarrow> uuid \<Rightarrow> uuid \<Rightarrow> database \<Rightarrow> unit response" where
  "undrain_node_endpoint now actor = with_node node_status_409 (\<lambda>n. undrain_node now n actor)"

definition maintenance_node_endpoint :: "instant \<Rightarrow> uuid \<Rightarrow> uuid \<Rightarrow> database \<Rightarrow> unit response" where
  "maintenance_node_endpoint now actor = with_node node_status_409 (\<lambda>n. maintenance_node now n actor)"

definition unmaintenance_node_endpoint :: "instant \<Rightarrow> uuid \<Rightarrow> uuid \<Rightarrow> database \<Rightarrow> unit response" where
  "unmaintenance_node_endpoint now actor = with_node node_status_409 (\<lambda>n. unmaintenance_node now n actor)"

definition approve_node_endpoint :: "instant \<Rightarrow> uuid \<Rightarrow> string \<Rightarrow> uuid \<Rightarrow> database \<Rightarrow> unit response" where
  "approve_node_endpoint now actor endpoint_url =
     with_node node_status_409 (\<lambda>n. approve_node now n endpoint_url actor)"

definition revoke_node_endpoint :: "instant \<Rightarrow> uuid \<Rightarrow> uuid \<Rightarrow> database \<Rightarrow> unit response" where
  "revoke_node_endpoint now actor = with_node (\<lambda>e. 500) (\<lambda>n. revoke_node now n actor)"

section \<open>Worker health\<close>

datatype worker_health = WH_HEALTHY | WH_DEGRADED | WH_DRAINING | WH_MAINTENANCE | WH_OFFLINE

definition is_heartbeat_stale :: "settings \<Rightarrow> instant \<Rightarrow> browser_node \<Rightarrow> bool" where
  "is_heartbeat_stale s now node =
     (case n_last_heartbeat node of None \<Rightarrow> True | Some t \<Rightarrow> now - t > node_heartbeat_stale s)"

definition cpu_degraded :: "settings \<Rightarrow> browser_node \<Rightarrow> bool" where
  "cpu_degraded s node =
     (case n_cpu_percent node of None \<Rightarrow> False | Some c \<Rightarrow> c \<ge> node_cpu_degraded_percent s)"

definition ram_degraded :: "settings \<Rightarrow> browser_node \<Rightarrow> bool" where
  "ram_degraded s node =
     (case (n_ram_total_mb node, n_ram_used_mb node) of
        (Some tot, Some used) \<Rightarrow>
          tot > 0 \<and> (of_int used / of_int tot) * 100 \<ge> node_ram_degraded_percent s
      | _ \<Rightarrow> False)"

definition compute_worker_health :: "settings \<Rightarrow> instant \<Rightarrow> browser_node \<Rightarrow> worker_health" where
  "compute_worker_health s now node =
     (if n_status node = NS_MAINTENANCE then WH_MAINTENANCE
      else if is_heartbeat_stale s now node then WH_OFFLINE
      else if n_status node = NS_DRAINING then WH_DRAINING
      else if n_status node = NS_DEGRADED then WH_DEGRADED
      else if cpu_degraded s node then WH_DEGRADED
      else if ram_degraded s node then WH_DEGRADED
      else WH_HEALTHY)"

definition worker_uptime_seconds :: "instant \<Rightarrow> browser_node \<Rightarrow> int option" where
  "worker_uptime_seconds now node =
     (case n_node_started_at node of None \<Rightarrow> None
      | Some t \<Rightarrow> Some (max 0 ((now - t) div 1000000)))"

text \<open>
  A worker is reported healthy exactly when it is fit for use: not held by an administrator
  (maintenance, draining), heard from within the staleness bound, not reporting itself degraded,
  and with CPU and memory below their thresholds where they are known.
\<close>

theorem healthy_iff:
  "compute_worker_health s now node = WH_HEALTHY \<longleftrightarrow>
     n_status node \<notin> {NS_MAINTENANCE, NS_DRAINING, NS_DEGRADED}
     \<and> \<not> is_heartbeat_stale s now node \<and> \<not> cpu_degraded s node \<and> \<not> ram_degraded s node"
  by (auto simp: compute_worker_health_def)

section \<open>The trust gate\<close>

inductive trust_step :: "'w backend \<Rightarrow> database \<Rightarrow> database \<Rightarrow> bool" for B where
  drain: "trust_step B d (snd (drain_node_endpoint now actor k d))"
| undrain: "trust_step B d (snd (undrain_node_endpoint now actor k d))"
| maintenance: "trust_step B d (snd (maintenance_node_endpoint now actor k d))"
| unmaintenance: "trust_step B d (snd (unmaintenance_node_endpoint now actor k d))"
| enroll: "enroll_node B now hostname api_token d = (Inr i, d') \<Longrightarrow> trust_step B d d'"
| approve: "trust_step B d (snd (approve_node_endpoint now actor url k d))"
| revoke: "trust_step B d (snd (revoke_node_endpoint now actor k d))"

definition revoked_have_no_token :: "database \<Rightarrow> bool" where
  "revoked_have_no_token d \<longleftrightarrow>
     (\<forall>n \<in> set (nodes d). n_enrollment_status n = NE_REVOKED \<longrightarrow> n_agent_token_encrypted n = None)"

lemma nodes_set_node [simp]: "nodes (set_node k f d) = row_update n_id k f (nodes d)"
  by (simp add: set_node_def)

lemma nodes_set_node_status [simp]:
  "nodes (set_node_status now st ev node actor d) = row_update n_id (n_id node) (\<lambda>n. n\<lparr>n_status := st\<rparr>) (nodes d)"
  by (simp add: set_node_status_def)

lemmas node_op_defs = drain_node_def undrain_node_def maintenance_node_def unmaintenance_node_def
  approve_node_def revoke_node_def

lemmas node_endpoint_defs = drain_node_endpoint_def undrain_node_endpoint_def maintenance_node_endpoint_def
  unmaintenance_node_endpoint_def approve_node_endpoint_def revoke_node_endpoint_def

text \<open>What one step does to the node table, and to the log where that matters.\<close>

datatype node_change =
    Unchanged
  | Status_set uuid browser_node_status
  | Re_enrolled uuid bytes
  | Added browser_node
  | Approved uuid string
  | Revoked uuid

fun apply_change :: "node_change \<Rightarrow> browser_node list \<Rightarrow> browser_node list" where
  "apply_change Unchanged ns = ns"
| "apply_change (Status_set k st) ns = row_update n_id k (\<lambda>n. n\<lparr>n_status := st\<rparr>) ns"
| "apply_change (Re_enrolled k t) ns = row_update n_id k (\<lambda>n. n\<lparr>n_status := NS_OFFLINE,
     n_enrollment_status := NE_PENDING, n_endpoint_url := None, n_agent_token_encrypted := Some t\<rparr>) ns"
| "apply_change (Added n) ns = row_insert n ns"
| "apply_change (Approved k url) ns = row_update n_id k
     (\<lambda>n. n\<lparr>n_enrollment_status := NE_APPROVED, n_endpoint_url := Some url\<rparr>) ns"
| "apply_change (Revoked k) ns = row_update n_id k
     (\<lambda>n. n\<lparr>n_enrollment_status := NE_REVOKED, n_status := NS_OFFLINE, n_agent_token_encrypted := None\<rparr>) ns"

definition node_approved_event :: "uuid \<Rightarrow> security_event \<Rightarrow> bool" where
  "node_approved_event k e \<longleftrightarrow> e_event_type e = EV_NODE_APPROVED
     \<and> (\<exists>m. e_metadata_json e = Some m \<and> jget m ''node_id'' = JId k)"

text \<open>When a change may happen.\<close>

fun change_ok :: "node_change \<Rightarrow> database \<Rightarrow> database \<Rightarrow> bool" where
  "change_ok (Re_enrolled k t) d d' = (\<exists>n \<in> set (nodes d). n_id n = k \<and> n_enrollment_status n = NE_REVOKED)"
| "change_ok (Added n) d d' = (n_enrollment_status n = NE_PENDING \<and> n_id n = next_id d)"
| "change_ok (Approved k url) d d' =
     ((\<exists>n. row_get n_id k (nodes d) = Some n \<and> n_enrollment_status n \<noteq> NE_REVOKED)
      \<and> (\<exists>e. events d' = events d @ [e] \<and> node_approved_event k e))"
| "change_ok _ d d' = True"

lemma status_endpoint_change:
  "\<exists>c. nodes (snd (drain_node_endpoint now actor k d)) = apply_change c (nodes d) \<and> change_ok c d d'"
  "\<exists>c. nodes (snd (undrain_node_endpoint now actor k d)) = apply_change c (nodes d) \<and> change_ok c d d'"
  "\<exists>c. nodes (snd (maintenance_node_endpoint now actor k d)) = apply_change c (nodes d) \<and> change_ok c d d'"
  "\<exists>c. nodes (snd (unmaintenance_node_endpoint now actor k d)) = apply_change c (nodes d) \<and> change_ok c d d'"
proof -
  have u: "\<exists>c. nodes d = apply_change c (nodes d) \<and> change_ok c d d'"
    by (rule exI [of _ Unchanged]) simp
  have s: "\<exists>c. row_update n_id k (\<lambda>n. n\<lparr>n_status := st\<rparr>) (nodes d) = apply_change c (nodes d) \<and> change_ok c d d'"
    for st by (rule exI [of _ "Status_set k st"]) simp
  show "\<exists>c. nodes (snd (drain_node_endpoint now actor k d)) = apply_change c (nodes d) \<and> change_ok c d d'"
    using u s by (auto simp: drain_node_endpoint_def with_node_def drain_node_def not_found_def respond_def
      dest!: row_get_SomeD split: option.split)
  show "\<exists>c. nodes (snd (undrain_node_endpoint now actor k d)) = apply_change c (nodes d) \<and> change_ok c d d'"
    using u s by (auto simp: undrain_node_endpoint_def with_node_def undrain_node_def not_found_def respond_def
      dest!: row_get_SomeD split: option.split)
  show "\<exists>c. nodes (snd (maintenance_node_endpoint now actor k d)) = apply_change c (nodes d) \<and> change_ok c d d'"
    using u s by (auto simp: maintenance_node_endpoint_def with_node_def maintenance_node_def not_found_def
      respond_def dest!: row_get_SomeD split: option.split)
  show "\<exists>c. nodes (snd (unmaintenance_node_endpoint now actor k d)) = apply_change c (nodes d) \<and> change_ok c d d'"
    using u s by (auto simp: unmaintenance_node_endpoint_def with_node_def unmaintenance_node_def not_found_def
      respond_def dest!: row_get_SomeD split: option.split)
qed

lemma approve_endpoint_change:
  assumes "d' = snd (approve_node_endpoint now actor url k d)"
  shows "\<exists>c. nodes d' = apply_change c (nodes d) \<and> change_ok c d d'"
proof -
  consider "nodes d' = nodes d"
    | n where "row_get n_id k (nodes d) = Some n" "n_enrollment_status n \<noteq> NE_REVOKED"
      "nodes d' = apply_change (Approved k url) (nodes d)"
      "\<exists>e. events d' = events d @ [e] \<and> node_approved_event k e"
    using assms
    by (cases "row_get n_id k (nodes d)")
      (auto simp: approve_node_endpoint_def with_node_def approve_node_def not_found_def respond_def
        node_approved_event_def jget_def set_node_def dest!: row_get_SomeD split: if_splits)
  then show ?thesis
  proof cases
    case 1
    then show ?thesis by (intro exI [of _ Unchanged]) simp
  next
    case 2
    then show ?thesis by (intro exI [of _ "Approved k url"]) simp
  qed
qed

lemma revoke_endpoint_change:
  "\<exists>c. nodes (snd (revoke_node_endpoint now actor k d)) = apply_change c (nodes d) \<and> change_ok c d d'"
proof -
  have "nodes (snd (revoke_node_endpoint now actor k d)) = nodes d
    \<or> nodes (snd (revoke_node_endpoint now actor k d)) = apply_change (Revoked k) (nodes d)"
    by (cases "row_get n_id k (nodes d)")
      (auto simp: revoke_node_endpoint_def with_node_def revoke_node_def not_found_def respond_def Let_def
        dest!: row_get_SomeD)
  then show ?thesis by (metis apply_change.simps(1) change_ok.simps(4,6))
qed

lemma enroll_change:
  assumes "enroll_node B now hostname api_token d = (Inr i, d')"
  shows "\<exists>c. nodes d' = apply_change c (nodes d) \<and> change_ok c d d'"
proof (cases "row_get n_hostname hostname (nodes d)")
  case None
  then show ?thesis using assms
    by (intro exI [of _ "Added ((new_node (next_id d) now hostname)\<lparr>n_enrollment_status := NE_PENDING,
        n_agent_token_encrypted := Some (encrypt_secret B api_token)\<rparr>)"])
      (auto simp: enroll_node_def fresh_def Let_def new_node_def)
next
  case (Some n)
  then show ?thesis using assms
    by (intro exI [of _ "Re_enrolled (n_id n) (encrypt_secret B api_token)"])
      (auto simp: enroll_node_def Let_def split: if_splits dest: row_get_SomeD)
qed

lemma trust_step_change:
  "trust_step B d d' \<Longrightarrow> \<exists>c. nodes d' = apply_change c (nodes d) \<and> change_ok c d d'"
  by (induction rule: trust_step.induct)
    (blast intro: status_endpoint_change enroll_change approve_endpoint_change [OF refl] revoke_endpoint_change)+

text \<open>
  A revoked node never holds a credential: enrolling, approving, revoking, draining and putting
  nodes into maintenance keep the invariant that every REVOKED row has no agent token, so nothing
  the control plane stores can authenticate to or for a revoked node.
\<close>

theorem revoked_nodes_hold_no_token:
  assumes "revoked_have_no_token d" and "trust_step B d d'"
  shows "revoked_have_no_token d'"
proof -
  obtain c where c: "nodes d' = apply_change c (nodes d)" "change_ok c d d'"
    using trust_step_change [OF assms(2)] by blast
  show ?thesis
  proof (cases c)
    case (Approved k url)
    then show ?thesis using c assms(1) by (auto simp: revoked_have_no_token_def tbl split: if_splits)
  qed (use c assms(1) in \<open>auto simp: revoked_have_no_token_def tbl split: if_splits\<close>)
qed

text \<open>The edges of the trust gate.\<close>

definition trust_edge :: "node_enrollment_status \<Rightarrow> node_enrollment_status \<Rightarrow> bool" where
  "trust_edge a b \<longleftrightarrow> a = b
     \<or> (a = NE_PENDING \<and> b = NE_APPROVED) \<or> (a = NE_REVOKED \<and> b = NE_PENDING) \<or> b = NE_REVOKED"

text \<open>
  Trust is only ever granted by an administrator's approval: one step of the node API takes a
  node from PENDING to APPROVED, from REVOKED back to PENDING, or to REVOKED, never from REVOKED to
  APPROVED; and when a node becomes APPROVED the audit log has just gained a NODE_APPROVED entry
  naming it. Draining, maintenance and re-enrolment never grant trust.
\<close>

theorem trust_granted_by_approval_only:
  assumes "trust_step B d d'" and "distinct_keys n_id (nodes d)"
    and "row_get n_id k (nodes d) = Some a" and "row_get n_id k (nodes d') = Some b"
  shows "trust_edge (n_enrollment_status a) (n_enrollment_status b)
    \<and> (n_enrollment_status b \<noteq> NE_APPROVED \<or> n_enrollment_status a = NE_APPROVED
       \<or> (\<exists>e. events d' = events d @ [e] \<and> node_approved_event k e))"
proof -
  obtain c where c: "nodes d' = apply_change c (nodes d)" "change_ok c d d'"
    using trust_step_change [OF assms(1)] by blast
  have pend: "n_enrollment_status a \<noteq> NE_REVOKED \<Longrightarrow> trust_edge (n_enrollment_status a) NE_APPROVED"
    by (cases "n_enrollment_status a") (auto simp: trust_edge_def)
  show ?thesis
  proof (cases c)
    case (Status_set j st)
    then show ?thesis using c assms(3,4) by (cases "k = j") (auto simp: trust_edge_def tbl)
  next
    case (Re_enrolled j t)
    then obtain n where n: "n \<in> set (nodes d)" "n_id n = j" "n_enrollment_status n = NE_REVOKED"
      using c by auto
    then have "row_get n_id j (nodes d) = Some n" using assms(2) by (simp add: row_get_Some)
    then show ?thesis using Re_enrolled c n assms(3,4) by (cases "k = j") (auto simp: trust_edge_def tbl)
  next
    case (Approved j url)
    then show ?thesis using c assms(3,4) pend by (cases "k = j") (auto simp: trust_edge_def tbl)
  next
    case (Revoked j)
    then show ?thesis using c assms(3,4) by (cases "k = j") (auto simp: trust_edge_def tbl)
  qed (use c assms(3,4) in \<open>auto simp: trust_edge_def tbl\<close>)
qed

text \<open>
  A revoked node is unreachable and nothing is sent elsewhere in its name: for an enrolled node
  whose token was cleared, every agent call fails with a SessionAgentError and leaves the outside
  world exactly as it was, instead of falling back to the default agent.
\<close>

theorem revoked_node_calls_go_nowhere:
  assumes "truthy (n_endpoint_url n)" and "n_agent_token_encrypted n = None"
  shows "terminate_sandbox B i (connection_for_node B (Some n)) w = (Inl (no_credential (connection_for_node B (Some n))), w)
    \<and> start_sandbox B i (connection_for_node B (Some n)) w = (Inl (no_credential (connection_for_node B (Some n))), w)
    \<and> isolate_sandbox B i (connection_for_node B (Some n)) w = (Inl (no_credential (connection_for_node B (Some n))), w)
    \<and> list_active_sandboxes B (connection_for_node B (Some n)) w = (Inl (no_credential (connection_for_node B (Some n))), w)
    \<and> write_upload B i f bs (connection_for_node B (Some n)) w = (Inl (no_credential (connection_for_node B (Some n))), w)"
  by (simp add: connection_revoked [OF assms] terminate_sandbox_def start_sandbox_def isolate_sandbox_def
    list_active_sandboxes_def write_upload_def request_no_token)

end
