(* ===== verification/Matching.thy ===== *)
theory Matching
  imports Models "HOL-Library.Sublist"
begin

text \<open>
  Pattern matching of file policy rules: \<open>backend/app/core/mime_matching.py\<close> and
  \<open>backend/app/core/source_matching.py\<close>, with the part of \<open>urllib.parse\<close> the latter calls.
  The specification side is \<open>labels\<close>: host patterns are compared by whole DNS labels.
\<close>

section \<open>MIME and extension patterns\<close>

definition is_extension_pattern :: "string \<Rightarrow> bool" where
  "is_extension_pattern pattern = startswith (strip pattern) ''.''"

definition matches_mime_pattern :: "string option \<Rightarrow> string \<Rightarrow> bool" where
  "matches_mime_pattern value_opt pattern_raw =
     (case value_opt of
        None \<Rightarrow> False
      | Some v0 \<Rightarrow>
          (let v = lower (strip v0); pattern = lower (strip pattern_raw) in
           if startswith pattern ''.'' then
             v = pattern \<or> lstrip_by (\<lambda>c. c = CHR ''.'') v = lstrip_by (\<lambda>c. c = CHR ''.'') pattern
           else if endswith pattern ''/*'' then startswith v (butlast pattern)
           else v = pattern))"

lemma matches_mime_None [simp]: "\<not> matches_mime_pattern None p"
  by (simp add: matches_mime_pattern_def)

section \<open>Host names\<close>

text \<open>
  \<open>urllib.parse.urlparse(s).hostname or ""\<close>. None is the \<open>ValueError\<close> of a netloc with
  unbalanced brackets, or of a bracketed netloc the library's address check refuses; that check
  (\<open>ipaddress\<close>, it differs between Python releases) is the argument \<open>bracket_ok\<close>.
\<close>

definition is_scheme_char :: "char \<Rightarrow> bool" where
  "is_scheme_char c = (let n = code c in
     (97 \<le> n \<and> n \<le> 122) \<or> (65 \<le> n \<and> n \<le> 90) \<or> (48 \<le> n \<and> n \<le> 57) \<or> n = 43 \<or> n = 45 \<or> n = 46)"

definition is_ascii_alpha :: "char \<Rightarrow> bool" where
  "is_ascii_alpha c = (let n = code c in (97 \<le> n \<and> n \<le> 122) \<or> (65 \<le> n \<and> n \<le> 90))"

definition urlsplit_strip_scheme :: "string \<Rightarrow> string" where
  "urlsplit_strip_scheme url =
     (let (before, found, after) = partition_at (CHR '':'') url in
      if found \<and> before \<noteq> [] \<and> is_ascii_alpha (hd before) \<and> list_all is_scheme_char before
      then after else url)"

definition urlparse_netloc :: "string \<Rightarrow> string" where
  "urlparse_netloc s =
     (let url = lstrip_by (\<lambda>c. code c \<le> 32) s;
          url = filter (\<lambda>c. code c \<noteq> 9 \<and> code c \<noteq> 10 \<and> code c \<noteq> 13) url;
          rest = urlsplit_strip_scheme url in
      if startswith rest ''//''
      then takeWhile (\<lambda>c. c \<notin> {CHR ''/'', CHR ''?'', CHR ''#''}) (drop 2 rest)
      else [])"

definition netloc_hostname :: "string \<Rightarrow> string" where
  "netloc_hostname netloc =
     (let hostinfo = after_last (CHR ''@'') netloc;
          (_, have_open_br, bracketed) = partition_at (CHR ''['') hostinfo;
          h = (if have_open_br then fst (partition_at (CHR '']'') bracketed)
               else fst (partition_at (CHR '':'') hostinfo));
          (host, percent, zone) = partition_at (CHR ''%'') h in
      lower host @ (if percent then ''%'' @ zone else []))"

definition urlparse_hostname :: "(string \<Rightarrow> bool) \<Rightarrow> string \<Rightarrow> string option" where
  "urlparse_hostname bracket_ok s =
     (let netloc = urlparse_netloc s; op = CHR ''['' \<in> set netloc; cl = CHR '']'' \<in> set netloc in
      if op \<noteq> cl then None
      else if op \<and> \<not> bracket_ok netloc then None
      else Some (netloc_hostname netloc))"

definition rstrip_dots :: "string \<Rightarrow> string" where
  "rstrip_dots s = rstrip_by (\<lambda>c. c = CHR ''.'') s"

definition normalize_hostname :: "(string \<Rightarrow> bool) \<Rightarrow> string \<Rightarrow> string option" where
  "normalize_hostname bracket_ok url_or_host =
     (let candidate = strip url_or_host in
      case (if contains candidate ''://'' then urlparse_hostname bracket_ok candidate else Some candidate) of
        None \<Rightarrow> None
      | Some h \<Rightarrow> Some (rstrip_dots (lower h)))"

text \<open>The comparison of a normalized host with a normalized pattern.\<close>

definition host_matches :: "string \<Rightarrow> string \<Rightarrow> bool" where
  "host_matches host pat =
     (if pat = [] \<or> host = [] then False
      else if startswith pat ''*.'' then
        (let base = drop 2 pat in host = base \<or> endswith host (''.'' @ base))
      else host = pat)"

definition normalize_pattern :: "string \<Rightarrow> string" where
  "normalize_pattern pattern = rstrip_dots (lower (strip pattern))"

definition matches_source_pattern :: "(string \<Rightarrow> bool) \<Rightarrow> string \<Rightarrow> string \<Rightarrow> bool option" where
  "matches_source_pattern bracket_ok hostname pattern =
     (case normalize_hostname bracket_ok hostname of
        None \<Rightarrow> None
      | Some host \<Rightarrow> Some (host_matches host (normalize_pattern pattern)))"

section \<open>Matching by DNS labels\<close>

text \<open>The specification: the dot-separated labels of a name, outermost domain last.\<close>

fun labels :: "string \<Rightarrow> string list" where
  "labels [] = [[]]"
| "labels (c # cs) =
     (if c = CHR ''.'' then [] # labels cs
      else (case labels cs of [] \<Rightarrow> [[c]] | l # ls \<Rightarrow> (c # l) # ls))"

fun join_labels :: "string list \<Rightarrow> string" where
  "join_labels [] = []"
| "join_labels [l] = l"
| "join_labels (l # m # ls) = l @ CHR ''.'' # join_labels (m # ls)"

lemma labels_nonempty [simp]: "labels s \<noteq> []"
  by (cases s) (auto split: list.splits)

lemma join_labels_labels [simp]: "join_labels (labels s) = s"
proof (induction s)
  case Nil
  then show ?case by simp
next
  case (Cons c cs)
  obtain l ls where l: "labels cs = l # ls" by (cases "labels cs") auto
  from Cons.IH l show ?case by (cases ls) auto
qed

lemma labels_inj: "labels a = labels b \<longleftrightarrow> a = b"
  by (metis join_labels_labels)

lemma labels_append_dot: "labels (a @ CHR ''.'' # b) = labels a @ labels b"
proof (induction a)
  case Nil
  then show ?case by simp
next
  case (Cons c cs)
  obtain l ls where "labels cs = l # ls" by (cases "labels cs") auto
  with Cons.IH show ?case by simp
qed

lemma join_labels_append:
  "xs \<noteq> [] \<Longrightarrow> ys \<noteq> [] \<Longrightarrow> join_labels (xs @ ys) = join_labels xs @ CHR ''.'' # join_labels ys"
proof (induction xs rule: join_labels.induct)
  case (2 l)
  then show ?case by (cases ys) auto
qed auto

lemma suffix_labels_iff:
  "suffix (labels b) (labels h) \<longleftrightarrow> h = b \<or> endswith h (''.'' @ b)"
proof
  assume "suffix (labels b) (labels h)"
  then obtain pre where pre: "labels h = pre @ labels b" by (auto simp: suffix_def)
  show "h = b \<or> endswith h (''.'' @ b)"
  proof (cases "pre = []")
    case True
    with pre show ?thesis by (simp add: labels_inj)
  next
    case False
    have "h = join_labels (pre @ labels b)" using pre by (metis join_labels_labels)
    also have "\<dots> = join_labels pre @ CHR ''.'' # b"
      using False by (simp add: join_labels_append)
    finally show ?thesis by (auto simp: endswith_iff)
  qed
next
  assume "h = b \<or> endswith h (''.'' @ b)"
  then show "suffix (labels b) (labels h)"
    by (auto simp: endswith_iff labels_append_dot suffix_def)
qed

lemma host_matches_by_labels:
  "host_matches host pat \<longleftrightarrow> host \<noteq> [] \<and> pat \<noteq> [] \<and>
    (if startswith pat ''*.'' then suffix (labels (drop 2 pat)) (labels host)
     else labels host = labels pat)"
  by (auto simp: host_matches_def suffix_labels_iff labels_inj Let_def)

text \<open>
  Source patterns are matched by whole DNS labels: a wildcard pattern \<open>*.base\<close> matches
  exactly the (nonempty, normalized) hosts whose label list ends with the labels of \<open>base\<close>, any
  other pattern exactly the host equal to it label by label; an empty host or pattern matches
  nothing, and the only failure is the host's own parse error.
\<close>

theorem source_pattern_by_labels:
  "matches_source_pattern bracket_ok hostname pattern =
     map_option
       (\<lambda>host. let pat = normalize_pattern pattern in
          host \<noteq> [] \<and> pat \<noteq> [] \<and>
          (if startswith pat ''*.'' then suffix (labels (drop 2 pat)) (labels host)
           else labels host = labels pat))
       (normalize_hostname bracket_ok hostname)"
  by (simp add: matches_source_pattern_def host_matches_by_labels Let_def split: option.split)

end
