(* ===== verification/Policy_Engine.thy ===== *)
theory Policy_Engine
  imports Matching
begin

text \<open>
  File, resolution and clipboard decisions: \<open>backend/app/services/policy_engine.py\<close>. The SQL
  joins are list comprehensions over the tables in the order the query names them; a query
  without ORDER BY promises no row order, and the theorems show the decisions do not depend on it.
\<close>

section \<open>Conflict precedence\<close>

fun action_precedence :: "file_action \<Rightarrow> nat" where
  "action_precedence FA_DENY = 3"
| "action_precedence FA_QUARANTINE = 2"
| "action_precedence FA_AUTO_RELEASE = 1"

text \<open>The precedence makes the actions a linear order, the strictest action the largest.\<close>

instantiation file_action :: linorder
begin

definition less_eq_file_action :: "file_action \<Rightarrow> file_action \<Rightarrow> bool" where
  "less_eq_file_action a b = (action_precedence a \<le> action_precedence b)"

definition less_file_action :: "file_action \<Rightarrow> file_action \<Rightarrow> bool" where
  "less_file_action a b = (action_precedence a < action_precedence b)"

instance
proof
  fix a b :: file_action
  show "a \<le> b \<Longrightarrow> b \<le> a \<Longrightarrow> a = b"
    by (cases a; cases b) (simp_all add: less_eq_file_action_def)
qed (auto simp: less_eq_file_action_def less_file_action_def)

end

lemmas file_action_order = less_eq_file_action_def less_file_action_def

section \<open>Inputs and results\<close>

record file_decision_input =
  declared_mime :: "string option"
  detected_mime :: "string option"
  extension :: "string option"
  size_bytes :: int
  source_hostname :: "string option"

record file_decision_result =
  action :: file_action
  policy_version_id :: "uuid option"
  matched_rule_id :: "uuid option"
  reason :: string

record session_resolution =
  width :: int
  height :: int

definition DEFAULT_SCREEN_WIDTH :: int where
  "DEFAULT_SCREEN_WIDTH = 1280"

definition DEFAULT_SCREEN_HEIGHT :: int where
  "DEFAULT_SCREEN_HEIGHT = 800"

definition DEFAULT_CLIPBOARD_MODE :: clipboard_mode where
  "DEFAULT_CLIPBOARD_MODE = CM_BIDIRECTIONAL_TEXT"

section \<open>File decisions\<close>

definition published_file_rules_for_user :: "database \<Rightarrow> uuid \<Rightarrow> (file_policy_rule \<times> uuid) list" where
  "published_file_rules_for_user d user_id =
     [(r, pv_id v).
        r \<leftarrow> file_rules d,
        v \<leftarrow> policy_versions d, fr_policy_version_id r = pv_id v,
        p \<leftarrow> policies d, pv_policy_id v = p_id p,
        gp \<leftarrow> group_policies d, gp_policy_id gp = p_id p,
        ug \<leftarrow> user_groups d, ug_group_id ug = gp_group_id gp,
        ug_user_id ug = user_id
          \<and> p_current_version_id p = Some (pv_id v)
          \<and> pv_status v = PV_PUBLISHED]"

text \<open>
  Whether one rule matches the file. None is the \<open>ValueError\<close> that parsing the source host may
  raise.
\<close>

definition rule_matches ::
  "(string \<Rightarrow> bool) \<Rightarrow> file_decision_input \<Rightarrow> file_policy_rule \<Rightarrow> bool option" where
  "rule_matches bracket_ok dec r =
     (case fr_rule_type r of
        FR_MIME \<Rightarrow>
          Some (matches_mime_pattern (detected_mime dec) (fr_match_pattern r)
            \<or> (fr_action r \<noteq> FA_AUTO_RELEASE
               \<and> (matches_mime_pattern (declared_mime dec) (fr_match_pattern r)
                  \<or> matches_mime_pattern (extension dec) (fr_match_pattern r))))
      | FR_SOURCE \<Rightarrow>
          (case source_hostname dec of
             None \<Rightarrow> Some False
           | Some h \<Rightarrow> if h = [] then Some False
                       else matches_source_pattern bracket_ok h (fr_match_pattern r)))"

definition rule_result :: "file_policy_rule \<times> uuid \<Rightarrow> file_decision_result" where
  "rule_result rv = (let (r, version_id) = rv in
     \<lparr> action = fr_action r, policy_version_id = Some version_id, matched_rule_id = Some (fr_id r),
       reason = ''matched '' @ file_rule_type_value (fr_rule_type r) @ '' rule '' @ [CHR 0x27]
                @ fr_match_pattern r @ [CHR 0x27] \<rparr>)"

text \<open>The loop over the rules, with the best result so far.\<close>

fun evaluate_rules ::
  "(string \<Rightarrow> bool) \<Rightarrow> file_decision_input \<Rightarrow> file_decision_result option
   \<Rightarrow> (file_policy_rule \<times> uuid) list \<Rightarrow> file_decision_result option option" where
  "evaluate_rules bracket_ok dec best [] = Some best"
| "evaluate_rules bracket_ok dec best (rv # rest) =
     (case rule_matches bracket_ok dec (fst rv) of
        None \<Rightarrow> None
      | Some False \<Rightarrow> evaluate_rules bracket_ok dec best rest
      | Some True \<Rightarrow>
          (let candidate = rule_result rv in
           evaluate_rules bracket_ok dec
             (case best of
                None \<Rightarrow> Some candidate
              | Some b \<Rightarrow>
                  if action_precedence (action candidate) > action_precedence (action b)
                  then Some candidate else Some b)
             rest))"

definition default_decision :: file_decision_result where
  "default_decision =
     \<lparr> action = FA_QUARANTINE, policy_version_id = None, matched_rule_id = None,
       reason = ''no published policy rule matched - fail-closed default'' \<rparr>"

definition evaluate_file_action ::
  "(string \<Rightarrow> bool) \<Rightarrow> database \<Rightarrow> uuid \<Rightarrow> file_decision_input \<Rightarrow> file_decision_result option" where
  "evaluate_file_action bracket_ok d user_id dec =
     (case evaluate_rules bracket_ok dec None (published_file_rules_for_user d user_id) of
        None \<Rightarrow> None
      | Some None \<Rightarrow> Some default_decision
      | Some (Some best) \<Rightarrow> Some best)"

section \<open>Session resolution and clipboard mode\<close>

text \<open>The contents of the published policies of one type attached to the user's groups.\<close>

definition published_contents :: "policy_type \<Rightarrow> database \<Rightarrow> uuid \<Rightarrow> json list" where
  "published_contents ptype d user_id =
     [pv_content v.
        v \<leftarrow> policy_versions d,
        p \<leftarrow> policies d, pv_policy_id v = p_id p,
        gp \<leftarrow> group_policies d, gp_policy_id gp = p_id p,
        ug \<leftarrow> user_groups d, ug_group_id ug = gp_group_id gp,
        ug_user_id ug = user_id
          \<and> p_policy_type p = ptype
          \<and> p_current_version_id p = Some (pv_id v)
          \<and> pv_status v = PV_PUBLISHED]"

definition content_resolution :: "json \<Rightarrow> session_resolution option" where
  "content_resolution content =
     (case content of
        JObj c \<Rightarrow>
          (case (as_int (jget c ''screen_width''), as_int (jget c ''screen_height'')) of
             (Some w, Some h) \<Rightarrow>
               if w \<le> 0 \<or> h \<le> 0 then None else Some \<lparr> width = w, height = h \<rparr>
           | _ \<Rightarrow> None)
      | _ \<Rightarrow> None)"

fun smallest_resolution :: "session_resolution option \<Rightarrow> json list \<Rightarrow> session_resolution option" where
  "smallest_resolution best [] = best"
| "smallest_resolution best (content # rest) =
     (case content_resolution content of
        None \<Rightarrow> smallest_resolution best rest
      | Some r \<Rightarrow>
          smallest_resolution
            (case best of
               None \<Rightarrow> Some r
             | Some b \<Rightarrow> if width r * height r < width b * height b then Some r else Some b)
            rest)"

definition resolve_session_resolution :: "database \<Rightarrow> uuid \<Rightarrow> session_resolution" where
  "resolve_session_resolution d user_id =
     (case smallest_resolution None (published_contents PT_SESSION d user_id) of
        Some best \<Rightarrow> best
      | None \<Rightarrow> \<lparr> width = DEFAULT_SCREEN_WIDTH, height = DEFAULT_SCREEN_HEIGHT \<rparr>)"

definition content_clipboard_mode :: "json \<Rightarrow> clipboard_mode option" where
  "content_clipboard_mode content =
     (case content of
        JObj c \<Rightarrow> (case jget c ''clipboard_mode'' of JStr s \<Rightarrow> clipboard_mode_of_value s | _ \<Rightarrow> None)
      | _ \<Rightarrow> None)"

definition allows_local_to_remote :: "clipboard_mode \<Rightarrow> bool" where
  "allows_local_to_remote m \<longleftrightarrow> m \<in> {CM_LOCAL_TO_REMOTE, CM_BIDIRECTIONAL_TEXT}"

definition allows_remote_to_local :: "clipboard_mode \<Rightarrow> bool" where
  "allows_remote_to_local m \<longleftrightarrow> m \<in> {CM_REMOTE_TO_LOCAL, CM_BIDIRECTIONAL_TEXT}"

definition combine_clipboard_modes :: "clipboard_mode list \<Rightarrow> clipboard_mode" where
  "combine_clipboard_modes modes =
     (if modes = [] then DEFAULT_CLIPBOARD_MODE
      else
        (let l2r = list_all allows_local_to_remote modes;
             r2l = list_all allows_remote_to_local modes in
         if l2r \<and> r2l then CM_BIDIRECTIONAL_TEXT
         else if l2r then CM_LOCAL_TO_REMOTE
         else if r2l then CM_REMOTE_TO_LOCAL
         else CM_NONE))"

definition resolve_clipboard_policy :: "database \<Rightarrow> uuid \<Rightarrow> clipboard_mode" where
  "resolve_clipboard_policy d user_id =
     combine_clipboard_modes
       (List.map_filter content_clipboard_mode (published_contents PT_CLIPBOARD d user_id))"

section \<open>What the rule loop computes\<close>

lemma set_published_file_rules:
  "set (published_file_rules_for_user d user_id) =
     {(r, pv_id v) | r v p gp ug.
        r \<in> set (file_rules d) \<and> v \<in> set (policy_versions d) \<and> p \<in> set (policies d)
        \<and> gp \<in> set (group_policies d) \<and> ug \<in> set (user_groups d)
        \<and> fr_policy_version_id r = pv_id v \<and> pv_policy_id v = p_id p \<and> gp_policy_id gp = p_id p
        \<and> ug_group_id ug = gp_group_id gp \<and> ug_user_id ug = user_id
        \<and> p_current_version_id p = Some (pv_id v) \<and> pv_status v = PV_PUBLISHED}"
  unfolding published_file_rules_for_user_def by (auto split: if_splits) blast

text \<open>The rules of the user that match the file, and the actions they ask for.\<close>

definition matching_rules ::
  "(string \<Rightarrow> bool) \<Rightarrow> database \<Rightarrow> uuid \<Rightarrow> file_decision_input \<Rightarrow> (file_policy_rule \<times> uuid) set" where
  "matching_rules bracket_ok d user_id dec =
     {rv \<in> set (published_file_rules_for_user d user_id). rule_matches bracket_ok dec (fst rv) = Some True}"

definition matching_actions ::
  "(string \<Rightarrow> bool) \<Rightarrow> database \<Rightarrow> uuid \<Rightarrow> file_decision_input \<Rightarrow> file_action set" where
  "matching_actions bracket_ok d user_id dec = (fr_action \<circ> fst) ` matching_rules bracket_ok d user_id dec"

definition strictest :: "file_action set \<Rightarrow> file_action" where
  "strictest A = (if A = {} then FA_QUARANTINE else Max A)"

lemma action_rule_result [simp]: "action (rule_result rv) = fr_action (fst rv)"
  by (simp add: rule_result_def split_def)

lemma evaluate_rules_None:
  "evaluate_rules ok dec best rvs = None \<longleftrightarrow> (\<exists>rv \<in> set rvs. rule_matches ok dec (fst rv) = None)"
  by (induction rvs arbitrary: best) (auto simp: Let_def split: option.splits bool.splits)

lemma evaluate_rules_no_match:
  "evaluate_rules ok dec best rvs = Some None \<Longrightarrow>
     best = None \<and> (\<forall>rv \<in> set rvs. rule_matches ok dec (fst rv) = Some False)"
  by (induction rvs arbitrary: best) (fastforce simp: Let_def split: option.splits bool.splits if_splits)+

lemma evaluate_rules_origin:
  "evaluate_rules ok dec best rvs = Some (Some b) \<Longrightarrow>
     best = Some b \<or> (\<exists>rv \<in> set rvs. rule_matches ok dec (fst rv) = Some True \<and> b = rule_result rv)"
  by (induction rvs arbitrary: best) (fastforce simp: Let_def split: option.splits bool.splits if_splits)+

lemma evaluate_rules_upper:
  "evaluate_rules ok dec best rvs = Some (Some b) \<Longrightarrow>
     (\<forall>b0. best = Some b0 \<longrightarrow> action b0 \<le> action b)
     \<and> (\<forall>rv \<in> set rvs. rule_matches ok dec (fst rv) = Some True \<longrightarrow> fr_action (fst rv) \<le> action b)"
proof (induction rvs arbitrary: best)
  case Nil
  then show ?case by simp
next
  case (Cons rv rvs)
  from Cons.prems have "rule_matches ok dec (fst rv) \<noteq> None" by (auto split: option.splits)
  then consider (no) "rule_matches ok dec (fst rv) = Some False"
    | (yes) "rule_matches ok dec (fst rv) = Some True" by (metis (full_types) not_None_eq)
  then show ?case
  proof cases
    case no
    with Cons show ?thesis by auto
  next
    case yes
    let ?new = "case best of None \<Rightarrow> Some (rule_result rv)
      | Some b \<Rightarrow> if action_precedence (action (rule_result rv)) > action_precedence (action b)
                  then Some (rule_result rv) else Some b"
    have new: "evaluate_rules ok dec ?new rvs = Some (Some b)"
      using Cons.prems yes by (simp add: Let_def)
    have "?new \<noteq> None" by (simp split: option.split)
    then obtain n where n: "?new = Some n" by blast
    have "fr_action (fst rv) \<le> action n" and "\<forall>b0. best = Some b0 \<longrightarrow> action b0 \<le> action n"
      using n by (auto simp: file_action_order split: option.splits if_splits)
    moreover have "action n \<le> action b"
      using Cons.IH [OF new] n by simp
    ultimately show ?thesis
      using Cons.IH [OF new] by (auto dest: order_trans)
  qed
qed

lemma matching_actions_iff:
  "a \<in> matching_actions ok d u dec \<longleftrightarrow>
     (\<exists>rv \<in> set (published_file_rules_for_user d u).
        rule_matches ok dec (fst rv) = Some True \<and> fr_action (fst rv) = a)"
  unfolding matching_actions_def matching_rules_def by force

lemma finite_matching_actions: "finite (matching_actions ok d u dec)"
  by (simp add: matching_actions_def matching_rules_def)

text \<open>
  C27. The decision is the conflict model of the policy documentation: with no unparsable source
  host, the action is the strictest action (DENY over QUARANTINE over AUTO_RELEASE) among the
  published rules that match the file, and QUARANTINE when none matches; the evaluation fails
  exactly when parsing the source host for some rule does.
\<close>

theorem evaluate_file_action_strictest:
  "map_option action (evaluate_file_action bracket_ok d user_id dec) =
     (if \<exists>rv \<in> set (published_file_rules_for_user d user_id). rule_matches bracket_ok dec (fst rv) = None
      then None
      else Some (strictest (matching_actions bracket_ok d user_id dec)))"
proof -
  let ?rvs = "published_file_rules_for_user d user_id"
  let ?A = "matching_actions bracket_ok d user_id dec"
  show ?thesis
  proof (cases "evaluate_rules bracket_ok dec None ?rvs")
    case None
    moreover from None have "\<exists>rv \<in> set ?rvs. rule_matches bracket_ok dec (fst rv) = None"
      by (simp only: evaluate_rules_None)
    ultimately show ?thesis by (simp add: evaluate_file_action_def)
  next
    case (Some r)
    then have ok: "\<not> (\<exists>rv \<in> set ?rvs. rule_matches bracket_ok dec (fst rv) = None)"
      by (metis evaluate_rules_None option.distinct(1))
    show ?thesis
    proof (cases r)
      case None
      with Some have "\<forall>rv \<in> set ?rvs. rule_matches bracket_ok dec (fst rv) = Some False"
        using evaluate_rules_no_match by blast
      then have "?A = {}" by (auto simp: matching_actions_iff)
      with Some None ok show ?thesis
        by (simp add: evaluate_file_action_def strictest_def default_decision_def)
    next
      case (Some b)
      with \<open>evaluate_rules bracket_ok dec None ?rvs = Some r\<close>
      have ev: "evaluate_rules bracket_ok dec None ?rvs = Some (Some b)" by simp
      have mem: "action b \<in> ?A" using evaluate_rules_origin [OF ev] by (auto simp: matching_actions_iff)
      have "\<forall>a \<in> ?A. a \<le> action b" using evaluate_rules_upper [OF ev] by (auto simp: matching_actions_iff)
      with mem have "Max ?A = action b" by (intro Max_eqI finite_matching_actions) auto
      with mem ev ok show ?thesis by (auto simp: evaluate_file_action_def strictest_def)
    qed
  qed
qed

text \<open>
  C4. An AUTO_RELEASE decision always rests on a published rule of the user's groups that the
  file's detected MIME type or its source host satisfies, never on its extension or declared
  type, and only when no matching rule asks for DENY or QUARANTINE.
\<close>

theorem auto_release_needs_detected_match:
  assumes "evaluate_file_action bracket_ok d user_id dec = Some res"
    and "action res = FA_AUTO_RELEASE"
  shows "(\<exists>(r, v) \<in> set (published_file_rules_for_user d user_id).
            fr_action r = FA_AUTO_RELEASE
            \<and> (fr_rule_type r = FR_MIME \<and> matches_mime_pattern (detected_mime dec) (fr_match_pattern r)
               \<or> fr_rule_type r = FR_SOURCE \<and> (\<exists>h. source_hostname dec = Some h
                    \<and> matches_source_pattern bracket_ok h (fr_match_pattern r) = Some True)))
     \<and> matching_actions bracket_ok d user_id dec = {FA_AUTO_RELEASE}"
proof -
  let ?A = "matching_actions bracket_ok d user_id dec"
  have "strictest ?A = FA_AUTO_RELEASE"
    using evaluate_file_action_strictest [of bracket_ok d user_id dec] assms
    by (auto split: if_splits)
  then have ne: "?A \<noteq> {}" and mx: "Max ?A = FA_AUTO_RELEASE"
    by (auto simp: strictest_def split: if_splits)
  have "a = FA_AUTO_RELEASE" if "a \<in> ?A" for a
    using Max_ge [OF finite_matching_actions that] mx by (cases a) (auto simp: file_action_order)
  with ne have A: "?A = {FA_AUTO_RELEASE}" by blast
  then have "FA_AUTO_RELEASE \<in> ?A" by simp
  then obtain rv0 where "rv0 \<in> set (published_file_rules_for_user d user_id)"
    "rule_matches bracket_ok dec (fst rv0) = Some True" "fr_action (fst rv0) = FA_AUTO_RELEASE"
    unfolding matching_actions_iff by blast
  then obtain r v where rv: "(r, v) \<in> set (published_file_rules_for_user d user_id)"
    "rule_matches bracket_ok dec r = Some True" "fr_action r = FA_AUTO_RELEASE"
    by (metis prod.collapse)
  have "fr_rule_type r = FR_MIME \<and> matches_mime_pattern (detected_mime dec) (fr_match_pattern r)
     \<or> fr_rule_type r = FR_SOURCE \<and> (\<exists>h. source_hostname dec = Some h
          \<and> matches_source_pattern bracket_ok h (fr_match_pattern r) = Some True)"
    using rv(2,3)
    by (cases "fr_rule_type r"; cases "source_hostname dec") (auto simp: rule_matches_def split: if_splits)
  with rv(1,3) A show ?thesis by blast
qed

text \<open>The decision with the two sender-controlled inputs left out.\<close>

definition without_claims :: "file_decision_input \<Rightarrow> file_decision_input" where
  "without_claims dec = dec\<lparr>declared_mime := None, extension := None\<rparr>"

lemma rule_matches_without_claims:
  "rule_matches ok (without_claims dec) r = None \<longleftrightarrow> rule_matches ok dec r = None"
  "rule_matches ok (without_claims dec) r = Some True \<Longrightarrow> rule_matches ok dec r = Some True"
  "rule_matches ok dec r = Some True \<Longrightarrow> fr_action r = FA_AUTO_RELEASE \<Longrightarrow>
     rule_matches ok (without_claims dec) r = Some True"
  by (auto simp: rule_matches_def without_claims_def split: file_rule_type.splits option.splits if_splits)

lemma strictest_mono:
  assumes "finite B" and "A \<subseteq> B" and "\<And>a. a \<in> B - A \<Longrightarrow> FA_QUARANTINE \<le> a"
  shows "strictest A \<le> strictest B"
proof (cases "A = {}")
  case True
  show ?thesis
  proof (cases "B = {}")
    case False
    then obtain b where "b \<in> B" by blast
    with True assms(3) [of b] have "FA_QUARANTINE \<le> Max B"
      using Max_ge [OF assms(1) \<open>b \<in> B\<close>] by (auto intro: order_trans)
    with True False show ?thesis by (simp add: strictest_def)
  qed (simp add: strictest_def True)
next
  case False
  with assms(1,2) have "B \<noteq> {}" and "Max A \<le> Max B" by (auto intro: Max_mono)
  with False show ?thesis by (simp add: strictest_def)
qed

text \<open>
  What the sender of a file controls freely, its declared type and its extension, can only
  make the decision stricter: compared with the decision without them, the action never moves
  towards release, and the evaluation fails for the same inputs.
\<close>

theorem claims_only_make_stricter:
  "rel_option (\<lambda>without with_claims. action without \<le> action with_claims)
     (evaluate_file_action bracket_ok d user_id (without_claims dec))
     (evaluate_file_action bracket_ok d user_id dec)"
proof -
  let ?A = "matching_actions bracket_ok d user_id (without_claims dec)"
  let ?B = "matching_actions bracket_ok d user_id dec"
  have "?A \<subseteq> ?B"
    by (auto simp: matching_actions_def matching_rules_def rule_matches_without_claims(2))
  moreover have "FA_QUARANTINE \<le> a" if "a \<in> ?B - ?A" for a
    using that rule_matches_without_claims(3) [of bracket_ok dec]
    by (cases a) (force simp: matching_actions_def matching_rules_def file_action_order)+
  ultimately have le: "strictest ?A \<le> strictest ?B"
    by (intro strictest_mono finite_matching_actions)
  show ?thesis
    using evaluate_file_action_strictest [of bracket_ok d user_id dec]
      evaluate_file_action_strictest [of bracket_ok d user_id "without_claims dec"] le
    by (cases "evaluate_file_action bracket_ok d user_id dec";
        cases "evaluate_file_action bracket_ok d user_id (without_claims dec)")
       (auto simp: rule_matches_without_claims(1) split: if_splits)
qed

text \<open>
  The action does not depend on the order in which the database returns rows (nor on
  duplicate group paths to a policy): two databases with the same rows in the five tables the
  query reads decide alike.
\<close>

theorem decision_independent_of_row_order:
  assumes "set (file_rules d) = set (file_rules e)"
    and "set (policy_versions d) = set (policy_versions e)"
    and "set (policies d) = set (policies e)"
    and "set (group_policies d) = set (group_policies e)"
    and "set (user_groups d) = set (user_groups e)"
  shows "map_option action (evaluate_file_action bracket_ok d user_id dec) =
         map_option action (evaluate_file_action bracket_ok e user_id dec)"
proof -
  have "set (published_file_rules_for_user d user_id) = set (published_file_rules_for_user e user_id)"
    unfolding set_published_file_rules assms ..
  then show ?thesis
    unfolding evaluate_file_action_strictest matching_actions_def matching_rules_def by simp
qed

section \<open>Resolution and clipboard\<close>

lemma set_published_contents:
  "c \<in> set (published_contents t d user_id) \<longleftrightarrow>
     (\<exists>v \<in> set (policy_versions d). \<exists>p \<in> set (policies d). \<exists>gp \<in> set (group_policies d).
        \<exists>ug \<in> set (user_groups d).
        c = pv_content v \<and> pv_policy_id v = p_id p \<and> gp_policy_id gp = p_id p
        \<and> ug_group_id ug = gp_group_id gp \<and> ug_user_id ug = user_id \<and> p_policy_type p = t
        \<and> p_current_version_id p = Some (pv_id v) \<and> pv_status v = PV_PUBLISHED)"
  unfolding published_contents_def by (auto split: if_splits)

lemma content_resolution_pos:
  "content_resolution c = Some r \<Longrightarrow> 0 < width r \<and> 0 < height r"
  by (auto simp: content_resolution_def split: json.splits option.splits if_splits)

definition area :: "session_resolution \<Rightarrow> int" where
  "area r = width r * height r"

lemma smallest_resolution_spec:
  "smallest_resolution best cs =
     (case (best, List.map_filter content_resolution cs) of
        (None, []) \<Rightarrow> None
      | (_, rs) \<Rightarrow> Some (fold (\<lambda>r b. if area r < area b then r else b)
                    (case best of None \<Rightarrow> tl rs | Some _ \<Rightarrow> rs)
                    (case best of None \<Rightarrow> hd rs | Some b \<Rightarrow> b)))"
  by (induction cs arbitrary: best)
     (auto simp: area_def List.map_filter_def split: option.splits list.splits)

lemma fold_smaller:
  "fold (\<lambda>r b. if area r < area b then r else b) rs b0 \<in> insert b0 (set rs)
   \<and> (\<forall>r \<in> insert b0 (set rs). area (fold (\<lambda>r b. if area r < area b then r else b) rs b0) \<le> area r)"
proof (induction rs arbitrary: b0)
  case (Cons r rs)
  let ?b = "if area r < area b0 then r else b0"
  have "area ?b \<le> area r" "area ?b \<le> area b0" by auto
  with Cons.IH [of ?b] show ?case by (auto split: if_splits intro: order_trans)
qed auto

text \<open>
  The resolution of a new session is the smallest area that a published SESSION policy of the
  user's groups asks for with two positive integers, 1280x800 when none does, and always
  positive: malformed policy contents never block a session.
\<close>

theorem resolution_is_smallest:
  "let asked = List.map_filter content_resolution (published_contents PT_SESSION d user_id);
       r = resolve_session_resolution d user_id in
     0 < width r \<and> 0 < height r
     \<and> (if asked = [] then r = \<lparr> width = 1280, height = 800 \<rparr>
        else r \<in> {x \<in> set asked. area x = Min (area ` set asked)})"
proof -
  let ?asked = "List.map_filter content_resolution (published_contents PT_SESSION d user_id)"
  have pos: "0 < width x \<and> 0 < height x" if "x \<in> set ?asked" for x
    using that content_resolution_pos by (force simp: List.map_filter_def)
  show ?thesis
  proof (cases ?asked)
    case Nil
    then show ?thesis
      by (simp add: resolve_session_resolution_def smallest_resolution_spec
          DEFAULT_SCREEN_WIDTH_def DEFAULT_SCREEN_HEIGHT_def)
  next
    case (Cons a as)
    let ?m = "fold (\<lambda>r b. if area r < area b then r else b) as a"
    have r: "resolve_session_resolution d user_id = ?m"
      using Cons by (simp add: resolve_session_resolution_def smallest_resolution_spec)
    have mem: "?m \<in> set ?asked" and low: "\<forall>x \<in> set ?asked. area ?m \<le> area x"
      using fold_smaller [of as a] Cons by auto
    from mem low have "area ?m = Min (area ` set ?asked)" by (intro Min_eqI [symmetric]) auto
    with r mem pos [OF mem] Cons show ?thesis by (auto simp: Let_def)
  qed
qed

text \<open>
  A clipboard direction is open in the resolved mode exactly when every published CLIPBOARD
  policy of the user's groups with a recognized mode opens it: one group's restriction can never
  be undone by another group, and without such policies both directions are open.
\<close>

theorem clipboard_direction_open_iff:
  "let modes = set (List.map_filter content_clipboard_mode (published_contents PT_CLIPBOARD d user_id));
       m = resolve_clipboard_policy d user_id in
     (allows_local_to_remote m \<longleftrightarrow> modes \<subseteq> {x. allows_local_to_remote x})
     \<and> (allows_remote_to_local m \<longleftrightarrow> modes \<subseteq> {x. allows_remote_to_local x})"
  by (auto simp: resolve_clipboard_policy_def combine_clipboard_modes_def Let_def
      DEFAULT_CLIPBOARD_MODE_def allows_local_to_remote_def allows_remote_to_local_def list_all_iff
      split: if_splits)

end
