(* ===== verification/Sessions.thy ===== *)
theory Sessions
  imports Nodes Policy_Engine "HOL-Library.List_Lexorder" "HOL-Library.Char_ord" "HOL-Library.Product_Lexorder"
begin

text \<open>
  Browser sessions: \<open>services/sessions.py\<close> with the routes of \<open>api/sessions.py\<close> and
  \<open>api/admin_sessions.py\<close>.

  The state is a \<open>'w sys\<close>: the database, the world behind the agents, and the two in-process
  registries an operation touches, the download pollers (\<open>core/download_poller.py\<close>) and the live
  display connections (\<open>api/display.py\<close>, each session id with the websocket registered for it).
  One call reads the clock once.
\<close>

record 'w sys =
  db :: database
  world :: 'w
  polling :: "uuid list"
  active_connections :: "(uuid \<times> nat) list"

type_synonym ('a, 'w) sys_outcome = "(service_error + 'a) \<times> 'w sys"

definition on_db :: "(database \<Rightarrow> database) \<Rightarrow> 'w sys \<Rightarrow> 'w sys" where
  "on_db f s = s\<lparr>db := f (db s)\<rparr>"

text \<open>Running an agent call on the world of the system.\<close>

definition agent :: "('w \<Rightarrow> ('a, 'w) agent_call) \<Rightarrow> 'w sys \<Rightarrow> ('a, 'w) sys_outcome" where
  "agent call s = (let (r, w) = call (world s) in (r, s\<lparr>world := w\<rparr>))"

definition start_polling :: "uuid \<Rightarrow> 'w sys \<Rightarrow> 'w sys" where
  "start_polling i s = (if i \<in> set (polling s) then s else s\<lparr>polling := polling s @ [i]\<rparr>)"

definition stop_polling :: "uuid \<Rightarrow> 'w sys \<Rightarrow> 'w sys" where
  "stop_polling i s = s\<lparr>polling := removeAll i (polling s)\<rparr>"

text \<open>An UPDATE of a session row also stamps \<open>updated_at\<close>.\<close>

definition set_session ::
  "instant \<Rightarrow> uuid \<Rightarrow> (browser_session \<Rightarrow> browser_session) \<Rightarrow> database \<Rightarrow> database" where
  "set_session now k f d =
     d\<lparr>sessions := row_update s_id k (\<lambda>s. (f s)\<lparr>s_updated_at := now\<rparr>) (sessions d)\<rparr>"

definition set_session_status :: "instant \<Rightarrow> uuid \<Rightarrow> session_status \<Rightarrow> database \<Rightarrow> database" where
  "set_session_status now k st d = set_session now k (\<lambda>s. s\<lparr>s_status := st\<rparr>) d"

section \<open>Waiting for the display\<close>

fun wait_for_display_ready ::
  "'w backend \<Rightarrow> uuid \<Rightarrow> connection \<Rightarrow> nat \<Rightarrow> string \<Rightarrow> 'w \<Rightarrow> (unit, 'w) agent_call" where
  "wait_for_display_ready B i c 0 last_error w =
     (Inl (SessionAgentError (''display never became ready: '' @ last_error)), w)"
| "wait_for_display_ready B i c (Suc attempts) last_error w =
     (case check_display_ready B i c w of
        (Inr True, w') \<Rightarrow> (Inr (), w')
      | (Inr False, w') \<Rightarrow> wait_for_display_ready B i c attempts ''display not ready yet'' w'
      | (Inl e, w') \<Rightarrow> wait_for_display_ready B i c attempts (error_detail e) w')"

section \<open>Node selection\<close>

definition apply_node_status :: "instant \<Rightarrow> node_report \<Rightarrow> browser_node \<Rightarrow> service_error + browser_node" where
  "apply_node_status now st node =
     (let rest = (\<lambda>n. n\<lparr>n_capacity := ns_capacity st, n_capacity_bound := Some (ns_capacity_bound st),
                n_ram_capacity := Some (ns_ram_capacity st), n_cpu_capacity := Some (ns_cpu_capacity st),
                n_active_sessions := ns_active_sessions st, n_runtime := ns_runtime st,
                n_version := Some (ns_version st), n_cpu_percent := Some (ns_cpu_percent st),
                n_ram_total_mb := Some (ns_ram_total_mb st), n_ram_used_mb := Some (ns_ram_used_mb st),
                n_node_started_at := Some (ns_node_started_at st), n_last_heartbeat := Some now\<rparr>)
      in if n_status node \<notin> {NS_DRAINING, NS_MAINTENANCE} then
           (case browser_node_status_of_value (ns_status st) of
              None \<Rightarrow> Inl (RuntimeErr (ns_status st @ '' is not a valid BrowserNodeStatus''))
            | Some v \<Rightarrow> Inr (rest (node\<lparr>n_status := v\<rparr>)))
         else Inr (rest node))"

definition refresh_node_from_agent :: "'w backend \<Rightarrow> instant \<Rightarrow> 'w sys \<Rightarrow> (uuid, 'w) sys_outcome" where
  "refresh_node_from_agent B now s =
     (case agent (get_node_status B (default_connection B)) s of
        (Inl e, s) \<Rightarrow> (Inl e, s)
      | (Inr st, s) \<Rightarrow>
          let (i, s) =
            (case row_get n_hostname (ns_hostname st) (nodes (db s)) of
               Some node \<Rightarrow> (n_id node, s)
             | None \<Rightarrow>
                 let (i, d) = fresh (db s)
                 in (i, s\<lparr>db := d\<lparr>nodes := row_insert (new_node i now (ns_hostname st)) (nodes d)\<rparr>\<rparr>))
          in case row_get n_id i (nodes (db s)) of
               None \<Rightarrow> (Inl DbIntegrityError, s)
             | Some node \<Rightarrow>
                 (case apply_node_status now st node of
                    Inl e \<Rightarrow> (Inl e, s)
                  | Inr node' \<Rightarrow> (Inr i, on_db (set_node i (\<lambda>_. node')) s)))"

definition refresh_enrolled_node :: "'w backend \<Rightarrow> instant \<Rightarrow> browser_node \<Rightarrow> 'w sys \<Rightarrow> (uuid, 'w) sys_outcome" where
  "refresh_enrolled_node B now node s =
     (case agent (get_node_status B (connection_for_node B (Some node))) s of
        (Inl e, s) \<Rightarrow> (Inl e, s)
      | (Inr st, s) \<Rightarrow>
          (case apply_node_status now st node of
             Inl e \<Rightarrow> (Inl e, s)
           | Inr node' \<Rightarrow> (Inr (n_id node), on_db (set_node (n_id node) (\<lambda>_. node')) s)))"

text \<open>The loop over the approved nodes: an unreachable one is left out, any other error ends it.\<close>

fun refresh_all :: "'w backend \<Rightarrow> instant \<Rightarrow> browser_node list \<Rightarrow> 'w sys \<Rightarrow> (uuid list, 'w) sys_outcome" where
  "refresh_all B now [] s = (Inr [], s)"
| "refresh_all B now (node # ns) s =
     (case refresh_enrolled_node B now node s of
        (Inl (SessionAgentError _), s) \<Rightarrow> refresh_all B now ns s
      | (Inl e, s) \<Rightarrow> (Inl e, s)
      | (Inr i, s) \<Rightarrow>
          (case refresh_all B now ns s of
             (Inl e, s) \<Rightarrow> (Inl e, s)
           | (Inr is, s) \<Rightarrow> (Inr (i # is), s)))"

definition free_slots :: "browser_node \<Rightarrow> int" where
  "free_slots n = n_capacity n - n_active_sessions n"

definition node_rows :: "uuid list \<Rightarrow> database \<Rightarrow> browser_node list" where
  "node_rows is d = concat (map (\<lambda>i. case row_get n_id i (nodes d) of None \<Rightarrow> [] | Some n \<Rightarrow> [n]) is)"

definition pick_node :: "uuid list \<Rightarrow> database \<Rightarrow> service_error + browser_node" where
  "pick_node is d =
     (let candidates = filter (\<lambda>n. n_status n = NS_ONLINE \<and> n_active_sessions n < n_capacity n) (node_rows is d)
      in if candidates = [] then Inl (NoCapacityError ''no enrolled node is online with free capacity'')
         else Inr (sort_key (\<lambda>n. (- free_slots n, n_hostname n)) candidates ! 0))"

definition select_node :: "'w backend \<Rightarrow> instant \<Rightarrow> 'w sys \<Rightarrow> (browser_node, 'w) sys_outcome" where
  "select_node B now s =
     (let approved = filter (\<lambda>n. n_enrollment_status n = NE_APPROVED) (nodes (db s));
          (r, s) =
            (if approved = [] then
               (case refresh_node_from_agent B now s of
                  (Inl (SessionAgentError m), s) \<Rightarrow>
                    (Inl (NoCapacityError (''session agent unavailable: '' @ m)), s)
                | (Inl e, s) \<Rightarrow> (Inl e, s)
                | (Inr i, s) \<Rightarrow> (Inr [i], s))
             else refresh_all B now approved s)
      in case r of Inl e \<Rightarrow> (Inl e, s) | Inr is \<Rightarrow> (pick_node is (db s), s))"

section \<open>Creating a session\<close>

definition count_active_sessions_for_user :: "uuid \<Rightarrow> database \<Rightarrow> int" where
  "count_active_sessions_for_user u d =
     int (length (filter (\<lambda>s. s_user_id s = u
            \<and> s_status s \<in> {SS_QUEUED, SS_STARTING, SS_ACTIVE, SS_DISCONNECTED}) (sessions d)))"

definition new_session ::
  "uuid \<Rightarrow> instant \<Rightarrow> uuid \<Rightarrow> uuid option \<Rightarrow> session_resolution \<Rightarrow> clipboard_mode \<Rightarrow> browser_session" where
  "new_session i now user node res mode =
     \<lparr> s_id = i, s_created_at = now, s_updated_at = now, s_user_id = user, s_node_id = node,
       s_status = SS_QUEUED, s_browser = ''firefox'', s_sandbox_backend = ''docker'',
       s_display_backend = ''novnc'', s_cpu_limit = 2, s_ram_limit_mb = 2048, s_pid_limit = 512,
       s_disk_limit_mb = 2048, s_screen_width = width res, s_screen_height = height res,
       s_clipboard_mode = mode, s_started_at = None, s_ended_at = None, s_last_activity_at = None,
       s_viewer_connected_at = None \<rparr>"

definition limits_of :: "browser_session \<Rightarrow> sandbox_limits" where
  "limits_of s = \<lparr> sl_cpu_limit = s_cpu_limit s, sl_ram_limit_mb = s_ram_limit_mb s, sl_pid_limit = s_pid_limit s,
     sl_disk_limit_mb = s_disk_limit_mb s, sl_screen_width = s_screen_width s, sl_screen_height = s_screen_height s \<rparr>"

text \<open>The three agent calls of the \<open>try\<close> block.\<close>

definition bring_up :: "'w backend \<Rightarrow> browser_session \<Rightarrow> connection \<Rightarrow> 'w \<Rightarrow> (unit, 'w) agent_call" where
  "bring_up B session c w =
     (case create_sandbox B (s_id session) (limits_of session) c w of
        (Inl e, w) \<Rightarrow> (Inl e, w)
      | (Inr _, w) \<Rightarrow>
          (case start_sandbox B (s_id session) c w of
             (Inl e, w) \<Rightarrow> (Inl e, w)
           | (Inr _, w) \<Rightarrow> wait_for_display_ready B (s_id session) c 15 ''None'' w))"

text \<open>The \<open>except\<close> branch, with the best-effort cleanup, and the successful end.\<close>

definition start_failed ::
  "'w backend \<Rightarrow> instant \<Rightarrow> uuid \<Rightarrow> uuid \<Rightarrow> connection \<Rightarrow> service_error \<Rightarrow> 'w sys \<Rightarrow> (uuid, 'w) sys_outcome" where
  "start_failed B now user i c e s =
     (case agent (terminate_sandbox B i c) (on_db (set_session_status now i SS_FAILED) s) of
        (cleanup, s) \<Rightarrow>
          let cleanup_detail = (case cleanup of Inl e' \<Rightarrow> ''; cleanup deferred: '' @ error_detail e' | Inr _ \<Rightarrow> []) in
          (Inl (SessionServiceError (''failed to start sandbox: '' @ error_detail e @ cleanup_detail)),
           on_db (record_security_event now EV_SESSION_START_FAILED (Some user) (Some i) None
             (Some [(''reason'', JStr (error_detail e)), (''cleanup_deferred'', JBool (cleanup_detail \<noteq> []))])) s))"

definition start_succeeded :: "instant \<Rightarrow> uuid \<Rightarrow> uuid \<Rightarrow> 'w sys \<Rightarrow> (uuid, 'w) sys_outcome" where
  "start_succeeded now user i s =
     (Inr i,
      start_polling i
        (on_db (record_security_event now EV_SESSION_STARTED (Some user) (Some i) None None)
          (on_db (set_session now i (\<lambda>x. x\<lparr>s_status := SS_ACTIVE, s_started_at := Some now,
             s_last_activity_at := Some now\<rparr>)) s)))"

definition insert_session :: "browser_session \<Rightarrow> 'w sys \<Rightarrow> 'w sys" where
  "insert_session x s =
     on_db (\<lambda>d. d\<lparr>next_id := Suc (next_id d), sessions := row_insert x (sessions d)\<rparr>) s"

definition create_session :: "'w backend \<Rightarrow> instant \<Rightarrow> uuid \<Rightarrow> 'w sys \<Rightarrow> (uuid, 'w) sys_outcome" where
  "create_session B now user s =
     (let active_count = count_active_sessions_for_user user (db s);
          limit = max_sessions_per_user (cfg B) in
      if active_count \<ge> limit then
        (Inl (QuotaExceededError (''user already has '' @ show_int active_count
            @ '' active session(s), limit is '' @ show_int limit)), s)
      else case select_node B now s of
        (Inl e, s) \<Rightarrow> (Inl e, s)
      | (Inr node, s) \<Rightarrow>
          let c = connection_for_node B (Some node);
              i = next_id (db s);
              session = new_session i now user (Some (n_id node))
                (resolve_session_resolution (db s) user) (resolve_clipboard_policy (db s) user)
          in case agent (bring_up B session c)
                    (on_db (set_session_status now i SS_STARTING) (insert_session session s)) of
               (Inl e, s) \<Rightarrow> start_failed B now user i c e s
             | (Inr _, s) \<Rightarrow> start_succeeded now user i s)"

section \<open>Ending, isolating, restoring, disconnecting\<close>

definition actor_meta :: "uuid \<Rightarrow> jobj option" where
  "actor_meta actor = Some [(''actor'', JId actor)]"

definition session_connection :: "'w backend \<Rightarrow> browser_session \<Rightarrow> database \<Rightarrow> connection" where
  "session_connection B session d = connection_for_node B (get_node (s_node_id session) d)"

definition terminate_session ::
  "'w backend \<Rightarrow> instant \<Rightarrow> browser_session \<Rightarrow> uuid \<Rightarrow> 'w sys \<Rightarrow> (unit, 'w) sys_outcome" where
  "terminate_session B now session actor s =
     (if s_status session = SS_TERMINATED then (Inr (), s)
      else
        let i = s_id session;
            s = on_db (set_session_status now i SS_TERMINATING) s;
            s = stop_polling i s;
            c = session_connection B session (db s)
        in case agent (terminate_sandbox B i c) s of
             (Inl e, s) \<Rightarrow>
               (Inl (SessionServiceError (''failed to terminate sandbox: '' @ error_detail e)),
                on_db (set_session_status now i SS_FAILED) s)
           | (Inr _, s) \<Rightarrow>
               (Inr (),
                on_db (record_security_event now EV_SESSION_TERMINATED (Some (s_user_id session)) (Some i) None (actor_meta actor))
                  (on_db (set_session now i (\<lambda>x. x\<lparr>s_status := SS_TERMINATED, s_ended_at := Some now\<rparr>)) s)))"

definition LIVE_STATUSES :: "session_status set" where
  "LIVE_STATUSES = {SS_QUEUED, SS_STARTING, SS_ACTIVE, SS_DISCONNECTED, SS_ISOLATING, SS_ISOLATED}"

fun terminate_all ::
  "'w backend \<Rightarrow> instant \<Rightarrow> uuid \<Rightarrow> browser_session list \<Rightarrow> 'w sys \<Rightarrow> uuid list \<times> 'w sys" where
  "terminate_all B now actor [] s = ([], s)"
| "terminate_all B now actor (x # xs) s =
     (case terminate_session B now x actor s of
        (Inl _, s) \<Rightarrow> terminate_all B now actor xs s
      | (Inr _, s) \<Rightarrow> (let (done_ids, s) = terminate_all B now actor xs s in (s_id x # done_ids, s)))"

definition revoke_user_sessions :: "'w backend \<Rightarrow> instant \<Rightarrow> uuid \<Rightarrow> uuid \<Rightarrow> 'w sys \<Rightarrow> uuid list \<times> 'w sys" where
  "revoke_user_sessions B now user actor s =
     (let live = filter (\<lambda>x. s_user_id x = user \<and> s_status x \<in> LIVE_STATUSES) (sessions (db s));
          (terminated, s) = terminate_all B now actor live s
      in if terminated = [] then (terminated, s)
         else (terminated,
               on_db (record_security_event now EV_USER_SESSIONS_REVOKED (Some user) None None
                 (Some [(''actor'', JId actor), (''session_count'', JInt (int (length terminated)))])) s))"

definition bad_status :: "string \<Rightarrow> browser_session \<Rightarrow> service_error" where
  "bad_status what session =
     SessionServiceError (''cannot '' @ what @ '' a session in status '' @ session_status_value (s_status session))"

definition isolation_incident :: "uuid \<Rightarrow> instant \<Rightarrow> browser_session \<Rightarrow> incident" where
  "isolation_incident i now session =
     \<lparr> i_id = i, i_created_at = now, i_updated_at = now, i_severity = IV_MEDIUM, i_status = IS_NEW,
       i_title = ''Browser session isolated by admin'',
       i_description = ''Session '' @ show_nat (s_id session) @ '' for user '' @ show_nat (s_user_id session)
         @ '' was isolated by an administrator (network egress, clipboard, and file transfer denied; sandbox preserved for review).'',
       i_user_id = Some (s_user_id session), i_session_id = Some (s_id session), i_quarantine_file_id = None,
       i_assigned_to = None, i_resolution = None \<rparr>"

definition isolate_session ::
  "'w backend \<Rightarrow> instant \<Rightarrow> browser_session \<Rightarrow> uuid \<Rightarrow> 'w sys \<Rightarrow> (unit, 'w) sys_outcome" where
  "isolate_session B now session actor s =
     (if s_status session \<notin> {SS_ACTIVE, SS_DISCONNECTED} then (Inl (bad_status ''isolate'' session), s)
      else
        let i = s_id session;
            s = on_db (set_session_status now i SS_ISOLATING) s;
            c = session_connection B session (db s)
        in case agent (isolate_sandbox B i c) s of
             (Inl e, s) \<Rightarrow>
               (Inl (SessionServiceError (''failed to isolate sandbox: '' @ error_detail e)),
                on_db (set_session_status now i SS_FAILED) s)
           | (Inr _, s) \<Rightarrow>
               let s = on_db (set_session_status now i SS_ISOLATED) s;
                   s = on_db (record_security_event now EV_SESSION_ISOLATED (Some (s_user_id session)) (Some i) None (actor_meta actor)) s;
                   (k, d) = fresh (db s)
               in (Inr (), s\<lparr>db := d\<lparr>incidents := row_insert (isolation_incident k now session) (incidents d)\<rparr>\<rparr>))"

definition restore_session ::
  "'w backend \<Rightarrow> instant \<Rightarrow> browser_session \<Rightarrow> uuid \<Rightarrow> 'w sys \<Rightarrow> (unit, 'w) sys_outcome" where
  "restore_session B now session actor s =
     (if s_status session \<noteq> SS_ISOLATED then (Inl (bad_status ''restore'' session), s)
      else
        let i = s_id session;
            c = session_connection B session (db s)
        in case agent (restore_sandbox B i c) s of
             (Inl e, s) \<Rightarrow>
               (Inl (SessionServiceError (''failed to restore sandbox: '' @ error_detail e)),
                on_db (set_session_status now i SS_FAILED) s)
           | (Inr _, s) \<Rightarrow>
               (Inr (),
                on_db (record_security_event now EV_SESSION_RESTORED (Some (s_user_id session)) (Some i) None (actor_meta actor))
                  (on_db (set_session now i (\<lambda>x. x\<lparr>s_status := SS_ACTIVE, s_viewer_connected_at := None,
                     s_last_activity_at := Some now\<rparr>)) s)))"

definition disconnect_session ::
  "instant \<Rightarrow> browser_session \<Rightarrow> uuid \<Rightarrow> 'w sys \<Rightarrow> (unit, 'w) sys_outcome" where
  "disconnect_session now session actor s =
     (if s_status session \<notin> {SS_ACTIVE, SS_DISCONNECTED} then (Inl (bad_status ''disconnect'' session), s)
      else
        (Inr (),
         on_db (record_security_event now EV_SESSION_DISCONNECTED (Some (s_user_id session)) (Some (s_id session)) None (actor_meta actor))
           (on_db (set_session now (s_id session) (\<lambda>x. x\<lparr>s_status := SS_DISCONNECTED, s_last_activity_at := Some now\<rparr>)) s)))"


section \<open>Routes\<close>

text \<open>
  What a route does with the outcome: the status it answers an error with, and whether it commits
  before answering. An error it does not catch is a 500, uncommitted. The world and the registries
  of the process are not undone by a rollback.
\<close>

type_synonym ('a, 'w) sys_response = "(http_error + 'a) \<times> 'w sys"

definition sys_respond ::
  "(service_error \<Rightarrow> nat \<times> bool) \<Rightarrow> 'w sys \<Rightarrow> ('a, 'w) sys_outcome \<Rightarrow> ('a, 'w) sys_response" where
  "sys_respond handle s r =
     (case r of
        (Inr x, s') \<Rightarrow> (Inr x, s')
      | (Inl e, s') \<Rightarrow>
          (let (status_code, commit) = handle e in
           (Inl (status_code, error_detail e), if commit then s' else s'\<lparr>db := db s\<rparr>)))"

definition handle_start :: "service_error \<Rightarrow> nat \<times> bool" where
  "handle_start e =
     (case e of QuotaExceededError _ \<Rightarrow> (429, False) | NoCapacityError _ \<Rightarrow> (503, False)
      | SessionServiceError _ \<Rightarrow> (502, True) | _ \<Rightarrow> (500, False))"

definition handle_session :: "nat \<Rightarrow> service_error \<Rightarrow> nat \<times> bool" where
  "handle_session status_code e =
     (case e of SessionServiceError _ \<Rightarrow> (status_code, True) | NoCapacityError _ \<Rightarrow> (status_code, True)
      | QuotaExceededError _ \<Rightarrow> (status_code, True) | _ \<Rightarrow> (500, False))"

definition start_session_route :: "'w backend \<Rightarrow> instant \<Rightarrow> uuid \<Rightarrow> 'w sys \<Rightarrow> (uuid, 'w) sys_response" where
  "start_session_route B now user s = sys_respond handle_start s (create_session B now user s)"

definition get_own_session_or_404 :: "database \<Rightarrow> uuid \<Rightarrow> uuid \<Rightarrow> http_error + browser_session" where
  "get_own_session_or_404 d i user =
     (case row_get s_id i (sessions d) of
        None \<Rightarrow> Inl (404, ''session not found'')
      | Some x \<Rightarrow> if s_user_id x \<noteq> user then Inl (404, ''session not found'') else Inr x)"

definition list_my_sessions :: "uuid \<Rightarrow> database \<Rightarrow> browser_session list" where
  "list_my_sessions user d = sort_key (\<lambda>x. - s_created_at x) (filter (\<lambda>x. s_user_id x = user) (sessions d))"

definition terminate_own_route :: "'w backend \<Rightarrow> instant \<Rightarrow> uuid \<Rightarrow> uuid \<Rightarrow> 'w sys \<Rightarrow> (unit, 'w) sys_response" where
  "terminate_own_route B now i user s =
     (case get_own_session_or_404 (db s) i user of
        Inl e \<Rightarrow> (Inl e, s)
      | Inr x \<Rightarrow>
          if s_status x \<in> {SS_ISOLATING, SS_ISOLATED} then
            (Inl (409, ''this session was isolated by an administrator for investigation and can only be ended by an administrator''), s)
          else sys_respond (handle_session 502) s (terminate_session B now x user s))"

definition with_session ::
  "nat \<Rightarrow> (browser_session \<Rightarrow> 'w sys \<Rightarrow> (unit, 'w) sys_outcome) \<Rightarrow> uuid \<Rightarrow> 'w sys \<Rightarrow> (unit, 'w) sys_response" where
  "with_session status_code f i s =
     (case row_get s_id i (sessions (db s)) of
        None \<Rightarrow> (Inl (404, ''session not found''), s)
      | Some x \<Rightarrow> sys_respond (handle_session status_code) s (f x s))"

definition admin_disconnect :: "instant \<Rightarrow> uuid \<Rightarrow> uuid \<Rightarrow> 'w sys \<Rightarrow> (unit, 'w) sys_response" where
  "admin_disconnect now actor = with_session 409 (\<lambda>x. disconnect_session now x actor)"

definition admin_isolate :: "'w backend \<Rightarrow> instant \<Rightarrow> uuid \<Rightarrow> uuid \<Rightarrow> 'w sys \<Rightarrow> (unit, 'w) sys_response" where
  "admin_isolate B now actor = with_session 409 (\<lambda>x. isolate_session B now x actor)"

definition admin_restore :: "'w backend \<Rightarrow> instant \<Rightarrow> uuid \<Rightarrow> uuid \<Rightarrow> 'w sys \<Rightarrow> (unit, 'w) sys_response" where
  "admin_restore B now actor = with_session 409 (\<lambda>x. restore_session B now x actor)"

definition admin_kill :: "'w backend \<Rightarrow> instant \<Rightarrow> uuid \<Rightarrow> uuid \<Rightarrow> 'w sys \<Rightarrow> (unit, 'w) sys_response" where
  "admin_kill B now actor = with_session 502 (\<lambda>x. terminate_session B now x actor)"

text \<open>The connection an admin disconnect or kill goes on to close (\<open>force_disconnect\<close>).\<close>

definition force_disconnect :: "uuid \<Rightarrow> 'w sys \<Rightarrow> nat option" where
  "force_disconnect i s = map_of (active_connections s) i"

end
