(* ===== verification/Bytes.thy ===== *)
theory Bytes
  imports Enums "HOL-Library.Word"
begin

text \<open>
  Byte strings as lists of 8-bit words, and the conversions between integers and big-endian bytes
  the wire formats use, with the round trips of both directions.
\<close>

section \<open>Conversions\<close>

type_synonym octet = "8 word"
type_synonym octets = "octet list"

text \<open>\<open>int.from_bytes(bs, "big")\<close> and with \<open>signed=True\<close>; \<open>n.to_bytes(k, "big")\<close>.\<close>

definition from_bytes_big :: "octets \<Rightarrow> nat" where
  "from_bytes_big bs = foldl (\<lambda>a b. a * 256 + unat b) 0 bs"

definition from_bytes_big_signed :: "octets \<Rightarrow> int" where
  "from_bytes_big_signed bs =
     (let n = int (from_bytes_big bs); m = 256 ^ length bs in if 2 * n \<ge> m then n - m else n)"

fun to_bytes_big :: "nat \<Rightarrow> int \<Rightarrow> octets" where
  "to_bytes_big 0 n = []"
| "to_bytes_big (Suc k) n = to_bytes_big k (n div 256) @ [word_of_int n]"

text \<open>\<open>buf[i:j]\<close>.\<close>

definition byte_range :: "nat \<Rightarrow> nat \<Rightarrow> 'a list \<Rightarrow> 'a list" where
  "byte_range i j xs = take (j - i) (drop i xs)"

section \<open>Round trips and bounds\<close>

lemma from_bytes_big_snoc: "from_bytes_big (bs @ [b]) = from_bytes_big bs * 256 + unat b"
  by (simp add: from_bytes_big_def)

lemma octet_less: "unat (b :: octet) < 256"
  using unsigned_less [of b, where 'a = nat] by simp

lemma from_bytes_big_less: "from_bytes_big bs < 256 ^ length bs"
proof (induction bs rule: rev_induct)
  case (snoc b bs)
  have "unat b < 256" by (rule octet_less)
  with snoc show ?case by (simp add: from_bytes_big_snoc)
qed (simp add: from_bytes_big_def)

lemma length_to_bytes_big [simp]: "length (to_bytes_big k n) = k"
  by (induction k arbitrary: n) auto

lemma unat_octet: "unat (word_of_int n :: octet) = nat (n mod 256)"
  by (simp add: unsigned_of_int take_bit_eq_mod nat_mod_distrib flip: unat_eq_nat_uint)

lemma from_to_bytes_big: "int (from_bytes_big (to_bytes_big k n)) = n mod 256 ^ k"
proof (induction k arbitrary: n)
  case (Suc k)
  have "n div 256 mod 256 ^ k * 256 + n mod 256 = n mod (256 * 256 ^ k)"
    by (subst zmod_zmult2_eq) auto
  then show ?case
    by (simp add: from_bytes_big_snoc unat_octet Suc)
qed (simp add: from_bytes_big_def)

lemma to_bytes_big_mod: "to_bytes_big k (n mod 256 ^ k) = to_bytes_big k n"
proof (induction k arbitrary: n)
  case (Suc k)
  have "n mod (256 * 256 ^ k) div 256 = n div 256 mod 256 ^ k"
    by (subst zmod_zmult2_eq) auto
  moreover have "word_of_int (n mod (256 * 256 ^ k)) = (word_of_int n :: octet)"
    by (simp add: word_of_int_eq_iff take_bit_eq_mod mod_mod_cancel)
  ultimately show ?case by (simp add: Suc)
qed simp

lemma zero256: "(256 :: octet) = 0"
  by simp

lemma to_from_bytes_big: "to_bytes_big (length bs) (int (from_bytes_big bs)) = bs"
proof (induction bs rule: rev_induct)
  case (snoc b bs)
  have "uint b div 256 = 0"
    using unsigned_less [of b, where 'a = int] by (simp add: div_pos_pos_trivial)
  then have "(int (from_bytes_big bs) * 256 + int (unat b)) div 256 = int (from_bytes_big bs)"
    by simp
  moreover have "word_of_int (int (from_bytes_big bs) * 256 + int (unat b)) = b"
    by (simp add: zero256)
  ultimately show ?case by (simp add: from_bytes_big_snoc snoc)
qed simp


lemma from_to_bytes_big_signed:
  assumes "- (256 ^ k) \<le> 2 * n" and "2 * n < 256 ^ k"
  shows "from_bytes_big_signed (to_bytes_big k n) = n"
proof (cases "0 \<le> n")
  case True
  then have "n mod 256 ^ k = n" using assms by simp
  then show ?thesis
    using assms by (simp add: from_bytes_big_signed_def from_to_bytes_big Let_def)
next
  case False
  then have "n mod 256 ^ k = n + 256 ^ k"
    using assms by (smt (verit) mod_add_self2 mod_pos_pos_trivial)
  then show ?thesis
    using assms False by (simp add: from_bytes_big_signed_def from_to_bytes_big Let_def)
qed

lemma from_bytes_big_less_int: "int (from_bytes_big bs) < 256 ^ length bs"
  using from_bytes_big_less [of bs] by (metis of_nat_less_iff of_nat_numeral of_nat_power)

lemma from_bytes_big_signed_mod: "from_bytes_big_signed bs mod 256 ^ length bs = int (from_bytes_big bs)"
  using from_bytes_big_less_int [of bs]
  by (auto simp: from_bytes_big_signed_def Let_def)

lemma to_from_bytes_big_signed: "to_bytes_big (length bs) (from_bytes_big_signed bs) = bs"
  by (metis from_bytes_big_signed_mod to_bytes_big_mod to_from_bytes_big)

lemma from_bytes_big_signed_bounds:
  "- (256 ^ length bs) \<le> 2 * from_bytes_big_signed bs \<and> 2 * from_bytes_big_signed bs < 256 ^ length bs"
proof -
  have "0 < (256 :: int) ^ length bs" by simp
  with from_bytes_big_less_int [of bs] show ?thesis
    unfolding from_bytes_big_signed_def Let_def by (smt (verit) of_nat_0_le_iff)
qed

end
