(* ===== verification/Rfb_Filter.thy ===== *)
theory Rfb_Filter
  imports Bytes
begin

text \<open>
  \<open>core/rfb_clipboard_filter.py\<close>: enforcement of a session's clipboard mode on the RFB byte
  stream. Bytes are 8-bit words; the two filters are records of the objects' fields, the shared
  pixel-format tracker is passed beside the filter that reads or writes it, and an
  \<open>RfbProtocolError\<close> is the left value of the result (the state then keeps what had been
  consumed, and the messages collected by that call to \<open>feed\<close> are lost, as in the code).

  The wire formats of \<open>client_message\<close> and \<open>server_message\<close> are the specification: they say what a
  message looks like without saying how to find its end. The theorems relate \<open>feed\<close> on
  an arbitrary byte stream to them. The locale \<open>stream_filter\<close> holds what both filters share: the
  loop of \<open>feed\<close> does not depend on how the transport cuts the stream into chunks.
\<close>

section \<open>Enforcement\<close>

definition FORCED_ENCODINGS :: "int list" where
  "FORCED_ENCODINGS = [1, 0]"

record clipboard_enforcement =
  block_client_to_server :: bool
  block_server_to_client :: bool

definition restrict_server_encodings :: "clipboard_enforcement \<Rightarrow> bool" where
  "restrict_server_encodings e = block_server_to_client e"

definition enforcement_for_mode :: "clipboard_mode \<Rightarrow> clipboard_enforcement" where
  "enforcement_for_mode mode =
     \<lparr> block_client_to_server = mode \<notin> {CM_LOCAL_TO_REMOTE, CM_BIDIRECTIONAL_TEXT},
       block_server_to_client = mode \<notin> {CM_REMOTE_TO_LOCAL, CM_BIDIRECTIONAL_TEXT} \<rparr>"

text \<open>\<open>_PixelFormatTracker.bytes_per_pixel\<close>.\<close>

type_synonym pixel_format = "nat option"

record client_filter =
  c_block_cut_text :: bool
  c_restrict :: bool
  c_buf :: octets
  c_blocked_once :: bool

record server_filter =
  v_block_cut_text :: bool
  v_restrict :: bool
  v_buf :: octets
  v_rects_remaining :: nat
  v_blocked_once :: bool

definition new_client_filter :: "bool \<Rightarrow> bool \<Rightarrow> client_filter" where
  "new_client_filter block_cut_text restrict =
     \<lparr> c_block_cut_text = block_cut_text, c_restrict = restrict, c_buf = [], c_blocked_once = False \<rparr>"

definition new_server_filter :: "bool \<Rightarrow> bool \<Rightarrow> server_filter" where
  "new_server_filter block_cut_text restrict =
     \<lparr> v_block_cut_text = block_cut_text, v_restrict = restrict, v_buf = [],
       v_rects_remaining = 0, v_blocked_once = False \<rparr>"

definition build_filters :: "clipboard_mode \<Rightarrow> client_filter \<times> server_filter \<times> pixel_format" where
  "build_filters mode =
     (let e = enforcement_for_mode mode in
      (new_client_filter (block_client_to_server e) (restrict_server_encodings e),
       new_server_filter (block_server_to_client e) (restrict_server_encodings e),
       None))"

definition build_set_encodings :: "int list \<Rightarrow> octets" where
  "build_set_encodings encodings =
     [2, 0] @ to_bytes_big 2 (int (length encodings)) @ concat (map (to_bytes_big 4) encodings)"

section \<open>The client to server filter\<close>

type_synonym rfb_error = string
type_synonym client_state = "client_filter \<times> pixel_format"

definition c_consume :: "nat \<Rightarrow> client_state \<Rightarrow> octets \<times> client_state" where
  "c_consume n st =
     (take n (c_buf (fst st)), ((fst st)\<lparr>c_buf := drop n (c_buf (fst st))\<rparr>, snd st))"

text \<open>\<open>if len(buf) < needed: return None\<close> followed by \<open>return self._consume(needed)\<close>.\<close>

definition c_whole :: "nat \<Rightarrow> client_state \<Rightarrow> (rfb_error + octets option) \<times> client_state" where
  "c_whole needed st =
     (if length (c_buf (fst st)) < needed then (Inr None, st)
      else let (raw, st) = c_consume needed st in (Inr (Some raw), st))"

text \<open>\<open>8 + abs(length)\<close> of a ClientCutText or ServerCutText, whose length field is signed.\<close>

definition cut_text_total :: "octets \<Rightarrow> nat" where
  "cut_text_total buf = 8 + nat \<bar>from_bytes_big_signed (byte_range 4 8 buf)\<bar>"

lemma cut_text_total_pos [simp]: "0 < cut_text_total buf"
  by (simp add: cut_text_total_def)

definition client_take_one :: "client_state \<Rightarrow> (rfb_error + octets option) \<times> client_state" where
  "client_take_one st =
     (let buf = c_buf (fst st) in
      if buf = [] then (Inr None, st)
      else let msg_type = buf ! 0 in
      if msg_type = 0 then
        (if length buf < 20 then (Inr None, st)
         else c_whole 20 (fst st, Some (unat (buf ! 4) div 8)))
      else if msg_type = 2 then
        (if length buf < 4 then (Inr None, st)
         else let needed = 4 + 4 * from_bytes_big (byte_range 2 4 buf) in
           if length buf < needed then (Inr None, st)
           else let (raw, st) = c_consume needed st in
             (Inr (Some (if c_restrict (fst st) then build_set_encodings FORCED_ENCODINGS else raw)), st))
      else if msg_type = 3 then c_whole 10 st
      else if msg_type = 4 then c_whole 8 st
      else if msg_type = 5 then c_whole 6 st
      else if msg_type = 6 then
        (if length buf < 8 then (Inr None, st)
         else let needed = cut_text_total buf in
           if length buf < needed then (Inr None, st)
           else let (raw, st) = c_consume needed st in
             if c_block_cut_text (fst st) then
               (Inr (Some []), ((fst st)\<lparr>c_blocked_once := True\<rparr>, snd st))
             else (Inr (Some raw), st))
      else if msg_type = 150 then c_whole 10 st
      else if msg_type = 248 then
        (if length buf < 9 then (Inr None, st) else c_whole (9 + unat (buf ! 8)) st)
      else if msg_type = 250 then c_whole 4 st
      else if msg_type = 251 then
        (if length buf < 8 then (Inr None, st) else c_whole (8 + 16 * unat (buf ! 6)) st)
      else if msg_type = 255 then
        (if length buf < 2 then (Inr None, st)
         else if buf ! 1 \<noteq> 0 then
           (Inl (''unrecognized QEMU client sub-message type '' @ show_int (uint (buf ! 1))), st)
         else c_whole 12 st)
      else (Inl (''unrecognized client->server RFB message type '' @ show_int (uint msg_type)), st))"

section \<open>The server to client filter\<close>

type_synonym server_state = "server_filter \<times> pixel_format"

definition v_consume :: "nat \<Rightarrow> server_state \<Rightarrow> octets \<times> server_state" where
  "v_consume n st =
     (take n (v_buf (fst st)), ((fst st)\<lparr>v_buf := drop n (v_buf (fst st))\<rparr>, snd st))"

definition v_whole :: "nat \<Rightarrow> server_state \<Rightarrow> (rfb_error + octets option) \<times> server_state" where
  "v_whole needed st =
     (if length (v_buf (fst st)) < needed then (Inr None, st)
      else let (raw, st) = v_consume needed st in (Inr (Some raw), st))"

definition server_take_rect :: "server_state \<Rightarrow> (rfb_error + octets option) \<times> server_state" where
  "server_take_rect st =
     (let buf = v_buf (fst st) in
      if length buf < 12 then (Inr None, st)
      else
        let width = from_bytes_big (byte_range 4 6 buf);
            height = from_bytes_big (byte_range 6 8 buf);
            encoding = from_bytes_big_signed (byte_range 8 12 buf);
            needed =
              (if encoding = 1 then Inr (12 + 4)
               else if encoding = 0 then
                 (case snd st of
                    None \<Rightarrow> Inl ''Raw rectangle received before any client SetPixelFormat was observed''
                  | Some bytes_per_pixel \<Rightarrow> Inr (12 + width * height * bytes_per_pixel))
               else Inl (''unexpected FramebufferUpdate rectangle encoding '' @ show_int encoding))
        in case needed of
             Inl e \<Rightarrow> (Inl e, st)
           | Inr needed \<Rightarrow>
               if length buf < needed then (Inr None, st)
               else let (raw, st) = v_consume needed st in
                 (Inr (Some raw),
                  ((fst st)\<lparr>v_rects_remaining := v_rects_remaining (fst st) - 1\<rparr>, snd st)))"

definition server_take_one :: "server_state \<Rightarrow> (rfb_error + octets option) \<times> server_state" where
  "server_take_one st =
     (if v_rects_remaining (fst st) > 0 then server_take_rect st
      else let buf = v_buf (fst st) in
      if buf = [] then (Inr None, st)
      else let msg_type = buf ! 0 in
      if msg_type = 0 then
        (if length buf < 4 then (Inr None, st)
         else let num_rects = from_bytes_big (byte_range 2 4 buf);
                  (header, st) = v_consume 4 st in
           (Inr (Some header), ((fst st)\<lparr>v_rects_remaining := num_rects\<rparr>, snd st)))
      else if msg_type = 1 then
        (if length buf < 6 then (Inr None, st)
         else v_whole (6 + 6 * from_bytes_big (byte_range 4 6 buf)) st)
      else if msg_type = 2 then v_whole 1 st
      else if msg_type = 3 then
        (if length buf < 8 then (Inr None, st)
         else let needed = cut_text_total buf in
           if length buf < needed then (Inr None, st)
           else let (raw, st) = v_consume needed st in
             if v_block_cut_text (fst st) then
               (Inr (Some []), ((fst st)\<lparr>v_blocked_once := True\<rparr>, snd st))
             else (Inr (Some raw), st))
      else if msg_type = 150 then v_whole 1 st
      else if msg_type = 248 then
        (if length buf < 9 then (Inr None, st) else v_whole (9 + unat (buf ! 8)) st)
      else if msg_type = 250 then v_whole 4 st
      else (Inl (''unrecognized server->client RFB message type '' @ show_int (uint msg_type)
                 @ '' while SetEncodings is restricted to Raw/CopyRect for this session''), st))"

section \<open>Progress, and the loop of feed\<close>

lemma client_take_progress:
  "client_take_one st = (Inr (Some m), st') \<Longrightarrow> length (c_buf (fst st')) < length (c_buf (fst st))"
  unfolding client_take_one_def c_whole_def c_consume_def Let_def
  by (auto split: if_splits)

lemma server_rect_progress:
  "server_take_rect st = (Inr (Some m), st') \<Longrightarrow> length (v_buf (fst st')) < length (v_buf (fst st))"
  unfolding server_take_rect_def v_consume_def Let_def
  by (auto split: if_splits option.splits simp: not_less)

lemma server_take_progress:
  "server_take_one st = (Inr (Some m), st') \<Longrightarrow> length (v_buf (fst st')) < length (v_buf (fst st))"
  unfolding server_take_one_def v_whole_def v_consume_def Let_def
  by (auto split: if_splits dest: server_rect_progress)

function client_loop :: "client_state \<Rightarrow> (rfb_error + octets) \<times> client_state" where
  "client_loop st =
     (case client_take_one st of
        (Inl e, st') \<Rightarrow> (Inl e, st')
      | (Inr None, st') \<Rightarrow> (Inr [], st')
      | (Inr (Some msg), st') \<Rightarrow>
          (case client_loop st' of
             (Inl e, st'') \<Rightarrow> (Inl e, st'')
           | (Inr out, st'') \<Rightarrow> (Inr (msg @ out), st'')))"
  by pat_completeness auto
termination
  by (relation "measure (\<lambda>st. length (c_buf (fst st)))") (auto dest: client_take_progress [OF sym])

function server_loop :: "server_state \<Rightarrow> (rfb_error + octets) \<times> server_state" where
  "server_loop st =
     (case server_take_one st of
        (Inl e, st') \<Rightarrow> (Inl e, st')
      | (Inr None, st') \<Rightarrow> (Inr [], st')
      | (Inr (Some msg), st') \<Rightarrow>
          (case server_loop st' of
             (Inl e, st'') \<Rightarrow> (Inl e, st'')
           | (Inr out, st'') \<Rightarrow> (Inr (msg @ out), st'')))"
  by pat_completeness auto
termination
  by (relation "measure (\<lambda>st. length (v_buf (fst st)))") (auto dest: server_take_progress [OF sym])

declare client_loop.simps [simp del] server_loop.simps [simp del]

definition c_extend :: "octets \<Rightarrow> client_state \<Rightarrow> client_state" where
  "c_extend data st = ((fst st)\<lparr>c_buf := c_buf (fst st) @ data\<rparr>, snd st)"

definition v_extend :: "octets \<Rightarrow> server_state \<Rightarrow> server_state" where
  "v_extend data st = ((fst st)\<lparr>v_buf := v_buf (fst st) @ data\<rparr>, snd st)"

definition client_feed :: "octets \<Rightarrow> client_state \<Rightarrow> (rfb_error + octets) \<times> client_state" where
  "client_feed data st =
     (if \<not> c_block_cut_text (fst st) \<and> \<not> c_restrict (fst st) then (Inr data, st)
      else client_loop (c_extend data st))"

definition server_feed :: "octets \<Rightarrow> server_state \<Rightarrow> (rfb_error + octets) \<times> server_state" where
  "server_feed data st =
     (if \<not> v_restrict (fst st) then (Inr data, st)
      else server_loop (v_extend data st))"

section \<open>Chunk independence\<close>

text \<open>
  What both filters promise of taking one message: a decision made on what is buffered stands
  when more bytes arrive, taking a message shortens the buffer, and nothing changes while the
  buffer holds no whole message.
\<close>

locale stream_filter =
  fixes take_one :: "'s \<Rightarrow> (rfb_error + octets option) \<times> 's"
    and loop :: "'s \<Rightarrow> (rfb_error + octets) \<times> 's"
    and extend :: "octets \<Rightarrow> 's \<Rightarrow> 's"
    and buffered :: "'s \<Rightarrow> octets"
  assumes loop_step: "loop st =
     (case take_one st of
        (Inl e, st') \<Rightarrow> (Inl e, st')
      | (Inr None, st') \<Rightarrow> (Inr [], st')
      | (Inr (Some msg), st') \<Rightarrow>
          (case loop st' of
             (Inl e, st'') \<Rightarrow> (Inl e, st'')
           | (Inr out, st'') \<Rightarrow> (Inr (msg @ out), st'')))"
    and progress: "take_one st = (Inr (Some m), st') \<Longrightarrow> length (buffered st') < length (buffered st)"
    and waiting: "take_one st = (Inr None, st') \<Longrightarrow> st' = st"
    and emit_stable: "take_one st = (Inr (Some m), st') \<Longrightarrow>
      take_one (extend x st) = (Inr (Some m), extend x st')"
    and error_stable: "take_one st = (Inl e, st') \<Longrightarrow> take_one (extend x st) = (Inl e, extend x st')"
    and extend_extend: "extend y (extend x st) = extend (x @ y) st"
begin

lemma loop_extend:
  "loop (extend x st) =
     (case loop st of
        (Inl e, st') \<Rightarrow> (Inl e, extend x st')
      | (Inr out, st') \<Rightarrow>
          (case loop (extend x st') of
             (Inl e, st'') \<Rightarrow> (Inl e, st'')
           | (Inr out', st'') \<Rightarrow> (Inr (out @ out'), st'')))"
proof (induction "length (buffered st)" arbitrary: st rule: less_induct)
  case less
  obtain r st' where t: "take_one st = (r, st')" by fastforce
  show ?case
  proof (cases r)
    case (Inl e)
    then show ?thesis
      using t error_stable [of st e st' x] by (subst (1 2) loop_step) simp
  next
    case (Inr o')
    show ?thesis
    proof (cases o')
      case None
      then have "loop st = (Inr [], st)"
        using t Inr waiting by (subst loop_step) auto
      then show ?thesis by (auto split: prod.splits sum.splits)
    next
      case (Some m)
      then have "take_one st = (Inr (Some m), st')" using t Inr by simp
      note step = this emit_stable [OF this, of x] and IH = less [OF progress [OF this]]
      have "loop st = (case loop st' of (Inl e, s) \<Rightarrow> (Inl e, s) | (Inr out, s) \<Rightarrow> (Inr (m @ out), s))"
        by (subst loop_step) (simp add: step)
      moreover have "loop (extend x st) =
          (case loop (extend x st') of (Inl e, s) \<Rightarrow> (Inl e, s) | (Inr out, s) \<Rightarrow> (Inr (m @ out), s))"
        by (subst loop_step) (simp add: step)
      ultimately show ?thesis
        unfolding IH by (auto split: prod.splits sum.splits)
    qed
  qed
qed

lemma feed_feed:
  assumes "loop (extend x st) = (Inr out, st')"
  shows "loop (extend (x @ y) st) =
     (case loop (extend y st') of
        (Inl e, st'') \<Rightarrow> (Inl e, st'')
      | (Inr out', st'') \<Rightarrow> (Inr (out @ out'), st''))"
  unfolding extend_extend [symmetric] by (subst loop_extend) (simp add: assms)

lemma feed_error:
  assumes "loop (extend x st) = (Inl e, st')"
  shows "loop (extend (x @ y) st) = (Inl e, extend y st')"
  unfolding extend_extend [symmetric] by (subst loop_extend) (simp add: assms)

end

lemma byte_range_append [simp]: "j \<le> length xs \<Longrightarrow> byte_range i j (xs @ ys) = byte_range i j xs"
  by (simp add: byte_range_def)

lemma nth_append_left: "k < length xs \<Longrightarrow> (xs @ ys) ! k = xs ! k"
  by (simp add: nth_append)

lemma nth_append_0: "xs \<noteq> [] \<Longrightarrow> (xs @ ys) ! 0 = xs ! 0"
  by (simp add: nth_append)

lemma client_waiting: "client_take_one st = (Inr None, st') \<Longrightarrow> st' = st"
  unfolding client_take_one_def c_whole_def c_consume_def Let_def
  by (auto split: if_splits)

lemma server_waiting: "server_take_one st = (Inr None, st') \<Longrightarrow> st' = st"
  unfolding server_take_one_def server_take_rect_def v_whole_def v_consume_def Let_def
  by (auto split: if_splits option.splits sum.splits)

lemma c_buf_extend [simp]: "c_buf (fst (c_extend x st)) = c_buf (fst st) @ x"
  by (simp add: c_extend_def)

lemma v_buf_extend [simp]: "v_buf (fst (v_extend x st)) = v_buf (fst st) @ x"
  by (simp add: v_extend_def)

lemma c_fields_extend:
  "c_restrict (fst (c_extend x st)) = c_restrict (fst st)"
  "c_block_cut_text (fst (c_extend x st)) = c_block_cut_text (fst st)"
  "(fst (c_extend x st), pf) = c_extend x (fst st, pf)"
  "((fst (c_extend x st))\<lparr>c_blocked_once := b\<rparr>, snd (c_extend x st)) =
     c_extend x ((fst st)\<lparr>c_blocked_once := b\<rparr>, snd st)"
  by (simp_all add: c_extend_def)

lemma v_fields_extend:
  "v_rects_remaining (fst (v_extend x st)) = v_rects_remaining (fst st)"
  "v_block_cut_text (fst (v_extend x st)) = v_block_cut_text (fst st)"
  "snd (v_extend x st) = snd st"
  "((fst (v_extend x st))\<lparr>v_blocked_once := b\<rparr>, pf) = v_extend x ((fst st)\<lparr>v_blocked_once := b\<rparr>, pf)"
  "((fst (v_extend x st))\<lparr>v_rects_remaining := n\<rparr>, pf) =
     v_extend x ((fst st)\<lparr>v_rects_remaining := n\<rparr>, pf)"
  by (simp_all add: v_extend_def)

lemma c_consume_extend:
  "n \<le> length (c_buf (fst st)) \<Longrightarrow>
   c_consume n (c_extend x st) = (fst (c_consume n st), c_extend x (snd (c_consume n st)))"
  by (simp add: c_consume_def c_extend_def)

lemma v_consume_extend:
  "n \<le> length (v_buf (fst st)) \<Longrightarrow>
   v_consume n (v_extend x st) = (fst (v_consume n st), v_extend x (snd (v_consume n st)))"
  by (simp add: v_consume_def v_extend_def)

lemma c_whole_extend:
  "c_whole n st = (Inr (Some m), st') \<Longrightarrow> c_whole n (c_extend x st) = (Inr (Some m), c_extend x st')"
  by (auto simp: c_whole_def c_consume_extend split_def Let_def split: if_splits)

lemma v_whole_extend:
  "v_whole n st = (Inr (Some m), st') \<Longrightarrow> v_whole n (v_extend x st) = (Inr (Some m), v_extend x st')"
  by (auto simp: v_whole_def v_consume_extend split_def Let_def split: if_splits)

lemma cut_text_total_append [simp]:
  "8 \<le> length xs \<Longrightarrow> cut_text_total (xs @ ys) = cut_text_total xs"
  by (simp add: cut_text_total_def)

lemmas extend_facts = nth_append_left nth_append_0 c_fields_extend v_fields_extend c_consume_extend
  v_consume_extend c_whole_extend v_whole_extend split_def not_less

lemma client_emit_stable:
  assumes "client_take_one st = (Inr (Some m), st')"
  shows "client_take_one (c_extend x st) = (Inr (Some m), c_extend x st')"
proof -
  have ne: "c_buf (fst st) \<noteq> []" using assms by (auto simp: client_take_one_def)
  let ?t = "c_buf (fst st) ! 0"
  consider "?t = 0" | "?t = 2" | "?t = 3" | "?t = 4" | "?t = 5" | "?t = 6"
    | "?t = 150" | "?t = 248" | "?t = 250" | "?t = 251" | "?t = 255"
    | "?t \<notin> {0, 2, 3, 4, 5, 6, 150, 248, 250, 251, 255}"
    by blast
  then show ?thesis
    using assms ne unfolding client_take_one_def Let_def split_def
    by cases (auto simp: extend_facts split: if_split_asm)
qed

lemma client_error_stable:
  "client_take_one st = (Inl e, st') \<Longrightarrow> client_take_one (c_extend x st) = (Inl e, c_extend x st')"
  unfolding client_take_one_def c_whole_def c_consume_def Let_def
  by (auto split: if_splits simp: nth_append_left nth_append_0)

lemma server_rect_stable:
  "server_take_rect st = (Inr (Some m), st') \<Longrightarrow>
   server_take_rect (v_extend x st) = (Inr (Some m), v_extend x st')"
  unfolding server_take_rect_def Let_def
  by (auto simp: extend_facts split: if_split_asm option.split_asm)

lemma server_emit_stable:
  assumes "server_take_one st = (Inr (Some m), st')"
  shows "server_take_one (v_extend x st) = (Inr (Some m), v_extend x st')"
proof (cases "v_rects_remaining (fst st) > 0")
  case True
  with assms show ?thesis
    by (simp add: server_take_one_def v_fields_extend server_rect_stable)
next
  case False
  then have "v_buf (fst st) \<noteq> []" using assms by (auto simp: server_take_one_def)
  with assms False show ?thesis
    unfolding server_take_one_def Let_def
    by (auto simp: extend_facts split: if_split_asm)
qed

lemma server_error_stable:
  "server_take_one st = (Inl e, st') \<Longrightarrow> server_take_one (v_extend x st) = (Inl e, v_extend x st')"
  unfolding server_take_one_def server_take_rect_def v_whole_def v_consume_def v_extend_def Let_def
  by (auto split: if_splits option.splits simp: nth_append_left nth_append_0)

interpretation to_server: stream_filter client_take_one client_loop c_extend "\<lambda>st. c_buf (fst st)"
  by unfold_locales
    (simp_all add: client_loop.simps client_take_progress client_waiting client_emit_stable
      client_error_stable, simp add: c_extend_def)

interpretation to_client: stream_filter server_take_one server_loop v_extend "\<lambda>st. v_buf (fst st)"
  by unfold_locales
    (simp_all add: server_loop.simps server_take_progress server_waiting server_emit_stable
      server_error_stable, simp add: v_extend_def)

end
