(* ===== verification/Rfb_Messages.thy ===== *)
theory Rfb_Messages
  imports Rfb_Filter
begin

text \<open>
  The wire formats of the RFB messages of both directions, as datatypes with their encoders, and
  what the two filters of \<open>Rfb_Filter\<close> make of a byte stream in terms of them: a filter takes
  exactly one well-formed message at a time (\<open>client_take_decoded\<close>, \<open>server_take_decoded\<close>) and
  accepts every well-formed message (\<open>client_take_encoded\<close>, \<open>server_take_encoded\<close>); the loops
  lift this to streams.
\<close>

section \<open>Wire formats\<close>

datatype client_message =
    SetPixelFormat octets
  | SetEncodings octet octets
  | FramebufferUpdateRequest octets
  | KeyEvent octets
  | PointerEvent octets
  | ClientCutText octets int octets
  | EnableContinuousUpdates octets
  | ClientFence octets octets
  | ClientXvp octets
  | SetDesktopSize octets octet octet octets
  | QemuKeyEvent octets

primrec encode_client :: "client_message \<Rightarrow> octets" where
  "encode_client (SetPixelFormat b) = 0 # b"
| "encode_client (SetEncodings pad encs) = [2, pad] @ to_bytes_big 2 (int (length encs div 4)) @ encs"
| "encode_client (FramebufferUpdateRequest b) = 3 # b"
| "encode_client (KeyEvent b) = 4 # b"
| "encode_client (PointerEvent b) = 5 # b"
| "encode_client (ClientCutText pad n content) = 6 # pad @ to_bytes_big 4 n @ content"
| "encode_client (EnableContinuousUpdates b) = 150 # b"
| "encode_client (ClientFence b payload) = 248 # b @ [word_of_nat (length payload)] @ payload"
| "encode_client (ClientXvp b) = 250 # b"
| "encode_client (SetDesktopSize b n pad screens) = 251 # b @ [n, pad] @ screens"
| "encode_client (QemuKeyEvent b) = [255, 0] @ b"

primrec client_message_ok :: "client_message \<Rightarrow> bool" where
  "client_message_ok (SetPixelFormat b) = (length b = 19)"
| "client_message_ok (SetEncodings pad encs) = (4 dvd length encs \<and> length encs div 4 < 65536)"
| "client_message_ok (FramebufferUpdateRequest b) = (length b = 9)"
| "client_message_ok (KeyEvent b) = (length b = 7)"
| "client_message_ok (PointerEvent b) = (length b = 5)"
| "client_message_ok (ClientCutText pad n content) =
     (length pad = 3 \<and> - (2 ^ 31) \<le> n \<and> n < 2 ^ 31 \<and> int (length content) = \<bar>n\<bar>)"
| "client_message_ok (EnableContinuousUpdates b) = (length b = 9)"
| "client_message_ok (ClientFence b payload) = (length b = 7 \<and> length payload < 256)"
| "client_message_ok (ClientXvp b) = (length b = 3)"
| "client_message_ok (SetDesktopSize b n pad screens) = (length b = 5 \<and> length screens = 16 * unat n)"
| "client_message_ok (QemuKeyEvent b) = (length b = 10)"

definition is_client_cut_text :: "client_message \<Rightarrow> bool" where
  "is_client_cut_text m = (case m of ClientCutText _ _ _ \<Rightarrow> True | _ \<Rightarrow> False)"

text \<open>What enforcement makes of a message, and of the tracked pixel format.\<close>

definition forward_client :: "bool \<Rightarrow> bool \<Rightarrow> client_message \<Rightarrow> octets" where
  "forward_client block restrict m =
     (case m of
        ClientCutText _ _ _ \<Rightarrow> if block then [] else encode_client m
      | SetEncodings _ _ \<Rightarrow>
          if restrict then encode_client (SetEncodings 0 (to_bytes_big 4 1 @ to_bytes_big 4 0))
          else encode_client m
      | _ \<Rightarrow> encode_client m)"

definition track_pixel_format :: "client_message \<Rightarrow> pixel_format \<Rightarrow> pixel_format" where
  "track_pixel_format m pf = (case m of SetPixelFormat b \<Rightarrow> Some (unat (b ! 3) div 8) | _ \<Rightarrow> pf)"

lemma forced_encodings_message:
  "build_set_encodings FORCED_ENCODINGS = encode_client (SetEncodings 0 (to_bytes_big 4 1 @ to_bytes_big 4 0))"
  by (simp add: build_set_encodings_def FORCED_ENCODINGS_def)

lemma byte_range_middle:
  "length pre = i \<Longrightarrow> length mid = j - i \<Longrightarrow> byte_range i j (pre @ mid @ post) = mid"
  by (simp add: byte_range_def)

lemma range_2_4: "length mid = 2 \<Longrightarrow> byte_range 2 4 (a # b # mid @ post) = mid"
  using byte_range_middle [of "[a, b]" 2 mid 4 post] by simp

lemma range_4_6: "length pre = 3 \<Longrightarrow> length mid = 2 \<Longrightarrow> byte_range 4 6 (a # pre @ mid @ post) = mid"
  using byte_range_middle [of "a # pre" 4 mid 6 post] by simp

lemma range_4_8: "length pre = 3 \<Longrightarrow> length mid = 4 \<Longrightarrow> byte_range 4 8 (a # pre @ mid @ post) = mid"
  using byte_range_middle [of "a # pre" 4 mid 8 post] by simp

lemma from_to_2: "n < 65536 \<Longrightarrow> from_bytes_big (to_bytes_big 2 (int n)) = n"
  using from_to_bytes_big [of 2 "int n"] by simp

lemma cut_text_total_eq:
  "length pad = 3 \<Longrightarrow> - (2 ^ 31) \<le> n \<Longrightarrow> n < 2 ^ 31 \<Longrightarrow>
   cut_text_total (t # pad @ to_bytes_big 4 n @ post) = 8 + nat \<bar>n\<bar>"
  by (simp add: cut_text_total_def range_4_8 from_to_bytes_big_signed)

lemma unat_word_of_nat_octet: "n < 256 \<Longrightarrow> unat (word_of_nat n :: octet) = n"
  by (simp add: unsigned_of_nat take_bit_eq_mod)

lemma nat_abs_length: "int (length xs) = \<bar>n\<bar> \<Longrightarrow> nat \<bar>n\<bar> = length xs"
  by simp

text \<open>One step of the filter on a stream that starts with a message.\<close>

lemma client_take_encoded:
  assumes "client_message_ok m" and "c_buf f = encode_client m @ rest"
  shows "\<exists>f'. client_take_one (f, pf) =
      (Inr (Some (forward_client (c_block_cut_text f) (c_restrict f) m)), (f', track_pixel_format m pf))
    \<and> c_buf f' = rest \<and> c_block_cut_text f' = c_block_cut_text f \<and> c_restrict f' = c_restrict f"
  using assms
  by (cases m)
   (auto simp add: client_take_one_def c_whole_def c_consume_def Let_def forward_client_def 
     track_pixel_format_def nth_append range_2_4 from_to_2 cut_text_total_eq forced_encodings_message
     unat_word_of_nat_octet take_Cons' drop_Cons' nat_abs_length elim!: dvdE)


lemma byte_range_rest:
  assumes "4 \<le> length b"
  shows "byte_range 4 8 (t # b) = take 4 (drop 3 b)" "byte_range 2 4 (t # b) = take 2 (drop 1 b)"
  by (simp_all add: byte_range_def)

lemma two_and_more:
  assumes "3 \<le> length b"
  shows "b = b ! 0 # take 2 (drop 1 b) @ drop 3 b"
proof -
  have "b = b ! 0 # drop 1 b" using assms by (cases b) auto
  moreover have "drop 1 b = take 2 (drop 1 b) @ drop 3 b"
    using append_take_drop_id [of 2 "drop 1 b"] by simp
  ultimately show ?thesis by (rule trans [OF _ arg_cong])
qed

text \<open>Conversely, the filter only emits when the stream starts with a message.\<close>

lemma client_emit_message:
  assumes "client_take_one (f, pf) = (Inr (Some x), st')"
  shows "\<exists>m rest. client_message_ok m \<and> c_buf f = encode_client m @ rest"
proof -
  obtain t b where buf: "c_buf f = t # b"
    using assms by (cases "c_buf f") (auto simp: client_take_one_def)
  consider "t = 0" | "t = 2" | "t = 3" | "t = 4" | "t = 5" | "t = 6" | "t = 150" | "t = 248" | "t = 250"
    | "t = 251" | "t = 255" | "t \<notin> {0, 2, 3, 4, 5, 6, 150, 248, 250, 251, 255}"
    by blast
  then show ?thesis
  proof cases
    case 1
    then have "19 \<le> length b" using assms buf by (auto simp: client_take_one_def split: if_splits)
    then show ?thesis using buf 1
      by (intro exI [of _ "SetPixelFormat (take 19 b)"] exI [of _ "drop 19 b"]) simp
  next
    case 2
    let ?n = "from_bytes_big (byte_range 2 4 (t # b))"
    have len: "3 + 4 * ?n \<le> length b" using assms buf 2
      by (auto simp: client_take_one_def Let_def split: if_splits)
    then have n: "to_bytes_big 2 (int ?n) = take 2 (drop 1 b)" "?n < 65536"
      using to_from_bytes_big [of "byte_range 2 4 (t # b)"] from_bytes_big_less [of "byte_range 2 4 (t # b)"]
      by (auto simp: byte_range_def)
    have "b = b ! 0 # take 2 (drop 1 b) @ take (4 * ?n) (drop 3 b) @ drop (4 * ?n) (drop 3 b)"
      using two_and_more [of b] len by (simp only: append_take_drop_id)
    moreover have "length (take (4 * ?n) (drop 3 b)) = 4 * ?n" using len by simp
    ultimately show ?thesis using buf 2 n
      by (intro exI [of _ "SetEncodings (b ! 0) (take (4 * ?n) (drop 3 b))"] exI [of _ "drop (4 * ?n) (drop 3 b)"])
        (simp del: length_take drop_drop)
  next
    case 3
    then have "9 \<le> length b" using assms buf by (auto simp: client_take_one_def c_whole_def split: if_splits)
    then show ?thesis using buf 3
      by (intro exI [of _ "FramebufferUpdateRequest (take 9 b)"] exI [of _ "drop 9 b"]) simp
  next
    case 4
    then have "7 \<le> length b" using assms buf by (auto simp: client_take_one_def c_whole_def split: if_splits)
    then show ?thesis using buf 4
      by (intro exI [of _ "KeyEvent (take 7 b)"] exI [of _ "drop 7 b"]) simp
  next
    case 5
    then have "5 \<le> length b" using assms buf by (auto simp: client_take_one_def c_whole_def split: if_splits)
    then show ?thesis using buf 5
      by (intro exI [of _ "PointerEvent (take 5 b)"] exI [of _ "drop 5 b"]) simp
  next
    case 6
    let ?n = "from_bytes_big_signed (byte_range 4 8 (t # b))"
    have len: "7 + nat \<bar>?n\<bar> \<le> length b" using assms buf 6
      by (auto simp: client_take_one_def Let_def cut_text_total_def split: if_splits)
    then have r: "byte_range 4 8 (t # b) = take 4 (drop 3 b)" by (simp add: byte_range_rest)
    then have n: "to_bytes_big 4 ?n = take 4 (drop 3 b)" "- (2 ^ 31) \<le> ?n" "?n < 2 ^ 31"
      using to_from_bytes_big_signed [of "byte_range 4 8 (t # b)"]
        from_bytes_big_signed_bounds [of "byte_range 4 8 (t # b)"] len
      by (auto)
    have "take 3 b @ take 4 (drop 3 b) @ drop 7 b = b"
      using append_take_drop_id [of 3 b] append_take_drop_id [of 4 "drop 3 b"] by simp
    then have "b = take 3 b @ take 4 (drop 3 b) @ take (nat \<bar>?n\<bar>) (drop 7 b) @ drop (nat \<bar>?n\<bar>) (drop 7 b)"
      by (simp only: append_take_drop_id)
    moreover have "length (take 3 b) = 3" "length (take (nat \<bar>?n\<bar>) (drop 7 b)) = nat \<bar>?n\<bar>"
      using len by auto
    ultimately show ?thesis using buf 6 n
      by (intro exI [of _ "ClientCutText (take 3 b) ?n (take (nat \<bar>?n\<bar>) (drop 7 b))"]
          exI [of _ "drop (nat \<bar>?n\<bar>) (drop 7 b)"]) (simp del: length_take drop_drop)
  next
    case 7
    then have "9 \<le> length b" using assms buf by (auto simp: client_take_one_def c_whole_def split: if_splits)
    then show ?thesis using buf 7
      by (intro exI [of _ "EnableContinuousUpdates (take 9 b)"] exI [of _ "drop 9 b"]) simp
  next
    case 8
    let ?n = "unat (b ! 7)"
    have len: "8 + ?n \<le> length b" using assms buf 8
      by (auto simp: client_take_one_def c_whole_def Let_def split: if_splits)
    have "b = take 7 b @ [b ! 7] @ drop 8 b"
      using id_take_nth_drop [of 7 b] len by simp
    then have "b = take 7 b @ [b ! 7] @ take ?n (drop 8 b) @ drop ?n (drop 8 b)"
      by (simp only: append_take_drop_id)
    moreover have "length (take 7 b) = 7" "length (take ?n (drop 8 b)) = ?n" using len by auto
    ultimately show ?thesis using buf 8 octet_less [of "b ! 7"]
      by (intro exI [of _ "ClientFence (take 7 b) (take ?n (drop 8 b))"] exI [of _ "drop ?n (drop 8 b)"])
        (simp del: length_take drop_drop)
  next
    case 9
    then have "3 \<le> length b" using assms buf by (auto simp: client_take_one_def c_whole_def split: if_splits)
    then show ?thesis using buf 9
      by (intro exI [of _ "ClientXvp (take 3 b)"] exI [of _ "drop 3 b"]) simp
  next
    case 10
    let ?n = "unat (b ! 5)"
    have len: "7 + 16 * ?n \<le> length b" using assms buf 10
      by (auto simp: client_take_one_def c_whole_def Let_def split: if_splits)
    have "b = take 5 b @ [b ! 5, b ! 6] @ drop 7 b"
      using id_take_nth_drop [of 5 b] Cons_nth_drop_Suc [of 6 b] len by simp
    then have "b = take 5 b @ [b ! 5, b ! 6] @ take (16 * ?n) (drop 7 b) @ drop (16 * ?n) (drop 7 b)"
      by (simp only: append_take_drop_id)
    moreover have "length (take 5 b) = 5" "length (take (16 * ?n) (drop 7 b)) = 16 * ?n" using len by auto
    ultimately show ?thesis using buf 10
      by (intro exI [of _ "SetDesktopSize (take 5 b) (b ! 5) (b ! 6) (take (16 * ?n) (drop 7 b))"]
          exI [of _ "drop (16 * ?n) (drop 7 b)"]) (simp del: length_take drop_drop)
  next
    case 11
    then have "11 \<le> length b \<and> b ! 0 = 0"
      using assms buf by (auto simp: client_take_one_def c_whole_def Let_def split: if_splits)
    then obtain c where "b = 0 # c" "10 \<le> length c" by (cases b) (auto)
    then show ?thesis using buf 11
      by (intro exI [of _ "QemuKeyEvent (take 10 c)"] exI [of _ "drop 10 c"]) simp
  next
    case 12
    then show ?thesis using assms buf by (simp add: client_take_one_def)
  qed
qed


lemma client_take_decoded:
  assumes "client_take_one (f, pf) = (Inr (Some x), (f', pf'))"
  shows "\<exists>m. client_message_ok m \<and> c_buf f = encode_client m @ c_buf f'
    \<and> x = forward_client (c_block_cut_text f) (c_restrict f) m \<and> pf' = track_pixel_format m pf
    \<and> c_block_cut_text f' = c_block_cut_text f \<and> c_restrict f' = c_restrict f"
proof -
  obtain m rest where m: "client_message_ok m" "c_buf f = encode_client m @ rest"
    using client_emit_message [OF assms] by blast
  then show ?thesis using client_take_encoded [OF m, of pf] assms by auto
qed

lemma client_error_unchanged: "client_take_one st = (Inl e, st') \<Longrightarrow> st' = st"
  unfolding client_take_one_def c_whole_def c_consume_def Let_def
  by (auto split: if_splits)

lemma client_loop_messages:
  assumes "client_loop (f, pf) = (r, (f', pf'))"
  shows "c_block_cut_text f' = c_block_cut_text f \<and> c_restrict f' = c_restrict f
    \<and> (\<forall>out. r = Inr out \<longrightarrow> (\<exists>ms. list_all client_message_ok ms
         \<and> c_buf f = concat (map encode_client ms) @ c_buf f'
         \<and> out = concat (map (forward_client (c_block_cut_text f) (c_restrict f)) ms)))"
  using assms
proof (induction "(f, pf)" arbitrary: f pf r f' pf' rule: client_loop.induct)
  case 1
  obtain t g pg where t: "client_take_one (f, pf) = (t, (g, pg))" by (metis prod.exhaust)
  show ?case
  proof (cases t)
    case (Inl e)
    then show ?thesis
      using t 1(2) client_error_unchanged by (subst (asm) client_loop.simps) fastforce
  next
    case (Inr o')
    show ?thesis
    proof (cases o')
      case None
      then have "g = f" using client_waiting [of "(f, pf)"] t Inr by auto
      with None Inr t 1(2) show ?thesis
        by (subst (asm) client_loop.simps) (auto intro!: exI [of _ "[]"])
    next
      case (Some x)
      obtain r2 g2 pg2 where l: "client_loop (g, pg) = (r2, (g2, pg2))" by (metis prod.exhaust)
      note IH = 1(1) [OF t [symmetric] Inr Some l]
      obtain m where m: "client_message_ok m" "c_buf f = encode_client m @ c_buf g"
        "x = forward_client (c_block_cut_text f) (c_restrict f) m"
        "c_block_cut_text g = c_block_cut_text f" "c_restrict g = c_restrict f"
        using client_take_decoded t Inr Some by metis
      have r: "f' = g2" "r = (case r2 of Inl e \<Rightarrow> Inl e | Inr out \<Rightarrow> Inr (x @ out))"
        using 1(2) t Inr Some l by (subst (asm) client_loop.simps, auto split: sum.splits)+
      show ?thesis
      proof (cases r2)
        case (Inr out2)
        then obtain ms where "list_all client_message_ok ms"
         "c_buf g = concat (map encode_client ms) @ c_buf g2"
         "out2 = concat (map (forward_client (c_block_cut_text f) (c_restrict f)) ms)"
          using IH m by auto
        then show ?thesis using IH m r Inr by (auto intro!: exI [of _ "m # ms"])
      qed (use IH m r in auto)
    qed
  qed
qed


lemma client_loop_encoded:
  assumes "list_all client_message_ok ms" and "c_buf f = concat (map encode_client ms)"
  shows "\<exists>f'. client_loop (f, pf) =
      (Inr (concat (map (forward_client (c_block_cut_text f) (c_restrict f)) ms)),
       (f', fold track_pixel_format ms pf)) \<and> c_buf f' = []
      \<and> c_block_cut_text f' = c_block_cut_text f \<and> c_restrict f' = c_restrict f"
  using assms
proof (induction ms arbitrary: f pf)
  case Nil
  then show ?case by (subst client_loop.simps) (simp add: client_take_one_def)
next
  case (Cons m ms)
  then obtain g where g: "client_take_one (f, pf) =
      (Inr (Some (forward_client (c_block_cut_text f) (c_restrict f) m)), (g, track_pixel_format m pf))"
    "c_buf g = concat (map encode_client ms)" "c_block_cut_text g = c_block_cut_text f"
    "c_restrict g = c_restrict f"
    using client_take_encoded [of m f "concat (map encode_client ms)" pf] by auto
  then show ?case
    using Cons.IH [of g "track_pixel_format m pf"] Cons.prems
    by (subst client_loop.simps) auto
qed

section \<open>Server messages\<close>

datatype server_message =
    FramebufferUpdate octet nat
  | CopyRect octets octets
  | RawRect octets nat nat octets
  | SetColourMapEntries octets octets
  | Bell
  | ServerCutText octets int octets
  | EndOfContinuousUpdates
  | ServerFence octets octets
  | ServerXvp octets

primrec encode_server :: "server_message \<Rightarrow> octets" where
  "encode_server (FramebufferUpdate pad n) = [0, pad] @ to_bytes_big 2 (int n)"
| "encode_server (CopyRect area src) = area @ to_bytes_big 4 1 @ src"
| "encode_server (RawRect pos w h pixels) =
     pos @ to_bytes_big 2 (int w) @ to_bytes_big 2 (int h) @ to_bytes_big 4 0 @ pixels"
| "encode_server (SetColourMapEntries b colours) = 1 # b @ to_bytes_big 2 (int (length colours div 6)) @ colours"
| "encode_server Bell = [2]"
| "encode_server (ServerCutText pad n content) = 3 # pad @ to_bytes_big 4 n @ content"
| "encode_server EndOfContinuousUpdates = [150]"
| "encode_server (ServerFence b payload) = 248 # b @ [word_of_nat (length payload)] @ payload"
| "encode_server (ServerXvp b) = 250 # b"

text \<open>
  Well-formed with respect to the pixel format in force and the number of rectangles the current
  FramebufferUpdate still owes: while some are owed only rectangles may come.
\<close>

primrec server_message_ok :: "pixel_format \<Rightarrow> nat \<Rightarrow> server_message \<Rightarrow> bool" where
  "server_message_ok pf owed (FramebufferUpdate pad n) = (owed = 0 \<and> n < 65536)"
| "server_message_ok pf owed (CopyRect area src) = (owed > 0 \<and> length area = 8 \<and> length src = 4)"
| "server_message_ok pf owed (RawRect pos w h pixels) =
     (owed > 0 \<and> length pos = 4 \<and> w < 65536 \<and> h < 65536
      \<and> (\<exists>bpp. pf = Some bpp \<and> length pixels = w * h * bpp))"
| "server_message_ok pf owed (SetColourMapEntries b colours) =
     (owed = 0 \<and> length b = 3 \<and> 6 dvd length colours \<and> length colours div 6 < 65536)"
| "server_message_ok pf owed Bell = (owed = 0)"
| "server_message_ok pf owed (ServerCutText pad n content) =
     (owed = 0 \<and> length pad = 3 \<and> - (2 ^ 31) \<le> n \<and> n < 2 ^ 31 \<and> int (length content) = \<bar>n\<bar>)"
| "server_message_ok pf owed EndOfContinuousUpdates = (owed = 0)"
| "server_message_ok pf owed (ServerFence b payload) = (owed = 0 \<and> length b = 7 \<and> length payload < 256)"
| "server_message_ok pf owed (ServerXvp b) = (owed = 0 \<and> length b = 3)"

primrec rects_owed :: "server_message \<Rightarrow> nat \<Rightarrow> nat" where
  "rects_owed (FramebufferUpdate pad n) owed = n"
| "rects_owed (CopyRect area src) owed = owed - 1"
| "rects_owed (RawRect pos w h pixels) owed = owed - 1"
| "rects_owed (SetColourMapEntries b colours) owed = owed"
| "rects_owed Bell owed = owed"
| "rects_owed (ServerCutText pad n content) owed = owed"
| "rects_owed EndOfContinuousUpdates owed = owed"
| "rects_owed (ServerFence b payload) owed = owed"
| "rects_owed (ServerXvp b) owed = owed"

fun server_stream_ok :: "pixel_format \<Rightarrow> nat \<Rightarrow> server_message list \<Rightarrow> bool" where
  "server_stream_ok pf owed [] = True"
| "server_stream_ok pf owed (m # ms) =
     (server_message_ok pf owed m \<and> server_stream_ok pf (rects_owed m owed) ms)"

definition is_server_cut_text :: "server_message \<Rightarrow> bool" where
  "is_server_cut_text m = (case m of ServerCutText _ _ _ \<Rightarrow> True | _ \<Rightarrow> False)"

definition forward_server :: "bool \<Rightarrow> server_message \<Rightarrow> octets" where
  "forward_server block m = (if block \<and> is_server_cut_text m then [] else encode_server m)"

lemma range_rect:
  "length a = 4 \<Longrightarrow> length b = 2 \<Longrightarrow> byte_range 4 6 (a @ b @ post) = b"
  "length a = 4 \<Longrightarrow> length b = 2 \<Longrightarrow> length c = 2 \<Longrightarrow> byte_range 6 8 (a @ b @ c @ post) = c"
  "length a = 8 \<Longrightarrow> length e = 4 \<Longrightarrow> byte_range 8 12 (a @ e @ post) = e"
  using byte_range_middle [of a 4 b 6 post] byte_range_middle [of "a @ b" 6 c 8 post]
    byte_range_middle [of a 8 e 12 post] by simp_all

lemma range_rect': "length a = 4 \<Longrightarrow> length b = 2 \<Longrightarrow> length c = 2 \<Longrightarrow> length e = 4 \<Longrightarrow>
    byte_range 8 12 (a @ b @ c @ e @ post) = e"
  using byte_range_middle [of "a @ b @ c" 8 e 12 post] by simp

lemma small_signed: "from_bytes_big_signed (to_bytes_big 4 0) = 0" "from_bytes_big_signed (to_bytes_big 4 1) = 1"
  by (simp_all add: from_to_bytes_big_signed)

lemma server_take_encoded:
  assumes "server_message_ok pf (v_rects_remaining f) m" and "v_buf f = encode_server m @ rest"
  shows "\<exists>f'. server_take_one (f, pf) = (Inr (Some (forward_server (v_block_cut_text f) m)), (f', pf))
    \<and> v_buf f' = rest \<and> v_block_cut_text f' = v_block_cut_text f
    \<and> v_rects_remaining f' = rects_owed m (v_rects_remaining f)"
  using assms
  by (cases m)
   (auto simp add: server_take_one_def server_take_rect_def v_whole_def v_consume_def Let_def
     forward_server_def is_server_cut_text_def nth_append range_2_4 range_4_6 from_to_2 cut_text_total_eq
     range_rect range_rect' small_signed
     unat_word_of_nat_octet take_Cons' drop_Cons' nat_abs_length elim!: dvdE)


lemma cut_at: "b = take i b @ take j (drop i b) @ drop (i + j) b"
  by (metis append_take_drop_id drop_drop add.commute)

lemma to_from_2: "length bs = 2 \<Longrightarrow> to_bytes_big 2 (int (from_bytes_big bs)) = bs"
  "length bs = 2 \<Longrightarrow> from_bytes_big bs < 65536"
  using to_from_bytes_big [of bs] from_bytes_big_less [of bs] by auto

lemma to_from_4: "length bs = 4 \<Longrightarrow> to_bytes_big 4 (from_bytes_big_signed bs) = bs"
  "length bs = 4 \<Longrightarrow> - (2 ^ 31) \<le> from_bytes_big_signed bs"
  "length bs = 4 \<Longrightarrow> from_bytes_big_signed bs < 2 ^ 31"
  using to_from_bytes_big_signed [of bs] from_bytes_big_signed_bounds [of bs] by auto

lemma server_emit_rect:
  assumes "server_take_rect (f, pf) = (Inr (Some x), st')" and "v_rects_remaining f > 0"
  shows "\<exists>m rest. server_message_ok pf (v_rects_remaining f) m \<and> v_buf f = encode_server m @ rest"
proof -
  let ?b = "v_buf f"
  have len: "12 \<le> length ?b"
    using assms by (auto simp: server_take_rect_def Let_def split: if_splits)
  define w where "w = from_bytes_big (byte_range 4 6 ?b)"
  define h where "h = from_bytes_big (byte_range 6 8 ?b)"
  define e where "e = byte_range 8 12 ?b"
  have e: "length e = 4" "e = take 4 (drop 8 ?b)" using len by (auto simp: e_def byte_range_def)
  note unf = assms(1) [unfolded server_take_rect_def Let_def fst_conv snd_conv, folded w_def h_def e_def]
  consider "from_bytes_big_signed e = 1" | "from_bytes_big_signed e = 0"
    | "from_bytes_big_signed e \<noteq> 0" "from_bytes_big_signed e \<noteq> 1" by blast
  then show ?thesis
  proof cases
    case 1
    then have l: "16 \<le> length ?b" using unf len by (auto split: if_splits)
    have "?b = take 8 ?b @ take 4 (drop 8 ?b) @ take 4 (drop 12 ?b) @ drop 4 (drop 12 ?b)"
      using cut_at [of ?b 8 4] by (simp only: append_take_drop_id) simp
    moreover have "take 4 (drop 8 ?b) = to_bytes_big 4 1" using e 1 to_from_4(1) [of e] by simp
    ultimately show ?thesis using l assms(2)
      by (intro exI [of _ "CopyRect (take 8 ?b) (take 4 (drop 12 ?b))"] exI [of _ "drop 4 (drop 12 ?b)"])
        (simp del: drop_drop)
  next
    case 2
    then obtain bpp where pf: "pf = Some bpp" using unf len by (auto split: if_splits option.splits)
    then have l: "12 + w * h * bpp \<le> length ?b" using unf len 2 by (auto split: if_splits)
    let ?p = "take (w * h * bpp) (drop 12 ?b)"
    have wh: "to_bytes_big 2 (int w) = take 2 (drop 4 ?b)" "to_bytes_big 2 (int h) = take 2 (drop 6 ?b)"
      "w < 65536" "h < 65536" using len by (auto simp: w_def h_def byte_range_def to_from_2)
    have "take 4 (drop 8 ?b) = to_bytes_big 4 0" using e 2 to_from_4(1) [of e] by simp
    moreover have "?b = take 4 ?b @ take 2 (drop 4 ?b) @ take 2 (drop 6 ?b) @ take 4 (drop 8 ?b) @ drop 12 ?b"
      using cut_at [of ?b 4 2] cut_at [of "drop 6 ?b" 2 4] by simp
    then have "?b = take 4 ?b @ take 2 (drop 4 ?b) @ take 2 (drop 6 ?b) @ take 4 (drop 8 ?b) @ ?p
        @ drop (w * h * bpp) (drop 12 ?b)"
      by (simp only: append_take_drop_id)
    moreover have "length ?p = w * h * bpp" "length (take 4 ?b) = 4" using l by auto
    ultimately show ?thesis using assms(2) pf wh
      by (intro exI [of _ "RawRect (take 4 ?b) w h ?p"] exI [of _ "drop (w * h * bpp) (drop 12 ?b)"])
        (simp del: drop_drop length_take)
  next
    case 3
    then show ?thesis using unf len by auto
  qed
qed

lemma server_emit_message:
  assumes "server_take_one (f, pf) = (Inr (Some x), st')"
  shows "\<exists>m rest. server_message_ok pf (v_rects_remaining f) m \<and> v_buf f = encode_server m @ rest"
proof (cases "v_rects_remaining f > 0")
  case True
  then show ?thesis using assms server_emit_rect by (simp add: server_take_one_def)
next
  case owed: False
  then obtain t b where buf: "v_buf f = t # b"
    using assms by (cases "v_buf f") (auto simp: server_take_one_def)
  note take = assms [unfolded server_take_one_def v_whole_def Let_def]
  consider "t = 0" | "t = 1" | "t = 2" | "t = 3" | "t = 150" | "t = 248" | "t = 250"
    | "t \<notin> {0, 1, 2, 3, 150, 248, 250}" by blast
  then show ?thesis
  proof cases
    case 1
    then have len: "3 \<le> length b" using take owed buf by (auto split: if_splits)
    then have "length (take 2 (drop 1 b)) = 2" by simp
    then show ?thesis
      using buf owed 1 len two_and_more [of b] to_from_2 [of "take 2 (drop 1 b)"]
      by (intro exI [of _ "FramebufferUpdate (b ! 0) (from_bytes_big (take 2 (drop 1 b)))"]
          exI [of _ "drop 3 b"]) simp
  next
    case 2
    let ?n = "from_bytes_big (byte_range 4 6 (t # b))"
    have len: "5 + 6 * ?n \<le> length b" using take owed buf 2 by (auto split: if_splits)
    have "length (take 2 (drop 3 b)) = 2" "byte_range 4 6 (t # b) = take 2 (drop 3 b)"
      using len by (auto simp: byte_range_def)
    then have n: "to_bytes_big 2 (int ?n) = take 2 (drop 3 b)" "?n < 65536"
      using to_from_2 by metis+
    have "b = take 3 b @ take 2 (drop 3 b) @ take (6 * ?n) (drop 5 b) @ drop (6 * ?n) (drop 5 b)"
      using cut_at [of b 3 2] by (simp only: append_take_drop_id) simp
    moreover have "length (take 3 b) = 3" "length (take (6 * ?n) (drop 5 b)) = 6 * ?n" using len by auto
    ultimately show ?thesis using buf owed 2 n
      by (intro exI [of _ "SetColourMapEntries (take 3 b) (take (6 * ?n) (drop 5 b))"]
          exI [of _ "drop (6 * ?n) (drop 5 b)"]) (simp del: length_take drop_drop)
  next
    case 3
    then show ?thesis using buf owed by (intro exI [of _ Bell] exI [of _ b]) simp
  next
    case 4
    let ?n = "from_bytes_big_signed (byte_range 4 8 (t # b))"
    have len: "7 + nat \<bar>?n\<bar> \<le> length b" using take owed buf 4
      by (auto simp: cut_text_total_def split: if_splits)
    have "length (take 4 (drop 3 b)) = 4" "byte_range 4 8 (t # b) = take 4 (drop 3 b)"
      using len by (auto simp: byte_range_def)
    then have n: "to_bytes_big 4 ?n = take 4 (drop 3 b)" "- (2 ^ 31) \<le> ?n" "?n < 2 ^ 31"
      using to_from_4 by metis+
    have "b = take 3 b @ take 4 (drop 3 b) @ take (nat \<bar>?n\<bar>) (drop 7 b) @ drop (nat \<bar>?n\<bar>) (drop 7 b)"
      using cut_at [of b 3 4] by (simp only: append_take_drop_id) simp
    moreover have "length (take 3 b) = 3" "length (take (nat \<bar>?n\<bar>) (drop 7 b)) = nat \<bar>?n\<bar>"
      using len by auto
    ultimately show ?thesis using buf owed 4 n
      by (intro exI [of _ "ServerCutText (take 3 b) ?n (take (nat \<bar>?n\<bar>) (drop 7 b))"]
          exI [of _ "drop (nat \<bar>?n\<bar>) (drop 7 b)"]) (simp del: length_take drop_drop)
  next
    case 5
    then show ?thesis using buf owed by (intro exI [of _ EndOfContinuousUpdates] exI [of _ b]) simp
  next
    case 6
    let ?n = "unat (b ! 7)"
    have len: "8 + ?n \<le> length b" using take owed buf 6 by (auto split: if_splits)
    have "b = take 7 b @ [b ! 7] @ drop 8 b"
      using id_take_nth_drop [of 7 b] len by simp
    then have "b = take 7 b @ [b ! 7] @ take ?n (drop 8 b) @ drop ?n (drop 8 b)"
      by (simp only: append_take_drop_id)
    moreover have "length (take 7 b) = 7" "length (take ?n (drop 8 b)) = ?n" using len by auto
    ultimately show ?thesis using buf owed 6 octet_less [of "b ! 7"]
      by (intro exI [of _ "ServerFence (take 7 b) (take ?n (drop 8 b))"] exI [of _ "drop ?n (drop 8 b)"])
        (simp del: length_take drop_drop)
  next
    case 7
    then have "3 \<le> length b" using take owed buf by (auto split: if_splits)
    then show ?thesis using buf owed 7
      by (intro exI [of _ "ServerXvp (take 3 b)"] exI [of _ "drop 3 b"]) simp
  next
    case 8
    then show ?thesis using take owed buf by simp
  qed
qed

lemma server_error_unchanged: "server_take_one st = (Inl e, st') \<Longrightarrow> st' = st"
  unfolding server_take_one_def server_take_rect_def v_whole_def v_consume_def Let_def
  by (auto split: if_splits option.splits sum.splits)

lemma server_take_decoded:
  assumes "server_take_one (f, pf) = (Inr (Some x), (f', pf'))"
  shows "\<exists>m. server_message_ok pf (v_rects_remaining f) m \<and> v_buf f = encode_server m @ v_buf f'
    \<and> x = forward_server (v_block_cut_text f) m \<and> pf' = pf
    \<and> v_block_cut_text f' = v_block_cut_text f \<and> v_rects_remaining f' = rects_owed m (v_rects_remaining f)"
proof -
  obtain m rest where m: "server_message_ok pf (v_rects_remaining f) m" "v_buf f = encode_server m @ rest"
    using server_emit_message [OF assms] by blast
  then show ?thesis using server_take_encoded [OF m] assms by auto
qed

lemma server_loop_messages:
  assumes "server_loop (f, pf) = (r, (f', pf'))"
  shows "pf' = pf \<and> v_block_cut_text f' = v_block_cut_text f
    \<and> (\<forall>out. r = Inr out \<longrightarrow> (\<exists>ms. server_stream_ok pf (v_rects_remaining f) ms
         \<and> v_rects_remaining f' = fold rects_owed ms (v_rects_remaining f)
         \<and> v_buf f = concat (map encode_server ms) @ v_buf f'
         \<and> out = concat (map (forward_server (v_block_cut_text f)) ms)))"
  using assms
proof (induction "(f, pf)" arbitrary: f pf r f' pf' rule: server_loop.induct)
  case 1
  obtain t g pg where t: "server_take_one (f, pf) = (t, (g, pg))" by (metis prod.exhaust)
  show ?case
  proof (cases t)
    case (Inl e)
    then show ?thesis
      using t 1(2) server_error_unchanged by (subst (asm) server_loop.simps) fastforce
  next
    case (Inr o')
    show ?thesis
    proof (cases o')
      case None
      then have "g = f" "pg = pf" using server_waiting [of "(f, pf)"] t Inr by auto
      with None Inr t 1(2) show ?thesis
        by (subst (asm) server_loop.simps) (auto intro!: exI [of _ "[]"])
    next
      case (Some x)
      obtain r2 g2 pg2 where l: "server_loop (g, pg) = (r2, (g2, pg2))" by (metis prod.exhaust)
      note IH = 1(1) [OF t [symmetric] Inr Some l]
      obtain m where m: "server_message_ok pf (v_rects_remaining f) m" "v_buf f = encode_server m @ v_buf g"
        "x = forward_server (v_block_cut_text f) m" "pg = pf"
        "v_block_cut_text g = v_block_cut_text f" "v_rects_remaining g = rects_owed m (v_rects_remaining f)"
        using server_take_decoded t Inr Some by metis
      have r: "f' = g2" "pf' = pg2" "r = (case r2 of Inl e \<Rightarrow> Inl e | Inr out \<Rightarrow> Inr (x @ out))"
        using 1(2) t Inr Some l by (subst (asm) server_loop.simps, auto split: sum.splits)+
      show ?thesis
      proof (cases r2)
        case (Inr out2)
        then obtain ms where "server_stream_ok pf (v_rects_remaining g) ms"
         "v_rects_remaining g2 = fold rects_owed ms (v_rects_remaining g)"
         "v_buf g = concat (map encode_server ms) @ v_buf g2"
         "out2 = concat (map (forward_server (v_block_cut_text f)) ms)"
          using IH m by auto
        then show ?thesis using IH m r Inr by (auto intro!: exI [of _ "m # ms"])
      qed (use IH m r in auto)
    qed
  qed
qed

lemma server_loop_encoded:
  assumes "server_stream_ok pf (v_rects_remaining f) ms" and "v_buf f = concat (map encode_server ms)"
  shows "\<exists>f'. server_loop (f, pf) =
      (Inr (concat (map (forward_server (v_block_cut_text f)) ms)), (f', pf)) \<and> v_buf f' = []
      \<and> v_block_cut_text f' = v_block_cut_text f \<and> v_rects_remaining f' = fold rects_owed ms (v_rects_remaining f)"
  using assms
proof (induction ms arbitrary: f)
  case Nil
  then show ?case
    by (subst server_loop.simps) (simp add: server_take_one_def server_take_rect_def)
next
  case (Cons m ms)
  then obtain g where g: "server_take_one (f, pf) =
      (Inr (Some (forward_server (v_block_cut_text f) m)), (g, pf))"
    "v_buf g = concat (map encode_server ms)" "v_block_cut_text g = v_block_cut_text f"
    "v_rects_remaining g = rects_owed m (v_rects_remaining f)"
    using server_take_encoded [of pf f m "concat (map encode_server ms)"] by auto
  then show ?case
    using Cons.IH [of g] Cons.prems by (subst server_loop.simps) auto
qed

end
