(* ===== verification/Display_Relay.thy ===== *)
theory Display_Relay
  imports Rfb_Messages
begin

text \<open>
  The two pumps of \<open>display_ws\<close> in \<open>api/display.py\<close>: every frame received from the browser goes
  through the client filter to the sandbox's relay, every frame from the relay through the server
  filter to the browser, in whatever order the event loop takes them. A pump ends at the first
  protocol error. \<open>rl_to_agent\<close> and \<open>rl_to_browser\<close> are the bytes sent so far in each direction.
\<close>

datatype relay_input =
    From_browser octets
  | From_agent octets

record relay =
  rl_client :: client_filter
  rl_server :: server_filter
  rl_pixel_format :: pixel_format
  rl_up_open :: bool
  rl_down_open :: bool
  rl_to_agent :: octets
  rl_to_browser :: octets

definition start_relay :: "clipboard_mode \<Rightarrow> relay" where
  "start_relay mode =
     (let (client_filter, server_filter, pixel_format) = build_filters mode in
      \<lparr> rl_client = client_filter, rl_server = server_filter, rl_pixel_format = pixel_format,
        rl_up_open = True, rl_down_open = True, rl_to_agent = [], rl_to_browser = [] \<rparr>)"

definition pump_ws_to_agent :: "octets \<Rightarrow> relay \<Rightarrow> relay" where
  "pump_ws_to_agent data r =
     (if \<not> rl_up_open r then r
      else case client_feed data (rl_client r, rl_pixel_format r) of
          (Inl e, (f, pf)) \<Rightarrow> r\<lparr>rl_client := f, rl_pixel_format := pf, rl_up_open := False\<rparr>
        | (Inr forward, (f, pf)) \<Rightarrow>
            r\<lparr>rl_client := f, rl_pixel_format := pf, rl_to_agent := rl_to_agent r @ forward\<rparr>)"

definition pump_agent_to_ws :: "octets \<Rightarrow> relay \<Rightarrow> relay" where
  "pump_agent_to_ws data r =
     (if \<not> rl_down_open r then r
      else case server_feed data (rl_server r, rl_pixel_format r) of
          (Inl e, (f, pf)) \<Rightarrow> r\<lparr>rl_server := f, rl_pixel_format := pf, rl_down_open := False\<rparr>
        | (Inr forward, (f, pf)) \<Rightarrow>
            r\<lparr>rl_server := f, rl_pixel_format := pf, rl_to_browser := rl_to_browser r @ forward\<rparr>)"

primrec relay_step :: "relay_input \<Rightarrow> relay \<Rightarrow> relay" where
  "relay_step (From_browser data) r = pump_ws_to_agent data r"
| "relay_step (From_agent data) r = pump_agent_to_ws data r"

definition relay_run :: "clipboard_mode \<Rightarrow> relay_input list \<Rightarrow> relay" where
  "relay_run mode inputs = fold relay_step inputs (start_relay mode)"

text \<open>What each side has sent, whatever became of it.\<close>

definition browser_bytes :: "relay_input list \<Rightarrow> octets" where
  "browser_bytes inputs = concat (map (\<lambda>i. case i of From_browser d \<Rightarrow> d | From_agent _ \<Rightarrow> []) inputs)"

definition agent_bytes :: "relay_input list \<Rightarrow> octets" where
  "agent_bytes inputs = concat (map (\<lambda>i. case i of From_agent d \<Rightarrow> d | From_browser _ \<Rightarrow> []) inputs)"

lemma relay_run_Nil [simp]: "relay_run mode [] = start_relay mode"
  by (simp add: relay_run_def)

lemma relay_run_snoc [simp]: "relay_run mode (xs @ [x]) = relay_step x (relay_run mode xs)"
  by (simp add: relay_run_def)

lemma bytes_simps [simp]:
  "browser_bytes [] = []" "agent_bytes [] = []"
  "browser_bytes (xs @ [From_browser d]) = browser_bytes xs @ d"
  "browser_bytes (xs @ [From_agent d]) = browser_bytes xs"
  "agent_bytes (xs @ [From_browser d]) = agent_bytes xs"
  "agent_bytes (xs @ [From_agent d]) = agent_bytes xs @ d"
  by (simp_all add: browser_bytes_def agent_bytes_def)

text \<open>What each pump leaves alone.\<close>

lemma up_frame [simp]:
  "rl_server (pump_ws_to_agent d r) = rl_server r"
  "rl_down_open (pump_ws_to_agent d r) = rl_down_open r"
  "rl_to_browser (pump_ws_to_agent d r) = rl_to_browser r"
  by (auto simp: pump_ws_to_agent_def split: prod.splits sum.splits)

lemma down_frame [simp]:
  "rl_client (pump_agent_to_ws d r) = rl_client r"
  "rl_up_open (pump_agent_to_ws d r) = rl_up_open r"
  "rl_to_agent (pump_agent_to_ws d r) = rl_to_agent r"
  by (auto simp: pump_agent_to_ws_def split: prod.splits sum.splits)

lemma server_feed_pixel_format: "server_feed d (f, pf) = (x, (f', pf')) \<Longrightarrow> pf' = pf"
  unfolding server_feed_def v_extend_def using server_loop_messages
  by (fastforce split: if_splits)

lemma down_pixel_format [simp]: "rl_pixel_format (pump_agent_to_ws d r) = rl_pixel_format r"
  by (auto simp: pump_agent_to_ws_def dest: server_feed_pixel_format split: prod.splits sum.splits)

section \<open>Towards the sandbox\<close>

definition blocks_client :: "clipboard_mode \<Rightarrow> bool" where
  "blocks_client mode = block_client_to_server (enforcement_for_mode mode)"

definition blocks_server :: "clipboard_mode \<Rightarrow> bool" where
  "blocks_server mode = block_server_to_client (enforcement_for_mode mode)"

lemma start_relay_simps [simp]:
  "c_block_cut_text (rl_client (start_relay mode)) = blocks_client mode"
  "c_restrict (rl_client (start_relay mode)) = blocks_server mode"
  "c_buf (rl_client (start_relay mode)) = []"
  "v_block_cut_text (rl_server (start_relay mode)) = blocks_server mode"
  "v_restrict (rl_server (start_relay mode)) = blocks_server mode"
  "v_buf (rl_server (start_relay mode)) = []"
  "v_rects_remaining (rl_server (start_relay mode)) = 0"
  "rl_up_open (start_relay mode)" "rl_down_open (start_relay mode)"
  "rl_to_agent (start_relay mode) = []" "rl_to_browser (start_relay mode) = []"
  "rl_pixel_format (start_relay mode) = None"
  by (simp_all add: start_relay_def build_filters_def new_client_filter_def new_server_filter_def
    blocks_client_def blocks_server_def restrict_server_encodings_def Let_def)

definition up_inv :: "clipboard_mode \<Rightarrow> octets \<Rightarrow> relay \<Rightarrow> bool" where
  "up_inv mode received r \<longleftrightarrow>
     c_block_cut_text (rl_client r) = blocks_client mode \<and> c_restrict (rl_client r) = blocks_server mode
     \<and> (\<exists>ms rest. list_all client_message_ok ms \<and> received = concat (map encode_client ms) @ rest
          \<and> rl_to_agent r = concat (map (forward_client (blocks_client mode) (blocks_server mode)) ms)
          \<and> (rl_up_open r \<longrightarrow> c_buf (rl_client r) = rest))"

lemma up_inv_step:
  assumes "up_inv mode rec r" and "blocks_client mode \<or> blocks_server mode"
  shows "up_inv mode (rec @ d) (pump_ws_to_agent d r)"
proof -
  obtain ms rest where I: "list_all client_message_ok ms" "rec = concat (map encode_client ms) @ rest"
    "rl_to_agent r = concat (map (forward_client (blocks_client mode) (blocks_server mode)) ms)"
    "rl_up_open r \<longrightarrow> c_buf (rl_client r) = rest"
    and f: "c_block_cut_text (rl_client r) = blocks_client mode" "c_restrict (rl_client r) = blocks_server mode"
    using assms(1) by (auto simp: up_inv_def)
  show ?thesis
  proof (cases "rl_up_open r")
    case False
    then show ?thesis using I f unfolding up_inv_def pump_ws_to_agent_def
      by (auto intro!: exI [of _ ms])
  next
    case True
    let ?f = "(rl_client r)\<lparr>c_buf := c_buf (rl_client r) @ d\<rparr>"
    obtain x f' pf' where l: "client_loop (?f, rl_pixel_format r) = (x, (f', pf'))"
      by (metis prod.exhaust)
    then have feed: "client_feed d (rl_client r, rl_pixel_format r) = (x, (f', pf'))"
      using assms(2) f by (auto simp: client_feed_def c_extend_def)
    note M = client_loop_messages [OF l, simplified, unfolded f]
    show ?thesis
    proof (cases x)
      case (Inl e)
      then show ?thesis
        using True feed M I f unfolding up_inv_def pump_ws_to_agent_def by (auto intro!: exI [of _ ms])
    next
      case (Inr out)
      then obtain ns where "list_all client_message_ok ns"
        "c_buf (rl_client r) @ d = concat (map encode_client ns) @ c_buf f'"
        "out = concat (map (forward_client (blocks_client mode) (blocks_server mode)) ns)"
        using M by auto
      then show ?thesis
        using True feed M I f Inr unfolding up_inv_def pump_ws_to_agent_def
        by (auto intro!: exI [of _ "ms @ ns"])
    qed
  qed
qed

lemma up_inv_run:
  assumes "blocks_client mode \<or> blocks_server mode"
  shows "up_inv mode (browser_bytes xs) (relay_run mode xs)"
proof (induction xs rule: rev_induct)
  case Nil
  then show ?case by (auto simp: up_inv_def intro!: exI [of _ "[]"])
next
  case (snoc x xs)
  then show ?case
    using up_inv_step [OF snoc assms] by (cases x) (auto simp: up_inv_def)
qed

text \<open>What blocking makes of a message is nothing, or a message that carries no clipboard text.\<close>

lemma forward_client_clean:
  assumes "list_all client_message_ok ms"
  shows "\<exists>ns. list_all (\<lambda>m. client_message_ok m \<and> \<not> is_client_cut_text m) ns
    \<and> concat (map (forward_client True restrict) ms) = concat (map encode_client ns)"
  using assms
proof (induction ms)
  case Nil
  then show ?case by (auto intro!: exI [of _ "[]"])
next
  case (Cons m ms)
  then obtain ns where ns: "list_all (\<lambda>m. client_message_ok m \<and> \<not> is_client_cut_text m) ns"
    "concat (map (forward_client True restrict) ms) = concat (map encode_client ns)" by auto
  let ?forced = "SetEncodings 0 (to_bytes_big 4 1 @ to_bytes_big 4 0)"
  consider "forward_client True restrict m = []"
    | "forward_client True restrict m = encode_client ?forced"
    | "forward_client True restrict m = encode_client m" "\<not> is_client_cut_text m"
    by (cases restrict; cases m) (auto simp: forward_client_def is_client_cut_text_def)
  then show ?case
  proof cases
    case 1
    then show ?thesis using ns by auto
  next
    case 2
    then show ?thesis using ns
      by (intro exI [of _ "?forced # ns"]) (simp add: is_client_cut_text_def)
  next
    case 3
    then show ?thesis using ns Cons.prems by (intro exI [of _ "m # ns"]) simp
  qed
qed

lemma to_agent_clean:
  assumes "mode = CM_NONE \<or> mode = CM_REMOTE_TO_LOCAL"
  shows "\<exists>ms. list_all (\<lambda>m. client_message_ok m \<and> \<not> is_client_cut_text m) ms
    \<and> rl_to_agent (relay_run mode inputs) = concat (map encode_client ms)"
proof -
  have b: "blocks_client mode" using assms by (auto simp: blocks_client_def enforcement_for_mode_def)
  then obtain ms where "list_all client_message_ok ms"
    "rl_to_agent (relay_run mode inputs) = concat (map (forward_client True (blocks_server mode)) ms)"
    using up_inv_run [of mode inputs] by (auto simp: up_inv_def)
  then show ?thesis using forward_client_clean by metis
qed

text \<open>
  C1. Clipboard text never reaches the sandbox when the session's mode does not allow it: with
  mode NONE or REMOTE_TO_LOCAL, whatever bytes the browser and the sandbox send, in whatever frames
  and interleaving, what has been forwarded to the sandbox is a sequence of well-formed client
  messages none of which is a ClientCutText.
\<close>

theorem no_clipboard_into_sandbox:
  assumes "mode = CM_NONE \<or> mode = CM_REMOTE_TO_LOCAL"
  shows "\<exists>ms. list_all (\<lambda>m. client_message_ok m \<and> \<not> is_client_cut_text m) ms
    \<and> rl_to_agent (relay_run mode inputs) = concat (map encode_client ms)"
  by (rule to_agent_clean [OF assms])


section \<open>Chunks do not matter\<close>

text \<open>
  As long as the filter is in use, the client side of the relay is where feeding everything the
  browser sent at once would have brought it.
\<close>

definition up_agrees :: "clipboard_mode \<Rightarrow> octets \<Rightarrow> relay \<Rightarrow> bool" where
  "up_agrees mode received r \<longleftrightarrow>
     (case client_loop (c_extend received (rl_client (start_relay mode), None)) of
        (Inl e, _) \<Rightarrow> \<not> rl_up_open r
      | (Inr out, st) \<Rightarrow>
          rl_up_open r \<and> (rl_client r, rl_pixel_format r) = st \<and> rl_to_agent r = out
          \<and> c_block_cut_text (rl_client r) = blocks_client mode \<and> c_restrict (rl_client r) = blocks_server mode)"

lemma up_agrees_step:
  assumes "up_agrees mode rec r" and "blocks_client mode \<or> blocks_server mode"
  shows "up_agrees mode (rec @ d) (pump_ws_to_agent d r)"
proof -
  obtain x st where Pair: "client_loop (c_extend rec (rl_client (start_relay mode), None)) = (x, st)"
    by (metis prod.exhaust)
  show ?thesis
  proof (cases x)
    case (Inl e)
    then show ?thesis
      using assms Pair to_server.feed_error [of rec _ e st d]
      by (simp add: up_agrees_def pump_ws_to_agent_def)
  next
    case (Inr out)
    then have st: "(rl_client r, rl_pixel_format r) = st" "rl_up_open r" "rl_to_agent r = out"
      and f: "c_block_cut_text (rl_client r) = blocks_client mode" "c_restrict (rl_client r) = blocks_server mode"
      using assms Pair by (simp_all add: up_agrees_def)
    obtain y g pg where l: "client_loop (c_extend d st) = (y, (g, pg))" by (metis prod.exhaust)
    have feed: "client_feed d st = (y, (g, pg))"
      using assms(2) f l by (auto simp: client_feed_def simp flip: st(1))
    have g: "c_block_cut_text g = blocks_client mode" "c_restrict g = blocks_server mode"
      using client_loop_messages [of _ _ y g pg] l f by (auto simp: c_extend_def simp flip: st(1))
    have all: "client_loop (c_extend (rec @ d) (rl_client (start_relay mode), None)) =
        (case y of Inl e \<Rightarrow> (Inl e, (g, pg)) | Inr o2 \<Rightarrow> (Inr (out @ o2), (g, pg)))"
      using to_server.feed_feed [of rec _ out st d] Pair Inr l by (auto split: sum.splits)
    show ?thesis
      using st(2,3) feed all g
      by (auto simp: up_agrees_def pump_ws_to_agent_def st(1) split: sum.splits)
  qed
qed

lemma up_agrees_run:
  assumes "blocks_client mode \<or> blocks_server mode"
  shows "up_agrees mode (browser_bytes xs) (relay_run mode xs)"
proof (induction xs rule: rev_induct)
  case Nil
  then show ?case
    by (simp add: up_agrees_def c_extend_def client_loop.simps client_take_one_def)
next
  case (snoc x xs)
  then show ?case
    using up_agrees_step [OF snoc assms] by (cases x) (auto simp: up_agrees_def split: prod.splits sum.splits)
qed

lemma up_open_step:
  assumes "\<not> blocks_client mode" "\<not> blocks_server mode"
  shows "c_block_cut_text (rl_client (relay_run mode xs)) = False
    \<and> c_restrict (rl_client (relay_run mode xs)) = False
    \<and> rl_up_open (relay_run mode xs) \<and> rl_to_agent (relay_run mode xs) = browser_bytes xs"
proof (induction xs rule: rev_induct)
  case (snoc x xs)
  then show ?case by (cases x) (auto simp: pump_ws_to_agent_def client_feed_def)
qed (use assms in simp)


section \<open>Towards the browser\<close>

text \<open>
  A server stream whose messages are each tagged with the pixel format in force when it was read.
\<close>

fun tagged_stream_ok :: "nat \<Rightarrow> (pixel_format \<times> server_message) list \<Rightarrow> bool" where
  "tagged_stream_ok owed [] = True"
| "tagged_stream_ok owed ((pf, m) # ms) =
     (server_message_ok pf owed m \<and> tagged_stream_ok (rects_owed m owed) ms)"

lemma tagged_stream_append:
  "tagged_stream_ok owed (xs @ ys) \<longleftrightarrow>
     tagged_stream_ok owed xs \<and> tagged_stream_ok (fold rects_owed (map snd xs) owed) ys"
  by (induction owed xs rule: tagged_stream_ok.induct) simp_all

lemma tagged_of_stream: "server_stream_ok pf owed ms \<Longrightarrow> tagged_stream_ok owed (map (Pair pf) ms)"
  by (induction pf owed ms rule: server_stream_ok.induct) simp_all

definition down_inv :: "clipboard_mode \<Rightarrow> octets \<Rightarrow> relay \<Rightarrow> bool" where
  "down_inv mode received r \<longleftrightarrow>
     v_block_cut_text (rl_server r) = blocks_server mode \<and> v_restrict (rl_server r) = blocks_server mode
     \<and> (\<exists>ms rest. tagged_stream_ok 0 ms \<and> received = concat (map (encode_server \<circ> snd) ms) @ rest
          \<and> rl_to_browser r = concat (map (forward_server (blocks_server mode) \<circ> snd) ms)
          \<and> (rl_down_open r \<longrightarrow> v_buf (rl_server r) = rest
               \<and> v_rects_remaining (rl_server r) = fold rects_owed (map snd ms) 0))"

lemma server_restrict_step:
  "server_take_one (g, p) = (y, (g', p')) \<Longrightarrow> v_restrict g' = v_restrict g"
  unfolding server_take_one_def server_take_rect_def v_whole_def v_consume_def Let_def
  by (auto split: if_split_asm option.split_asm sum.split_asm)

lemma server_restrict_kept:
  assumes "server_loop (f, pf) = (x, (f', pf'))"
  shows "v_restrict f' = v_restrict f"
  using assms
proof (induction "(f, pf)" arbitrary: f pf x f' pf' rule: server_loop.induct)
  case 1
  obtain t g pg where t: "server_take_one (f, pf) = (t, (g, pg))" by (metis prod.exhaust)
  obtain y g2 p2 where l: "server_loop (g, pg) = (y, (g2, p2))" by (metis prod.exhaust)
  have "v_restrict g2 = v_restrict g" if "t = Inr (Some m)" for m
    using 1(1) [OF t [symmetric] that refl l] .
  then show ?case
    using 1(2) t l server_restrict_step [OF t]
    by (subst (asm) server_loop.simps) (auto split: sum.splits option.splits)
qed

lemma down_inv_step:
  assumes "down_inv mode rec r" and "blocks_server mode"
  shows "down_inv mode (rec @ d) (pump_agent_to_ws d r)"
proof -
  obtain ms rest where I: "tagged_stream_ok 0 ms" "rec = concat (map (encode_server \<circ> snd) ms) @ rest"
    "rl_to_browser r = concat (map (forward_server True \<circ> snd) ms)"
    "rl_down_open r \<longrightarrow> v_buf (rl_server r) = rest
       \<and> v_rects_remaining (rl_server r) = fold rects_owed (map snd ms) 0"
    and f: "v_block_cut_text (rl_server r)" "v_restrict (rl_server r)"
    using assms by (auto simp: down_inv_def)
  show ?thesis
  proof (cases "rl_down_open r")
    case False
    then show ?thesis using I f assms(2) unfolding down_inv_def pump_agent_to_ws_def
      by (auto intro!: exI [of _ ms])
  next
    case True
    let ?f = "(rl_server r)\<lparr>v_buf := v_buf (rl_server r) @ d\<rparr>" and ?pf = "rl_pixel_format r"
    obtain x f' pf' where l: "server_loop (?f, ?pf) = (x, (f', pf'))"
      by (metis prod.exhaust)
    then have feed: "server_feed d (rl_server r, ?pf) = (x, (f', pf'))"
      using f by (simp add: server_feed_def v_extend_def)
    note M = server_loop_messages [OF l, simplified] and R = server_restrict_kept [OF l, simplified]
    show ?thesis
    proof (cases x)
      case (Inl e)
      then show ?thesis
        using True feed M R I f assms(2) unfolding down_inv_def pump_agent_to_ws_def
        by (auto intro!: exI [of _ ms])
    next
      case (Inr out)
      then obtain ns where "server_stream_ok ?pf (v_rects_remaining (rl_server r)) ns"
        "v_rects_remaining f' = fold rects_owed ns (v_rects_remaining (rl_server r))"
        "v_buf (rl_server r) @ d = concat (map encode_server ns) @ v_buf f'"
        "out = concat (map (forward_server True) ns)"
        using M f by auto
      then show ?thesis
        using True feed M R I f Inr assms(2) unfolding down_inv_def pump_agent_to_ws_def
        by (auto simp: tagged_stream_append tagged_of_stream o_def intro!: exI [of _ "ms @ map (Pair ?pf) ns"])
    qed
  qed
qed

lemma down_inv_up: "down_inv mode rec r \<Longrightarrow> down_inv mode rec (pump_ws_to_agent d r)"
  by (simp add: down_inv_def)

lemma down_inv_run:
  assumes "blocks_server mode"
  shows "down_inv mode (agent_bytes xs) (relay_run mode xs)"
proof (induction xs rule: rev_induct)
  case Nil
  then show ?case by (auto simp: down_inv_def intro!: exI [of _ "[]"])
next
  case (snoc x xs)
  then show ?case
    using down_inv_step [OF snoc assms] by (cases x) (auto intro: down_inv_up)
qed


end
