(* ===== verification/Display.thy ===== *)
theory Display
  imports Sessions Display_Relay
begin

text \<open>
  The display websocket of \<open>api/display.py\<close> around the relay of \<open>Display_Relay\<close>: the checks made
  before the handshake is accepted, what opening and closing a connection do to the session row, and
  the reset made when the process starts. A websocket is identified by a number; \<open>dial\<close> stands for
  opening the second websocket to the node's agent, whose outcome is the environment's.
\<close>

definition CLOSE_NOT_FOUND :: nat where "CLOSE_NOT_FOUND = 4404"
definition CLOSE_SANDBOX_UNREACHABLE :: nat where "CLOSE_SANDBOX_UNREACHABLE = 4502"
definition CLOSE_ADMIN_DISCONNECTED :: nat where "CLOSE_ADMIN_DISCONNECTED = 4001"

text \<open>\<open>s.split("://", 1)[-1]\<close>.\<close>

fun after_scheme :: "string \<Rightarrow> string option" where
  "after_scheme [] = None"
| "after_scheme (c # cs) =
     (if startswith (c # cs) ''://'' then Some (drop 3 (c # cs)) else after_scheme cs)"

definition origin_host :: "string \<Rightarrow> string" where
  "origin_host origin = (case after_scheme origin of None \<Rightarrow> origin | Some h \<Rightarrow> h)"

definition origin_ok :: "string option \<Rightarrow> string option \<Rightarrow> bool" where
  "origin_ok origin host = (case origin of None \<Rightarrow> True | Some v \<Rightarrow> Some (origin_host v) = host)"

definition relay_url :: "connection \<Rightarrow> string \<Rightarrow> string" where
  "relay_url c session_text =
     (let u = rstrip_by (\<lambda>ch. ch = CHR 0x2F) (base_url c) @ ''/v1/sandboxes/'' @ session_text @ ''/display/ws''
      in if startswith u ''https://'' then ''wss://'' @ drop 8 u
         else if startswith u ''http://'' then ''ws://'' @ drop 7 u
         else u)"

definition display_open ::
  "'w backend \<Rightarrow> instant \<Rightarrow> (connection \<Rightarrow> 'w \<Rightarrow> bool \<times> 'w) \<Rightarrow> nat \<Rightarrow> string option \<Rightarrow> string option
   \<Rightarrow> uuid \<Rightarrow> uuid \<Rightarrow> 'w sys \<Rightarrow> (nat + clipboard_mode) \<times> 'w sys" where
  "display_open B now dial ws origin host current_user session_id s =
     (if \<not> origin_ok origin host then (Inl CLOSE_NOT_FOUND, s)
      else case row_get s_id session_id (sessions (db s)) of
        None \<Rightarrow> (Inl CLOSE_NOT_FOUND, s)
      | Some session \<Rightarrow>
          if s_user_id session \<noteq> current_user then (Inl CLOSE_NOT_FOUND, s)
          else if s_status session \<notin> {SS_ACTIVE, SS_DISCONNECTED} then (Inl CLOSE_NOT_FOUND, s)
          else
            let c = session_connection B session (db s) in
            if token c = [] then (Inl CLOSE_SANDBOX_UNREACHABLE, s)
            else case dial c (world s) of
              (False, w) \<Rightarrow> (Inl CLOSE_SANDBOX_UNREACHABLE, s\<lparr>world := w\<rparr>)
            | (True, w) \<Rightarrow>
                let s = on_db (set_session now session_id (\<lambda>x. x\<lparr>s_status := SS_ACTIVE,
                          s_last_activity_at := Some now, s_viewer_connected_at := Some now\<rparr>)) (s\<lparr>world := w\<rparr>)
                in (Inr (s_clipboard_mode session),
                    s\<lparr>active_connections := (session_id, ws) # filter (\<lambda>p. fst p \<noteq> session_id) (active_connections s)\<rparr>))"

text \<open>
  The \<open>finally\<close> block, for the connection \<open>ws\<close> that was opened at \<open>viewer_stamp\<close>: two conditional
  UPDATEs and the events.
\<close>

definition still_viewed :: "uuid \<Rightarrow> instant \<Rightarrow> browser_session \<Rightarrow> bool" where
  "still_viewed i stamp x \<longleftrightarrow> s_id x = i \<and> s_viewer_connected_at x = Some stamp"

definition disconnect_row :: "instant \<Rightarrow> uuid \<Rightarrow> instant \<Rightarrow> browser_session \<Rightarrow> browser_session" where
  "disconnect_row now i stamp x =
     (if still_viewed i stamp x \<and> s_status x = SS_ACTIVE then
        x\<lparr>s_status := SS_DISCONNECTED, s_last_activity_at := Some now, s_viewer_connected_at := None,
          s_updated_at := now\<rparr>
      else if still_viewed i stamp x then x\<lparr>s_viewer_connected_at := None, s_updated_at := now\<rparr>
      else x)"

definition display_close ::
  "instant \<Rightarrow> nat \<Rightarrow> uuid \<Rightarrow> instant \<Rightarrow> uuid \<Rightarrow> bool \<Rightarrow> 'w sys \<Rightarrow> 'w sys" where
  "display_close now ws session_id stamp current_user blocked s =
     (let s = (if map_of (active_connections s) session_id = Some ws
               then s\<lparr>active_connections := filter (\<lambda>p. fst p \<noteq> session_id) (active_connections s)\<rparr> else s);
          updated = list_ex (\<lambda>x. still_viewed session_id stamp x \<and> s_status x = SS_ACTIVE) (sessions (db s));
          s = on_db (\<lambda>d. d\<lparr>sessions := map (disconnect_row now session_id stamp) (sessions d)\<rparr>) s;
          s = (if updated then
                 on_db (record_security_event now EV_SESSION_DISCONNECTED (Some current_user) (Some session_id) None None) s
               else s)
      in if blocked then
           on_db (record_security_event now EV_CLIPBOARD_ACCESS_BLOCKED (Some current_user) (Some session_id) None None) s
         else s)"

text \<open>Whether the relay dropped anything in either direction.\<close>

definition relay_blocked :: "relay \<Rightarrow> bool" where
  "relay_blocked r \<longleftrightarrow> c_blocked_once (rl_client r) \<or> v_blocked_once (rl_server r)"

definition reset_viewer_stamps :: "instant \<Rightarrow> 'w sys \<Rightarrow> 'w sys" where
  "reset_viewer_stamps now s =
     on_db (\<lambda>d. d\<lparr>sessions := map (\<lambda>x. if s_viewer_connected_at x \<noteq> None \<or> s_status x = SS_ACTIVE
         then x\<lparr>s_viewer_connected_at := None, s_last_activity_at := Some now, s_updated_at := now\<rparr> else x)
       (sessions d)\<rparr>) s"

definition discard_stale_connection :: "uuid \<Rightarrow> 'w sys \<Rightarrow> 'w sys" where
  "discard_stale_connection i s =
     s\<lparr>active_connections := filter (\<lambda>p. fst p \<noteq> i) (active_connections s)\<rparr>"

text \<open>
  A display connection is opened to its owner only, on a usable session only, from the
  application's own origin only: whenever the handshake is accepted, the session exists, belongs to
  the connecting user, was ACTIVE or DISCONNECTED (so never an isolated or ended one), a sent Origin
  names the host the request came to, the node still has a credential, and the clipboard mode the
  relay will enforce is the one stored with the session.
\<close>

theorem display_opens_for_owner_only:
  assumes "display_open B now dial ws origin host user i s = (Inr mode, s')"
  shows "origin_ok origin host \<and> (\<exists>x. row_get s_id i (sessions (db s)) = Some x \<and> s_user_id x = user
    \<and> s_status x \<in> {SS_ACTIVE, SS_DISCONNECTED} \<and> token (session_connection B x (db s)) \<noteq> []
    \<and> mode = s_clipboard_mode x)"
  using assms
  by (auto simp: display_open_def Let_def split: if_splits option.splits prod.splits bool.splits)

end
