(* ===== verification/Session_Jobs.thy ===== *)
theory Session_Jobs
  imports Display
begin

text \<open>
  The background jobs that end sessions: \<open>core/session_reaper.py\<close> (sessions nobody views, and
  sessions stuck in a transition) and \<open>core/orphan_reconciler.py\<close> (containers without a live row,
  rows without a container). Each job's cycle is a fold of the step it makes per candidate, so that
  the step relation of \<open>Session_Lifecycle\<close> can interleave other requests between the steps.
\<close>

section \<open>The reaper\<close>

definition SESSION_REAPER_ACTOR_ID :: uuid where
  "SESSION_REAPER_ACTOR_ID = 57005"

definition coalesce :: "'a option \<Rightarrow> 'a option \<Rightarrow> 'a \<Rightarrow> 'a" where
  "coalesce a b c = (case a of Some x \<Rightarrow> x | None \<Rightarrow> (case b of Some y \<Rightarrow> y | None \<Rightarrow> c))"

definition unattended_since :: "browser_session \<Rightarrow> instant" where
  "unattended_since x = coalesce (s_last_activity_at x) (s_started_at x) (s_created_at x)"

definition unattended :: "instant \<Rightarrow> browser_session \<Rightarrow> bool" where
  "unattended cutoff x \<longleftrightarrow> unattended_since x < cutoff
     \<and> (s_status x = SS_DISCONNECTED \<or> (s_status x = SS_ACTIVE \<and> s_viewer_connected_at x = None))"

definition timed_out_event ::
  "instant \<Rightarrow> string \<Rightarrow> string \<Rightarrow> instant \<Rightarrow> instant \<Rightarrow> browser_session \<Rightarrow> database \<Rightarrow> database" where
  "timed_out_event now why key since timeout x d =
     record_security_event now EV_SESSION_TIMED_OUT (Some (s_user_id x)) (Some (s_id x)) None
       (Some [(''reason'', JStr why), (key, JInt since), (''timeout_seconds'', JInt timeout)]) d"

definition claim_unattended :: "instant \<Rightarrow> uuid \<Rightarrow> session_status \<Rightarrow> browser_session \<Rightarrow> bool" where
  "claim_unattended cutoff i seen x \<longleftrightarrow> s_id x = i \<and> s_status x = seen \<and> unattended cutoff x"

text \<open>The atomic claim, committed before the sandbox is torn down.\<close>

definition reap_claim :: "instant \<Rightarrow> instant \<Rightarrow> uuid \<Rightarrow> session_status \<Rightarrow> 'w sys \<Rightarrow> 'w sys" where
  "reap_claim now cutoff i seen s =
     on_db (\<lambda>d. d\<lparr>sessions := map (\<lambda>x. if claim_unattended cutoff i seen x
       then x\<lparr>s_status := SS_TERMINATING, s_updated_at := now\<rparr> else x) (sessions d)\<rparr>) s"

definition reap_one ::
  "'w backend \<Rightarrow> instant \<Rightarrow> instant \<Rightarrow> uuid \<times> session_status \<Rightarrow> 'w sys \<Rightarrow> bool \<times> 'w sys" where
  "reap_one B now cutoff candidate s =
     (let (i, seen) = candidate in
      if \<not> list_ex (claim_unattended cutoff i seen) (sessions (db s)) then (False, s)
      else
        let s = reap_claim now cutoff i seen s
        in case row_get s_id i (sessions (db s)) of
             None \<Rightarrow> (False, s)
           | Some session \<Rightarrow>
               (case terminate_session B now session SESSION_REAPER_ACTOR_ID s of
                  (Inl _, s) \<Rightarrow> (False, s)
                | (Inr _, s) \<Rightarrow>
                    (True, on_db (timed_out_event now
                       (if seen = SS_DISCONNECTED then ''disconnected_timeout'' else ''no_viewer_timeout'')
                       ''disconnected_since'' (unattended_since session)
                       (session_disconnected_timeout (cfg B)) session) s)))"

fun count_steps :: "('c \<Rightarrow> 'w sys \<Rightarrow> bool \<times> 'w sys) \<Rightarrow> 'c list \<Rightarrow> 'w sys \<Rightarrow> nat \<times> 'w sys" where
  "count_steps f [] s = (0, s)"
| "count_steps f (c # cs) s =
     (let (ok, s) = f c s; (n, s) = count_steps f cs s in ((if ok then Suc n else n), s))"

definition reap_once :: "'w backend \<Rightarrow> instant \<Rightarrow> 'w sys \<Rightarrow> nat \<times> 'w sys" where
  "reap_once B now s =
     (let timeout = session_disconnected_timeout (cfg B); cutoff = now - timeout in
      if timeout \<le> 0 then (0, s)
      else count_steps (reap_one B now cutoff)
             (map (\<lambda>x. (s_id x, s_status x)) (filter (unattended cutoff) (sessions (db s)))) s)"

definition stuck_reason :: "session_status \<Rightarrow> string option" where
  "stuck_reason st =
     (if st = SS_STARTING then Some ''stuck_starting''
      else if st = SS_TERMINATING then Some ''stuck_terminating'' else None)"

definition stuck :: "instant \<Rightarrow> browser_session \<Rightarrow> bool" where
  "stuck cutoff x \<longleftrightarrow> stuck_reason (s_status x) \<noteq> None \<and> s_updated_at x < cutoff"

definition claim_stuck :: "instant \<Rightarrow> uuid \<Rightarrow> session_status \<Rightarrow> browser_session \<Rightarrow> bool" where
  "claim_stuck cutoff i st x \<longleftrightarrow> s_id x = i \<and> s_status x = st \<and> s_updated_at x < cutoff"

definition stuck_claim :: "instant \<Rightarrow> instant \<Rightarrow> uuid \<Rightarrow> session_status \<Rightarrow> 'w sys \<Rightarrow> 'w sys" where
  "stuck_claim now cutoff i st s =
     on_db (\<lambda>d. d\<lparr>sessions := map (\<lambda>x. if claim_stuck cutoff i st x
       then x\<lparr>s_updated_at := now\<rparr> else x) (sessions d)\<rparr>) s"

definition recover_one ::
  "'w backend \<Rightarrow> instant \<Rightarrow> instant \<Rightarrow> uuid \<times> session_status \<times> instant \<Rightarrow> 'w sys \<Rightarrow> bool \<times> 'w sys" where
  "recover_one B now cutoff candidate s =
     (let (i, st, since) = candidate in
      if \<not> list_ex (claim_stuck cutoff i st) (sessions (db s)) then (False, s)
      else
        let s = stuck_claim now cutoff i st s
        in case row_get s_id i (sessions (db s)) of
             None \<Rightarrow> (False, s)
           | Some session \<Rightarrow>
               (case terminate_session B now session SESSION_REAPER_ACTOR_ID s of
                  (Inl _, s) \<Rightarrow> (False, s)
                | (Inr _, s) \<Rightarrow>
                    (True, on_db (timed_out_event now (case stuck_reason st of Some r \<Rightarrow> r | None \<Rightarrow> [])
                       ''stuck_since'' since (session_stuck_transition_timeout (cfg B)) session) s)))"

definition recover_stuck_once :: "'w backend \<Rightarrow> instant \<Rightarrow> 'w sys \<Rightarrow> nat \<times> 'w sys" where
  "recover_stuck_once B now s =
     (let timeout = session_stuck_transition_timeout (cfg B); cutoff = now - timeout in
      if timeout \<le> 0 then (0, s)
      else count_steps (recover_one B now cutoff)
             (map (\<lambda>x. (s_id x, s_status x, s_updated_at x)) (filter (stuck cutoff) (sessions (db s)))) s)"

section \<open>The reconciler\<close>

definition NOT_ORPHAN_STATUSES :: "session_status set" where
  "NOT_ORPHAN_STATUSES = {SS_QUEUED, SS_STARTING, SS_ACTIVE, SS_DISCONNECTED, SS_ISOLATING, SS_ISOLATED, SS_TERMINATING}"

definition LOST_CANDIDATE_STATUSES :: "session_status set" where
  "LOST_CANDIDATE_STATUSES = {SS_ACTIVE, SS_DISCONNECTED, SS_ISOLATING, SS_ISOLATED}"

text \<open>The two in-process counters: consecutive cycles a session was seen as an orphan, or as lost.\<close>

record counters =
  orphan_seen :: "uuid \<Rightarrow> nat option"
  lost_seen :: "uuid \<Rightarrow> nat option"

definition well_formed_ids :: "reported_id list \<Rightarrow> uuid list" where
  "well_formed_ids rs = remdups (concat (map (\<lambda>r. case r of Reported i \<Rightarrow> [i] | Malformed _ \<Rightarrow> []) rs))"

text \<open>The node's inventory: (running, managed), or None when it is unreachable or revoked.\<close>

definition inventory :: "'w backend \<Rightarrow> browser_node \<Rightarrow> 'w sys \<Rightarrow> (uuid list \<times> uuid list) option \<times> 'w sys" where
  "inventory B node s =
     (if n_enrollment_status node = NE_REVOKED then (None, s)
      else
        let c = connection_for_node B (Some node) in
        case agent (list_active_sandboxes B c) s of
          (Inl _, s) \<Rightarrow> (None, s)
        | (Inr running, s) \<Rightarrow>
            (case agent (list_managed_sandboxes B c) s of
               (Inl _, s) \<Rightarrow> (None, s)
             | (Inr managed, s) \<Rightarrow> (Some (well_formed_ids running, well_formed_ids managed), s)))"

definition is_orphan :: "database \<Rightarrow> uuid \<Rightarrow> bool" where
  "is_orphan d i =
     (case row_get s_id i (sessions d) of None \<Rightarrow> True | Some x \<Rightarrow> s_status x \<notin> NOT_ORPHAN_STATUSES)"

definition bump :: "uuid \<Rightarrow> (uuid \<Rightarrow> nat option) \<Rightarrow> (uuid \<Rightarrow> nat option)" where
  "bump i m = m(i \<mapsto> (case m i of None \<Rightarrow> 1 | Some n \<Rightarrow> Suc n))"

definition due :: "settings \<Rightarrow> (uuid \<Rightarrow> nat option) \<Rightarrow> uuid list \<Rightarrow> uuid list" where
  "due st m ids = filter (\<lambda>i. case m i of None \<Rightarrow> False | Some n \<Rightarrow> int n \<ge> orphan_reconcile_grace_cycles st) ids"

definition drop_all :: "uuid list \<Rightarrow> (uuid \<Rightarrow> nat option) \<Rightarrow> (uuid \<Rightarrow> nat option)" where
  "drop_all ids m = (\<lambda>i. if i \<in> set ids then None else m i)"

definition orphan_event :: "instant \<Rightarrow> browser_node \<Rightarrow> uuid \<Rightarrow> database \<Rightarrow> database" where
  "orphan_event now node i d =
     (let x = row_get s_id i (sessions d) in
      record_security_event now EV_ORPHAN_SESSION_RECONCILED (map_option s_user_id x) (map_option s_id x) None
        (Some [(''session_id'', JId i), (''node_id'', JId (n_id node)),
               (''reason'', JStr (case x of None \<Rightarrow> ''no_browser_session_row''
                  | Some x \<Rightarrow> ''db_status='' @ session_status_value (s_status x))),
               (''reconciled_at'', JInt now)]) d)"

definition terminate_orphan ::
  "'w backend \<Rightarrow> instant \<Rightarrow> browser_node \<Rightarrow> uuid \<Rightarrow> 'w sys \<Rightarrow> bool \<times> 'w sys" where
  "terminate_orphan B now node i s =
     (case agent (terminate_sandbox B i (connection_for_node B (Some node))) s of
        (Inl _, s) \<Rightarrow> (False, s)
      | (Inr _, s) \<Rightarrow> (True, on_db (orphan_event now node i) s))"

definition fail_lost_row :: "instant \<Rightarrow> browser_node \<Rightarrow> bool \<Rightarrow> browser_session \<Rightarrow> 'w sys \<Rightarrow> 'w sys" where
  "fail_lost_row now node unreachable x s =
     (let s = on_db (set_session now (s_id x) (\<lambda>y. y\<lparr>s_status := SS_FAILED, s_ended_at := Some now\<rparr>)) s;
          s = discard_stale_connection (s_id x) s
      in on_db (record_security_event now EV_SESSION_LOST_RECONCILED (Some (s_user_id x)) (Some (s_id x)) None
           (Some [(''session_id'', JId (s_id x)), (''node_id'', JId (n_id node)),
                  (''last_status'', JStr (session_status_value (s_status x))),
                  (''node_unreachable'', JBool unreachable), (''reconciled_at'', JInt now)])) s)"

text \<open>The result says whether the row was finalised (and its counter dropped).\<close>

definition fail_lost ::
  "'w backend \<Rightarrow> instant \<Rightarrow> browser_node \<Rightarrow> bool \<Rightarrow> browser_session \<Rightarrow> 'w sys \<Rightarrow> bool \<times> 'w sys" where
  "fail_lost B now node unreachable x s =
     (if unreachable then (True, fail_lost_row now node unreachable x s)
      else case agent (terminate_sandbox B (s_id x) (connection_for_node B (Some node))) s of
          (Inl _, s) \<Rightarrow> (False, s)
        | (Inr _, s) \<Rightarrow> (True, fail_lost_row now node unreachable x s))"

fun each :: "('c \<Rightarrow> 'w sys \<Rightarrow> bool \<times> 'w sys) \<Rightarrow> 'c list \<Rightarrow> 'w sys \<Rightarrow> 'c list \<times> 'w sys" where
  "each f [] s = ([], s)"
| "each f (c # cs) s =
     (let (ok, s) = f c s; (oks, s) = each f cs s in (if ok then c # oks else oks, s))"

text \<open>The forward direction: containers against rows.\<close>

definition reconcile_containers ::
  "'w backend \<Rightarrow> instant \<Rightarrow> browser_node \<Rightarrow> uuid list \<Rightarrow> (uuid \<Rightarrow> nat option) \<Rightarrow> 'w sys
   \<Rightarrow> bool \<times> (uuid \<Rightarrow> nat option) \<times> 'w sys" where
  "reconcile_containers B now node managed m s =
     (let orphans = filter (is_orphan (db s)) managed;
          m = (\<lambda>i. if i \<in> set managed \<and> i \<notin> set orphans then None else m i);
          m = fold bump orphans m;
          to_terminate = due (cfg B) m orphans;
          m = drop_all to_terminate m;
          (done_ids, s) = each (terminate_orphan B now node) to_terminate s
      in (done_ids \<noteq> [], m, s))"

text \<open>The reverse direction: rows pinned to this node against its running containers.\<close>

definition lost_rows :: "browser_node \<Rightarrow> database \<Rightarrow> browser_session list" where
  "lost_rows node d =
     filter (\<lambda>x. s_node_id x = Some (n_id node) \<and> s_status x \<in> LOST_CANDIDATE_STATUSES) (sessions d)"

definition reconcile_rows ::
  "'w backend \<Rightarrow> instant \<Rightarrow> browser_node \<Rightarrow> uuid list option \<Rightarrow> (uuid \<Rightarrow> nat option) \<Rightarrow> 'w sys
   \<Rightarrow> bool \<times> (uuid \<Rightarrow> nat option) \<times> 'w sys" where
  "reconcile_rows B now node running m s =
     (let rows = lost_rows node (db s);
          lost = (case running of None \<Rightarrow> rows | Some ids \<Rightarrow> filter (\<lambda>x. s_id x \<notin> set ids) rows);
          m = (\<lambda>i. if i \<in> set (map s_id rows) \<and> i \<notin> set (map s_id lost) then None else m i);
          m = fold bump (map s_id lost) m;
          to_fail = filter (\<lambda>x. s_id x \<in> set (due (cfg B) m (map s_id lost))) lost;
          (failed, s) = each (fail_lost B now node (running = None)) to_fail s;
          m = drop_all (map s_id failed) m
      in (failed \<noteq> [], m, s))"

definition reconcile_node ::
  "'w backend \<Rightarrow> instant \<Rightarrow> browser_node \<Rightarrow> counters \<Rightarrow> 'w sys \<Rightarrow> bool \<times> counters \<times> 'w sys" where
  "reconcile_node B now node k s =
     (case inventory B node s of
        (None, s) \<Rightarrow>
          (let (changed, m, s) = reconcile_rows B now node None (lost_seen k) s
           in (changed, k\<lparr>lost_seen := m\<rparr>, s))
      | (Some (running, managed), s) \<Rightarrow>
          (let (changed1, m1, s) = reconcile_containers B now node managed (orphan_seen k) s;
               (changed2, m2, s) = reconcile_rows B now node (Some running) (lost_seen k) s
           in (changed1 \<or> changed2, k\<lparr>orphan_seen := m1, lost_seen := m2\<rparr>, s)))"

definition reconciled_nodes :: "database \<Rightarrow> browser_node list" where
  "reconciled_nodes d =
     filter (\<lambda>n. n_enrollment_status n = NE_APPROVED
        \<or> (n_enrollment_status n = NE_REVOKED
           \<and> list_ex (\<lambda>x. s_node_id x = Some (n_id n) \<and> s_status x \<in> LOST_CANDIDATE_STATUSES) (sessions d)))
       (nodes d)"

fun reconcile_nodes :: "'w backend \<Rightarrow> instant \<Rightarrow> browser_node list \<Rightarrow> counters \<Rightarrow> 'w sys \<Rightarrow> counters \<times> 'w sys" where
  "reconcile_nodes B now [] k s = (k, s)"
| "reconcile_nodes B now (n # ns) k s =
     (let (changed, k, s) = reconcile_node B now n k s in reconcile_nodes B now ns k s)"

definition reconcile_once :: "'w backend \<Rightarrow> instant \<Rightarrow> counters \<Rightarrow> 'w sys \<Rightarrow> counters \<times> 'w sys" where
  "reconcile_once B now k s = reconcile_nodes B now (reconciled_nodes (db s)) k s"

end
