(* ===== verification/Session_Lifecycle.thy ===== *)
theory Session_Lifecycle
  imports Session_Jobs
begin

text \<open>
  The session state machine. \<open>session_step\<close> collects everything that touches a session row: the
  routes of users and administrators, the display connections, the reaper (with a crash between its
  claim and its teardown), stuck-session recovery and the reconciler, in any order. Every step moves
  every row along an edge of \<open>session_edge\<close> and leaves its owner, node and clipboard mode alone.
\<close>

definition session_edge :: "session_status \<Rightarrow> session_status \<Rightarrow> bool" where
  "session_edge a b \<longleftrightarrow> a = b
     \<or> (a \<noteq> SS_TERMINATED \<and> b \<in> {SS_TERMINATED, SS_FAILED})
     \<or> (a \<in> {SS_ACTIVE, SS_DISCONNECTED} \<and> b \<in> {SS_ACTIVE, SS_DISCONNECTED, SS_ISOLATED, SS_TERMINATING})
     \<or> (a = SS_ISOLATED \<and> b = SS_ACTIVE)"

definition end_edge :: "session_status \<Rightarrow> session_status \<Rightarrow> bool" where
  "end_edge a b \<longleftrightarrow> a = b \<or> (a \<noteq> SS_TERMINATED \<and> b \<in> {SS_TERMINATED, SS_FAILED})"

lemma end_edge_refl [simp]: "end_edge a a"
  by (simp add: end_edge_def)

lemma session_edge_refl [simp]: "session_edge a a"
  by (simp add: session_edge_def)

lemma end_edge_trans: "end_edge a b \<Longrightarrow> end_edge b c \<Longrightarrow> end_edge a c"
  by (auto simp: end_edge_def)

lemma end_edge_edge: "end_edge a b \<Longrightarrow> session_edge a b"
  by (auto simp: end_edge_def session_edge_def)

section \<open>Tables of sessions\<close>

definition row_ev :: "(session_status \<Rightarrow> session_status \<Rightarrow> bool) \<Rightarrow> browser_session \<Rightarrow> browser_session \<Rightarrow> bool" where
  "row_ev E a b \<longleftrightarrow> E (s_status a) (s_status b) \<and> s_id b = s_id a \<and> s_user_id b = s_user_id a
     \<and> s_node_id b = s_node_id a \<and> s_clipboard_mode b = s_clipboard_mode a"

definition table_ev ::
  "(session_status \<Rightarrow> session_status \<Rightarrow> bool) \<Rightarrow> browser_session list \<Rightarrow> browser_session list \<Rightarrow> bool" where
  "table_ev E xs ys \<longleftrightarrow> (\<exists>zs new. ys = zs @ new \<and> list_all2 (row_ev E) xs zs)"

definition sessions_wf :: "database \<Rightarrow> bool" where
  "sessions_wf d \<longleftrightarrow> distinct_keys s_id (sessions d) \<and> list_all (\<lambda>x. s_id x < next_id d) (sessions d)"

lemma table_ev_all2: "list_all2 (row_ev E) xs ys \<Longrightarrow> table_ev E xs ys"
  unfolding table_ev_def by (metis append_Nil2)

lemma table_ev_refl: "(\<And>a. E a a) \<Longrightarrow> table_ev E xs xs"
  by (auto intro!: table_ev_all2 list_all2_refl simp: row_ev_def)

lemma table_ev_mono: "table_ev E xs ys \<Longrightarrow> (\<And>a b. E a b \<Longrightarrow> F a b) \<Longrightarrow> table_ev F xs ys"
  unfolding table_ev_def row_ev_def by (metis (mono_tags, lifting) list_all2_mono)

lemma all2_ids: "list_all2 (row_ev E) xs ys \<Longrightarrow> map s_id ys = map s_id xs"
  by (induction rule: list_all2_induct) (auto simp: row_ev_def)

lemma all2_trans:
  "list_all2 (row_ev E) xs ys \<Longrightarrow> list_all2 (row_ev E) ys zs \<Longrightarrow> (\<And>a b c. E a b \<Longrightarrow> E b c \<Longrightarrow> E a c)
   \<Longrightarrow> list_all2 (row_ev E) xs zs"
  by (erule (1) list_all2_trans [rotated]) (auto simp: row_ev_def)

lemma all2_map: "(\<And>x. x \<in> set xs \<Longrightarrow> row_ev E x (f x)) \<Longrightarrow> list_all2 (row_ev E) xs (map f xs)"
  by (simp add: list_all2_map2 list_all2_same)

text \<open>A change of the table of a well-formed database that only rewrites rows.\<close>

definition reworks :: "(session_status \<Rightarrow> session_status \<Rightarrow> bool) \<Rightarrow> 'w sys \<Rightarrow> 'w sys \<Rightarrow> bool" where
  "reworks E s s' \<longleftrightarrow> list_all2 (row_ev E) (sessions (db s)) (sessions (db s')) \<and> next_id (db s) \<le> next_id (db s')"

lemma reworks_refl: "(\<And>a. E a a) \<Longrightarrow> reworks E s s"
  by (auto simp: reworks_def row_ev_def intro!: list_all2_refl)

lemma reworks_trans:
  "reworks E s t \<Longrightarrow> reworks E t u \<Longrightarrow> (\<And>a b c. E a b \<Longrightarrow> E b c \<Longrightarrow> E a c) \<Longrightarrow> reworks E s u"
  unfolding reworks_def by (auto intro: all2_trans)

lemma reworks_same:
  "sessions (db s') = sessions (db s) \<Longrightarrow> next_id (db s) \<le> next_id (db s') \<Longrightarrow> (\<And>a. E a a) \<Longrightarrow> reworks E s s'"
  by (auto simp: reworks_def row_ev_def intro!: list_all2_refl)

lemma reworks_wf: "reworks E s s' \<Longrightarrow> sessions_wf (db s) \<Longrightarrow> sessions_wf (db s')"
proof -
  assume r: "reworks E s s'" and w: "sessions_wf (db s)"
  have ids: "map s_id (sessions (db s')) = map s_id (sessions (db s))"
    using r all2_ids by (auto simp: reworks_def)
  have "\<forall>k \<in> set (map s_id (sessions (db s'))). k < next_id (db s')"
    unfolding ids using r w by (fastforce simp: reworks_def sessions_wf_def list_all_iff)
  then have "list_all (\<lambda>x. s_id x < next_id (db s')) (sessions (db s'))"
    by (simp add: list_all_iff)
  then show ?thesis using w ids by (simp add: sessions_wf_def distinct_keys_def)
qed

lemma reworks_table: "reworks E s s' \<Longrightarrow> (\<And>a b. E a b \<Longrightarrow> F a b)
    \<Longrightarrow> table_ev F (sessions (db s)) (sessions (db s'))"
  unfolding reworks_def by (blast intro: table_ev_all2 table_ev_mono)

lemma row_reworks:
  assumes "sessions_wf (db s)" and "row_get s_id i (sessions (db s)) = Some x"
    and "sessions (db s') = row_update s_id i f (sessions (db s))" and "next_id (db s) \<le> next_id (db s')"
    and "row_ev E x (f x)" and "\<And>a. E a a"
  shows "reworks E s s'"
proof -
  have "row_ev E y (if s_id y = i then f y else y)" if "y \<in> set (sessions (db s))" for y
  proof (cases "s_id y = i")
    case True
    have "row_get s_id i (sessions (db s)) = Some y"
      using assms(1) that True by (simp add: row_get_Some sessions_wf_def)
    then have "y = x" using assms(2) by simp
    then show ?thesis using assms(5) True by simp
  qed (use assms(6) in \<open>simp add: row_ev_def\<close>)
  then show ?thesis using assms(3,4) by (simp add: reworks_def row_update_def all2_map)
qed

section \<open>What the operations do to the table\<close>

lemma on_db_simps [simp]:
  "db (on_db f s) = f (db s)" "world (on_db f s) = world s" "polling (on_db f s) = polling s"
  "active_connections (on_db f s) = active_connections s"
  by (simp_all add: on_db_def)

lemma agent_frame:
  "agent call s = (r, s') \<Longrightarrow> db s' = db s \<and> polling s' = polling s \<and> active_connections s' = active_connections s"
  by (auto simp: agent_def split: prod.splits)

lemma set_session_simps [simp]:
  "sessions (set_session now k f d) = row_update s_id k (\<lambda>s. (f s)\<lparr>s_updated_at := now\<rparr>) (sessions d)"
  "next_id (set_session now k f d) = next_id d" "nodes (set_session now k f d) = nodes d"
  "events (set_session now k f d) = events d" "incidents (set_session now k f d) = incidents d"
  "quarantine_files (set_session now k f d) = quarantine_files d"
  by (simp_all add: set_session_def)

lemma set_session_status_simps [simp]:
  "sessions (set_session_status now k st d) =
     row_update s_id k (\<lambda>s. s\<lparr>s_status := st, s_updated_at := now\<rparr>) (sessions d)"
  "next_id (set_session_status now k st d) = next_id d" "nodes (set_session_status now k st d) = nodes d"
  "events (set_session_status now k st d) = events d" "incidents (set_session_status now k st d) = incidents d"
  by (simp_all add: set_session_status_def)

lemma polling_frame [simp]:
  "db (start_polling i s) = db s" "db (stop_polling i s) = db s"
  "world (start_polling i s) = world s" "world (stop_polling i s) = world s"
  by (simp_all add: start_polling_def stop_polling_def)

lemma row_update_twice:
  "(\<And>r. key (f r) = key r) \<Longrightarrow>
   row_update key k g (row_update key k f rows) = row_update key k (g \<circ> f) rows"
  by (auto simp: row_update_def)

text \<open>\<open>x\<close> is the current row of its session.\<close>

definition current :: "browser_session \<Rightarrow> 'w sys \<Rightarrow> bool" where
  "current x s \<longleftrightarrow> row_get s_id (s_id x) (sessions (db s)) = Some x"

lemma terminate_table:
  assumes "terminate_session B now x actor s = (r, s')"
  shows "next_id (db s) \<le> next_id (db s') \<and>
    (if s_status x = SS_TERMINATED then s' = s
     else \<exists>f. sessions (db s') = row_update s_id (s_id x) f (sessions (db s))
       \<and> (\<forall>y. s_id (f y) = s_id y \<and> s_user_id (f y) = s_user_id y \<and> s_node_id (f y) = s_node_id y
            \<and> s_clipboard_mode (f y) = s_clipboard_mode y
            \<and> s_status (f y) = (case r of Inl _ \<Rightarrow> SS_FAILED | Inr _ \<Rightarrow> SS_TERMINATED)))"
proof (cases "s_status x = SS_TERMINATED")
  case True
  then show ?thesis using assms by (simp add: terminate_session_def)
next
  case False
  let ?s1 = "stop_polling (s_id x) (on_db (set_session_status now (s_id x) SS_TERMINATING) s)"
  obtain q t where a: "agent (terminate_sandbox B (s_id x) (session_connection B x (db ?s1))) ?s1 = (q, t)"
    by (metis prod.exhaust)
  have t: "db t = set_session_status now (s_id x) SS_TERMINATING (db s)" using agent_frame [OF a] by simp
  show ?thesis
  proof (cases q)
    case (Inl e)
    then have "r = Inl (SessionServiceError (''failed to terminate sandbox: '' @ error_detail e))"
      "s' = on_db (set_session_status now (s_id x) SS_FAILED) t"
      using assms False a by (auto simp: terminate_session_def Let_def)
    then show ?thesis using False t by (auto simp: row_update_twice)
  next
    case (Inr u)
    then have "r = Inr ()"
      "s' = on_db (record_security_event now EV_SESSION_TERMINATED (Some (s_user_id x)) (Some (s_id x)) None (actor_meta actor))
              (on_db (set_session now (s_id x) (\<lambda>x. x\<lparr>s_status := SS_TERMINATED, s_ended_at := Some now\<rparr>)) t)"
      using assms False a by (auto simp: terminate_session_def Let_def)
    then show ?thesis using False t by (auto simp: row_update_twice)
  qed
qed

lemma terminate_reworks:
  assumes "terminate_session B now x actor s = (r, s')" and "sessions_wf (db s)" and "current x s"
  shows "reworks end_edge s s'"
proof (cases "s_status x = SS_TERMINATED")
  case True
  then show ?thesis using terminate_table [OF assms(1)] by (auto intro: reworks_refl)
next
  case False
  then obtain f where f: "sessions (db s') = row_update s_id (s_id x) f (sessions (db s))"
    "\<forall>y. s_id (f y) = s_id y \<and> s_user_id (f y) = s_user_id y \<and> s_node_id (f y) = s_node_id y
            \<and> s_clipboard_mode (f y) = s_clipboard_mode y
            \<and> s_status (f y) = (case r of Inl _ \<Rightarrow> SS_FAILED | Inr _ \<Rightarrow> SS_TERMINATED)"
    "next_id (db s) \<le> next_id (db s')"
    using terminate_table [OF assms(1)] by auto
  show ?thesis
    using assms(3) f False
    by (intro row_reworks [OF assms(2) _ f(1)])
      (auto simp: current_def row_ev_def end_edge_def split: sum.splits)
qed


lemma terminate_others:
  assumes "terminate_session B now x actor s = (r, s')" and "current y s" and "s_id y \<noteq> s_id x"
  shows "current y s'"
proof (cases "s_status x = SS_TERMINATED")
  case True
  then show ?thesis using terminate_table [OF assms(1)] assms(2) by simp
next
  case False
  then obtain f where "sessions (db s') = row_update s_id (s_id x) f (sessions (db s))"
    "\<forall>y. s_id (f y) = s_id y"
    using terminate_table [OF assms(1)] by auto
  then show ?thesis using assms(2,3) by (simp add: current_def tbl)
qed

lemma terminate_all_reworks:
  assumes "sessions_wf (db s)" and "list_all (\<lambda>x. current x s) xs" and "distinct (map s_id xs)"
  shows "reworks end_edge s (snd (terminate_all B now actor xs s))"
  using assms
proof (induction xs arbitrary: s)
  case Nil
  then show ?case by (simp add: reworks_refl)
next
  case (Cons x xs)
  obtain r t where t: "terminate_session B now x actor s = (r, t)" by (metis prod.exhaust)
  have r: "reworks end_edge s t" using terminate_reworks [OF t] Cons.prems by simp
  have "list_all (\<lambda>y. current y t) xs"
    unfolding list_all_iff
  proof
    fix y assume y: "y \<in> set xs"
    then have "s_id y \<noteq> s_id x" using Cons.prems(3) by (metis distinct.simps(2) image_eqI list.set_map list.simps(9))
    moreover have "current y s" using Cons.prems(2) y by (simp add: list_all_iff)
    ultimately show "current y t" using terminate_others [OF t] by blast
  qed
  then have "reworks end_edge t (snd (terminate_all B now actor xs t))"
    using Cons.IH Cons.prems reworks_wf [OF r] by simp
  then have "reworks end_edge s (snd (terminate_all B now actor xs t))"
    using r end_edge_trans by (blast intro: reworks_trans)
  then show ?case using t by (cases r; cases "terminate_all B now actor xs t") simp_all
qed

lemma current_of_row:
  "sessions_wf (db s) \<Longrightarrow> x \<in> set (sessions (db s)) \<Longrightarrow> current x s"
  by (simp add: current_def sessions_wf_def row_get_Some)

lemma event_reworks:
  "reworks E s t \<Longrightarrow> reworks E s (on_db (record_security_event now ev u i q m) t)"
  by (simp add: reworks_def)

lemma revoke_reworks:
  assumes "sessions_wf (db s)"
  shows "reworks end_edge s (snd (revoke_user_sessions B now user actor s))"
proof -
  let ?live = "filter (\<lambda>x. s_user_id x = user \<and> s_status x \<in> LIVE_STATUSES) (sessions (db s))"
  have "distinct (map s_id ?live)"
    using assms by (simp add: sessions_wf_def distinct_keys_def distinct_map_filter)
  moreover have "list_all (\<lambda>x. current x s) ?live"
    using current_of_row [OF assms] by (simp add: list_all_iff)
  ultimately have "reworks end_edge s (snd (terminate_all B now actor ?live s))"
    using terminate_all_reworks assms by blast
  then show ?thesis
    by (auto simp: revoke_user_sessions_def Let_def split: prod.splits intro: event_reworks)
qed

lemma isolate_reworks:
  assumes "isolate_session B now x actor s = (r, s')" and "sessions_wf (db s)" and "current x s"
  shows "reworks session_edge s s'"
proof (cases "s_status x \<in> {SS_ACTIVE, SS_DISCONNECTED}")
  case False
  then show ?thesis using assms(1) by (auto simp: isolate_session_def intro: reworks_refl)
next
  case True
  let ?s1 = "on_db (set_session_status now (s_id x) SS_ISOLATING) s"
  obtain q t where a: "agent (isolate_sandbox B (s_id x) (session_connection B x (db ?s1))) ?s1 = (q, t)"
    by (metis prod.exhaust)
  have t: "db t = set_session_status now (s_id x) SS_ISOLATING (db s)" using agent_frame [OF a] by simp
  have "sessions (db s') = row_update s_id (s_id x)
      (\<lambda>y. y\<lparr>s_status := (case q of Inl _ \<Rightarrow> SS_FAILED | Inr _ \<Rightarrow> SS_ISOLATED), s_updated_at := now\<rparr>) (sessions (db s))
    \<and> next_id (db s) \<le> next_id (db s')"
    using assms(1) True a t
    by (auto simp: isolate_session_def Let_def fresh_def row_update_twice o_def split: sum.splits)
  then show ?thesis
    using True assms(3)
    by (intro row_reworks [OF assms(2), where i = "s_id x" and x = x
          and f = "\<lambda>y. y\<lparr>s_status := (case q of Inl _ \<Rightarrow> SS_FAILED | Inr _ \<Rightarrow> SS_ISOLATED), s_updated_at := now\<rparr>"])
      (auto simp: current_def row_ev_def session_edge_def split: sum.splits)
qed

lemma restore_reworks:
  assumes "restore_session B now x actor s = (r, s')" and "sessions_wf (db s)" and "current x s"
  shows "reworks session_edge s s'"
proof (cases "s_status x = SS_ISOLATED")
  case False
  then show ?thesis using assms(1) by (auto simp: restore_session_def intro: reworks_refl)
next
  case True
  obtain q t where a: "agent (restore_sandbox B (s_id x) (session_connection B x (db s))) s = (q, t)"
    by (metis prod.exhaust)
  then have t: "db t = db s" using agent_frame by blast
  obtain f where "sessions (db s') = row_update s_id (s_id x) f (sessions (db s))"
    "next_id (db s) \<le> next_id (db s')" "row_ev session_edge x (f x)"
  proof (cases q)
    case (Inl e)
    with assms(1) True a t that [of "\<lambda>y. y\<lparr>s_status := SS_FAILED, s_updated_at := now\<rparr>"] show ?thesis
      by (auto simp: restore_session_def Let_def row_ev_def session_edge_def)
  next
    case (Inr u)
    with assms(1) True a t that [of "\<lambda>y. y\<lparr>s_status := SS_ACTIVE, s_viewer_connected_at := None,
                     s_last_activity_at := Some now, s_updated_at := now\<rparr>"] show ?thesis
      by (auto simp: restore_session_def Let_def row_ev_def session_edge_def)
  qed
  then show ?thesis using assms(3) by (intro row_reworks [OF assms(2), of "s_id x" x]) (auto simp: current_def)
qed

lemma disconnect_reworks:
  assumes "disconnect_session now x actor s = (r, s')" and "sessions_wf (db s)" and "current x s"
  shows "reworks session_edge s s'"
proof (cases "s_status x \<in> {SS_ACTIVE, SS_DISCONNECTED}")
  case False
  then show ?thesis using assms(1) by (auto simp: disconnect_session_def intro: reworks_refl)
next
  case True
  then have "sessions (db s') = row_update s_id (s_id x)
      (\<lambda>y. y\<lparr>s_status := SS_DISCONNECTED, s_last_activity_at := Some now, s_updated_at := now\<rparr>) (sessions (db s))
    \<and> next_id (db s) \<le> next_id (db s')"
    using assms(1) by (auto simp: disconnect_session_def)
  then show ?thesis
    using True assms(3)
    by (intro row_reworks [OF assms(2), where i = "s_id x" and x = x
          and f = "\<lambda>y. y\<lparr>s_status := SS_DISCONNECTED, s_last_activity_at := Some now, s_updated_at := now\<rparr>"])
      (auto simp: current_def row_ev_def session_edge_def)
qed

lemma respond_reworks:
  "reworks E s (snd r) \<Longrightarrow> (\<And>a. E a a) \<Longrightarrow> reworks E s (snd (sys_respond h s r))"
  by (auto simp: sys_respond_def split: prod.splits sum.splits intro: reworks_same)

lemma with_session_reworks:
  assumes "\<And>x r s'. current x s \<Longrightarrow> f x s = (r, s') \<Longrightarrow> reworks E s s'" and "\<And>a. E a a"
  shows "reworks E s (snd (with_session st f i s))"
proof (cases "row_get s_id i (sessions (db s))")
  case None
  then show ?thesis by (simp add: with_session_def reworks_refl assms(2))
next
  case (Some x)
  then have "current x s" using row_get_SomeD by (fastforce simp: current_def)
  then have "reworks E s (snd (f x s))" using assms(1) by (metis prod.collapse)
  then show ?thesis using Some assms(2) by (simp add: with_session_def respond_reworks)
qed

lemma terminate_own_reworks:
  assumes "sessions_wf (db s)"
  shows "reworks end_edge s (snd (terminate_own_route B now i user s))"
proof (cases "get_own_session_or_404 (db s) i user")
  case (Inl e)
  then show ?thesis by (simp add: terminate_own_route_def reworks_refl)
next
  case (Inr x)
  then have "current x s"
    using row_get_SomeD by (fastforce simp: get_own_session_or_404_def current_def split: option.splits if_splits)
  then have "reworks end_edge s (snd (terminate_session B now x user s))"
    using terminate_reworks assms by (metis prod.collapse)
  then show ?thesis using Inr by (simp add: terminate_own_route_def reworks_refl respond_reworks)
qed


section \<open>Display, reaper, reconciler\<close>

lemma map_reworks:
  assumes "sessions (db s') = map f (sessions (db s))" and "next_id (db s) \<le> next_id (db s')"
    and "\<And>x. row_ev E x (f x)"
  shows "reworks E s s'"
  using assms by (simp add: reworks_def all2_map)

lemma display_open_reworks:
  assumes "sessions_wf (db s)"
  shows "reworks session_edge s (snd (display_open B now dial ws origin host user i s))"
proof (cases "fst (display_open B now dial ws origin host user i s)")
  case (Inl e)
  then have "db (snd (display_open B now dial ws origin host user i s)) = db s"
    by (auto simp: display_open_def Let_def split: if_splits option.splits prod.splits bool.splits)
  then show ?thesis by (simp add: reworks_same)
next
  case (Inr mode)
  then obtain x where x: "row_get s_id i (sessions (db s)) = Some x" "s_status x \<in> {SS_ACTIVE, SS_DISCONNECTED}"
    "sessions (db (snd (display_open B now dial ws origin host user i s))) = row_update s_id i
      (\<lambda>y. y\<lparr>s_status := SS_ACTIVE, s_last_activity_at := Some now, s_viewer_connected_at := Some now,
        s_updated_at := now\<rparr>) (sessions (db s))"
    "next_id (db (snd (display_open B now dial ws origin host user i s))) = next_id (db s)"
    by (auto simp: display_open_def Let_def split: if_splits option.splits prod.splits bool.splits)
  then show ?thesis
    by (intro row_reworks [OF assms x(1) x(3)]) (auto simp: row_ev_def session_edge_def)
qed

lemma display_close_reworks: "reworks session_edge s (display_close now ws i stamp user blocked s)"
  by (rule map_reworks [where f = "disconnect_row now i stamp"])
    (auto simp: display_close_def Let_def disconnect_row_def row_ev_def session_edge_def)

lemma reset_reworks: "reworks session_edge s (reset_viewer_stamps now s)"
  by (rule map_reworks [where f = "\<lambda>x. if s_viewer_connected_at x \<noteq> None \<or> s_status x = SS_ACTIVE
         then x\<lparr>s_viewer_connected_at := None, s_last_activity_at := Some now, s_updated_at := now\<rparr> else x"])
    (simp_all add: reset_viewer_stamps_def row_ev_def)

lemma claim_reworks: "reworks session_edge s (reap_claim now cutoff i seen s)"
  by (rule map_reworks [where f = "\<lambda>x. if claim_unattended cutoff i seen x
       then x\<lparr>s_status := SS_TERMINATING, s_updated_at := now\<rparr> else x"])
    (auto simp: reap_claim_def row_ev_def session_edge_def claim_unattended_def unattended_def)

lemma stuck_claim_reworks: "reworks end_edge s (stuck_claim now cutoff i st s)"
  by (rule map_reworks [where f = "\<lambda>x. if claim_stuck cutoff i st x then x\<lparr>s_updated_at := now\<rparr> else x"])
    (simp_all add: stuck_claim_def row_ev_def)

lemma timed_out_reworks: "reworks E s t \<Longrightarrow> reworks E s (on_db (timed_out_event now why key since timeout x) t)"
  by (simp add: reworks_def timed_out_event_def)

lemma terminate_row:
  assumes "terminate_session B now x actor s = (r, s')" and "s_status x \<noteq> SS_TERMINATED"
  obtains f where "sessions (db s') = row_update s_id (s_id x) f (sessions (db s))"
    "next_id (db s) \<le> next_id (db s')"
    "\<And>y. s_id (f y) = s_id y \<and> s_user_id (f y) = s_user_id y \<and> s_node_id (f y) = s_node_id y
       \<and> s_clipboard_mode (f y) = s_clipboard_mode y
       \<and> s_status (f y) = (case r of Inl _ \<Rightarrow> SS_FAILED | Inr _ \<Rightarrow> SS_TERMINATED)"
  using terminate_table [OF assms(1)] assms(2) by auto

text \<open>A row claimed for teardown ends in TERMINATED or FAILED.\<close>

lemma reap_one_reworks:
  assumes "sessions_wf (db s)"
  shows "reworks session_edge s (snd (reap_one B now cutoff (i, seen) s))"
proof (cases "list_ex (claim_unattended cutoff i seen) (sessions (db s))")
  case False
  then show ?thesis by (simp add: reap_one_def reworks_refl)
next
  case True
  let ?t = "reap_claim now cutoff i seen s"
  have t: "reworks session_edge s ?t" by (rule claim_reworks)
  show ?thesis
  proof (cases "row_get s_id i (sessions (db ?t))")
    case None
    then show ?thesis using True t by (simp add: reap_one_def)
  next
    case (Some x)
    have seen: "seen \<in> {SS_ACTIVE, SS_DISCONNECTED}"
      using True by (auto simp: list_ex_iff claim_unattended_def unattended_def)
    obtain y where y: "y \<in> set (sessions (db s))" "claim_unattended cutoff i seen y"
      using True by (auto simp: list_ex_iff)
    then have "y\<lparr>s_status := SS_TERMINATING, s_updated_at := now\<rparr> \<in> set (sessions (db ?t))" "s_id y = i"
      by (auto simp: reap_claim_def image_iff claim_unattended_def)
    then have "row_get s_id i (sessions (db ?t)) = Some (y\<lparr>s_status := SS_TERMINATING, s_updated_at := now\<rparr>)"
      using reworks_wf [OF t assms] by (simp add: row_get_Some sessions_wf_def)
    then have x: "s_status x = SS_TERMINATING" "s_id x = i" using Some \<open>s_id y = i\<close> by auto
    obtain r u where u: "terminate_session B now x SESSION_REAPER_ACTOR_ID ?t = (r, u)" by (metis prod.exhaust)
    have live: "s_status x \<noteq> SS_TERMINATED" using x by simp
    obtain f where f: "sessions (db u) = row_update s_id i f (sessions (db ?t))"
      "next_id (db ?t) \<le> next_id (db u)"
      "\<And>y. s_id (f y) = s_id y \<and> s_user_id (f y) = s_user_id y \<and> s_node_id (f y) = s_node_id y
       \<and> s_clipboard_mode (f y) = s_clipboard_mode y
       \<and> s_status (f y) = (case r of Inl _ \<Rightarrow> SS_FAILED | Inr _ \<Rightarrow> SS_TERMINATED)"
      using terminate_row [OF u live] x(2) by metis
    have "sessions (db u) = map (\<lambda>z. if s_id z = i then f (if claim_unattended cutoff i seen z
        then z\<lparr>s_status := SS_TERMINATING, s_updated_at := now\<rparr> else z) else z) (sessions (db s))"
      using f(1) by (auto simp: reap_claim_def row_update_def claim_unattended_def)
    moreover have "row_ev session_edge z (if s_id z = i then f (if claim_unattended cutoff i seen z
        then z\<lparr>s_status := SS_TERMINATING, s_updated_at := now\<rparr> else z) else z)" if "z \<in> set (sessions (db s))" for z
    proof (cases "s_id z = i")
      case True
      have "row_get s_id i (sessions (db s)) = Some z" "row_get s_id i (sessions (db s)) = Some y"
        using assms that y(1) True \<open>s_id y = i\<close> by (simp_all add: row_get_Some sessions_wf_def)
      then have "z = y" by simp
      then show ?thesis using f(3) y(2) seen
        by (cases r) (auto simp: row_ev_def session_edge_def claim_unattended_def)
    qed (simp add: row_ev_def)
    ultimately have "reworks session_edge s u"
      using f(2) by (simp add: reworks_def all2_map reap_claim_def)
    then show ?thesis using True Some u
      by (auto simp: reap_one_def intro: timed_out_reworks split: sum.splits)
  qed
qed

lemma recover_one_reworks:
  assumes "sessions_wf (db s)"
  shows "reworks end_edge s (snd (recover_one B now cutoff (i, st, since) s))"
proof (cases "list_ex (claim_stuck cutoff i st) (sessions (db s))")
  case False
  then show ?thesis by (simp add: recover_one_def reworks_refl)
next
  case True
  let ?t = "stuck_claim now cutoff i st s"
  have t: "reworks end_edge s ?t" by (rule stuck_claim_reworks)
  show ?thesis
  proof (cases "row_get s_id i (sessions (db ?t))")
    case None
    then show ?thesis using True t by (simp add: recover_one_def)
  next
    case (Some x)
    obtain r u where u: "terminate_session B now x SESSION_REAPER_ACTOR_ID ?t = (r, u)" by (metis prod.exhaust)
    have "current x ?t" using Some row_get_SomeD by (fastforce simp: current_def)
    then have "reworks end_edge s u"
      using terminate_reworks [OF u] reworks_wf [OF t assms] t end_edge_trans by (blast intro: reworks_trans)
    then show ?thesis using True Some u
      by (auto simp: recover_one_def intro: timed_out_reworks split: sum.splits)
  qed
qed


lemma inventory_frame: "inventory B node s = (r, s') \<Longrightarrow> db s' = db s"
  unfolding inventory_def Let_def
  by (auto split: if_splits prod.splits sum.splits dest!: agent_frame)

lemma terminate_orphan_sessions:
  "sessions (db (snd (terminate_orphan B now node i s))) = sessions (db s)
   \<and> next_id (db s) \<le> next_id (db (snd (terminate_orphan B now node i s)))"
  by (cases "agent (terminate_sandbox B i (connection_for_node B (Some node))) s")
    (auto simp: terminate_orphan_def orphan_event_def Let_def split: sum.splits dest!: agent_frame)

lemma each_orphan_reworks: "reworks end_edge s (snd (each (terminate_orphan B now node) is s))"
proof (induction "is" arbitrary: s)
  case Nil
  then show ?case by (simp add: reworks_refl)
next
  case (Cons i "is")
  let ?t = "snd (terminate_orphan B now node i s)"
  have "reworks end_edge s ?t" using terminate_orphan_sessions [of B now node i s] by (intro reworks_same) auto
  then have "reworks end_edge s (snd (each (terminate_orphan B now node) is ?t))"
    using Cons end_edge_trans by (blast intro: reworks_trans)
  then show ?case by (simp add: split_def Let_def)
qed

lemma fail_lost_row_sessions:
  "sessions (db (fail_lost_row now node un x s)) =
     row_update s_id (s_id x) (\<lambda>y. y\<lparr>s_status := SS_FAILED, s_ended_at := Some now, s_updated_at := now\<rparr>) (sessions (db s))"
  "next_id (db s) \<le> next_id (db (fail_lost_row now node un x s))"
  by (simp_all add: fail_lost_row_def discard_stale_connection_def Let_def)

lemma fail_lost_cases:
  "sessions (db (snd (fail_lost B now node un x s))) = sessions (db s) \<or>
   sessions (db (snd (fail_lost B now node un x s))) =
     row_update s_id (s_id x) (\<lambda>y. y\<lparr>s_status := SS_FAILED, s_ended_at := Some now, s_updated_at := now\<rparr>) (sessions (db s))"
  "next_id (db s) \<le> next_id (db (snd (fail_lost B now node un x s)))"
proof -
  obtain r t where a: "agent (terminate_sandbox B (s_id x) (connection_for_node B (Some node))) s = (r, t)"
    by (metis prod.exhaust)
  have d: "db t = db s" using agent_frame [OF a] by simp
  show "sessions (db (snd (fail_lost B now node un x s))) = sessions (db s) \<or>
   sessions (db (snd (fail_lost B now node un x s))) =
     row_update s_id (s_id x) (\<lambda>y. y\<lparr>s_status := SS_FAILED, s_ended_at := Some now, s_updated_at := now\<rparr>) (sessions (db s))"
    using a d by (auto simp: fail_lost_def fail_lost_row_sessions split: sum.splits)
  show "next_id (db s) \<le> next_id (db (snd (fail_lost B now node un x s)))"
    using a d fail_lost_row_sessions(2) [of s now node un x] fail_lost_row_sessions(2) [of t now node un x]
    by (auto simp: fail_lost_def split: sum.splits)
qed

lemma each_lost_reworks:
  assumes "sessions_wf (db s)" and "list_all (\<lambda>x. current x s \<and> s_status x \<noteq> SS_TERMINATED) xs"
    and "distinct (map s_id xs)"
  shows "reworks end_edge s (snd (each (fail_lost B now node un) xs s))"
  using assms
proof (induction xs arbitrary: s)
  case Nil
  then show ?case by (simp add: reworks_refl)
next
  case (Cons x xs)
  let ?t = "snd (fail_lost B now node un x s)"
  let ?f = "\<lambda>y. y\<lparr>s_status := SS_FAILED, s_ended_at := Some now, s_updated_at := now\<rparr>"
  have x: "row_get s_id (s_id x) (sessions (db s)) = Some x" "s_status x \<noteq> SS_TERMINATED"
    using Cons.prems(2) by (auto simp: current_def)
  have r: "reworks end_edge s ?t"
    using fail_lost_cases(1) [of B now node un x s]
  proof
    assume "sessions (db ?t) = sessions (db s)"
    then show ?thesis using fail_lost_cases(2) [of s B now node un x] by (intro reworks_same) auto
  next
    assume u: "sessions (db ?t) = row_update s_id (s_id x) ?f (sessions (db s))"
    show ?thesis
      using x(2) fail_lost_cases(2) [of s B now node un x]
      by (intro row_reworks [OF Cons.prems(1) x(1) u]) (auto simp: row_ev_def end_edge_def)
  qed
  have "list_all (\<lambda>y. current y ?t \<and> s_status y \<noteq> SS_TERMINATED) xs"
    unfolding list_all_iff
  proof
    fix y assume y: "y \<in> set xs"
    then have "s_id y \<noteq> s_id x" using Cons.prems(3) by (metis distinct.simps(2) image_eqI list.set_map list.simps(9))
    moreover have "current y s" "s_status y \<noteq> SS_TERMINATED" using Cons.prems(2) y by (simp_all add: list_all_iff)
    ultimately show "current y ?t \<and> s_status y \<noteq> SS_TERMINATED"
      using fail_lost_cases(1) [of B now node un x s] by (auto simp: current_def tbl)
  qed
  then have "reworks end_edge ?t (snd (each (fail_lost B now node un) xs ?t))"
    using Cons.IH Cons.prems reworks_wf [OF r] by simp
  then have "reworks end_edge s (snd (each (fail_lost B now node un) xs ?t))"
    using r end_edge_trans by (blast intro: reworks_trans)
  then show ?case by (simp add: split_def Let_def)
qed

lemma reconcile_containers_reworks:
  "reworks end_edge s (snd (snd (reconcile_containers B now node managed m s)))"
  using each_orphan_reworks by (simp add: reconcile_containers_def Let_def split_def)

lemma reconcile_rows_reworks:
  assumes "sessions_wf (db s)"
  shows "reworks end_edge s (snd (snd (reconcile_rows B now node running m s)))"
proof -
  have "reworks end_edge s (snd (each (fail_lost B now node (running = None)) (filter P (filter Q (lost_rows node (db s)))) s))"
    for P Q
  proof (rule each_lost_reworks [OF assms])
    have "distinct (map s_id (sessions (db s)))" using assms by (simp add: sessions_wf_def distinct_keys_def)
    then show "distinct (map s_id (filter P (filter Q (lost_rows node (db s)))))"
      by (simp add: lost_rows_def distinct_map_filter)
    show "list_all (\<lambda>x. current x s \<and> s_status x \<noteq> SS_TERMINATED) (filter P (filter Q (lost_rows node (db s))))"
      using current_of_row [OF assms]
      by (auto simp: list_all_iff lost_rows_def LOST_CANDIDATE_STATUSES_def)
  qed
  note this [of _ "\<lambda>_. True", simplified] this
  then show ?thesis
    by (cases running) (simp_all add: reconcile_rows_def Let_def split_def)
qed

lemma reconcile_node_reworks:
  assumes "sessions_wf (db s)"
  shows "reworks end_edge s (snd (snd (reconcile_node B now node k s)))"
proof -
  obtain i t where i: "inventory B node s = (i, t)" by (metis prod.exhaust)
  have d: "db t = db s" using inventory_frame [OF i] .
  have st: "reworks end_edge s t" by (rule reworks_same) (simp_all add: d)
  have wt: "sessions_wf (db t)" using d assms by simp
  show ?thesis
  proof (cases i)
    case None
    have "reworks end_edge s (snd (snd (reconcile_rows B now node None (lost_seen k) t)))"
      using reconcile_rows_reworks [OF wt] st end_edge_trans by (blast intro: reworks_trans)
    then show ?thesis using i None by (simp add: reconcile_node_def split_def Let_def)
  next
    case (Some p)
    obtain running managed where p: "p = (running, managed)" by fastforce
    let ?u = "snd (snd (reconcile_containers B now node managed (orphan_seen k) t))"
    have u: "reworks end_edge t ?u" by (rule reconcile_containers_reworks)
    have "reworks end_edge ?u (snd (snd (reconcile_rows B now node (Some running) (lost_seen k) ?u)))"
      using reconcile_rows_reworks reworks_wf [OF u wt] by blast
    then have "reworks end_edge s (snd (snd (reconcile_rows B now node (Some running) (lost_seen k) ?u)))"
      using u st end_edge_trans by (blast intro: reworks_trans)
    then show ?thesis using i Some p by (simp add: reconcile_node_def split_def Let_def)
  qed
qed

section \<open>Starting a session\<close>

definition only_nodes :: "'w sys \<Rightarrow> 'w sys \<Rightarrow> bool" where
  "only_nodes s s' \<longleftrightarrow> sessions (db s') = sessions (db s) \<and> next_id (db s) \<le> next_id (db s')
     \<and> events (db s') = events (db s) \<and> incidents (db s') = incidents (db s)"

lemma only_nodes_refl [simp]: "only_nodes s s"
  by (simp add: only_nodes_def)

lemma only_nodes_trans: "only_nodes s t \<Longrightarrow> only_nodes t u \<Longrightarrow> only_nodes s u"
  by (auto simp: only_nodes_def)

lemma set_node_only [simp]:
  "sessions (set_node k f d) = sessions d" "next_id (set_node k f d) = next_id d"
  "events (set_node k f d) = events d" "incidents (set_node k f d) = incidents d"
  by (simp_all add: set_node_def)

lemma refresh_from_agent_only: "refresh_node_from_agent B now s = (r, s') \<Longrightarrow> only_nodes s s'"
  unfolding refresh_node_from_agent_def
  by (auto simp: only_nodes_def fresh_def Let_def split: prod.splits sum.splits option.splits dest!: agent_frame)

lemma refresh_enrolled_only: "refresh_enrolled_node B now n s = (r, s') \<Longrightarrow> only_nodes s s'"
  unfolding refresh_enrolled_node_def
  by (auto simp: only_nodes_def split: prod.splits sum.splits dest!: agent_frame)

lemma refresh_all_only: "refresh_all B now ns s = (r, s') \<Longrightarrow> only_nodes s s'"
proof (induction ns arbitrary: s r s')
  case Nil
  then show ?case by simp
next
  case (Cons n ns)
  obtain q t where q: "refresh_enrolled_node B now n s = (q, t)" by (metis prod.exhaust)
  obtain q2 t2 where q2: "refresh_all B now ns t = (q2, t2)" by (metis prod.exhaust)
  have "only_nodes s t" "only_nodes t t2" using refresh_enrolled_only [OF q] Cons.IH [OF q2] by auto
  then show ?case
    using Cons.prems q q2 only_nodes_trans
    by (auto split: sum.splits service_error.splits)
qed

lemma select_node_only: "select_node B now s = (r, s') \<Longrightarrow> only_nodes s s'"
  unfolding select_node_def Let_def
  using refresh_from_agent_only [of B now s] refresh_all_only [of B now _ s]
  by (auto split: prod.splits sum.splits if_splits service_error.splits)


lemma row_update_fresh:
  "list_all (\<lambda>r. key r \<noteq> k) rows \<Longrightarrow> key x = k \<Longrightarrow> row_update key k f (rows @ [x]) = rows @ [f x]"
  by (auto simp: row_update_def list_all_iff map_idI)

lemma create_cases:
  assumes "create_session B now user s = (r, s')" and "sessions_wf (db s)"
  obtains (quota) m where "count_active_sessions_for_user user (db s) \<ge> max_sessions_per_user (cfg B)"
      "r = Inl (QuotaExceededError m)" "s' = s"
    | (no_node) e where "select_node B now s = (Inl e, s')" "r = Inl e"
    | (failed) node t m x where "count_active_sessions_for_user user (db s) < max_sessions_per_user (cfg B)"
      "select_node B now s = (Inr node, t)"
      "r = Inl (SessionServiceError m)" "sessions (db s') = sessions (db s) @ [x]"
      "x = (new_session (next_id (db t)) now user (Some (n_id node)) (resolve_session_resolution (db t) user)
              (resolve_clipboard_policy (db t) user))\<lparr>s_status := SS_FAILED, s_updated_at := now\<rparr>"
      "Suc (next_id (db t)) \<le> next_id (db s')"
      "\<exists>e. events (db s') = events (db t) @ [e] \<and> e_event_type e = EV_SESSION_START_FAILED
         \<and> e_session_id e = Some (s_id x) \<and> e_user_id e = Some user"
      "polling s' = polling t"
    | (started) node t x where "count_active_sessions_for_user user (db s) < max_sessions_per_user (cfg B)"
      "select_node B now s = (Inr node, t)"
      "r = Inr (s_id x)" "sessions (db s') = sessions (db s) @ [x]"
      "x = (new_session (next_id (db t)) now user (Some (n_id node)) (resolve_session_resolution (db t) user)
              (resolve_clipboard_policy (db t) user))\<lparr>s_status := SS_ACTIVE, s_started_at := Some now,
              s_last_activity_at := Some now, s_updated_at := now\<rparr>"
      "Suc (next_id (db t)) \<le> next_id (db s')"
      "\<exists>e. events (db s') = events (db t) @ [e] \<and> e_event_type e = EV_SESSION_STARTED
         \<and> e_session_id e = Some (s_id x) \<and> e_user_id e = Some user"
      "s_id x \<in> set (polling s')"
proof (cases "count_active_sessions_for_user user (db s) \<ge> max_sessions_per_user (cfg B)")
  case True
  then have "\<exists>m. create_session B now user s = (Inl (QuotaExceededError m), s)"
    by (simp add: create_session_def Let_def)
  then obtain m where "r = Inl (QuotaExceededError m)" "s' = s" using assms(1) by auto
  with True show thesis by (rule quota)
next
  case small: False
  obtain q t where q: "select_node B now s = (q, t)" by (metis prod.exhaust)
  show thesis
  proof (cases q)
    case (Inl e)
    then have "r = Inl e" "s' = t" using assms(1) small q by (simp_all add: create_session_def Let_def)
    then show thesis using no_node [of e] q Inl by simp
  next
    case (Inr node)
    let ?i = "next_id (db t)" and ?c = "connection_for_node B (Some node)"
    let ?x = "new_session ?i now user (Some (n_id node)) (resolve_session_resolution (db t) user)
      (resolve_clipboard_policy (db t) user)"
    let ?t2 = "on_db (set_session_status now ?i SS_STARTING) (insert_session ?x t)"
    obtain b u where b: "agent (bring_up B ?x ?c) ?t2 = (b, u)" by (metis prod.exhaust)
    have t: "sessions (db t) = sessions (db s)" "next_id (db s) \<le> ?i"
      using select_node_only [of B now s] q by (auto simp: only_nodes_def)
    then have old: "list_all (\<lambda>y. s_id y \<noteq> ?i) (sessions (db s))"
      using assms(2) by (auto simp: sessions_wf_def list_all_iff)
    have x: "s_id ?x = ?i" by (simp add: new_session_def)
    have u: "sessions (db u) = sessions (db s) @ [?x\<lparr>s_status := SS_STARTING, s_updated_at := now\<rparr>]"
      "next_id (db u) = Suc ?i" "events (db u) = events (db t)" "polling u = polling t"
      using agent_frame [OF b] t(1) row_update_fresh [OF old x] by (simp_all add: insert_session_def row_insert_def)
    have xs: "s_id (?x\<lparr>s_status := SS_STARTING, s_updated_at := now\<rparr>) = ?i" using x by simp
    have step: "(r, s') = (case b of Inl e \<Rightarrow> start_failed B now user ?i ?c e u | Inr _ \<Rightarrow> start_succeeded now user ?i u)"
      using assms(1) small q Inr b by (simp add: create_session_def Let_def split: sum.splits)
    show thesis
    proof (cases b)
      case (Inl e)
      obtain k v where k: "agent (terminate_sandbox B ?i ?c) (on_db (set_session_status now ?i SS_FAILED) u) = (k, v)"
        by (metis prod.exhaust)
      have v: "sessions (db v) = sessions (db s) @ [?x\<lparr>s_status := SS_FAILED, s_updated_at := now\<rparr>]"
        "next_id (db v) = Suc ?i" "events (db v) = events (db t)" "polling v = polling t"
        using agent_frame [OF k] u row_update_fresh [OF old xs] by simp_all
      let ?y = "?x\<lparr>s_status := SS_FAILED, s_updated_at := now\<rparr>"
      have "\<exists>m meta. start_failed B now user ?i ?c e u = (Inl (SessionServiceError m),
          on_db (record_security_event now EV_SESSION_START_FAILED (Some user) (Some ?i) None meta) v)"
        unfolding start_failed_def Let_def k prod.case by blast
      then obtain m meta where res: "r = Inl (SessionServiceError m)"
        "s' = on_db (record_security_event now EV_SESSION_START_FAILED (Some user) (Some ?i) None meta) v"
        using step Inl by auto
      show thesis
        by (rule failed [OF _ _ res(1), of node t ?y])
          (use small q Inr v x in \<open>simp_all add: res(2)\<close>)
    next
      case w: (Inr w)
      let ?y = "?x\<lparr>s_status := SS_ACTIVE, s_started_at := Some now, s_last_activity_at := Some now, s_updated_at := now\<rparr>"
      have res: "r = Inr ?i"
        "s' = start_polling ?i (on_db (record_security_event now EV_SESSION_STARTED (Some user) (Some ?i) None None)
             (on_db (set_session now ?i (\<lambda>x. x\<lparr>s_status := SS_ACTIVE, s_started_at := Some now,
                           s_last_activity_at := Some now\<rparr>)) u))"
        using step w by (simp_all add: start_succeeded_def)
      show thesis
        by (rule started [of node t ?y])
          (use small q Inr u x row_update_fresh [OF old xs] in \<open>simp_all add: res start_polling_def\<close>)
    qed
  qed
qed


section \<open>The step relation\<close>

inductive session_step :: "'w backend \<Rightarrow> 'w sys \<Rightarrow> 'w sys \<Rightarrow> bool" for B where
  start: "session_step B s (snd (start_session_route B now user s))"
| terminate_own: "session_step B s (snd (terminate_own_route B now i user s))"
| disconnect: "session_step B s (snd (admin_disconnect now actor i s))"
| isolate: "session_step B s (snd (admin_isolate B now actor i s))"
| restore: "session_step B s (snd (admin_restore B now actor i s))"
| kill: "session_step B s (snd (admin_kill B now actor i s))"
| revoke: "session_step B s (snd (revoke_user_sessions B now user actor s))"
| open_display: "session_step B s (snd (display_open B now dial ws origin host user i s))"
| close_display: "session_step B s (display_close now ws i stamp user blocked s)"
| reset: "session_step B s (reset_viewer_stamps now s)"
| reap: "session_step B s (snd (reap_one B now cutoff (i, seen) s))"
| reap_crash: "session_step B s (reap_claim now cutoff i seen s)"
| recover: "session_step B s (snd (recover_one B now cutoff (i, st, since) s))"
| reconcile: "session_step B s (snd (snd (reconcile_node B now node k s)))"

lemma end_reworks_edge: "reworks end_edge s s' \<Longrightarrow> reworks session_edge s s'"
  unfolding reworks_def row_ev_def using end_edge_edge
  by (metis (mono_tags, lifting) list_all2_mono)

lemma start_route_table:
  assumes "sessions_wf (db s)"
  shows "sessions_wf (db (snd (start_session_route B now user s)))
    \<and> table_ev session_edge (sessions (db s)) (sessions (db (snd (start_session_route B now user s))))"
proof -
  obtain r s' where c: "create_session B now user s = (r, s')" by (metis prod.exhaust)
  have same: ?thesis if "sessions (db (snd (start_session_route B now user s))) = sessions (db s)"
    "next_id (db s) \<le> next_id (db (snd (start_session_route B now user s)))"
    using that assms by (auto simp: sessions_wf_def list_all_iff table_ev_refl)
  have grown: ?thesis if "sessions (db (snd (start_session_route B now user s))) = sessions (db s) @ [x]"
    "next_id (db s) \<le> s_id x" "s_id x < next_id (db (snd (start_session_route B now user s)))" for x
  proof -
    have "table_ev session_edge (sessions (db s)) (sessions (db s) @ [x])"
      unfolding table_ev_def by (intro exI conjI, rule refl) (auto simp: row_ev_def intro: list_all2_refl)
    moreover have "s_id x \<notin> s_id ` set (sessions (db s))"
      using that(2) assms by (auto simp: sessions_wf_def list_all_iff)
    ultimately show ?thesis
      using that assms by (auto simp: sessions_wf_def list_all_iff distinct_keys_def)
  qed
  from c assms show ?thesis
  proof (cases rule: create_cases)
    case (quota m)
    then show ?thesis by (intro same) (simp_all add: start_session_route_def c sys_respond_def handle_start_def)
  next
    case (no_node e)
    then show ?thesis
      using select_node_only [OF no_node(1)]
      by (intro same) (auto simp: start_session_route_def c sys_respond_def split_def Let_def only_nodes_def)
  next
    case (failed node t m x)
    then show ?thesis
      using select_node_only [OF failed(2)]
      by (intro grown [of x]) (auto simp: start_session_route_def c sys_respond_def handle_start_def only_nodes_def new_session_def)
  next
    case (started node t x)
    then show ?thesis
      using select_node_only [OF started(2)]
      by (intro grown [of x]) (auto simp: start_session_route_def c sys_respond_def only_nodes_def new_session_def)
  qed
qed

lemma step_table:
  assumes "session_step B s s'" and "sessions_wf (db s)"
  shows "sessions_wf (db s') \<and> table_ev session_edge (sessions (db s)) (sessions (db s'))"
proof -
  have done_if: "reworks session_edge s t \<Longrightarrow>
      sessions_wf (db t) \<and> table_ev session_edge (sessions (db s)) (sessions (db t))" for t
    using assms(2) reworks_wf reworks_table by blast
  note W = assms(2)
  show ?thesis
    using assms(1)
  proof cases
    case (start now user)
    then show ?thesis using start_route_table W by blast
  next
    case (terminate_own now i user)
    then show ?thesis using terminate_own_reworks [OF W] end_reworks_edge done_if by blast
  next
    case (disconnect now actor i)
    then show ?thesis
      unfolding admin_disconnect_def using disconnect_reworks [OF _ W]
      by (intro done_if) (auto intro!: with_session_reworks)
  next
    case (isolate now actor i)
    then show ?thesis
      unfolding admin_isolate_def using isolate_reworks [OF _ W]
      by (intro done_if) (auto intro!: with_session_reworks)
  next
    case (restore now actor i)
    then show ?thesis
      unfolding admin_restore_def using restore_reworks [OF _ W]
      by (intro done_if) (auto intro!: with_session_reworks)
  next
    case (kill now actor i)
    then show ?thesis
      unfolding admin_kill_def using terminate_reworks [OF _ W]
      by (intro done_if) (auto intro!: with_session_reworks end_reworks_edge)
  next
    case (revoke now user actor)
    then show ?thesis using revoke_reworks [OF W] end_reworks_edge done_if by blast
  next
    case (open_display now dial ws origin host user i)
    then show ?thesis using display_open_reworks [OF W] done_if by blast
  next
    case (close_display now ws i stamp user blocked)
    then show ?thesis using display_close_reworks done_if by blast
  next
    case (reset now)
    then show ?thesis using reset_reworks done_if by blast
  next
    case (reap now cutoff i seen)
    then show ?thesis using reap_one_reworks [OF W] done_if by blast
  next
    case (reap_crash now cutoff i seen)
    then show ?thesis using claim_reworks done_if by blast
  next
    case (recover now cutoff i st since)
    then show ?thesis using recover_one_reworks [OF W] end_reworks_edge done_if by blast
  next
    case (reconcile now node k)
    then show ?thesis using reconcile_node_reworks [OF W] end_reworks_edge done_if by blast
  qed
qed

lemma find_append_Some: "find P xs = Some x \<Longrightarrow> find P (xs @ ys) = Some x"
  by (induction xs) (auto split: if_splits)

lemma table_ev_row:
  assumes "table_ev E xs ys" and "row_get s_id k xs = Some a"
  shows "\<exists>b. row_get s_id k ys = Some b \<and> row_ev E a b"
proof -
  obtain zs new where z: "ys = zs @ new" "list_all2 (row_ev E) xs zs" using assms(1) by (auto simp: table_ev_def)
  have "\<exists>b. row_get s_id k zs = Some b \<and> row_ev E a b"
    using z(2) assms(2)
    by (induction rule: list_all2_induct) (auto simp: row_get_def row_ev_def split: if_splits)
  then show ?thesis unfolding z(1) row_get_def by (auto simp: find_append_Some)
qed


inductive session_run :: "'w backend \<Rightarrow> 'w sys \<Rightarrow> 'w sys \<Rightarrow> bool" for B where
  run_refl: "session_run B s s"
| run_step: "session_run B s t \<Longrightarrow> session_step B t u \<Longrightarrow> session_run B s u"

text \<open>
  C5. Every step obeys the session state machine: whatever route, display event or background job
  runs next, and whatever the agents answer, every session row that exists stays in the table with
  the same identifier, owner, node and clipboard mode, and its status moves along an edge of
  \<open>session_edge\<close>; the table stays well-formed (unique, already issued identifiers).
\<close>

theorem sessions_follow_the_state_machine:
  assumes "session_step B s s'" and "sessions_wf (db s)"
    and "row_get s_id k (sessions (db s)) = Some a"
  shows "sessions_wf (db s') \<and> (\<exists>b. row_get s_id k (sessions (db s')) = Some b
    \<and> session_edge (s_status a) (s_status b) \<and> s_user_id b = s_user_id a \<and> s_node_id b = s_node_id a
    \<and> s_clipboard_mode b = s_clipboard_mode a)"
  using step_table [OF assms(1,2)] table_ev_row [OF _ assms(3)] by (fastforce simp: row_ev_def)

lemma run_table:
  "session_run B s s' \<Longrightarrow> sessions_wf (db s) \<Longrightarrow> row_get s_id k (sessions (db s)) = Some a \<Longrightarrow>
   P (s_status a) \<Longrightarrow> (\<And>x y. P x \<Longrightarrow> session_edge x y \<Longrightarrow> P y) \<Longrightarrow>
   sessions_wf (db s') \<and> (\<exists>b. row_get s_id k (sessions (db s')) = Some b \<and> P (s_status b)
     \<and> s_user_id b = s_user_id a)"
proof (induction rule: session_run.induct)
  case (run_refl s)
  then show ?case by blast
next
  case (run_step s t u)
  then obtain b where b: "sessions_wf (db t)" "row_get s_id k (sessions (db t)) = Some b" "P (s_status b)"
    "s_user_id b = s_user_id a" by blast
  obtain c where "row_get s_id k (sessions (db u)) = Some c" "row_ev session_edge b c"
    using step_table [OF run_step(2) b(1)] table_ev_row [OF _ b(2)] by blast
  then show ?case
    using step_table [OF run_step(2) b(1)] run_step.prems(4) b by (auto simp: row_ev_def)
qed

text \<open>
  A terminated session stays terminated: over any sequence of steps, a session whose status is
  TERMINATED is never brought back, and one that is TERMINATED or FAILED never becomes usable again
  (its status remains one of the two).
\<close>

theorem ended_sessions_never_come_back:
  assumes "session_run B s s'" and "sessions_wf (db s)"
    and "row_get s_id k (sessions (db s)) = Some a" and "s_status a \<in> {SS_TERMINATED, SS_FAILED}"
  shows "\<exists>b. row_get s_id k (sessions (db s')) = Some b
    \<and> s_status b \<in> {SS_TERMINATED, SS_FAILED} \<and> (s_status b = SS_TERMINATED \<or> s_status a = SS_FAILED)"
proof (cases "s_status a = SS_TERMINATED")
  case True
  then show ?thesis
    using run_table [OF assms(1-3), of "\<lambda>x. x = SS_TERMINATED"] by (auto simp: session_edge_def)
next
  case False
  then show ?thesis
    using run_table [OF assms(1-3), of "\<lambda>x. x \<in> {SS_TERMINATED, SS_FAILED}"] assms(4)
    by (auto simp: session_edge_def)
qed

text \<open>What node selection can fail with.\<close>

definition scheduling_error :: "service_error \<Rightarrow> bool" where
  "scheduling_error e = (case e of NoCapacityError _ \<Rightarrow> True | SessionAgentError _ \<Rightarrow> True
     | RuntimeErr _ \<Rightarrow> True | DbIntegrityError \<Rightarrow> True | _ \<Rightarrow> False)"

lemma agent_request_error:
  "agent (request call c) s = (Inl e, s') \<Longrightarrow> scheduling_error e"
  by (auto simp: agent_def scheduling_error_def split: prod.splits dest: request_error)

lemma apply_node_status_error: "apply_node_status now st n = Inl e \<Longrightarrow> scheduling_error e"
  by (auto simp: apply_node_status_def Let_def scheduling_error_def split: if_splits option.splits)

lemma refresh_from_agent_error: "refresh_node_from_agent B now s = (Inl e, s') \<Longrightarrow> scheduling_error e"
  unfolding refresh_node_from_agent_def get_node_status_def [abs_def]
  by (auto split: prod.splits sum.splits option.splits dest: agent_request_error apply_node_status_error
    simp: scheduling_error_def)

lemma refresh_enrolled_error: "refresh_enrolled_node B now n s = (Inl e, s') \<Longrightarrow> scheduling_error e"
  unfolding refresh_enrolled_node_def get_node_status_def [abs_def]
  by (auto split: prod.splits sum.splits dest: agent_request_error apply_node_status_error)

lemma refresh_all_error: "refresh_all B now ns s = (Inl e, s') \<Longrightarrow> scheduling_error e"
proof (induction ns arbitrary: s)
  case (Cons n ns)
  obtain q t where "refresh_enrolled_node B now n s = (q, t)" by (metis prod.exhaust)
  then show ?case
    using Cons refresh_enrolled_error [of B now n s]
    by (auto split: sum.splits service_error.splits prod.splits)
qed simp

lemma select_node_error: "select_node B now s = (Inl e, s') \<Longrightarrow> scheduling_error e"
  unfolding select_node_def Let_def
  using refresh_from_agent_error [of B now s] refresh_all_error [of B now _ s]
  by (auto simp: pick_node_def Let_def scheduling_error_def [of "NoCapacityError _"]
    split: prod.splits sum.splits if_splits service_error.splits)

text \<open>
  C28. Starting a session fails closed. Over quota nothing happens and the answer is 429; without a
  usable node the database is untouched; when the sandbox cannot be brought up the answer is 502 and
  the new row stays behind as FAILED with a SESSION_START_FAILED entry; only when every agent call
  succeeded is there an ACTIVE row, with a SESSION_STARTED entry and its download poller running.
  In every case at most one row was added, for the caller, on the selected node.
\<close>

theorem start_session_outcomes:
  assumes "sessions_wf (db s)"
  shows "case start_session_route B now user s of
      (Inl (status, _), s') \<Rightarrow>
        (status \<in> {429, 503, 500} \<and> db s' = db s)
        \<or> (status = 502 \<and> (\<exists>x e. sessions (db s') = sessions (db s) @ [x] \<and> s_status x = SS_FAILED
             \<and> s_user_id x = user \<and> events (db s') = events (db s) @ [e]
             \<and> e_event_type e = EV_SESSION_START_FAILED \<and> e_session_id e = Some (s_id x)))
    | (Inr i, s') \<Rightarrow>
        \<exists>x e node t. sessions (db s') = sessions (db s) @ [x] \<and> s_id x = i \<and> s_status x = SS_ACTIVE
          \<and> s_user_id x = user \<and> select_node B now s = (Inr node, t) \<and> s_node_id x = Some (n_id node)
          \<and> s_clipboard_mode x = resolve_clipboard_policy (db t) user
          \<and> events (db s') = events (db s) @ [e] \<and> e_event_type e = EV_SESSION_STARTED
          \<and> e_session_id e = Some i \<and> i \<in> set (polling s')"
proof -
  obtain r s' where c: "create_session B now user s = (r, s')" by (metis prod.exhaust)
  from c assms show ?thesis
  proof (cases rule: create_cases)
    case (quota m)
    then show ?thesis by (simp add: start_session_route_def c sys_respond_def handle_start_def)
  next
    case (no_node e)
    have "handle_start e \<in> {(503, False), (500, False)}"
      using select_node_error [OF no_node(1)] by (auto simp: handle_start_def scheduling_error_def split: service_error.splits)
    then show ?thesis
      using no_node by (auto simp: start_session_route_def c sys_respond_def)
  next
    case (failed node t m x)
    then show ?thesis
      using select_node_only [OF failed(2)]
      by (auto simp: start_session_route_def c sys_respond_def handle_start_def only_nodes_def new_session_def)
  next
    case (started node t x)
    then show ?thesis
      using select_node_only [OF started(2)]
      by (auto simp: start_session_route_def c sys_respond_def only_nodes_def new_session_def)
  qed
qed

end
