(* ===== verification/Session_Guarantees.thy ===== *)
theory Session_Guarantees
  imports Session_Lifecycle
begin

text \<open>
  What the session operations promise beyond the state machine: where a session is scheduled, the
  quota, what ending and isolating leave behind, that an isolated session is kept, and that the
  background jobs leave healthy sessions alone.
\<close>

section \<open>Scheduling\<close>

lemma sort_key_hd_least:
  assumes "xs \<noteq> []"
  shows "sort_key f xs ! 0 \<in> set xs" and "list_all (\<lambda>x. f (sort_key f xs ! 0) \<le> f x) xs"
proof -
  obtain y ys where y: "sort_key f xs = y # ys" using assms
    by (metis list.exhaust set_empty set_sort)
  then have "set xs = insert y (set ys)" by (metis list.simps(15) set_sort)
  moreover have "sorted (map f (y # ys))" by (metis y sorted_sort_key)
  ultimately show "sort_key f xs ! 0 \<in> set xs" "list_all (\<lambda>x. f (sort_key f xs ! 0) \<le> f x) xs"
    using y by (auto simp: list_all_iff)
qed

lemma node_rows_in: "n \<in> set (node_rows is d) \<Longrightarrow> n \<in> set (nodes d) \<and> n_id n \<in> set is"
  by (auto simp: node_rows_def split: option.splits dest!: row_get_SomeD [OF sym])

lemma pick_node_props:
  assumes "pick_node is d = Inr n"
  shows "n \<in> set (node_rows is d) \<and> n_status n = NS_ONLINE \<and> n_active_sessions n < n_capacity n
    \<and> list_all (\<lambda>m. n_status m \<noteq> NS_ONLINE \<or> n_capacity m \<le> n_active_sessions m
         \<or> free_slots m < free_slots n \<or> (free_slots m = free_slots n \<and> n_hostname n \<le> n_hostname m))
       (node_rows is d)"
proof -
  let ?P = "\<lambda>n. n_status n = NS_ONLINE \<and> n_active_sessions n < n_capacity n"
  let ?k = "\<lambda>n. (- free_slots n, n_hostname n)"
  let ?c = "filter ?P (node_rows is d)"
  have c: "?c \<noteq> []" "n = sort_key ?k ?c ! 0"
    using assms by (auto simp: pick_node_def Let_def split: if_splits)
  note L = sort_key_hd_least [OF c(1), of ?k, folded c(2)]
  show ?thesis using L
    by (auto simp: list_all_iff less_eq_prod_def not_less)
qed

text \<open>Refreshing keeps every node's identifier and trust.\<close>

definition trust_of :: "database \<Rightarrow> (uuid \<times> node_enrollment_status) list" where
  "trust_of d = map (\<lambda>n. (n_id n, n_enrollment_status n)) (nodes d)"

lemma apply_node_status_keeps:
  "apply_node_status now st n = Inr n' \<Longrightarrow> n_id n' = n_id n \<and> n_enrollment_status n' = n_enrollment_status n"
  by (auto simp: apply_node_status_def Let_def split: if_splits option.splits)

lemma trust_of_update:
  assumes "distinct_keys n_id (nodes d)" and "n \<in> set (nodes d)"
    and "n_id n' = n_id n \<and> n_enrollment_status n' = n_enrollment_status n"
  shows "trust_of (set_node (n_id n) (\<lambda>_. n') d) = trust_of d"
proof -
  have "m = n" if "m \<in> set (nodes d)" "n_id m = n_id n" for m
    using distinct_keys_eq [OF assms(1) that(1) assms(2) that(2)] .
  then have "n_enrollment_status m = n_enrollment_status n" if "m \<in> set (nodes d)" "n_id m = n_id n" for m
    using that by blast
  then show ?thesis using assms(3)
    unfolding trust_of_def row_update_def nodes_set_node map_map o_def by (intro map_cong) auto
qed

lemma trust_distinct: "trust_of d' = trust_of d \<Longrightarrow> distinct_keys n_id (nodes d) \<Longrightarrow> distinct_keys n_id (nodes d')"
proof -
  assume t: "trust_of d' = trust_of d" and k: "distinct_keys n_id (nodes d)"
  have "map n_id (nodes e) = map fst (trust_of e)" for e by (simp add: trust_of_def o_def)
  then show ?thesis using t k by (simp add: distinct_keys_def)
qed

lemma trust_in: "n \<in> set (nodes d) \<Longrightarrow> (n_id n, n_enrollment_status n) \<in> set (trust_of d)"
  by (auto simp: trust_of_def)

lemma refresh_enrolled_trust:
  assumes "refresh_enrolled_node B now n s = (r, s')" and "distinct_keys n_id (nodes (db s))" and "n_id n \<in> fst ` set (trust_of (db s))"
    and "(n_id n, n_enrollment_status n) \<in> set (trust_of (db s))"
  shows "trust_of (db s') = trust_of (db s)"
proof -
  obtain q t where q: "agent (get_node_status B (connection_for_node B (Some n))) s = (q, t)" by (metis prod.exhaust)
  have t: "db t = db s" using agent_frame [OF q] by simp
  obtain m where m: "m \<in> set (nodes (db s))" "n_id m = n_id n" "n_enrollment_status m = n_enrollment_status n"
    using assms(4) by (auto simp: trust_of_def)
  show ?thesis
  proof (cases "\<exists>st n'. q = Inr st \<and> apply_node_status now st n = Inr n'")
    case True
    then obtain st n' where n': "q = Inr st" "apply_node_status now st n = Inr n'" by blast
    then have "db s' = set_node (n_id m) (\<lambda>_. n') (db s)"
      using assms(1) q t m(2) by (auto simp: refresh_enrolled_node_def)
    then show ?thesis using trust_of_update [OF assms(2) m(1), of n'] apply_node_status_keeps [OF n'(2)] m by simp
  next
    case False
    then show ?thesis using assms(1) q t
      by (auto simp: refresh_enrolled_node_def split: sum.splits)
  qed
qed

lemma refresh_all_trust:
  assumes "refresh_all B now ns s = (r, s')" and "distinct_keys n_id (nodes (db s))"
    and "list_all (\<lambda>n. (n_id n, n_enrollment_status n) \<in> set (trust_of (db s))) ns"
  shows "trust_of (db s') = trust_of (db s) \<and> (\<forall>is. r = Inr is \<longrightarrow> set is \<subseteq> n_id ` set ns)"
  using assms
proof (induction ns arbitrary: s r s')
  case Nil
  then show ?case by auto
next
  case (Cons n ns)
  obtain q t where q: "refresh_enrolled_node B now n s = (q, t)" by (metis prod.exhaust)
  obtain q2 t2 where q2: "refresh_all B now ns t = (q2, t2)" by (metis prod.exhaust)
  have t: "trust_of (db t) = trust_of (db s)"
    using Cons.prems(3) by (intro refresh_enrolled_trust [OF q Cons.prems(2)]) force+
  have IH: "trust_of (db t2) = trust_of (db t) \<and> (\<forall>is. q2 = Inr is \<longrightarrow> set is \<subseteq> n_id ` set ns)"
    using Cons.IH [OF q2] trust_distinct [OF t Cons.prems(2)] Cons.prems(3) t by simp
  have i: "q = Inr i \<Longrightarrow> i = n_id n" for i
    using q by (auto simp: refresh_enrolled_node_def split: prod.splits sum.splits)
  show ?case
    using Cons.prems(1) q q2 IH t i
    by (auto split: sum.splits service_error.splits)
qed

text \<open>
  C29. Sessions are scheduled on trusted, least-loaded nodes: when at least one node is APPROVED, the
  node a session is placed on is one of the APPROVED nodes, ONLINE and with free capacity, and no
  other refreshed node that qualifies has more free slots, or as many and a smaller hostname.
\<close>

theorem scheduled_on_least_loaded_approved_node:
  assumes "select_node B now s = (Inr node, s')" and "distinct_keys n_id (nodes (db s))"
    and "\<exists>n. n \<in> set (nodes (db s)) \<and> n_enrollment_status n = NE_APPROVED"
  shows "node \<in> set (nodes (db s')) \<and> n_enrollment_status node = NE_APPROVED \<and> n_status node = NS_ONLINE
    \<and> n_active_sessions node < n_capacity node
    \<and> (\<exists>is. refresh_all B now (filter (\<lambda>n. n_enrollment_status n = NE_APPROVED) (nodes (db s))) s = (Inr is, s')
         \<and> list_all (\<lambda>m. n_status m \<noteq> NS_ONLINE \<or> n_capacity m \<le> n_active_sessions m
              \<or> free_slots m < free_slots node \<or> (free_slots m = free_slots node \<and> n_hostname node \<le> n_hostname m))
            (node_rows is (db s')))"
proof -
  let ?A = "filter (\<lambda>n. n_enrollment_status n = NE_APPROVED) (nodes (db s))"
  have "?A \<noteq> []" using assms(3) by (auto simp: filter_empty_conv)
  then obtain "is" where i: "refresh_all B now ?A s = (Inr is, s')" "pick_node is (db s') = Inr node"
    using assms(1) by (auto simp: select_node_def Let_def split: prod.splits sum.splits)
  note P = pick_node_props [OF i(2)]
  have "list_all (\<lambda>n. (n_id n, n_enrollment_status n) \<in> set (trust_of (db s))) ?A"
    unfolding list_all_iff using trust_in by fastforce
  then have T: "trust_of (db s') = trust_of (db s)" "set is \<subseteq> n_id ` set ?A"
    using refresh_all_trust [OF i(1) assms(2)] by auto
  have n: "node \<in> set (nodes (db s'))" "n_id node \<in> n_id ` set ?A" using P node_rows_in T(2) by blast+
  then obtain m where m: "m \<in> set (nodes (db s))" "n_enrollment_status m = NE_APPROVED" "n_id m = n_id node" by auto
  have "(n_id node, n_enrollment_status node) \<in> set (trust_of (db s))" using n(1) trust_in T(1) by metis
  then obtain k where k: "k \<in> set (nodes (db s))" "n_id k = n_id node" "n_enrollment_status k = n_enrollment_status node"
    by (auto simp: trust_of_def)
  have "k = m" using distinct_keys_eq [OF assms(2) k(1) m(1)] k(2) m(3) by simp
  then have "n_enrollment_status node = NE_APPROVED" using k m by simp
  then show ?thesis using P n(1) i(1) by blast
qed


section \<open>Quota\<close>

lemma count_append:
  "sessions d' = sessions d @ [x] \<Longrightarrow> count_active_sessions_for_user u d' =
     count_active_sessions_for_user u d
     + (if s_user_id x = u \<and> s_status x \<in> {SS_QUEUED, SS_STARTING, SS_ACTIVE, SS_DISCONNECTED} then 1 else 0)"
  by (simp add: count_active_sessions_for_user_def)

text \<open>
  Starting sessions never exceeds the quota: after a start request, whatever its outcome, every
  user has as many counted sessions as before, or the requesting user has one more and still no
  more than \<open>max_sessions_per_user\<close>.
\<close>

theorem start_respects_quota:
  assumes "sessions_wf (db s)" and "start_session_route B now user s = (r, s')"
  shows "count_active_sessions_for_user u (db s') = count_active_sessions_for_user u (db s)
    \<or> (u = user \<and> count_active_sessions_for_user u (db s') = count_active_sessions_for_user u (db s) + 1
       \<and> count_active_sessions_for_user u (db s') \<le> max_sessions_per_user (cfg B))"
proof -
  obtain q t where c: "create_session B now user s = (q, t)" by (metis prod.exhaust)
  from c assms(1) show ?thesis
  proof (cases rule: create_cases)
    case (quota m)
    then show ?thesis using assms(2) by (auto simp: start_session_route_def c sys_respond_def handle_start_def)
  next
    case (no_node e)
    then show ?thesis using assms(2) select_node_only [OF no_node(1)] select_node_error [OF no_node(1)]
      by (auto simp: start_session_route_def c sys_respond_def handle_start_def scheduling_error_def
        split: service_error.splits)
  next
    case (failed node t' m x)
    then have "s_status x = SS_FAILED" by (simp add: new_session_def)
    then show ?thesis using assms(2) count_append [OF failed(4)] failed(3)
      by (auto simp: start_session_route_def c sys_respond_def handle_start_def)
  next
    case (started node t' x)
    then have "s_user_id x = user" "s_status x = SS_ACTIVE" by (simp_all add: new_session_def)
    then show ?thesis using assms(2) count_append [OF started(4)] started(1,3)
      by (cases "u = user") (auto simp: start_session_route_def c sys_respond_def)
  qed
qed

section \<open>Ending and isolating\<close>

text \<open>
  Ending a session: unless it had already ended (then nothing happens), the row is TERMINATED
  with its end time exactly when the agent confirmed the teardown, and FAILED when it did not; the
  download poller is stopped either way; and a SESSION_TERMINATED entry naming the actor is written
  exactly in the first case.
\<close>

theorem terminate_outcomes:
  assumes "terminate_session B now x actor s = (r, s')"
    and "row_get s_id (s_id x) (sessions (db s)) = Some x" and "s_status x \<noteq> SS_TERMINATED"
  shows "s_id x \<notin> set (polling s') \<and> (\<exists>y. row_get s_id (s_id x) (sessions (db s')) = Some y
    \<and> (case r of
        Inr _ \<Rightarrow> s_status y = SS_TERMINATED \<and> s_ended_at y = Some now
          \<and> (\<exists>e. events (db s') = events (db s) @ [e] \<and> e_event_type e = EV_SESSION_TERMINATED
               \<and> e_session_id e = Some (s_id x) \<and> e_metadata_json e = actor_meta actor)
      | Inl _ \<Rightarrow> s_status y = SS_FAILED \<and> events (db s') = events (db s)))
    \<and> isl r = isl (fst (terminate_sandbox B (s_id x) (session_connection B x (db s)) (world s)))"
proof -
  let ?s1 = "stop_polling (s_id x) (on_db (set_session_status now (s_id x) SS_TERMINATING) s)"
  obtain q t where a: "agent (terminate_sandbox B (s_id x) (session_connection B x (db ?s1))) ?s1 = (q, t)"
    by (metis prod.exhaust)
  have t: "db t = set_session_status now (s_id x) SS_TERMINATING (db s)" "s_id x \<notin> set (polling t)"
    using agent_frame [OF a] by (simp_all add: stop_polling_def)
  have conn: "session_connection B x (db ?s1) = session_connection B x (db s)"
    by (cases "s_node_id x") (simp_all add: session_connection_def get_node_def)
  have q: "fst (terminate_sandbox B (s_id x) (session_connection B x (db s)) (world s)) = q"
    using a unfolding conn by (auto simp: agent_def split: prod.splits)
  show ?thesis
  proof (cases q)
    case (Inl e)
    then have "r = Inl (SessionServiceError (''failed to terminate sandbox: '' @ error_detail e))"
      "s' = on_db (set_session_status now (s_id x) SS_FAILED) t"
      using assms(1,3) a by (auto simp: terminate_session_def Let_def)
    then show ?thesis using assms(2) t q Inl by (simp add: tbl)
  next
    case (Inr u)
    then have "r = Inr ()"
      "s' = on_db (record_security_event now EV_SESSION_TERMINATED (Some (s_user_id x)) (Some (s_id x)) None (actor_meta actor))
              (on_db (set_session now (s_id x) (\<lambda>x. x\<lparr>s_status := SS_TERMINATED, s_ended_at := Some now\<rparr>)) t)"
      using assms(1,3) a by (auto simp: terminate_session_def Let_def)
    then show ?thesis using assms(2) t q Inr by (simp add: tbl)
  qed
qed

text \<open>
  Isolation is never silent: an isolation that succeeds was allowed (the session was ACTIVE or
  DISCONNECTED), leaves the row ISOLATED, and has added exactly one incident about that session and
  its user and one SESSION_ISOLATED audit entry naming the administrator.
\<close>

theorem isolation_always_leaves_an_incident:
  assumes "isolate_session B now x actor s = (Inr u, s')"
    and "row_get s_id (s_id x) (sessions (db s)) = Some x"
  shows "s_status x \<in> {SS_ACTIVE, SS_DISCONNECTED}
    \<and> (\<exists>y. row_get s_id (s_id x) (sessions (db s')) = Some y \<and> s_status y = SS_ISOLATED)
    \<and> (\<exists>k. incidents (db s') = incidents (db s) @ [k] \<and> i_session_id k = Some (s_id x)
         \<and> i_user_id k = Some (s_user_id x) \<and> i_severity k = IV_MEDIUM \<and> i_status k = IS_NEW)
    \<and> (\<exists>e. events (db s') = events (db s) @ [e] \<and> e_event_type e = EV_SESSION_ISOLATED
         \<and> e_session_id e = Some (s_id x) \<and> e_metadata_json e = actor_meta actor)"
proof (cases "s_status x \<in> {SS_ACTIVE, SS_DISCONNECTED}")
  case False
  then show ?thesis using assms(1) by (simp add: isolate_session_def)
next
  case True
  let ?s1 = "on_db (set_session_status now (s_id x) SS_ISOLATING) s"
  obtain q t where a: "agent (isolate_sandbox B (s_id x) (session_connection B x (db ?s1))) ?s1 = (q, t)"
    by (metis prod.exhaust)
  have t: "db t = set_session_status now (s_id x) SS_ISOLATING (db s)" using agent_frame [OF a] by simp
  then have i: "incidents (db t) = incidents (db s)" "events (db t) = events (db s)"
    "row_get s_id (s_id x) (sessions (db t)) \<noteq> None"
    using assms(2) by (simp_all add: tbl)
  show ?thesis using assms(1,2) True a t
    by (cases q) (auto simp: isolate_session_def Let_def fresh_def isolation_incident_def row_insert_def tbl)
qed

section \<open>Isolated sessions are kept\<close>

lemma other_row:
  assumes "sessions_wf (db s)" and "row_get s_id k (sessions (db s)) = Some a"
    and "x \<in> set (sessions (db s))" and "s_id x = k"
  shows "x = a"
proof -
  have "a \<in> set (sessions (db s))" "s_id a = k" using row_get_SomeD [OF assms(2)] by auto
  then show ?thesis using distinct_keys_eq [of s_id "sessions (db s)" x a] assms by (simp add: sessions_wf_def)
qed

text \<open>
  C19. An isolated session is preserved for investigation: its owner's own terminate request is
  refused with 409 and changes nothing, its display cannot be opened, and neither the reaper nor
  stuck-session recovery touches its row.
\<close>

theorem isolated_sessions_are_kept:
  assumes "sessions_wf (db s)" and "row_get s_id k (sessions (db s)) = Some a" and "s_status a = SS_ISOLATED"
    and "stuck_reason st \<noteq> None"
  shows "(\<exists>m. terminate_own_route B now k (s_user_id a) s = (Inl (409, m), s))
    \<and> (\<exists>c. fst (display_open B now dial ws origin host user k s) = Inl c)
    \<and> row_get s_id k (sessions (db (snd (reap_one B now cutoff (k, seen) s)))) = Some a
    \<and> row_get s_id k (sessions (db (snd (recover_one B now cutoff (k, st, since) s)))) = Some a"
proof -
  have "\<not> list_ex (claim_unattended cutoff k seen) (sessions (db s))"
    using other_row [OF assms(1,2)] assms(3) by (auto simp: list_ex_iff claim_unattended_def unattended_def)
  then have r: "snd (reap_one B now cutoff (k, seen) s) = s" by (simp add: reap_one_def)
  have "\<not> list_ex (claim_stuck cutoff k st) (sessions (db s))"
    using other_row [OF assms(1,2)] assms(3,4) by (auto simp: list_ex_iff claim_stuck_def stuck_reason_def)
  then have c: "snd (recover_one B now cutoff (k, st, since) s) = s" by (simp add: recover_one_def)
  have "\<exists>m. terminate_own_route B now k (s_user_id a) s = (Inl (409, m), s)"
    using assms(2,3) by (simp add: terminate_own_route_def get_own_session_or_404_def)
  moreover have "\<exists>c. fst (display_open B now dial ws origin host user k s) = Inl c"
    using assms(2,3) by (simp add: display_open_def)
  ultimately show ?thesis using r c assms(2) by simp
qed

text \<open>
  Other people's sessions do not exist: asking for, or terminating, a session that belongs to
  somebody else gives exactly the answer given for an identifier that does not exist, and changes
  nothing.
\<close>

theorem foreign_session_is_not_found:
  assumes "row_get s_id k (sessions (db s)) = Some a" and "s_user_id a \<noteq> user"
    and "row_get s_id j (sessions (db s)) = None"
  shows "get_own_session_or_404 (db s) k user = get_own_session_or_404 (db s) j user
    \<and> terminate_own_route B now k user s = terminate_own_route B now j user s
    \<and> snd (terminate_own_route B now k user s) = s"
  using assms by (simp add: terminate_own_route_def get_own_session_or_404_def)

section \<open>The reaper\<close>

text \<open>
  The reaper ends only unattended sessions: when a reaper step changes a session's row, that
  session was DISCONNECTED, or ACTIVE with no viewer connected, and had been without a viewer since
  before the cutoff; it is then TERMINATED or FAILED. Every other row is left exactly as it was.
\<close>

theorem reaper_ends_only_unattended:
  assumes "sessions_wf (db s)" and "row_get s_id k (sessions (db s)) = Some a"
    and "row_get s_id k (sessions (db (snd (reap_one B now cutoff (i, seen) s)))) = Some b" and "b \<noteq> a"
  shows "k = i \<and> unattended cutoff a \<and> s_status b \<in> {SS_TERMINATED, SS_FAILED}"
proof -
  have ex: "list_ex (claim_unattended cutoff i seen) (sessions (db s))"
    using assms(2-4) by (auto simp: reap_one_def split: if_splits)
  let ?t = "reap_claim now cutoff i seen s"
  let ?g = "\<lambda>z. if claim_unattended cutoff i seen z then z\<lparr>s_status := SS_TERMINATING, s_updated_at := now\<rparr> else z"
  obtain y where y: "y \<in> set (sessions (db s))" "claim_unattended cutoff i seen y" using ex by (auto simp: list_ex_iff)
  have wt: "sessions_wf (db ?t)" using reworks_wf [OF claim_reworks assms(1)] .
  have "?g y \<in> set (sessions (db ?t))" "s_id (?g y) = i" using y by (auto simp: reap_claim_def claim_unattended_def)
  then have ry: "row_get s_id i (sessions (db ?t)) = Some (?g y)"
    using wt by (simp add: row_get_Some sessions_wf_def)
  obtain r u where u: "terminate_session B now (?g y) SESSION_REAPER_ACTOR_ID ?t = (r, u)" by (metis prod.exhaust)
  have "s_status (?g y) \<noteq> SS_TERMINATED" using y(2) by simp
  then obtain f where f: "sessions (db u) = row_update s_id i f (sessions (db ?t))"
    "\<And>z. s_id (f z) = s_id z \<and> s_status (f z) = (case r of Inl _ \<Rightarrow> SS_FAILED | Inr _ \<Rightarrow> SS_TERMINATED)"
    using terminate_row [OF u] \<open>s_id (?g y) = i\<close> by metis
  have fin: "sessions (db (snd (reap_one B now cutoff (i, seen) s))) = sessions (db u)"
    using ex ry u by (auto simp: reap_one_def timed_out_event_def split: sum.splits)
  show ?thesis
  proof (cases "k = i")
    case True
    then have "y = a" using other_row [OF assms(1,2) y(1)] y(2) by (simp add: claim_unattended_def)
    moreover have "b = f (?g y)" using assms(3) f ry True unfolding fin by (simp add: tbl)
    ultimately show ?thesis using y(2) f(2) True by (auto simp: claim_unattended_def split: sum.splits)
  next
    case False
    have "sessions (db ?t) = row_update s_id i ?g (sessions (db s))"
      by (auto simp: reap_claim_def row_update_def claim_unattended_def)
    then have "row_get s_id k (sessions (db u)) = Some a"
      using f False assms(2) by (simp add: tbl claim_unattended_def)
    then show ?thesis using assms(3,4) fin by simp
  qed
qed


section \<open>The reconciler\<close>

text \<open>
  The reconciler leaves a healthy node alone: when the agent answered, every managed container
  it reports belongs to a session that is not over, and every session pinned to the node that should
  be running is running, the cycle changes nothing in the database and makes no call beyond reading
  the inventory.
\<close>

theorem reconciler_leaves_healthy_node_alone:
  assumes "inventory B node s = (Some (running, managed), t)"
    and "list_all (\<lambda>i. \<not> is_orphan (db s) i) managed"
    and "list_all (\<lambda>x. s_id x \<in> set running) (lost_rows node (db s))"
  shows "\<exists>k'. reconcile_node B now node k s = (False, k', t) \<and> db t = db s"
proof -
  have d: "db t = db s" using inventory_frame [OF assms(1)] .
  have o: "filter (is_orphan (db t)) managed = []"
    using assms(2) d by (auto simp: list_all_iff filter_empty_conv)
  have l: "filter (\<lambda>x. s_id x \<notin> set running) (lost_rows node (db t)) = []"
    using assms(3) d by (auto simp: list_all_iff filter_empty_conv)
  have "\<exists>m. reconcile_containers B now node managed (orphan_seen k) t = (False, m, t)"
    by (simp add: reconcile_containers_def o due_def drop_all_def)
  moreover have "\<exists>m. reconcile_rows B now node (Some running) (lost_seen k) t = (False, m, t)"
    unfolding reconcile_rows_def Let_def option.case l by (simp add: due_def drop_all_def)
  ultimately show ?thesis using assms(1) d by (auto simp: reconcile_node_def)
qed

lemma fold_bump:
  "distinct ids \<Longrightarrow> fold bump ids m i =
     (if i \<in> set ids then Some (case m i of None \<Rightarrow> 1 | Some n \<Rightarrow> Suc n) else m i)"
proof (induction ids arbitrary: m)
  case (Cons j ids)
  then show ?case by (auto simp: bump_def)
qed simp

lemma each_lost_rows:
  assumes "row_get s_id k (sessions (db s)) = Some a"
    and "row_get s_id k (sessions (db (snd (each (fail_lost B now node un) xs s)))) = Some b" and "b \<noteq> a"
  shows "k \<in> s_id ` set xs \<and> s_status b = SS_FAILED"
  using assms
proof (induction xs arbitrary: s a)
  case Nil
  then show ?case by simp
next
  case (Cons x xs)
  let ?t = "snd (fail_lost B now node un x s)"
  let ?f = "\<lambda>y. y\<lparr>s_status := SS_FAILED, s_ended_at := Some now, s_updated_at := now\<rparr>"
  have b: "row_get s_id k (sessions (db (snd (each (fail_lost B now node un) xs ?t)))) = Some b"
    using Cons.prems(2) by (simp add: split_def Let_def)
  show ?case
  proof (cases "row_get s_id k (sessions (db ?t)) = Some a")
    case True
    then show ?thesis using Cons.IH [OF True b Cons.prems(3)] by auto
  next
    case False
    then have u: "sessions (db ?t) = row_update s_id (s_id x) ?f (sessions (db s))"
      using fail_lost_cases(1) [of B now node un x s] Cons.prems(1) by auto
    have k: "k = s_id x" using False u Cons.prems(1) by (cases "k = s_id x") (simp_all add: tbl)
    have t: "row_get s_id k (sessions (db ?t)) = Some (?f a)" using u k Cons.prems(1) by (simp add: tbl)
    show ?thesis
    proof (cases "b = ?f a")
      case True
      then show ?thesis using k by simp
    next
      case False
      then show ?thesis using Cons.IH [OF t b] by auto
    qed
  qed
qed

text \<open>
  The reconciler fails a session only on evidence and after the grace period: when a cycle for a
  node changes a session's row, the session is pinned to that node, its status said a container
  should be running, the node's agent gave no inventory or one without that container, it has now
  been seen so for at least \<open>orphan_reconcile_grace_cycles\<close> consecutive cycles, and the row is
  FAILED.
\<close>

theorem reconciler_acts_on_evidence:
  assumes "sessions_wf (db s)" and "row_get s_id k (sessions (db s)) = Some a"
    and "row_get s_id k (sessions (db (snd (snd (reconcile_node B now node c s))))) = Some b" and "b \<noteq> a"
  shows "s_node_id a = Some (n_id node) \<and> s_status a \<in> LOST_CANDIDATE_STATUSES \<and> s_status b = SS_FAILED
    \<and> int (case lost_seen c k of None \<Rightarrow> 1 | Some n \<Rightarrow> Suc n) \<ge> orphan_reconcile_grace_cycles (cfg B)
    \<and> (case fst (inventory B node s) of None \<Rightarrow> True | Some (running, managed) \<Rightarrow> k \<notin> set running)"
proof -
  obtain i t where i: "inventory B node s = (i, t)" by (metis prod.exhaust)
  have d: "db t = db s" using inventory_frame [OF i] .
  define running where "running = map_option fst i"
  obtain u where u: "sessions (db u) = sessions (db s)"
    "snd (snd (reconcile_node B now node c s)) = snd (snd (reconcile_rows B now node running (lost_seen c) u))"
    "next_id (db s) \<le> next_id (db u)"
  proof (cases i)
    case None
    then show thesis using that [of t] i d by (simp add: reconcile_node_def running_def split_def Let_def)
  next
    case (Some p)
    let ?v = "snd (snd (reconcile_containers B now node (snd p) (orphan_seen c) t))"
    have "sessions (db (snd (each (terminate_orphan B now node) is t))) = sessions (db t)
        \<and> next_id (db t) \<le> next_id (db (snd (each (terminate_orphan B now node) is t)))" for "is" and t :: "'a sys"
    proof (induction "is" arbitrary: t)
      case (Cons j "is")
      note one = terminate_orphan_sessions [of B now node j t] and IH = Cons.IH [of "snd (terminate_orphan B now node j t)"]
      show ?case using one IH order.trans [OF conjunct2 [OF one] conjunct2 [OF IH]]
        by (simp add: split_def Let_def)
    qed simp
    then have "sessions (db ?v) = sessions (db t) \<and> next_id (db t) \<le> next_id (db ?v)"
      by (simp add: reconcile_containers_def Let_def split_def)
    then show thesis using that [of ?v] i d Some
      by (cases p) (simp add: reconcile_node_def running_def split_def Let_def)
  qed
  let ?rows = "lost_rows node (db u)"
  let ?lost = "case running of None \<Rightarrow> ?rows | Some ids \<Rightarrow> filter (\<lambda>x. s_id x \<notin> set ids) ?rows"
  let ?base = "\<lambda>j. if j \<in> set (map s_id ?rows) \<and> j \<notin> set (map s_id ?lost) then None else lost_seen c j"
  let ?m = "fold bump (map s_id ?lost) ?base"
  let ?fail = "filter (\<lambda>x. s_id x \<in> set (due (cfg B) ?m (map s_id ?lost))) ?lost"
  have "row_get s_id k (sessions (db (snd (each (fail_lost B now node (running = None)) ?fail u)))) = Some b"
    using assms(3) unfolding u(2) by (simp add: reconcile_rows_def Let_def split_def)
  moreover have "row_get s_id k (sessions (db u)) = Some a" by (simp only: u(1) assms(2))
  ultimately have kf: "k \<in> s_id ` set ?fail \<and> s_status b = SS_FAILED"
    using assms(4) by (intro each_lost_rows)
  then obtain x where x: "x \<in> set ?fail" "s_id x = k" by auto
  have xr: "x \<in> set ?rows" using x(1) by (cases running) auto
  then have "x = a" using other_row [OF assms(1,2)] x(2) u(1) by (simp add: lost_rows_def)
  have dist: "distinct (map s_id ?lost)"
    using assms(1) u(1) by (cases running) (simp_all add: sessions_wf_def distinct_keys_def lost_rows_def distinct_map_filter)
  have kl: "k \<in> set (map s_id ?lost)" using x(1) unfolding x(2) [symmetric] set_map by (intro imageI) simp
  then have m0: "?base k = lost_seen c k" by simp
  have "?m k = (if k \<in> set (map s_id ?lost) then Some (case ?base k of None \<Rightarrow> 1 | Some n \<Rightarrow> Suc n) else ?base k)"
    by (rule fold_bump [OF dist])
  then have mk: "?m k = Some (case lost_seen c k of None \<Rightarrow> 1 | Some n \<Rightarrow> Suc n)"
    unfolding if_P [OF kl] m0 .
  have "k \<in> set (due (cfg B) ?m (map s_id ?lost))" using x(1) unfolding x(2) [symmetric] by (simp only: set_filter mem_Collect_eq)
  then have g: "int (case lost_seen c k of None \<Rightarrow> 1 | Some n \<Rightarrow> Suc n) \<ge> orphan_reconcile_grace_cycles (cfg B)"
    unfolding due_def set_filter mem_Collect_eq mk by simp
  have r: "case i of None \<Rightarrow> True | Some (running, managed) \<Rightarrow> k \<notin> set running"
    using x by (cases i) (auto simp: running_def)
  show ?thesis using xr \<open>x = a\<close> kf g r i by (simp add: lost_rows_def)
qed

text \<open>
  The bootstrap path does not look at trust: with the only node revoked (and its agent still
  answering for that hostname) a session is scheduled on it, although a node that is not APPROVED is
  meant never to be a scheduling candidate. The status the administrator's revocation set is
  overwritten with ONLINE by the same refresh.
\<close>

theorem bootstrap_reuses_a_revoked_node:
  assumes "nodes (db s) = [n]" and "n_enrollment_status n = NE_REVOKED" and "n_status n = NS_OFFLINE"
    and "agent (get_node_status B (default_connection B)) s = (Inr st, t)"
    and "ns_hostname st = n_hostname n" and "ns_status st = ''ONLINE''" and "ns_active_sessions st < ns_capacity st"
  shows "\<exists>node s'. select_node B now s = (Inr node, s') \<and> n_id node = n_id n
    \<and> n_enrollment_status node = NE_REVOKED \<and> n_status node = NS_ONLINE"
proof -
  have t: "db t = db s" using agent_frame [OF assms(4)] by simp
  have v: "browser_node_status_of_value ''ONLINE'' = Some NS_ONLINE" by code_simp
  obtain n' where n': "apply_node_status now st n = Inr n'" "n_id n' = n_id n" "n_enrollment_status n' = NE_REVOKED"
    "n_status n' = NS_ONLINE" "n_active_sessions n' < n_capacity n'"
    using assms(2,3,6,7) v by (simp add: apply_node_status_def Let_def)
  have h: "row_get n_hostname (ns_hostname st) (nodes (db t)) = Some n" "row_get n_id (n_id n) (nodes (db t)) = Some n"
    using t assms(1,5) by (simp_all add: row_get_def)
  have "refresh_node_from_agent B now s = (Inr (n_id n), on_db (set_node (n_id n) (\<lambda>_. n')) t)"
    using assms(4) h n'(1) by (simp add: refresh_node_from_agent_def)
  moreover have "nodes (db (on_db (set_node (n_id n) (\<lambda>_. n')) t)) = [n']"
    using t assms(1) by (simp add: row_update_def)
  then have "pick_node [n_id n] (db (on_db (set_node (n_id n) (\<lambda>_. n')) t)) = Inr n'"
    using n' by (simp add: pick_node_def node_rows_def row_get_def)
  ultimately show ?thesis
    using assms(1,2) n' by (simp add: select_node_def)
qed

end
