(* ===== verification/Policies.thy ===== *)
theory Policies
  imports Policy_Engine Service "HOL-Library.List_Lexorder" "HOL-Library.Char_ord"
begin

text \<open>
  Policy administration: \<open>services/policies.py\<close>, \<open>services/groups.py\<close>,
  \<open>services/standard_policies.py\<close> and the state-changing endpoints of \<open>api/policies.py\<close>.

  A service takes the rows it was handed as arguments (the ORM objects, as loaded) and the
  database, and returns an error or a value together with the flushed database. An endpoint adds
  the lookups that answer 404, and commits (returns the flushed database) or rolls back (returns
  the database it started from). Error texts are the source's, with an em dash written \<open>-\<close>.
  The invariant \<open>policy_wf\<close> and the frozen-version property are proved for every reachable state of
  the step relation \<open>policy_step\<close>.
\<close>

text \<open>The text of the \<open>ValueError\<close> that \<open>Cls(value)\<close> raises (for values whose repr is plain).\<close>

definition enum_error_text :: "string \<Rightarrow> string \<Rightarrow> string" where
  "enum_error_text v cls = [CHR 0x27] @ v @ [CHR 0x27] @ '' is not a valid '' @ cls"

section \<open>File rules\<close>

record raw_rule =
  rr_rule_type :: string
  rr_match_pattern :: string
  rr_action :: string
  rr_priority :: "int option"

record built_rule =
  br_rule_type :: file_rule_type
  br_match_pattern :: string
  br_action :: file_action
  br_priority :: int

definition build_file_rule :: "raw_rule \<Rightarrow> service_error + built_rule" where
  "build_file_rule rule =
     (case file_rule_type_of_value (rr_rule_type rule) of
        None \<Rightarrow> Inl (PolicyRuleError (''invalid file rule: '' @ enum_error_text (rr_rule_type rule) ''FileRuleType''))
      | Some rule_type \<Rightarrow>
     (case file_action_of_value (rr_action rule) of
        None \<Rightarrow> Inl (PolicyRuleError (''invalid file rule: '' @ enum_error_text (rr_action rule) ''FileAction''))
      | Some act \<Rightarrow>
          if rule_type = FR_MIME \<and> act = FA_AUTO_RELEASE \<and> is_extension_pattern (rr_match_pattern rule)
          then Inl (PolicyRuleError
            (''invalid file rule: AUTO_RELEASE needs a MIME type such as application/pdf, not the extension pattern ''
             @ [CHR 0x27] @ rr_match_pattern rule @ [CHR 0x27] @ '' - extensions can only DENY or QUARANTINE''))
          else Inr \<lparr> br_rule_type = rule_type, br_match_pattern = rr_match_pattern rule, br_action = act,
                     br_priority = (case rr_priority rule of Some p \<Rightarrow> p | None \<Rightarrow> 100) \<rparr>))"

fun build_file_rules :: "raw_rule list \<Rightarrow> service_error + built_rule list" where
  "build_file_rules [] = Inr []"
| "build_file_rules (rule # rest) =
     (case build_file_rule rule of
        Inl e \<Rightarrow> Inl e
      | Inr b \<Rightarrow> (case build_file_rules rest of Inl e \<Rightarrow> Inl e | Inr bs \<Rightarrow> Inr (b # bs)))"

text \<open>\<open>rule.policy_version_id = version.id; db.add(rule)\<close> for every built rule.\<close>

fun add_rules :: "instant \<Rightarrow> uuid \<Rightarrow> built_rule list \<Rightarrow> database \<Rightarrow> database" where
  "add_rules now version_id [] d = d"
| "add_rules now version_id (b # bs) d =
     (let (i, d) = fresh d in
      add_rules now version_id bs
        (d\<lparr>file_rules := row_insert
            \<lparr> fr_id = i, fr_created_at = now, fr_policy_version_id = version_id,
              fr_rule_type = br_rule_type b, fr_match_pattern = br_match_pattern b,
              fr_action = br_action b, fr_priority = br_priority b \<rparr> (file_rules d)\<rparr>))"

section \<open>Policies and versions\<close>

text \<open>An UPDATE of a policy row stamps \<open>updated_at\<close> (\<open>onupdate\<close>).\<close>

definition set_policy :: "instant \<Rightarrow> uuid \<Rightarrow> (policy \<Rightarrow> policy) \<Rightarrow> database \<Rightarrow> database" where
  "set_policy now k f d =
     d\<lparr>policies := row_update p_id k (\<lambda>p. (f p)\<lparr>p_updated_at := now\<rparr>) (policies d)\<rparr>"

definition set_version :: "uuid \<Rightarrow> (policy_version \<Rightarrow> policy_version) \<Rightarrow> database \<Rightarrow> database" where
  "set_version k f d = d\<lparr>policy_versions := row_update pv_id k f (policy_versions d)\<rparr>"

definition opt_strip :: "string option \<Rightarrow> string option" where
  "opt_strip s = (case s of None \<Rightarrow> None | Some t \<Rightarrow> if t = [] then None else Some (strip t))"

definition create_policy ::
  "instant \<Rightarrow> string \<Rightarrow> string \<Rightarrow> string option \<Rightarrow> database \<Rightarrow> (service_error + policy) \<times> database" where
  "create_policy now name ptype description d =
     (if \<exists>p \<in> set (policies d). p_name p = name
      then (Inl (PolicyServiceError (''policy name already taken: '' @ name)), d)
      else
     (case policy_type_of_value ptype of
        None \<Rightarrow> (Inl (PolicyServiceError (''unknown policy type: '' @ ptype)), d)
      | Some t \<Rightarrow>
          if \<exists>p \<in> set (policies d). p_name p = strip name then (Inl DbIntegrityError, d)
          else
           (let (i, d) = fresh d;
                policy = \<lparr> p_id = i, p_created_at = now, p_updated_at = now, p_name = strip name,
                  p_policy_type = t, p_description = opt_strip description,
                  p_current_version_id = None, p_archived_at = None \<rparr>
            in (Inr policy, d\<lparr>policies := row_insert policy (policies d)\<rparr>))))"

definition rename_policy ::
  "instant \<Rightarrow> policy \<Rightarrow> string \<Rightarrow> string option \<Rightarrow> database \<Rightarrow> (service_error + policy) \<times> database" where
  "rename_policy now policy name description d =
     (let stripped = strip name in
      if stripped = [] then (Inl (PolicyServiceError ''policy name cannot be empty''), d)
      else if \<exists>p \<in> set (policies d). p_name p = stripped \<and> p_id p \<noteq> p_id policy
      then (Inl (PolicyServiceError (''policy name already taken: '' @ stripped)), d)
      else
       (let f = (\<lambda>p. p\<lparr>p_name := stripped, p_description := opt_strip description\<rparr>) in
        (Inr (f policy), set_policy now (p_id policy) f d)))"

definition last_version_number :: "uuid \<Rightarrow> database \<Rightarrow> int" where
  "last_version_number policy_id d =
     foldr max (map pv_version_number (filter (\<lambda>v. pv_policy_id v = policy_id) (policy_versions d))) 0"

definition create_draft_version ::
  "instant \<Rightarrow> policy \<Rightarrow> json \<Rightarrow> raw_rule list \<Rightarrow> uuid option \<Rightarrow> database
   \<Rightarrow> (service_error + policy_version) \<times> database" where
  "create_draft_version now policy content raw_rules actor_id d =
     (let last = last_version_number (p_id policy) d;
          (i, d1) = fresh d;
          version = \<lparr> pv_id = i, pv_created_at = now, pv_policy_id = p_id policy,
            pv_version_number = last + 1, pv_status = PV_DRAFT, pv_content = content,
            pv_created_by = actor_id, pv_published_at = None \<rparr>;
          d2 = d1\<lparr>policy_versions := row_insert version (policy_versions d1)\<rparr>
      in case build_file_rules raw_rules of
           Inl e \<Rightarrow> (Inl e, d2)
         | Inr built \<Rightarrow> (Inr version, add_rules now i built d2))"

definition update_draft_version ::
  "instant \<Rightarrow> policy_version \<Rightarrow> json \<Rightarrow> raw_rule list \<Rightarrow> database
   \<Rightarrow> (service_error + policy_version) \<times> database" where
  "update_draft_version now version content raw_rules d =
     (if pv_status version \<noteq> PV_DRAFT
      then (Inl (PolicyServiceError (''cannot edit a version in status ''
             @ policy_version_status_value (pv_status version) @ '', it is not a draft'')), d)
      else case build_file_rules raw_rules of
        Inl e \<Rightarrow> (Inl e, d)
      | Inr built \<Rightarrow>
          (let d1 = set_version (pv_id version) (\<lambda>v. v\<lparr>pv_content := content\<rparr>) d;
               d2 = d1\<lparr>file_rules := rows_delete (\<lambda>r. fr_policy_version_id r = pv_id version) (file_rules d1)\<rparr>
           in (Inr (version\<lparr>pv_content := content\<rparr>), add_rules now (pv_id version) built d2)))"

text \<open>The previously current version, if it still exists, becomes SUPERSEDED.\<close>

definition supersede_current :: "policy \<Rightarrow> database \<Rightarrow> database" where
  "supersede_current policy d =
     (case p_current_version_id policy of
        None \<Rightarrow> d
      | Some cur \<Rightarrow> set_version cur (\<lambda>v. v\<lparr>pv_status := PV_SUPERSEDED\<rparr>) d)"

definition publish_version ::
  "instant \<Rightarrow> policy \<Rightarrow> policy_version \<Rightarrow> uuid option \<Rightarrow> database
   \<Rightarrow> (service_error + unit) \<times> database" where
  "publish_version now policy version actor_id d =
     (if pv_policy_id version \<noteq> p_id policy
      then (Inl (PolicyServiceError ''version does not belong to this policy''), d)
      else if pv_status version \<noteq> PV_DRAFT
      then (Inl (PolicyServiceError (''cannot publish a version in status ''
              @ policy_version_status_value (pv_status version))), d)
      else
       (let d1 = supersede_current policy d;
            d2 = set_version (pv_id version) (\<lambda>v. v\<lparr>pv_status := PV_PUBLISHED, pv_published_at := Some now\<rparr>) d1;
            d3 = set_policy now (p_id policy) (\<lambda>p. p\<lparr>p_current_version_id := Some (pv_id version)\<rparr>) d2
        in (Inr (), record_security_event now EV_POLICY_PUBLISHED actor_id None None
             (Some [(''policy_id'', JId (p_id policy)), (''policy_version_id'', JId (pv_id version))]) d3)))"

definition rollback ::
  "instant \<Rightarrow> policy \<Rightarrow> policy_version \<Rightarrow> uuid \<Rightarrow> database \<Rightarrow> (service_error + unit) \<times> database" where
  "rollback now policy target actor_id d =
     (if pv_policy_id target \<noteq> p_id policy
      then (Inl (PolicyServiceError ''version does not belong to this policy''), d)
      else if pv_status target \<notin> {PV_PUBLISHED, PV_SUPERSEDED}
      then (Inl (PolicyServiceError (''cannot roll back to a version in status ''
              @ policy_version_status_value (pv_status target))), d)
      else if p_current_version_id policy = Some (pv_id target)
      then (Inl (PolicyServiceError ''target version is already current''), d)
      else
       (let d1 = supersede_current policy d;
            d2 = set_version (pv_id target) (\<lambda>v. v\<lparr>pv_status := PV_PUBLISHED\<rparr>) d1;
            d3 = set_policy now (p_id policy) (\<lambda>p. p\<lparr>p_current_version_id := Some (pv_id target)\<rparr>) d2
        in (Inr (), record_security_event now EV_POLICY_CHANGED (Some actor_id) None None
             (Some [(''policy_id'', JId (p_id policy)), (''rolled_back_to_version_id'', JId (pv_id target))]) d3)))"

definition archive_policy ::
  "instant \<Rightarrow> policy \<Rightarrow> uuid \<Rightarrow> database \<Rightarrow> (service_error + unit) \<times> database" where
  "archive_policy now policy actor_id d =
     (if p_archived_at policy \<noteq> None
      then (Inl (PolicyServiceError ''policy is already archived''), d)
      else if \<exists>gp \<in> set (group_policies d). gp_policy_id gp = p_id policy
      then (Inl (PolicyServiceError
             ''policy is still attached to at least one group; detach it from every group first''), d)
      else (Inr (), record_security_event now EV_POLICY_CHANGED (Some actor_id) None None
             (Some [(''policy_id'', JId (p_id policy)), (''action'', JStr ''archived'')])
             (set_policy now (p_id policy) (\<lambda>p. p\<lparr>p_archived_at := Some now\<rparr>) d)))"

definition restore_policy ::
  "instant \<Rightarrow> policy \<Rightarrow> uuid \<Rightarrow> database \<Rightarrow> (service_error + unit) \<times> database" where
  "restore_policy now policy actor_id d =
     (if p_archived_at policy = None
      then (Inl (PolicyServiceError ''policy is not archived''), d)
      else (Inr (), record_security_event now EV_POLICY_CHANGED (Some actor_id) None None
             (Some [(''policy_id'', JId (p_id policy)), (''action'', JStr ''restored'')])
             (set_policy now (p_id policy) (\<lambda>p. p\<lparr>p_archived_at := None\<rparr>) d)))"

definition attach_policy_to_group ::
  "instant \<Rightarrow> uuid \<Rightarrow> uuid \<Rightarrow> database \<Rightarrow> (service_error + unit) \<times> database" where
  "attach_policy_to_group now group_id policy_id d =
     (let archived = (case row_get p_id policy_id (policies d) of
                        None \<Rightarrow> False | Some p \<Rightarrow> p_archived_at p \<noteq> None) in
      if archived
      then (Inl (PolicyServiceError ''an archived policy cannot be attached to a group; restore it first''), d)
      else if \<exists>gp \<in> set (group_policies d). gp_group_id gp = group_id \<and> gp_policy_id gp = policy_id
      then (Inr (), d)
      else if row_get g_id group_id (groups d) = None \<or> row_get p_id policy_id (policies d) = None
      then (Inl DbIntegrityError, d)
      else
       (let (i, d) = fresh d in
        (Inr (), d\<lparr>group_policies := row_insert
            \<lparr> gp_id = i, gp_created_at = now, gp_group_id = group_id, gp_policy_id = policy_id \<rparr>
            (group_policies d)\<rparr>)))"

definition detach_policy_from_group :: "uuid \<Rightarrow> uuid \<Rightarrow> database \<Rightarrow> database" where
  "detach_policy_from_group group_id policy_id d =
     d\<lparr>group_policies := rows_delete
        (\<lambda>gp. gp_group_id gp = group_id \<and> gp_policy_id gp = policy_id) (group_policies d)\<rparr>"

section \<open>Groups\<close>

definition create_group ::
  "instant \<Rightarrow> string \<Rightarrow> string option \<Rightarrow> uuid \<Rightarrow> database \<Rightarrow> (service_error + group) \<times> database" where
  "create_group now name description actor_id d =
     (if \<exists>g \<in> set (groups d). g_name g = name
      then (Inl (GroupServiceError (''group name already taken: '' @ name)), d)
      else
       (let (i, d) = fresh d;
            g = \<lparr> g_id = i, g_created_at = now, g_name = name, g_description = description \<rparr>
        in (Inr g, record_security_event now EV_GROUP_CREATED None None None
             (Some [(''actor'', JId actor_id), (''group_id'', JId i)])
             (d\<lparr>groups := row_insert g (groups d)\<rparr>))))"

definition delete_group :: "instant \<Rightarrow> group \<Rightarrow> uuid \<Rightarrow> database \<Rightarrow> database" where
  "delete_group now g actor_id d =
     record_security_event now EV_GROUP_DELETED None None None
       (Some [(''actor'', JId actor_id), (''group_id'', JId (g_id g))])
       (d\<lparr>user_groups := rows_delete (\<lambda>ug. ug_group_id ug = g_id g) (user_groups d),
          group_policies := rows_delete (\<lambda>gp. gp_group_id gp = g_id g) (group_policies d),
          groups := rows_delete (\<lambda>x. g_id x = g_id g) (groups d)\<rparr>)"

definition get_group_with_member_count :: "database \<Rightarrow> uuid \<Rightarrow> (group \<times> nat) option" where
  "get_group_with_member_count d group_id =
     (case row_get g_id group_id (groups d) of
        None \<Rightarrow> None
      | Some g \<Rightarrow> Some (g, length (filter (\<lambda>ug. ug_group_id ug = g_id g) (user_groups d))))"

definition add_member ::
  "instant \<Rightarrow> uuid \<Rightarrow> uuid \<Rightarrow> uuid \<Rightarrow> database \<Rightarrow> (service_error + unit) \<times> database" where
  "add_member now group_id user_id actor_id d =
     (if \<exists>ug \<in> set (user_groups d). ug_group_id ug = group_id \<and> ug_user_id ug = user_id then (Inr (), d)
      else if row_get g_id group_id (groups d) = None \<or> row_get u_id user_id (users d) = None
      then (Inl DbIntegrityError, d)
      else
       (let (i, d) = fresh d in
        (Inr (), record_security_event now EV_USER_GROUPS_CHANGED (Some user_id) None None
          (Some [(''actor'', JId actor_id), (''action'', JStr ''added''), (''group_id'', JId group_id)])
          (d\<lparr>user_groups := row_insert
              \<lparr> ug_id = i, ug_created_at = now, ug_user_id = user_id, ug_group_id = group_id \<rparr>
              (user_groups d)\<rparr>))))"

definition remove_member :: "instant \<Rightarrow> uuid \<Rightarrow> uuid \<Rightarrow> uuid \<Rightarrow> database \<Rightarrow> database" where
  "remove_member now group_id user_id actor_id d =
     record_security_event now EV_USER_GROUPS_CHANGED (Some user_id) None None
       (Some [(''actor'', JId actor_id), (''action'', JStr ''removed''), (''group_id'', JId group_id)])
       (d\<lparr>user_groups := rows_delete
           (\<lambda>ug. ug_group_id ug = group_id \<and> ug_user_id ug = user_id) (user_groups d)\<rparr>)"

section \<open>Endpoints\<close>

definition policy_status_400 :: "service_error \<Rightarrow> nat" where
  "policy_status_400 e = (case e of PolicyServiceError _ \<Rightarrow> 400 | PolicyRuleError _ \<Rightarrow> 400 | _ \<Rightarrow> 500)"

definition policy_status_409 :: "service_error \<Rightarrow> nat" where
  "policy_status_409 e = (case e of PolicyServiceError _ \<Rightarrow> 409 | PolicyRuleError _ \<Rightarrow> 409 | _ \<Rightarrow> 500)"

definition update_version_status :: "service_error \<Rightarrow> nat" where
  "update_version_status e = (case e of PolicyRuleError _ \<Rightarrow> 400 | PolicyServiceError _ \<Rightarrow> 409 | _ \<Rightarrow> 500)"

definition create_policy_endpoint ::
  "instant \<Rightarrow> string \<Rightarrow> string \<Rightarrow> string option \<Rightarrow> database \<Rightarrow> policy response" where
  "create_policy_endpoint now name ptype description d =
     respond policy_status_400 d (create_policy now name ptype description d)"

definition update_policy_endpoint ::
  "instant \<Rightarrow> uuid \<Rightarrow> string \<Rightarrow> string option \<Rightarrow> database \<Rightarrow> policy response" where
  "update_policy_endpoint now policy_id name description d =
     (case row_get p_id policy_id (policies d) of
        None \<Rightarrow> not_found ''policy'' d
      | Some policy \<Rightarrow> respond policy_status_400 d (rename_policy now policy name description d))"

definition create_version_endpoint ::
  "instant \<Rightarrow> uuid \<Rightarrow> uuid \<Rightarrow> jobj \<Rightarrow> raw_rule list \<Rightarrow> database \<Rightarrow> policy_version response" where
  "create_version_endpoint now actor policy_id content raw_rules d =
     (case row_get p_id policy_id (policies d) of
        None \<Rightarrow> not_found ''policy'' d
      | Some policy \<Rightarrow>
          respond policy_status_400 d (create_draft_version now policy (JObj content) raw_rules (Some actor) d))"

text \<open>The version is looked up by its own id only; the policy id of the path is not compared.\<close>

definition update_version_endpoint ::
  "instant \<Rightarrow> uuid \<Rightarrow> uuid \<Rightarrow> jobj \<Rightarrow> raw_rule list \<Rightarrow> database \<Rightarrow> policy_version response" where
  "update_version_endpoint now policy_id version_id content raw_rules d =
     (case row_get p_id policy_id (policies d) of
        None \<Rightarrow> not_found ''policy'' d
      | Some _ \<Rightarrow>
     (case row_get pv_id version_id (policy_versions d) of
        None \<Rightarrow> not_found ''policy version'' d
      | Some version \<Rightarrow>
          respond update_version_status d (update_draft_version now version (JObj content) raw_rules d)))"

definition publish_endpoint :: "instant \<Rightarrow> uuid \<Rightarrow> uuid \<Rightarrow> uuid \<Rightarrow> database \<Rightarrow> unit response" where
  "publish_endpoint now actor policy_id version_id d =
     (case row_get p_id policy_id (policies d) of
        None \<Rightarrow> not_found ''policy'' d
      | Some policy \<Rightarrow>
     (case row_get pv_id version_id (policy_versions d) of
        None \<Rightarrow> not_found ''policy version'' d
      | Some version \<Rightarrow> respond policy_status_409 d (publish_version now policy version (Some actor) d)))"

definition rollback_endpoint :: "instant \<Rightarrow> uuid \<Rightarrow> uuid \<Rightarrow> uuid \<Rightarrow> database \<Rightarrow> unit response" where
  "rollback_endpoint now actor policy_id version_id d =
     (case row_get p_id policy_id (policies d) of
        None \<Rightarrow> not_found ''policy'' d
      | Some policy \<Rightarrow>
     (case row_get pv_id version_id (policy_versions d) of
        None \<Rightarrow> not_found ''policy version'' d
      | Some target \<Rightarrow> respond policy_status_409 d (rollback now policy target actor d)))"

definition archive_policy_endpoint :: "instant \<Rightarrow> uuid \<Rightarrow> uuid \<Rightarrow> database \<Rightarrow> unit response" where
  "archive_policy_endpoint now actor policy_id d =
     (case row_get p_id policy_id (policies d) of
        None \<Rightarrow> not_found ''policy'' d
      | Some policy \<Rightarrow> respond policy_status_409 d (archive_policy now policy actor d))"

definition restore_policy_endpoint :: "instant \<Rightarrow> uuid \<Rightarrow> uuid \<Rightarrow> database \<Rightarrow> unit response" where
  "restore_policy_endpoint now actor policy_id d =
     (case row_get p_id policy_id (policies d) of
        None \<Rightarrow> not_found ''policy'' d
      | Some policy \<Rightarrow> respond policy_status_409 d (restore_policy now policy actor d))"

definition attach_to_group_endpoint :: "instant \<Rightarrow> uuid \<Rightarrow> uuid \<Rightarrow> database \<Rightarrow> unit response" where
  "attach_to_group_endpoint now policy_id group_id d =
     (case row_get p_id policy_id (policies d) of
        None \<Rightarrow> not_found ''policy'' d
      | Some _ \<Rightarrow> respond policy_status_409 d (attach_policy_to_group now group_id policy_id d))"

definition detach_from_group_endpoint :: "uuid \<Rightarrow> uuid \<Rightarrow> database \<Rightarrow> unit response" where
  "detach_from_group_endpoint policy_id group_id d =
     (case row_get p_id policy_id (policies d) of
        None \<Rightarrow> not_found ''policy'' d
      | Some _ \<Rightarrow> (Inr (), detach_policy_from_group group_id policy_id d))"

end
