(* ===== verification/Policy_Invariant.thy ===== *)
theory Policy_Invariant
  imports Policies
begin

text \<open>
  What policy administration keeps true: \<open>policy_wf\<close> relates policies, their versions and their
  attachments, and \<open>frozen_extends\<close> says a version that was ever published never changes again.
  Both are proved per operation, then for every run of \<open>policy_step\<close>, the relation of the
  endpoints (successful or not) in any order.
\<close>

section \<open>The invariant\<close>

definition ids_fresh :: "database \<Rightarrow> bool" where
  "ids_fresh d \<longleftrightarrow> (\<forall>p \<in> set (policies d). p_id p < next_id d)
     \<and> (\<forall>v \<in> set (policy_versions d). pv_id v < next_id d)"

definition current_published :: "database \<Rightarrow> bool" where
  "current_published d \<longleftrightarrow>
     (\<forall>p \<in> set (policies d). \<forall>k. p_current_version_id p = Some k \<longrightarrow>
        (\<exists>v \<in> set (policy_versions d). pv_id v = k \<and> pv_policy_id v = p_id p \<and> pv_status v = PV_PUBLISHED))"

definition published_current :: "database \<Rightarrow> bool" where
  "published_current d \<longleftrightarrow>
     (\<forall>v \<in> set (policy_versions d). pv_status v = PV_PUBLISHED \<longrightarrow>
        (\<exists>p \<in> set (policies d). p_id p = pv_policy_id v \<and> p_current_version_id p = Some (pv_id v)))"

definition archived_detached :: "database \<Rightarrow> bool" where
  "archived_detached d \<longleftrightarrow>
     (\<forall>p \<in> set (policies d). p_archived_at p \<noteq> None \<longrightarrow>
        (\<forall>gp \<in> set (group_policies d). gp_policy_id gp \<noteq> p_id p))"

definition numbers_unique :: "database \<Rightarrow> bool" where
  "numbers_unique d \<longleftrightarrow> distinct_keys (\<lambda>v. (pv_policy_id v, pv_version_number v)) (policy_versions d)"

definition policy_wf :: "database \<Rightarrow> bool" where
  "policy_wf d \<longleftrightarrow> distinct_keys p_id (policies d) \<and> distinct_keys pv_id (policy_versions d)
     \<and> distinct_keys p_name (policies d) \<and> numbers_unique d \<and> ids_fresh d
     \<and> current_published d \<and> published_current d \<and> archived_detached d"

named_theorems policy_parts \<open>definitions of the parts of the policy invariant\<close>

lemmas [policy_parts] = ids_fresh_def current_published_def published_current_def
  archived_detached_def numbers_unique_def

lemma policy_wfD:
  assumes "policy_wf d"
  shows "distinct_keys p_id (policies d)" "distinct_keys pv_id (policy_versions d)"
    "distinct_keys p_name (policies d)" "numbers_unique d" "ids_fresh d"
    "current_published d" "published_current d" "archived_detached d"
  using assms by (auto simp: policy_wf_def)

section \<open>Frames of the building blocks\<close>

lemma set_policy_frame [simp]:
  "policy_versions (set_policy now k f d) = policy_versions d"
  "group_policies (set_policy now k f d) = group_policies d"
  "file_rules (set_policy now k f d) = file_rules d"
  "user_groups (set_policy now k f d) = user_groups d"
  "groups (set_policy now k f d) = groups d"
  "events (set_policy now k f d) = events d"
  "next_id (set_policy now k f d) = next_id d"
  "policies (set_policy now k f d) = row_update p_id k (\<lambda>p. (f p)\<lparr>p_updated_at := now\<rparr>) (policies d)"
  by (simp_all add: set_policy_def)

lemma set_version_frame [simp]:
  "policies (set_version k g d) = policies d"
  "group_policies (set_version k g d) = group_policies d"
  "file_rules (set_version k g d) = file_rules d"
  "user_groups (set_version k g d) = user_groups d"
  "groups (set_version k g d) = groups d"
  "events (set_version k g d) = events d"
  "next_id (set_version k g d) = next_id d"
  "policy_versions (set_version k g d) = row_update pv_id k g (policy_versions d)"
  by (simp_all add: set_version_def)

lemma add_rules_frame [simp]:
  "policies (add_rules now k bs d) = policies d"
  "policy_versions (add_rules now k bs d) = policy_versions d"
  "group_policies (add_rules now k bs d) = group_policies d"
  "user_groups (add_rules now k bs d) = user_groups d"
  "groups (add_rules now k bs d) = groups d"
  "events (add_rules now k bs d) = events d"
  by (induction bs arbitrary: d) (simp_all add: Let_def split_def)

lemma add_rules_next_id: "next_id d \<le> next_id (add_rules now k bs d)"
proof (induction bs arbitrary: d)
  case (Cons b bs)
  show ?case by (simp add: Let_def split_def) (rule order_trans [OF _ Cons.IH], simp)
qed simp

lemma add_rules_file_rules:
  "\<exists>new. file_rules (add_rules now k bs d) = file_rules d @ new \<and> (\<forall>r \<in> set new. fr_policy_version_id r = k)
     \<and> map fr_match_pattern new = map br_match_pattern bs \<and> map fr_action new = map br_action bs
     \<and> map fr_rule_type new = map br_rule_type bs \<and> map fr_priority new = map br_priority bs"
proof (induction bs arbitrary: d)
  case (Cons b bs)
  show ?case
    using Cons.IH [of "(snd (fresh d))\<lparr>file_rules := row_insert
       \<lparr>fr_id = fst (fresh d), fr_created_at = now, fr_policy_version_id = k, fr_rule_type = br_rule_type b,
        fr_match_pattern = br_match_pattern b, fr_action = br_action b, fr_priority = br_priority b\<rparr>
       (file_rules (snd (fresh d)))\<rparr>"]
    by (auto simp: Let_def split_def row_insert_def)
qed simp

text \<open>The invariant does not read the tables an event or a rule is stored in.\<close>

lemma policy_wf_cong:
  assumes "policies e = policies d" "policy_versions e = policy_versions d"
    "set (group_policies e) \<subseteq> set (group_policies d)" "next_id d \<le> next_id e"
  shows "policy_wf d \<Longrightarrow> policy_wf e"
  using assms by (fastforce simp: policy_wf_def policy_parts)

section \<open>Each operation keeps the invariant\<close>

lemma create_policy_wf:
  assumes "policy_wf d" and "create_policy now name ptype desc d = (Inr p, e)"
  shows "policy_wf e"
proof -
  obtain t where e: "e = d\<lparr>next_id := Suc (next_id d), policies := row_insert p (policies d)\<rparr>"
    and p: "p = \<lparr> p_id = next_id d, p_created_at = now, p_updated_at = now, p_name = strip name,
       p_policy_type = t, p_description = opt_strip desc, p_current_version_id = None, p_archived_at = None \<rparr>"
    and free: "\<forall>q \<in> set (policies d). p_name q \<noteq> strip name"
    using assms(2) by (auto simp: create_policy_def fresh_def Let_def split: if_splits option.splits)
  have p_fields: "p_id p = next_id d" "p_name p = strip name" "p_current_version_id p = None"
    "p_archived_at p = None"
    by (simp_all add: p)
  note wf = policy_wfD [OF assms(1)]
  show ?thesis
    unfolding policy_wf_def
  proof (intro conjI)
    show "distinct_keys p_id (policies e)" "distinct_keys p_name (policies e)"
      using wf(1,3,5) free by (auto simp: e p_fields distinct_keys_row_insert row_get_None ids_fresh_def)
    show "distinct_keys pv_id (policy_versions e)" "numbers_unique e"
      using wf(2,4) by (simp_all add: e numbers_unique_def)
    show "ids_fresh e"
      using wf(5) by (auto simp: e p_fields ids_fresh_def set_row_insert less_Suc_eq)
    show "current_published e" "published_current e" "archived_detached e"
      using wf(6-8) by (auto simp: e p_fields set_row_insert
          current_published_def published_current_def archived_detached_def)
  qed
qed

text \<open>An update of a policy row that keeps its id and its current version.\<close>

lemma set_policy_wf:
  assumes "policy_wf d" and "\<And>p. p_id (f p) = p_id p"
    and "\<And>p. p_current_version_id (f p) = p_current_version_id p"
    and "distinct_keys p_name (policies (set_policy now k f d))"
    and "archived_detached (set_policy now k f d)"
  shows "policy_wf (set_policy now k f d)"
proof -
  note wf = policy_wfD [OF assms(1)]
  have "distinct_keys p_id (policies (set_policy now k f d))"
    using wf(1) by (simp add: distinct_keys_row_update assms(2))
  moreover have "ids_fresh (set_policy now k f d)"
    using wf(5) by (auto simp: ids_fresh_def set_row_update assms(2))
  moreover have "current_published (set_policy now k f d)"
    using wf(6) by (auto simp: current_published_def set_row_update assms(2,3))
  moreover have "published_current (set_policy now k f d)"
    unfolding published_current_def set_policy_frame set_row_update
  proof (intro ballI impI)
    fix v
    assume "v \<in> set (policy_versions d)" "pv_status v = PV_PUBLISHED"
    then obtain p where "p \<in> set (policies d)" "p_id p = pv_policy_id v"
      "p_current_version_id p = Some (pv_id v)"
      using wf(7) by (auto simp: published_current_def)
    then show "\<exists>p \<in> (\<lambda>r. if p_id r = k then (f r)\<lparr>p_updated_at := now\<rparr> else r) ` set (policies d).
        p_id p = pv_policy_id v \<and> p_current_version_id p = Some (pv_id v)"
      by (intro bexI [of _ "if p_id p = k then (f p)\<lparr>p_updated_at := now\<rparr> else p"]) (auto simp: assms(2,3))
  qed
  ultimately show ?thesis
    using wf(2,4) assms(4,5) by (simp add: policy_wf_def numbers_unique_def)
qed

lemma distinct_names_kept:
  "policy_wf d \<Longrightarrow> (\<And>p. p_name (f p) = p_name p) \<Longrightarrow>
     distinct_keys p_name (policies (set_policy now k f d))"
  by (simp add: policy_wf_def distinct_keys_def map_other_row_update)

lemma rename_policy_wf:
  assumes "policy_wf d" and "rename_policy now policy name desc d = (Inr p, e)"
  shows "policy_wf e"
proof -
  define f :: "policy \<Rightarrow> policy" where "f = (\<lambda>p. p\<lparr>p_name := strip name, p_description := opt_strip desc\<rparr>)"
  have e: "e = set_policy now (p_id policy) f d"
    and free: "\<forall>q \<in> set (policies d). p_id q \<noteq> p_id policy \<longrightarrow> p_name q \<noteq> strip name"
    using assms(2) by (auto simp: rename_policy_def f_def Let_def split: if_splits)
  have names: "distinct_keys p_name (policies e)"
  proof -
    have "distinct (map p_id (policies d))" "distinct (map p_name (policies d))"
      using policy_wfD [OF assms(1)] by (auto simp: distinct_keys_def)
    then have "distinct (map (\<lambda>q. if p_id q = p_id policy then strip name else p_name q) (policies d))"
      using free by (auto simp: distinct_map inj_on_def)
    then show ?thesis
      unfolding e distinct_keys_def set_policy_frame row_update_def map_map
      by (rule back_subst [where P = distinct]) (auto simp: f_def)
  qed
  have "archived_detached e"
    using policy_wfD(8) [OF assms(1)] by (auto simp: e f_def archived_detached_def set_row_update)
  with names show ?thesis
    unfolding e by (intro set_policy_wf assms(1)) (simp_all add: f_def)
qed

lemma last_version_number_ge:
  "v \<in> set (policy_versions d) \<Longrightarrow> pv_policy_id v = k \<Longrightarrow> pv_version_number v \<le> last_version_number k d"
proof -
  have "x \<in> set xs \<Longrightarrow> x \<le> foldr max xs (0::int)" for x xs
    by (induction xs) auto
  then show "v \<in> set (policy_versions d) \<Longrightarrow> pv_policy_id v = k \<Longrightarrow> ?thesis"
    by (simp add: last_version_number_def)
qed

lemma create_draft_wf:
  assumes "policy_wf d" and "create_draft_version now policy content rules actor d = (Inr v, e)"
  shows "policy_wf e"
proof -
  obtain built where v: "v = \<lparr> pv_id = next_id d, pv_created_at = now, pv_policy_id = p_id policy,
       pv_version_number = last_version_number (p_id policy) d + 1, pv_status = PV_DRAFT,
       pv_content = content, pv_created_by = actor, pv_published_at = None \<rparr>"
    and e: "e = add_rules now (next_id d) built
       (d\<lparr>next_id := Suc (next_id d), policy_versions := row_insert v (policy_versions d)\<rparr>)"
    using assms(2) by (auto simp: create_draft_version_def fresh_def Let_def split: sum.splits)
  let ?d2 = "d\<lparr>next_id := Suc (next_id d), policy_versions := row_insert v (policy_versions d)\<rparr>"
  have v_fields: "pv_id v = next_id d" "pv_policy_id v = p_id policy" "pv_status v = PV_DRAFT"
    "pv_version_number v = last_version_number (p_id policy) d + 1"
    by (simp_all add: v)
  note wf = policy_wfD [OF assms(1)]
  have "policy_wf ?d2"
    unfolding policy_wf_def
  proof (intro conjI)
    show "distinct_keys p_id (policies ?d2)" "distinct_keys p_name (policies ?d2)"
      using wf(1,3) by simp_all
    show "distinct_keys pv_id (policy_versions ?d2)"
      using wf(2,5) by (auto simp: v_fields distinct_keys_row_insert row_get_None ids_fresh_def)
    show "numbers_unique ?d2"
      using wf(4) last_version_number_ge [of _ d "p_id policy"]
      by (force simp: v_fields distinct_keys_row_insert row_get_None numbers_unique_def)
    show "ids_fresh ?d2"
      using wf(5) by (auto simp: v_fields ids_fresh_def set_row_insert less_Suc_eq)
    show "current_published ?d2" "published_current ?d2" "archived_detached ?d2"
      using wf(6-8) by (auto simp: v_fields set_row_insert
          current_published_def published_current_def archived_detached_def)
  qed
  then show ?thesis
    unfolding e by (rule policy_wf_cong [of _ ?d2, rotated 4]) (simp_all only: add_rules_frame add_rules_next_id order_refl)
qed

lemma map_version_key:
  "(\<And>v. g (h v) = g v) \<Longrightarrow> distinct_keys g (row_update pv_id k h vs) = distinct_keys g vs"
  by (simp add: distinct_keys_def map_other_row_update)

lemma set_version_wf:
  assumes "policy_wf d" and "\<And>v. pv_id (f v) = pv_id v" and "\<And>v. pv_policy_id (f v) = pv_policy_id v"
    and "\<And>v. pv_version_number (f v) = pv_version_number v" and "\<And>v. pv_status (f v) = pv_status v"
  shows "policy_wf (set_version k f d)"
proof -
  let ?g = "\<lambda>v. if pv_id v = k then f v else v"
  have g: "pv_id (?g v) = pv_id v" "pv_policy_id (?g v) = pv_policy_id v" "pv_status (?g v) = pv_status v"
    for v using assms(2-5) by auto
  have "current_published (set_version k f d)"
    unfolding current_published_def set_version_frame set_row_update
  proof (intro ballI allI impI)
    fix p c
    assume "p \<in> set (policies d)" "p_current_version_id p = Some c"
    then obtain v where "v \<in> set (policy_versions d)" "pv_id v = c" "pv_policy_id v = p_id p"
      "pv_status v = PV_PUBLISHED"
      using policy_wfD(6) [OF assms(1)] by (auto simp: current_published_def)
    then show "\<exists>w \<in> ?g ` set (policy_versions d).
        pv_id w = c \<and> pv_policy_id w = p_id p \<and> pv_status w = PV_PUBLISHED"
      by (intro bexI [of _ "?g v"]) (auto simp: assms(2,3,5))
  qed
  moreover have "published_current (set_version k f d)"
    using policy_wfD(7) [OF assms(1)]
    by (auto simp: published_current_def set_row_update assms(2-5))
  moreover have "ids_fresh (set_version k f d)"
    using policy_wfD(5) [OF assms(1)] by (auto simp: ids_fresh_def set_row_update assms(2))
  ultimately show ?thesis
    using policy_wfD [OF assms(1)] assms(2-4)
    by (simp add: policy_wf_def numbers_unique_def archived_detached_def map_version_key)
qed

lemma update_draft_wf:
  assumes "policy_wf d" and "update_draft_version now version content rules d = (Inr v, e)"
  shows "policy_wf e"
proof -
  let ?d1 = "set_version (pv_id version) (\<lambda>v. v\<lparr>pv_content := content\<rparr>) d"
  let ?d2 = "?d1\<lparr>file_rules := rows_delete (\<lambda>r. fr_policy_version_id r = pv_id version) (file_rules d)\<rparr>"
  obtain built where e: "e = add_rules now (pv_id version) built ?d2"
    using assms(2) by (auto simp: update_draft_version_def Let_def split: if_splits sum.splits)
  have "policy_wf ?d1" by (rule set_version_wf [OF assms(1)]) simp_all
  then show ?thesis
    unfolding e using add_rules_next_id [of ?d2 now "pv_id version" built]
    by (rule_tac policy_wf_cong [of _ ?d1, rotated 4]) simp_all
qed

text \<open>
  Publishing and rolling back both make a version of the policy the current one: the previously
  current version is superseded, the new one PUBLISHED.
\<close>

lemma activate_wf:
  assumes wf: "policy_wf d" and pol: "row_get p_id (p_id policy) (policies d) = Some policy"
    and ver: "row_get pv_id (pv_id version) (policy_versions d) = Some version"
    and own: "pv_policy_id version = p_id policy"
    and ncur: "p_current_version_id policy \<noteq> Some (pv_id version)"
    and f: "\<And>v. pv_id (f v) = pv_id v" "\<And>v. pv_policy_id (f v) = pv_policy_id v"
      "\<And>v. pv_version_number (f v) = pv_version_number v" "\<And>v. pv_status (f v) = PV_PUBLISHED"
  shows "policy_wf (set_policy now (p_id policy) (\<lambda>p. p\<lparr>p_current_version_id := Some (pv_id version)\<rparr>)
           (set_version (pv_id version) f (supersede_current policy d)))" (is "policy_wf ?e")
proof -
  let ?g = "\<lambda>v. if pv_id v = pv_id version then f v
     else if p_current_version_id policy = Some (pv_id v) then v\<lparr>pv_status := PV_SUPERSEDED\<rparr> else v"
  let ?h = "\<lambda>p. if p_id p = p_id policy
     then p\<lparr>p_current_version_id := Some (pv_id version), p_updated_at := now\<rparr> else p"
  have vs: "policy_versions ?e = map ?g (policy_versions d)"
    using ncur by (auto simp: supersede_current_def row_update_def split: option.split)
  have ps: "policies ?e = map ?h (policies d)"
    by (auto simp: supersede_current_def row_update_def split: option.split)
  have rest: "group_policies ?e = group_policies d" "next_id ?e = next_id d"
    by (simp_all add: supersede_current_def split: option.split)
  have g: "pv_id (?g v) = pv_id v" "pv_policy_id (?g v) = pv_policy_id v"
    "pv_version_number (?g v) = pv_version_number v" for v
    using f by auto
  have h: "p_id (?h p) = p_id p" "p_name (?h p) = p_name p" "p_archived_at (?h p) = p_archived_at p" for p
    by auto
  have same_p: "q = policy" if "q \<in> set (policies d)" "p_id q = p_id policy" for q
    using that pol row_get_Some [OF policy_wfD(1) [OF wf]] by (metis option.inject)
  have same_v: "w = version" if "w \<in> set (policy_versions d)" "pv_id w = pv_id version" for w
    using that ver row_get_Some [OF policy_wfD(2) [OF wf]] by (metis option.inject)
  have pin: "policy \<in> set (policies d)" and vin: "version \<in> set (policy_versions d)"
    using pol ver by (auto dest: row_get_SomeD)
  have cur: "current_published ?e"
    unfolding current_published_def vs ps set_map ball_simps bex_simps
  proof (intro ballI allI impI)
    fix p c
    assume p: "p \<in> set (policies d)" and c: "p_current_version_id (?h p) = Some c"
    show "\<exists>v \<in> set (policy_versions d). pv_id (?g v) = c \<and> pv_policy_id (?g v) = p_id (?h p)
        \<and> pv_status (?g v) = PV_PUBLISHED"
    proof (cases "p_id p = p_id policy")
      case True
      with c own f vin show ?thesis by (intro bexI [of _ version]) auto
    next
      case False
      with c p obtain v where v: "v \<in> set (policy_versions d)" "pv_id v = c" "pv_policy_id v = p_id p"
        "pv_status v = PV_PUBLISHED"
        using policy_wfD(6) [OF wf] by (auto simp: current_published_def)
      have "pv_id v \<noteq> pv_id version" using same_v [OF v(1)] own v(3) False by auto
      moreover have "p_current_version_id policy \<noteq> Some (pv_id v)"
      proof
        assume "p_current_version_id policy = Some (pv_id v)"
        with pin obtain w where "w \<in> set (policy_versions d)" "pv_id w = pv_id v" "pv_policy_id w = p_id policy"
          using policy_wfD(6) [OF wf] by (auto simp: current_published_def)
        with v(1) have "w = v" using policy_wfD(2) [OF wf]
          by (auto simp: distinct_keys_def distinct_map inj_on_def)
        with \<open>pv_policy_id w = p_id policy\<close> v(3) False show False by simp
      qed
      ultimately show ?thesis using v False by (intro bexI [of _ v]) auto
    qed
  qed
  have pub: "published_current ?e"
    unfolding published_current_def vs ps set_map ball_simps bex_simps
  proof (intro ballI impI)
    fix v
    assume v: "v \<in> set (policy_versions d)" and st: "pv_status (?g v) = PV_PUBLISHED"
    show "\<exists>p \<in> set (policies d). p_id (?h p) = pv_policy_id (?g v)
        \<and> p_current_version_id (?h p) = Some (pv_id (?g v))"
    proof (cases "pv_id v = pv_id version")
      case True
      with same_v [OF v] own f pin show ?thesis by (intro bexI [of _ policy]) auto
    next
      case False
      with st have ncur': "p_current_version_id policy \<noteq> Some (pv_id v)" and "pv_status v = PV_PUBLISHED"
        by (auto split: if_splits)
      then obtain p where p: "p \<in> set (policies d)" "p_id p = pv_policy_id v"
        "p_current_version_id p = Some (pv_id v)"
        using policy_wfD(7) [OF wf] v by (auto simp: published_current_def)
      then have "p_id p \<noteq> p_id policy" using same_p [OF p(1)] ncur' by auto
      with p False show ?thesis by (intro bexI [of _ p]) auto
    qed
  qed
  show ?thesis
    unfolding policy_wf_def
  proof (intro conjI cur pub)
    show "distinct_keys p_id (policies ?e)" "distinct_keys p_name (policies ?e)"
      using policy_wfD [OF wf] unfolding distinct_keys_def ps map_map by (simp_all add: comp_def if_distrib cong: if_cong)
    show "distinct_keys pv_id (policy_versions ?e)"
      using policy_wfD(2) [OF wf] unfolding distinct_keys_def vs map_map by (simp add: comp_def g)
    show "numbers_unique ?e"
      using policy_wfD(4) [OF wf] unfolding numbers_unique_def distinct_keys_def vs map_map by (simp add: comp_def g)
    show "ids_fresh ?e"
      using policy_wfD(5) [OF wf] unfolding ids_fresh_def vs ps rest by (auto simp: f(1))
    show "archived_detached ?e"
      using policy_wfD(8) [OF wf] unfolding archived_detached_def ps rest by auto
  qed
qed

lemma record_event_wf: "policy_wf d \<Longrightarrow> policy_wf (record_security_event now t u s q m d)"
  by (rule policy_wf_cong [of _ d]) simp_all

section \<open>The endpoints\<close>

lemma loaded_version:
  "row_get pv_id k (policy_versions d) = Some v \<Longrightarrow> row_get pv_id (pv_id v) (policy_versions d) = Some v"
  by (metis row_get_SomeD)

lemma loaded_policy:
  "row_get p_id k (policies d) = Some p \<Longrightarrow> row_get p_id (p_id p) (policies d) = Some p"
  by (metis row_get_SomeD)

lemma publish_wf:
  assumes wf: "policy_wf d" and pol: "row_get p_id (p_id policy) (policies d) = Some policy"
    and ver: "row_get pv_id (pv_id version) (policy_versions d) = Some version"
    and "publish_version now policy version actor d = (Inr u, e)"
  shows "policy_wf e"
proof -
  have own: "pv_policy_id version = p_id policy" and draft: "pv_status version = PV_DRAFT"
    and e: "e = record_security_event now EV_POLICY_PUBLISHED actor None None
      (Some [(''policy_id'', JId (p_id policy)), (''policy_version_id'', JId (pv_id version))])
      (set_policy now (p_id policy) (\<lambda>p. p\<lparr>p_current_version_id := Some (pv_id version)\<rparr>)
        (set_version (pv_id version) (\<lambda>v. v\<lparr>pv_status := PV_PUBLISHED, pv_published_at := Some now\<rparr>)
          (supersede_current policy d)))"
    using assms(4) by (auto simp: publish_version_def Let_def split: if_splits)
  have "p_current_version_id policy \<noteq> Some (pv_id version)"
  proof
    assume "p_current_version_id policy = Some (pv_id version)"
    then obtain w where "w \<in> set (policy_versions d)" "pv_id w = pv_id version" "pv_status w = PV_PUBLISHED"
      using policy_wfD(6) [OF wf] row_get_SomeD [OF pol] by (auto simp: current_published_def)
    with ver draft show False using row_get_Some [OF policy_wfD(2) [OF wf]] by (metis option.inject policy_version_status.distinct(1))
  qed
  with wf pol ver own show ?thesis unfolding e by (intro record_event_wf activate_wf) simp_all
qed

lemma rollback_wf:
  assumes wf: "policy_wf d" and pol: "row_get p_id (p_id policy) (policies d) = Some policy"
    and ver: "row_get pv_id (pv_id target) (policy_versions d) = Some target"
    and "rollback now policy target actor d = (Inr u, e)"
  shows "policy_wf e"
proof -
  have own: "pv_policy_id target = p_id policy"
    and ncur: "p_current_version_id policy \<noteq> Some (pv_id target)"
    and e: "e = record_security_event now EV_POLICY_CHANGED (Some actor) None None
      (Some [(''policy_id'', JId (p_id policy)), (''rolled_back_to_version_id'', JId (pv_id target))])
      (set_policy now (p_id policy) (\<lambda>p. p\<lparr>p_current_version_id := Some (pv_id target)\<rparr>)
        (set_version (pv_id target) (\<lambda>v. v\<lparr>pv_status := PV_PUBLISHED\<rparr>)
          (supersede_current policy d)))"
    using assms(4) by (auto simp: rollback_def Let_def split: if_splits)
  with wf pol ver show ?thesis unfolding e by (intro record_event_wf activate_wf) simp_all
qed

lemma archive_wf:
  assumes wf: "policy_wf d" and "archive_policy now policy actor d = (Inr u, e)"
  shows "policy_wf e"
proof -
  let ?f = "\<lambda>p. p\<lparr>p_archived_at := Some now\<rparr>"
  obtain m where e: "e = record_security_event now EV_POLICY_CHANGED (Some actor) None None m
       (set_policy now (p_id policy) ?f d)"
    and free: "\<forall>gp \<in> set (group_policies d). gp_policy_id gp \<noteq> p_id policy"
    using assms(2) by (auto simp: archive_policy_def split: if_splits)
  have "archived_detached (set_policy now (p_id policy) ?f d)"
    using policy_wfD(8) [OF wf] free by (auto simp: archived_detached_def set_row_update)
  then have "policy_wf (set_policy now (p_id policy) ?f d)"
    using wf by (intro set_policy_wf distinct_names_kept) simp_all
  then show ?thesis by (simp add: e record_event_wf)
qed

lemma restore_wf:
  assumes wf: "policy_wf d" and "restore_policy now policy actor d = (Inr u, e)"
  shows "policy_wf e"
proof -
  let ?f = "\<lambda>p. p\<lparr>p_archived_at := None\<rparr>"
  obtain m where e: "e = record_security_event now EV_POLICY_CHANGED (Some actor) None None m
       (set_policy now (p_id policy) ?f d)"
    using assms(2) by (auto simp: restore_policy_def split: if_splits)
  have "archived_detached (set_policy now (p_id policy) ?f d)"
    using policy_wfD(8) [OF wf] by (auto simp: archived_detached_def set_row_update)
  then have "policy_wf (set_policy now (p_id policy) ?f d)"
    using wf by (intro set_policy_wf distinct_names_kept) simp_all
  then show ?thesis by (simp add: e record_event_wf)
qed

lemma attach_wf:
  assumes wf: "policy_wf d" and "attach_policy_to_group now group_id policy_id d = (Inr u, e)"
  shows "policy_wf e"
proof (cases "e = d")
  case True
  with wf show ?thesis by simp
next
  case False
  obtain p i where p: "row_get p_id policy_id (policies d) = Some p" "p_archived_at p = None"
    and e: "e = d\<lparr>next_id := Suc (next_id d), group_policies := row_insert
      \<lparr> gp_id = i, gp_created_at = now, gp_group_id = group_id, gp_policy_id = policy_id \<rparr> (group_policies d)\<rparr>"
    using assms(2) False
    by (auto simp: attach_policy_to_group_def fresh_def Let_def split: if_splits option.splits)
  have "q = p" if "q \<in> set (policies d)" "p_id q = policy_id" for q
    using that p(1) row_get_Some [OF policy_wfD(1) [OF wf]] by (metis option.inject)
  then have "archived_detached e"
    using policy_wfD(8) [OF wf] p(2) by (auto simp: e archived_detached_def set_row_insert)
  moreover have "ids_fresh e"
    using policy_wfD(5) [OF wf] by (auto simp: e ids_fresh_def less_Suc_eq)
  ultimately show ?thesis
    using policy_wfD [OF wf]
    by (simp add: e policy_wf_def numbers_unique_def current_published_def published_current_def)
qed

lemma add_member_frame:
  "add_member now g u a d = (r, e) \<Longrightarrow> policies e = policies d \<and> policy_versions e = policy_versions d
     \<and> group_policies e = group_policies d \<and> file_rules e = file_rules d \<and> next_id d \<le> next_id e"
  by (auto simp: add_member_def fresh_def Let_def split: if_splits)

section \<open>Runs\<close>

text \<open>
  One step: one administrative request, with any arguments, answered with success or an error;
  group management included, since it removes attachments.
\<close>

inductive policy_step :: "database \<Rightarrow> database \<Rightarrow> bool" where
  create: "policy_step d (snd (create_policy_endpoint now name ptype desc d))"
| rename: "policy_step d (snd (update_policy_endpoint now policy_id name desc d))"
| draft: "policy_step d (snd (create_version_endpoint now actor policy_id content rules d))"
| edit: "policy_step d (snd (update_version_endpoint now policy_id version_id content rules d))"
| publish: "policy_step d (snd (publish_endpoint now actor policy_id version_id d))"
| roll: "policy_step d (snd (rollback_endpoint now actor policy_id version_id d))"
| archive: "policy_step d (snd (archive_policy_endpoint now actor policy_id d))"
| restore: "policy_step d (snd (restore_policy_endpoint now actor policy_id d))"
| attach: "policy_step d (snd (attach_to_group_endpoint now policy_id group_id d))"
| detach: "policy_step d (snd (detach_from_group_endpoint policy_id group_id d))"
| group_created: "create_group now gname gdesc actor d = (Inr g, e) \<Longrightarrow> policy_step d e"
| group_deleted: "policy_step d (delete_group now g actor d)"
| member_added: "add_member now group_id user_id actor d = (Inr (), e) \<Longrightarrow> policy_step d e"
| member_removed: "policy_step d (remove_member now group_id user_id actor d)"

lemma snd_respond_cases:
  "P d \<Longrightarrow> (\<And>x e. r = (Inr x, e) \<Longrightarrow> P e) \<Longrightarrow> P (snd (respond st d r))"
  by (auto simp: respond_def split: prod.split sum.split)

lemma snd_not_found [simp]: "snd (not_found what d) = d"
  by (simp add: not_found_def)

lemmas endpoint_defs = create_policy_endpoint_def update_policy_endpoint_def create_version_endpoint_def
  update_version_endpoint_def publish_endpoint_def rollback_endpoint_def archive_policy_endpoint_def
  restore_policy_endpoint_def attach_to_group_endpoint_def detach_from_group_endpoint_def

text \<open>
  Every endpoint keeps the invariant: the lookups that answer 404 and the rollback of a refused
  request leave the database alone, so only the service's success has to be looked at.
\<close>

lemma respond_wf:
  "policy_wf d \<Longrightarrow> (\<And>x e. r = (Inr x, e) \<Longrightarrow> policy_wf e) \<Longrightarrow> policy_wf (snd (respond st d r))"
  by (rule snd_respond_cases [where P = policy_wf])

lemma policy_lookup_wf:
  "policy_wf d \<Longrightarrow> (\<And>p. row_get p_id k (policies d) = Some p \<Longrightarrow> policy_wf (snd (f p))) \<Longrightarrow>
     policy_wf (snd (case row_get p_id k (policies d) of None \<Rightarrow> not_found w d | Some p \<Rightarrow> f p))"
  by (simp split: option.split)

lemma version_lookup_wf:
  "policy_wf d \<Longrightarrow> (\<And>v. row_get pv_id k (policy_versions d) = Some v \<Longrightarrow> policy_wf (snd (f v))) \<Longrightarrow>
     policy_wf (snd (case row_get pv_id k (policy_versions d) of None \<Rightarrow> not_found w d | Some v \<Rightarrow> f v))"
  by (simp split: option.split)

lemmas lookups_wf = policy_lookup_wf version_lookup_wf respond_wf

lemma endpoints_wf:
  assumes "policy_wf d"
  shows "policy_wf (snd (create_policy_endpoint now name ptype desc d))"
    "policy_wf (snd (update_policy_endpoint now policy_id name desc d))"
    "policy_wf (snd (create_version_endpoint now actor policy_id content rules d))"
    "policy_wf (snd (update_version_endpoint now policy_id version_id content rules d))"
    "policy_wf (snd (publish_endpoint now actor policy_id version_id d))"
    "policy_wf (snd (rollback_endpoint now actor policy_id version_id d))"
    "policy_wf (snd (archive_policy_endpoint now actor policy_id d))"
    "policy_wf (snd (restore_policy_endpoint now actor policy_id d))"
    "policy_wf (snd (attach_to_group_endpoint now policy_id group_id d))"
  unfolding endpoint_defs
  by (intro lookups_wf assms; erule create_policy_wf [OF assms])
     (intro lookups_wf assms; erule rename_policy_wf [OF assms] create_draft_wf [OF assms]
        update_draft_wf [OF assms] archive_wf [OF assms] restore_wf [OF assms] attach_wf [OF assms]
        publish_wf [OF assms loaded_policy loaded_version]
        rollback_wf [OF assms loaded_policy loaded_version], assumption?, assumption?)+

lemma detachments_wf:
  assumes "policy_wf d"
  shows "policy_wf (snd (detach_from_group_endpoint policy_id group_id d))"
    "policy_wf (delete_group now g actor d)"
    "policy_wf (remove_member now group_id user_id actor d)"
proof -
  have "policy_wf (detach_policy_from_group group_id policy_id d)"
    by (rule policy_wf_cong [OF _ _ _ _ assms]) (auto simp: detach_policy_from_group_def set_rows_delete)
  then show "policy_wf (snd (detach_from_group_endpoint policy_id group_id d))"
    using assms by (simp add: detach_from_group_endpoint_def split: option.split)
  show "policy_wf (delete_group now g actor d)"
    by (rule policy_wf_cong [OF _ _ _ _ assms]) (auto simp: delete_group_def set_rows_delete)
  show "policy_wf (remove_member now group_id user_id actor d)"
    by (rule policy_wf_cong [OF _ _ _ _ assms]) (auto simp: remove_member_def)
qed

lemma group_created_wf:
  assumes "policy_wf d" and "create_group now gname gdesc actor d = (Inr g, e)"
  shows "policy_wf e"
proof -
  have "policies e = policies d \<and> policy_versions e = policy_versions d
     \<and> group_policies e = group_policies d \<and> next_id d \<le> next_id e"
    using assms(2) by (auto simp: create_group_def fresh_def Let_def split: if_splits)
  then show ?thesis by (intro policy_wf_cong [OF _ _ _ _ assms(1)]) auto
qed

lemma policy_step_wf: "policy_step d e \<Longrightarrow> policy_wf d \<Longrightarrow> policy_wf e"
proof (induction rule: policy_step.induct)
  case (member_added now group_id user_id actor d e)
  with add_member_frame [OF member_added.hyps] show ?case
    by (intro policy_wf_cong [OF _ _ _ _ member_added.prems]) auto
qed (rule endpoints_wf detachments_wf group_created_wf; assumption)+

text \<open>
  C24. Any sequence of administrative requests keeps the policy store consistent: unique ids,
  names and version numbers, a current version that is PUBLISHED and belongs to its policy, no
  other PUBLISHED version, and no archived policy attached to a group.
\<close>

theorem policy_wf_preserved:
  "policy_step\<^sup>*\<^sup>* d e \<Longrightarrow> policy_wf d \<Longrightarrow> policy_wf e"
  by (induction rule: rtranclp_induct) (auto intro: policy_step_wf)

section \<open>Published versions are immutable\<close>

definition version_rules :: "uuid \<Rightarrow> database \<Rightarrow> file_policy_rule list" where
  "version_rules k d = filter (\<lambda>r. fr_policy_version_id r = k) (file_rules d)"

definition frozen_extends :: "database \<Rightarrow> database \<Rightarrow> bool" where
  "frozen_extends d e \<longleftrightarrow>
     (\<forall>v \<in> set (policy_versions d). pv_status v \<noteq> PV_DRAFT \<longrightarrow>
        (\<exists>w \<in> set (policy_versions e). pv_id w = pv_id v \<and> pv_policy_id w = pv_policy_id v
           \<and> pv_version_number w = pv_version_number v \<and> pv_content w = pv_content v
           \<and> pv_status w \<noteq> PV_DRAFT)
        \<and> version_rules (pv_id v) e = version_rules (pv_id v) d)"

lemma frozen_refl [simp]: "frozen_extends d d"
  by (auto simp: frozen_extends_def)

lemma frozen_trans:
  assumes "frozen_extends a b" and "frozen_extends b c"
  shows "frozen_extends a c"
  unfolding frozen_extends_def
proof (intro ballI impI)
  fix v
  assume v: "v \<in> set (policy_versions a)" "pv_status v \<noteq> PV_DRAFT"
  then obtain w where w: "w \<in> set (policy_versions b)" "pv_id w = pv_id v" "pv_policy_id w = pv_policy_id v"
    "pv_version_number w = pv_version_number v" "pv_content w = pv_content v" "pv_status w \<noteq> PV_DRAFT"
    and "version_rules (pv_id v) b = version_rules (pv_id v) a"
    using assms(1) by (auto simp: frozen_extends_def)
  moreover obtain x where "x \<in> set (policy_versions c)" "pv_id x = pv_id w" "pv_policy_id x = pv_policy_id w"
    "pv_version_number x = pv_version_number w" "pv_content x = pv_content w" "pv_status x \<noteq> PV_DRAFT"
    and "version_rules (pv_id w) c = version_rules (pv_id w) b"
    using assms(2) w by (auto simp: frozen_extends_def)
  ultimately show "(\<exists>x \<in> set (policy_versions c). pv_id x = pv_id v \<and> pv_policy_id x = pv_policy_id v
      \<and> pv_version_number x = pv_version_number v \<and> pv_content x = pv_content v \<and> pv_status x \<noteq> PV_DRAFT)
      \<and> version_rules (pv_id v) c = version_rules (pv_id v) a"
    by auto
qed

lemma frozen_same:
  "policy_versions e = policy_versions d \<Longrightarrow> file_rules e = file_rules d \<Longrightarrow> frozen_extends d e"
  by (auto simp: frozen_extends_def version_rules_def)

text \<open>Updates of version rows that never turn a version back into a draft.\<close>

lemma frozen_map:
  assumes "policy_versions e = map f (policy_versions d)" and "file_rules e = file_rules d"
    and "\<And>v. v \<in> set (policy_versions d) \<Longrightarrow> pv_status v \<noteq> PV_DRAFT \<Longrightarrow>
       pv_id (f v) = pv_id v \<and> pv_policy_id (f v) = pv_policy_id v
       \<and> pv_version_number (f v) = pv_version_number v \<and> pv_content (f v) = pv_content v
       \<and> pv_status (f v) \<noteq> PV_DRAFT"
  shows "frozen_extends d e"
  unfolding frozen_extends_def assms(1) set_map bex_simps version_rules_def assms(2)
  using assms(3) by (metis (no_types, lifting))

lemma create_draft_frozen:
  assumes "policy_wf d" and "create_draft_version now policy content rules actor d = (Inr v, e)"
  shows "frozen_extends d e"
proof -
  obtain built where e: "e = add_rules now (next_id d) built
       (d\<lparr>next_id := Suc (next_id d), policy_versions := row_insert v (policy_versions d)\<rparr>)"
    using assms(2) by (auto simp: create_draft_version_def fresh_def Let_def split: sum.splits)
  obtain new where "file_rules e = file_rules d @ new" "\<forall>r \<in> set new. fr_policy_version_id r = next_id d"
    unfolding e using add_rules_file_rules [of now "next_id d" built
      "d\<lparr>next_id := Suc (next_id d), policy_versions := row_insert v (policy_versions d)\<rparr>"] by auto
  moreover have "\<forall>w \<in> set (policy_versions d). pv_id w \<noteq> next_id d"
    using policy_wfD(5) [OF assms(1)] by (auto simp: ids_fresh_def)
  moreover have "policy_versions e = policy_versions d @ [v]" by (simp add: e row_insert_def)
  ultimately show ?thesis
    by (fastforce simp: frozen_extends_def version_rules_def)
qed

lemma filter_other_version:
  "\<forall>r \<in> set new. fr_policy_version_id r = k \<Longrightarrow> j \<noteq> k \<Longrightarrow>
     filter (\<lambda>r. fr_policy_version_id r = j) (rows_delete (\<lambda>r. fr_policy_version_id r = k) rs @ new)
     = filter (\<lambda>r. fr_policy_version_id r = j) rs"
  by (induction rs) (auto simp: rows_delete_def)

lemma update_draft_frozen:
  assumes wf: "policy_wf d" and ver: "row_get pv_id (pv_id version) (policy_versions d) = Some version"
    and "update_draft_version now version content rules d = (Inr v, e)"
  shows "frozen_extends d e"
proof -
  let ?k = "pv_id version"
  let ?d1 = "set_version ?k (\<lambda>v. v\<lparr>pv_content := content\<rparr>) d"
  let ?d2 = "?d1\<lparr>file_rules := rows_delete (\<lambda>r. fr_policy_version_id r = ?k) (file_rules d)\<rparr>"
  obtain built where e: "e = add_rules now ?k built ?d2" and draft: "pv_status version = PV_DRAFT"
    using assms(3) by (auto simp: update_draft_version_def Let_def split: if_splits sum.splits)
  obtain new where fr: "file_rules e = rows_delete (\<lambda>r. fr_policy_version_id r = ?k) (file_rules d) @ new"
    and new: "\<forall>r \<in> set new. fr_policy_version_id r = ?k"
    unfolding e using add_rules_file_rules [of now ?k built ?d2] by auto
  have other: "pv_id w \<noteq> ?k" if "w \<in> set (policy_versions d)" "pv_status w \<noteq> PV_DRAFT" for w
    using that ver draft row_get_Some [OF policy_wfD(2) [OF wf]] by (metis option.inject)
  have vs: "policy_versions e = row_update pv_id ?k (\<lambda>v. v\<lparr>pv_content := content\<rparr>) (policy_versions d)"
    by (simp add: e)
  show ?thesis
    unfolding frozen_extends_def vs set_row_update version_rules_def fr
    using other filter_other_version [OF new] by (auto simp: bex_Un)
qed

lemma activate_frozen:
  assumes "\<And>v. pv_id (f v) = pv_id v" "\<And>v. pv_policy_id (f v) = pv_policy_id v"
    "\<And>v. pv_version_number (f v) = pv_version_number v" "\<And>v. pv_content (f v) = pv_content v"
    "\<And>v. pv_status (f v) = PV_PUBLISHED"
  shows "frozen_extends d (record_security_event now t u s q m
     (set_policy now k h (set_version j f (supersede_current policy d))))"
  by (rule frozen_map [where f = "\<lambda>v.
        let v' = (if p_current_version_id policy = Some (pv_id v) then v\<lparr>pv_status := PV_SUPERSEDED\<rparr> else v)
        in if pv_id v' = j then f v' else v'"])
     (auto simp: supersede_current_def row_update_def assms Let_def split: option.split)

text \<open>The other operations do not touch versions or rules at all.\<close>

lemma create_policy_frozen: "create_policy now name ptype desc d = (r, e) \<Longrightarrow> frozen_extends d e"
  by (rule frozen_same) (auto simp: create_policy_def fresh_def Let_def split: if_splits option.splits)

lemma rename_policy_frozen: "rename_policy now policy name desc d = (r, e) \<Longrightarrow> frozen_extends d e"
  by (rule frozen_same) (auto simp: rename_policy_def Let_def split: if_splits)

lemma archive_frozen: "archive_policy now policy actor d = (r, e) \<Longrightarrow> frozen_extends d e"
  by (rule frozen_same) (auto simp: archive_policy_def split: if_splits)

lemma restore_frozen: "restore_policy now policy actor d = (r, e) \<Longrightarrow> frozen_extends d e"
  by (rule frozen_same) (auto simp: restore_policy_def split: if_splits)

lemma attach_frozen: "attach_policy_to_group now g k d = (r, e) \<Longrightarrow> frozen_extends d e"
  by (rule frozen_same) (auto simp: attach_policy_to_group_def fresh_def Let_def split: if_splits)

text \<open>Every step keeps the content and the rules of every version that is not a draft.\<close>

lemma policy_step_frozen: "policy_step d e \<Longrightarrow> policy_wf d \<Longrightarrow> frozen_extends d e"
proof (induction rule: policy_step.induct)
  case (member_added now group_id user_id actor d e)
  with add_member_frame [OF member_added.hyps] show ?case by (auto intro: frozen_same)
next
  case (group_created now gname gdesc actor d g e)
  then show ?case
    by (auto simp: create_group_def fresh_def Let_def split: if_splits intro!: frozen_same)
next
  case (draft d now actor policy_id content rules)
  then show ?case unfolding create_version_endpoint_def
    by (auto split: option.split intro!: snd_respond_cases [where P = "frozen_extends d"] dest: create_draft_frozen)
next
  case (edit d now policy_id version_id content rules)
  then show ?case unfolding update_version_endpoint_def
    by (auto split: option.split intro!: snd_respond_cases [where P = "frozen_extends d"]
        dest: update_draft_frozen [OF _ loaded_version])
next
  case (publish d now actor policy_id version_id)
  then show ?case unfolding publish_endpoint_def
    by (auto split: option.split if_splits intro!: snd_respond_cases [where P = "frozen_extends d"] activate_frozen
        simp: publish_version_def Let_def)
next
  case (roll d now actor policy_id version_id)
  then show ?case unfolding rollback_endpoint_def
    by (auto split: option.split if_splits intro!: snd_respond_cases [where P = "frozen_extends d"] activate_frozen
        simp: rollback_def Let_def)
next
  case (create d now name ptype desc)
  then show ?case unfolding create_policy_endpoint_def
    by (auto intro!: snd_respond_cases [where P = "frozen_extends d"] dest: create_policy_frozen)
next
  case (rename d now policy_id name desc)
  then show ?case unfolding update_policy_endpoint_def
    by (auto split: option.split intro!: snd_respond_cases [where P = "frozen_extends d"] dest: rename_policy_frozen)
next
  case (archive d now actor policy_id)
  then show ?case unfolding archive_policy_endpoint_def
    by (auto split: option.split intro!: snd_respond_cases [where P = "frozen_extends d"] dest: archive_frozen)
next
  case (restore d now actor policy_id)
  then show ?case unfolding restore_policy_endpoint_def
    by (auto split: option.split intro!: snd_respond_cases [where P = "frozen_extends d"] dest: restore_frozen)
next
  case (attach d now policy_id group_id)
  then show ?case unfolding attach_to_group_endpoint_def
    by (auto split: option.split intro!: snd_respond_cases [where P = "frozen_extends d"] dest: attach_frozen)
qed (auto simp: detach_from_group_endpoint_def detach_policy_from_group_def delete_group_def remove_member_def
      split: option.split intro!: frozen_same)

text \<open>
  C23. A version that was ever published is immutable: whatever administrative requests follow,
  it still exists with the same policy, number, content and file rules, and is never a draft
  again.
\<close>

theorem published_versions_immutable:
  assumes "policy_step\<^sup>*\<^sup>* d e" and "policy_wf d"
  shows "frozen_extends d e"
  using assms
proof (induction rule: rtranclp_induct)
  case (step b c)
  then have "policy_wf b" by (auto intro: policy_wf_preserved)
  with step show ?case by (auto intro: frozen_trans policy_step_frozen)
qed simp

section \<open>Archived policies decide nothing\<close>

text \<open>
  In a consistent store an archived policy never takes part in a file decision: every rule
  the engine considers belongs to the current version of a policy that is not archived.
\<close>

theorem archived_policy_never_governs:
  assumes "policy_wf d" and "(r, k) \<in> set (published_file_rules_for_user d user_id)"
  shows "\<exists>p \<in> set (policies d). p_archived_at p = None \<and> p_current_version_id p = Some k
     \<and> fr_policy_version_id r = k"
  using assms(2) policy_wfD(8) [OF assms(1)]
  unfolding set_published_file_rules archived_detached_def by fastforce

end
