(* ===== verification/Sample_Deployment.thy ===== *)
theory Sample_Deployment
  imports Session_Guarantees Display Policy_Invariant
begin

text \<open>
  A small deployment on which the theorems are tried: one approved node, one user in one group, one
  published policy of every type, one session, and a node agent that answers every call. The states
  are parameterised by what the examples vary (the status of the session, the trust of the node).
\<close>

section \<open>Configuration and agent\<close>

definition sample_settings :: settings where
  "sample_settings = default_settings
     \<lparr>session_agent_base_url := ''http://agent:9000'', session_agent_api_token := ''token'',
      totp_secret_encryption_key := ''totp-key'', csrf_secret_key := ''csrf-key'', max_sessions_per_user := 2,
      session_disconnected_timeout := 100, session_stuck_transition_timeout := 100\<rparr>"

definition sample_report :: node_report where
  "sample_report =
     \<lparr> ns_hostname = ''node-1'', ns_status = ''ONLINE'', ns_capacity = 4, ns_capacity_bound = ''ram'',
       ns_ram_capacity = 4, ns_cpu_capacity = 8, ns_active_sessions = 1, ns_runtime = ''docker'',
       ns_version = ''1.0'', ns_sandbox_image_available = True, ns_cpu_percent = 10,
       ns_ram_total_mb = 16384, ns_ram_used_mb = 4096, ns_node_started_at = 0 \<rparr>"

definition sample_backend :: "'w backend" where
  "sample_backend =
     \<lparr> cfg = sample_settings, encrypt_secret = (\<lambda>_. [1, 2, 3]), decrypt_secret = (\<lambda>_. ''node-token''),
       http_node_self = (\<lambda>_ w. (Response 200 [] sample_report, w)),
       http_display_ready = (\<lambda>_ _ w. (Response 200 [] (), w)),
       http_sandboxes = (\<lambda>_ _ w. (Response 200 [] [Reported 1], w)),
       http_create = (\<lambda>_ _ _ w. (Response 200 [] (), w)), http_start = (\<lambda>_ _ w. (Response 200 [] (), w)),
       http_isolate = (\<lambda>_ _ w. (Response 200 [] (), w)), http_restore = (\<lambda>_ _ w. (Response 200 [] (), w)),
       http_terminate = (\<lambda>_ _ w. (Response 204 [] (), w)),
       http_list_downloads = (\<lambda>_ _ w. (Response 200 [] [], w)),
       http_fetch_download = (\<lambda>_ _ _ w. (Response 404 ''no such file'' ([], None), w)),
       http_delete_download = (\<lambda>_ _ _ w. (Response 204 [] (), w)),
       http_write_upload = (\<lambda>_ _ _ _ w. (Response 201 [] (), w)) \<rparr>"

text \<open>The same agent with an empty inventory: it runs no sandbox.\<close>

definition idle_backend :: "'w backend" where
  "idle_backend = sample_backend\<lparr>http_sandboxes := (\<lambda>_ _ w. (Response 200 [] [], w))\<rparr>"

section \<open>Rows\<close>

definition sample_node :: "node_enrollment_status \<Rightarrow> browser_node" where
  "sample_node trust = (new_node 3 0 ''node-1'')
     \<lparr>n_status := (if trust = NE_APPROVED then NS_ONLINE else NS_OFFLINE), n_enrollment_status := trust,
      n_endpoint_url := Some ''http://node-1:9000'',
      n_agent_token_encrypted := (if trust = NE_REVOKED then None else Some [1, 2, 3])\<rparr>"

definition sample_session :: "session_status \<Rightarrow> browser_session" where
  "sample_session st = (new_session 1 0 7 (Some 3) \<lparr> width = 1280, height = 800 \<rparr> CM_NONE)
     \<lparr>s_status := st, s_started_at := Some 0, s_last_activity_at := Some 0\<rparr>"

definition sample_policy :: "uuid \<Rightarrow> policy_type \<Rightarrow> uuid \<Rightarrow> policy" where
  "sample_policy i t v =
     \<lparr> p_id = i, p_created_at = 0, p_updated_at = 0, p_name = (if i = 11 then ''downloads'' else ''clipboard''), p_policy_type = t,
       p_description = None, p_current_version_id = Some v, p_archived_at = None \<rparr>"

definition sample_version :: "uuid \<Rightarrow> uuid \<Rightarrow> json \<Rightarrow> policy_version" where
  "sample_version v i c =
     \<lparr> pv_id = v, pv_created_at = 0, pv_policy_id = i, pv_version_number = 1, pv_status = PV_PUBLISHED,
       pv_content = c, pv_created_by = None, pv_published_at = Some 0 \<rparr>"

definition sample_rule :: "uuid \<Rightarrow> string \<Rightarrow> file_action \<Rightarrow> file_policy_rule" where
  "sample_rule i pat act =
     \<lparr> fr_id = i, fr_created_at = 0, fr_policy_version_id = 21, fr_rule_type = FR_MIME,
       fr_match_pattern = pat, fr_action = act, fr_priority = 100 \<rparr>"

definition sample_db :: "node_enrollment_status \<Rightarrow> session_status \<Rightarrow> database" where
  "sample_db trust st = empty_db
     \<lparr>groups := [\<lparr> g_id = 5, g_created_at = 0, g_name = ''staff'', g_description = None \<rparr>],
      user_groups := [\<lparr> ug_id = 6, ug_created_at = 0, ug_user_id = 7, ug_group_id = 5 \<rparr>],
      policies := [sample_policy 11 PT_DOWNLOADS 21, sample_policy 12 PT_CLIPBOARD 22],
      policy_versions := [sample_version 21 11 (JObj []),
        sample_version 22 12 (JObj [(''clipboard_mode'', JStr ''NONE'')])],
      group_policies := [\<lparr> gp_id = 31, gp_created_at = 0, gp_group_id = 5, gp_policy_id = 11 \<rparr>,
        \<lparr> gp_id = 32, gp_created_at = 0, gp_group_id = 5, gp_policy_id = 12 \<rparr>],
      file_rules := [sample_rule 41 ''application/pdf'' FA_AUTO_RELEASE, sample_rule 42 ''.exe'' FA_DENY],
      nodes := [sample_node trust], sessions := [sample_session st], next_id := 100\<rparr>"

definition sample_sys :: "node_enrollment_status \<Rightarrow> session_status \<Rightarrow> unit sys" where
  "sample_sys trust st =
     \<lparr> db = sample_db trust st, world = (), polling = [1], active_connections = [(1, 50)] \<rparr>"

definition sample_download :: file_decision_input where
  "sample_download =
     \<lparr> declared_mime = Some ''application/pdf'', detected_mime = Some ''application/pdf'',
       extension = Some ''pdf'', size_bytes = 10, source_hostname = None \<rparr>"

lemmas sample_defs = sample_settings_def default_settings_def sample_report_def sample_backend_def idle_backend_def
  sample_node_def sample_session_def sample_policy_def sample_version_def sample_rule_def
  sample_db_def sample_sys_def sample_download_def empty_db_def new_node_def new_session_def

lemma sample_sessions [simp]: "sessions (sample_db t st) = [sample_session st]"
  by (simp add: sample_db_def)

lemma sample_db_of_sys [simp]: "db (sample_sys t st) = sample_db t st"
  by (simp add: sample_sys_def)

lemma sample_sessions_wf [simp]: "sessions_wf (sample_db t st)"
  by (simp add: sessions_wf_def sample_defs distinct_keys_def)

lemma sample_session_row [simp]: "row_get s_id (Suc 0) [sample_session st] = Some (sample_session st)"
  by (simp add: sample_defs row_get_def)

lemma sample_nodes [simp]: "nodes (sample_db t st) = [sample_node t]"
  by (simp add: sample_db_def)

lemma sample_session_fields [simp]:
  "s_id (sample_session st) = 1" "s_status (sample_session st) = st" "s_user_id (sample_session st) = 7"
  "s_node_id (sample_session st) = Some 3"
  by (simp_all add: sample_session_def new_session_def)

lemma sample_node_fields [simp]:
  "n_id (sample_node t) = 3" "n_enrollment_status (sample_node t) = t" "n_hostname (sample_node t) = ''node-1''"
  by (simp_all add: sample_node_def new_node_def)

section \<open>Starting a session on it\<close>

text \<open>The node as it is after its agent has reported.\<close>

definition sample_fresh_node :: browser_node where
  "sample_fresh_node = (sample_node NE_APPROVED)
     \<lparr>n_capacity := 4, n_capacity_bound := Some ''ram'', n_ram_capacity := Some 4, n_cpu_capacity := Some 8,
      n_active_sessions := 1, n_runtime := ''docker'', n_version := Some ''1.0'', n_cpu_percent := Some 10,
      n_ram_total_mb := Some 16384, n_ram_used_mb := Some 4096, n_node_started_at := Some 0,
      n_last_heartbeat := Some 9\<rparr>"

lemma online: "browser_node_status_of_value ''ONLINE'' = Some NS_ONLINE" by code_simp

lemma sample_select:
  "select_node sample_backend 9 (sample_sys NE_APPROVED st) =
     (Inr sample_fresh_node, on_db (\<lambda>d. d\<lparr>nodes := [sample_fresh_node]\<rparr>) (sample_sys NE_APPROVED st))"
  by (simp add: select_node_def refresh_enrolled_node_def agent_def get_node_status_def request_def
    connection_for_node_def truthy_def apply_node_status_def online pick_node_def node_rows_def sample_defs
    set_node_def on_db_def row_get_def row_update_def Let_def sample_fresh_node_def)

lemma sample_bring_up:
  "token c \<noteq> [] \<Longrightarrow> bring_up sample_backend x c w = (Inr (), w)"
  by (simp add: bring_up_def create_sandbox_def start_sandbox_def request_def sample_backend_def
    check_display_ready_def numeral_eq_Suc)

lemma sample_token: "token (connection_for_node sample_backend (Some sample_fresh_node)) \<noteq> []"
  by (simp add: connection_for_node_def sample_fresh_node_def sample_node_def new_node_def truthy_def sample_backend_def)

lemma sample_start_succeeds: "\<not> isl (fst (start_session_route sample_backend 9 7 (sample_sys NE_APPROVED SS_ACTIVE)))"
proof -
  have "count_active_sessions_for_user 7 (sample_db NE_APPROVED SS_ACTIVE) = 1"
    by (simp add: count_active_sessions_for_user_def sample_db_def)
  moreover have "max_sessions_per_user (cfg (sample_backend :: unit backend)) = 2" by (simp add: sample_backend_def sample_settings_def)
  ultimately show ?thesis
   by (simp add: start_session_route_def create_session_def sys_respond_def sample_select Let_def agent_def
     sample_bring_up sample_token start_succeeded_def)
qed

text \<open>Every agent call about a session of the deployment succeeds.\<close>

lemma sample_session_token [simp]:
  "nodes d = [sample_node NE_APPROVED] \<Longrightarrow> s_node_id x = Some 3
   \<Longrightarrow> token (session_connection sample_backend x d) \<noteq> []"
  by (simp add: session_connection_def connection_for_node_def get_node_def row_get_def sample_defs truthy_def)

lemma sample_terminate:
  "token c \<noteq> [] \<Longrightarrow> terminate_sandbox sample_backend i c w = (Inr (), w)"
  by (simp add: terminate_sandbox_def request_def sample_backend_def)

lemma pair_Inr: "\<not> isl (fst r) \<Longrightarrow> \<exists>x s. r = (Inr x, s)"
  by (cases r) (auto simp: isl_def split: sum.splits, metis sum.exhaust)

end
