(* ===== verification/Concrete_Runs.thy ===== *)
theory Concrete_Runs
  imports Sample_Deployment
begin

text \<open>
  The theorems applied to the sample deployment: each lemma here instantiates one theorem at a
  concrete state where its hypotheses hold, with the model evaluated on that state.
\<close>

section \<open>Policies\<close>

lemma auto_release_witness:
  "matching_actions (\<lambda>_. True) (sample_db NE_APPROVED SS_ACTIVE) 7 sample_download = {FA_AUTO_RELEASE}"
proof -
  have "case evaluate_file_action (\<lambda>_. True) (sample_db NE_APPROVED SS_ACTIVE) 7 sample_download of
      None \<Rightarrow> False | Some r \<Rightarrow> action r = FA_AUTO_RELEASE"
    by code_simp
  then show ?thesis
    by (cases "evaluate_file_action (\<lambda>_. True) (sample_db NE_APPROVED SS_ACTIVE) 7 sample_download")
      (simp_all add: auto_release_needs_detected_match)
qed

lemma row_order_witness:
  "map_option action (evaluate_file_action (\<lambda>_. True)
      ((sample_db NE_APPROVED SS_ACTIVE)\<lparr>file_rules := [sample_rule 42 ''.exe'' FA_DENY,
         sample_rule 41 ''application/pdf'' FA_AUTO_RELEASE]\<rparr>) 7 sample_download)
   = map_option action (evaluate_file_action (\<lambda>_. True) (sample_db NE_APPROVED SS_ACTIVE) 7 sample_download)"
  by (rule decision_independent_of_row_order) (auto simp: sample_db_def)

lemma sample_policy_wf: "policy_wf (sample_db t st)"
  by (simp add: policy_wf_def policy_parts sample_defs distinct_keys_def)

lemma archive_step:
  "policy_step\<^sup>*\<^sup>* (sample_db t st) (snd (archive_policy_endpoint 9 1 11 (snd (detach_from_group_endpoint 11 5 (sample_db t st)))))"
  by (rule rtranclp.rtrancl_into_rtrancl [OF r_into_rtranclp]) (rule policy_step.intros)+

lemma policy_wf_witness:
  "policy_wf (snd (archive_policy_endpoint 9 1 11 (snd (detach_from_group_endpoint 11 5 (sample_db NE_APPROVED SS_ACTIVE)))))"
  by (rule policy_wf_preserved [OF archive_step sample_policy_wf])

lemma published_versions_witness:
  "frozen_extends (sample_db NE_APPROVED SS_ACTIVE)
     (snd (archive_policy_endpoint 9 1 11 (snd (detach_from_group_endpoint 11 5 (sample_db NE_APPROVED SS_ACTIVE)))))"
  by (rule published_versions_immutable [OF archive_step sample_policy_wf])

lemma archived_policy_witness:
  "\<exists>p \<in> set (policies (sample_db NE_APPROVED SS_ACTIVE)). p_archived_at p = None
     \<and> p_current_version_id p = Some 21 \<and> fr_policy_version_id (sample_rule 41 ''application/pdf'' FA_AUTO_RELEASE) = 21"
  by (rule archived_policy_never_governs [OF sample_policy_wf, where user_id = 7])
    (simp add: published_file_rules_for_user_def sample_defs)

section \<open>The display relay\<close>

definition typed_key :: client_message where
  "typed_key = KeyEvent [1, 0, 0, 0, 0, 0, 97]"

definition pasted_text :: client_message where
  "pasted_text = ClientCutText [0, 0, 0] 2 [104, 105]"

lemma browser_to_sandbox_witness:
  "\<exists>ms. list_all (\<lambda>m. client_message_ok m \<and> \<not> is_client_cut_text m) ms
     \<and> rl_to_agent (relay_run CM_NONE [From_browser (encode_client typed_key @ encode_client pasted_text)])
       = concat (map encode_client ms)"
  by (rule no_clipboard_into_sandbox) simp



section \<open>Opening a display\<close>

lemma display_open_witness:
  "origin_ok (Some ''https://rbi'') (Some ''rbi'') \<and> s_clipboard_mode (sample_session SS_ACTIVE) = CM_NONE"
proof -
  have "case display_open sample_backend 5 (\<lambda>_ w. (True, w)) 51 (Some ''https://rbi'') (Some ''rbi'') 7 1
      (sample_sys NE_APPROVED SS_ACTIVE) of (Inr mode, _) \<Rightarrow> mode = CM_NONE | _ \<Rightarrow> False"
    by code_simp
  then obtain s' where "display_open sample_backend 5 (\<lambda>_ w. (True, w)) 51 (Some ''https://rbi'') (Some ''rbi'') 7 1
      (sample_sys NE_APPROVED SS_ACTIVE) = (Inr CM_NONE, s')"
    by (auto split: prod.splits sum.splits)
  from display_opens_for_owner_only [OF this] show ?thesis by auto
qed

section \<open>Nodes\<close>

lemma revoked_token_witness:
  "revoked_have_no_token (snd (revoke_node_endpoint 9 1 3 (sample_db NE_APPROVED SS_ACTIVE)))"
proof (rule revoked_nodes_hold_no_token)
  show "revoked_have_no_token (sample_db NE_APPROVED SS_ACTIVE)"
    by (simp add: revoked_have_no_token_def)
  show "trust_step sample_backend (sample_db NE_APPROVED SS_ACTIVE)
      (snd (revoke_node_endpoint 9 1 3 (sample_db NE_APPROVED SS_ACTIVE)))"
    by (rule trust_step.revoke)
qed

lemma trust_witness:
  "\<exists>e. events (snd (approve_node_endpoint 9 1 ''http://node-1'' 3 (sample_db NE_PENDING SS_ACTIVE)))
     = events (sample_db NE_PENDING SS_ACTIVE) @ [e] \<and> node_approved_event 3 e"
proof -
  let ?d = "sample_db NE_PENDING SS_ACTIVE"
  let ?n = "(sample_node NE_PENDING)\<lparr>n_enrollment_status := NE_APPROVED, n_endpoint_url := Some ''http://node-1''\<rparr>"
  have r: "row_get n_id 3 (nodes ?d) = Some (sample_node NE_PENDING)" by (simp add: row_get_def)
  then have "row_get n_id 3 (nodes (snd (approve_node_endpoint 9 1 ''http://node-1'' 3 ?d))) = Some ?n"
    by (simp add: approve_node_endpoint_def with_node_def approve_node_def respond_def set_node_def tbl)
  from trust_granted_by_approval_only [OF trust_step.approve [where B = sample_backend] _ r this] show ?thesis
    by (simp add: distinct_keys_def)
qed

lemma revoked_call_witness:
  "terminate_sandbox sample_backend 1 (connection_for_node (sample_backend :: unit backend) (Some (sample_node NE_REVOKED))) ()
   = (Inl (no_credential (connection_for_node (sample_backend :: unit backend) (Some (sample_node NE_REVOKED)))), ())"
  using revoked_node_calls_go_nowhere [of "sample_node NE_REVOKED" sample_backend 1 "()" "''f''" "[]"]
  by (simp add: sample_node_def truthy_def)

section \<open>Sessions\<close>

lemma state_machine_witness:
  "session_edge SS_ACTIVE (s_status (the (row_get s_id 1 (sessions (db
     (snd (admin_isolate sample_backend 9 2 1 (sample_sys NE_APPROVED SS_ACTIVE))))))))"
  using sessions_follow_the_state_machine
    [OF session_step.isolate [where s = "sample_sys NE_APPROVED SS_ACTIVE" and i = 1 and B = sample_backend
       and now = 9 and actor = 2], of 1 "sample_session SS_ACTIVE"]
  by auto

lemma ended_session_witness:
  "s_status (the (row_get s_id 1 (sessions (db
     (snd (admin_kill sample_backend 9 2 1 (sample_sys NE_APPROVED SS_FAILED))))))) \<in> {SS_TERMINATED, SS_FAILED}"
proof -
  have "session_run sample_backend (sample_sys NE_APPROVED SS_FAILED)
      (snd (admin_kill sample_backend 9 2 1 (sample_sys NE_APPROVED SS_FAILED)))"
    by (rule session_run.run_step [OF session_run.run_refl session_step.kill])
  from ended_sessions_never_come_back [OF this, of 1 "sample_session SS_FAILED"] show ?thesis
    by auto
qed

lemma start_outcomes_witness:
  "\<exists>x. sessions (db (snd (start_session_route sample_backend 9 7 (sample_sys NE_APPROVED SS_ACTIVE))))
     = [sample_session SS_ACTIVE, x] \<and> s_status x = SS_ACTIVE \<and> s_user_id x = 7"
proof -
  obtain i s where r: "start_session_route sample_backend 9 7 (sample_sys NE_APPROVED SS_ACTIVE) = (Inr i, s)"
    using pair_Inr [OF sample_start_succeeds] by blast
  have "sessions_wf (db (sample_sys NE_APPROVED SS_ACTIVE))" by simp
  from start_session_outcomes [where B = sample_backend and now = 9 and user = 7, OF this] show ?thesis
    unfolding r by auto
qed

lemma scheduled_witness:
  "case select_node sample_backend 9 (sample_sys NE_APPROVED SS_ACTIVE) of
     (Inr node, s) \<Rightarrow> node \<in> set (nodes (db s)) \<and> n_active_sessions node < n_capacity node
   | (Inl e, _) \<Rightarrow> False"
proof -
  obtain node s where n: "select_node sample_backend 9 (sample_sys NE_APPROVED SS_ACTIVE) = (Inr node, s)"
    using sample_select by blast
  have "distinct_keys n_id (nodes (db (sample_sys NE_APPROVED SS_ACTIVE)))"
    and "\<exists>n. n \<in> set (nodes (db (sample_sys NE_APPROVED SS_ACTIVE))) \<and> n_enrollment_status n = NE_APPROVED"
    by (simp_all add: distinct_keys_def)
  from scheduled_on_least_loaded_approved_node [OF n this] show ?thesis using n by auto
qed

lemma quota_witness:
  "count_active_sessions_for_user 7 (db (snd (start_session_route sample_backend 9 7 (sample_sys NE_APPROVED SS_ACTIVE)))) \<le> 2"
proof -
  have "count_active_sessions_for_user 7 (sample_db NE_APPROVED SS_ACTIVE) \<le> 2"
    and "max_sessions_per_user (cfg (sample_backend :: unit backend)) = 2"
    by (simp_all add: count_active_sessions_for_user_def sample_backend_def sample_settings_def)
  then show ?thesis
    using start_respects_quota [of "sample_sys NE_APPROVED SS_ACTIVE" sample_backend 9 7, OF _ prod.collapse [symmetric], of 7]
    by auto
qed

lemma terminate_witness:
  "\<exists>y. row_get s_id 1 (sessions (db (snd (terminate_session sample_backend 9 (sample_session SS_ACTIVE) 7
       (sample_sys NE_APPROVED SS_ACTIVE))))) = Some y \<and> s_status y = SS_TERMINATED"
proof -
  have "\<not> isl (fst (terminate_session sample_backend 9 (sample_session SS_ACTIVE) 7 (sample_sys NE_APPROVED SS_ACTIVE)))"
    by code_simp
  then obtain u s where r: "terminate_session sample_backend 9 (sample_session SS_ACTIVE) 7
      (sample_sys NE_APPROVED SS_ACTIVE) = (Inr u, s)"
    using pair_Inr by blast
  from terminate_outcomes [OF this] show ?thesis unfolding r by auto
qed

lemma isolation_witness:
  "\<exists>k. incidents (db (snd (isolate_session sample_backend 9 (sample_session SS_ACTIVE) 2
      (sample_sys NE_APPROVED SS_ACTIVE)))) = incidents (sample_db NE_APPROVED SS_ACTIVE) @ [k] \<and> i_session_id k = Some 1"
proof -
  have "\<not> isl (fst (isolate_session sample_backend 9 (sample_session SS_ACTIVE) 2 (sample_sys NE_APPROVED SS_ACTIVE)))"
    by code_simp
  then obtain u s where r: "isolate_session sample_backend 9 (sample_session SS_ACTIVE) 2
      (sample_sys NE_APPROVED SS_ACTIVE) = (Inr u, s)"
    using pair_Inr by blast
  from isolation_always_leaves_an_incident [OF this] show ?thesis unfolding r by auto
qed

lemma kept_witness:
  "row_get s_id 1 (sessions (db (snd (reap_one sample_backend 500 400 (1, SS_DISCONNECTED)
     (sample_sys NE_APPROVED SS_ISOLATED))))) = Some (sample_session SS_ISOLATED)"
  using isolated_sessions_are_kept [where s = "sample_sys NE_APPROVED SS_ISOLATED" and k = 1
      and a = "sample_session SS_ISOLATED" and st = SS_STARTING and B = sample_backend and now = 500
      and cutoff = 400 and seen = SS_DISCONNECTED]
  by (simp add: stuck_reason_def)

lemma foreign_witness:
  "terminate_own_route sample_backend 9 1 8 (sample_sys NE_APPROVED SS_ACTIVE)
   = terminate_own_route sample_backend 9 2 8 (sample_sys NE_APPROVED SS_ACTIVE)"
proof -
  have "row_get s_id 2 (sessions (db (sample_sys NE_APPROVED SS_ACTIVE))) = None"
    by (simp add: row_get_def)
  then show ?thesis
    using foreign_session_is_not_found [of 1 "sample_sys NE_APPROVED SS_ACTIVE" "sample_session SS_ACTIVE" 8 2
      sample_backend 9] by simp
qed

lemma reaper_witness: "unattended 400 (sample_session SS_DISCONNECTED)"
proof -
  let ?b = "snd (reap_one sample_backend 500 400 (1, SS_DISCONNECTED) (sample_sys NE_APPROVED SS_DISCONNECTED))"
  have u: "claim_unattended 400 (Suc 0) SS_DISCONNECTED (sample_session SS_DISCONNECTED)"
    by code_simp
  have "\<exists>b. row_get s_id 1 (sessions (db ?b)) = Some b \<and> s_status b = SS_TERMINATED"
    by (simp add: reap_one_def reap_claim_def u on_db_def row_get_def terminate_session_def agent_def Let_def
      sample_terminate set_session_status_def set_session_def row_update_def stop_polling_def timed_out_event_def)
  then obtain b where b: "row_get s_id 1 (sessions (db ?b)) = Some b" "s_status b = SS_TERMINATED"
    by blast
  have "b \<noteq> sample_session SS_DISCONNECTED" using b(2) by auto
  with reaper_ends_only_unattended [OF _ _ b(1), of "sample_session SS_DISCONNECTED"] show ?thesis by simp
qed

lemma healthy_node_witness:
  "db (snd (snd (reconcile_node sample_backend 9 (sample_node NE_APPROVED) \<lparr> orphan_seen = Map.empty, lost_seen = Map.empty \<rparr>
     (sample_sys NE_APPROVED SS_ACTIVE)))) = sample_db NE_APPROVED SS_ACTIVE"
proof -
  have "inventory sample_backend (sample_node NE_APPROVED) (sample_sys NE_APPROVED SS_ACTIVE)
      = (Some ([1], [1]), sample_sys NE_APPROVED SS_ACTIVE)"
    by (simp add: inventory_def agent_def list_active_sandboxes_def list_managed_sandboxes_def request_def
      connection_for_node_def truthy_def sample_defs well_formed_ids_def)
  moreover have "list_all (\<lambda>i. \<not> is_orphan (db (sample_sys NE_APPROVED SS_ACTIVE)) i) [1]"
    by (simp add: is_orphan_def NOT_ORPHAN_STATUSES_def)
  moreover have "list_all (\<lambda>x. s_id x \<in> set [1]) (lost_rows (sample_node NE_APPROVED) (db (sample_sys NE_APPROVED SS_ACTIVE)))"
    by (simp add: lost_rows_def)
  ultimately show ?thesis
    using reconciler_leaves_healthy_node_alone [of sample_backend "sample_node NE_APPROVED"
      "sample_sys NE_APPROVED SS_ACTIVE" "[1]" "[1]" "sample_sys NE_APPROVED SS_ACTIVE" 9
      "\<lparr> orphan_seen = Map.empty, lost_seen = Map.empty \<rparr>"] by auto
qed

definition one_strike :: counters where
  "one_strike = \<lparr> orphan_seen = Map.empty, lost_seen = [1 \<mapsto> 1] \<rparr>"

lemma evidence_witness: "s_status (sample_session SS_ACTIVE) \<in> LOST_CANDIDATE_STATUSES"
proof -
  let ?b = "snd (snd (reconcile_node idle_backend 9 (sample_node NE_APPROVED) one_strike (sample_sys NE_APPROVED SS_ACTIVE)))"
  have "case row_get s_id 1 (sessions (db ?b)) of None \<Rightarrow> False | Some b \<Rightarrow> s_status b = SS_FAILED"
    by code_simp
  then obtain b where b: "row_get s_id 1 (sessions (db ?b)) = Some b" "s_status b = SS_FAILED"
    by (auto split: option.splits)
  have "b \<noteq> sample_session SS_ACTIVE" using b(2) by auto
  with reconciler_acts_on_evidence [OF _ _ b(1), of "sample_session SS_ACTIVE"] show ?thesis by simp
qed

lemma bootstrap_witness:
  "\<exists>node s'. select_node sample_backend 9 (sample_sys NE_REVOKED SS_TERMINATED) = (Inr node, s')
     \<and> n_enrollment_status node = NE_REVOKED \<and> n_status node = NS_ONLINE"
proof -
  have "agent (get_node_status sample_backend (default_connection sample_backend)) (sample_sys NE_REVOKED SS_TERMINATED)
      = (Inr sample_report, sample_sys NE_REVOKED SS_TERMINATED)"
    by (simp add: agent_def get_node_status_def request_def default_connection_def resolve_session_agent_token_def sample_defs)
  from bootstrap_reuses_a_revoked_node [OF _ _ _ this, of "sample_node NE_REVOKED" 9] show ?thesis
    by (auto simp: sample_report_def) (auto simp: sample_node_def new_node_def)
qed

end
