(* ===== verification/Incidents.thy ===== *)
theory Incidents
  imports Service
begin

text \<open>
  Incidents: \<open>services/incidents.py\<close> and the state-changing endpoint of \<open>api/admin_incidents.py\<close>.
  Incidents raised by isolating a session or by malware are created where that happens.
\<close>

definition REPEATED_VIOLATION_THRESHOLD :: nat where
  "REPEATED_VIOLATION_THRESHOLD = 3"

definition REPEATED_VIOLATION_WINDOW :: instant where
  "REPEATED_VIOLATION_WINDOW = minutes 15"

definition BLOCKED_EVENT_TYPES :: "security_event_type set" where
  "BLOCKED_EVENT_TYPES = {EV_DOWNLOAD_BLOCKED, EV_UPLOAD_BLOCKED}"

definition OPEN_INCIDENT_STATUSES :: "incident_status set" where
  "OPEN_INCIDENT_STATUSES = {IS_NEW, IS_INVESTIGATING}"

definition recent_blocks :: "instant \<Rightarrow> uuid \<Rightarrow> database \<Rightarrow> nat" where
  "recent_blocks now user d =
     length (filter (\<lambda>e. e_user_id e = Some user \<and> e_event_type e \<in> BLOCKED_EVENT_TYPES
       \<and> e_created_at e \<ge> now - REPEATED_VIOLATION_WINDOW) (events d))"

definition open_violations :: "uuid \<Rightarrow> database \<Rightarrow> incident list" where
  "open_violations user d =
     filter (\<lambda>i. i_user_id i = Some user \<and> i_title i = ''Repeated policy violations''
       \<and> i_status i \<in> OPEN_INCIDENT_STATUSES) (incidents d)"

definition violation_incident :: "uuid \<Rightarrow> instant \<Rightarrow> uuid \<Rightarrow> nat \<Rightarrow> incident" where
  "violation_incident i now user n =
     \<lparr> i_id = i, i_created_at = now, i_updated_at = now, i_severity = IV_HIGH, i_status = IS_NEW,
       i_title = ''Repeated policy violations'',
       i_description = ''User had '' @ show_nat n
         @ '' blocked file transfers (download/upload) in the last 15 minutes.'',
       i_user_id = Some user, i_session_id = None, i_quarantine_file_id = None, i_assigned_to = None,
       i_resolution = None \<rparr>"

definition add_incident :: "(uuid \<Rightarrow> incident) \<Rightarrow> database \<Rightarrow> database" where
  "add_incident mk d =
     d\<lparr>next_id := Suc (next_id d), incidents := row_insert (mk (next_id d)) (incidents d)\<rparr>"

text \<open>\<open>scalar_one_or_none\<close> raises when there are two open incidents.\<close>

definition check_repeated_policy_violations :: "instant \<Rightarrow> uuid \<Rightarrow> database \<Rightarrow> unit outcome" where
  "check_repeated_policy_violations now user d =
     (let n = recent_blocks now user d in
      if n < REPEATED_VIOLATION_THRESHOLD then (Inr (), d)
      else case open_violations user d of
        [] \<Rightarrow> (Inr (), add_incident (\<lambda>i. violation_incident i now user n) d)
      | [_] \<Rightarrow> (Inr (), d)
      | _ \<Rightarrow> (Inl (RuntimeErr ''Multiple rows were found when one or none was required''), d))"

text \<open>
  Only the fields given are set; an UPDATE is sent (and stamps \<open>updated_at\<close>) only if that changed
  the row, and the assignee must exist.
\<close>

definition edited_incident ::
  "incident_status option \<Rightarrow> uuid option \<Rightarrow> string option \<Rightarrow> incident \<Rightarrow> incident" where
  "edited_incident status_value assigned_to res i =
     i\<lparr>i_status := (case status_value of None \<Rightarrow> i_status i | Some v \<Rightarrow> v),
       i_assigned_to := (case assigned_to of None \<Rightarrow> i_assigned_to i | Some u \<Rightarrow> Some u),
       i_resolution := (case res of None \<Rightarrow> i_resolution i | Some r \<Rightarrow> Some r)\<rparr>"

definition update_incident ::
  "instant \<Rightarrow> incident \<Rightarrow> incident_status option \<Rightarrow> uuid option \<Rightarrow> string option \<Rightarrow> database \<Rightarrow> unit outcome" where
  "update_incident now incident status_value assigned_to res d =
     (let new = edited_incident status_value assigned_to res incident in
      if new = incident then (Inr (), d)
      else if i_assigned_to new \<noteq> i_assigned_to incident
        \<and> (case i_assigned_to new of None \<Rightarrow> False | Some u \<Rightarrow> row_get u_id u (users d) = None)
      then (Inl DbIntegrityError, d)
      else (Inr (), d\<lparr>incidents := row_update i_id (i_id incident) (\<lambda>_. new\<lparr>i_updated_at := now\<rparr>) (incidents d)\<rparr>))"

definition update_incident_endpoint ::
  "instant \<Rightarrow> uuid \<Rightarrow> string option \<Rightarrow> uuid option \<Rightarrow> string option \<Rightarrow> database \<Rightarrow> unit response" where
  "update_incident_endpoint now incident_id status_text assigned_to res d =
     (case row_get i_id incident_id (incidents d) of
        None \<Rightarrow> not_found ''incident'' d
      | Some incident \<Rightarrow>
          let go = (\<lambda>v. respond (\<lambda>_. 500) d (update_incident now incident v assigned_to res d)) in
          case status_text of
            None \<Rightarrow> go None
          | Some t \<Rightarrow>
              (case incident_status_of_value t of
                 None \<Rightarrow> (Inl (400, ''unknown status: '' @ t), d)
               | Some v \<Rightarrow> go (Some v)))"

section \<open>Frames\<close>

lemma add_incident_frame [simp]:
  "events (add_incident mk d) = events d" "users (add_incident mk d) = users d"
  "sessions (add_incident mk d) = sessions d" "quarantine_files (add_incident mk d) = quarantine_files d"
  "nodes (add_incident mk d) = nodes d" "next_id (add_incident mk d) = Suc (next_id d)"
  "incidents (add_incident mk d) = incidents d @ [mk (next_id d)]"
  by (simp_all add: add_incident_def row_insert_def)

text \<open>The check opens at most one incident and touches nothing else.\<close>

lemma check_cases:
  assumes "check_repeated_policy_violations now user d = (r, d')"
  obtains (same) "d' = d"
    | (opened) "r = Inr ()" "open_violations user d = []" "REPEATED_VIOLATION_THRESHOLD \<le> recent_blocks now user d"
        "d' = add_incident (\<lambda>i. violation_incident i now user (recent_blocks now user d)) d"
  using assms
  by (auto simp: check_repeated_policy_violations_def Let_def split: if_splits list.splits)

lemma check_files:
  "check_repeated_policy_violations now user d = (r, d') \<Longrightarrow> quarantine_files d' = quarantine_files d"
  by (erule check_cases) simp_all

lemma check_next_id:
  "check_repeated_policy_violations now user d = (r, d') \<Longrightarrow> next_id d \<le> next_id d'"
  by (erule check_cases) simp_all

end
