(* ===== verification/Clamav.thy ===== *)
theory Clamav
  imports Service Bytes
begin

text \<open>
  The virus scanner client, \<open>core/clamav_client.py\<close>: the bytes it sends to clamd, and what it makes
  of the answer. The exchange itself (connecting, sending a command and reading up to a limit, with
  time-outs) is the parameter \<open>clamd\<close> of the functions below. Answers are compared with ASCII texts
  only; a byte outside ASCII is decoded to a stand-in character that is neither ASCII nor a blank.
\<close>

section \<open>Texts and bytes\<close>

definition ascii :: "string \<Rightarrow> bytes" where
  "ascii s = map (\<lambda>c. word_of_nat (code c)) s"

definition decode_text :: "bytes \<Rightarrow> string" where
  "decode_text bs = map (\<lambda>b. if unat b < 128 then char_of (unat b) else char_of (255 :: nat)) bs"

definition rstrip_nul :: "bytes \<Rightarrow> bytes" where
  "rstrip_nul bs = rev (dropWhile (\<lambda>b. b = 0) (rev bs))"

section \<open>The INSTREAM command\<close>

definition CHUNK_SIZE :: nat where
  "CHUNK_SIZE = 8192"

function chunks :: "nat \<Rightarrow> bytes \<Rightarrow> bytes list" where
  "chunks n data = (if data = [] \<or> n = 0 then [] else take n data # chunks n (drop n data))"
  by pat_completeness auto
termination
  by (relation "measure (\<lambda>(n, data). length data)") auto

declare chunks.simps [simp del]

definition frame :: "bytes \<Rightarrow> bytes" where
  "frame chunk = to_bytes_big 4 (int (length chunk)) @ chunk"

definition instream :: "bytes \<Rightarrow> bytes" where
  "instream data =
     ascii ''zINSTREAM'' @ [0] @ concat (map frame (chunks CHUNK_SIZE data)) @ to_bytes_big 4 0"

section \<open>Commands\<close>

datatype clamd_reply =
    Cannot_connect string
  | Exchange_failed string
  | Replied bytes

record scan_result =
  sr_infected :: bool
  sr_signature :: "string option"

text \<open>\<open>text.split(":", 1)[1]\<close> raises \<open>IndexError\<close> when there is no colon.\<close>

definition read_verdict :: "string \<Rightarrow> service_error + scan_result" where
  "read_verdict txt =
     (if endswith txt ''OK'' then Inr \<lparr> sr_infected = False, sr_signature = None \<rparr>
      else if contains txt ''FOUND'' then
        (let (_, found, rest) = partition_at (CHR 0x3A) txt; signature = strip rest in
         if \<not> found then Inl (RuntimeErr ''list index out of range'')
         else Inr \<lparr> sr_infected = True, sr_signature =
           Some (if endswith signature '' FOUND'' then take (length signature - 6) signature else signature) \<rparr>)
      else Inl (ClamAVError (''unexpected clamd response: '' @ txt)))"

definition scan :: "(bytes \<Rightarrow> 'w \<Rightarrow> clamd_reply \<times> 'w) \<Rightarrow> bytes \<Rightarrow> 'w \<Rightarrow> (service_error + scan_result) \<times> 'w" where
  "scan clamd data w =
     (case clamd (instream data) w of
        (Cannot_connect m, w) \<Rightarrow> (Inl (ClamAVError (''cannot connect to clamd: '' @ m)), w)
      | (Exchange_failed m, w) \<Rightarrow> (Inl (ClamAVError (''scan failed: '' @ m)), w)
      | (Replied response, w) \<Rightarrow> (read_verdict (strip (decode_text (rstrip_nul response))), w))"

definition ping :: "(bytes \<Rightarrow> 'w \<Rightarrow> clamd_reply \<times> 'w) \<Rightarrow> 'w \<Rightarrow> bool \<times> 'w" where
  "ping clamd w =
     (case clamd (ascii ''zPING'' @ [0]) w of
        (Replied response, w) \<Rightarrow> (rstrip_nul response = ascii ''PONG'', w)
      | (_, w) \<Rightarrow> (False, w))"

definition signature_version :: "(bytes \<Rightarrow> 'w \<Rightarrow> clamd_reply \<times> 'w) \<Rightarrow> 'w \<Rightarrow> string option \<times> 'w" where
  "signature_version clamd w =
     (case clamd (ascii ''zVERSION'' @ [0]) w of
        (Replied response, w) \<Rightarrow>
          (let v = decode_text (rstrip_nul response) in ((if v = [] then None else Some v), w))
      | (_, w) \<Rightarrow> (None, w))"

text \<open>Only an answer that ends in OK is a clean verdict.\<close>

lemma read_verdict_clean:
  "read_verdict txt = Inr r \<Longrightarrow> \<not> sr_infected r \<Longrightarrow> endswith txt ''OK''"
  by (auto simp: read_verdict_def Let_def split: if_splits prod.splits)

lemma scan_clean:
  "scan clamd data w = (Inr r, w') \<Longrightarrow> \<not> sr_infected r \<Longrightarrow>
   \<exists>response. clamd (instream data) w = (Replied response, w')
     \<and> endswith (strip (decode_text (rstrip_nul response))) ''OK''"
  by (auto simp: scan_def dest: read_verdict_clean split: prod.splits clamd_reply.splits)

section \<open>What clamd reads\<close>

text \<open>
  The documented INSTREAM format: after the command, chunks each preceded by their length in four
  bytes, ended by a chunk of length zero. \<open>None\<close> is a stream that is not of this form.
\<close>

function read_chunks :: "bytes \<Rightarrow> (bytes \<times> bytes) option" where
  "read_chunks s =
     (if length s < 4 then None
      else let n = from_bytes_big (take 4 s); rest = drop 4 s in
        if n = 0 then Some ([], rest)
        else if length rest < n then None
        else map_option (\<lambda>(data, tail). (take n rest @ data, tail)) (read_chunks (drop n rest)))"
  by pat_completeness auto
termination
  by (relation "measure length") auto

declare read_chunks.simps [simp del]

definition clamd_reads :: "bytes \<Rightarrow> bytes option" where
  "clamd_reads s =
     (if take 10 s = ascii ''zINSTREAM'' @ [0] then map_option fst (read_chunks (drop 10 s)) else None)"

lemma read_frame:
  assumes "chunk \<noteq> []" and "length chunk < 256 ^ 4"
  shows "read_chunks (frame chunk @ rest) = map_option (\<lambda>(data, tail). (chunk @ data, tail)) (read_chunks rest)"
proof -
  have "int (from_bytes_big (to_bytes_big 4 (int (length chunk)))) = int (length chunk)"
    using assms(2) by (simp add: from_to_bytes_big)
  then have "from_bytes_big (to_bytes_big 4 (int (length chunk))) = length chunk" by simp
  then show ?thesis
    using assms(1) by (subst read_chunks.simps) (simp add: frame_def Let_def)
qed

lemma read_terminator: "read_chunks (to_bytes_big 4 0) = Some ([], [])"
proof -
  have "int (from_bytes_big (to_bytes_big 4 0)) = 0" by (simp add: from_to_bytes_big)
  then show ?thesis by (subst read_chunks.simps) (simp add: Let_def)
qed

lemma read_frames:
  "0 < n \<Longrightarrow> n < 256 ^ 4 \<Longrightarrow>
   read_chunks (concat (map frame (chunks n data)) @ to_bytes_big 4 0) = Some (data, [])"
proof (induction n data rule: chunks.induct)
  case (1 n data)
  show ?case
  proof (cases "data = []")
    case True
    then show ?thesis by (simp add: chunks.simps read_terminator)
  next
    case False
    have c: "chunks n data = take n data # chunks n (drop n data)"
      using False "1.prems"(1) by (subst chunks.simps) simp
    have "take n data \<noteq> []" "length (take n data) < 256 ^ 4" using False "1.prems" by auto
    then have "read_chunks (frame (take n data) @ concat (map frame (chunks n (drop n data))) @ to_bytes_big 4 0)
        = Some (take n data @ drop n data, [])"
      using "1.IH" "1.prems" False by (simp add: read_frame)
    then show ?thesis by (simp add: c)
  qed
qed

lemma chunk_sizes: "0 < n \<Longrightarrow> list_all (\<lambda>c. 0 < length c \<and> length c \<le> n) (chunks n data)"
proof (induction n data rule: chunks.induct)
  case (1 n data)
  then show ?case by (subst chunks.simps) auto
qed

text \<open>
  C30. What is scanned is what was given: for data of any length clamd, reading the INSTREAM command
  as documented, gets exactly these bytes, in chunks that are neither empty (which would end the
  stream early) nor larger than 8192 bytes.
\<close>

theorem clamd_reads_what_is_sent:
  "clamd_reads (instream data) = Some data
   \<and> list_all (\<lambda>c. 0 < length c \<and> length c \<le> 8192) (chunks CHUNK_SIZE data)"
proof -
  have "length (ascii ''zINSTREAM'' @ [0 :: 8 word]) = 10" by (simp add: ascii_def)
  then have "clamd_reads (instream data) =
      map_option fst (read_chunks (concat (map frame (chunks CHUNK_SIZE data)) @ to_bytes_big 4 0))"
    by (simp add: clamd_reads_def instream_def)
  then show ?thesis
    using read_frames [of CHUNK_SIZE data] chunk_sizes [of CHUNK_SIZE data]
    by (simp add: CHUNK_SIZE_def)
qed

end
