(* ===== verification/Files.thy ===== *)
theory Files
  imports Sessions Incidents Clamav
begin

text \<open>
  Files crossing the sandbox boundary: \<open>services/downloads.py\<close>, \<open>services/scanning.py\<close>,
  \<open>services/uploads.py\<close>, \<open>services/quarantine.py\<close>, one poll of \<open>core/download_poller.py\<close>, one cycle
  of \<open>core/quarantine_retention.py\<close>, and the routes of \<open>api/files.py\<close>, \<open>api/sessions.py\<close> (upload) and
  \<open>api/admin_quarantine.py\<close> that act on them.

  What the code relies on outside itself is a record \<open>'w tools\<close> of parameters: clamd, SHA-256, libmagic,
  the files of the staging directory and Redis. The columns of \<open>quarantine_files\<close> that hold text from
  the sandbox are bounded in the database; a longer value fails the flush (\<open>DbDataError\<close>).
\<close>

section \<open>Outside the program\<close>

datatype remove_result = Removed | File_not_found | Remove_failed string

text \<open>The value stored under a download token: the JSON object of \<open>create_token\<close>.\<close>

record token_claim =
  tc_file :: uuid
  tc_user :: uuid

record 'w tools =
  clamd :: "bytes \<Rightarrow> 'w \<Rightarrow> clamd_reply \<times> 'w"
  sha256_hex :: "bytes \<Rightarrow> string"
  magic_mime :: "bytes \<Rightarrow> string"
  fs_makedirs :: "string \<Rightarrow> 'w \<Rightarrow> (string + unit) \<times> 'w"
  fs_exists :: "string \<Rightarrow> 'w \<Rightarrow> bool \<times> 'w"
  fs_read :: "string \<Rightarrow> 'w \<Rightarrow> (string + bytes) \<times> 'w"
  fs_write :: "string \<Rightarrow> bytes \<Rightarrow> 'w \<Rightarrow> (string + unit) \<times> 'w"
  fs_remove :: "string \<Rightarrow> 'w \<Rightarrow> remove_result \<times> 'w"
  token_urlsafe :: "'w \<Rightarrow> string \<times> 'w"
  redis_set :: "string \<Rightarrow> token_claim \<Rightarrow> int \<Rightarrow> 'w \<Rightarrow> 'w"
  redis_getdel :: "string \<Rightarrow> 'w \<Rightarrow> token_claim option \<times> 'w"

text \<open>Running an operation on the world of the system.\<close>

definition outside :: "('w \<Rightarrow> 'a \<times> 'w) \<Rightarrow> 'w sys \<Rightarrow> 'a \<times> 'w sys" where
  "outside call s = (let (r, w) = call (world s) in (r, s\<lparr>world := w\<rparr>))"

text \<open>\<open>os.path.join\<close> of two parts and \<open>os.path.splitext\<close>.\<close>

definition path_join :: "string \<Rightarrow> string \<Rightarrow> string" where
  "path_join a b =
     (if startswith b ''/'' then b else if a = [] \<or> endswith a ''/'' then a @ b else a @ ''/'' @ b)"

definition splitext_ext :: "string \<Rightarrow> string" where
  "splitext_ext p =
     (let name = after_last (CHR 0x2F) p; stem = dropWhile (\<lambda>c. c = CHR 0x2E) name in
      if contains stem ''.'' then CHR 0x2E # after_last (CHR 0x2E) stem else [])"

definition file_extension :: "string \<Rightarrow> string option" where
  "file_extension filename = (let e = splitext_ext filename in if e = [] then None else Some e)"

section \<open>The table of files\<close>

definition set_file :: "uuid \<Rightarrow> (quarantine_file \<Rightarrow> quarantine_file) \<Rightarrow> database \<Rightarrow> database" where
  "set_file k f d = d\<lparr>quarantine_files := row_update q_id k f (quarantine_files d)\<rparr>"

definition fits :: "nat \<Rightarrow> string option \<Rightarrow> bool" where
  "fits n s = (case s of None \<Rightarrow> True | Some t \<Rightarrow> length t \<le> n)"

definition row_fits :: "quarantine_file \<Rightarrow> bool" where
  "row_fits q \<longleftrightarrow> length (q_original_name q) \<le> 1024 \<and> fits 32 (q_extension q)
     \<and> fits 255 (q_declared_mime q) \<and> fits 255 (q_detected_mime q) \<and> length (q_sha256 q) \<le> 64
     \<and> fits 2048 (q_initial_url q) \<and> fits 2048 (q_final_url q) \<and> fits 255 (q_source_host q)
     \<and> fits 1024 (q_scanner_result q) \<and> fits 255 (q_storage_object_id q) \<and> fits 2048 (q_review_comment q)"

text \<open>\<open>db.add\<close> and \<open>flush\<close> of a new row.\<close>

definition insert_file :: "quarantine_file \<Rightarrow> 'w sys \<Rightarrow> (unit, 'w) sys_outcome" where
  "insert_file q s =
     (if \<not> row_fits q then (Inl DbDataError, s)
      else (Inr (), on_db (\<lambda>d. d\<lparr>next_id := Suc (next_id d), quarantine_files := row_insert q (quarantine_files d)\<rparr>) s))"

definition file_event ::
  "instant \<Rightarrow> security_event_type \<Rightarrow> quarantine_file \<Rightarrow> jobj option \<Rightarrow> database \<Rightarrow> database" where
  "file_event now t q meta d = record_security_event now t (Some (q_user_id q)) (Some (q_session_id q)) (Some (q_id q)) meta d"

definition reason_meta :: "string \<Rightarrow> jobj option" where
  "reason_meta m = Some [(''reason'', JStr m)]"

section \<open>Scanning\<close>

definition malware_incident :: "instant \<Rightarrow> quarantine_file \<Rightarrow> string \<Rightarrow> uuid \<Rightarrow> incident" where
  "malware_incident now q signature i =
     \<lparr> i_id = i, i_created_at = now, i_updated_at = now, i_severity = IV_CRITICAL, i_status = IS_NEW,
       i_title = ''Malware detected in downloaded file'',
       i_description = ''ClamAV flagged '' @ [CHR 0x27] @ q_original_name q @ [CHR 0x27] @ '' (sha256='' @ q_sha256 q
         @ '') as infected: '' @ signature @ ''.'',
       i_user_id = Some (q_user_id q), i_session_id = Some (q_session_id q), i_quarantine_file_id = Some (q_id q),
       i_assigned_to = None, i_resolution = None \<rparr>"

definition read_and_scan :: "'w tools \<Rightarrow> quarantine_file \<Rightarrow> 'w \<Rightarrow> (service_error + scan_result) \<times> 'w" where
  "read_and_scan T q w =
     (case q_storage_object_id q of
        None \<Rightarrow> (Inl (RuntimeErr ''expected str, bytes or os.PathLike object, not NoneType''), w)
      | Some path \<Rightarrow>
          (case fs_read T path w of
             (Inl m, w) \<Rightarrow> (Inl (OsError m), w)
           | (Inr data, w) \<Rightarrow> scan (clamd T) data w))"

definition scanner_failed :: "instant \<Rightarrow> quarantine_file \<Rightarrow> database \<Rightarrow> database" where
  "scanner_failed now q d =
     file_event now EV_DOWNLOAD_BLOCKED q (reason_meta ''scanner unavailable - fail closed, no auto-release'')
       (set_file (q_id q) (\<lambda>x. x\<lparr>q_scanner_status := SC_ERROR, q_status := QS_QUARANTINED\<rparr>) d)"

definition malware_found :: "instant \<Rightarrow> quarantine_file \<Rightarrow> string \<Rightarrow> database \<Rightarrow> database" where
  "malware_found now q signature d =
     add_incident (malware_incident now q signature)
       (file_event now EV_MALWARE_DETECTED q (Some [(''signature'', JStr signature)])
         (set_file (q_id q) (\<lambda>x. x\<lparr>q_scanner_status := SC_INFECTED, q_scanner_result := Some signature,
            q_status := QS_QUARANTINED\<rparr>) d))"

definition finalize_clean :: "instant \<Rightarrow> quarantine_file \<Rightarrow> database \<Rightarrow> unit outcome" where
  "finalize_clean now q d =
     (let set_status = (\<lambda>st. set_file (q_id q) (\<lambda>x. x\<lparr>q_scanner_status := SC_CLEAN, q_status := st\<rparr>) d) in
      case q_policy_action q of
        Some FA_DENY \<Rightarrow>
          check_repeated_policy_violations now (q_user_id q)
            (file_event now EV_DOWNLOAD_BLOCKED q (reason_meta ''policy DENY'') (set_status QS_REJECTED))
      | Some FA_AUTO_RELEASE \<Rightarrow>
          (Inr (), file_event now EV_FILE_RELEASED q (reason_meta ''policy AUTO_RELEASE, scan clean'')
             (set_status QS_RELEASED))
      | _ \<Rightarrow> (Inr (), file_event now EV_FILE_QUARANTINED q None (set_status QS_QUARANTINED)))"

definition scan_and_finalize :: "'w tools \<Rightarrow> instant \<Rightarrow> quarantine_file \<Rightarrow> 'w sys \<Rightarrow> (unit, 'w) sys_outcome" where
  "scan_and_finalize T now q s =
     (case outside (read_and_scan T q)
             (on_db (set_file (q_id q) (\<lambda>x. x\<lparr>q_scanner_status := SC_SCANNING\<rparr>)) s) of
        (Inl (ClamAVError _), s) \<Rightarrow> (Inr (), on_db (scanner_failed now q) s)
      | (Inl (OsError _), s) \<Rightarrow> (Inr (), on_db (scanner_failed now q) s)
      | (Inl e, s) \<Rightarrow> (Inl e, s)
      | (Inr r, s) \<Rightarrow>
          if sr_infected r then
            (let signature = (case sr_signature r of Some t \<Rightarrow> t | None \<Rightarrow> ''None'') in
             if \<not> fits 1024 (Some signature) then (Inl DbDataError, s)
             else (Inr (), on_db (malware_found now q signature) s))
          else (let (res, d) = finalize_clean now q (db s) in (res, s\<lparr>db := d\<rparr>)))"

section \<open>Downloads\<close>

definition stage_file :: "'w tools \<Rightarrow> settings \<Rightarrow> bytes \<Rightarrow> string \<Rightarrow> 'w \<Rightarrow> (service_error + string) \<times> 'w" where
  "stage_file T st data sha w =
     (case fs_makedirs T (download_staging_dir st) w of
        (Inl m, w) \<Rightarrow> (Inl (OsError m), w)
      | (Inr _, w) \<Rightarrow>
          (let path = path_join (download_staging_dir st) sha in
           case fs_exists T path w of
             (True, w) \<Rightarrow> (Inr path, w)
           | (False, w) \<Rightarrow>
               (case fs_write T path data w of
                  (Inl m, w) \<Rightarrow> (Inl (OsError m), w)
                | (Inr _, w) \<Rightarrow> (Inr path, w))))"

definition oversized_row :: "'w backend \<Rightarrow> 'w tools \<Rightarrow> instant \<Rightarrow> browser_session \<Rightarrow> downloaded_file \<Rightarrow> uuid \<Rightarrow> quarantine_file" where
  "oversized_row B T now session entry i =
     \<lparr> q_id = i, q_created_at = now, q_session_id = s_id session, q_user_id = s_user_id session,
       q_original_name = df_filename entry, q_extension = file_extension (df_filename entry),
       q_declared_mime = None, q_detected_mime = None, q_size_bytes = df_size_bytes entry,
       q_sha256 = sha256_hex T (ascii (''size-rejected:'' @ show_nat (s_id session) @ '':'' @ df_filename entry
         @ '':'' @ show_int (df_size_bytes entry))),
       q_initial_url = None, q_final_url = None, q_source_host = None, q_redirect_chain = None,
       q_tls_used = None, q_scanner_status = SC_ERROR,
       q_scanner_result = Some (''exceeds maximum allowed download size ('' @ show_int (df_size_bytes entry) @ '' > ''
         @ show_int (download_max_size_bytes (cfg B)) @ '' bytes) - never fetched''),
       q_policy_action = None, q_policy_version_id = None, q_status = QS_QUARANTINED,
       q_storage_object_id = None, q_reviewed_at = None, q_reviewed_by = None, q_review_comment = None \<rparr>"

definition download_row ::
  "instant \<Rightarrow> browser_session \<Rightarrow> downloaded_file \<Rightarrow> bytes \<Rightarrow> string \<Rightarrow> string \<Rightarrow> string option \<Rightarrow> string option
   \<Rightarrow> file_decision_result \<Rightarrow> string \<Rightarrow> uuid \<Rightarrow> quarantine_file" where
  "download_row now session entry data sha mime url host decision path i =
     \<lparr> q_id = i, q_created_at = now, q_session_id = s_id session, q_user_id = s_user_id session,
       q_original_name = df_filename entry, q_extension = file_extension (df_filename entry),
       q_declared_mime = None, q_detected_mime = Some mime, q_size_bytes = int (length data), q_sha256 = sha,
       q_initial_url = url, q_final_url = url, q_source_host = host, q_redirect_chain = None,
       q_tls_used = (if truthy url then Some (startswith (the url) ''https://'') else None),
       q_scanner_status = SC_PENDING, q_scanner_result = None, q_policy_action = Some (action decision),
       q_policy_version_id = policy_version_id decision, q_status = QS_PENDING_SCAN,
       q_storage_object_id = Some path, q_reviewed_at = None, q_reviewed_by = None, q_review_comment = None \<rparr>"

text \<open>The best-effort removal from the sandbox, whose failure is ignored.\<close>

definition discard_download :: "'w backend \<Rightarrow> browser_session \<Rightarrow> connection \<Rightarrow> downloaded_file \<Rightarrow> 'w sys \<Rightarrow> 'w sys" where
  "discard_download B session c entry s =
     snd (agent (delete_download B (s_id session) (df_filename entry) c) s)"

definition process_oversized ::
  "'w backend \<Rightarrow> 'w tools \<Rightarrow> instant \<Rightarrow> browser_session \<Rightarrow> connection \<Rightarrow> downloaded_file \<Rightarrow> 'w sys
   \<Rightarrow> (uuid option, 'w) sys_outcome" where
  "process_oversized B T now session c entry s =
     (let q = oversized_row B T now session entry (next_id (db s)) in
      case insert_file q s of
        (Inl e, s) \<Rightarrow> (Inl e, s)
      | (Inr _, s) \<Rightarrow>
          (Inr (Some (q_id q)),
           discard_download B session c entry
             (on_db (file_event now EV_DOWNLOAD_BLOCKED q
                (Some [(''reason'', JStr ''exceeds maximum allowed download size''), (''size_bytes'', JInt (df_size_bytes entry)),
                       (''max_size_bytes'', JInt (download_max_size_bytes (cfg B)))])) s)))"

text \<open>The origin of a download: \<open>normalize_hostname(origin_url) if origin_url else None\<close>.\<close>

definition origin_hostname :: "(string \<Rightarrow> bool) \<Rightarrow> string option \<Rightarrow> service_error + string option" where
  "origin_hostname bracket_ok url =
     (if \<not> truthy url then Inr None
      else case normalize_hostname bracket_ok (the url) of
        None \<Rightarrow> Inl (ValueErr ''Invalid IPv6 URL'')
      | Some h \<Rightarrow> Inr (Some h))"

definition known_content :: "browser_session \<Rightarrow> string \<Rightarrow> database \<Rightarrow> quarantine_file list" where
  "known_content session sha d =
     filter (\<lambda>q. q_session_id q = s_id session \<and> q_sha256 q = sha) (quarantine_files d)"

definition stage_and_scan ::
  "'w tools \<Rightarrow> instant \<Rightarrow> quarantine_file \<Rightarrow> 'w sys \<Rightarrow> (unit, 'w) sys_outcome" where
  "stage_and_scan T now q s =
     (case insert_file q s of
        (Inl e, s) \<Rightarrow> (Inl e, s)
      | (Inr _, s) \<Rightarrow>
          scan_and_finalize T now q
            (on_db (file_event now EV_DOWNLOAD_REQUESTED q
               (Some [(''sha256'', JStr (q_sha256 q)), (''detected_mime'', JStr (the (q_detected_mime q))),
                      (''policy_action'', JStr (file_action_value (the (q_policy_action q))))])) s))"

definition process_fetched ::
  "(string \<Rightarrow> bool) \<Rightarrow> 'w backend \<Rightarrow> 'w tools \<Rightarrow> instant \<Rightarrow> browser_session \<Rightarrow> connection \<Rightarrow> downloaded_file
   \<Rightarrow> bytes \<Rightarrow> string option \<Rightarrow> 'w sys \<Rightarrow> (uuid option, 'w) sys_outcome" where
  "process_fetched bracket_ok B T now session c entry data url s =
     (let sha = sha256_hex T data; mime = magic_mime T data in
      case known_content session sha (db s) of
        [_] \<Rightarrow> (Inr None, discard_download B session c entry s)
      | _ # _ # _ \<Rightarrow> (Inl (RuntimeErr ''Multiple rows were found when one or none was required''), s)
      | [] \<Rightarrow>
     (case origin_hostname bracket_ok url of
        Inl e \<Rightarrow> (Inl e, s)
      | Inr host \<Rightarrow>
     (case evaluate_file_action bracket_ok (db s) (s_user_id session)
             \<lparr> declared_mime = None, detected_mime = Some mime, extension = file_extension (df_filename entry),
               size_bytes = int (length data), source_hostname = host \<rparr> of
        None \<Rightarrow> (Inl (ValueErr ''Invalid IPv6 URL''), s)
      | Some decision \<Rightarrow>
     (case outside (stage_file T (cfg B) data sha) s of
        (Inl e, s) \<Rightarrow> (Inl e, s)
      | (Inr path, s) \<Rightarrow>
          let q = download_row now session entry data sha mime url host decision path (next_id (db s)) in
          (case stage_and_scan T now q s of
             (Inl e, s) \<Rightarrow> (Inl e, s)
           | (Inr _, s) \<Rightarrow> (Inr (Some (q_id q)), discard_download B session c entry s))))))"

definition process_entry ::
  "(string \<Rightarrow> bool) \<Rightarrow> 'w backend \<Rightarrow> 'w tools \<Rightarrow> instant \<Rightarrow> browser_session \<Rightarrow> connection \<Rightarrow> downloaded_file
   \<Rightarrow> 'w sys \<Rightarrow> (uuid option, 'w) sys_outcome" where
  "process_entry bracket_ok B T now session c entry s =
     (if df_size_bytes entry > download_max_size_bytes (cfg B) then process_oversized B T now session c entry s
      else case agent (fetch_download B (s_id session) (df_filename entry) c) s of
        (Inl _, s) \<Rightarrow> (Inr None, s)
      | (Inr (data, url), s) \<Rightarrow> process_fetched bracket_ok B T now session c entry data url s)"

fun process_entries ::
  "(string \<Rightarrow> bool) \<Rightarrow> 'w backend \<Rightarrow> 'w tools \<Rightarrow> instant \<Rightarrow> browser_session \<Rightarrow> connection \<Rightarrow> downloaded_file list
   \<Rightarrow> 'w sys \<Rightarrow> (uuid list, 'w) sys_outcome" where
  "process_entries bracket_ok B T now session c [] s = (Inr [], s)"
| "process_entries bracket_ok B T now session c (entry # rest) s =
     (case process_entry bracket_ok B T now session c entry s of
        (Inl e, s) \<Rightarrow> (Inl e, s)
      | (Inr created, s) \<Rightarrow>
          (case process_entries bracket_ok B T now session c rest s of
             (Inl e, s) \<Rightarrow> (Inl e, s)
           | (Inr ids, s) \<Rightarrow> (Inr ((case created of None \<Rightarrow> [] | Some i \<Rightarrow> [i]) @ ids), s)))"

text \<open>
  Committed only at the end and only if a row was created; an exception leaves the caller's database
  session uncommitted. What was done outside (staged bytes, files deleted in the sandbox) stays done.
\<close>

definition process_new_downloads ::
  "(string \<Rightarrow> bool) \<Rightarrow> 'w backend \<Rightarrow> 'w tools \<Rightarrow> instant \<Rightarrow> browser_session \<Rightarrow> 'w sys \<Rightarrow> (uuid list, 'w) sys_outcome" where
  "process_new_downloads bracket_ok B T now session s =
     (let c = session_connection B session (db s) in
      case agent (list_downloads B (s_id session) c) s of
        (Inl _, s) \<Rightarrow> (Inr [], s)
      | (Inr files, s) \<Rightarrow>
          (case process_entries bracket_ok B T now session c files s of
             (Inl e, s') \<Rightarrow> (Inl e, s'\<lparr>db := db s\<rparr>)
           | (Inr ids, s') \<Rightarrow> (Inr ids, if ids \<noteq> [] then s' else s'\<lparr>db := db s\<rparr>)))"

text \<open>
  One turn of the poll loop of a session: whether the loop goes on. It ends when the session is gone
  or no longer pollable, and by any exception; the registry entry stays in either case.
\<close>

definition POLLABLE_STATUSES :: "session_status set" where
  "POLLABLE_STATUSES = {SS_ACTIVE, SS_DISCONNECTED}"

definition poll_once ::
  "(string \<Rightarrow> bool) \<Rightarrow> 'w backend \<Rightarrow> 'w tools \<Rightarrow> instant \<Rightarrow> uuid \<Rightarrow> 'w sys \<Rightarrow> bool \<times> 'w sys" where
  "poll_once bracket_ok B T now i s =
     (case row_get s_id i (sessions (db s)) of
        None \<Rightarrow> (False, s)
      | Some session \<Rightarrow>
          if s_status session \<notin> POLLABLE_STATUSES then (False, s)
          else case process_new_downloads bracket_ok B T now session s of
              (Inl _, s) \<Rightarrow> (False, s)
            | (Inr _, s) \<Rightarrow> (True, s))"

section \<open>Uploads\<close>

datatype upload_block_kind = UB_policy | UB_malware | UB_scanner_unavailable | UB_sandbox_unavailable

text \<open>\<open>UploadBlockedError\<close> with its kind and reason, another exception, or success.\<close>

datatype upload_result =
    Uploaded
  | Upload_blocked upload_block_kind string
  | Upload_failed service_error

definition upload_event ::
  "instant \<Rightarrow> security_event_type \<Rightarrow> browser_session \<Rightarrow> string \<Rightarrow> string \<Rightarrow> (string \<times> json) list \<Rightarrow> database \<Rightarrow> database" where
  "upload_event now t session filename sha extra d =
     record_security_event now t (Some (s_user_id session)) (Some (s_id session)) None
       (Some ((''filename'', JStr filename) # (''sha256'', JStr sha) # extra)) d"

definition upload_incident :: "instant \<Rightarrow> browser_session \<Rightarrow> string \<Rightarrow> string \<Rightarrow> string \<Rightarrow> uuid \<Rightarrow> incident" where
  "upload_incident now session filename sha signature i =
     \<lparr> i_id = i, i_created_at = now, i_updated_at = now, i_severity = IV_CRITICAL, i_status = IS_NEW,
       i_title = ''Malware detected in uploaded file'',
       i_description = ''ClamAV flagged upload '' @ [CHR 0x27] @ filename @ [CHR 0x27] @ '' (sha256='' @ sha
         @ '') as infected: '' @ signature @ ''.'',
       i_user_id = Some (s_user_id session), i_session_id = Some (s_id session), i_quarantine_file_id = None,
       i_assigned_to = None, i_resolution = None \<rparr>"

text \<open>The policy verdict blocks: both DENY and QUARANTINE do.\<close>

definition block_by_policy ::
  "instant \<Rightarrow> browser_session \<Rightarrow> string \<Rightarrow> string \<Rightarrow> file_action \<Rightarrow> 'w sys \<Rightarrow> upload_result \<times> 'w sys" where
  "block_by_policy now session filename sha act s =
     (case check_repeated_policy_violations now (s_user_id session)
             (upload_event now EV_UPLOAD_BLOCKED session filename sha
                [(''reason'', JStr (''policy '' @ file_action_value act))] (db s)) of
        (Inl e, _) \<Rightarrow> (Upload_failed e, s)
      | (Inr _, d) \<Rightarrow>
          (Upload_blocked UB_policy (''blocked by policy ('' @ file_action_value act @ '')''), s\<lparr>db := d\<rparr>))"

definition place_upload ::
  "'w backend \<Rightarrow> instant \<Rightarrow> browser_session \<Rightarrow> string \<Rightarrow> bytes \<Rightarrow> string \<Rightarrow> string \<Rightarrow> 'w sys \<Rightarrow> upload_result \<times> 'w sys" where
  "place_upload B now session filename data sha mime s =
     (case agent (write_upload B (s_id session) filename data (session_connection B session (db s))) s of
        (Inl e, s) \<Rightarrow> (Upload_blocked UB_sandbox_unavailable (''failed to place file in sandbox: '' @ error_detail e), s)
      | (Inr _, s) \<Rightarrow>
          (Uploaded, on_db (upload_event now EV_UPLOAD_REQUESTED session filename sha [(''detected_mime'', JStr mime)]) s))"

definition process_upload ::
  "(string \<Rightarrow> bool) \<Rightarrow> 'w backend \<Rightarrow> 'w tools \<Rightarrow> instant \<Rightarrow> browser_session \<Rightarrow> string \<Rightarrow> bytes \<Rightarrow> 'w sys
   \<Rightarrow> upload_result \<times> 'w sys" where
  "process_upload bracket_ok B T now session filename data s =
     (let sha = sha256_hex T data; mime = magic_mime T data in
      case evaluate_file_action bracket_ok (db s) (s_user_id session)
             \<lparr> declared_mime = None, detected_mime = Some mime, extension = file_extension filename,
               size_bytes = int (length data), source_hostname = None \<rparr> of
        None \<Rightarrow> (Upload_failed (ValueErr ''Invalid IPv6 URL''), s)
      | Some decision \<Rightarrow>
          if action decision \<in> {FA_DENY, FA_QUARANTINE} then block_by_policy now session filename sha (action decision) s
          else case outside (scan (clamd T) data) s of
            (Inl (ClamAVError _), s) \<Rightarrow>
              (Upload_blocked UB_scanner_unavailable ''scanner unavailable'',
               on_db (upload_event now EV_UPLOAD_BLOCKED session filename sha
                 [(''reason'', JStr ''scanner unavailable - fail closed'')]) s)
          | (Inl e, s) \<Rightarrow> (Upload_failed e, s)
          | (Inr r, s) \<Rightarrow>
              if sr_infected r then
                (let signature = (case sr_signature r of Some t \<Rightarrow> t | None \<Rightarrow> ''None'') in
                 (Upload_blocked UB_malware (''infected: '' @ signature),
                  on_db (add_incident (upload_incident now session filename sha signature))
                    (on_db (upload_event now EV_MALWARE_DETECTED session filename sha
                       [(''signature'', JStr signature), (''direction'', JStr ''upload'')]) s)))
              else place_upload B now session filename data sha mime s)"

definition MAX_UPLOAD_BYTES :: nat where
  "MAX_UPLOAD_BYTES = 50 * 1024 * 1024"

primrec upload_blocked_status :: "upload_block_kind \<Rightarrow> nat" where
  "upload_blocked_status UB_policy = 403"
| "upload_blocked_status UB_malware = 403"
| "upload_blocked_status UB_scanner_unavailable = 503"
| "upload_blocked_status UB_sandbox_unavailable = 502"

definition upload_file ::
  "(string \<Rightarrow> bool) \<Rightarrow> 'w backend \<Rightarrow> 'w tools \<Rightarrow> instant \<Rightarrow> uuid \<Rightarrow> uuid \<Rightarrow> string option \<Rightarrow> bytes \<Rightarrow> 'w sys
   \<Rightarrow> (unit, 'w) sys_response" where
  "upload_file bracket_ok B T now i user filename body s =
     (case get_own_session_or_404 (db s) i user of
        Inl e \<Rightarrow> (Inl e, s)
      | Inr session \<Rightarrow>
          if s_status session \<noteq> SS_ACTIVE then
            (Inl (409, ''session is not active ('' @ session_status_value (s_status session) @ '')''), s)
          else if length (take (MAX_UPLOAD_BYTES + 1) body) > MAX_UPLOAD_BYTES then (Inl (413, ''file too large''), s)
          else case process_upload bracket_ok B T now session
                 (if truthy filename then the filename else ''upload.bin'') body s of
            (Uploaded, s) \<Rightarrow> (Inr (), s)
          | (Upload_blocked kind why, s) \<Rightarrow> (Inl (upload_blocked_status kind, why), s)
          | (Upload_failed e, s) \<Rightarrow> (Inl (500, error_detail e), s))"

section \<open>Review\<close>

definition review_error :: "string \<Rightarrow> quarantine_file \<Rightarrow> service_error" where
  "review_error what q =
     QuarantineServiceError (''cannot '' @ what @ '' a file in status '' @ quarantine_status_value (q_status q))"

definition reviewed :: "instant \<Rightarrow> quarantine_status \<Rightarrow> uuid \<Rightarrow> string \<Rightarrow> quarantine_file \<Rightarrow> quarantine_file" where
  "reviewed now st reviewer comment q =
     q\<lparr>q_status := st, q_reviewed_at := Some now, q_reviewed_by := Some reviewer, q_review_comment := Some comment\<rparr>"

definition release_file :: "instant \<Rightarrow> quarantine_file \<Rightarrow> uuid \<Rightarrow> string \<Rightarrow> database \<Rightarrow> unit outcome" where
  "release_file now q reviewer comment d =
     (if q_status q \<noteq> QS_QUARANTINED then (Inl (review_error ''release'' q), d)
      else if \<not> fits 2048 (Some comment) then (Inl DbDataError, d)
      else (Inr (), file_event now EV_FILE_RELEASED q
              (Some [(''reviewed_by'', JId reviewer), (''reason'', JStr ''manual admin/reviewer release'')])
              (set_file (q_id q) (reviewed now QS_RELEASED reviewer comment) d)))"

definition reject_file :: "instant \<Rightarrow> quarantine_file \<Rightarrow> uuid \<Rightarrow> string \<Rightarrow> database \<Rightarrow> unit outcome" where
  "reject_file now q reviewer comment d =
     (if q_status q \<noteq> QS_QUARANTINED then (Inl (review_error ''reject'' q), d)
      else if \<not> fits 2048 (Some comment) then (Inl DbDataError, d)
      else (Inr (), file_event now EV_FILE_REJECTED q (Some [(''reviewed_by'', JId reviewer)])
              (set_file (q_id q) (reviewed now QS_REJECTED reviewer comment) d)))"

definition review_status :: "service_error \<Rightarrow> nat" where
  "review_status e = (case e of QuarantineServiceError _ \<Rightarrow> 409 | _ \<Rightarrow> 500)"

definition with_file ::
  "(quarantine_file \<Rightarrow> database \<Rightarrow> unit outcome) \<Rightarrow> uuid \<Rightarrow> database \<Rightarrow> unit response" where
  "with_file f i d =
     (case row_get q_id i (quarantine_files d) of
        None \<Rightarrow> not_found ''quarantine file'' d
      | Some q \<Rightarrow> respond review_status d (f q d))"

definition release_quarantine_file :: "instant \<Rightarrow> uuid \<Rightarrow> string \<Rightarrow> uuid \<Rightarrow> database \<Rightarrow> unit response" where
  "release_quarantine_file now reviewer comment = with_file (\<lambda>q. release_file now q reviewer comment)"

definition reject_quarantine_file :: "instant \<Rightarrow> uuid \<Rightarrow> string \<Rightarrow> uuid \<Rightarrow> database \<Rightarrow> unit response" where
  "reject_quarantine_file now reviewer comment = with_file (\<lambda>q. reject_file now q reviewer comment)"

section \<open>Handing a released file to its owner\<close>

definition TOKEN_TTL_SECONDS :: int where
  "TOKEN_TTL_SECONDS = 5 * 60"

definition create_token :: "'w tools \<Rightarrow> uuid \<Rightarrow> uuid \<Rightarrow> 'w \<Rightarrow> string \<times> 'w" where
  "create_token T file user w =
     (let (tok, w) = token_urlsafe T w in
      (tok, redis_set T (''release_token:'' @ tok) \<lparr> tc_file = file, tc_user = user \<rparr> TOKEN_TTL_SECONDS w))"

definition consume_token :: "'w tools \<Rightarrow> string \<Rightarrow> 'w \<Rightarrow> token_claim option \<times> 'w" where
  "consume_token T tok w = redis_getdel T (''release_token:'' @ tok) w"

definition get_own_file_or_404 :: "database \<Rightarrow> uuid \<Rightarrow> uuid \<Rightarrow> http_error + quarantine_file" where
  "get_own_file_or_404 d i user =
     (case row_get q_id i (quarantine_files d) of
        None \<Rightarrow> Inl (404, ''file not found'')
      | Some q \<Rightarrow> if q_user_id q \<noteq> user then Inl (404, ''file not found'') else Inr q)"

definition list_my_files :: "uuid \<Rightarrow> database \<Rightarrow> quarantine_file list" where
  "list_my_files user d = sort_key (\<lambda>q. - q_created_at q) (filter (\<lambda>q. q_user_id q = user) (quarantine_files d))"

definition request_download_token ::
  "'w tools \<Rightarrow> uuid \<Rightarrow> uuid \<Rightarrow> 'w sys \<Rightarrow> (string, 'w) sys_response" where
  "request_download_token T i user s =
     (case get_own_file_or_404 (db s) i user of
        Inl e \<Rightarrow> (Inl e, s)
      | Inr q \<Rightarrow>
          if q_status q \<noteq> QS_RELEASED then
            (Inl (409, ''file is not released (status='' @ quarantine_status_value (q_status q) @ '')''), s)
          else (case outside (create_token T (q_id q) user) s of (tok, s) \<Rightarrow> (Inr tok, s)))"

text \<open>The answer is the path served and the name it is served under.\<close>

definition download_with_token ::
  "'w tools \<Rightarrow> string \<Rightarrow> uuid \<Rightarrow> 'w sys \<Rightarrow> (string \<times> string, 'w) sys_response" where
  "download_with_token T tok user s =
     (case outside (consume_token T tok) s of
        (None, s) \<Rightarrow> (Inl (401, ''invalid or expired download token''), s)
      | (Some claim, s) \<Rightarrow>
          if tc_user claim \<noteq> user then (Inl (401, ''invalid or expired download token''), s)
          else case row_get q_id (tc_file claim) (quarantine_files (db s)) of
            None \<Rightarrow> (Inl (410, ''file no longer available''), s)
          | Some q \<Rightarrow>
              if q_status q \<noteq> QS_RELEASED \<or> \<not> truthy (q_storage_object_id q) then
                (Inl (410, ''file no longer available''), s)
              else case outside (fs_exists T (the (q_storage_object_id q))) s of
                (False, s) \<Rightarrow> (Inl (410, ''file no longer available''), s)
              | (True, s) \<Rightarrow> (Inr (the (q_storage_object_id q), q_original_name q), s))"

section \<open>Retention\<close>

definition effective_status_at :: "quarantine_file \<Rightarrow> instant" where
  "effective_status_at q = (case q_reviewed_at q of Some t \<Rightarrow> t | None \<Rightarrow> q_created_at q)"

definition has_open_incident :: "uuid \<Rightarrow> database \<Rightarrow> bool" where
  "has_open_incident i d \<longleftrightarrow>
     list_ex (\<lambda>k. i_quarantine_file_id k = Some i \<and> i_status k \<in> OPEN_INCIDENT_STATUSES) (incidents d)"

definition other_live_rows_share_hash :: "string \<Rightarrow> uuid \<Rightarrow> database \<Rightarrow> bool" where
  "other_live_rows_share_hash sha i d \<longleftrightarrow>
     list_ex (\<lambda>q. q_sha256 q = sha \<and> q_id q \<noteq> i \<and> q_status q \<noteq> QS_DELETED) (quarantine_files d)"

definition SCRUBBED_NAME :: string where
  "SCRUBBED_NAME = ''[retention-expired]''"

definition scrub :: "quarantine_file \<Rightarrow> quarantine_file" where
  "scrub q = q\<lparr>q_status := QS_DELETED, q_storage_object_id := None, q_original_name := SCRUBBED_NAME,
     q_source_host := None, q_initial_url := None, q_final_url := None, q_redirect_chain := None\<rparr>"

definition expire_row :: "instant \<Rightarrow> quarantine_file \<Rightarrow> database \<Rightarrow> database" where
  "expire_row now q d =
     set_file (q_id q) scrub
       (file_event now EV_QUARANTINE_FILE_RETENTION_EXPIRED q
          (Some [(''original_name'', JStr (q_original_name q)), (''sha256'', JStr (q_sha256 q)),
                 (''previous_status'', JStr (quarantine_status_value (q_status q))), (''expired_at'', JInt now)]) d)"

definition delete_one :: "'w tools \<Rightarrow> instant \<Rightarrow> quarantine_file \<Rightarrow> 'w sys \<Rightarrow> 'w sys" where
  "delete_one T now q s =
     (if has_open_incident (q_id q) (db s) then s
      else if truthy (q_storage_object_id q) \<and> \<not> other_live_rows_share_hash (q_sha256 q) (q_id q) (db s) then
        (case outside (fs_remove T (the (q_storage_object_id q))) s of
           (Remove_failed _, s) \<Rightarrow> s
         | (_, s) \<Rightarrow> on_db (expire_row now q) s)
      else on_db (expire_row now q) s)"

definition expired :: "settings \<Rightarrow> instant \<Rightarrow> quarantine_file \<Rightarrow> bool" where
  "expired st now q \<longleftrightarrow>
     (q_status q = QS_RELEASED \<and> effective_status_at q < now - quarantine_retention_released st)
     \<or> (q_status q \<in> {QS_QUARANTINED, QS_REJECTED}
        \<and> effective_status_at q < now - quarantine_retention_quarantined st)"

definition retention_once :: "'w backend \<Rightarrow> 'w tools \<Rightarrow> instant \<Rightarrow> 'w sys \<Rightarrow> 'w sys" where
  "retention_once B T now s =
     fold (delete_one T now) (filter (expired (cfg B) now) (quarantine_files (db s))) s"

end
