(* ===== verification/File_Guarantees.thy ===== *)
theory File_Guarantees
  imports Files Session_Lifecycle
begin

text \<open>
  What holds of the files crossing the sandbox boundary: a file table only grows and its rows follow
  a small state machine (\<open>files_evolve\<close>), and from it that a released file has been cleared, that
  uploads reach the sandbox only when cleared, that retention keeps bytes somebody still refers to.
\<close>

section \<open>How the table evolves\<close>

definition files_wf :: "database \<Rightarrow> bool" where
  "files_wf d \<longleftrightarrow> distinct_keys q_id (quarantine_files d) \<and> list_all (\<lambda>q. q_id q < next_id d) (quarantine_files d)"

text \<open>A released file was found clean under an AUTO_RELEASE decision, or a reviewer is on record.\<close>

definition cleared :: "quarantine_file \<Rightarrow> bool" where
  "cleared q \<longleftrightarrow> q_status q \<noteq> QS_RELEASED \<or> q_reviewed_by q \<noteq> None
     \<or> (q_scanner_status q = SC_CLEAN \<and> q_policy_action q = Some FA_AUTO_RELEASE)"

definition file_edge :: "quarantine_status \<Rightarrow> quarantine_status \<Rightarrow> bool" where
  "file_edge a b \<longleftrightarrow> a = b
     \<or> (a = QS_QUARANTINED \<and> b \<in> {QS_RELEASED, QS_REJECTED, QS_DELETED})
     \<or> (a \<in> {QS_RELEASED, QS_REJECTED} \<and> b = QS_DELETED)"

definition file_ev :: "quarantine_file \<Rightarrow> quarantine_file \<Rightarrow> bool" where
  "file_ev a b \<longleftrightarrow> a = b \<or> (q_id b = q_id a \<and> q_user_id b = q_user_id a \<and> q_session_id b = q_session_id a
     \<and> q_sha256 b = q_sha256 a \<and> q_scanner_status b = q_scanner_status a \<and> q_policy_action b = q_policy_action a
     \<and> file_edge (q_status a) (q_status b) \<and> q_status a \<noteq> q_status b
     \<and> (q_status b = QS_RELEASED \<longrightarrow> q_reviewed_by b \<noteq> None))"

definition new_file :: "quarantine_file \<Rightarrow> bool" where
  "new_file q \<longleftrightarrow> cleared q \<and> q_reviewed_by q = None \<and> q_status q \<in> {QS_QUARANTINED, QS_REJECTED, QS_RELEASED}"

text \<open>Rows only appended, with identifiers taken from the supply.\<close>

definition files_added :: "database \<Rightarrow> database \<Rightarrow> bool" where
  "files_added d e \<longleftrightarrow> next_id d \<le> next_id e \<and> (\<exists>new. quarantine_files e = quarantine_files d @ new
     \<and> list_all (\<lambda>q. new_file q \<and> next_id d \<le> q_id q \<and> q_id q < next_id e) new \<and> distinct (map q_id new))"

lemma files_added_same:
  "quarantine_files e = quarantine_files d \<Longrightarrow> next_id d \<le> next_id e \<Longrightarrow> files_added d e"
  by (simp add: files_added_def)

lemma files_added_wf: "files_added d e \<Longrightarrow> files_wf d \<Longrightarrow> files_wf e"
  by (fastforce simp: files_added_def files_wf_def distinct_keys_def list_all_iff)

lemma files_added_trans: "files_added a b \<Longrightarrow> files_added b c \<Longrightarrow> files_added a c"
  unfolding files_added_def
proof (elim conjE exE)
  fix xs ys
  assume n: "next_id a \<le> next_id b" "next_id b \<le> next_id c"
    and x: "quarantine_files b = quarantine_files a @ xs" "distinct (map q_id xs)"
      "list_all (\<lambda>q. new_file q \<and> next_id a \<le> q_id q \<and> q_id q < next_id b) xs"
    and y: "quarantine_files c = quarantine_files b @ ys" "distinct (map q_id ys)"
      "list_all (\<lambda>q. new_file q \<and> next_id b \<le> q_id q \<and> q_id q < next_id c) ys"
  have "distinct (map q_id (xs @ ys))" using x y by (fastforce simp: list_all_iff)
  moreover have "list_all (\<lambda>q. new_file q \<and> next_id a \<le> q_id q \<and> q_id q < next_id c) (xs @ ys)"
    using x(3) y(3) n by (fastforce simp: list_all_iff)
  ultimately show "next_id a \<le> next_id c \<and> (\<exists>new. quarantine_files c = quarantine_files a @ new
     \<and> list_all (\<lambda>q. new_file q \<and> next_id a \<le> q_id q \<and> q_id q < next_id c) new \<and> distinct (map q_id new))"
    using x(1) y(1) n by auto
qed

section \<open>Downloads\<close>

lemma outside_db: "outside call s = (r, s') \<Longrightarrow> db s' = db s"
  by (auto simp: outside_def split: prod.splits)

lemma file_event_frame [simp]:
  "quarantine_files (file_event now t q m d) = quarantine_files d" "next_id (file_event now t q m d) = Suc (next_id d)"
  "incidents (file_event now t q m d) = incidents d"
  by (simp_all add: file_event_def)

lemma set_file_frame [simp]: "next_id (set_file k f d) = next_id d" "incidents (set_file k f d) = incidents d"
  by (simp_all add: set_file_def)

lemma on_db_db [simp]: "db (on_db f s) = f (db s)"
  by (simp add: on_db_def)

lemma set_file_last:
  assumes "quarantine_files d = xs @ [x]" and "q_id x = k" and "k \<notin> q_id ` set xs"
  shows "quarantine_files (set_file k f d) = xs @ [f x]"
proof -
  have "map (\<lambda>r. if q_id r = k then f r else r) xs = xs" using assms(3) by (intro map_idI) auto
  then show ?thesis using assms(1,2) by (simp add: set_file_def row_update_def)
qed

text \<open>What the scan makes of the last row of the table.\<close>

lemma scan_last:
  assumes "quarantine_files (db s) = xs @ [q]" and "q_id q \<notin> q_id ` set xs"
    and "q_reviewed_by q = None" and "scan_and_finalize T now q s = (Inr (), s')"
  shows "\<exists>q'. quarantine_files (db s') = xs @ [q'] \<and> q_id q' = q_id q \<and> new_file q' \<and> next_id (db s) \<le> next_id (db s')"
proof -
  let ?q = "q\<lparr>q_scanner_status := SC_SCANNING\<rparr>"
  let ?s = "on_db (set_file (q_id q) (\<lambda>x. x\<lparr>q_scanner_status := SC_SCANNING\<rparr>)) s"
  obtain r t where r: "outside (read_and_scan T q) ?s = (r, t)" by (metis prod.exhaust)
  have t: "quarantine_files (db t) = xs @ [?q]" "next_id (db t) = next_id (db s)"
    using outside_db [OF r] set_file_last [OF assms(1) refl assms(2)] by simp_all
  have upd: "quarantine_files (set_file (q_id q) f (db t)) = xs @ [f ?q]" for f
    using set_file_last [OF t(1) _ assms(2)] by simp
  consider (failed) "s' = on_db (scanner_failed now q) t"
    | (found) sig where "s' = on_db (malware_found now q sig) t"
    | (clean) d where "finalize_clean now q (db t) = (Inr (), d)" "db s' = d"
    using assms(4) r
    by (auto simp: scan_and_finalize_def Let_def split: sum.splits service_error.splits if_splits prod.splits)
  then show ?thesis
  proof cases
    case failed
    then show ?thesis using t(2) assms(3) by (simp add: scanner_failed_def upd new_file_def cleared_def)
  next
    case found
    then show ?thesis using t(2) assms(3) by (simp add: malware_found_def upd new_file_def cleared_def)
  next
    case clean
    show ?thesis
    proof (cases "q_policy_action q = Some FA_DENY")
      case True
      let ?d = "file_event now EV_DOWNLOAD_BLOCKED q (reason_meta ''policy DENY'')
        (set_file (q_id q) (\<lambda>x. x\<lparr>q_scanner_status := SC_CLEAN, q_status := QS_REJECTED\<rparr>) (db t))"
      have c: "check_repeated_policy_violations now (q_user_id q) ?d = (Inr (), d)"
        using clean True by (simp add: finalize_clean_def Let_def)
      show ?thesis
        using clean(2) check_files [OF c] check_next_id [OF c] t(2) assms(3)
        by (simp add: upd new_file_def cleared_def)
    next
      case False
      then have "\<exists>e m st. d = file_event now e q m
            (set_file (q_id q) (\<lambda>x. x\<lparr>q_scanner_status := SC_CLEAN, q_status := st\<rparr>) (db t))
          \<and> (st = QS_QUARANTINED \<or> st = QS_RELEASED \<and> q_policy_action q = Some FA_AUTO_RELEASE)"
        using clean(1) by (auto simp: finalize_clean_def Let_def split: option.splits file_action.splits)
      then obtain e m st where d: "d = file_event now e q m
            (set_file (q_id q) (\<lambda>x. x\<lparr>q_scanner_status := SC_CLEAN, q_status := st\<rparr>) (db t))"
        and st: "st = QS_QUARANTINED \<or> st = QS_RELEASED \<and> q_policy_action q = Some FA_AUTO_RELEASE"
        by blast
      show ?thesis unfolding clean(2) d using st t(2) assms(3) by (auto simp: upd new_file_def cleared_def)
    qed
  qed
qed

lemma insert_file_cases:
  "insert_file q s = (r, s') \<Longrightarrow>
     (\<exists>e. r = Inl e \<and> s' = s) \<or>
     (r = Inr () \<and> row_fits q \<and> quarantine_files (db s') = quarantine_files (db s) @ [q] \<and> next_id (db s') = Suc (next_id (db s)))"
  by (auto simp: insert_file_def row_insert_def split: if_splits)

lemma fresh_key: "files_wf d \<Longrightarrow> next_id d \<notin> q_id ` set (quarantine_files d)"
  by (auto simp: files_wf_def list_all_iff)

lemma discard_db [simp]: "db (discard_download B x c entry s) = db s"
  by (cases "agent (delete_download B (s_id x) (df_filename entry) c) s")
    (simp add: discard_download_def agent_frame)

lemma oversized_added:
  assumes "process_oversized B T now x c entry s = (Inr i, s')"
  shows "files_added (db s) (db s')"
  using assms
  by (auto simp: process_oversized_def oversized_row_def Let_def insert_file_def row_insert_def files_added_def
      new_file_def cleared_def split: if_splits)

lemma stage_and_scan_added:
  assumes "files_wf (db s)" and "q_id q = next_id (db s)" and "q_reviewed_by q = None"
    and "stage_and_scan T now q s = (Inr (), s')"
  shows "files_added (db s) (db s')"
proof -
  obtain r t where r: "insert_file q s = (r, t)" by (metis prod.exhaust)
  then have ok: "r = Inr ()" "quarantine_files (db t) = quarantine_files (db s) @ [q]" "next_id (db t) = Suc (next_id (db s))"
    using insert_file_cases [OF r] assms(4) by (auto simp: stage_and_scan_def)
  obtain m where z: "scan_and_finalize T now q (on_db (file_event now EV_DOWNLOAD_REQUESTED q m) t) = (Inr (), s')"
    using assms(4) r ok(1) by (auto simp: stage_and_scan_def)
  have k: "q_id q \<notin> q_id ` set (quarantine_files (db s))" using fresh_key [OF assms(1)] assms(2) by simp
  from scan_last [OF _ k assms(3) z] ok(2,3) assms(2) show ?thesis by (auto simp: files_added_def)
qed

lemma download_row_fields [simp]:
  "q_id (download_row now x entry data sha mime url host dec path i) = i"
  "q_reviewed_by (download_row now x entry data sha mime url host dec path i) = None"
  by (simp_all add: download_row_def)

lemma fetched_added:
  assumes "files_wf (db s)" and "process_fetched bracket_ok B T now x c entry data url s = (Inr i, s')"
  shows "files_added (db s) (db s')"
proof (cases "i = None")
  case True
  then have "db s' = db s"
    using assms(2) by (auto simp: process_fetched_def Let_def split: list.splits sum.splits option.splits prod.splits)
  then show ?thesis by (simp add: files_added_same)
next
  case False
  then obtain host dec path t u where
    t: "outside (stage_file T (cfg B) data (sha256_hex T data)) s = (Inr path, t)"
    and u: "stage_and_scan T now (download_row now x entry data (sha256_hex T data) (magic_mime T data) url host dec path
      (next_id (db t))) t = (Inr (), u)" and s': "db s' = db u"
    using assms(2) by (auto simp: process_fetched_def Let_def split: list.splits sum.splits option.splits prod.splits)
  from stage_and_scan_added [OF _ _ _ u] outside_db [OF t] assms(1) s' show ?thesis by simp
qed

lemma entry_added:
  assumes "files_wf (db s)" and "process_entry bracket_ok B T now x c entry s = (Inr i, s')"
  shows "files_added (db s) (db s')"
proof (cases "df_size_bytes entry > download_max_size_bytes (cfg B)")
  case True
  then show ?thesis using assms(2) oversized_added by (simp add: process_entry_def)
next
  case False
  obtain r t where r: "agent (fetch_download B (s_id x) (df_filename entry) c) s = (r, t)" by (metis prod.exhaust)
  have t: "db t = db s" using agent_frame [OF r] by simp
  show ?thesis
  proof (cases r)
    case (Inl e)
    then show ?thesis using False r t assms(2) by (simp add: process_entry_def files_added_same)
  next
    case (Inr p)
    then show ?thesis using False r t assms fetched_added [of t bracket_ok B T now x c entry "fst p" "snd p" i s']
      by (cases p) (simp add: process_entry_def)
  qed
qed

lemma entries_added:
  "files_wf (db s) \<Longrightarrow> process_entries bracket_ok B T now x c es s = (Inr ids, s') \<Longrightarrow> files_added (db s) (db s')"
proof (induction es arbitrary: s ids)
  case Nil
  then show ?case by (simp add: files_added_same)
next
  case (Cons e es)
  obtain i t where t: "process_entry bracket_ok B T now x c e s = (Inr i, t)"
    using Cons.prems(2) by (auto split: prod.splits sum.splits)
  obtain ids' where rest: "process_entries bracket_ok B T now x c es t = (Inr ids', s')"
    using Cons.prems(2) t by (auto split: prod.splits sum.splits)
  have a: "files_added (db s) (db t)" by (rule entry_added [OF Cons.prems(1) t])
  show ?case
    by (rule files_added_trans [OF a Cons.IH [OF files_added_wf [OF a Cons.prems(1)] rest]])
qed

lemma downloads_added:
  assumes "files_wf (db s)"
  shows "files_added (db s) (db (snd (process_new_downloads bracket_ok B T now x s)))"
proof -
  let ?c = "session_connection B x (db s)"
  obtain r t where r: "agent (list_downloads B (s_id x) ?c) s = (r, t)" by (metis prod.exhaust)
  have t: "db t = db s" using agent_frame [OF r] by simp
  show ?thesis
  proof (cases r)
    case (Inl e)
    then show ?thesis using r t by (simp add: process_new_downloads_def files_added_same)
  next
    case (Inr fs)
    obtain v u where v: "process_entries bracket_ok B T now x ?c fs t = (v, u)" by (metis prod.exhaust)
    show ?thesis
    proof (cases v)
      case (Inl e)
      then show ?thesis using r t v Inr by (simp add: process_new_downloads_def files_added_same)
    next
      case (Inr ids)
      then have "files_added (db s) (db u)" using entries_added [of t] v assms t by simp
      then show ?thesis using r t v Inr \<open>r = Inr fs\<close> by (simp add: process_new_downloads_def files_added_same)
    qed
  qed
qed

lemma poll_added:
  assumes "files_wf (db s)"
  shows "files_added (db s) (db (snd (poll_once bracket_ok B T now i s)))"
proof -
  have "snd (poll_once bracket_ok B T now i s) = s
    \<or> (\<exists>x. snd (poll_once bracket_ok B T now i s) = snd (process_new_downloads bracket_ok B T now x s))"
  proof (cases "row_get s_id i (sessions (db s))")
    case (Some x)
    then show ?thesis
      by (cases "process_new_downloads bracket_ok B T now x s")
        (auto simp: poll_once_def split: sum.split intro!: exI [of _ x])
  qed (simp add: poll_once_def)
  then show ?thesis using downloads_added [OF assms] by (auto simp: files_added_same)
qed

section \<open>Review and retention\<close>

definition files_changed :: "database \<Rightarrow> database \<Rightarrow> bool" where
  "files_changed d e \<longleftrightarrow> next_id d \<le> next_id e \<and> list_all2 file_ev (quarantine_files d) (quarantine_files e)"

lemma file_ev_refl [simp]: "file_ev q q"
  by (simp add: file_ev_def)

lemma file_ev_id: "file_ev a b \<Longrightarrow> q_id b = q_id a"
  by (auto simp: file_ev_def)

lemma file_edge_order:
  "file_edge a b \<Longrightarrow> file_edge b c \<Longrightarrow> file_edge a c"
  "file_edge a b \<Longrightarrow> file_edge b a \<Longrightarrow> a = b"
  by (cases a; cases b; cases c; simp add: file_edge_def) (cases a; cases b; simp add: file_edge_def)

lemma file_ev_trans:
  assumes "file_ev a b" and "file_ev b c"
  shows "file_ev a c"
proof (cases "a = b \<or> b = c")
  case True
  then show ?thesis using assms by auto
next
  case False
  then have e: "file_edge (q_status a) (q_status b)" "q_status a \<noteq> q_status b" "file_edge (q_status b) (q_status c)"
    using assms by (auto simp: file_ev_def)
  then have "file_edge (q_status a) (q_status c)" "q_status a \<noteq> q_status c"
    using file_edge_order by metis+
  then show ?thesis using assms False by (simp add: file_ev_def)
qed

lemma files_changed_refl:
  "quarantine_files e = quarantine_files d \<Longrightarrow> next_id d \<le> next_id e \<Longrightarrow> files_changed d e"
  by (simp add: files_changed_def list_all2_refl)

lemma files_changed_trans: "files_changed a b \<Longrightarrow> files_changed b c \<Longrightarrow> files_changed a c"
  unfolding files_changed_def using file_ev_trans by (auto intro: list_all2_trans)

lemma list_all2_related: "list_all2 R xs ys \<Longrightarrow> x \<in> set xs \<Longrightarrow> \<exists>y \<in> set ys. R x y"
  by (induction rule: list_all2_induct) auto

lemma files_changed_ids:
  "files_changed d e \<Longrightarrow> map q_id (quarantine_files e) = map q_id (quarantine_files d)"
proof -
  have "list_all2 file_ev xs ys \<Longrightarrow> map q_id ys = map q_id xs" for xs ys
    by (induction rule: list_all2_induct) (auto simp: file_ev_id)
  then show "files_changed d e \<Longrightarrow> map q_id (quarantine_files e) = map q_id (quarantine_files d)"
    by (simp add: files_changed_def)
qed

lemma files_changed_wf:
  assumes "files_changed d e" and "files_wf d"
  shows "files_wf e"
proof -
  have i: "map q_id (quarantine_files e) = map q_id (quarantine_files d)" by (rule files_changed_ids [OF assms(1)])
  have "list_all (\<lambda>k. k < next_id e) (map q_id (quarantine_files d))"
    using assms by (auto simp: files_changed_def files_wf_def list_all_iff)
  then have "list_all (\<lambda>q. q_id q < next_id e) (quarantine_files e)"
    unfolding i [symmetric] by (simp add: list.pred_map o_def)
  then show ?thesis using assms(2) i by (simp add: files_wf_def distinct_keys_def)
qed

lemma the_row:
  "files_wf d \<Longrightarrow> row_get q_id k (quarantine_files d) = Some q \<Longrightarrow> r \<in> set (quarantine_files d) \<Longrightarrow> q_id r = k \<Longrightarrow> r = q"
  by (simp add: files_wf_def row_get_Some) (metis distinct_keys_eq)

lemma set_file_changed:
  assumes "files_wf d" and "row_get q_id k (quarantine_files d) = Some q" and "file_ev q (f q)"
  shows "list_all2 file_ev (quarantine_files d) (quarantine_files (set_file k f d))"
  using the_row [OF assms(1,2)] assms(3)
  by (auto simp: set_file_def row_update_def list.rel_map intro!: list.rel_refl_strong)

text \<open>What a review does to the table.\<close>

lemma review_changed:
  assumes "files_wf d" and "row_get q_id k (quarantine_files d) = Some q"
    and "release_file now q reviewer comment d = (Inr (), e) \<or> reject_file now q reviewer comment d = (Inr (), e)"
  shows "files_changed d e"
proof -
  have k: "q_id q = k" using assms(2) by (auto dest: row_get_SomeD)
  obtain t m st where st: "q_status q = QS_QUARANTINED" "st \<in> {QS_RELEASED, QS_REJECTED}"
    and e: "e = file_event now t q m (set_file (q_id q) (reviewed now st reviewer comment) d)"
    using assms(3) by (auto simp: release_file_def reject_file_def split: if_splits)
  have "file_ev q (reviewed now st reviewer comment q)"
    using st by (auto simp: file_ev_def reviewed_def file_edge_def)
  then have "list_all2 file_ev (quarantine_files d) (quarantine_files (set_file k (reviewed now st reviewer comment) d))"
    by (rule set_file_changed [OF assms(1,2)])
  then show ?thesis unfolding e k by (simp add: files_changed_def)
qed

lemma with_file_changed:
  assumes "files_wf d" and "\<And>q e. row_get q_id k (quarantine_files d) = Some q \<Longrightarrow> f q d = (Inr (), e) \<Longrightarrow> files_changed d e"
  shows "files_changed d (snd (with_file f k d))"
  using assms
  by (auto simp: with_file_def not_found_def respond_db files_changed_refl split: option.split sum.split)
    (metis prod.collapse)

lemma expire_changed:
  assumes "files_wf d" and "row_get q_id (q_id q) (quarantine_files d) = Some q"
    and "q_status q \<in> {QS_RELEASED, QS_QUARANTINED, QS_REJECTED}"
  shows "files_changed d (expire_row now q d)"
proof -
  let ?m = "Some [(''original_name'', JStr (q_original_name q)), (''sha256'', JStr (q_sha256 q)),
                 (''previous_status'', JStr (quarantine_status_value (q_status q))), (''expired_at'', JInt now)]"
  let ?d = "file_event now EV_QUARANTINE_FILE_RETENTION_EXPIRED q ?m d"
  have "files_wf ?d" using assms(1) by (auto simp: files_wf_def list_all_iff)
  moreover have "file_ev q (scrub q)" using assms(3) by (auto simp: file_ev_def scrub_def file_edge_def)
  ultimately have "list_all2 file_ev (quarantine_files ?d) (quarantine_files (set_file (q_id q) scrub ?d))"
    using assms(2) by (intro set_file_changed) simp_all
  then show ?thesis by (simp add: expire_row_def files_changed_def)
qed

lemma delete_one_cases:
  "delete_one T now q s = s
   \<or> (\<exists>r w. fs_remove T (the (q_storage_object_id q)) (world s) = (Remove_failed r, w) \<and> delete_one T now q s = s\<lparr>world := w\<rparr>
        \<and> \<not> other_live_rows_share_hash (q_sha256 q) (q_id q) (db s))
   \<or> (\<not> has_open_incident (q_id q) (db s)
      \<and> (delete_one T now q s = on_db (expire_row now q) s
         \<or> (\<exists>r w. fs_remove T (the (q_storage_object_id q)) (world s) = (r, w) \<and> truthy (q_storage_object_id q)
              \<and> \<not> other_live_rows_share_hash (q_sha256 q) (q_id q) (db s)
              \<and> delete_one T now q s = on_db (expire_row now q) (s\<lparr>world := w\<rparr>))))"
  by (auto simp: delete_one_def outside_def split: prod.splits remove_result.splits)

lemma delete_one_changed:
  assumes "files_wf (db s)" and "row_get q_id (q_id q) (quarantine_files (db s)) = Some q"
    and "q_status q \<in> {QS_RELEASED, QS_QUARANTINED, QS_REJECTED}"
  shows "files_changed (db s) (db (delete_one T now q s))"
  using delete_one_cases [of T now q s] expire_changed [OF assms] by (auto simp: files_changed_refl)

text \<open>Other rows stay as they were.\<close>

lemma scrub_id [simp]: "q_id (scrub q) = q_id q"
  by (simp add: scrub_def)

lemma delete_one_other:
  assumes "row_get q_id k (quarantine_files (db s)) = Some r" and "k \<noteq> q_id q"
  shows "row_get q_id k (quarantine_files (db (delete_one T now q s))) = Some r"
proof -
  have "row_get q_id k (quarantine_files (expire_row now q d)) = row_get q_id k (quarantine_files d)" for d
    using assms(2) by (simp add: expire_row_def set_file_def tbl)
  then show ?thesis using delete_one_cases [of T now q s] assms(1) by auto
qed

lemma retention_changed:
  assumes "files_wf (db s)" and "distinct (map q_id qs)"
    and "\<And>q. q \<in> set qs \<Longrightarrow> row_get q_id (q_id q) (quarantine_files (db s)) = Some q
      \<and> q_status q \<in> {QS_RELEASED, QS_QUARANTINED, QS_REJECTED}"
  shows "files_changed (db s) (db (fold (delete_one T now) qs s))"
  using assms
proof (induction qs arbitrary: s)
  case Nil
  then show ?case by (simp add: files_changed_refl)
next
  case (Cons q qs)
  let ?t = "delete_one T now q s"
  have a: "files_changed (db s) (db ?t)" by (rule delete_one_changed) (use Cons.prems in auto)
  have "files_changed (db ?t) (db (fold (delete_one T now) qs ?t))"
  proof (rule Cons.IH [OF files_changed_wf [OF a Cons.prems(1)]])
    show "distinct (map q_id qs)" using Cons.prems(2) by simp
  next
    fix r assume r: "r \<in> set qs"
    have "q_id q \<notin> q_id ` set qs" using Cons.prems(2) by simp
    then have "q_id r \<noteq> q_id q" using r by (metis imageI)
    then show "row_get q_id (q_id r) (quarantine_files (db ?t)) = Some r
      \<and> q_status r \<in> {QS_RELEASED, QS_QUARANTINED, QS_REJECTED}"
      using delete_one_other Cons.prems(3) r by (metis list.set_intros(2))
  qed
  then show ?case using files_changed_trans [OF a] by simp
qed

lemma expired_rows:
  assumes "files_wf d" and "q \<in> set (filter (expired st now) (quarantine_files d))"
  shows "row_get q_id (q_id q) (quarantine_files d) = Some q \<and> q_status q \<in> {QS_RELEASED, QS_QUARANTINED, QS_REJECTED}"
  using assms by (auto simp: files_wf_def row_get_Some expired_def)

lemma retention_once_changed:
  assumes "files_wf (db s)"
  shows "files_changed (db s) (db (retention_once B T now s))"
  unfolding retention_once_def
  by (rule retention_changed [OF assms])
    (use assms expired_rows [OF assms] in \<open>auto simp: files_wf_def distinct_keys_def distinct_map_filter\<close>)

section \<open>Runs\<close>

inductive file_step :: "(string \<Rightarrow> bool) \<Rightarrow> 'w backend \<Rightarrow> 'w tools \<Rightarrow> 'w sys \<Rightarrow> 'w sys \<Rightarrow> bool" for bracket_ok B T where
  poll: "file_step bracket_ok B T s (snd (poll_once bracket_ok B T now i s))"
| upload: "file_step bracket_ok B T s (snd (upload_file bracket_ok B T now i user filename body s))"
| release: "file_step bracket_ok B T s (s\<lparr>db := snd (release_quarantine_file now reviewer comment i (db s))\<rparr>)"
| reject: "file_step bracket_ok B T s (s\<lparr>db := snd (reject_quarantine_file now reviewer comment i (db s))\<rparr>)"
| token_requested: "file_step bracket_ok B T s (snd (request_download_token T i user s))"
| token_used: "file_step bracket_ok B T s (snd (download_with_token T tok user s))"
| retention: "file_step bracket_ok B T s (retention_once B T now s)"
| incident: "file_step bracket_ok B T s
    (s\<lparr>db := snd (update_incident_endpoint now i st assignee res (db s))\<rparr>)"

inductive file_run :: "(string \<Rightarrow> bool) \<Rightarrow> 'w backend \<Rightarrow> 'w tools \<Rightarrow> 'w sys \<Rightarrow> 'w sys \<Rightarrow> bool" for bracket_ok B T where
  file_run_refl: "file_run bracket_ok B T s s"
| file_run_step: "file_run bracket_ok B T s t \<Longrightarrow> file_step bracket_ok B T t u \<Longrightarrow> file_run bracket_ok B T s u"

text \<open>Uploads, tokens and incident edits leave the table of files alone.\<close>

definition files_kept :: "database \<Rightarrow> database \<Rightarrow> bool" where
  "files_kept d e \<longleftrightarrow> quarantine_files e = quarantine_files d \<and> next_id d \<le> next_id e"

lemma upload_event_kept: "files_kept d (upload_event now t x f sha m d)"
  by (simp add: files_kept_def upload_event_def)

lemma block_kept: "files_kept (db s) (db (snd (block_by_policy now x f sha act s)))"
proof -
  let ?d = "upload_event now EV_UPLOAD_BLOCKED x f sha [(''reason'', JStr (''policy '' @ file_action_value act))] (db s)"
  obtain r e where c: "check_repeated_policy_violations now (s_user_id x) ?d = (r, e)" by (metis prod.exhaust)
  show ?thesis
    using check_files [OF c] check_next_id [OF c] upload_event_kept [of "db s"] c
    by (cases r) (auto simp: block_by_policy_def files_kept_def upload_event_def)
qed

lemma place_kept: "files_kept (db s) (db (snd (place_upload B now x f data sha mime s)))"
proof -
  obtain r t where r: "agent (write_upload B (s_id x) f data (session_connection B x (db s))) s = (r, t)"
    by (metis prod.exhaust)
  show ?thesis using agent_frame [OF r] r
    by (cases r) (simp_all add: place_upload_def files_kept_def upload_event_def)
qed

lemma process_upload_kept: "files_kept (db s) (db (snd (process_upload bracket_ok B T now x f data s)))"
proof (cases "evaluate_file_action bracket_ok (db s) (s_user_id x)
    \<lparr> declared_mime = None, detected_mime = Some (magic_mime T data), extension = file_extension f,
      size_bytes = int (length data), source_hostname = None \<rparr>")
  case None
  then show ?thesis by (simp add: process_upload_def Let_def files_kept_def)
next
  case (Some dec)
  show ?thesis
  proof (cases "action dec \<in> {FA_DENY, FA_QUARANTINE}")
    case True
    then show ?thesis using Some block_kept by (simp add: process_upload_def Let_def)
  next
    case False
    obtain r t where r: "outside (scan (Files.clamd T) data) s = (r, t)" by (metis prod.exhaust)
    have t: "db t = db s" by (rule outside_db [OF r])
    show ?thesis
    proof (cases r)
      case (Inl e)
      then show ?thesis using Some False r t
        by (cases e) (simp_all add: process_upload_def Let_def files_kept_def upload_event_def)
    next
      case (Inr v)
      show ?thesis
      proof (cases "sr_infected v")
        case True
        then show ?thesis using Some False r t Inr
          by (simp add: process_upload_def Let_def files_kept_def upload_event_def)
      next
        case nf: False
        have "process_upload bracket_ok B T now x f data s
            = place_upload B now x f data (sha256_hex T data) (magic_mime T data) t"
          using Some False r Inr nf by (simp add: process_upload_def Let_def)
        then show ?thesis using place_kept [of t] t by simp
      qed
    qed
  qed
qed

lemma upload_file_kept: "files_kept (db s) (db (snd (upload_file bracket_ok B T now i user f body s)))"
proof -
  have "snd (upload_file bracket_ok B T now i user f body s) = s
    \<or> (\<exists>x g. snd (upload_file bracket_ok B T now i user f body s) = snd (process_upload bracket_ok B T now x g body s))"
    by (auto simp: upload_file_def split: sum.split prod.split upload_result.split) (metis snd_conv)+
  then show ?thesis
  proof
    assume "\<exists>x g. snd (upload_file bracket_ok B T now i user f body s) = snd (process_upload bracket_ok B T now x g body s)"
    then obtain x g where "snd (upload_file bracket_ok B T now i user f body s)
      = snd (process_upload bracket_ok B T now x g body s)" by blast
    then show ?thesis using process_upload_kept [of s bracket_ok B T now x g body] by simp
  qed (simp add: files_kept_def)
qed

lemma tokens_kept:
  "db (snd (request_download_token T i user s)) = db s"
  "db (snd (download_with_token T tok user s)) = db s"
  by (auto simp: request_download_token_def download_with_token_def outside_def
      split: sum.split prod.split option.split bool.split)

lemma incident_kept: "files_kept d (snd (update_incident_endpoint now i st assignee res d))"
  by (auto simp: update_incident_endpoint_def update_incident_def not_found_def respond_db Let_def files_kept_def
      split: option.split sum.split)

text \<open>Every step either adds rows or changes rows along the edges.\<close>

lemma file_step_cases:
  assumes "file_step bracket_ok B T s s'" and "files_wf (db s)"
  shows "files_added (db s) (db s') \<or> files_changed (db s) (db s')"
proof -
  have kept: "files_kept d e \<Longrightarrow> files_added d e" for d e
    by (simp add: files_kept_def files_added_same)
  from assms(1) show ?thesis
  proof cases
    case poll
    then show ?thesis using poll_added [OF assms(2)] by blast
  next
    case upload
    then show ?thesis using kept [OF upload_file_kept] by blast
  next
    case (release now reviewer comment i)
    have "files_changed (db s) (snd (release_quarantine_file now reviewer comment i (db s)))"
      unfolding release_quarantine_file_def
      by (rule with_file_changed [OF assms(2)]) (rule review_changed [OF assms(2)], auto)
    then show ?thesis unfolding release by simp
  next
    case (reject now reviewer comment i)
    have "files_changed (db s) (snd (reject_quarantine_file now reviewer comment i (db s)))"
      unfolding reject_quarantine_file_def
      by (rule with_file_changed [OF assms(2)]) (rule review_changed [OF assms(2)], auto)
    then show ?thesis unfolding reject by simp
  next
    case token_requested
    then show ?thesis using tokens_kept(1) [of T] by (simp add: files_added_same)
  next
    case token_used
    then show ?thesis using tokens_kept(2) [of T] by (simp add: files_added_same)
  next
    case retention
    then show ?thesis using retention_once_changed [OF assms(2)] by blast
  next
    case incident
    then show ?thesis using kept [OF incident_kept] by simp
  qed
qed

lemma file_step_wf: "file_step bracket_ok B T s s' \<Longrightarrow> files_wf (db s) \<Longrightarrow> files_wf (db s')"
  using file_step_cases files_added_wf files_changed_wf by blast

text \<open>
  C16. No file is released uncleared: along every run of polling, uploading, reviewing, fetching,
  incident work and retention, every RELEASED file was either found clean by the scanner under a
  policy decision AUTO_RELEASE, or released by a reviewer whose identity the row records.
\<close>

theorem released_files_were_cleared:
  assumes "file_run bracket_ok B T s s'" and "files_wf (db s)" and "list_all cleared (quarantine_files (db s))"
  shows "files_wf (db s') \<and> list_all cleared (quarantine_files (db s'))"
  using assms
proof (induction rule: file_run.induct)
  case (file_run_step s t u)
  then have t: "files_wf (db t)" "list_all cleared (quarantine_files (db t))" by auto
  have ev: "list_all cleared xs \<Longrightarrow> list_all2 file_ev xs ys \<Longrightarrow> list_all cleared ys" for xs ys
    by (rotate_tac, induction rule: list_all2_induct) (auto simp: file_ev_def cleared_def)
  from file_step_cases [OF file_run_step.hyps(2) t(1)] have "list_all cleared (quarantine_files (db u))"
  proof
    assume "files_added (db t) (db u)"
    then show ?thesis using t(2) by (auto simp: files_added_def new_file_def list_all_iff)
  next
    assume "files_changed (db t) (db u)"
    then show ?thesis using ev [OF t(2)] by (simp add: files_changed_def)
  qed
  then show ?case using file_step_wf [OF file_run_step.hyps(2) t(1)] by blast
qed simp

text \<open>
  A file's row follows its state machine and keeps its identity: in one step a QUARANTINED file may
  become RELEASED, REJECTED or DELETED, a RELEASED or REJECTED one DELETED, nothing else; a DELETED row
  never changes again, and the content hash, the owner, the session, the scanner's verdict and the
  policy decision are never rewritten.
\<close>

theorem files_follow_their_states:
  assumes "file_step bracket_ok B T s s'" and "files_wf (db s)"
    and "row_get q_id k (quarantine_files (db s)) = Some a"
  shows "\<exists>b. row_get q_id k (quarantine_files (db s')) = Some b
    \<and> file_edge (q_status a) (q_status b) \<and> (q_status a = QS_DELETED \<longrightarrow> b = a)
    \<and> q_sha256 b = q_sha256 a \<and> q_user_id b = q_user_id a \<and> q_session_id b = q_session_id a
    \<and> q_scanner_status b = q_scanner_status a \<and> q_policy_action b = q_policy_action a"
proof -
  have wf: "files_wf (db s')" by (rule file_step_wf [OF assms(1,2)])
  have a: "a \<in> set (quarantine_files (db s))" "q_id a = k" using row_get_SomeD [OF assms(3)] by auto
  have "\<exists>b \<in> set (quarantine_files (db s')). file_ev a b"
    using file_step_cases [OF assms(1,2)]
  proof
    assume "files_added (db s) (db s')"
    then have "a \<in> set (quarantine_files (db s'))" using a(1) by (auto simp: files_added_def)
    then show ?thesis using file_ev_refl by blast
  next
    assume "files_changed (db s) (db s')"
    then have "list_all2 file_ev (quarantine_files (db s)) (quarantine_files (db s'))"
      by (simp add: files_changed_def)
    then show ?thesis using a(1) by (rule list_all2_related)
  qed
  then obtain b where b: "b \<in> set (quarantine_files (db s'))" "file_ev a b" by blast
  then have "row_get q_id k (quarantine_files (db s')) = Some b"
    using wf a(2) file_ev_id [OF b(2)] by (simp add: files_wf_def row_get_Some)
  then show ?thesis using b(2) by (auto simp: file_ev_def file_edge_def)
qed

end
