(* ===== verification/File_Safety.thy ===== *)
theory File_Safety
  imports File_Guarantees
begin

text \<open>
  Safety of the transfers themselves: what it takes for an upload to reach the sandbox, for a
  released file to be served, for bytes to be removed by retention, and what ends the poll loop.
\<close>

section \<open>Uploads\<close>

text \<open>The two verdicts an upload needs: AUTO_RELEASE from the policy and a clean scan.\<close>

definition upload_cleared ::
  "(string \<Rightarrow> bool) \<Rightarrow> 'w tools \<Rightarrow> browser_session \<Rightarrow> string \<Rightarrow> bytes \<Rightarrow> 'w sys \<Rightarrow> bool" where
  "upload_cleared bracket_ok T x filename data s \<longleftrightarrow>
     map_option action (evaluate_file_action bracket_ok (db s) (s_user_id x)
       \<lparr> declared_mime = None, detected_mime = Some (magic_mime T data), extension = file_extension filename,
         size_bytes = int (length data), source_hostname = None \<rparr>) = Some FA_AUTO_RELEASE
     \<and> (case scan (clamd T) data (world s) of (Inr r, _) \<Rightarrow> \<not> sr_infected r | _ \<Rightarrow> False)"

lemma block_not_uploaded: "fst (block_by_policy now x f sha act s) \<noteq> Uploaded"
  by (auto simp: block_by_policy_def split: sum.split prod.split)

lemma process_upload_blocked:
  assumes "\<not> upload_cleared bracket_ok T x f data s"
  shows "process_upload bracket_ok (B\<lparr>http_write_upload := send\<rparr>) T now x f data s = process_upload bracket_ok B T now x f data s
    \<and> fst (process_upload bracket_ok B T now x f data s) \<noteq> Uploaded"
proof (cases "evaluate_file_action bracket_ok (db s) (s_user_id x)
    \<lparr> declared_mime = None, detected_mime = Some (magic_mime T data), extension = file_extension f,
      size_bytes = int (length data), source_hostname = None \<rparr>")
  case None
  then show ?thesis by (simp add: process_upload_def Let_def)
next
  case (Some dec)
  show ?thesis
  proof (cases "action dec \<in> {FA_DENY, FA_QUARANTINE}")
    case True
    then show ?thesis using Some block_not_uploaded by (simp add: process_upload_def Let_def)
  next
    case False
    then have "action dec = FA_AUTO_RELEASE" by (cases "action dec") simp_all
    moreover obtain r w where w: "scan (clamd T) data (world s) = (r, w)" by (metis prod.exhaust)
    moreover have "\<not> (case r of Inr v \<Rightarrow> \<not> sr_infected v | _ \<Rightarrow> False)"
      using assms Some calculation by (simp add: upload_cleared_def)
    ultimately show ?thesis using Some
      by (cases r) (auto simp: process_upload_def Let_def outside_def split: service_error.split)
  qed
qed

text \<open>
  C11. Nothing reaches a sandbox unchecked: unless the policy of the session's user answers AUTO_RELEASE
  for the detected type of the bytes and clamd finds them clean, an upload is refused, and it does not
  matter what the agent's upload route would do with the bytes, because it is not called. Nor is it
  for a session that is not the user's own, not ACTIVE, or for a body over the limit of 50 MB.
\<close>

theorem uploads_are_cleared_first:
  assumes "case row_get s_id i (sessions (db s)) of None \<Rightarrow> True | Some x \<Rightarrow>
      s_user_id x \<noteq> user \<or> s_status x \<noteq> SS_ACTIVE \<or> length body > MAX_UPLOAD_BYTES
      \<or> \<not> upload_cleared bracket_ok T x (if truthy filename then the filename else ''upload.bin'') body s"
  shows "upload_file bracket_ok (B\<lparr>http_write_upload := send\<rparr>) T now i user filename body s
      = upload_file bracket_ok B T now i user filename body s
    \<and> isl (fst (upload_file bracket_ok B T now i user filename body s))"
proof (cases "get_own_session_or_404 (db s) i user")
  case (Inl e)
  then show ?thesis by (simp add: upload_file_def)
next
  case (Inr x)
  then have x: "row_get s_id i (sessions (db s)) = Some x" "s_user_id x = user"
    by (auto simp: get_own_session_or_404_def split: option.splits if_splits)
  show ?thesis
  proof (cases "s_status x \<noteq> SS_ACTIVE \<or> length body > MAX_UPLOAD_BYTES")
    case True
    then show ?thesis using Inr by (auto simp: upload_file_def min_def)
  next
    case False
    let ?f = "if truthy filename then the filename else ''upload.bin''"
    have "\<not> upload_cleared bracket_ok T x ?f body s" using assms x False by auto
    from process_upload_blocked [OF this, where B = B and send = send and now = now] show ?thesis
      using Inr False
      by (cases "process_upload bracket_ok B T now x ?f body s")
        (simp add: upload_file_def split: upload_result.split)
  qed
qed

section \<open>Download tokens\<close>

text \<open>
  C18. Only released files are handed out, only to the user the token was made for: what a token is
  exchanged for is the stored object of a file that is RELEASED at that moment, that the claim kept
  under the token names, and whose bytes exist; the database does not change.
\<close>

theorem served_files_are_released:
  assumes "download_with_token T tok user s = (Inr (path, name), s')"
  shows "\<exists>w q. consume_token T tok (world s) = (Some \<lparr> tc_file = q_id q, tc_user = user \<rparr>, w)
    \<and> row_get q_id (q_id q) (quarantine_files (db s)) = Some q \<and> q_status q = QS_RELEASED
    \<and> q_storage_object_id q = Some path \<and> q_original_name q = name
    \<and> fst (fs_exists T path w) \<and> db s' = db s"
proof -
  obtain claim w where c: "consume_token T tok (world s) = (Some claim, w)" "tc_user claim = user"
    and r: "case row_get q_id (tc_file claim) (quarantine_files (db s)) of
      None \<Rightarrow> False
    | Some q \<Rightarrow> q_status q = QS_RELEASED \<and> truthy (q_storage_object_id q) \<and> the (q_storage_object_id q) = path
        \<and> q_original_name q = name \<and> fst (fs_exists T path w) \<and> db s' = db s"
    using assms
    by (auto simp: download_with_token_def outside_def split: prod.splits option.splits if_splits bool.splits)
  then obtain q where q: "row_get q_id (tc_file claim) (quarantine_files (db s)) = Some q" "q_status q = QS_RELEASED"
      "truthy (q_storage_object_id q)" "the (q_storage_object_id q) = path" "q_original_name q = name"
      "fst (fs_exists T path w)" "db s' = db s"
    by (auto split: option.splits)
  have k: "q_id q = tc_file claim" using q(1) by (auto dest: row_get_SomeD)
  then have "claim = \<lparr> tc_file = q_id q, tc_user = user \<rparr>" using c(2) by (cases claim) simp
  moreover have "q_storage_object_id q = Some path" using q(3,4) by (auto simp: truthy_def split: option.splits)
  ultimately show ?thesis using c(1) q k by (intro exI [of _ w] exI [of _ q]) simp
qed

text \<open>
  A token is good for one use: if Redis removes a key with GETDEL, then after a token was presented
  once, whoever presented it and whatever came of it, presenting it again is answered with 401.
\<close>

theorem tokens_are_single_use:
  assumes "\<And>k w. fst (redis_getdel T k (snd (redis_getdel T k w))) = None"
    and "\<And>k p w. fst (redis_getdel T k (snd (fs_exists T p w))) = fst (redis_getdel T k w)"
    and "download_with_token T tok user s = (r, t)"
  shows "fst (download_with_token T tok user' t) = Inl (401, ''invalid or expired download token'')"
proof -
  have "world t = snd (consume_token T tok (world s))
      \<or> (\<exists>p. world t = snd (fs_exists T p (snd (consume_token T tok (world s)))))"
    using assms(3)
    by (auto simp: download_with_token_def outside_def split: prod.splits option.splits if_splits bool.splits)
      (metis snd_conv)+
  then have "fst (consume_token T tok (world t)) = None"
    using assms(1,2) by (auto simp: consume_token_def)
  then show ?thesis
    by (cases "consume_token T tok (world t)") (simp add: download_with_token_def outside_def)
qed

text \<open>
  What is asked for is what is served: the owner of a RELEASED file whose bytes exist gets a token,
  and exchanging it answers with that file's stored object and name, provided Redis returns what was
  stored under a key and neither Redis nor the token generator removes staged files.
\<close>

theorem released_file_reaches_its_owner:
  assumes "\<And>k v ttl w. fst (redis_getdel T k (redis_set T k v ttl w)) = Some v"
    and "\<And>w. fst (fs_exists T path w) \<Longrightarrow> fst (fs_exists T path (snd (token_urlsafe T w)))"
    and "\<And>k v ttl w. fst (fs_exists T path w) \<Longrightarrow> fst (fs_exists T path (redis_set T k v ttl w))"
    and "\<And>k w. fst (fs_exists T path w) \<Longrightarrow> fst (fs_exists T path (snd (redis_getdel T k w)))"
    and "fst (fs_exists T path (world s))"
    and "row_get q_id i (quarantine_files (db s)) = Some q" and "q_user_id q = user"
    and "q_status q = QS_RELEASED" and "q_storage_object_id q = Some path" and "path \<noteq> []"
  shows "\<exists>tok t. request_download_token T i user s = (Inr tok, t)
    \<and> fst (download_with_token T tok user t) = Inr (path, q_original_name q)"
proof -
  obtain tok w where w: "token_urlsafe T (world s) = (tok, w)" by (metis prod.exhaust)
  have i: "q_id q = i" using assms(6) by (auto dest: row_get_SomeD)
  let ?c = "\<lparr> tc_file = i, tc_user = user \<rparr>"
  let ?w = "redis_set T (''release_token:'' @ tok) ?c TOKEN_TTL_SECONDS w"
  have req: "request_download_token T i user s = (Inr tok, s\<lparr>world := ?w\<rparr>)"
    using assms(6-8) w i
    by (simp add: request_download_token_def get_own_file_or_404_def outside_def create_token_def Let_def)
  obtain v where v: "consume_token T tok ?w = (Some ?c, v)"
    using assms(1) by (metis consume_token_def prod.collapse)
  have "fst (fs_exists T path ?w)" using assms(2) [OF assms(5)] w assms(3) by simp
  then have "fst (fs_exists T path v)" using assms(4) v unfolding consume_token_def by (metis snd_conv)
  then obtain u where u: "fs_exists T path v = (True, u)" by (metis prod.collapse)
  have "fst (download_with_token T tok user (s\<lparr>world := ?w\<rparr>)) = Inr (path, q_original_name q)"
    using v u assms(6,8-10) by (simp add: download_with_token_def outside_def truthy_def)
  then show ?thesis using req by blast
qed

section \<open>Retention\<close>

text \<open>The rows that still count: those not yet marked DELETED. Rows with one path have one content.\<close>

definition live :: "quarantine_file \<Rightarrow> bool" where
  "live q \<longleftrightarrow> q_status q \<noteq> QS_DELETED"

definition content_addressed :: "database \<Rightarrow> bool" where
  "content_addressed d \<longleftrightarrow> (\<forall>q \<in> set (quarantine_files d). \<forall>r \<in> set (quarantine_files d).
     live q \<longrightarrow> live r \<longrightarrow> truthy (q_storage_object_id q) \<longrightarrow> q_storage_object_id r = q_storage_object_id q
     \<longrightarrow> q_sha256 r = q_sha256 q)"

definition bytes_kept :: "(string \<Rightarrow> 'w \<Rightarrow> bool) \<Rightarrow> 'w \<Rightarrow> 'w sys \<Rightarrow> bool" where
  "bytes_kept present w s \<longleftrightarrow> (\<forall>q \<in> set (quarantine_files (db s)). \<forall>p. live q \<longrightarrow> q_storage_object_id q = Some p
     \<longrightarrow> p \<noteq> [] \<longrightarrow> present p w \<longrightarrow> present p (world s))"

lemma expire_row_rows:
  "r \<in> set (quarantine_files (expire_row now q d)) \<Longrightarrow> live r \<Longrightarrow> r \<in> set (quarantine_files d) \<and> q_id r \<noteq> q_id q"
  by (auto simp: expire_row_def set_file_def row_update_def live_def scrub_def split: if_splits)

lemma expire_row_incidents [simp]: "incidents (expire_row now q d) = incidents d"
  by (simp add: expire_row_def)

lemma delete_one_incidents [simp]: "incidents (db (delete_one T now q s)) = incidents (db s)"
  using delete_one_cases [of T now q s] by auto

lemma delete_one_rows:
  "r \<in> set (quarantine_files (db (delete_one T now q s))) \<Longrightarrow> live r \<Longrightarrow> r \<in> set (quarantine_files (db s))"
  using delete_one_cases [of T now q s] expire_row_rows by fastforce

lemma delete_one_addressed: "content_addressed (db s) \<Longrightarrow> content_addressed (db (delete_one T now q s))"
  using delete_one_rows unfolding content_addressed_def by blast

lemma delete_one_bytes:
  assumes remove: "\<And>p p' r v v'. fs_remove T p v = (r, v') \<Longrightarrow> p' \<noteq> p \<or> (\<exists>m. r = Remove_failed m)
      \<Longrightarrow> present p' v \<Longrightarrow> present p' v'"
    and k: "bytes_kept present w s" and c: "content_addressed (db s)"
    and q: "q \<in> set (quarantine_files (db s))" "live q"
  shows "bytes_kept present w (delete_one T now q s)"
proof -
  let ?t = "delete_one T now q s"
  have "present p (world ?t)"
    if r: "r \<in> set (quarantine_files (db ?t))" "live r" "q_storage_object_id r = Some p" "p \<noteq> []" "present p w" for r p
  proof -
    have old: "r \<in> set (quarantine_files (db s))" by (rule delete_one_rows [OF r(1,2)])
    then have here: "present p (world s)" using k r by (auto simp: bytes_kept_def)
    from delete_one_cases [of T now q s] show ?thesis
    proof (elim disjE exE conjE)
      fix m v assume "fs_remove T (the (q_storage_object_id q)) (world s) = (Remove_failed m, v)" "?t = s\<lparr>world := v\<rparr>"
      then show ?thesis using remove here by auto
    next
      fix m v
      assume f: "fs_remove T (the (q_storage_object_id q)) (world s) = (m, v)" "truthy (q_storage_object_id q)"
        and others: "\<not> other_live_rows_share_hash (q_sha256 q) (q_id q) (db s)"
        and t: "?t = on_db (expire_row now q) (s\<lparr>world := v\<rparr>)"
      have "q_id r \<noteq> q_id q" using expire_row_rows r(1,2) t by simp
      then have "q_sha256 r \<noteq> q_sha256 q"
        using others old r(2) by (auto simp: other_live_rows_share_hash_def list_ex_iff live_def)
      then have "q_storage_object_id r \<noteq> q_storage_object_id q"
        using c old q r(2) f(2) unfolding content_addressed_def by blast
      then have "p \<noteq> the (q_storage_object_id q)" using r(3) f(2) by (auto simp: truthy_def split: option.splits)
      then show ?thesis using remove [OF f(1)] here t by (simp add: on_db_def)
    qed (use here in \<open>simp_all add: on_db_def\<close>)
  qed
  then show ?thesis unfolding bytes_kept_def by blast
qed

lemma retention_bytes:
  assumes remove: "\<And>p p' r v v'. fs_remove T p v = (r, v') \<Longrightarrow> p' \<noteq> p \<or> (\<exists>m. r = Remove_failed m)
      \<Longrightarrow> present p' v \<Longrightarrow> present p' v'"
    and "bytes_kept present w s" and "content_addressed (db s)" and "distinct (map q_id qs)"
    and "\<And>q. q \<in> set qs \<Longrightarrow> row_get q_id (q_id q) (quarantine_files (db s)) = Some q \<and> live q"
  shows "bytes_kept present w (fold (delete_one T now) qs s)"
  using assms(2-)
proof (induction qs arbitrary: s)
  case (Cons q qs)
  let ?t = "delete_one T now q s"
  have q: "q \<in> set (quarantine_files (db s))" "live q" using Cons.prems(4) by (auto dest: row_get_SomeD)
  have "bytes_kept present w (fold (delete_one T now) qs ?t)"
  proof (rule Cons.IH)
    show "bytes_kept present w ?t"
      by (rule delete_one_bytes [of T present w s q now]) (use remove Cons.prems q in auto)
    show "content_addressed (db ?t)" by (rule delete_one_addressed [OF Cons.prems(2)])
    show "distinct (map q_id qs)" using Cons.prems(3) by simp
  next
    fix r assume r: "r \<in> set qs"
    have "q_id q \<notin> q_id ` set qs" using Cons.prems(3) by simp
    then have "q_id r \<noteq> q_id q" using r by (metis imageI)
    then show "row_get q_id (q_id r) (quarantine_files (db ?t)) = Some r \<and> live r"
      using delete_one_other Cons.prems(4) r by (metis list.set_intros(2))
  qed
  then show ?case by simp
qed simp

text \<open>
  C17. Retention never takes away bytes somebody may still be given: when the cycle ends, the stored
  object of every file that is not DELETED, if it was there before, is there, although files with
  the same content share it and the cycle removes objects of expired files; and no file named by an
  open incident is touched, however old.
\<close>

theorem retention_keeps_shared_bytes:
  assumes "\<And>p p' r v v'. fs_remove T p v = (r, v') \<Longrightarrow> p' \<noteq> p \<or> (\<exists>m. r = Remove_failed m)
      \<Longrightarrow> present p' v \<Longrightarrow> present p' v'"
    and "files_wf (db s)" and "content_addressed (db s)"
  shows "bytes_kept present (world s) (retention_once B T now s)
    \<and> (\<forall>k q. row_get q_id k (quarantine_files (db s)) = Some q \<longrightarrow> has_open_incident k (db s)
        \<longrightarrow> row_get q_id k (quarantine_files (db (retention_once B T now s))) = Some q)"
proof
  let ?qs = "filter (expired (cfg B) now) (quarantine_files (db s))"
  have d: "distinct (map q_id ?qs)" using assms(2) by (simp add: files_wf_def distinct_keys_def distinct_map_filter)
  have rows: "row_get q_id (q_id q) (quarantine_files (db s)) = Some q \<and> live q" if "q \<in> set ?qs" for q
    using expired_rows [OF assms(2) that] by (auto simp: live_def)
  show "bytes_kept present (world s) (retention_once B T now s)"
    unfolding retention_once_def
    by (rule retention_bytes [of T present "world s" s ?qs now]) (use assms rows d in \<open>auto simp: bytes_kept_def\<close>)
  have "row_get q_id k (quarantine_files (db (fold (delete_one T now) qs t))) = Some q"
    if "row_get q_id k (quarantine_files (db t)) = Some q" "has_open_incident k (db t)" for k q qs t
    using that
  proof (induction qs arbitrary: t)
    case (Cons r qs)
    have "row_get q_id k (quarantine_files (db (delete_one T now r t))) = Some q"
    proof (cases "k = q_id r")
      case True
      then show ?thesis using Cons.prems by (simp add: delete_one_def)
    next
      case False
      then show ?thesis using Cons.prems(1) by (rule delete_one_other [rotated])
    qed
    moreover have "has_open_incident k (db (delete_one T now r t))"
      using Cons.prems(2) by (simp add: has_open_incident_def)
    ultimately show ?case using Cons.IH by simp
  qed simp
  then show "\<forall>k q. row_get q_id k (quarantine_files (db s)) = Some q \<longrightarrow> has_open_incident k (db s)
        \<longrightarrow> row_get q_id k (quarantine_files (db (retention_once B T now s))) = Some q"
    by (simp add: retention_once_def)
qed

section \<open>What ends the poll loop\<close>

lemma long_extension_fails:
  assumes "df_size_bytes e > download_max_size_bytes (cfg B)"
    and "file_extension (df_filename e) = Some ext" and "32 < length ext"
  shows "\<exists>m s'. process_entry bracket_ok B T now x c e s = (Inl m, s')"
proof -
  have "\<not> row_fits (oversized_row B T now x e (next_id (db s)))"
    using assms(2,3) by (simp add: row_fits_def oversized_row_def fits_def)
  then show ?thesis using assms(1) by (simp add: process_entry_def process_oversized_def Let_def insert_file_def)
qed

lemma failing_entry_fails:
  assumes "e \<in> set es" and "\<And>t. \<exists>m t'. process_entry bracket_ok B T now x c e t = (Inl m, t')"
  shows "\<exists>m s'. process_entries bracket_ok B T now x c es s = (Inl m, s')"
  using assms(1)
proof (induction es arbitrary: s)
  case (Cons a es)
  obtain r t where r: "process_entry bracket_ok B T now x c a s = (r, t)" by (metis prod.exhaust)
  show ?case
  proof (cases "\<exists>m. r = Inl m")
    case True
    then show ?thesis using r by auto
  next
    case False
    then obtain i where i: "r = Inr i" by (cases r) auto
    then have "e \<in> set es" using Cons.prems assms(2) [of s] r by auto
    from Cons.IH [OF this, of t] show ?thesis using r i by auto
  qed
qed simp

text \<open>
  One file name stops the processing of a session's downloads: if the sandbox lists a file over
  the size limit whose extension is longer than the column for it (32 characters), the poll ends with
  an exception, the loop ends with it, and no row or event is left in the database, not even for the
  files listed before it.
\<close>

theorem long_extension_ends_polling:
  assumes "row_get s_id i (sessions (db s)) = Some x" and "s_status x \<in> POLLABLE_STATUSES"
    and "agent (list_downloads B i (session_connection B x (db s))) s = (Inr es, t)"
    and "e \<in> set es" and "df_size_bytes e > download_max_size_bytes (cfg B)"
    and "file_extension (df_filename e) = Some ext" and "32 < length ext"
  shows "\<exists>s'. poll_once bracket_ok B T now i s = (False, s') \<and> db s' = db s"
proof -
  let ?c = "session_connection B x (db s)"
  have i: "s_id x = i" using assms(1) by (auto dest: row_get_SomeD)
  obtain m u where "process_entries bracket_ok B T now x ?c es t = (Inl m, u)"
    using failing_entry_fails [OF assms(4) long_extension_fails [OF assms(5-7)]] by blast
  then show ?thesis
    using assms(1-3) i agent_frame [OF assms(3)] by (simp add: poll_once_def process_new_downloads_def Let_def)
qed

end
