(* ===== verification/File_Runs.thy ===== *)
theory File_Runs
  imports File_Safety Sample_Deployment
begin

text \<open>
  The theorems about files tried on the sample deployment, with an outside world that keeps staged
  files and tokens in association lists, a scanner that finds everything clean (or everything
  infected), and a table of one file in a given status.
\<close>

section \<open>A world of files and tokens\<close>

type_synonym store = "(string \<times> bytes) list \<times> (string \<times> token_claim) list"

definition sample_tools :: "string \<Rightarrow> store tools" where
  "sample_tools verdict =
     \<lparr> clamd = (\<lambda>_ w. (Replied (ascii verdict), w)),
       sha256_hex = (\<lambda>data. ''sha-'' @ show_nat (length data)), magic_mime = (\<lambda>_. ''application/pdf''),
       fs_makedirs = (\<lambda>_ w. (Inr (), w)), fs_exists = (\<lambda>p w. (map_of (fst w) p \<noteq> None, w)),
       fs_read = (\<lambda>p w. (case map_of (fst w) p of None \<Rightarrow> Inl ''No such file'' | Some b \<Rightarrow> Inr b, w)),
       fs_write = (\<lambda>p b w. (Inr (), (p, b) # fst w, snd w)),
       fs_remove = (\<lambda>p w. (if map_of (fst w) p = None then File_not_found else Removed,
         filter (\<lambda>x. fst x \<noteq> p) (fst w), snd w)),
       token_urlsafe = (\<lambda>w. (''tok'', w)), redis_set = (\<lambda>k v _ w. (fst w, (k, v) # snd w)),
       redis_getdel = (\<lambda>k w. (map_of (snd w) k, fst w, filter (\<lambda>x. fst x \<noteq> k) (snd w))) \<rparr>"

definition sample_file :: "uuid \<Rightarrow> quarantine_status \<Rightarrow> quarantine_file" where
  "sample_file i st =
     \<lparr> q_id = i, q_created_at = 0, q_session_id = 1, q_user_id = 7, q_original_name = ''report.pdf'',
       q_extension = Some ''.pdf'', q_declared_mime = None, q_detected_mime = Some ''application/pdf'',
       q_size_bytes = 3, q_sha256 = ''sha-3'', q_initial_url = None, q_final_url = None, q_source_host = None,
       q_redirect_chain = None, q_tls_used = None, q_scanner_status = SC_CLEAN, q_scanner_result = None,
       q_policy_action = Some FA_AUTO_RELEASE, q_policy_version_id = Some 21, q_status = st,
       q_storage_object_id = Some ''/staging/sha-3'', q_reviewed_at = None, q_reviewed_by = None,
       q_review_comment = None \<rparr>"

definition sample_store :: "quarantine_status list \<Rightarrow> (string \<times> token_claim) list \<Rightarrow> store sys" where
  "sample_store sts tokens =
     \<lparr> db = (sample_db NE_APPROVED SS_ACTIVE)\<lparr>quarantine_files := map (\<lambda>(i, st). sample_file (60 + i) st) (enumerate 0 sts)\<rparr>,
       world = ([(''/staging/sha-3'', [1, 2, 3])], tokens), polling = [1], active_connections = [] \<rparr>"

lemma sample_tools_laws [simp]:
  "fst (redis_getdel (sample_tools verdict) k (snd (redis_getdel (sample_tools verdict) k w))) = None"
  "redis_getdel (sample_tools verdict) k (snd (fs_exists (sample_tools verdict) p w)) = redis_getdel (sample_tools verdict) k w"
  "fst (redis_getdel (sample_tools verdict) k (redis_set (sample_tools verdict) k v ttl w)) = Some v"
  "fst (fs_exists (sample_tools verdict) p (snd (token_urlsafe (sample_tools verdict) w))) = fst (fs_exists (sample_tools verdict) p w)"
  "fst (fs_exists (sample_tools verdict) p (redis_set (sample_tools verdict) k v ttl w)) = fst (fs_exists (sample_tools verdict) p w)"
  "fst (fs_exists (sample_tools verdict) p (snd (redis_getdel (sample_tools verdict) k w))) = fst (fs_exists (sample_tools verdict) p w)"
  by (auto simp: sample_tools_def map_of_eq_None_iff)

lemma sample_remove:
  "fs_remove (sample_tools verdict) p v = (r, v') \<Longrightarrow> p' \<noteq> p \<or> (\<exists>m. r = Remove_failed m)
   \<Longrightarrow> p' \<in> fst ` set (fst v) \<Longrightarrow> p' \<in> fst ` set (fst v')"
  by (auto simp: sample_tools_def split: if_splits)

lemma sample_store_fields [simp]:
  "sessions (db (sample_store sts tokens)) = [sample_session SS_ACTIVE]"
  "world (sample_store sts tokens) = ([(''/staging/sha-3'', [1, 2, 3])], tokens)"
  by (simp_all add: sample_store_def)

lemma sample_store_files:
  "quarantine_files (db (sample_store [st] tokens)) = [sample_file 60 st]"
  "quarantine_files (db (sample_store [st, st'] tokens)) = [sample_file 60 st, sample_file 61 st']"
  "incidents (db (sample_store sts tokens)) = []"
  "next_id (db (sample_store sts tokens)) = 100"
  by (simp_all add: sample_store_def sample_db_def empty_db_def)

lemma sample_file_fields [simp]:
  "q_id (sample_file i st) = i" "q_status (sample_file i st) = st" "q_user_id (sample_file i st) = 7"
  "q_storage_object_id (sample_file i st) = Some ''/staging/sha-3''" "q_sha256 (sample_file i st) = ''sha-3''"
  "q_original_name (sample_file i st) = ''report.pdf''" "q_created_at (sample_file i st) = 0"
  "q_reviewed_at (sample_file i st) = None"
  by (simp_all add: sample_file_def)

lemma sample_store_wf:
  "files_wf (db (sample_store [st] tokens))" "files_wf (db (sample_store [st, st'] tokens))"
  by (simp_all add: files_wf_def distinct_keys_def sample_store_files)

section \<open>Review and hand-over\<close>

definition released_store :: "store sys" where
  "released_store = (sample_store [QS_QUARANTINED] [])
     \<lparr>db := snd (release_quarantine_file 50 8 ''looks fine'' 60 (db (sample_store [QS_QUARANTINED] [])))\<rparr>"

lemma sample_release: "file_step bracket_ok B T (sample_store [QS_QUARANTINED] []) released_store"
  unfolding released_store_def by (rule file_step.release)

lemma cleared_witness:
  "list_all cleared (quarantine_files (db released_store))
   \<and> map q_status (quarantine_files (db released_store)) = [QS_RELEASED]"
proof
  have "file_run (\<lambda>_. True) sample_backend (sample_tools ''stream: OK'') (sample_store [QS_QUARANTINED] []) released_store"
    by (rule file_run_step [OF file_run_refl sample_release])
  from released_files_were_cleared [OF this sample_store_wf(1)]
  show "list_all cleared (quarantine_files (db released_store))"
    by (simp add: sample_store_files cleared_def)
  show "map q_status (quarantine_files (db released_store)) = [QS_RELEASED]"
    by (simp add: released_store_def release_quarantine_file_def with_file_def release_file_def row_get_def
      sample_store_files fits_def respond_def set_file_def row_update_def reviewed_def)
qed

lemma file_states_witness:
  "\<exists>b. row_get q_id 60 (quarantine_files (db released_store)) = Some b \<and> file_edge QS_QUARANTINED (q_status b)
     \<and> q_sha256 b = ''sha-3''"
  using files_follow_their_states [OF sample_release [of "\<lambda>_. True" sample_backend "sample_tools ''stream: OK''"]
      sample_store_wf(1), of 60 "sample_file 60 QS_QUARANTINED"]
  by (simp add: sample_store_files row_get_def) blast

lemma sample_redeem:
  "download_with_token (sample_tools verdict) ''tok'' 7 (sample_store [QS_RELEASED] [(''release_token:tok'', \<lparr> tc_file = 60, tc_user = 7 \<rparr>)])
    = (Inr (''/staging/sha-3'', ''report.pdf''), sample_store [QS_RELEASED] [])"
  by (simp add: download_with_token_def outside_def consume_token_def sample_tools_def sample_store_def row_get_def
    truthy_def)

lemma served_witness:
  "\<exists>w (q :: quarantine_file). consume_token (sample_tools ''stream: OK'') ''tok'' (world (sample_store [QS_RELEASED] [(''release_token:tok'',
       \<lparr> tc_file = 60, tc_user = 7 \<rparr>)])) = (Some \<lparr> tc_file = q_id q, tc_user = 7 \<rparr>, w) \<and> q_status q = QS_RELEASED"
  using served_files_are_released [OF sample_redeem [of "''stream: OK''"]] by blast

lemma single_use_witness:
  "fst (download_with_token (sample_tools ''stream: OK'') ''tok'' 7 (sample_store [QS_RELEASED] []))
    = Inl (401, ''invalid or expired download token'')"
  by (rule tokens_are_single_use [OF _ _ sample_redeem]) simp_all

lemma hand_over_witness:
  "\<exists>tok t. request_download_token (sample_tools ''stream: OK'') 60 7 (sample_store [QS_RELEASED] []) = (Inr tok, t)
    \<and> fst (download_with_token (sample_tools ''stream: OK'') tok 7 t) = Inr (''/staging/sha-3'', ''report.pdf'')"
  using released_file_reaches_its_owner [of "sample_tools ''stream: OK''" "''/staging/sha-3''"
      "sample_store [QS_RELEASED] []" 60 "sample_file 60 QS_RELEASED" 7]
  by (simp add: sample_store_files row_get_def) (simp add: sample_tools_def)

section \<open>Uploads, retention, polling\<close>

lemma eicar_scan: "scan (clamd (sample_tools ''stream: Eicar FOUND'')) data w =
    (Inr \<lparr> sr_infected = True, sr_signature = Some ''Eicar'' \<rparr>, w)"
proof -
  have "read_verdict (strip (decode_text (rstrip_nul (ascii ''stream: Eicar FOUND'')))) =
    Inr \<lparr> sr_infected = True, sr_signature = Some ''Eicar'' \<rparr>" by code_simp
  then show ?thesis by (simp add: scan_def sample_tools_def)
qed

lemma upload_witness:
  "isl (fst (upload_file (\<lambda>_. True) sample_backend (sample_tools ''stream: Eicar FOUND'') 50 1 7 (Some ''a.pdf'') [1, 2, 3]
     (sample_store [] [])))"
  by (rule uploads_are_cleared_first [THEN conjunct2]) (simp add: upload_cleared_def eicar_scan)

lemma retention_witness:
  "bytes_kept (\<lambda>p w. p \<in> fst ` set (fst w)) (world (sample_store [QS_RELEASED, QS_QUARANTINED] []))
     (retention_once sample_backend (sample_tools ''stream: OK'') 90000 (sample_store [QS_RELEASED, QS_QUARANTINED] []))"
proof -
  have "content_addressed (db (sample_store [QS_RELEASED, QS_QUARANTINED] []))"
    by (simp add: content_addressed_def sample_store_files)
  then show ?thesis
    by (intro retention_keeps_shared_bytes [THEN conjunct1] sample_store_wf) (rule sample_remove)
qed

definition long_name_backend :: "store backend" where
  "long_name_backend = sample_backend
     \<lparr>http_list_downloads := (\<lambda>_ _ w. (Response 200 []
        [\<lparr> df_filename = ''x.'' @ replicate 40 (CHR ''a''), df_size_bytes = 10 ^ 12 \<rparr>], w))\<rparr>"

lemma polling_witness:
  "\<exists>s'. poll_once (\<lambda>_. True) long_name_backend (sample_tools ''stream: OK'') 50 1 (sample_store [] []) = (False, s')"
proof -
  let ?e = "\<lparr> df_filename = ''x.'' @ replicate 40 (CHR ''a''), df_size_bytes = 10 ^ 12 \<rparr>"
  have x: "row_get s_id 1 (sessions (db (sample_store [] []))) = Some (sample_session SS_ACTIVE)"
    by (simp add: row_get_def)
  have p: "s_status (sample_session SS_ACTIVE) \<in> POLLABLE_STATUSES" by (simp add: POLLABLE_STATUSES_def)
  have l: "agent (list_downloads long_name_backend 1
      (session_connection long_name_backend (sample_session SS_ACTIVE) (db (sample_store [] [])))) (sample_store [] [])
    = (Inr [?e], sample_store [] [])"
    by (simp add: agent_def list_downloads_def request_def long_name_backend_def session_connection_def
      connection_for_node_def get_node_def row_get_def sample_store_def sample_defs truthy_def)
  have b: "df_size_bytes ?e > download_max_size_bytes (cfg long_name_backend)"
    by (simp add: long_name_backend_def sample_defs)
  have f: "file_extension (df_filename ?e) = Some (CHR 0x2E # replicate 40 (CHR ''a''))" by code_simp
  have "\<exists>s'. poll_once (\<lambda>_. True) long_name_backend (sample_tools ''stream: OK'') 50 1 (sample_store [] []) = (False, s')
    \<and> db s' = db (sample_store [] [])"
    by (rule long_extension_ends_polling [OF x p l _ b f]) simp_all
  then show ?thesis by blast
qed

end
