(* ===== verification/Login_Sessions.thy ===== *)
theory Login_Sessions
  imports Sessions
begin

text \<open>
  Login state kept in Redis: \<open>core/sessions.py\<close>, with the few functions of \<open>core/security.py\<close>,
  \<open>core/totp.py\<close> and \<open>core/recovery_codes.py\<close> that wrap third-party code.

  Redis, the random sources, Argon2, pyotp and Fernet are parameters, a record \<open>'w idp\<close> over the state
  \<open>'w\<close> of everything outside the backend. What is stored is a JSON object written and read by this
  module only; it is a value of \<open>redis_value\<close> here. \<open>redis_laws\<close> states what the documentation of the
  commands promises; a request is handled at one instant, so keys do not expire in the middle of it.
\<close>

datatype redis_value =
    Login uuid string
  | Pending uuid nat
  | Failures int

record 'w idp =
  redis_read :: "string \<Rightarrow> 'w \<Rightarrow> redis_value option"
  redis_put :: "string \<Rightarrow> redis_value \<Rightarrow> instant \<Rightarrow> 'w \<Rightarrow> 'w"
  redis_delete :: "string \<Rightarrow> 'w \<Rightarrow> 'w"
  redis_scan :: "string \<Rightarrow> 'w \<Rightarrow> string list"
  redis_incr :: "string \<Rightarrow> 'w \<Rightarrow> int \<times> 'w"
  redis_expire :: "string \<Rightarrow> instant \<Rightarrow> 'w \<Rightarrow> 'w"
  redis_ttl :: "string \<Rightarrow> 'w \<Rightarrow> instant"
  new_token :: "nat \<Rightarrow> 'w \<Rightarrow> string \<times> 'w"
  random_base32 :: "'w \<Rightarrow> string \<times> 'w"
  random_choice :: "string \<Rightarrow> 'w \<Rightarrow> char \<times> 'w"
  argon2_hash :: "string \<Rightarrow> 'w \<Rightarrow> string \<times> 'w"
  argon2_verify :: "string \<Rightarrow> string \<Rightarrow> bool"
  totp_verify :: "string \<Rightarrow> string \<Rightarrow> instant \<Rightarrow> bool"
  encrypt_text :: "string \<Rightarrow> bytes"
  decrypt_text :: "bytes \<Rightarrow> string option"

text \<open>
  SET, GET, DEL, INCR and EXPIRE act on the key they name; SCAN with a prefix returns at least the keys
  with that prefix; the random sources leave Redis alone.
\<close>

definition redis_laws :: "'w idp \<Rightarrow> bool" where
  "redis_laws I \<longleftrightarrow>
     (\<forall>k j v t w. redis_read I j (redis_put I k v t w) = (if j = k then Some v else redis_read I j w))
     \<and> (\<forall>k j w. redis_read I j (redis_delete I k w) = (if j = k then None else redis_read I j w))
     \<and> (\<forall>k j t w. redis_read I j (redis_expire I k t w) = redis_read I j w)
     \<and> (\<forall>k w n. redis_read I k w = Some (Failures n) \<longrightarrow> fst (redis_incr I k w) = n + 1)
     \<and> (\<forall>k w. redis_read I k w = None \<longrightarrow> fst (redis_incr I k w) = 1)
     \<and> (\<forall>k j w. redis_read I j (snd (redis_incr I k w)) =
          (if j = k then Some (Failures (fst (redis_incr I k w))) else redis_read I j w))
     \<and> (\<forall>p k w. startswith k p \<longrightarrow> redis_read I k w \<noteq> None \<longrightarrow> k \<in> set (redis_scan I p w))
     \<and> (\<forall>k n w. redis_read I k (snd (new_token I n w)) = redis_read I k w)
     \<and> (\<forall>k w. redis_read I k (snd (random_base32 I w)) = redis_read I k w)
     \<and> (\<forall>k a w. redis_read I k (snd (random_choice I a w)) = redis_read I k w)
     \<and> (\<forall>k a w. redis_read I k (snd (argon2_hash I a w)) = redis_read I k w)"

definition SESSION_PREFIX :: string where "SESSION_PREFIX = ''session:''"
definition MFA_PENDING_PREFIX :: string where "MFA_PENDING_PREFIX = ''mfa_pending:''"
definition LOGIN_FAILURE_PREFIX :: string where "LOGIN_FAILURE_PREFIX = ''login_fail:''"
definition MFA_PENDING_TTL :: instant where "MFA_PENDING_TTL = seconds (5 * 60)"
definition MFA_PENDING_MAX_ATTEMPTS :: nat where "MFA_PENDING_MAX_ATTEMPTS = 5"
definition LOGIN_FAILURE_WINDOW :: instant where "LOGIN_FAILURE_WINDOW = seconds (15 * 60)"
definition LOGIN_FAILURE_MAX_ATTEMPTS :: int where "LOGIN_FAILURE_MAX_ATTEMPTS = 10"

lemmas prefixes = SESSION_PREFIX_def MFA_PENDING_PREFIX_def LOGIN_FAILURE_PREFIX_def

section \<open>Login sessions\<close>

definition create_login_session :: "'w idp \<Rightarrow> settings \<Rightarrow> uuid \<Rightarrow> string \<Rightarrow> 'w \<Rightarrow> string \<times> 'w" where
  "create_login_session I st user_id rname w =
     (let (tok, w) = new_token I 32 w in
      (tok, redis_put I (SESSION_PREFIX @ tok) (Login user_id rname) (session_ttl st) w))"

definition get_login_session :: "'w idp \<Rightarrow> string \<Rightarrow> 'w \<Rightarrow> (uuid \<times> string) option" where
  "get_login_session I tok w =
     (if tok = [] then None
      else case redis_read I (SESSION_PREFIX @ tok) w of
        Some (Login user_id rname) \<Rightarrow> Some (user_id, rname)
      | _ \<Rightarrow> None)"

definition delete_login_session :: "'w idp \<Rightarrow> string \<Rightarrow> 'w \<Rightarrow> 'w" where
  "delete_login_session I tok w = redis_delete I (SESSION_PREFIX @ tok) w"

text \<open>The loop over the scanned keys: those for which \<open>spare\<close> holds are passed over.\<close>

fun revoke_keys :: "'w idp \<Rightarrow> (string \<Rightarrow> bool) \<Rightarrow> uuid \<Rightarrow> string list \<Rightarrow> 'w \<Rightarrow> nat \<times> 'w" where
  "revoke_keys I spare user_id [] w = (0, w)"
| "revoke_keys I spare user_id (k # ks) w =
     (if spare k then revoke_keys I spare user_id ks w
      else if (case redis_read I k w of Some (Login u _) \<Rightarrow> u = user_id | _ \<Rightarrow> False) then
        (let (n, w) = revoke_keys I spare user_id ks (redis_delete I k w) in (Suc n, w))
      else revoke_keys I spare user_id ks w)"

definition revoke_all_sessions_for_user :: "'w idp \<Rightarrow> uuid \<Rightarrow> 'w \<Rightarrow> nat \<times> 'w" where
  "revoke_all_sessions_for_user I user_id w =
     revoke_keys I (\<lambda>_. False) user_id (redis_scan I SESSION_PREFIX w) w"

definition revoke_other_sessions_for_user :: "'w idp \<Rightarrow> uuid \<Rightarrow> string \<Rightarrow> 'w \<Rightarrow> nat \<times> 'w" where
  "revoke_other_sessions_for_user I user_id current w =
     revoke_keys I (\<lambda>k. k = SESSION_PREFIX @ current) user_id (redis_scan I SESSION_PREFIX w) w"

section \<open>The pending MFA challenge\<close>

definition create_mfa_pending :: "'w idp \<Rightarrow> uuid \<Rightarrow> 'w \<Rightarrow> string \<times> 'w" where
  "create_mfa_pending I user_id w =
     (let (tok, w) = new_token I 32 w in
      (tok, redis_put I (MFA_PENDING_PREFIX @ tok) (Pending user_id 0) MFA_PENDING_TTL w))"

definition get_mfa_pending :: "'w idp \<Rightarrow> string \<Rightarrow> 'w \<Rightarrow> (uuid \<times> nat) option" where
  "get_mfa_pending I tok w =
     (if tok = [] then None
      else case redis_read I (MFA_PENDING_PREFIX @ tok) w of
        Some (Pending user_id attempts) \<Rightarrow> Some (user_id, attempts)
      | _ \<Rightarrow> None)"

definition delete_mfa_pending :: "'w idp \<Rightarrow> string \<Rightarrow> 'w \<Rightarrow> 'w" where
  "delete_mfa_pending I tok w = redis_delete I (MFA_PENDING_PREFIX @ tok) w"

definition record_mfa_pending_failure :: "'w idp \<Rightarrow> string \<Rightarrow> 'w \<Rightarrow> bool \<times> 'w" where
  "record_mfa_pending_failure I tok w =
     (case get_mfa_pending I tok w of
        None \<Rightarrow> (False, w)
      | Some (user_id, n) \<Rightarrow>
          if n + 1 \<ge> MFA_PENDING_MAX_ATTEMPTS then (False, delete_mfa_pending I tok w)
          else (let ttl = redis_ttl I (MFA_PENDING_PREFIX @ tok) w in
                (True, redis_put I (MFA_PENDING_PREFIX @ tok) (Pending user_id (n + 1))
                   (if ttl > 0 then ttl else MFA_PENDING_TTL) w)))"

section \<open>The login lockout\<close>

definition is_login_locked :: "'w idp \<Rightarrow> string \<Rightarrow> 'w \<Rightarrow> bool" where
  "is_login_locked I username w =
     (case redis_read I (LOGIN_FAILURE_PREFIX @ username) w of
        Some (Failures n) \<Rightarrow> n \<ge> LOGIN_FAILURE_MAX_ATTEMPTS
      | _ \<Rightarrow> False)"

definition record_login_failure :: "'w idp \<Rightarrow> string \<Rightarrow> 'w \<Rightarrow> 'w" where
  "record_login_failure I username w =
     (let key = LOGIN_FAILURE_PREFIX @ username; (count, w) = redis_incr I key w in
      if count = 1 then redis_expire I key LOGIN_FAILURE_WINDOW w else w)"

definition clear_login_failures :: "'w idp \<Rightarrow> string \<Rightarrow> 'w \<Rightarrow> 'w" where
  "clear_login_failures I username w = redis_delete I (LOGIN_FAILURE_PREFIX @ username) w"

record lockout =
  lo_locked :: bool
  lo_failure_count :: int
  lo_remaining :: "instant option"

definition get_login_lockout_status :: "'w idp \<Rightarrow> string \<Rightarrow> 'w \<Rightarrow> lockout" where
  "get_login_lockout_status I username w =
     (let key = LOGIN_FAILURE_PREFIX @ username;
          raw = redis_read I key w;
          count = (case raw of Some (Failures n) \<Rightarrow> n | _ \<Rightarrow> 0);
          ttl = (case raw of None \<Rightarrow> - 2 | Some _ \<Rightarrow> redis_ttl I key w)
      in \<lparr> lo_locked = (count \<ge> LOGIN_FAILURE_MAX_ATTEMPTS), lo_failure_count = count,
           lo_remaining = (if ttl > 0 then Some ttl else None) \<rparr>)"

definition force_login_lock :: "'w idp \<Rightarrow> string \<Rightarrow> 'w \<Rightarrow> 'w" where
  "force_login_lock I username w =
     redis_put I (LOGIN_FAILURE_PREFIX @ username) (Failures LOGIN_FAILURE_MAX_ATTEMPTS) LOGIN_FAILURE_WINDOW w"

section \<open>Codes\<close>

text \<open>An empty code is refused before pyotp sees it.\<close>

definition verify_code :: "'w idp \<Rightarrow> instant \<Rightarrow> string \<Rightarrow> string \<Rightarrow> bool" where
  "verify_code I now secret code_text = (code_text \<noteq> [] \<and> totp_verify I secret code_text now)"

definition CODE_ALPHABET :: string where
  "CODE_ALPHABET = ''ABCDEFGHJKLMNPQRSTUVWXYZ23456789''"

fun draw :: "'w idp \<Rightarrow> nat \<Rightarrow> 'w \<Rightarrow> string \<times> 'w" where
  "draw I 0 w = ([], w)"
| "draw I (Suc n) w = (let (c, w) = random_choice I CODE_ALPHABET w; (cs, w) = draw I n w in (c # cs, w))"

definition recovery_code_text :: "string \<Rightarrow> string" where
  "recovery_code_text raw = take 5 raw @ ''-'' @ take 5 (drop 5 raw) @ ''-'' @ drop 10 raw"

fun generate_recovery_codes :: "'w idp \<Rightarrow> nat \<Rightarrow> 'w \<Rightarrow> string list \<times> 'w" where
  "generate_recovery_codes I 0 w = ([], w)"
| "generate_recovery_codes I (Suc n) w =
     (let (raw, w) = draw I 15 w; (rest, w) = generate_recovery_codes I n w in (recovery_code_text raw # rest, w))"

text \<open>Running an operation of this module on a system.\<close>

definition on_world :: "('w \<Rightarrow> 'w) \<Rightarrow> 'w sys \<Rightarrow> 'w sys" where
  "on_world f s = s\<lparr>world := f (world s)\<rparr>"

definition with_world :: "('w \<Rightarrow> 'a \<times> 'w) \<Rightarrow> 'w sys \<Rightarrow> 'a \<times> 'w sys" where
  "with_world f s = (let (r, w) = f (world s) in (r, s\<lparr>world := w\<rparr>))"

section \<open>What the operations do to the keys\<close>

lemma redis_lawsD:
  assumes "redis_laws I"
  shows "redis_read I j (redis_put I k v t w) = (if j = k then Some v else redis_read I j w)"
    and "redis_read I j (redis_delete I k w) = (if j = k then None else redis_read I j w)"
    and "redis_read I j (redis_expire I k t w) = redis_read I j w"
    and "redis_read I j (snd (redis_incr I k w)) =
      (if j = k then Some (Failures (fst (redis_incr I k w))) else redis_read I j w)"
    and "redis_read I k (snd (new_token I n w)) = redis_read I k w"
    and "redis_read I k (snd (random_base32 I w)) = redis_read I k w"
    and "redis_read I k (snd (random_choice I a w)) = redis_read I k w"
    and "redis_read I k (snd (argon2_hash I a w)) = redis_read I k w"
  using assms by (simp_all add: redis_laws_def)

lemma redis_incr_value:
  "redis_laws I \<Longrightarrow> redis_read I k w = Some (Failures n) \<Longrightarrow> fst (redis_incr I k w) = n + 1"
  "redis_laws I \<Longrightarrow> redis_read I k w = None \<Longrightarrow> fst (redis_incr I k w) = 1"
  by (simp_all add: redis_laws_def)

lemma redis_scan_complete:
  "redis_laws I \<Longrightarrow> redis_read I (p @ k) w \<noteq> None \<Longrightarrow> p @ k \<in> set (redis_scan I p w)"
  unfolding redis_laws_def by (metis startswith_append)

text \<open>The three groups of keys are apart.\<close>

lemma prefix_apart [simp]:
  "SESSION_PREFIX @ a \<noteq> MFA_PENDING_PREFIX @ b" "SESSION_PREFIX @ a \<noteq> LOGIN_FAILURE_PREFIX @ b"
  "MFA_PENDING_PREFIX @ a \<noteq> SESSION_PREFIX @ b" "MFA_PENDING_PREFIX @ a \<noteq> LOGIN_FAILURE_PREFIX @ b"
  "LOGIN_FAILURE_PREFIX @ a \<noteq> SESSION_PREFIX @ b" "LOGIN_FAILURE_PREFIX @ a \<noteq> MFA_PENDING_PREFIX @ b"
  by (simp_all add: prefixes)

text \<open>A login session is what counts of Redis for the guarantees about sessions.\<close>

definition logged_in :: "'w idp \<Rightarrow> 'w \<Rightarrow> string \<Rightarrow> uuid option" where
  "logged_in I w tok = (case redis_read I (SESSION_PREFIX @ tok) w of Some (Login u _) \<Rightarrow> Some u | _ \<Rightarrow> None)"

lemma get_login_session_logged_in: "get_login_session I tok w = Some (u, r) \<Longrightarrow> logged_in I w tok = Some u"
  by (auto simp: get_login_session_def logged_in_def split: if_splits option.splits redis_value.splits)

lemma session_reads:
  assumes "redis_laws I"
  shows "redis_read I (SESSION_PREFIX @ k) (snd (create_mfa_pending I u w)) = redis_read I (SESSION_PREFIX @ k) w"
    and "redis_read I (SESSION_PREFIX @ k) (delete_mfa_pending I tok w) = redis_read I (SESSION_PREFIX @ k) w"
    and "redis_read I (SESSION_PREFIX @ k) (snd (record_mfa_pending_failure I tok w)) = redis_read I (SESSION_PREFIX @ k) w"
    and "redis_read I (SESSION_PREFIX @ k) (record_login_failure I name w) = redis_read I (SESSION_PREFIX @ k) w"
    and "redis_read I (SESSION_PREFIX @ k) (clear_login_failures I name w) = redis_read I (SESSION_PREFIX @ k) w"
    and "redis_read I (SESSION_PREFIX @ k) (force_login_lock I name w) = redis_read I (SESSION_PREFIX @ k) w"
proof -
  show "redis_read I (SESSION_PREFIX @ k) (snd (create_mfa_pending I u w)) = redis_read I (SESSION_PREFIX @ k) w"
    using redis_lawsD(5) [OF assms, of _ 32 w]
    by (cases "new_token I 32 w") (simp add: create_mfa_pending_def redis_lawsD(1) [OF assms])
  show d: "redis_read I (SESSION_PREFIX @ k) (delete_mfa_pending I tok w) = redis_read I (SESSION_PREFIX @ k) w"
    by (simp add: delete_mfa_pending_def redis_lawsD(2) [OF assms])
  show "redis_read I (SESSION_PREFIX @ k) (snd (record_mfa_pending_failure I tok w)) = redis_read I (SESSION_PREFIX @ k) w"
    by (simp add: record_mfa_pending_failure_def d redis_lawsD(1) [OF assms] Let_def split: option.split)
  show "redis_read I (SESSION_PREFIX @ k) (record_login_failure I name w) = redis_read I (SESSION_PREFIX @ k) w"
    using redis_lawsD(4) [OF assms, of "SESSION_PREFIX @ k" "LOGIN_FAILURE_PREFIX @ name" w]
    by (cases "redis_incr I (LOGIN_FAILURE_PREFIX @ name) w")
      (simp add: record_login_failure_def Let_def redis_lawsD(3) [OF assms])
qed (simp_all add: clear_login_failures_def force_login_lock_def redis_lawsD(1,2) [OF assms])

lemma logged_in_frame:
  assumes "redis_laws I"
  shows "logged_in I (snd (create_mfa_pending I u w)) = logged_in I w"
    and "logged_in I (delete_mfa_pending I tok w) = logged_in I w"
    and "logged_in I (snd (record_mfa_pending_failure I tok w)) = logged_in I w"
    and "logged_in I (record_login_failure I name w) = logged_in I w"
    and "logged_in I (clear_login_failures I name w) = logged_in I w"
    and "logged_in I (force_login_lock I name w) = logged_in I w"
    and "logged_in I (snd (argon2_hash I p w)) = logged_in I w"
    and "logged_in I (snd (random_base32 I w)) = logged_in I w"
  by (simp_all add: fun_eq_iff logged_in_def session_reads [OF assms] redis_lawsD(6,8) [OF assms])

lemma logged_in_create:
  assumes "redis_laws I" and "create_login_session I st u r w = (tok, w')"
  shows "logged_in I w' = (logged_in I w)(tok := Some u)"
proof -
  obtain v where v: "new_token I 32 w = (tok, v)" "w' = redis_put I (SESSION_PREFIX @ tok) (Login u r) (session_ttl st) v"
    using assms(2) by (auto simp: create_login_session_def split: prod.splits)
  then have "redis_read I k v = redis_read I k w" for k using redis_lawsD(5) [OF assms(1)] by (metis snd_conv)
  then show ?thesis using assms(1) v(2) by (auto simp: fun_eq_iff logged_in_def redis_lawsD)
qed

lemma logged_in_delete:
  "redis_laws I \<Longrightarrow> logged_in I (delete_login_session I tok w) = (logged_in I w)(tok := None)"
  by (auto simp: fun_eq_iff logged_in_def delete_login_session_def redis_lawsD)

lemma draw_keeps: "redis_laws I \<Longrightarrow> redis_read I k (snd (draw I n w)) = redis_read I k w"
  by (induction n arbitrary: w) (auto simp: Let_def split: prod.split, (metis redis_lawsD(7) snd_conv)+)

lemma recovery_codes_keep: "redis_laws I \<Longrightarrow> redis_read I k (snd (generate_recovery_codes I n w)) = redis_read I k w"
  by (induction n arbitrary: w) (auto simp: Let_def split: prod.split, (metis draw_keeps snd_conv)+)

text \<open>Revocation: exactly the sessions of the user go, the ones that are spared excepted.\<close>

lemma revoke_keys_reads:
  assumes "redis_laws I"
  shows "redis_read I j (snd (revoke_keys I spare u ks w)) =
    (if j \<in> set ks \<and> \<not> spare j \<and> (\<exists>r. redis_read I j w = Some (Login u r)) then None else redis_read I j w)"
proof (induction ks arbitrary: w)
  case (Cons k ks)
  show ?case
  proof (cases "\<not> spare k \<and> (\<exists>r. redis_read I k w = Some (Login u r))")
    case True
    then show ?thesis
      using Cons.IH [of "redis_delete I k w"] assms
      by (cases "revoke_keys I spare u ks (redis_delete I k w)") (auto simp: redis_lawsD)
  next
    case False
    then have "revoke_keys I spare u (k # ks) w = revoke_keys I spare u ks w"
      by (auto split: option.split redis_value.split)
    then show ?thesis using Cons.IH [of w] False by auto
  qed
qed simp

lemma logged_in_revoke_all:
  assumes "redis_laws I"
  shows "logged_in I (snd (revoke_all_sessions_for_user I u w)) =
    (\<lambda>tok. if logged_in I w tok = Some u then None else logged_in I w tok)"
proof
  fix tok
  show "logged_in I (snd (revoke_all_sessions_for_user I u w)) tok =
    (if logged_in I w tok = Some u then None else logged_in I w tok)"
    using redis_scan_complete [OF assms, of SESSION_PREFIX tok w]
    by (auto simp: logged_in_def revoke_all_sessions_for_user_def revoke_keys_reads [OF assms]
        split: option.splits redis_value.splits if_splits)
qed

lemma logged_in_revoke_other:
  assumes "redis_laws I"
  shows "logged_in I (snd (revoke_other_sessions_for_user I u current w)) =
    (\<lambda>tok. if logged_in I w tok = Some u \<and> tok \<noteq> current then None else logged_in I w tok)"
proof
  fix tok
  show "logged_in I (snd (revoke_other_sessions_for_user I u current w)) tok =
    (if logged_in I w tok = Some u \<and> tok \<noteq> current then None else logged_in I w tok)"
    using redis_scan_complete [OF assms, of SESSION_PREFIX tok w]
    by (auto simp: logged_in_def revoke_other_sessions_for_user_def revoke_keys_reads [OF assms]
        split: option.splits redis_value.splits if_splits)
qed

end
