(* ===== verification/Accounts.thy ===== *)
theory Accounts
  imports Login_Sessions Policies
begin

text \<open>
  Accounts and their administration: \<open>services/users.py\<close>, the account routes of \<open>api/admin.py\<close>, and
  the request guards of \<open>core/deps.py\<close> every route stands behind. The acting administrator of an
  admin route is the account its guard let through, given by its id.
\<close>

section \<open>Who is asking\<close>

definition get_current_user :: "'w idp \<Rightarrow> string option \<Rightarrow> 'w sys \<Rightarrow> http_error + user" where
  "get_current_user I cookie s =
     (case cookie of
        None \<Rightarrow> Inl (401, ''not authenticated'')
      | Some tok \<Rightarrow>
          (case get_login_session I tok (world s) of
             None \<Rightarrow> Inl (401, ''session expired or invalid'')
           | Some (user_id, _) \<Rightarrow>
               (case row_get u_id user_id (users (db s)) of
                  None \<Rightarrow> Inl (401, ''account not active'')
                | Some user \<Rightarrow> if u_is_active user then Inr user else Inl (401, ''account not active''))))"

definition role_name_of :: "database \<Rightarrow> user \<Rightarrow> string option" where
  "role_name_of d user = map_option r_name (row_get r_id (u_role_id user) (roles d))"

definition require_role :: "'w idp \<Rightarrow> string list \<Rightarrow> string option \<Rightarrow> 'w sys \<Rightarrow> http_error + user" where
  "require_role I allowed cookie s =
     (case get_current_user I cookie s of
        Inl e \<Rightarrow> Inl e
      | Inr user \<Rightarrow>
          (case role_name_of (db s) user of
             None \<Rightarrow> Inl (403, ''insufficient role'')
           | Some rname \<Rightarrow> if rname \<in> set allowed then Inr user else Inl (403, ''insufficient role'')))"

section \<open>The accounts table\<close>

text \<open>An UPDATE of an account stamps \<open>updated_at\<close>.\<close>

definition set_user :: "instant \<Rightarrow> uuid \<Rightarrow> (user \<Rightarrow> user) \<Rightarrow> database \<Rightarrow> database" where
  "set_user now k f d = d\<lparr>users := row_update u_id k (\<lambda>u. (f u)\<lparr>u_updated_at := now\<rparr>) (users d)\<rparr>"

definition user_event :: "instant \<Rightarrow> security_event_type \<Rightarrow> uuid \<Rightarrow> (string \<times> json) list \<Rightarrow> database \<Rightarrow> database" where
  "user_event now t user_id meta d = record_security_event now t (Some user_id) None None (Some meta) d"

definition get_role_by_name :: "string \<Rightarrow> database \<Rightarrow> service_error + role" where
  "get_role_by_name rname d =
     (case row_get r_name rname (roles d) of
        None \<Rightarrow> Inl (UserServiceError (''unknown role: '' @ rname))
      | Some r \<Rightarrow> Inr r)"

definition quoted_list :: "string list \<Rightarrow> string" where
  "quoted_list xs = ''['' @ concat (map (\<lambda>(i, x). (if i = 0 then [] else '', '') @ [CHR 0x27] @ x @ [CHR 0x27]) (enumerate 0 xs)) @ '']''"

definition validate_group_ids :: "uuid list \<Rightarrow> database \<Rightarrow> service_error option" where
  "validate_group_ids group_ids d =
     (let missing = filter (\<lambda>i. row_get g_id i (groups d) = None) (remdups group_ids) in
      if missing = [] then None
      else Some (UserServiceError (''unknown group id(s): '' @ quoted_list (sort (map show_nat missing)))))"

text \<open>One membership row per given id, in order; the pair of user and group is unique.\<close>

fun add_memberships :: "instant \<Rightarrow> uuid \<Rightarrow> uuid list \<Rightarrow> database \<Rightarrow> unit outcome" where
  "add_memberships now user_id [] d = (Inr (), d)"
| "add_memberships now user_id (g # gs) d =
     (if \<exists>ug \<in> set (user_groups d). ug_user_id ug = user_id \<and> ug_group_id ug = g then (Inl DbIntegrityError, d)
      else (let (i, d) = fresh d in
        add_memberships now user_id gs (d\<lparr>user_groups := row_insert
          \<lparr> ug_id = i, ug_created_at = now, ug_user_id = user_id, ug_group_id = g \<rparr> (user_groups d)\<rparr>)))"

definition new_user :: "uuid \<Rightarrow> instant \<Rightarrow> string \<Rightarrow> string option \<Rightarrow> uuid \<Rightarrow> user" where
  "new_user i now username pw_hash role_id =
     \<lparr> u_id = i, u_created_at = now, u_updated_at = now, u_username = username, u_password_hash = pw_hash,
       u_role_id = role_id, u_is_active = True, u_mfa_enabled = False, u_totp_secret_encrypted = None,
       u_disabled_at = None \<rparr>"

definition create_user ::
  "'w idp \<Rightarrow> instant \<Rightarrow> string \<Rightarrow> string \<Rightarrow> string \<Rightarrow> uuid list \<Rightarrow> uuid \<Rightarrow> 'w sys \<Rightarrow> (uuid, 'w) sys_outcome" where
  "create_user I now username password rname group_ids created_by s =
     (if row_get u_username username (users (db s)) \<noteq> None
      then (Inl (UserServiceError (''username already taken: '' @ username)), s)
      else case get_role_by_name rname (db s) of
        Inl e \<Rightarrow> (Inl e, s)
      | Inr r \<Rightarrow>
     (case validate_group_ids group_ids (db s) of
        Some e \<Rightarrow> (Inl e, s)
      | None \<Rightarrow>
          (let (h, s) = with_world (argon2_hash I password) s in
           if length username > 255 then (Inl DbDataError, s)
           else
            (let (i, d) = fresh (db s);
                 d = d\<lparr>users := row_insert (new_user i now username (Some h) (r_id r)) (users d)\<rparr>
             in case add_memberships now i group_ids d of
                  (Inl e, d) \<Rightarrow> (Inl e, s\<lparr>db := d\<rparr>)
                | (Inr _, d) \<Rightarrow>
                    (Inr i, s\<lparr>db := user_event now EV_USER_CREATED i [(''created_by'', JId created_by)] d\<rparr>)))))"

definition set_active :: "instant \<Rightarrow> user \<Rightarrow> bool \<Rightarrow> uuid \<Rightarrow> database \<Rightarrow> database" where
  "set_active now user active actor d =
     user_event now (if active then EV_USER_ENABLED else EV_USER_DISABLED) (u_id user) [(''actor'', JId actor)]
       (set_user now (u_id user) (\<lambda>u. u\<lparr>u_is_active := active\<rparr>) d)"

definition lock_account :: "'w idp \<Rightarrow> instant \<Rightarrow> user \<Rightarrow> uuid \<Rightarrow> 'w sys \<Rightarrow> 'w sys" where
  "lock_account I now user actor s =
     (let s = on_world (force_login_lock I (u_username user)) s;
          (revoked, s) = with_world (revoke_all_sessions_for_user I (u_id user)) s
      in on_db (user_event now EV_ACCOUNT_LOCKED (u_id user)
           [(''actor'', JId actor), (''sessions_revoked'', JInt (int revoked))]) s)"

definition unlock_account :: "'w idp \<Rightarrow> instant \<Rightarrow> user \<Rightarrow> uuid \<Rightarrow> 'w sys \<Rightarrow> 'w sys" where
  "unlock_account I now user actor s =
     on_db (user_event now EV_ACCOUNT_UNLOCKED (u_id user) [(''actor'', JId actor)])
       (on_world (clear_login_failures I (u_username user)) s)"

definition get_lockout_status :: "'w idp \<Rightarrow> user \<Rightarrow> 'w sys \<Rightarrow> lockout" where
  "get_lockout_status I user s = get_login_lockout_status I (u_username user) (world s)"

definition reset_password :: "'w idp \<Rightarrow> instant \<Rightarrow> user \<Rightarrow> string \<Rightarrow> uuid \<Rightarrow> 'w sys \<Rightarrow> 'w sys" where
  "reset_password I now user new_password actor s =
     (let (h, s) = with_world (argon2_hash I new_password) s in
      on_db (user_event now EV_PASSWORD_RESET_BY_ADMIN (u_id user) [(''actor'', JId actor)])
        (on_db (set_user now (u_id user) (\<lambda>u. u\<lparr>u_password_hash := Some h\<rparr>)) s))"

text \<open>A real change of role also ends the login sessions of the account.\<close>

definition change_role :: "'w idp \<Rightarrow> instant \<Rightarrow> user \<Rightarrow> string \<Rightarrow> uuid \<Rightarrow> 'w sys \<Rightarrow> (unit, 'w) sys_outcome" where
  "change_role I now user rname actor s =
     (case get_role_by_name rname (db s) of
        Inl e \<Rightarrow> (Inl e, s)
      | Inr r \<Rightarrow>
          (let old = u_role_id user;
               s = on_db (set_user now (u_id user) (\<lambda>u. u\<lparr>u_role_id := r_id r\<rparr>)) s;
               (revoked, s) = (if old \<noteq> r_id r then with_world (revoke_all_sessions_for_user I (u_id user)) s else (0, s))
           in (Inr (), on_db (user_event now EV_USER_ROLE_CHANGED (u_id user)
                [(''actor'', JId actor), (''old_role_id'', JId old), (''new_role'', JStr rname),
                 (''sessions_revoked'', JInt (int revoked))]) s)))"

definition set_groups :: "instant \<Rightarrow> user \<Rightarrow> uuid list \<Rightarrow> uuid \<Rightarrow> database \<Rightarrow> unit outcome" where
  "set_groups now user group_ids actor d =
     (case validate_group_ids group_ids d of
        Some e \<Rightarrow> (Inl e, d)
      | None \<Rightarrow>
          (case add_memberships now (u_id user) group_ids
                  (d\<lparr>user_groups := rows_delete (\<lambda>ug. ug_user_id ug = u_id user) (user_groups d)\<rparr>) of
             (Inl e, d) \<Rightarrow> (Inl e, d)
           | (Inr _, d) \<Rightarrow>
               (Inr (), user_event now EV_USER_GROUPS_CHANGED (u_id user)
                  [(''actor'', JId actor), (''group_ids'', JList (map JId group_ids))] d)))"

definition get_groups :: "database \<Rightarrow> uuid \<Rightarrow> (uuid \<times> string) list" where
  "get_groups d user_id =
     sort_key snd (concat (map (\<lambda>ug. if ug_user_id ug = user_id
         then (case row_get g_id (ug_group_id ug) (groups d) of None \<Rightarrow> [] | Some g \<Rightarrow> [(g_id g, g_name g)])
         else []) (user_groups d)))"

section \<open>Routes\<close>

definition user_status_400 :: "service_error \<Rightarrow> nat" where
  "user_status_400 e = (case e of UserServiceError _ \<Rightarrow> 400 | _ \<Rightarrow> 500)"

definition with_user :: "(user \<Rightarrow> 'w sys \<Rightarrow> ('a, 'w) sys_response) \<Rightarrow> uuid \<Rightarrow> 'w sys \<Rightarrow> ('a, 'w) sys_response" where
  "with_user f user_id s =
     (case row_get u_id user_id (users (db s)) of
        None \<Rightarrow> (Inl (404, ''user not found''), s)
      | Some user \<Rightarrow> f user s)"

definition create_user_endpoint ::
  "'w idp \<Rightarrow> instant \<Rightarrow> uuid \<Rightarrow> string \<Rightarrow> string \<Rightarrow> string \<Rightarrow> uuid list \<Rightarrow> 'w sys \<Rightarrow> (uuid, 'w) sys_response" where
  "create_user_endpoint I now actor username password rname group_ids s =
     sys_respond (\<lambda>e. (user_status_400 e, False)) s (create_user I now username password rname group_ids actor s)"

definition active_admins :: "database \<Rightarrow> user list" where
  "active_admins d = filter (\<lambda>u. role_name_of d u = Some ''ADMIN'' \<and> u_is_active u) (users d)"

definition disable_user :: "instant \<Rightarrow> uuid \<Rightarrow> uuid \<Rightarrow> 'w sys \<Rightarrow> (unit, 'w) sys_response" where
  "disable_user now actor = with_user (\<lambda>user s.
     if u_id user = actor then (Inl (400, ''you cannot disable your own account''), s)
     else if role_name_of (db s) user = Some ''ADMIN'' \<and> length (active_admins (db s)) \<le> 1
     then (Inl (400, ''the last active administrator cannot be disabled''), s)
     else (Inr (), on_db (set_active now user False actor) s))"

definition enable_user :: "instant \<Rightarrow> uuid \<Rightarrow> uuid \<Rightarrow> 'w sys \<Rightarrow> (unit, 'w) sys_response" where
  "enable_user now actor = with_user (\<lambda>user s. (Inr (), on_db (set_active now user True actor) s))"

definition reset_password_endpoint :: "'w idp \<Rightarrow> instant \<Rightarrow> uuid \<Rightarrow> string \<Rightarrow> uuid \<Rightarrow> 'w sys \<Rightarrow> (unit, 'w) sys_response" where
  "reset_password_endpoint I now actor new_password = with_user (\<lambda>user s.
     if u_password_hash user = None then (Inl (400, ''password is managed by LDAP''), s)
     else (Inr (), reset_password I now user new_password actor s))"

definition lockout_endpoint :: "'w idp \<Rightarrow> uuid \<Rightarrow> 'w sys \<Rightarrow> (lockout, 'w) sys_response" where
  "lockout_endpoint I = with_user (\<lambda>user s. (Inr (get_lockout_status I user s), s))"

definition lock_account_endpoint :: "'w idp \<Rightarrow> instant \<Rightarrow> uuid \<Rightarrow> uuid \<Rightarrow> 'w sys \<Rightarrow> (lockout, 'w) sys_response" where
  "lock_account_endpoint I now actor = with_user (\<lambda>user s.
     (let s = lock_account I now user actor s in (Inr (get_lockout_status I user s), s)))"

definition unlock_account_endpoint :: "'w idp \<Rightarrow> instant \<Rightarrow> uuid \<Rightarrow> uuid \<Rightarrow> 'w sys \<Rightarrow> (lockout, 'w) sys_response" where
  "unlock_account_endpoint I now actor = with_user (\<lambda>user s.
     (let s = unlock_account I now user actor s in (Inr (get_lockout_status I user s), s)))"

definition update_role :: "'w idp \<Rightarrow> instant \<Rightarrow> uuid \<Rightarrow> string \<Rightarrow> uuid \<Rightarrow> 'w sys \<Rightarrow> (unit, 'w) sys_response" where
  "update_role I now actor rname = with_user (\<lambda>user s.
     if role_name_of (db s) user = Some ''ADMIN'' \<and> rname \<noteq> ''ADMIN''
        \<and> u_is_active user \<and> length (active_admins (db s)) \<le> 1
     then (Inl (400, ''the last active administrator must keep the ADMIN role''), s)
     else sys_respond (\<lambda>e. (user_status_400 e, False)) s (change_role I now user rname actor s))"

definition update_groups :: "instant \<Rightarrow> uuid \<Rightarrow> uuid list \<Rightarrow> uuid \<Rightarrow> 'w sys \<Rightarrow> (unit, 'w) sys_response" where
  "update_groups now actor group_ids = with_user (\<lambda>user s.
     (let (r, d) = respond user_status_400 (db s) (set_groups now user group_ids actor (db s)) in (r, s\<lparr>db := d\<rparr>)))"

definition add_group_member :: "instant \<Rightarrow> uuid \<Rightarrow> uuid \<Rightarrow> uuid \<Rightarrow> database \<Rightarrow> unit response" where
  "add_group_member now actor group_id user_id d =
     (if row_get g_id group_id (groups d) = None then not_found ''group'' d
      else if row_get u_id user_id (users d) = None then not_found ''user'' d
      else respond (\<lambda>_. 500) d (add_member now group_id user_id actor d))"

definition remove_group_member :: "instant \<Rightarrow> uuid \<Rightarrow> uuid \<Rightarrow> uuid \<Rightarrow> database \<Rightarrow> unit response" where
  "remove_group_member now actor group_id user_id d = (Inr (), remove_member now group_id user_id actor d)"

definition create_group_endpoint :: "instant \<Rightarrow> uuid \<Rightarrow> string \<Rightarrow> string option \<Rightarrow> database \<Rightarrow> group response" where
  "create_group_endpoint now actor name description d =
     respond (\<lambda>e. case e of GroupServiceError _ \<Rightarrow> 400 | _ \<Rightarrow> 500) d (create_group now name description actor d)"

definition delete_group_endpoint :: "instant \<Rightarrow> uuid \<Rightarrow> uuid \<Rightarrow> database \<Rightarrow> unit response" where
  "delete_group_endpoint now actor group_id d =
     (case row_get g_id group_id (groups d) of
        None \<Rightarrow> not_found ''group'' d
      | Some g \<Rightarrow> (Inr (), delete_group now g actor d))"

text \<open>Ending every browser session of an account: the ended ones, each with the display connection to close.\<close>

definition revoke_sessions ::
  "'w backend \<Rightarrow> instant \<Rightarrow> uuid \<Rightarrow> uuid \<Rightarrow> 'w sys \<Rightarrow> ((uuid \<times> nat option) list, 'w) sys_response" where
  "revoke_sessions B now actor = with_user (\<lambda>user s.
     (let (terminated, s) = revoke_user_sessions B now (u_id user) actor s in
      (Inr (map (\<lambda>i. (i, force_disconnect i s)) terminated), s)))"

end
