(* ===== verification/Mfa.thy ===== *)
theory Mfa
  imports Accounts
begin

text \<open>
  The second factor: \<open>services/mfa.py\<close>, \<open>api/mfa.py\<close> and \<open>api/admin_mfa.py\<close>. An enrolment is pending
  while the account holds a secret with \<open>mfa_enabled\<close> still false.
\<close>

section \<open>Services\<close>

text \<open>A row per plaintext code, holding its hash.\<close>

fun store_codes :: "'w idp \<Rightarrow> instant \<Rightarrow> uuid \<Rightarrow> string list \<Rightarrow> 'w sys \<Rightarrow> 'w sys" where
  "store_codes I now user_id [] s = s"
| "store_codes I now user_id (plain # rest) s =
     (let (h, s) = with_world (argon2_hash I plain) s;
          (i, d) = fresh (db s)
      in store_codes I now user_id rest (s\<lparr>db := d\<lparr>recovery_codes := row_insert
           \<lparr> rc_id = i, rc_created_at = now, rc_user_id = user_id, rc_code_hash = h, rc_used_at = None \<rparr>
           (recovery_codes d)\<rparr>\<rparr>))"

definition drop_codes :: "uuid \<Rightarrow> database \<Rightarrow> database" where
  "drop_codes user_id d = d\<lparr>recovery_codes := rows_delete (\<lambda>c. rc_user_id c = user_id) (recovery_codes d)\<rparr>"

definition confirm_enrollment :: "'w idp \<Rightarrow> instant \<Rightarrow> user \<Rightarrow> string \<Rightarrow> 'w sys \<Rightarrow> (string list, 'w) sys_outcome" where
  "confirm_enrollment I now user code_text s =
     (case u_totp_secret_encrypted user of
        None \<Rightarrow> (Inl (ValueErr ''no pending TOTP enrollment''), s)
      | Some sealed \<Rightarrow>
     (case decrypt_text I sealed of
        None \<Rightarrow> (Inl (ValueErr ''could not decrypt stored secret''), s)
      | Some secret \<Rightarrow>
          if \<not> verify_code I now secret code_text then (Inl (ValueErr ''invalid TOTP code''), s)
          else
           (let s = on_db (drop_codes (u_id user)) (on_db (set_user now (u_id user) (\<lambda>u. u\<lparr>u_mfa_enabled := True\<rparr>)) s);
                (plain, s) = with_world (generate_recovery_codes I 10) s;
                s = store_codes I now (u_id user) plain s
            in (Inr plain, on_db (record_security_event now EV_MFA_ENROLLED (Some (u_id user)) None None None) s))))"

text \<open>The first unused recovery code of the account that the given text hashes to is used up.\<close>

definition redeem_recovery_code :: "'w idp \<Rightarrow> instant \<Rightarrow> user \<Rightarrow> string \<Rightarrow> database \<Rightarrow> bool \<times> database" where
  "redeem_recovery_code I now user code_text d =
     (case find (\<lambda>c. rc_user_id c = u_id user \<and> rc_used_at c = None \<and> argon2_verify I code_text (rc_code_hash c))
             (recovery_codes d) of
        None \<Rightarrow> (False, d)
      | Some c \<Rightarrow>
          (True, record_security_event now EV_RECOVERY_CODE_USED (Some (u_id user)) None None None
             (d\<lparr>recovery_codes := row_update rc_id (rc_id c) (\<lambda>x. x\<lparr>rc_used_at := Some now\<rparr>) (recovery_codes d)\<rparr>)))"

definition verify_login_factor :: "'w idp \<Rightarrow> instant \<Rightarrow> user \<Rightarrow> string \<Rightarrow> database \<Rightarrow> bool \<times> database" where
  "verify_login_factor I now user code_text d =
     (let secret = (case u_totp_secret_encrypted user of None \<Rightarrow> None | Some sealed \<Rightarrow> decrypt_text I sealed) in
      if (case secret of None \<Rightarrow> False | Some t \<Rightarrow> t \<noteq> [] \<and> verify_code I now t code_text) then (True, d)
      else redeem_recovery_code I now user code_text d)"

definition reset_mfa :: "'w idp \<Rightarrow> instant \<Rightarrow> user \<Rightarrow> uuid \<Rightarrow> 'w sys \<Rightarrow> 'w sys" where
  "reset_mfa I now target admin_id s =
     (let s = on_db (drop_codes (u_id target))
            (on_db (set_user now (u_id target) (\<lambda>u. u\<lparr>u_mfa_enabled := False, u_totp_secret_encrypted := None\<rparr>)) s);
          (revoked, s) = with_world (revoke_all_sessions_for_user I (u_id target)) s
      in on_db (user_event now EV_MFA_RESET (u_id target)
           [(''reset_by'', JId admin_id), (''sessions_revoked'', JInt (int revoked))]) s)"

section \<open>Routes\<close>

definition invalid_challenge :: http_error where
  "invalid_challenge = (401, ''invalid or expired MFA challenge'')"

definition load_pending_user :: "'w idp \<Rightarrow> string \<Rightarrow> 'w sys \<Rightarrow> (user, 'w) sys_response" where
  "load_pending_user I mfa_token s =
     (case get_mfa_pending I mfa_token (world s) of
        None \<Rightarrow> (Inl invalid_challenge, s)
      | Some (user_id, _) \<Rightarrow>
          (case row_get u_id user_id (users (db s)) of
             None \<Rightarrow> (Inl invalid_challenge, on_world (delete_mfa_pending I mfa_token) s)
           | Some user \<Rightarrow>
               if u_is_active user then (Inr user, s)
               else (Inl invalid_challenge, on_world (delete_mfa_pending I mfa_token) s)))"

text \<open>A new secret is stored, replacing one that was never confirmed. The answer is the secret.\<close>

definition begin_enrollment :: "'w idp \<Rightarrow> instant \<Rightarrow> user \<Rightarrow> 'w sys \<Rightarrow> (string, 'w) sys_response" where
  "begin_enrollment I now user s =
     (if u_mfa_enabled user then (Inl (409, ''MFA already enabled''), s)
      else (let (secret, s) = with_world (random_base32 I) s in
            (Inr secret, on_db (set_user now (u_id user)
               (\<lambda>u. u\<lparr>u_totp_secret_encrypted := Some (encrypt_text I secret)\<rparr>)) s)))"

definition with_current_user ::
  "'w idp \<Rightarrow> string option \<Rightarrow> (user \<Rightarrow> 'w sys \<Rightarrow> ('a, 'w) sys_response) \<Rightarrow> 'w sys \<Rightarrow> ('a, 'w) sys_response" where
  "with_current_user I cookie f s = (case get_current_user I cookie s of Inl e \<Rightarrow> (Inl e, s) | Inr user \<Rightarrow> f user s)"

definition enroll :: "'w idp \<Rightarrow> instant \<Rightarrow> string option \<Rightarrow> 'w sys \<Rightarrow> (string, 'w) sys_response" where
  "enroll I now cookie = with_current_user I cookie (begin_enrollment I now)"

definition setup_enroll :: "'w idp \<Rightarrow> instant \<Rightarrow> string \<Rightarrow> 'w sys \<Rightarrow> (string, 'w) sys_response" where
  "setup_enroll I now mfa_token s =
     (case load_pending_user I mfa_token s of
        (Inl e, s) \<Rightarrow> (Inl e, s)
      | (Inr user, s) \<Rightarrow> begin_enrollment I now user s)"

definition enroll_confirm :: "'w idp \<Rightarrow> instant \<Rightarrow> string option \<Rightarrow> string \<Rightarrow> 'w sys \<Rightarrow> (string list, 'w) sys_response" where
  "enroll_confirm I now cookie code_text = with_current_user I cookie (\<lambda>user s.
     if u_mfa_enabled user then (Inl (409, ''MFA already enabled''), s)
     else sys_respond (\<lambda>e. (case e of ValueErr _ \<Rightarrow> 400 | _ \<Rightarrow> 500, False)) s (confirm_enrollment I now user code_text s))"

text \<open>The session cookie of the new login is the first component of the answer.\<close>

definition log_in :: "'w idp \<Rightarrow> settings \<Rightarrow> instant \<Rightarrow> user \<Rightarrow> string \<Rightarrow> 'w sys \<Rightarrow> string \<times> 'w sys" where
  "log_in I st now user rname s =
     (let (tok, s) = with_world (create_login_session I st (u_id user) rname) s in
      (tok, on_db (record_security_event now EV_USER_LOGIN (Some (u_id user)) None None None) s))"

definition setup_confirm ::
  "'w idp \<Rightarrow> settings \<Rightarrow> instant \<Rightarrow> string \<Rightarrow> string \<Rightarrow> 'w sys \<Rightarrow> (string \<times> string list, 'w) sys_response" where
  "setup_confirm I st now mfa_token code_text s =
     (case load_pending_user I mfa_token s of
        (Inl e, s) \<Rightarrow> (Inl e, s)
      | (Inr user, s) \<Rightarrow>
          if u_mfa_enabled user then (Inl (409, ''MFA already enabled''), s)
          else case sys_respond (\<lambda>e. (case e of ValueErr _ \<Rightarrow> 400 | _ \<Rightarrow> 500, False)) s (confirm_enrollment I now user code_text s) of
            (Inl e, s) \<Rightarrow> (Inl e, s)
          | (Inr plain, t) \<Rightarrow>
              (let t = on_world (delete_mfa_pending I mfa_token) t in
               case role_name_of (db t) user of
                 None \<Rightarrow> (Inl (500, ''Internal Server Error''), t\<lparr>db := db s\<rparr>)
               | Some rname \<Rightarrow> (let (tok, t) = log_in I st now user rname t in (Inr (tok, plain), t))))"

definition reset_self :: "'w idp \<Rightarrow> instant \<Rightarrow> string option \<Rightarrow> string \<Rightarrow> 'w sys \<Rightarrow> (unit, 'w) sys_response" where
  "reset_self I now cookie code_text = with_current_user I cookie (\<lambda>user s.
     if \<not> u_mfa_enabled user then (Inl (400, ''invalid authentication code''), s)
     else case verify_login_factor I now user code_text (db s) of
       (False, _) \<Rightarrow> (Inl (400, ''invalid authentication code''), s)
     | (True, d) \<Rightarrow> (Inr (), reset_mfa I now user (u_id user) (s\<lparr>db := d\<rparr>)))"

definition admin_reset_mfa :: "'w idp \<Rightarrow> instant \<Rightarrow> uuid \<Rightarrow> uuid \<Rightarrow> 'w sys \<Rightarrow> (unit, 'w) sys_response" where
  "admin_reset_mfa I now actor = with_user (\<lambda>user s. (Inr (), reset_mfa I now user actor s))"

end
