(* ===== verification/Ldap.thy ===== *)
theory Ldap
  imports Accounts
begin

text \<open>
  Directory logins: \<open>core/auth_providers/ldap.py\<close>, \<open>core/ldap_dn.py\<close>, \<open>services/ldap_config_service.py\<close>,
  \<open>services/ldap_provisioning.py\<close> and the routes of \<open>api/admin_ldap.py\<close> with their request schema.

  python-ldap and the directory behind it are parameters, a record \<open>'w directory\<close>; a connection is the
  number it was opened under. Attribute values are given as text.
\<close>

section \<open>The directory\<close>

datatype ldap_error_kind = Invalid_credentials | No_such_object | Server_down | Connect_error | Ldap_timeout | Other_kind string

text \<open>An \<open>LDAPError\<close>: its class, and the text of \<open>str(exc)\<close>.\<close>

datatype ldap_error = Ldap_error ldap_error_kind string

datatype search_scope = Scope_base | Scope_subtree

type_synonym ldap_entry = "string option \<times> (string \<times> string list) list"

record 'w directory =
  ldap_initialize :: "string \<Rightarrow> 'w \<Rightarrow> (ldap_error + nat) \<times> 'w"
  ldap_start_tls :: "nat \<Rightarrow> 'w \<Rightarrow> (ldap_error + unit) \<times> 'w"
  ldap_bind :: "nat \<Rightarrow> string \<Rightarrow> string \<Rightarrow> 'w \<Rightarrow> (ldap_error + unit) \<times> 'w"
  ldap_search :: "nat \<Rightarrow> string \<Rightarrow> search_scope \<Rightarrow> string \<Rightarrow> string list \<Rightarrow> 'w \<Rightarrow> (ldap_error + ldap_entry list) \<times> 'w"
  ldap_unbind :: "nat \<Rightarrow> 'w \<Rightarrow> (ldap_error + unit) \<times> 'w"
  escape_filter :: "string \<Rightarrow> string"
  str2dn :: "string \<Rightarrow> (string \<times> string \<times> int) list list option"

record ldap_connection_config =
  lc_server_uri :: string
  lc_use_starttls :: bool
  lc_bind_dn :: string
  lc_bind_password :: string
  lc_base_dn :: string
  lc_user_search_filter :: string
  lc_group_attribute :: string

section \<open>Distinguished names\<close>

text \<open>The comparison key: RDNs in order, the components of each lowercased and sorted; or the lowercased text.\<close>

datatype dn_key = Parsed "(string \<times> string \<times> int) list list" | Unparsed string

definition normalize_dn :: "'w directory \<Rightarrow> string \<Rightarrow> dn_key" where
  "normalize_dn D dn =
     (case str2dn D dn of
        None \<Rightarrow> Unparsed (lower (strip dn))
      | Some parsed \<Rightarrow> Parsed (map (\<lambda>rdn. sort (map (\<lambda>(t, v, f). (lower t, lower v, f)) rdn)) parsed))"

definition dns_equal :: "'w directory \<Rightarrow> string \<Rightarrow> string \<Rightarrow> bool" where
  "dns_equal D a b = (normalize_dn D a = normalize_dn D b)"

section \<open>Verifying a password\<close>

text \<open>\<open>ldap.initialize\<close>, then StartTLS when the URI begins with \<open>ldap://\<close> and it is asked for.\<close>

definition new_ldap_connection :: "'w directory \<Rightarrow> ldap_connection_config \<Rightarrow> 'w \<Rightarrow> (ldap_error + nat) \<times> 'w" where
  "new_ldap_connection D c w =
     (case ldap_initialize D (lc_server_uri c) w of
        (Inl e, w) \<Rightarrow> (Inl e, w)
      | (Inr h, w) \<Rightarrow>
          if startswith (lc_server_uri c) ''ldap://'' \<and> lc_use_starttls c then
            (case ldap_start_tls D h w of (Inl e, w) \<Rightarrow> (Inl e, w) | (Inr _, w) \<Rightarrow> (Inr h, w))
          else (Inr h, w))"

text \<open>
  \<open>str.format(username=...)\<close> for the replacement field \<open>{username}\<close> and doubled braces; any other
  use of a brace counts as the error it is for an unknown field (\<open>None\<close>).
\<close>

fun format_username :: "string \<Rightarrow> string \<Rightarrow> string option" where
  "format_username u [] = Some []"
| "format_username u (c # cs) =
     (if startswith (c # cs) ''{{'' then map_option (Cons (CHR 0x7B)) (format_username u (drop 1 cs))
      else if startswith (c # cs) ''}}'' then map_option (Cons (CHR 0x7D)) (format_username u (drop 1 cs))
      else if startswith (c # cs) ''{username}'' then map_option (append u) (format_username u (drop 9 cs))
      else if c \<in> {CHR 0x7B, CHR 0x7D} then None
      else map_option (Cons c) (format_username u cs))"

definition real_entries :: "ldap_entry list \<Rightarrow> (string \<times> (string \<times> string list) list) list" where
  "real_entries rs = concat (map (\<lambda>(dn, attrs). case dn of None \<Rightarrow> [] | Some t \<Rightarrow> [(t, attrs)]) rs)"

definition attribute_values :: "string \<Rightarrow> (string \<times> string list) list \<Rightarrow> string list" where
  "attribute_values k attrs = (case map_of attrs k of None \<Rightarrow> [] | Some vs \<Rightarrow> vs)"

text \<open>Binding as the user found: an error of the final \<open>unbind_s\<close> replaces the outcome.\<close>

definition bind_as_user ::
  "'w directory \<Rightarrow> ldap_connection_config \<Rightarrow> string \<Rightarrow> string \<Rightarrow> 'w \<Rightarrow> bool \<times> 'w" where
  "bind_as_user D c user_dn password w =
     (case new_ldap_connection D c w of
        (Inl _, w) \<Rightarrow> (False, w)
      | (Inr h, w) \<Rightarrow>
          (case ldap_bind D h user_dn password w of
             (r, w) \<Rightarrow> (case ldap_unbind D h w of (u, w) \<Rightarrow> (\<not> isl r \<and> \<not> isl u, w))))"

text \<open>The search bound as the service account: \<open>None\<close> is any LDAP error, an outer error a bad filter template.\<close>

definition search_user ::
  "'w directory \<Rightarrow> ldap_connection_config \<Rightarrow> string \<Rightarrow> 'w \<Rightarrow> (service_error + ldap_entry list option) \<times> 'w" where
  "search_user D c username w =
     (case new_ldap_connection D c w of
        (Inl _, w) \<Rightarrow> (Inr None, w)
      | (Inr h, w) \<Rightarrow>
     (case ldap_bind D h (lc_bind_dn c) (lc_bind_password c) w of
        (Inl _, w) \<Rightarrow> (Inr None, w)
      | (Inr _, w) \<Rightarrow>
     (case format_username (escape_filter D username) (lc_user_search_filter c) of
        None \<Rightarrow> (Inl (RuntimeErr ''unexpected replacement field in user_search_filter''), w)
      | Some flt \<Rightarrow>
     (case ldap_search D h (lc_base_dn c) Scope_subtree flt [lc_group_attribute c] w of
        (Inl _, w) \<Rightarrow> (Inr None, w)
      | (Inr rs, w) \<Rightarrow>
     (case ldap_unbind D h w of (Inl _, w) \<Rightarrow> (Inr None, w) | (Inr _, w) \<Rightarrow> (Inr (Some rs), w))))))"

text \<open>\<open>LdapAuthProvider.authenticate\<close>: on success the group DNs, \<open>None\<close> is a failed login.\<close>

definition ldap_authenticate ::
  "'w directory \<Rightarrow> ldap_connection_config \<Rightarrow> string \<Rightarrow> string \<Rightarrow> 'w \<Rightarrow> (service_error + string list option) \<times> 'w" where
  "ldap_authenticate D c username password w =
     (if password = [] then (Inr None, w)
      else case search_user D c username w of
        (Inl e, w) \<Rightarrow> (Inl e, w)
      | (Inr None, w) \<Rightarrow> (Inr None, w)
      | (Inr (Some rs), w) \<Rightarrow>
          (case real_entries rs of
             [(user_dn, attrs)] \<Rightarrow>
               (case bind_as_user D c user_dn password w of
                  (True, w) \<Rightarrow> (Inr (Some (attribute_values (lc_group_attribute c) attrs)), w)
                | (False, w) \<Rightarrow> (Inr None, w))
           | _ \<Rightarrow> (Inr None, w)))"

definition ldap_health :: "'w directory \<Rightarrow> ldap_connection_config \<Rightarrow> 'w \<Rightarrow> bool \<times> 'w" where
  "ldap_health D c w =
     (case new_ldap_connection D c w of
        (Inl _, w) \<Rightarrow> (False, w)
      | (Inr h, w) \<Rightarrow>
          (case ldap_bind D h (lc_bind_dn c) (lc_bind_password c) w of
             (Inl _, w) \<Rightarrow> (False, w)
           | (Inr _, w) \<Rightarrow> (case ldap_unbind D h w of (r, w) \<Rightarrow> (\<not> isl r, w))))"

section \<open>Trying a configuration\<close>

record ldap_test_step =
  ts_name :: string
  ts_ok :: bool
  ts_detail :: "string option"

record ldap_test_result =
  tr_steps :: "ldap_test_step list"
  tr_success :: bool
  tr_groups_discovered :: "nat option"

definition step_ok :: "string \<Rightarrow> ldap_test_step" where
  "step_ok n = \<lparr> ts_name = n, ts_ok = True, ts_detail = None \<rparr>"

definition step_failed :: "string \<Rightarrow> string \<Rightarrow> ldap_test_step" where
  "step_failed n why = \<lparr> ts_name = n, ts_ok = False, ts_detail = Some why \<rparr>"

primrec kind_name :: "ldap_error_kind \<Rightarrow> string" where
  "kind_name Invalid_credentials = ''INVALID_CREDENTIALS''"
| "kind_name No_such_object = ''NO_SUCH_OBJECT''"
| "kind_name Server_down = ''SERVER_DOWN''"
| "kind_name Connect_error = ''CONNECT_ERROR''"
| "kind_name Ldap_timeout = ''TIMEOUT''"
| "kind_name (Other_kind n) = n"

fun friendly_ldap_error :: "ldap_error \<Rightarrow> string" where
  "friendly_ldap_error (Ldap_error kind txt) =
     (if contains (lower txt) ''certificate'' \<or> contains (lower txt) ''tls'' \<or> contains (lower txt) ''ssl''
      then ''TLS certificate validation failed''
      else if kind = Invalid_credentials then ''Invalid bind credentials''
      else if kind = No_such_object then ''Base DN not found on the server''
      else if kind \<in> {Server_down, Connect_error}
      then ''Could not reach the LDAP server (check host, port, and network path)''
      else if kind = Ldap_timeout then ''Connection timed out''
      else ''LDAP error ('' @ kind_name kind @ '')'')"

text \<open>The optional probe for one user name. An outer error is a bad filter template.\<close>

definition probe_user ::
  "'w directory \<Rightarrow> ldap_connection_config \<Rightarrow> nat \<Rightarrow> string \<Rightarrow> 'w
   \<Rightarrow> (service_error + ldap_test_step list \<times> nat option) \<times> 'w" where
  "probe_user D c h username w =
     (case format_username (escape_filter D username) (lc_user_search_filter c) of
        None \<Rightarrow> (Inl (RuntimeErr ''unexpected replacement field in user_search_filter''), w)
      | Some flt \<Rightarrow>
     (case ldap_search D h (lc_base_dn c) Scope_subtree flt [lc_group_attribute c] w of
        (Inl e, w) \<Rightarrow> (Inr ([step_failed ''User search'' (friendly_ldap_error e)], None), w)
      | (Inr rs, w) \<Rightarrow>
          (case real_entries rs of
             [(_, attrs)] \<Rightarrow>
               (let n = length (attribute_values (lc_group_attribute c) attrs) in
                (Inr ([step_ok ''User search'',
                   \<lparr> ts_name = ''Group resolution'', ts_ok = True,
                     ts_detail = Some (show_nat n @ '' group(s) discovered'') \<rparr>], Some n), w))
           | es \<Rightarrow> (Inr ([step_failed ''User search'' (''Expected exactly one match for '' @ [CHR 0x27] @ username
                @ [CHR 0x27] @ '', found '' @ show_nat (length es))], None), w))))"

text \<open>\<open>test_connection\<close>: an error of an \<open>unbind_s\<close> is not caught.\<close>

definition finish_test :: "'w directory \<Rightarrow> nat \<Rightarrow> ldap_test_result \<Rightarrow> 'w \<Rightarrow> (service_error + ldap_test_result) \<times> 'w" where
  "finish_test D h r w =
     (case ldap_unbind D h w of
        (Inl (Ldap_error _ txt), w) \<Rightarrow> (Inl (RuntimeErr txt), w)
      | (Inr _, w) \<Rightarrow> (Inr r, w))"

definition test_connection ::
  "'w directory \<Rightarrow> ldap_connection_config \<Rightarrow> string option \<Rightarrow> 'w \<Rightarrow> (service_error + ldap_test_result) \<times> 'w" where
  "test_connection D c test_username w =
     (let result = (\<lambda>steps ok n. \<lparr> tr_steps = steps, tr_success = ok, tr_groups_discovered = n \<rparr>) in
      case new_ldap_connection D c w of
        (Inl e, w) \<Rightarrow> (Inr (result [step_failed ''TLS / connection'' (friendly_ldap_error e)] False None), w)
      | (Inr h, w) \<Rightarrow>
     (let steps = [step_ok ''TLS / connection''] in
      case ldap_bind D h (lc_bind_dn c) (lc_bind_password c) w of
        (Inl e, w) \<Rightarrow> (Inr (result (steps @ [step_failed ''Service bind'' (friendly_ldap_error e)]) False None), w)
      | (Inr _, w) \<Rightarrow>
     (let steps = steps @ [step_ok ''Service bind''] in
      case ldap_search D h (lc_base_dn c) Scope_base ''(objectClass=*)'' [] w of
        (Inl e, w) \<Rightarrow>
          finish_test D h (result (steps @ [step_failed ''Search base'' (friendly_ldap_error e)]) False None) w
      | (Inr _, w) \<Rightarrow>
     (let steps = steps @ [step_ok ''Search base''] in
      if truthy test_username then
        (case probe_user D c h (the test_username) w of
           (Inl e, w) \<Rightarrow> (Inl e, w)
         | (Inr (more_steps, n), w) \<Rightarrow> finish_test D h (result (steps @ more_steps) True n) w)
      else finish_test D h (result steps True None) w))))"

section \<open>The configuration in effect\<close>

definition config_from_settings :: "settings \<Rightarrow> ldap_connection_config" where
  "config_from_settings st =
     \<lparr> lc_server_uri = ldap_server_uri st, lc_use_starttls = ldap_use_starttls st, lc_bind_dn = ldap_bind_dn st,
       lc_bind_password = ldap_bind_password st, lc_base_dn = ldap_base_dn st,
       lc_user_search_filter = ldap_user_search_filter st, lc_group_attribute = ldap_group_attribute st \<rparr>"

definition config_from_row :: "ldap_config \<Rightarrow> string \<Rightarrow> ldap_connection_config" where
  "config_from_row row password =
     \<lparr> lc_server_uri = l_server_uri row, lc_use_starttls = l_use_starttls row, lc_bind_dn = l_bind_dn row,
       lc_bind_password = password, lc_base_dn = l_base_dn row,
       lc_user_search_filter = l_user_search_filter row, lc_group_attribute = l_group_attribute row \<rparr>"

text \<open>The stored bind password: empty when none is stored, an error when it cannot be decrypted.\<close>

definition stored_password :: "'w idp \<Rightarrow> ldap_config \<Rightarrow> service_error + string" where
  "stored_password I row =
     (case l_bind_password_encrypted row of
        None \<Rightarrow> Inr []
      | Some sealed \<Rightarrow>
          if sealed = [] then Inr []
          else case decrypt_text I sealed of
            None \<Rightarrow> Inl (ValueErr ''could not decrypt stored secret'')
          | Some t \<Rightarrow> Inr t)"

definition get_effective_ldap_config ::
  "'w idp \<Rightarrow> settings \<Rightarrow> database \<Rightarrow> service_error + ldap_connection_config option" where
  "get_effective_ldap_config I st d =
     (if listener_mode st = Listener_user \<and> database_url_user st \<noteq> [] then Inr None
      else case ldap_configs d of
        Some row \<Rightarrow>
          if \<not> l_enabled row then Inr None
          else (case stored_password I row of Inl e \<Rightarrow> Inl e | Inr pw \<Rightarrow> Inr (Some (config_from_row row pw)))
      | None \<Rightarrow> if ldap_enabled st then Inr (Some (config_from_settings st)) else Inr None)"

definition get_effective_group_role_mapping :: "settings \<Rightarrow> database \<Rightarrow> (string \<times> string) list" where
  "get_effective_group_role_mapping st d =
     (case ldap_configs d of Some row \<Rightarrow> l_group_role_mapping row | None \<Rightarrow> ldap_group_role_mapping st)"

section \<open>The account behind a directory login\<close>

definition ROLE_PRECEDENCE :: "string list" where
  "ROLE_PRECEDENCE = [''ADMIN'', ''SECURITY_REVIEWER'', ''USER'']"

text \<open>A dict comprehension keeps the last of the entries whose keys collide.\<close>

definition normalized_mapping :: "'w directory \<Rightarrow> (string \<times> string) list \<Rightarrow> dn_key \<Rightarrow> string option" where
  "normalized_mapping D mapping = map_of (rev (map (\<lambda>(dn, rname). (normalize_dn D dn, rname)) mapping))"

definition mapped_roles :: "'w directory \<Rightarrow> string list \<Rightarrow> (string \<times> string) list \<Rightarrow> string list" where
  "mapped_roles D group_dns mapping =
     concat (map (\<lambda>dn. case normalized_mapping D mapping (normalize_dn D dn) of None \<Rightarrow> [] | Some r \<Rightarrow> [r]) group_dns)"

definition resolve_role_from_ldap_groups :: "'w directory \<Rightarrow> string list \<Rightarrow> (string \<times> string) list \<Rightarrow> string" where
  "resolve_role_from_ldap_groups D group_dns mapping =
     (case find (\<lambda>r. r \<in> set (mapped_roles D group_dns mapping)) ROLE_PRECEDENCE of
        Some r \<Rightarrow> r | None \<Rightarrow> ''USER'')"

definition seeded_role :: "string \<Rightarrow> database \<Rightarrow> service_error + role" where
  "seeded_role rname d =
     (case row_get r_name rname (roles d) of
        None \<Rightarrow> Inl (RuntimeErr (''role '' @ [CHR 0x27] @ rname @ [CHR 0x27]
          @ '' is not seeded - this should never happen for a fixed v1.0 role''))
      | Some r \<Rightarrow> Inr r)"

text \<open>An existing account: its role follows the directory only if it has no local password and is active.\<close>

definition follow_directory_role :: "instant \<Rightarrow> user \<Rightarrow> string \<Rightarrow> database \<Rightarrow> unit outcome" where
  "follow_directory_role now user rname d =
     (if u_password_hash user \<noteq> None \<or> \<not> u_is_active user then (Inr (), d)
      else case role_name_of d user of
        None \<Rightarrow> (Inl (RuntimeErr ''NoneType object has no attribute name''), d)
      | Some current \<Rightarrow>
          if current = rname then (Inr (), d)
          else (case seeded_role rname d of
             Inl e \<Rightarrow> (Inl e, d)
           | Inr r \<Rightarrow> (Inr (), user_event now EV_USER_ROLE_CHANGED (u_id user)
                [(''reason'', JStr ''ldap_group_mapping''), (''new_role'', JStr rname)]
                (set_user now (u_id user) (\<lambda>u. u\<lparr>u_role_id := r_id r\<rparr>) d))))"

definition resolve_or_provision_ldap_user ::
  "'w directory \<Rightarrow> instant \<Rightarrow> string \<Rightarrow> string list \<Rightarrow> (string \<times> string) list \<Rightarrow> database \<Rightarrow> uuid outcome" where
  "resolve_or_provision_ldap_user D now username group_dns mapping d =
     (let rname = resolve_role_from_ldap_groups D group_dns mapping in
      case row_get u_username username (users d) of
        Some user \<Rightarrow>
          (case follow_directory_role now user rname d of (Inl e, d) \<Rightarrow> (Inl e, d) | (Inr _, d) \<Rightarrow> (Inr (u_id user), d))
      | None \<Rightarrow>
          (case seeded_role rname d of
             Inl e \<Rightarrow> (Inl e, d)
           | Inr r \<Rightarrow>
               if length username > 255 then (Inl DbDataError, d)
               else (let (i, d) = fresh d in
                 (Inr i, user_event now EV_USER_PROVISIONED_VIA_LDAP i
                    [(''username'', JStr username), (''role'', JStr rname)]
                    (d\<lparr>users := row_insert (new_user i now username None (r_id r)) (users d)\<rparr>)))))"

section \<open>Administration\<close>

record ldap_fields =
  lf_server_uri :: string
  lf_use_starttls :: bool
  lf_bind_dn :: string
  lf_base_dn :: string
  lf_user_search_filter :: string
  lf_group_attribute :: string

text \<open>The request schema: bounds on the fields, then their validators; \<open>None\<close> is a 422.\<close>

definition validate_ldap_fields :: "ldap_fields \<Rightarrow> ldap_fields option" where
  "validate_ldap_fields f =
     (let uri = strip (lf_server_uri f); base = strip (lf_base_dn f) in
      if length (lf_server_uri f) < 1 \<or> length (lf_server_uri f) > 512 \<or> length (lf_bind_dn f) > 512
         \<or> length (lf_base_dn f) > 512 \<or> length (lf_user_search_filter f) < 1 \<or> length (lf_user_search_filter f) > 512
         \<or> length (lf_group_attribute f) < 1 \<or> length (lf_group_attribute f) > 255
         \<or> \<not> (startswith (lower uri) ''ldap://'' \<or> startswith (lower uri) ''ldaps://'')
         \<or> base = [] \<or> \<not> contains (lf_user_search_filter f) ''{username}'' then None
      else if startswith (lower uri) ''ldaps://'' \<and> lf_use_starttls f then None
      else if startswith (lower uri) ''ldap://'' \<and> \<not> lf_use_starttls f then None
      else Some (f\<lparr>lf_server_uri := uri, lf_base_dn := base\<rparr>))"

definition config_from_fields :: "ldap_fields \<Rightarrow> string \<Rightarrow> ldap_connection_config" where
  "config_from_fields f password =
     \<lparr> lc_server_uri = lf_server_uri f, lc_use_starttls = lf_use_starttls f, lc_bind_dn = lf_bind_dn f,
       lc_bind_password = password, lc_base_dn = lf_base_dn f,
       lc_user_search_filter = lf_user_search_filter f, lc_group_attribute = lf_group_attribute f \<rparr>"

definition get_ldap_config_endpoint :: "instant \<Rightarrow> uuid \<Rightarrow> database \<Rightarrow> ldap_config option \<times> database" where
  "get_ldap_config_endpoint now actor d =
     (ldap_configs d, record_security_event now EV_LDAP_CONFIG_READ (Some actor) None None None d)"

definition test_config ::
  "'w directory \<Rightarrow> instant \<Rightarrow> uuid \<Rightarrow> ldap_fields \<Rightarrow> string \<Rightarrow> string option \<Rightarrow> 'w sys \<Rightarrow> (ldap_test_result, 'w) sys_response" where
  "test_config D now actor payload password test_username s =
     (case validate_ldap_fields payload of
        None \<Rightarrow> (Inl (422, ''invalid request''), s)
      | Some f \<Rightarrow>
          (case with_world (test_connection D (config_from_fields f password) test_username) s of
             (Inl _, s) \<Rightarrow> (Inl (500, ''Internal Server Error''), s)
           | (Inr r, s) \<Rightarrow>
               (Inr r, on_db (user_event now EV_LDAP_CONNECTION_TESTED actor
                  [(''server_uri'', JStr (lf_server_uri f)), (''success'', JBool (tr_success r))]) s)))"

text \<open>The password to store and the one to try: a given one, else the stored one.\<close>

definition effective_password :: "'w idp \<Rightarrow> string option \<Rightarrow> database \<Rightarrow> service_error + bytes option \<times> string" where
  "effective_password I password d =
     (if truthy password then Inr (Some (encrypt_text I (the password)), the password)
      else case ldap_configs d of
        None \<Rightarrow> Inr (None, [])
      | Some row \<Rightarrow>
          (case stored_password I row of Inl e \<Rightarrow> Inl e | Inr pw \<Rightarrow> Inr (l_bind_password_encrypted row, pw)))"

definition write_ldap_config ::
  "instant \<Rightarrow> uuid \<Rightarrow> ldap_fields \<Rightarrow> bool \<Rightarrow> (string \<times> string) list \<Rightarrow> bytes option \<Rightarrow> bool \<Rightarrow> database \<Rightarrow> database" where
  "write_ldap_config now actor f enabled mapping sealed password_changed d =
     (let was_enabled = (case ldap_configs d of None \<Rightarrow> False | Some row \<Rightarrow> l_enabled row);
          created = (case ldap_configs d of None \<Rightarrow> now | Some row \<Rightarrow> l_created_at row);
          d = d\<lparr>ldap_configs := Some \<lparr> l_created_at = created, l_updated_at = now, l_enabled = enabled,
            l_server_uri = lf_server_uri f, l_use_starttls = lf_use_starttls f, l_bind_dn = lf_bind_dn f,
            l_bind_password_encrypted = sealed, l_base_dn = lf_base_dn f,
            l_user_search_filter = lf_user_search_filter f, l_group_attribute = lf_group_attribute f,
            l_group_role_mapping = mapping, l_updated_by = Some actor \<rparr>\<rparr>;
          d = user_event now EV_LDAP_CONFIG_CHANGED actor
            [(''server_uri'', JStr (lf_server_uri f)), (''use_starttls'', JBool (lf_use_starttls f)),
             (''base_dn'', JStr (lf_base_dn f)), (''bind_password_changed'', JBool password_changed)] d
      in if enabled \<and> \<not> was_enabled then record_security_event now EV_LDAP_ENABLED (Some actor) None None None d
         else if \<not> enabled \<and> was_enabled then record_security_event now EV_LDAP_DISABLED (Some actor) None None None d
         else d)"

definition update_config ::
  "'w idp \<Rightarrow> 'w directory \<Rightarrow> instant \<Rightarrow> uuid \<Rightarrow> ldap_fields \<Rightarrow> bool \<Rightarrow> string option \<Rightarrow> (string \<times> string) list \<Rightarrow> 'w sys
   \<Rightarrow> (unit, 'w) sys_response" where
  "update_config I D now actor payload enabled password mapping s =
     (case validate_ldap_fields payload of
        None \<Rightarrow> (Inl (422, ''invalid request''), s)
      | Some f \<Rightarrow>
     (case effective_password I password (db s) of
        Inl _ \<Rightarrow> (Inl (500, ''Internal Server Error''), s)
      | Inr (sealed, pw) \<Rightarrow>
          if enabled then
            (case with_world (test_connection D (config_from_fields f pw) None) s of
               (Inl _, s) \<Rightarrow> (Inl (500, ''Internal Server Error''), s)
             | (Inr r, s) \<Rightarrow>
                 if tr_success r then (Inr (), on_db (write_ldap_config now actor f enabled mapping sealed (truthy password)) s)
                 else (Inl (422, ''LDAP connection test failed; existing configuration was not changed''), s))
          else (Inr (), on_db (write_ldap_config now actor f enabled mapping sealed (truthy password)) s)))"

end
