(* ===== verification/Login.thy ===== *)
theory Login
  imports Mfa Ldap
begin

text \<open>
  Logging in: \<open>api/auth.py\<close> with the local provider of \<open>core/auth_providers/local.py\<close>. Errors of the
  directory configuration that nothing catches end the request with 500 and nothing committed; what
  was done in Redis or the directory by then stays done.
\<close>

section \<open>The local provider\<close>

record auth_result =
  ar_success :: bool
  ar_matched_user_id :: "uuid option"

definition local_authenticate :: "'w idp \<Rightarrow> string \<Rightarrow> string \<Rightarrow> database \<Rightarrow> auth_result" where
  "local_authenticate I username password d =
     (case row_get u_username username (users d) of
        None \<Rightarrow> \<lparr> ar_success = False, ar_matched_user_id = None \<rparr>
      | Some user \<Rightarrow>
          \<lparr> ar_success = (u_is_active user
              \<and> (case u_password_hash user of None \<Rightarrow> False | Some h \<Rightarrow> argon2_verify I password h)),
            ar_matched_user_id = Some (u_id user) \<rparr>)"

section \<open>Login\<close>

datatype login_answer =
    Logged_in string
  | Mfa_required string
  | Mfa_enrollment_required string

definition server_error :: "database \<Rightarrow> 'w sys \<Rightarrow> ('a, 'w) sys_response" where
  "server_error before s = (Inl (500, ''Internal Server Error''), s\<lparr>db := before\<rparr>)"

text \<open>The directory is asked only if no local password is on record for the name.\<close>

definition directory_login ::
  "'w idp \<Rightarrow> 'w directory \<Rightarrow> settings \<Rightarrow> instant \<Rightarrow> string \<Rightarrow> string \<Rightarrow> 'w sys \<Rightarrow> (uuid option, 'w) sys_outcome" where
  "directory_login I D st now username password s =
     (case get_effective_ldap_config I st (db s) of
        Inl e \<Rightarrow> (Inl e, s)
      | Inr None \<Rightarrow> (Inr None, s)
      | Inr (Some c) \<Rightarrow>
          (case with_world (ldap_authenticate D c username password) s of
             (Inl e, s) \<Rightarrow> (Inl e, s)
           | (Inr None, s) \<Rightarrow> (Inr None, s)
           | (Inr (Some group_dns), s) \<Rightarrow>
               (case resolve_or_provision_ldap_user D now username group_dns
                       (get_effective_group_role_mapping st (db s)) (db s) of
                  (Inl e, d) \<Rightarrow> (Inl e, s\<lparr>db := d\<rparr>)
                | (Inr i, d) \<Rightarrow> (Inr (Some i), s\<lparr>db := d\<rparr>))))"

definition identify ::
  "'w idp \<Rightarrow> 'w directory \<Rightarrow> settings \<Rightarrow> instant \<Rightarrow> string \<Rightarrow> string \<Rightarrow> 'w sys \<Rightarrow> (uuid option, 'w) sys_outcome" where
  "identify I D st now username password s =
     (let a = local_authenticate I username password (db s);
          matched = (case ar_matched_user_id a of None \<Rightarrow> None | Some i \<Rightarrow> row_get u_id i (users (db s)))
      in if ar_success a then (Inr (ar_matched_user_id a), s)
         else if (case matched of None \<Rightarrow> False | Some user \<Rightarrow> u_password_hash user \<noteq> None) then (Inr None, s)
         else directory_login I D st now username password s)"

definition login_failed :: "'w idp \<Rightarrow> instant \<Rightarrow> string \<Rightarrow> uuid option \<Rightarrow> 'w sys \<Rightarrow> ('a, 'w) sys_response" where
  "login_failed I now username matched s =
     (Inl (401, ''invalid credentials''),
      on_db (record_security_event now EV_USER_LOGIN_FAILED matched None None (Some [(''username'', JStr username)]))
        (on_world (record_login_failure I username) s))"

text \<open>Credentials are right: the second factor, its enrolment, or the session.\<close>

definition admit ::
  "'w idp \<Rightarrow> settings \<Rightarrow> instant \<Rightarrow> database \<Rightarrow> string \<Rightarrow> user \<Rightarrow> 'w sys \<Rightarrow> (login_answer, 'w) sys_response" where
  "admit I st now before username user s =
     (let s = on_world (clear_login_failures I username) s in
      if u_mfa_enabled user then
        (let (tok, s) = with_world (create_mfa_pending I (u_id user)) s in (Inr (Mfa_required tok), s))
      else case role_name_of (db s) user of
        None \<Rightarrow> server_error before s
      | Some rname \<Rightarrow>
          if rname \<in> set MFA_MANDATORY_ROLES then
            (let (tok, s) = with_world (create_mfa_pending I (u_id user)) s in (Inr (Mfa_enrollment_required tok), s))
          else (let (tok, s) = log_in I st now user rname s in (Inr (Logged_in tok), s)))"

definition login ::
  "'w idp \<Rightarrow> 'w directory \<Rightarrow> settings \<Rightarrow> instant \<Rightarrow> string \<Rightarrow> string \<Rightarrow> 'w sys \<Rightarrow> (login_answer, 'w) sys_response" where
  "login I D st now username password s =
     (if is_login_locked I username (world s) then
        (Inl (429, ''too many failed login attempts''),
         on_db (record_security_event now EV_LOGIN_LOCKED None None None (Some [(''username'', JStr username)])) s)
      else case identify I D st now username password s of
        (Inl _, t) \<Rightarrow> server_error (db s) t
      | (Inr found, t) \<Rightarrow>
          (case (case found of None \<Rightarrow> None | Some i \<Rightarrow> row_get u_id i (users (db t))) of
             Some user \<Rightarrow>
               if u_is_active user then admit I st now (db s) username user t
               else login_failed I now username (ar_matched_user_id (local_authenticate I username password (db s))) t
           | None \<Rightarrow> login_failed I now username (ar_matched_user_id (local_authenticate I username password (db s))) t))"

section \<open>The other routes\<close>

definition logout :: "'w idp \<Rightarrow> string option \<Rightarrow> 'w sys \<Rightarrow> (unit, 'w) sys_response" where
  "logout I cookie = with_current_user I cookie (\<lambda>user s.
     (Inr (), case cookie of None \<Rightarrow> s | Some tok \<Rightarrow> on_world (delete_login_session I tok) s))"

text \<open>What an account shows of itself: name, role, MFA, and whether it is local.\<close>

definition me :: "'w idp \<Rightarrow> string option \<Rightarrow> 'w sys \<Rightarrow> (string \<times> string \<times> bool \<times> string, 'w) sys_response" where
  "me I cookie = with_current_user I cookie (\<lambda>user s.
     (case role_name_of (db s) user of
        None \<Rightarrow> (Inl (500, ''Internal Server Error''), s)
      | Some rname \<Rightarrow>
          (Inr (u_username user, rname, u_mfa_enabled user,
             if u_password_hash user \<noteq> None then ''LOCAL'' else ''LDAP''), s)))"

definition change_password ::
  "'w idp \<Rightarrow> instant \<Rightarrow> string option \<Rightarrow> string \<Rightarrow> string \<Rightarrow> 'w sys \<Rightarrow> (nat, 'w) sys_response" where
  "change_password I now cookie current_password new_password = with_current_user I cookie (\<lambda>user s.
     (case u_password_hash user of
        None \<Rightarrow> (Inl (409, ''password is managed by the external directory''), s)
      | Some h \<Rightarrow>
          if \<not> argon2_verify I current_password h then (Inl (400, ''current password is incorrect''), s)
          else if length new_password < 12 then (Inl (422, ''new password must be at least 12 characters''), s)
          else if current_password = new_password then (Inl (422, ''new password must be different''), s)
          else
           (let (h, s) = with_world (argon2_hash I new_password) s;
                s = on_db (set_user now (u_id user) (\<lambda>u. u\<lparr>u_password_hash := Some h\<rparr>)) s;
                (revoked, s) = with_world (revoke_other_sessions_for_user I (u_id user)
                  (case cookie of None \<Rightarrow> [] | Some tok \<Rightarrow> tok)) s
            in (Inr revoked, on_db (user_event now EV_PASSWORD_CHANGED (u_id user)
                 [(''other_sessions_revoked'', JInt (int revoked))]) s))))"

definition mfa_verify ::
  "'w idp \<Rightarrow> settings \<Rightarrow> instant \<Rightarrow> string \<Rightarrow> string \<Rightarrow> 'w sys \<Rightarrow> (string, 'w) sys_response" where
  "mfa_verify I st now mfa_token code_text s =
     (case get_mfa_pending I mfa_token (world s) of
        None \<Rightarrow> (Inl invalid_challenge, s)
      | Some (user_id, _) \<Rightarrow>
     (case row_get u_id user_id (users (db s)) of
        None \<Rightarrow> (Inl invalid_challenge, on_world (delete_mfa_pending I mfa_token) s)
      | Some user \<Rightarrow>
          if \<not> u_is_active user \<or> \<not> u_mfa_enabled user then
            (Inl invalid_challenge, on_world (delete_mfa_pending I mfa_token) s)
          else case verify_login_factor I now user code_text (db s) of
            (False, _) \<Rightarrow>
              (let s = on_db (record_security_event now EV_MFA_FAILED (Some (u_id user)) None None None) s;
                   (still_valid, s) = with_world (record_mfa_pending_failure I mfa_token) s
               in (Inl (401, if still_valid then ''invalid MFA code'' else ''too many failed attempts, please log in again''), s))
          | (True, d) \<Rightarrow>
              (let t = on_world (delete_mfa_pending I mfa_token) (s\<lparr>db := d\<rparr>) in
               case role_name_of (db t) user of
                 None \<Rightarrow> server_error (db s) t
               | Some rname \<Rightarrow> (let (tok, t) = log_in I st now user rname t in (Inr tok, t)))))"

end
