(* ===== verification/Setup.thy ===== *)
theory Setup
  imports Login
begin

text \<open>
  First-run setup: \<open>services/setup_service.py\<close>, \<open>api/setup.py\<close> and the policy templates of
  \<open>services/standard_policies.py\<close>. The row of \<open>system_state\<close> is locked by every operation that
  changes it, so operations on it are one after the other, as here.
\<close>

section \<open>Standard policies\<close>

record template =
  tp_name :: string
  tp_policy_type :: string
  tp_description :: string
  tp_content :: jobj
  tp_file_rules :: "raw_rule list"

definition template_rule :: "string \<Rightarrow> string \<Rightarrow> raw_rule" where
  "template_rule pat act = \<lparr> rr_rule_type = ''MIME'', rr_match_pattern = pat, rr_action = act, rr_priority = None \<rparr>"

definition OFFICE_MIME_TYPES :: "string list" where
  "OFFICE_MIME_TYPES = [''application/pdf'',
     ''application/vnd.openxmlformats-officedocument.wordprocessingml.document'',
     ''application/vnd.openxmlformats-officedocument.spreadsheetml.sheet'',
     ''application/vnd.openxmlformats-officedocument.presentationml.presentation'']"

definition EXECUTABLE_EXTENSIONS :: "string list" where
  "EXECUTABLE_EXTENSIONS = [''.exe'', ''.msi'', ''.bat'', ''.cmd'', ''.ps1'', ''.sh'', ''.com'', ''.scr'']"

definition EXECUTABLE_MIME_TYPES :: "string list" where
  "EXECUTABLE_MIME_TYPES = [''application/vnd.microsoft.portable-executable'', ''application/x-dosexec'',
     ''application/x-msdownload'', ''application/x-msi'', ''application/x-executable'',
     ''application/x-pie-executable'', ''application/x-sharedlib'', ''application/x-mach-binary'',
     ''text/x-shellscript'', ''text/x-msdos-batch'']"

definition STANDARD_POLICIES :: "template list" where
  "STANDARD_POLICIES =
     [\<lparr> tp_name = ''PDF Only'', tp_policy_type = ''MIME'',
        tp_description = ''Only PDF files are auto-released. Everything else falls through to the engine'' @ [CHR 0x27] @ ''s fail-closed default (QUARANTINE, not DENY) - held for review rather than silently dropped.'',
        tp_content = [], tp_file_rules = [template_rule ''application/pdf'' ''AUTO_RELEASE''] \<rparr>,
      \<lparr> tp_name = ''Office Documents'', tp_policy_type = ''MIME'',
        tp_description = ''PDF and modern Office formats (.docx/.xlsx/.pptx) are auto-released.'',
        tp_content = [], tp_file_rules = map (\<lambda>m. template_rule m ''AUTO_RELEASE'') OFFICE_MIME_TYPES \<rparr>,
      \<lparr> tp_name = ''Images Only'', tp_policy_type = ''MIME'', tp_description = ''Any image/* MIME type is auto-released.'',
        tp_content = [], tp_file_rules = [template_rule ''image/*'' ''AUTO_RELEASE''] \<rparr>,
      \<lparr> tp_name = ''Block Executables'', tp_policy_type = ''MIME'',
        tp_description = ''Hard DENY for common executable/script extensions and for files detected as executables even when renamed, regardless of what any other group policy allows - DENY outranks QUARANTINE and AUTO_RELEASE in the engine'' @ [CHR 0x27] @ ''s conflict resolution (docs/policies.md).'',
        tp_content = [], tp_file_rules = map (\<lambda>p. template_rule p ''DENY'') (EXECUTABLE_EXTENSIONS @ EXECUTABLE_MIME_TYPES) \<rparr>,
      \<lparr> tp_name = ''Full HD'', tp_policy_type = ''SESSION'', tp_description = ''1920x1080 browser sandbox resolution.'',
        tp_content = [(''screen_width'', JInt 1920), (''screen_height'', JInt 1080)], tp_file_rules = [] \<rparr>,
      \<lparr> tp_name = ''Low Resolution'', tp_policy_type = ''SESSION'',
        tp_description = ''1280x720 browser sandbox resolution - lower bandwidth/resource use.'',
        tp_content = [(''screen_width'', JInt 1280), (''screen_height'', JInt 720)], tp_file_rules = [] \<rparr>,
      \<lparr> tp_name = ''No Clipboard'', tp_policy_type = ''CLIPBOARD'',
        tp_description = ''Blocks clipboard transfer in both directions between the local machine and the sandbox.'',
        tp_content = [(''clipboard_mode'', JStr ''NONE'')], tp_file_rules = [] \<rparr>]"

definition seed_template :: "instant \<Rightarrow> template \<Rightarrow> database \<Rightarrow> unit outcome" where
  "seed_template now t d =
     (case create_policy now (tp_name t) (tp_policy_type t) (Some (tp_description t)) d of
        (Inl e, d) \<Rightarrow> (Inl e, d)
      | (Inr policy, d) \<Rightarrow>
     (case create_draft_version now policy (JObj (tp_content t)) (tp_file_rules t) None d of
        (Inl e, d) \<Rightarrow> (Inl e, d)
      | (Inr version, d) \<Rightarrow> publish_version now policy version None d))"

text \<open>The loop: names already handled are passed over; a name that is taken is recorded as skipped.\<close>

fun seed_loop :: "instant \<Rightarrow> string list \<Rightarrow> template list \<Rightarrow> database \<Rightarrow> (string list \<times> string list) outcome" where
  "seed_loop now seeded [] d = (Inr ([], []), d)"
| "seed_loop now seeded (t # ts) d =
     (if tp_name t \<in> set seeded then seed_loop now seeded ts d
      else if \<exists>p \<in> set (policies d). p_name p = tp_name t then
        (case seed_loop now (tp_name t # seeded) ts d of
           (Inl e, d) \<Rightarrow> (Inl e, d)
         | (Inr (created, skipped), d) \<Rightarrow> (Inr (created, tp_name t # skipped), d))
      else
        (case seed_template now t d of
           (Inl e, d) \<Rightarrow> (Inl e, d)
         | (Inr _, d) \<Rightarrow>
             (case seed_loop now (tp_name t # seeded) ts d of
                (Inl e, d) \<Rightarrow> (Inl e, d)
              | (Inr (created, skipped), d) \<Rightarrow> (Inr (tp_name t # created, skipped), d))))"

definition seed_standard_policies :: "instant \<Rightarrow> database \<Rightarrow> (string list \<times> string list) outcome" where
  "seed_standard_policies now d =
     (case system_states d of
        None \<Rightarrow> (Inl (RuntimeErr ''system_state row missing; complete first-run setup before seeding policies''), d)
      | Some state \<Rightarrow>
          (case seed_loop now (ss_seeded_policy_templates state) STANDARD_POLICIES d of
             (Inl e, d) \<Rightarrow> (Inl e, d)
           | (Inr (created, skipped), d) \<Rightarrow>
               (Inr (created, skipped), d\<lparr>system_states := Some (state\<lparr>ss_seeded_policy_templates :=
                  sort (remdups (ss_seeded_policy_templates state @ map tp_name STANDARD_POLICIES))\<rparr>)\<rparr>)))"

section \<open>The setup service\<close>

definition SETUP_TOKEN_RATE_LIMIT_KEY :: string where
  "SETUP_TOKEN_RATE_LIMIT_KEY = ''__setup_bootstrap__''"

text \<open>
  The errors of the module; \<open>Setup_failed\<close> is a plain \<open>SetupError\<close> or the \<open>ValueError\<close> of a wrong code,
  \<open>Setup_crashed\<close> an exception that no route catches.
\<close>

datatype setup_error = Already_initialized | Rate_limited | Invalid_token | Setup_failed string | Setup_crashed

definition setup_error_of :: "service_error \<Rightarrow> setup_error" where
  "setup_error_of e =
     (case e of UserServiceError m \<Rightarrow> Setup_failed m | ValueErr m \<Rightarrow> Setup_failed m | _ \<Rightarrow> Setup_crashed)"

definition fresh_state :: system_state where
  "fresh_state = \<lparr> ss_initialized = False, ss_initialized_at = None, ss_setup_admin_user_id = None,
     ss_setup_token_hash = None, ss_setup_token_created_at = None, ss_seeded_policy_templates = [] \<rparr>"

definition current_state :: "database \<Rightarrow> system_state" where
  "current_state d = (case system_states d of None \<Rightarrow> fresh_state | Some x \<Rightarrow> x)"

definition set_state :: "(system_state \<Rightarrow> system_state) \<Rightarrow> database \<Rightarrow> database" where
  "set_state f d = d\<lparr>system_states := Some (f (current_state d))\<rparr>"

definition is_setup_required :: "database \<Rightarrow> bool" where
  "is_setup_required d = (case system_states d of None \<Rightarrow> True | Some x \<Rightarrow> \<not> ss_initialized x)"

definition regenerate_setup_token :: "'w idp \<Rightarrow> instant \<Rightarrow> 'w sys \<Rightarrow> string option \<times> 'w sys" where
  "regenerate_setup_token I now s =
     (let s = on_db (set_state id) s in
      if ss_initialized (current_state (db s)) then (None, s)
      else
       (let (tok, s) = with_world (new_token I 24) s;
            (h, s) = with_world (argon2_hash I tok) s
        in (Some tok, on_db (set_state (\<lambda>x. x\<lparr>ss_setup_token_hash := Some h, ss_setup_token_created_at := Some now\<rparr>)) s)))"

definition setup_token_ok :: "'w idp \<Rightarrow> settings \<Rightarrow> instant \<Rightarrow> string \<Rightarrow> system_state \<Rightarrow> bool" where
  "setup_token_ok I st now tok state =
     (case (ss_setup_token_created_at state, ss_setup_token_hash state) of
        (Some t, Some h) \<Rightarrow> now < t + setup_token_ttl st \<and> argon2_verify I tok h
      | _ \<Rightarrow> False)"

definition BOOTSTRAP_SYSTEM_ACTOR_ID :: uuid where
  "BOOTSTRAP_SYSTEM_ACTOR_ID = 0x5e7057"

text \<open>The account of an earlier attempt gets the new name and password; else it is created as ADMIN.\<close>

definition bootstrap_account ::
  "'w idp \<Rightarrow> instant \<Rightarrow> string \<Rightarrow> string \<Rightarrow> 'w sys \<Rightarrow> (uuid, 'w) sys_outcome" where
  "bootstrap_account I now username password s =
     (case (case ss_setup_admin_user_id (current_state (db s)) of None \<Rightarrow> None | Some i \<Rightarrow> row_get u_id i (users (db s))) of
        Some user \<Rightarrow>
          if \<exists>u \<in> set (users (db s)). u_username u = username \<and> u_id u \<noteq> u_id user
          then (Inl (UserServiceError (''username already taken: '' @ username)), s)
          else
           (let (h, s) = with_world (argon2_hash I password) s in
            if length username > 255 then (Inl DbDataError, s)
            else (Inr (u_id user), on_db (set_user now (u_id user) (\<lambda>u. u\<lparr>u_username := username, u_password_hash := Some h\<rparr>)) s))
      | None \<Rightarrow>
          (case create_user I now username password ''ADMIN'' [] BOOTSTRAP_SYSTEM_ACTOR_ID s of
             (Inl e, s) \<Rightarrow> (Inl e, s)
           | (Inr i, s) \<Rightarrow> (Inr i, on_db (set_state (\<lambda>x. x\<lparr>ss_setup_admin_user_id := Some i\<rparr>)) s)))"

definition create_bootstrap_admin ::
  "'w idp \<Rightarrow> settings \<Rightarrow> instant \<Rightarrow> string \<Rightarrow> string \<Rightarrow> string \<Rightarrow> 'w sys \<Rightarrow> (setup_error + string) \<times> 'w sys" where
  "create_bootstrap_admin I st now setup_token username password s =
     (if is_login_locked I SETUP_TOKEN_RATE_LIMIT_KEY (world s) then (Inl Rate_limited, s)
      else if ss_initialized (current_state (db s)) then (Inl Already_initialized, s)
      else if \<not> setup_token_ok I st now setup_token (current_state (db s)) then
        (Inl Invalid_token, on_world (record_login_failure I SETUP_TOKEN_RATE_LIMIT_KEY) s)
      else
       (let t = on_world (clear_login_failures I SETUP_TOKEN_RATE_LIMIT_KEY) (on_db (set_state id) s) in
        case bootstrap_account I now username password t of
          (Inl e, t) \<Rightarrow> (Inl (setup_error_of e), t\<lparr>db := db s\<rparr>)
        | (Inr i, t) \<Rightarrow>
            (let t = on_db (user_event now EV_INITIAL_ADMIN_CREATED i [(''username'', JStr username)]) t;
                 (tok, t) = with_world (create_mfa_pending I i) t
             in (Inr tok, t))))"

text \<open>Seeding runs in a savepoint: if it fails, what it did is undone and the setup goes on.\<close>

definition seed_or_skip :: "instant \<Rightarrow> database \<Rightarrow> database" where
  "seed_or_skip now d = (case seed_standard_policies now d of (Inl _, _) \<Rightarrow> d | (Inr _, e) \<Rightarrow> e)"

definition complete_bootstrap_mfa ::
  "'w idp \<Rightarrow> instant \<Rightarrow> user \<Rightarrow> string \<Rightarrow> 'w sys \<Rightarrow> (setup_error + string list) \<times> 'w sys" where
  "complete_bootstrap_mfa I now user code_text s =
     (if ss_initialized (current_state (db s)) then (Inl Already_initialized, s)
      else if ss_setup_admin_user_id (current_state (db s)) \<noteq> Some (u_id user) then
        (Inl (Setup_failed ''mfa_token does not belong to the bootstrap admin''), s)
      else case confirm_enrollment I now user code_text s of
        (Inl e, t) \<Rightarrow> (Inl (setup_error_of e), s\<lparr>world := world t\<rparr>)
      | (Inr plain, t) \<Rightarrow>
          (Inr plain, on_db (seed_or_skip now)
             (on_db (record_security_event now EV_SYSTEM_INITIALIZED (Some (u_id user)) None None None)
               (on_db (set_state (\<lambda>x. x\<lparr>ss_initialized := True, ss_initialized_at := Some now,
                  ss_setup_token_hash := None, ss_setup_token_created_at := None\<rparr>)) t))))"

section \<open>Routes\<close>

primrec setup_status :: "setup_error \<Rightarrow> http_error" where
  "setup_status Already_initialized = (409, ''system already initialized'')"
| "setup_status Rate_limited = (429, ''too many failed setup attempts'')"
| "setup_status Invalid_token = (400, ''could not create the initial administrator'')"
| "setup_status (Setup_failed _) = (400, ''could not create the initial administrator'')"
| "setup_status Setup_crashed = (500, ''Internal Server Error'')"

definition create_admin ::
  "'w idp \<Rightarrow> settings \<Rightarrow> instant \<Rightarrow> string \<Rightarrow> string \<Rightarrow> string \<Rightarrow> 'w sys \<Rightarrow> (string, 'w) sys_response" where
  "create_admin I st now setup_token username password s =
     (case create_bootstrap_admin I st now setup_token username password s of
        (Inl e, s) \<Rightarrow> (Inl (setup_status e), s)
      | (Inr tok, s) \<Rightarrow> (Inr tok, s))"

definition confirm_mfa ::
  "'w idp \<Rightarrow> settings \<Rightarrow> instant \<Rightarrow> string \<Rightarrow> string \<Rightarrow> 'w sys \<Rightarrow> (string \<times> string list, 'w) sys_response" where
  "confirm_mfa I st now mfa_token code_text s =
     (if \<not> is_setup_required (db s) then (Inl (409, ''system already initialized''), s)
      else case get_mfa_pending I mfa_token (world s) of
        None \<Rightarrow> (Inl (401, ''invalid or expired setup challenge''), s)
      | Some (user_id, _) \<Rightarrow>
     (case row_get u_id user_id (users (db s)) of
        None \<Rightarrow> (Inl (401, ''invalid or expired setup challenge''), on_world (delete_mfa_pending I mfa_token) s)
      | Some user \<Rightarrow>
          if \<not> u_is_active user then
            (Inl (401, ''invalid or expired setup challenge''), on_world (delete_mfa_pending I mfa_token) s)
          else case complete_bootstrap_mfa I now user code_text s of
            (Inl Already_initialized, s) \<Rightarrow> (Inl (409, ''system already initialized''), s)
          | (Inl Setup_crashed, s) \<Rightarrow> (Inl (500, ''Internal Server Error''), s)
          | (Inl _, s) \<Rightarrow> (Inl (400, ''invalid setup code''), s)
          | (Inr plain, t) \<Rightarrow>
              (let t = on_world (delete_mfa_pending I mfa_token) t;
                   (tok, t) = with_world (create_login_session I st (u_id user) ''ADMIN'') t
               in (Inr (tok, plain), t))))"

end
