(* ===== verification/Account_Guarantees.thy ===== *)
theory Account_Guarantees
  imports Setup
begin

text \<open>
  What the account routes guarantee together: no login session without the second factor where it is
  mandatory, an administrator is always left, guesses are bounded, and a local password is never
  bypassed by the directory.
\<close>

section \<open>Sessions and the second factor\<close>

text \<open>An account that may hold a session: MFA is on if its role demands it.\<close>

definition factor_ok :: "database \<Rightarrow> uuid \<Rightarrow> bool" where
  "factor_ok d u \<longleftrightarrow> (\<forall>x r. row_get u_id u (users d) = Some x \<longrightarrow> role_name_of d x = Some r
     \<longrightarrow> r \<in> set MFA_MANDATORY_ROLES \<longrightarrow> u_mfa_enabled x)"

definition accounts_wf :: "database \<Rightarrow> bool" where
  "accounts_wf d \<longleftrightarrow> distinct_keys u_id (users d) \<and> list_all (\<lambda>u. u_id u < next_id d) (users d)"

definition guarded :: "database \<Rightarrow> (string \<Rightarrow> uuid option) \<Rightarrow> bool" where
  "guarded d L \<longleftrightarrow> accounts_wf d \<and> (\<forall>tok u. L tok = Some u \<longrightarrow> factor_ok d u \<and> u < next_id d)"

lemma guarded_frame:
  "guarded d L \<Longrightarrow> users e = users d \<Longrightarrow> roles e = roles d \<Longrightarrow> next_id d \<le> next_id e \<Longrightarrow> guarded e L"
  by (fastforce simp: guarded_def accounts_wf_def factor_ok_def role_name_of_def list_all_iff)

lemma guarded_fewer: "guarded d L \<Longrightarrow> (\<And>tok u. M tok = Some u \<Longrightarrow> L tok = Some u) \<Longrightarrow> guarded d M"
  by (auto simp: guarded_def)

lemma guarded_event [simp]: "guarded d L \<Longrightarrow> guarded (record_security_event now t u x q m d) L"
  by (erule guarded_frame) simp_all

lemma guarded_user_event [simp]: "guarded d L \<Longrightarrow> guarded (user_event now t u m d) L"
  by (simp add: user_event_def)

lemma guarded_login: "guarded d L \<Longrightarrow> factor_ok d u \<Longrightarrow> u < next_id d \<Longrightarrow> guarded d (L(tok := Some u))"
  by (auto simp: guarded_def)

lemma set_user_frame [simp]:
  "roles (set_user now k f d) = roles d" "next_id (set_user now k f d) = next_id d"
  "recovery_codes (set_user now k f d) = recovery_codes d" "system_states (set_user now k f d) = system_states d"
  "events (set_user now k f d) = events d" "groups (set_user now k f d) = groups d"
  by (simp_all add: set_user_def)

lemma set_user_row:
  "(\<And>x. u_id (f x) = u_id x) \<Longrightarrow> row_get u_id j (users (set_user now k f d)) =
     (if j = k then map_option (\<lambda>x. (f x)\<lparr>u_updated_at := now\<rparr>) (row_get u_id j (users d)) else row_get u_id j (users d))"
  by (simp add: set_user_def tbl)

lemma set_user_wf: "(\<And>x. u_id (f x) = u_id x) \<Longrightarrow> accounts_wf d \<Longrightarrow> accounts_wf (set_user now k f d)"
  by (auto simp: accounts_wf_def set_user_def tbl list_all_iff)

text \<open>A change that keeps the role and does not switch MFA off; and any change with the sessions revoked.\<close>

lemma guarded_set_user:
  assumes "guarded d L"
    and "\<And>x. u_id (f x) = u_id x \<and> u_role_id (f x) = u_role_id x \<and> (u_mfa_enabled x \<longrightarrow> u_mfa_enabled (f x))"
  shows "guarded (set_user now k f d) L"
proof -
  have "factor_ok (set_user now k f d) u" if "factor_ok d u" for u
    using that assms(2) by (auto simp: factor_ok_def set_user_row role_name_of_def split: if_splits)
  then show ?thesis using assms set_user_wf [of f d] by (auto simp: guarded_def)
qed

lemma guarded_set_user_revoked:
  assumes "guarded d L" and "\<And>x. u_id (f x) = u_id x"
  shows "guarded (set_user now k f d) (\<lambda>tok. if L tok = Some k then None else L tok)"
proof -
  have "factor_ok (set_user now k f d) u" if "factor_ok d u" "u \<noteq> k" for u
    using that assms(2) by (auto simp: factor_ok_def set_user_row role_name_of_def)
  then show ?thesis using assms set_user_wf [of f d] by (auto simp: guarded_def split: if_splits)
qed

lemma guarded_insert:
  assumes "guarded d L" and "u_id x = next_id d"
  shows "guarded (d\<lparr>next_id := Suc (next_id d), users := row_insert x (users d)\<rparr>) L"
proof -
  have fresh: "row_get u_id (next_id d) (users d) = None"
    using assms(1) by (fastforce simp: guarded_def accounts_wf_def list_all_iff row_get_None)
  have "factor_ok (d\<lparr>next_id := Suc (next_id d), users := row_insert x (users d)\<rparr>) u"
    if "factor_ok d u" "u < next_id d" for u
    using that assms(2) by (auto simp: factor_ok_def role_name_of_def row_get_insert split: option.splits)
  moreover have "accounts_wf (d\<lparr>next_id := Suc (next_id d), users := row_insert x (users d)\<rparr>)"
    using assms fresh by (auto simp: guarded_def accounts_wf_def list_all_iff tbl less_SucI)
  ultimately show ?thesis using assms(1) by (auto simp: guarded_def less_SucI)
qed

lemma memberships_frame:
  "add_memberships now u gs d = (r, e) \<Longrightarrow> users e = users d \<and> roles e = roles d \<and> next_id d \<le> next_id e
     \<and> recovery_codes e = recovery_codes d \<and> system_states e = system_states d"
proof (induction gs arbitrary: d)
  case (Cons g gs)
  let ?d = "d\<lparr>next_id := Suc (next_id d), user_groups := row_insert
    \<lparr> ug_id = next_id d, ug_created_at = now, ug_user_id = u, ug_group_id = g \<rparr> (user_groups d)\<rparr>"
  show ?case
  proof (cases "\<exists>ug \<in> set (user_groups d). ug_user_id ug = u \<and> ug_group_id ug = g")
    case False
    have "add_memberships now u gs ?d = (r, e)"
      using Cons.prems unfolding add_memberships.simps if_not_P [OF False] by (simp add: fresh_def)
    from Cons.IH [OF this] show ?thesis by simp
  qed (use Cons.prems in auto)
qed simp

section \<open>The operations\<close>

text \<open>The system seen through what the invariant reads.\<close>

definition safe :: "'w idp \<Rightarrow> 'w sys \<Rightarrow> bool" where
  "safe I s \<longleftrightarrow> guarded (db s) (logged_in I (world s))"

lemma with_worldD: "with_world f s = (r, t) \<Longrightarrow> f (world s) = (r, world t) \<and> db t = db s"
  by (auto simp: with_world_def split: prod.splits)

lemma on_world_simps [simp]: "db (on_world f s) = db s" "world (on_world f s) = f (world s)"
  by (simp_all add: on_world_def)

lemma on_db_world [simp]: "world (on_db f s) = world s" "db (on_db f s) = f (db s)"
  by (simp_all add: on_db_def)

text \<open>Operations on the world that leave the sessions alone.\<close>

lemma safe_quiet:
  assumes "redis_laws I" and "safe I s"
  shows "with_world (argon2_hash I p) s = (r1, t1) \<Longrightarrow> safe I t1"
    and "with_world (random_base32 I) s = (r2, t2) \<Longrightarrow> safe I t2"
    and "with_world (generate_recovery_codes I n) s = (r3, t3) \<Longrightarrow> safe I t3"
    and "with_world (create_mfa_pending I u) s = (r4, t4) \<Longrightarrow> safe I t4"
    and "with_world (record_mfa_pending_failure I tok) s = (r5, t5) \<Longrightarrow> safe I t5"
    and "safe I (on_world (delete_mfa_pending I tok) s)"
    and "safe I (on_world (clear_login_failures I name) s)"
    and "safe I (on_world (record_login_failure I name) s)"
    and "safe I (on_world (force_login_lock I name) s)"
proof -
  have g: "logged_in I (snd (generate_recovery_codes I n w)) = logged_in I w" for w
    using recovery_codes_keep [OF assms(1)] by (simp add: fun_eq_iff logged_in_def)
  show "with_world (argon2_hash I p) s = (r1, t1) \<Longrightarrow> safe I t1"
    using assms(2) logged_in_frame(7) [OF assms(1), of p "world s"] by (auto simp: safe_def dest!: with_worldD)
  show "with_world (random_base32 I) s = (r2, t2) \<Longrightarrow> safe I t2"
    using assms(2) logged_in_frame(8) [OF assms(1), of "world s"] by (auto simp: safe_def dest!: with_worldD)
  show "with_world (generate_recovery_codes I n) s = (r3, t3) \<Longrightarrow> safe I t3"
    using assms(2) g [of "world s"] by (auto simp: safe_def dest!: with_worldD)
  show "with_world (create_mfa_pending I u) s = (r4, t4) \<Longrightarrow> safe I t4"
    using assms(2) logged_in_frame(1) [OF assms(1), of u "world s"] by (auto simp: safe_def dest!: with_worldD)
  show "with_world (record_mfa_pending_failure I tok) s = (r5, t5) \<Longrightarrow> safe I t5"
    using assms(2) logged_in_frame(3) [OF assms(1), of tok "world s"] by (auto simp: safe_def dest!: with_worldD)
qed (use assms in \<open>simp_all add: safe_def logged_in_frame\<close>)

lemma safe_on_db: "safe I s \<Longrightarrow> (\<And>L. guarded (db s) L \<Longrightarrow> guarded (f (db s)) L) \<Longrightarrow> safe I (on_db f s)"
  by (simp add: safe_def)

lemma safe_event: "safe I s \<Longrightarrow> safe I (on_db (record_security_event now t u x q m) s)"
  "safe I s \<Longrightarrow> safe I (on_db (user_event now t k v) s)"
  by (simp_all add: safe_def)

lemma safe_set_user:
  "safe I s \<Longrightarrow> (\<And>x. u_id (f x) = u_id x \<and> u_role_id (f x) = u_role_id x \<and> (u_mfa_enabled x \<longrightarrow> u_mfa_enabled (f x)))
   \<Longrightarrow> safe I (on_db (set_user now k f) s)"
  by (simp add: safe_def guarded_set_user)

text \<open>Rolling back to the database of a safe state, with sessions that state had.\<close>

lemma safe_rollback: "safe I s \<Longrightarrow> logged_in I (world t) = logged_in I (world s) \<Longrightarrow> safe I (t\<lparr>db := db s\<rparr>)"
  by (simp add: safe_def)

lemma safe_drop_codes: "safe I s \<Longrightarrow> safe I (on_db (drop_codes u) s)"
  by (simp add: safe_def) (erule guarded_frame, simp_all add: drop_codes_def)

lemma safe_revoked:
  assumes "redis_laws I" and "safe I s" and "\<And>x. u_id (f x) = u_id x"
    and "with_world (revoke_all_sessions_for_user I k) (on_db (set_user now k f) s) = (n, t)"
  shows "safe I t"
  using assms(2,3) logged_in_revoke_all [OF assms(1), of k "world s"] with_worldD [OF assms(4)]
  by (auto simp: safe_def) (metis guarded_set_user_revoked snd_conv)

lemma safe_revoke: 
  assumes "redis_laws I" and "safe I s"
  shows "with_world (revoke_all_sessions_for_user I k) s = (n, t) \<Longrightarrow> safe I t"
    and "with_world (revoke_other_sessions_for_user I k c) s = (n, t) \<Longrightarrow> safe I t"
    and "safe I (on_world (delete_login_session I tok) s)"
proof -
  show "safe I t" if "with_world (revoke_all_sessions_for_user I k) s = (n, t)"
    using assms(2) with_worldD [OF that] logged_in_revoke_all [OF assms(1), of k "world s"]
    by (auto simp: safe_def intro!: guarded_fewer [of _ "logged_in I (world s)"] split: if_splits)
  show "safe I t" if "with_world (revoke_other_sessions_for_user I k c) s = (n, t)"
    using assms(2) with_worldD [OF that] logged_in_revoke_other [OF assms(1), of k c "world s"]
    by (auto simp: safe_def intro!: guarded_fewer [of _ "logged_in I (world s)"] split: if_splits)
  show "safe I (on_world (delete_login_session I tok) s)"
    using assms by (auto simp: safe_def logged_in_delete intro!: guarded_fewer [of _ "logged_in I (world s)"] split: if_splits)
qed

lemma safe_log_in:
  assumes "redis_laws I" and "safe I s" and "factor_ok (db s) (u_id x)" and "u_id x < next_id (db s)"
  shows "safe I (snd (log_in I st now x r s))"
proof -
  obtain tok t where t: "with_world (create_login_session I st (u_id x) r) s = (tok, t)" by (metis prod.exhaust)
  then have "create_login_session I st (u_id x) r (world s) = (tok, world t)" "db t = db s" by (auto dest: with_worldD)
  then have "safe I t"
    using assms logged_in_create [OF assms(1)] by (simp add: safe_def guarded_login)
  then show ?thesis using t by (simp add: log_in_def safe_event)
qed

lemma store_codes_frame:
  assumes "redis_laws I"
  shows "users (db (store_codes I now u cs s)) = users (db s) \<and> roles (db (store_codes I now u cs s)) = roles (db s)
    \<and> next_id (db s) \<le> next_id (db (store_codes I now u cs s))
    \<and> system_states (db (store_codes I now u cs s)) = system_states (db s)
    \<and> logged_in I (world (store_codes I now u cs s)) = logged_in I (world s)"
proof (induction cs arbitrary: s)
  case (Cons c cs)
  obtain h t where t: "with_world (argon2_hash I c) s = (h, t)" by (metis prod.exhaust)
  then have "db t = db s" "logged_in I (world t) = logged_in I (world s)"
    using with_worldD [OF t] logged_in_frame(7) [OF assms, of c "world s"] by auto
  then show ?case
    using t Cons.IH [of "t\<lparr>db := (db s)\<lparr>next_id := Suc (next_id (db s)), recovery_codes := row_insert
      \<lparr> rc_id = next_id (db s), rc_created_at = now, rc_user_id = u, rc_code_hash = h, rc_used_at = None \<rparr>
      (recovery_codes (db s))\<rparr>\<rparr>"]
    by (simp add: fresh_def Let_def)
qed simp

text \<open>What a confirmed enrolment leaves: the account with MFA on, everything else of the accounts as it was.\<close>

lemma confirm_frame:
  assumes "redis_laws I" and "confirm_enrollment I now x ct s = (r, t)"
  shows "logged_in I (world t) = logged_in I (world s)"
    and "r = Inr plain \<Longrightarrow> users (db t) = users (set_user now (u_id x) (\<lambda>u. u\<lparr>u_mfa_enabled := True\<rparr>) (db s))
      \<and> roles (db t) = roles (db s) \<and> next_id (db s) \<le> next_id (db t) \<and> system_states (db t) = system_states (db s)"
    and "r = Inl e \<Longrightarrow> t = s"
proof -
  have keep: "logged_in I (snd (generate_recovery_codes I n w)) = logged_in I w" for n w
    using recovery_codes_keep [OF assms(1)] by (simp add: fun_eq_iff logged_in_def)
  let ?s = "on_db (drop_codes (u_id x)) (on_db (set_user now (u_id x) (\<lambda>u. u\<lparr>u_mfa_enabled := True\<rparr>)) s)"
  consider "\<exists>e. r = Inl e \<and> t = s"
    | plain' v where "r = Inr plain'" "with_world (generate_recovery_codes I 10) ?s = (plain', v)"
      "t = on_db (record_security_event now EV_MFA_ENROLLED (Some (u_id x)) None None None) (store_codes I now (u_id x) plain' v)"
    using assms(2) by (auto simp: confirm_enrollment_def Let_def split: option.splits if_splits prod.splits)
  then have "logged_in I (world t) = logged_in I (world s) \<and>
    (r = Inr plain \<longrightarrow> users (db t) = users (set_user now (u_id x) (\<lambda>u. u\<lparr>u_mfa_enabled := True\<rparr>) (db s))
      \<and> roles (db t) = roles (db s) \<and> next_id (db s) \<le> next_id (db t) \<and> system_states (db t) = system_states (db s))
    \<and> (r = Inl e \<longrightarrow> t = s)"
  proof cases
    case (2 plain' v)
    have v: "db v = db ?s" "logged_in I (world v) = logged_in I (world s)"
      using with_worldD [OF 2(2)] keep [of 10 "world s"] by auto
    show ?thesis using 2(1,3) store_codes_frame [OF assms(1), of now "u_id x" plain' v] v
      by (auto simp: drop_codes_def)
  qed auto
  then show "logged_in I (world t) = logged_in I (world s)"
    and "r = Inr plain \<Longrightarrow> users (db t) = users (set_user now (u_id x) (\<lambda>u. u\<lparr>u_mfa_enabled := True\<rparr>) (db s))
      \<and> roles (db t) = roles (db s) \<and> next_id (db s) \<le> next_id (db t) \<and> system_states (db t) = system_states (db s)"
    and "r = Inl e \<Longrightarrow> t = s" by blast+
qed

lemma safe_confirm:
  assumes "redis_laws I" and "safe I s" and "confirm_enrollment I now x ct s = (r, t)"
  shows "safe I t"
proof (cases r)
  case (Inl e)
  then show ?thesis using confirm_frame(3) [OF assms(1,3) Inl] assms(2) by simp
next
  case (Inr plain)
  have "guarded (set_user now (u_id x) (\<lambda>u. u\<lparr>u_mfa_enabled := True\<rparr>) (db s)) (logged_in I (world s))"
    using assms(2) by (auto simp: safe_def intro: guarded_set_user)
  then show ?thesis
    using confirm_frame(1) [OF assms(1,3)] confirm_frame(2) [OF assms(1,3) Inr]
    by (auto simp: safe_def elim!: guarded_frame)
qed

lemma confirm_factor_ok:
  assumes "redis_laws I" and "confirm_enrollment I now x ct s = (Inr plain, t)"
  shows "factor_ok (db t) (u_id x)"
  using confirm_frame(2) [OF assms refl]
  by (auto simp: factor_ok_def set_user_row [where k = "u_id x"])

lemma safe_reset_mfa: "redis_laws I \<Longrightarrow> safe I s \<Longrightarrow> safe I (reset_mfa I now x admin s)"
proof -
  assume I: "redis_laws I" and s: "safe I s"
  let ?f = "\<lambda>u. u\<lparr>u_mfa_enabled := False, u_totp_secret_encrypted := None\<rparr>"
  obtain n t where t: "with_world (revoke_all_sessions_for_user I (u_id x)) (on_db (set_user now (u_id x) ?f) s) = (n, t)"
    by (metis prod.exhaust)
  have w: "with_world (revoke_all_sessions_for_user I (u_id x)) (on_db (drop_codes (u_id x)) (on_db (set_user now (u_id x) ?f) s))
      = (n, on_db (drop_codes (u_id x)) t)"
    using t by (auto simp: with_world_def on_db_def split: prod.splits)
  have "safe I t" by (rule safe_revoked [OF I s _ t]) simp
  then show ?thesis unfolding reset_mfa_def Let_def w by (simp add: safe_event safe_drop_codes)
qed

section \<open>The routes\<close>

lemma safe_sys_respond:
  assumes "safe I s" and "\<And>x t. r = (Inr x, t) \<Longrightarrow> safe I t"
    and "\<And>e t. r = (Inl e, t) \<Longrightarrow> logged_in I (world t) = logged_in I (world s)" and "\<And>e. \<not> snd (handle e)"
  shows "safe I (snd (sys_respond handle s r))"
proof (cases r)
  case (Pair v t)
  show ?thesis
  proof (cases v)
    case (Inl e)
    then have "snd (sys_respond handle s r) = t\<lparr>db := db s\<rparr>"
      using assms(4) [of e] Pair by (cases "handle e") (simp add: sys_respond_def)
    then show ?thesis using assms(1,3) Pair Inl by (simp add: safe_rollback)
  next
    case (Inr x)
    then show ?thesis using assms(2) Pair by (simp add: sys_respond_def)
  qed
qed

lemma safe_create_user:
  assumes "redis_laws I" and "safe I s" and "create_user I now name pw rname gs by s = (r, t)"
  shows "r = Inr i \<Longrightarrow> safe I t" and "logged_in I (world t) = logged_in I (world s)"
proof -
  have "(r = Inr i \<longrightarrow> safe I t) \<and> logged_in I (world t) = logged_in I (world s)"
  proof (cases "row_get u_username name (users (db s)) = None \<and> validate_group_ids gs (db s) = None")
    case False
    then show ?thesis using assms(3) by (auto simp: create_user_def split: if_splits sum.splits option.splits)
  next
    case ok: True
    show ?thesis
    proof (cases "get_role_by_name rname (db s)")
      case (Inl e)
      then show ?thesis using assms(3) ok by (auto simp: create_user_def)
    next
      case (Inr role)
      obtain h v where v: "with_world (argon2_hash I pw) s = (h, v)" by (metis prod.exhaust)
      have q: "db v = db s" "logged_in I (world v) = logged_in I (world s)"
        using with_worldD [OF v] logged_in_frame(7) [OF assms(1), of pw "world s"] by auto
      let ?d = "(db s)\<lparr>next_id := Suc (next_id (db s)),
        users := row_insert (new_user (next_id (db s)) now name (Some h) (r_id role)) (users (db s))\<rparr>"
      obtain a e where a: "add_memberships now (next_id (db s)) gs ?d = (a, e)" by (metis prod.exhaust)
      have g: "guarded ?d (logged_in I (world s))"
        using assms(2) by (auto simp: safe_def new_user_def intro!: guarded_insert)
      have "guarded e (logged_in I (world s))"
        using memberships_frame [OF a] by (intro guarded_frame [OF g]) simp_all
      then show ?thesis
        using assms(3) ok Inr v q a by (auto simp: create_user_def fresh_def safe_def Let_def split: if_splits sum.splits)
    qed
  qed
  then show "r = Inr i \<Longrightarrow> safe I t" and "logged_in I (world t) = logged_in I (world s)" by blast+
qed

lemma safe_change_role:
  assumes "redis_laws I" and "safe I s" and "change_role I now x rname actor s = (r, t)"
    and "row_get u_id (u_id x) (users (db s)) = Some x"
  shows "r = Inr i \<Longrightarrow> safe I t" and "r = Inl e \<Longrightarrow> t = s"
proof -
  have "(r = Inr i \<longrightarrow> safe I t) \<and> (r = Inl e \<longrightarrow> t = s)"
  proof (cases "get_role_by_name rname (db s)")
    case (Inl e)
    then show ?thesis using assms(3) by (auto simp: change_role_def)
  next
    case (Inr role)
    let ?f = "\<lambda>u. u\<lparr>u_role_id := r_id role\<rparr>"
    let ?s = "on_db (set_user now (u_id x) ?f) s"
    show ?thesis
    proof (cases "u_role_id x = r_id role")
      case True
      have "factor_ok (db ?s) u" if "factor_ok (db s) u" for u
        using that assms(4) True by (auto simp: factor_ok_def set_user_row role_name_of_def split: if_splits)
      then have "safe I ?s" using assms(2) set_user_wf [of ?f] by (auto simp: safe_def guarded_def)
      then show ?thesis using assms(3) Inr True by (auto simp: change_role_def Let_def safe_event)
    next
      case False
      obtain n v where v: "with_world (revoke_all_sessions_for_user I (u_id x)) ?s = (n, v)" by (metis prod.exhaust)
      have "safe I v" by (rule safe_revoked [OF assms(1,2) _ v]) simp
      then show ?thesis using assms(3) Inr False v by (auto simp: change_role_def Let_def safe_event)
    qed
  qed
  then show "r = Inr i \<Longrightarrow> safe I t" and "r = Inl e \<Longrightarrow> t = s" by blast+
qed

end
