(* ===== verification/Account_Steps.thy ===== *)
theory Account_Steps
  imports Account_Guarantees
begin

text \<open>Every route of the accounts keeps the guarantee of \<open>Account_Guarantees\<close>; the runs made of them.\<close>

section \<open>Frames\<close>

definition accounts_same :: "database \<Rightarrow> database \<Rightarrow> bool" where
  "accounts_same d e \<longleftrightarrow> users e = users d \<and> roles e = roles d \<and> next_id d \<le> next_id e"

lemma accounts_same_refl [simp]: "accounts_same d d"
  by (simp add: accounts_same_def)

lemma accounts_same_trans: "accounts_same a b \<Longrightarrow> accounts_same b c \<Longrightarrow> accounts_same a c"
  by (auto simp: accounts_same_def)

lemma guarded_same: "guarded d L \<Longrightarrow> accounts_same d e \<Longrightarrow> guarded e L"
  by (auto simp: accounts_same_def intro: guarded_frame)

lemma safe_same: "safe I s \<Longrightarrow> accounts_same (db s) e \<Longrightarrow> safe I (s\<lparr>db := e\<rparr>)"
  by (simp add: safe_def guarded_same)

lemma safe_same_on_db: "safe I s \<Longrightarrow> accounts_same (db s) (f (db s)) \<Longrightarrow> safe I (on_db f s)"
  by (simp add: safe_def guarded_same)

lemma accounts_same_event [simp]:
  "accounts_same d (record_security_event now t u x q m d)" "accounts_same d (user_event now t k v d)"
  by (simp_all add: accounts_same_def user_event_def)

lemma add_rules_same: "accounts_same d (add_rules now v bs d)"
proof (induction bs arbitrary: d)
  case (Cons b bs)
  let ?d = "d\<lparr>next_id := Suc (next_id d), file_rules := row_insert
    \<lparr> fr_id = next_id d, fr_created_at = now, fr_policy_version_id = v, fr_rule_type = br_rule_type b,
      fr_match_pattern = br_match_pattern b, fr_action = br_action b, fr_priority = br_priority b \<rparr> (file_rules d)\<rparr>"
  have "add_rules now v (b # bs) d = add_rules now v bs ?d" by (simp add: fresh_def)
  moreover have "accounts_same d ?d" by (simp add: accounts_same_def)
  ultimately show ?case using Cons.IH [of ?d] accounts_same_trans by metis
qed simp

lemma create_policy_same: "create_policy now n t x d = (r, e) \<Longrightarrow> accounts_same d e"
  by (auto simp: create_policy_def accounts_same_def fresh_def Let_def split: if_splits option.splits)

lemma create_draft_same:
  assumes "create_draft_version now p content rules actor d = (r, e)"
  shows "accounts_same d e"
proof -
  obtain v where v: "e = v \<or> (\<exists>b. e = add_rules now (next_id d) b v)" "accounts_same d v"
    using assms
    by (auto simp: create_draft_version_def fresh_def Let_def split: sum.splits intro: that simp: accounts_same_def)
  then show ?thesis using add_rules_same accounts_same_trans by metis
qed

lemma publish_same: "publish_version now p v actor d = (r, e) \<Longrightarrow> accounts_same d e"
  by (auto simp: publish_version_def supersede_current_def set_version_def set_policy_def accounts_same_def Let_def
      split: if_splits option.splits)

lemma seed_template_same: "seed_template now t d = (r, e) \<Longrightarrow> accounts_same d e"
  unfolding seed_template_def
  by (auto split: prod.splits sum.splits dest!: create_policy_same create_draft_same publish_same
      intro: accounts_same_trans)

lemma seed_loop_same: "seed_loop now seeded ts d = (r, e) \<Longrightarrow> accounts_same d e"
proof (induction ts arbitrary: seeded d r)
  case (Cons t ts)
  show ?case
  proof (cases "tp_name t \<in> set seeded")
    case True
    then show ?thesis using Cons by auto
  next
    case new: False
    show ?thesis
    proof (cases "\<exists>p \<in> set (policies d). p_name p = tp_name t")
      case True
      obtain q f where "seed_loop now (tp_name t # seeded) ts d = (q, f)" by (metis prod.exhaust)
      then show ?thesis using Cons.IH [of "tp_name t # seeded" d q] Cons.prems new True
        by (auto split: sum.splits)
    next
      case False
      obtain a b where a: "seed_template now t d = (a, b)" by (metis prod.exhaust)
      obtain q f where f: "seed_loop now (tp_name t # seeded) ts b = (q, f)" by (metis prod.exhaust)
      have "e = b \<or> e = f" using Cons.prems new False a f by (auto split: sum.splits)
      moreover have "f = e \<Longrightarrow> accounts_same b e" using Cons.IH [of "tp_name t # seeded" b q] f by simp
      ultimately show ?thesis using seed_template_same [OF a] accounts_same_trans by metis
    qed
  qed
qed simp

lemma seed_same: "accounts_same d (seed_or_skip now d)"
proof -
  have "seed_standard_policies now d = (r, e) \<Longrightarrow> accounts_same d e" for r e
    using seed_loop_same
    by (fastforce simp: seed_standard_policies_def accounts_same_def split: option.splits prod.splits sum.splits)
  then show ?thesis by (auto simp: seed_or_skip_def split: prod.splits sum.splits)
qed

lemma set_state_same [simp]: "accounts_same d (set_state f d)"
  by (simp add: set_state_def accounts_same_def)

lemma verify_same: "verify_login_factor I now x ct d = (b, e) \<Longrightarrow> accounts_same d e"
  by (auto simp: verify_login_factor_def redeem_recovery_code_def accounts_same_def Let_def
      split: option.splits if_splits)

lemma set_groups_same: "set_groups now x gs actor d = (r, e) \<Longrightarrow> accounts_same d e"
  by (auto simp: set_groups_def accounts_same_def user_event_def split: option.splits prod.splits sum.splits
      dest!: memberships_frame)

section \<open>Who may log in\<close>

lemma factor_ok_mfa: "row_get u_id u (users d) = Some x \<Longrightarrow> u_mfa_enabled x \<Longrightarrow> factor_ok d u"
  by (simp add: factor_ok_def)

lemma factor_ok_role:
  "row_get u_id u (users d) = Some x \<Longrightarrow> role_name_of d x = Some r \<Longrightarrow> r \<notin> set MFA_MANDATORY_ROLES \<Longrightarrow> factor_ok d u"
  by (simp add: factor_ok_def)

lemma known_id: "safe I s \<Longrightarrow> row_get u_id u (users (db s)) = Some x \<Longrightarrow> u_id x = u \<and> u < next_id (db s)"
  by (auto simp: safe_def guarded_def accounts_wf_def list_all_iff dest!: row_get_SomeD)

lemma factor_ok_same: "factor_ok d u \<Longrightarrow> accounts_same d e \<Longrightarrow> factor_ok e u"
  by (simp add: factor_ok_def accounts_same_def role_name_of_def)

lemma row_get_id: "row_get u_id i us = Some x \<Longrightarrow> row_get u_id (u_id x) us = Some x"
  by (frule row_get_SomeD) simp

lemma current_user_row: "get_current_user I cookie s = Inr x \<Longrightarrow> row_get u_id (u_id x) (users (db s)) = Some x"
  by (auto simp: get_current_user_def split: option.splits if_splits) (frule row_get_SomeD, simp)

lemma safe_with_user:
  "safe I s \<Longrightarrow> (\<And>x. row_get u_id (u_id x) (users (db s)) = Some x \<Longrightarrow> safe I (snd (f x s))) \<Longrightarrow> safe I (snd (with_user f i s))"
  by (auto simp: with_user_def split: option.split dest: row_get_SomeD)

lemma safe_with_current:
  "safe I s \<Longrightarrow> (\<And>x. row_get u_id (u_id x) (users (db s)) = Some x \<Longrightarrow> safe I (snd (f x s)))
   \<Longrightarrow> safe I (snd (with_current_user I cookie f s))"
  by (auto simp: with_current_user_def split: sum.split dest: current_user_row)

section \<open>The routes\<close>

lemma begin_enrollment_safe:
  assumes "redis_laws I" and "safe I s"
  shows "safe I (snd (begin_enrollment I now x s))"
proof -
  obtain b t where t: "with_world (random_base32 I) s = (b, t)" by (metis prod.exhaust)
  show ?thesis using safe_quiet(2) [OF assms t] assms(2) t by (simp add: begin_enrollment_def safe_set_user)
qed

lemma load_pending_cases:
  assumes "redis_laws I" and "safe I s" and "load_pending_user I tok s = (r, t)"
  shows "safe I t \<and> (\<forall>x. r = Inr x \<longrightarrow> t = s \<and> row_get u_id (u_id x) (users (db s)) = Some x)"
  using assms(3) safe_quiet(6) [OF assms(1,2)] assms(2)
  by (auto simp: load_pending_user_def split: option.splits if_splits) (frule row_get_SomeD, simp)

lemma setup_enroll_safe:
  assumes "redis_laws I" and "safe I s"
  shows "safe I (snd (setup_enroll I now tok s))"
proof -
  obtain r t where r: "load_pending_user I tok s = (r, t)" by (metis prod.exhaust)
  then show ?thesis
    using load_pending_cases [OF assms r] begin_enrollment_safe [OF assms(1)] by (cases r) (auto simp: setup_enroll_def)
qed

lemma enroll_safe: "redis_laws I \<Longrightarrow> safe I s \<Longrightarrow> safe I (snd (enroll I now cookie s))"
  by (simp add: enroll_def safe_with_current begin_enrollment_safe)

lemma confirm_respond_safe:
  assumes "redis_laws I" and "safe I s"
  shows "safe I (snd (sys_respond (\<lambda>e. (case e of ValueErr _ \<Rightarrow> 400 | _ \<Rightarrow> 500, False)) s (confirm_enrollment I now x ct s)))"
proof (rule safe_sys_respond [OF assms(2)])
  fix p t assume "confirm_enrollment I now x ct s = (Inr p, t)"
  then show "safe I t" by (rule safe_confirm [OF assms])
next
  fix e t assume "confirm_enrollment I now x ct s = (Inl e, t)"
  then show "logged_in I (world t) = logged_in I (world s)" by (rule confirm_frame(1) [OF assms(1)])
qed simp

lemma enroll_confirm_safe: "redis_laws I \<Longrightarrow> safe I s \<Longrightarrow> safe I (snd (enroll_confirm I now cookie ct s))"
  by (simp add: enroll_confirm_def safe_with_current confirm_respond_safe)

lemma setup_confirm_safe:
  assumes "redis_laws I" and "safe I s"
  shows "safe I (snd (setup_confirm I st now tok ct s))"
proof -
  obtain r t where r: "load_pending_user I tok s = (r, t)" by (metis prod.exhaust)
  note load = load_pending_cases [OF assms r]
  show ?thesis
  proof (cases r)
    case (Inl e)
    then show ?thesis using load r by (simp add: setup_confirm_def)
  next
    case (Inr x)
    then have x: "t = s" "row_get u_id (u_id x) (users (db s)) = Some x" using load by auto
    obtain p v where v: "confirm_enrollment I now x ct s = (p, v)" by (metis prod.exhaust)
    show ?thesis
    proof (cases p)
      case Inl
      then show ?thesis using confirm_respond_safe [OF assms, of now x ct] r \<open>r = Inr x\<close> x(1) v assms(2)
        by (auto simp: setup_confirm_def sys_respond_def)
    next
      case (Inr plain)
      let ?v = "on_world (delete_mfa_pending I tok) v"
      have v': "safe I ?v" by (rule safe_quiet(6) [OF assms(1) safe_confirm [OF assms v]])
      have ok: "factor_ok (db ?v) (u_id x)" using confirm_factor_ok [OF assms(1)] v Inr by simp
      have lt: "u_id x < next_id (db ?v)"
        using known_id [OF assms(2) x(2)] confirm_frame(2) [OF assms(1) v Inr] by simp
      have rolled: "safe I (?v\<lparr>db := db s\<rparr>)"
        using assms(2) confirm_frame(1) [OF assms(1) v] logged_in_frame(2) [OF assms(1)] by (simp add: safe_rollback)
      show ?thesis
        using r \<open>r = Inr x\<close> x(1) v Inr safe_log_in [OF assms(1) v' ok lt] rolled assms(2)
        by (simp add: setup_confirm_def sys_respond_def Let_def case_prod_unfold split: option.split)
    qed
  qed
qed

lemma reset_self_safe:
  assumes "redis_laws I" and "safe I s"
  shows "safe I (snd (reset_self I now cookie ct s))"
  unfolding reset_self_def
proof (rule safe_with_current [OF assms(2)])
  fix x
  obtain b d where v: "verify_login_factor I now x ct (db s) = (b, d)" by (metis prod.exhaust)
  have "safe I (s\<lparr>db := d\<rparr>)" by (rule safe_same [OF assms(2) verify_same [OF v]])
  then show "safe I (snd (if \<not> u_mfa_enabled x then (Inl (400, ''invalid authentication code''), s)
     else case verify_login_factor I now x ct (db s) of
       (False, _) \<Rightarrow> (Inl (400, ''invalid authentication code''), s)
     | (True, d) \<Rightarrow> (Inr (), reset_mfa I now x (u_id x) (s\<lparr>db := d\<rparr>))))"
    using v assms safe_reset_mfa by (auto split: bool.split)
qed

lemma mfa_verify_safe:
  assumes "redis_laws I" and "safe I s"
  shows "safe I (snd (mfa_verify I st now tok ct s))"
proof (cases "get_mfa_pending I tok (world s)")
  case None
  then show ?thesis using assms(2) by (simp add: mfa_verify_def)
next
  case (Some p)
  obtain u n where p: "p = (u, n)" by (cases p)
  show ?thesis
  proof (cases "row_get u_id u (users (db s))")
    case None
    then show ?thesis using Some p safe_quiet(6) [OF assms] by (simp add: mfa_verify_def)
  next
    case x: (Some x)
    show ?thesis
    proof (cases "u_is_active x \<and> u_mfa_enabled x")
      case False
      then show ?thesis using Some p x safe_quiet(6) [OF assms] by (auto simp: mfa_verify_def)
    next
      case True
      obtain b d where v: "verify_login_factor I now x ct (db s) = (b, d)" by (metis prod.exhaust)
      show ?thesis
      proof (cases b)
        case False
        let ?t = "on_db (record_security_event now EV_MFA_FAILED (Some (u_id x)) None None None) s"
        obtain q w where w: "with_world (record_mfa_pending_failure I tok) ?t = (q, w)" by (metis prod.exhaust)
        have "safe I w" by (rule safe_quiet(5) [OF assms(1) _ w]) (rule safe_event(1) [OF assms(2)])
        then show ?thesis using Some p x True v False w by (simp add: mfa_verify_def Let_def)
      next
        case b: True
        let ?t = "on_world (delete_mfa_pending I tok) (s\<lparr>db := d\<rparr>)"
        have same: "accounts_same (db s) d" by (rule verify_same [OF v])
        have t: "safe I ?t" by (rule safe_quiet(6) [OF assms(1) safe_same [OF assms(2) same]])
        have "factor_ok (db s) u" by (rule factor_ok_mfa [OF x]) (use True in blast)
        then have ok: "factor_ok (db ?t) (u_id x)"
          using factor_ok_same [OF _ same] known_id [OF assms(2) x] by simp
        have lt: "u_id x < next_id (db ?t)" using known_id [OF assms(2) x] same by (simp add: accounts_same_def)
        have rolled: "safe I (?t\<lparr>db := db s\<rparr>)"
          using assms(2) logged_in_frame(2) [OF assms(1)] by (simp add: safe_rollback)
        show ?thesis
          using Some p x True v b safe_log_in [OF assms(1) t ok lt] rolled
          by (simp add: mfa_verify_def server_error_def Let_def case_prod_unfold split: option.split)
      qed
    qed
  qed
qed

lemma logout_safe: "redis_laws I \<Longrightarrow> safe I s \<Longrightarrow> safe I (snd (logout I cookie s))"
  unfolding logout_def by (rule safe_with_current) (simp_all add: safe_revoke(3) split: option.split)

lemma change_password_safe:
  assumes "redis_laws I" and "safe I s"
  shows "safe I (snd (change_password I now cookie old new s))"
  unfolding change_password_def
proof (rule safe_with_current [OF assms(2)], goal_cases)
  case (1 x)
  obtain h t where t: "with_world (argon2_hash I new) s = (h, t)" by (metis prod.exhaust)
  let ?t = "on_db (set_user now (u_id x) (\<lambda>u. u\<lparr>u_password_hash := Some h\<rparr>)) t"
  obtain n v where v: "with_world (revoke_other_sessions_for_user I (u_id x) (case cookie of None \<Rightarrow> [] | Some k \<Rightarrow> k)) ?t = (n, v)"
    by (metis prod.exhaust)
  have "safe I ?t" by (rule safe_set_user [OF safe_quiet(1) [OF assms t]]) simp
  then have "safe I v" by (rule safe_revoke(2) [OF assms(1) _ v])
  then show ?case using assms(2) t v by (auto simp: safe_event Let_def split: option.split)
qed

lemma admit_safe:
  assumes "redis_laws I" and "safe I s" and "row_get u_id (u_id x) (users (db s)) = Some x"
  shows "safe I (snd (admit I st now (db s) name x s))"
proof -
  let ?s = "on_world (clear_login_failures I name) s"
  have s: "safe I ?s" by (rule safe_quiet(7) [OF assms(1,2)])
  obtain k v where v: "with_world (create_mfa_pending I (u_id x)) ?s = (k, v)" by (metis prod.exhaust)
  have pending: "safe I v" by (rule safe_quiet(4) [OF assms(1) s v])
  show ?thesis
  proof (cases "role_name_of (db s) x")
    case None
    then show ?thesis using v pending s assms(2) logged_in_frame(5) [OF assms(1)]
      by (simp add: admit_def server_error_def safe_rollback Let_def)
  next
    case (Some r)
    have "u_mfa_enabled x \<or> r \<in> set MFA_MANDATORY_ROLES \<or> safe I (snd (log_in I st now x r ?s))"
      using safe_log_in [OF assms(1) s] factor_ok_role [OF assms(3) Some] known_id [OF assms(2,3)] by auto
    then show ?thesis using v pending Some by (auto simp: admit_def Let_def case_prod_unfold)
  qed
qed

text \<open>A login while the directory is off.\<close>

lemma login_safe:
  assumes "redis_laws I" and "safe I s" and "get_effective_ldap_config I st (db s) = Inr None"
  shows "safe I (snd (login I D st now name pw s))"
proof (cases "is_login_locked I name (world s)")
  case True
  then show ?thesis using assms(2) by (simp add: login_def safe_event)
next
  case False
  have "\<exists>found. identify I D st now name pw s = (Inr found, s)"
    using assms(3) by (simp add: identify_def directory_login_def Let_def)
  then obtain found where found: "identify I D st now name pw s = (Inr found, s)" by blast
  note failed = safe_quiet(8) [OF assms(1,2), of name]
  show ?thesis
  proof (cases "case found of None \<Rightarrow> None | Some i \<Rightarrow> row_get u_id i (users (db s))")
    case None
    then show ?thesis using False found failed by (simp add: login_def login_failed_def safe_event)
  next
    case (Some x)
    then have "row_get u_id (u_id x) (users (db s)) = Some x"
      by (cases found) (auto dest!: row_get_id)
    from admit_safe [OF assms(1,2) this] show ?thesis using False found failed Some by (simp add: login_def login_failed_def safe_event)
  qed
qed

section \<open>Administration and setup\<close>

lemma create_user_safe: "redis_laws I \<Longrightarrow> safe I s \<Longrightarrow> safe I (snd (create_user_endpoint I now actor name pw r gs s))"
  unfolding create_user_endpoint_def
  by (rule safe_sys_respond) (simp_all add: safe_create_user)

lemma set_active_safe: "safe I s \<Longrightarrow> safe I (on_db (set_active now x b actor) s)"
  by (simp add: set_active_def safe_def guarded_set_user)

lemma disable_safe: "safe I s \<Longrightarrow> safe I (snd (disable_user now actor i s))"
  unfolding disable_user_def by (rule safe_with_user) (simp_all add: set_active_safe)

lemma enable_safe: "safe I s \<Longrightarrow> safe I (snd (enable_user now actor i s))"
  unfolding enable_user_def by (rule safe_with_user) (simp_all add: set_active_safe)

lemma reset_password_safe:
  assumes "redis_laws I" and "safe I s"
  shows "safe I (snd (reset_password_endpoint I now actor pw i s))"
  unfolding reset_password_endpoint_def
proof (rule safe_with_user [OF assms(2)], goal_cases)
  case (1 x)
  obtain h t where t: "with_world (argon2_hash I pw) s = (h, t)" by (metis prod.exhaust)
  show ?case using assms(2) t safe_quiet(1) [OF assms t] by (simp add: reset_password_def safe_event safe_set_user)
qed

lemma lock_safe:
  assumes "redis_laws I" and "safe I s"
  shows "safe I (snd (lock_account_endpoint I now actor i s))"
  unfolding lock_account_endpoint_def
proof (rule safe_with_user [OF assms(2)], goal_cases)
  case (1 x)
  let ?s = "on_world (force_login_lock I (u_username x)) s"
  obtain n t where t: "with_world (revoke_all_sessions_for_user I (u_id x)) ?s = (n, t)" by (metis prod.exhaust)
  have "safe I t" by (rule safe_revoke(1) [OF assms(1) safe_quiet(9) [OF assms] t])
  then show ?case using t by (simp add: lock_account_def safe_event Let_def)
qed

lemma unlock_safe: "redis_laws I \<Longrightarrow> safe I s \<Longrightarrow> safe I (snd (unlock_account_endpoint I now actor i s))"
  unfolding unlock_account_endpoint_def
  by (rule safe_with_user) (simp_all add: unlock_account_def Let_def safe_event safe_quiet(7))

lemma update_role_safe:
  assumes "redis_laws I" and "safe I s"
  shows "safe I (snd (update_role I now actor r i s))"
  unfolding update_role_def
proof (rule safe_with_user [OF assms(2)], goal_cases)
  case (1 x)
  have "safe I (snd (sys_respond (\<lambda>e. (user_status_400 e, False)) s (change_role I now x r actor s)))"
    by (rule safe_sys_respond [OF assms(2)])
      (auto dest: safe_change_role(1) [OF assms _ 1, OF _ refl] safe_change_role(2) [OF assms _ 1, OF _ refl])
  then show ?case using assms(2) by simp
qed

lemma update_groups_safe: "safe I s \<Longrightarrow> safe I (snd (update_groups now actor gs i s))"
  unfolding update_groups_def
proof (rule safe_with_user, assumption, goal_cases)
  case (1 x)
  obtain r e where r: "set_groups now x gs actor (db s) = (r, e)" by (metis prod.exhaust)
  then have "accounts_same (db s) (snd (respond user_status_400 (db s) (set_groups now x gs actor (db s))))"
    using set_groups_same [OF r] by (cases r) (simp_all add: respond_def)
  then show ?case using safe_same [OF 1(1)] by (simp add: case_prod_unfold Let_def)
qed

lemma admin_reset_safe: "redis_laws I \<Longrightarrow> safe I s \<Longrightarrow> safe I (snd (admin_reset_mfa I now actor i s))"
  unfolding admin_reset_mfa_def by (rule safe_with_user) (simp_all add: safe_reset_mfa)

lemma regenerate_safe:
  assumes "redis_laws I" and "safe I s"
  shows "safe I (snd (regenerate_setup_token I now s))"
proof -
  let ?s = "on_db (set_state id) s"
  have s: "safe I ?s" by (rule safe_same_on_db [OF assms(2)]) simp
  obtain k t where t: "with_world (new_token I 24) ?s = (k, t)" by (metis prod.exhaust)
  have "redis_read I j (world t) = redis_read I j (world ?s)" for j
    using with_worldD [OF t] redis_lawsD(5) [OF assms(1)] by (metis snd_conv)
  then have "logged_in I (world t) = logged_in I (world ?s)" by (simp add: fun_eq_iff logged_in_def)
  then have t': "safe I t" using s with_worldD [OF t] by (simp add: safe_def)
  obtain h v where v: "with_world (argon2_hash I k) t = (h, v)" by (metis prod.exhaust)
  have "safe I v" by (rule safe_quiet(1) [OF assms(1) t' v])
  then have "safe I (on_db (set_state f) v)" for f by (rule safe_same_on_db) simp
  then show ?thesis using s t v by (simp add: regenerate_setup_token_def Let_def)
qed

lemma create_admin_safe:
  assumes "redis_laws I" and "safe I s"
  shows "safe I (snd (create_admin I st now stok name pw s))"
proof -
  let ?t = "on_world (clear_login_failures I SETUP_TOKEN_RATE_LIMIT_KEY) (on_db (set_state id) s)"
  have t: "safe I ?t" by (rule safe_quiet(7) [OF assms(1) safe_same_on_db [OF assms(2)]]) simp
  have quiet: "logged_in I (world ?t) = logged_in I (world s)" using logged_in_frame(5) [OF assms(1)] by simp
  obtain r v where r: "bootstrap_account I now name pw ?t = (r, v)" by (metis prod.exhaust)
  have v: "logged_in I (world v) = logged_in I (world s) \<and> (\<forall>i. r = Inr i \<longrightarrow> safe I v)"
  proof (cases "case ss_setup_admin_user_id (current_state (db ?t)) of None \<Rightarrow> None | Some i \<Rightarrow> row_get u_id i (users (db ?t))")
    case None
    obtain q u where q: "create_user I now name pw ''ADMIN'' [] BOOTSTRAP_SYSTEM_ACTOR_ID ?t = (q, u)" by (metis prod.exhaust)
    have "\<forall>i. q = Inr i \<longrightarrow> safe I u" using safe_create_user(1) [OF assms(1) t q] by blast
    moreover have "logged_in I (world u) = logged_in I (world s)"
      using safe_create_user(2) [OF assms(1) t q] quiet by simp
    ultimately show ?thesis using r None q
      by (cases q) (auto simp: bootstrap_account_def intro: safe_same_on_db)
  next
    case (Some x)
    obtain h u where u: "with_world (argon2_hash I pw) ?t = (h, u)" by (metis prod.exhaust)
    have "logged_in I (world u) = logged_in I (world s)"
      using with_worldD [OF u] logged_in_frame(7) [OF assms(1), of pw] quiet by (metis snd_conv)
    moreover have "safe I (on_db (set_user now (u_id x) (\<lambda>a. a\<lparr>u_username := name, u_password_hash := Some h\<rparr>)) u)"
      by (rule safe_set_user [OF safe_quiet(1) [OF assms(1) t u]]) simp
    ultimately show ?thesis using r Some u quiet by (auto simp: bootstrap_account_def Let_def split: if_splits)
  qed
  have finished: "safe I (snd (with_world (create_mfa_pending I i) (on_db (user_event now e i m) v)))" if "r = Inr i" for i e m
  proof -
    obtain k w where w: "with_world (create_mfa_pending I i) (on_db (user_event now e i m) v) = (k, w)" by (metis prod.exhaust)
    show ?thesis using safe_quiet(4) [OF assms(1) safe_event(2) w] v that w by simp
  qed
  have undone: "safe I (v\<lparr>db := db s\<rparr>)" using assms(2) v by (simp add: safe_rollback)
  show ?thesis
    using assms(2) r finished undone safe_quiet(8) [OF assms]
    by (cases r) (auto simp: create_admin_def create_bootstrap_admin_def Let_def case_prod_unfold split: if_splits)
qed

lemma confirm_mfa_safe:
  assumes "redis_laws I" and "safe I s"
  shows "safe I (snd (confirm_mfa I st now tok ct s))"
proof (cases "is_setup_required (db s)")
  case False
  then show ?thesis using assms(2) by (simp add: confirm_mfa_def)
next
  case req: True
  show ?thesis
  proof (cases "get_mfa_pending I tok (world s)")
    case None
    then show ?thesis using assms(2) req by (simp add: confirm_mfa_def)
  next
    case (Some p)
    obtain u n where p: "p = (u, n)" by (cases p)
    show ?thesis
    proof (cases "row_get u_id u (users (db s))")
      case None
      then show ?thesis using Some p req safe_quiet(6) [OF assms] by (simp add: confirm_mfa_def)
    next
      case x: (Some x)
      obtain r t where r: "complete_bootstrap_mfa I now x ct s = (r, t)" by (metis prod.exhaust)
      obtain q v where v: "confirm_enrollment I now x ct s = (q, v)" by (metis prod.exhaust)
      show ?thesis
      proof (cases r)
        case (Inl e)
        have "logged_in I (world t) = logged_in I (world s) \<and> db t = db s"
          using r v Inl confirm_frame(1) [OF assms(1) v] by (auto simp: complete_bootstrap_mfa_def split: if_splits sum.splits)
        then have "safe I t" using assms(2) by (simp add: safe_def)
        then show ?thesis using Some p req x r Inl safe_quiet(6) [OF assms]
          by (cases e) (auto simp: confirm_mfa_def)
      next
        case (Inr plain)
        let ?f = "\<lambda>y. y\<lparr>ss_initialized := True, ss_initialized_at := Some now, ss_setup_token_hash := None,
          ss_setup_token_created_at := None\<rparr>"
        have q: "q = Inr plain" "t = on_db (seed_or_skip now)
            (on_db (record_security_event now EV_SYSTEM_INITIALIZED (Some (u_id x)) None None None) (on_db (set_state ?f) v))"
          using r v Inr by (auto simp: complete_bootstrap_mfa_def split: if_splits sum.splits)
        have same: "accounts_same (db v) (db t)"
          unfolding q(2) on_db_world(2)
          by (rule accounts_same_trans [OF accounts_same_trans [OF set_state_same accounts_same_event(1)] seed_same])
        have "safe I (v\<lparr>db := db t\<rparr>)" by (rule safe_same [OF safe_confirm [OF assms v] same])
        moreover have "world t = world v" by (simp add: q(2))
        ultimately have t: "safe I t" by (simp add: safe_def)
        let ?t = "on_world (delete_mfa_pending I tok) t"
        have t': "safe I ?t" by (rule safe_quiet(6) [OF assms(1) t])
        have ok: "factor_ok (db ?t) (u_id x)"
          using factor_ok_same [OF confirm_factor_ok [OF assms(1)] same] v q(1) by simp
        have lt: "u_id x < next_id (db ?t)"
          using known_id [OF assms(2) x] confirm_frame(2) [OF assms(1) v q(1)] same by (simp add: accounts_same_def)
        obtain k w where w: "with_world (create_login_session I st (u_id x) ''ADMIN'') ?t = (k, w)" by (metis prod.exhaust)
        have "safe I w" using safe_log_in [OF assms(1) t' ok lt, of st now "''ADMIN''"] w with_worldD [OF w]
            logged_in_create [OF assms(1), of st "u_id x" "''ADMIN''" "world ?t" k "world w"] t' ok lt
          by (simp add: safe_def guarded_login)
        then show ?thesis using Some p req x r Inr w safe_quiet(6) [OF assms] by (simp add: confirm_mfa_def Let_def)
      qed
    qed
  qed
qed

section \<open>Runs\<close>

inductive account_step :: "'w idp \<Rightarrow> 'w directory \<Rightarrow> settings \<Rightarrow> 'w sys \<Rightarrow> 'w sys \<Rightarrow> bool" for I D st where
  login: "get_effective_ldap_config I st (db s) = Inr None \<Longrightarrow> account_step I D st s (snd (login I D st now name pw s))"
| logout: "account_step I D st s (snd (logout I cookie s))"
| change_password: "account_step I D st s (snd (change_password I now cookie old new s))"
| mfa_verify: "account_step I D st s (snd (mfa_verify I st now tok ct s))"
| enroll: "account_step I D st s (snd (enroll I now cookie s))"
| enroll_confirm: "account_step I D st s (snd (enroll_confirm I now cookie ct s))"
| setup_enroll: "account_step I D st s (snd (setup_enroll I now tok s))"
| setup_confirm: "account_step I D st s (snd (setup_confirm I st now tok ct s))"
| reset_self: "account_step I D st s (snd (reset_self I now cookie ct s))"
| admin_reset: "account_step I D st s (snd (admin_reset_mfa I now actor i s))"
| create_user: "account_step I D st s (snd (create_user_endpoint I now actor name pw r gs s))"
| disable: "account_step I D st s (snd (disable_user now actor i s))"
| enable: "account_step I D st s (snd (enable_user now actor i s))"
| reset_password: "account_step I D st s (snd (reset_password_endpoint I now actor pw i s))"
| lock: "account_step I D st s (snd (lock_account_endpoint I now actor i s))"
| unlock: "account_step I D st s (snd (unlock_account_endpoint I now actor i s))"
| change_role: "account_step I D st s (snd (update_role I now actor r i s))"
| change_groups: "account_step I D st s (snd (update_groups now actor gs i s))"
| setup_token: "account_step I D st s (snd (regenerate_setup_token I now s))"
| setup_admin: "account_step I D st s (snd (create_admin I st now stok name pw s))"
| setup_mfa: "account_step I D st s (snd (confirm_mfa I st now tok ct s))"

inductive account_run :: "'w idp \<Rightarrow> 'w directory \<Rightarrow> settings \<Rightarrow> 'w sys \<Rightarrow> 'w sys \<Rightarrow> bool" for I D st where
  account_run_refl: "account_run I D st s s"
| account_run_step: "account_run I D st s t \<Longrightarrow> account_step I D st t u \<Longrightarrow> account_run I D st s u"

lemma account_step_safe: "account_step I D st s t \<Longrightarrow> redis_laws I \<Longrightarrow> safe I s \<Longrightarrow> safe I t"
  by (induction rule: account_step.induct)
    (assumption | rule login_safe logout_safe change_password_safe mfa_verify_safe enroll_safe enroll_confirm_safe
      setup_enroll_safe setup_confirm_safe reset_self_safe admin_reset_safe create_user_safe disable_safe enable_safe
      reset_password_safe lock_safe unlock_safe update_role_safe update_groups_safe regenerate_safe create_admin_safe
      confirm_mfa_safe)+

lemma account_run_safe: "account_run I D st s t \<Longrightarrow> redis_laws I \<Longrightarrow> safe I s \<Longrightarrow> safe I t"
  by (induction rule: account_run.induct) (simp_all add: account_step_safe)

lemma safe_role_has_factor:
  assumes "safe I t" and "require_role I [''ADMIN'', ''SECURITY_REVIEWER''] cookie t = Inr x"
  shows "u_mfa_enabled x"
proof -
  obtain r where x: "get_current_user I cookie t = Inr x" "role_name_of (db t) x = Some r" "r \<in> {''ADMIN'', ''SECURITY_REVIEWER''}"
    using assms(2) by (auto simp: require_role_def split: sum.splits option.splits if_splits)
  then obtain tok u n where u: "get_login_session I tok (world t) = Some (u, n)" "row_get u_id u (users (db t)) = Some x"
    by (auto simp: get_current_user_def split: option.splits if_splits)
  have "factor_ok (db t) u" using assms(1) get_login_session_logged_in [OF u(1)] by (simp add: safe_def guarded_def)
  moreover have "r \<in> set MFA_MANDATORY_ROLES" using x(3) by (auto simp: MFA_MANDATORY_ROLES_def)
  ultimately show ?thesis using u(2) x(2) by (simp add: factor_ok_def)
qed

text \<open>
  C8. The second factor cannot be skipped: from any state in which it holds (an installation without
  sessions in particular), along every run of logins, logouts, enrolments, resets, account
  administration and first-run setup with the directory off, whoever a request is taken for and
  whatever its cookie, if that account's role is ADMIN or SECURITY_REVIEWER then its MFA is enabled.
\<close>

theorem second_factor_is_enforced:
  assumes "account_run I D st s t" and "redis_laws I" and "safe I s"
    and "require_role I [''ADMIN'', ''SECURITY_REVIEWER''] cookie t = Inr x"
  shows "u_mfa_enabled x"
  by (rule safe_role_has_factor [OF account_run_safe [OF assms(1-3)] assms(4)])

end
