(* ===== verification/Route_Frames.thy ===== *)
theory Route_Frames
  imports Account_Steps
begin

text \<open>
  What the account routes share: a relation between the database before and after that is reflexive,
  transitive, allows every change outside the accounts, the roles and the setup state, and the mild
  changes of an account (its role and its being active stay), holds of every route but \<open>disable_user\<close> and
  \<open>update_role\<close>. Stated once as a locale, proved once for every route, and interpreted for the relations the
  theorems need.
\<close>

section \<open>Reading the database past an operation on the world\<close>

lemma db_with_world [simp]: "db (snd (with_world f s)) = db s"
  by (simp add: with_world_def case_prod_unfold Let_def)

lemma load_pending_db: "db (snd (load_pending_user I tok s)) = db s"
  by (simp add: load_pending_user_def split: option.split)

lemma identify_off:
  assumes "get_effective_ldap_config I st (db s) = Inr None"
  shows "\<exists>found. identify I D st now name pw s = (Inr found, s)"
  using assms by (simp add: identify_def directory_login_def Let_def)

text \<open>Seeding the standard policies leaves the setup state alone until its last statement.\<close>

lemma add_rules_states: "system_states (add_rules now v bs d) = system_states d"
  by (induction bs arbitrary: d) (simp_all add: fresh_def Let_def)

lemma policy_service_states:
  "system_states (snd (create_policy now n ty x d)) = system_states d"
  "system_states (snd (create_draft_version now p c rs a d)) = system_states d"
  "system_states (snd (publish_version now p v a d)) = system_states d"
  by (auto simp: create_policy_def create_draft_version_def publish_version_def supersede_current_def set_version_def
      set_policy_def fresh_def Let_def add_rules_states split: sum.split option.split)

lemma seed_template_states: "system_states (snd (seed_template now t d)) = system_states d"
  by (simp add: seed_template_def case_prod_unfold policy_service_states split: sum.split)

lemma seed_loop_states: "system_states (snd (seed_loop now seeded ts d)) = system_states d"
  by (induction ts arbitrary: seeded d)
    (auto simp: case_prod_unfold seed_template_states split: sum.split)

lemma verify_elsewhere:
  "users (snd (verify_login_factor I now x ct d)) = users d"
  "roles (snd (verify_login_factor I now x ct d)) = roles d"
  "system_states (snd (verify_login_factor I now x ct d)) = system_states d"
  by (simp_all add: verify_login_factor_def redeem_recovery_code_def Let_def split: option.split)

lemma set_groups_elsewhere:
  "users (snd (set_groups now x gs actor d)) = users d"
  "roles (snd (set_groups now x gs actor d)) = roles d"
  "system_states (snd (set_groups now x gs actor d)) = system_states d"
  using memberships_frame [OF prod.collapse [symmetric], of now "u_id x" gs
      "d\<lparr>user_groups := rows_delete (\<lambda>ug. ug_user_id ug = u_id x) (user_groups d)\<rparr>"]
  by (auto simp: set_groups_def user_event_def case_prod_unfold split: option.split sum.split)

section \<open>The contract of a route\<close>

locale route_frame =
  fixes kept :: "database \<Rightarrow> database \<Rightarrow> bool"
  assumes kept_refl: "kept d d"
    and kept_trans: "kept a b \<Longrightarrow> kept b c \<Longrightarrow> kept a c"
    and kept_elsewhere:
      "users e = users d \<Longrightarrow> roles e = roles d \<Longrightarrow> system_states e = system_states d \<Longrightarrow> kept d e"
    and kept_set_user:
      "(\<And>x. u_role_id (f x) = u_role_id x \<and> (u_is_active x \<longrightarrow> u_is_active (f x))) \<Longrightarrow> kept d (set_user now k f d)"
    and kept_insert: "kept d (d\<lparr>users := row_insert u (users d)\<rparr>)"
    and kept_set_state: "(\<And>y. ss_initialized y \<Longrightarrow> ss_initialized (g y)) \<Longrightarrow> kept d (set_state g d)"
    and kept_seed: "kept d (seed_or_skip now d)"
begin

declare kept_refl [simp]

lemma kept_after_elsewhere:
  "kept d f \<Longrightarrow> users e = users f \<Longrightarrow> roles e = roles f \<Longrightarrow> system_states e = system_states f \<Longrightarrow> kept d e"
  using kept_trans kept_elsewhere by blast

lemma kept_event [simp, intro!]:
  "kept d e \<Longrightarrow> kept d (record_security_event now t u x q m e)"
  "kept d e \<Longrightarrow> kept d (user_event now t k v e)"
  "kept d e \<Longrightarrow> kept d (drop_codes k e)"
  by (erule kept_after_elsewhere, simp_all add: user_event_def drop_codes_def)+

lemma kept_set_user_after:
  "kept d e \<Longrightarrow> (\<And>x. u_role_id (f x) = u_role_id x \<and> (u_is_active x \<longrightarrow> u_is_active (f x))) \<Longrightarrow> kept d (set_user now k f e)"
  by (rule kept_trans) (auto intro: kept_set_user)

lemma kept_set_state_after:
  "kept d e \<Longrightarrow> (\<And>x. ss_initialized x \<Longrightarrow> ss_initialized (f x)) \<Longrightarrow> kept d (set_state f e)"
  by (rule kept_trans) (auto intro: kept_set_state)

lemma kept_seed_after: "kept d e \<Longrightarrow> kept d (seed_or_skip now e)"
  by (rule kept_trans) (auto intro: kept_seed)

lemma kept_with_user: "(\<And>x. kept (db s) (db (snd (f x s)))) \<Longrightarrow> kept (db s) (db (snd (with_user f i s)))"
  by (simp add: with_user_def split: option.split)

lemma kept_with_current:
  "(\<And>x. kept (db s) (db (snd (f x s)))) \<Longrightarrow> kept (db s) (db (snd (with_current_user I cookie f s)))"
  by (simp add: with_current_user_def split: sum.split)

lemma confirm_kept:
  assumes "redis_laws I"
  shows "kept (db s) (db (snd (confirm_enrollment I now x ct s)))"
proof -
  obtain r t where r: "confirm_enrollment I now x ct s = (r, t)" by (metis prod.exhaust)
  show ?thesis
  proof (cases r)
    case (Inl e)
    then show ?thesis using confirm_frame(3) [OF assms r] r by simp
  next
    case (Inr plain)
    have "kept (db s) (set_user now (u_id x) (\<lambda>u. u\<lparr>u_mfa_enabled := True\<rparr>) (db s))"
      by (rule kept_set_user) simp
    then show ?thesis using confirm_frame(2) [OF assms r Inr] r 
      by (auto intro: kept_after_elsewhere)
  qed
qed

lemma kept_respond:
  assumes "kept (db s) (db (snd r))"
  shows "kept (db s) (db (snd (sys_respond h s r)))"
proof -
  obtain a t where r: "r = (a, t)" by (cases r)
  have "snd (sys_respond h s r) = t \<or> snd (sys_respond h s r) = t\<lparr>db := db s\<rparr>"
    unfolding r sys_respond_def by (cases a) (simp_all add: Let_def case_prod_unfold)
  then show ?thesis using assms r by auto
qed

lemma verify_kept: "kept d (snd (verify_login_factor I now x ct d))"
  by (rule kept_elsewhere) (simp_all add: verify_elsewhere)

lemma log_in_kept: "kept (db s) (db t) \<Longrightarrow> kept (db s) (db (snd (log_in I st now x r t)))"
  by (simp add: log_in_def Let_def case_prod_unfold)

lemma reset_mfa_kept: "kept (db s) (db t) \<Longrightarrow> kept (db s) (db (reset_mfa I now x admin t))"
  by (auto simp: reset_mfa_def Let_def case_prod_unfold intro!: kept_set_user_after)

lemma begin_enrollment_kept: "kept (db s) (db (snd (begin_enrollment I now x s)))"
  by (auto simp: begin_enrollment_def Let_def case_prod_unfold intro: kept_set_user)

lemma setup_enroll_kept: "kept (db s) (db (snd (setup_enroll I now tok s)))"
proof -
  obtain r t where r: "load_pending_user I tok s = (r, t)" by (metis prod.exhaust)
  then have "db t = db s" using load_pending_db by (metis snd_conv)
  then show ?thesis using r begin_enrollment_kept [where s = t] by (cases r) (auto simp: setup_enroll_def)
qed

lemma enroll_kept: "kept (db s) (db (snd (enroll I now cookie s)))"
  unfolding enroll_def by (rule kept_with_current, rule begin_enrollment_kept)

lemma enroll_confirm_kept: "redis_laws I \<Longrightarrow> kept (db s) (db (snd (enroll_confirm I now cookie ct s)))"
  unfolding enroll_confirm_def by (rule kept_with_current) (simp add: kept_respond confirm_kept)

lemma setup_confirm_kept:
  assumes "redis_laws I"
  shows "kept (db s) (db (snd (setup_confirm I st now tok ct s)))"
proof -
  obtain r t where r: "load_pending_user I tok s = (r, t)" by (metis prod.exhaust)
  then have t: "db t = db s" using load_pending_db by (metis snd_conv)
  show ?thesis
  proof (cases r)
    case (Inr x)
    let ?h = "\<lambda>e. (case e of ValueErr _ \<Rightarrow> 400 | _ \<Rightarrow> 500, False)"
    let ?c = "sys_respond ?h t (confirm_enrollment I now x ct t)"
    have c: "kept (db s) (db (snd ?c))" using kept_respond [OF confirm_kept [OF assms]] t by metis
    obtain q v where q: "?c = (q, v)" by (metis prod.exhaust)
    show ?thesis using r Inr q c t
      by (auto simp: setup_confirm_def Let_def case_prod_unfold log_in_kept split: sum.split option.split)
  qed (use r t in \<open>simp add: setup_confirm_def\<close>)
qed

lemma reset_self_kept: "kept (db s) (db (snd (reset_self I now cookie ct s)))"
  unfolding reset_self_def
proof (rule kept_with_current)
  fix x
  obtain b d where "verify_login_factor I now x ct (db s) = (b, d)" by (metis prod.exhaust)
  then show "kept (db s) (db (snd (if \<not> u_mfa_enabled x then (Inl (400, ''invalid authentication code''), s)
     else case verify_login_factor I now x ct (db s) of
       (False, _) \<Rightarrow> (Inl (400, ''invalid authentication code''), s)
     | (True, d) \<Rightarrow> (Inr (), reset_mfa I now x (u_id x) (s\<lparr>db := d\<rparr>)))))"
    using verify_kept [of "db s" I now x ct] by (auto simp: reset_mfa_kept split: bool.split)
qed

lemma mfa_verify_kept: "kept (db s) (db (snd (mfa_verify I st now tok ct s)))"
  by (auto simp: mfa_verify_def server_error_def Let_def case_prod_unfold verify_kept
      intro!: log_in_kept split: option.split bool.split)

lemma logout_kept: "kept (db s) (db (snd (logout I cookie s)))"
  unfolding logout_def by (rule kept_with_current) (simp split: option.split)

lemma change_password_kept: "kept (db s) (db (snd (change_password I now cookie old pw s)))"
  unfolding change_password_def
  by (rule kept_with_current)
    (auto simp: Let_def case_prod_unfold intro!: kept_set_user_after split: option.split)

lemma admit_kept:
  "kept (db s) before \<Longrightarrow> kept (db s) (db t) \<Longrightarrow> kept (db s) (db (snd (admit I st now before name x t)))"
  by (auto simp: admit_def server_error_def Let_def case_prod_unfold intro!: log_in_kept split: option.split)

lemma login_kept:
  assumes "get_effective_ldap_config I st (db s) = Inr None"
  shows "kept (db s) (db (snd (login I D st now name pw s)))"
proof -
  obtain found where found: "identify I D st now name pw s = (Inr found, s)" using identify_off [OF assms] by blast
  show ?thesis
    by (auto simp: login_def found login_failed_def intro!: admit_kept split: option.split)
qed

lemma memberships_kept: "kept d (snd (add_memberships now i gs (d\<lparr>next_id := n, users := row_insert x (users d)\<rparr>)))"
  using memberships_frame [OF prod.collapse [symmetric], of now i gs "d\<lparr>next_id := n, users := row_insert x (users d)\<rparr>"]
  by (intro kept_after_elsewhere [OF kept_insert [of d x]]) simp_all

lemma create_user_kept: "kept (db s) (db (snd (create_user I now name pw r gs actor s)))"
  by (simp add: create_user_def fresh_def Let_def case_prod_unfold memberships_kept split: option.split sum.split)

lemma create_user_endpoint_kept: "kept (db s) (db (snd (create_user_endpoint I now actor name pw r gs s)))"
  unfolding create_user_endpoint_def by (rule kept_respond) (rule create_user_kept)

lemma enable_kept: "kept (db s) (db (snd (enable_user now actor i s)))"
  unfolding enable_user_def
  by (rule kept_with_user) (simp add: set_active_def kept_set_user)

lemma reset_password_kept: "kept (db s) (db (snd (reset_password_endpoint I now actor pw i s)))"
  unfolding reset_password_endpoint_def
  by (rule kept_with_user) (auto simp: reset_password_def Let_def case_prod_unfold intro!: kept_set_user_after)

lemma lock_kept: "kept (db s) (db (snd (lock_account_endpoint I now actor i s)))"
  unfolding lock_account_endpoint_def
  by (rule kept_with_user) (simp add: lock_account_def Let_def case_prod_unfold)

lemma unlock_kept: "kept (db s) (db (snd (unlock_account_endpoint I now actor i s)))"
  unfolding unlock_account_endpoint_def
  by (rule kept_with_user) (simp add: unlock_account_def Let_def)

lemma update_groups_kept: "kept (db s) (db (snd (update_groups now actor gs i s)))"
  unfolding update_groups_def
  by (rule kept_with_user) (auto simp: Let_def case_prod_unfold respond_db set_groups_elsewhere
      intro!: kept_elsewhere split: sum.split)

lemma admin_reset_kept: "kept (db s) (db (snd (admin_reset_mfa I now actor i s)))"
  unfolding admin_reset_mfa_def by (rule kept_with_user) (simp add: reset_mfa_kept)

lemma regenerate_kept: "kept (db s) (db (snd (regenerate_setup_token I now s)))"
  by (auto simp: regenerate_setup_token_def Let_def case_prod_unfold intro!: kept_set_state_after)

lemma bootstrap_kept: "kept (db s) (db (snd (bootstrap_account I now name pw s)))"
proof (cases "case ss_setup_admin_user_id (current_state (db s)) of None \<Rightarrow> None | Some i \<Rightarrow> row_get u_id i (users (db s))")
  case None
  have "kept (db s) (db (snd (create_user I now name pw ''ADMIN'' [] BOOTSTRAP_SYSTEM_ACTOR_ID s)))"
    by (rule create_user_kept)
  then show ?thesis using None
    by (cases "create_user I now name pw ''ADMIN'' [] BOOTSTRAP_SYSTEM_ACTOR_ID s")
      (auto simp: bootstrap_account_def intro!: kept_set_state_after split: sum.split)
next
  case (Some x)
  then show ?thesis
    by (auto simp: bootstrap_account_def Let_def case_prod_unfold intro!: kept_set_user_after)
qed

lemma create_admin_kept: "kept (db s) (db (snd (create_admin I st now stok name pw s)))"
proof -
  let ?t = "on_world (clear_login_failures I SETUP_TOKEN_RATE_LIMIT_KEY) (on_db (set_state id) s)"
  obtain r u where r: "bootstrap_account I now name pw ?t = (r, u)" by (metis prod.exhaust)
  have "kept (db ?t) (db u)" using bootstrap_kept [of ?t I now name pw] r by simp
  then have u: "kept (db s) (db u)"
    by (rule kept_trans [rotated]) (simp add: kept_set_state)
  show ?thesis using r u
    by (auto simp: create_admin_def create_bootstrap_admin_def Let_def case_prod_unfold split: sum.split)
qed

lemma confirm_mfa_kept:
  assumes "redis_laws I"
  shows "kept (db s) (db (snd (confirm_mfa I st now tok ct s)))"
proof -
  have c: "kept (db s) (db (snd (complete_bootstrap_mfa I now x ct s)))" for x
    using confirm_kept [OF assms, of s now x ct]
    by (auto simp: complete_bootstrap_mfa_def case_prod_unfold intro!: kept_seed_after kept_set_state_after split: sum.split)
  show ?thesis
    by (auto simp: confirm_mfa_def Let_def case_prod_unfold c split: option.split sum.split setup_error.split)
qed

lemma account_step_kept:
  assumes "account_step I D st s t" and "redis_laws I"
  shows "kept (db s) (db t) \<or> (\<exists>now actor i. t = snd (disable_user now actor i s))
    \<or> (\<exists>now actor r i. t = snd (update_role I now actor r i s))"
  using assms(1)
proof cases
  case (disable now actor i)
  then show ?thesis by blast
next
  case (change_role now actor r i)
  then show ?thesis by blast
qed (rule disjI1, simp add: assms(2) login_kept logout_kept change_password_kept mfa_verify_kept enroll_kept
      enroll_confirm_kept setup_enroll_kept setup_confirm_kept reset_self_kept admin_reset_kept
      create_user_endpoint_kept enable_kept reset_password_kept lock_kept unlock_kept update_groups_kept
      regenerate_kept create_admin_kept confirm_mfa_kept)+

end

end
