(* ===== verification/Account_Safety.thy ===== *)
theory Account_Safety
  imports Route_Frames
begin

text \<open>
  Two invariants of every run of the account routes, by the contract of \<open>Route_Frames\<close>: an active
  administrator is left, and first-run setup happens once.
\<close>

section \<open>An administrator is left\<close>

text \<open>What every route but two does to the active accounts: each keeps its role and stays active.\<close>

definition actives_kept :: "database \<Rightarrow> database \<Rightarrow> bool" where
  "actives_kept d e \<longleftrightarrow> roles e = roles d
     \<and> (\<forall>x \<in> set (users d). u_is_active x \<longrightarrow> (\<exists>y \<in> set (users e). u_role_id y = u_role_id x \<and> u_is_active y))"

lemma actives_kept_refl [simp, intro]: "actives_kept d d"
  by (auto simp: actives_kept_def)

lemma actives_kept_trans: "actives_kept a b \<Longrightarrow> actives_kept b c \<Longrightarrow> actives_kept a c"
  unfolding actives_kept_def by fastforce

lemma actives_kept_same: "accounts_same d e \<Longrightarrow> actives_kept d e"
  by (auto simp: accounts_same_def actives_kept_def)

lemma actives_kept_set_user:
  assumes "\<And>x. u_role_id (f x) = u_role_id x \<and> (u_is_active x \<longrightarrow> u_is_active (f x))"
  shows "actives_kept d (set_user now k f d)"
  unfolding actives_kept_def
proof (intro conjI ballI impI)
  fix x assume x: "x \<in> set (users d)" "u_is_active x"
  let ?y = "if u_id x = k then (f x)\<lparr>u_updated_at := now\<rparr> else x"
  have "?y \<in> set (users (set_user now k f d))" using x(1) by (auto simp: set_user_def set_row_update)
  moreover have "u_role_id ?y = u_role_id x \<and> u_is_active ?y" using assms [of x] x(2) by simp
  ultimately show "\<exists>y \<in> set (users (set_user now k f d)). u_role_id y = u_role_id x \<and> u_is_active y" by blast
qed simp

lemma actives_kept_insert: "roles e = roles d \<Longrightarrow> users e = row_insert x (users d) \<Longrightarrow> actives_kept d e"
  by (auto simp: actives_kept_def set_row_insert)

interpretation actives: route_frame actives_kept
proof
  show "actives_kept d d" for d by (rule actives_kept_refl)
  show "actives_kept a c" if "actives_kept a b" "actives_kept b c" for a b c
    using that by (rule actives_kept_trans)
  show "actives_kept d e"
    if "users e = users d" "roles e = roles d" "system_states e = system_states d" for d e
    unfolding actives_kept_def that(1,2) by blast
  show "actives_kept d (set_user now k f d)"
    if "\<And>x. u_role_id (f x) = u_role_id x \<and> (u_is_active x \<longrightarrow> u_is_active (f x))" for f d now k
    using that by (rule actives_kept_set_user)
  show "actives_kept d (d\<lparr>users := row_insert u (users d)\<rparr>)" for d u
    by (rule actives_kept_insert) simp_all
  show "actives_kept d (set_state g d)" for d g by (rule actives_kept_same) simp
  show "actives_kept d (seed_or_skip now d)" for now d by (rule actives_kept_same) (rule seed_same)
qed

lemma role_name_of_kept: "roles e = roles d \<Longrightarrow> u_role_id y = u_role_id x \<Longrightarrow> role_name_of e y = role_name_of d x"
  by (simp add: role_name_of_def)

lemma active_admins_iff:
  "active_admins d \<noteq> [] \<longleftrightarrow> (\<exists>x \<in> set (users d). u_is_active x \<and> role_name_of d x = Some ''ADMIN'')"
  by (auto simp: active_admins_def filter_empty_conv)

lemma admin_kept: "actives_kept d e \<Longrightarrow> active_admins d \<noteq> [] \<Longrightarrow> active_admins e \<noteq> []"
  unfolding active_admins_iff actives_kept_def by (fastforce simp: role_name_of_def)

text \<open>The two routes with a guard: only the account named changes.\<close>

lemma other_admin:
  assumes "\<not> length (active_admins d) \<le> 1" and "distinct_keys u_id (users d)"
  obtains y where "y \<in> set (users d)" "u_is_active y" "role_name_of d y = Some ''ADMIN''" "u_id y \<noteq> k"
proof -
  have "distinct (map u_id (active_admins d))"
    using assms(2) by (simp add: active_admins_def distinct_keys_def distinct_map_filter)
  moreover obtain a b rest where "active_admins d = a # b # rest"
    using assms(1) by (cases "active_admins d" rule: remdups_adj.cases) auto
  ultimately have "u_id a \<noteq> u_id b" "a \<in> set (active_admins d)" "b \<in> set (active_admins d)" by auto
  then show ?thesis using that [of a] that [of b] by (cases "u_id a = k") (auto simp: active_admins_def)
qed

lemma set_user_others:
  assumes "y \<in> set (users d)" "u_is_active y" "role_name_of d y = Some ''ADMIN''" "u_id y \<noteq> k"
  shows "active_admins (set_user now k f d) \<noteq> []"
proof -
  have "y \<in> set (users (set_user now k f d))"
    using assms(1,4) by (force simp: set_user_def set_row_update)
  then show ?thesis using assms(2,3) unfolding active_admins_iff by (auto simp: role_name_of_def)
qed

lemma active_admins_event [simp]:
  "active_admins (record_security_event now t a x q m d) = active_admins d"
  "active_admins (user_event now t k v d) = active_admins d"
  by (simp_all add: active_admins_def role_name_of_def user_event_def)

lemma disable_keeps_admin:
  assumes "distinct_keys u_id (users (db s))" and "active_admins (db s) \<noteq> []"
  shows "active_admins (db (snd (disable_user now actor i s))) \<noteq> []"
proof (cases "row_get u_id i (users (db s))")
  case (Some x)
  let ?d = "set_user now (u_id x) (\<lambda>u. u\<lparr>u_is_active := False\<rparr>) (db s)"
  note x = row_get_SomeD [OF Some]
  show ?thesis
  proof (cases "u_id x = actor \<or> role_name_of (db s) x = Some ''ADMIN'' \<and> length (active_admins (db s)) \<le> 1")
    case True
    then show ?thesis using Some assms(2) by (auto simp: disable_user_def with_user_def)
  next
    case False
    have "active_admins ?d \<noteq> []"
    proof (cases "role_name_of (db s) x = Some ''ADMIN''")
      case True
      then have "\<not> length (active_admins (db s)) \<le> 1" using False by simp
      from other_admin [OF this assms(1), of "u_id x"] show ?thesis using set_user_others by metis
    next
      case not_admin: False
      obtain y where y: "y \<in> set (users (db s))" "u_is_active y" "role_name_of (db s) y = Some ''ADMIN''"
        using assms(2) unfolding active_admins_iff by blast
      then have "u_id y \<noteq> u_id x" using distinct_keys_eq [OF assms(1)] x not_admin by metis
      then show ?thesis using set_user_others [OF y] by simp
    qed
    then show ?thesis using Some False by (auto simp: disable_user_def with_user_def set_active_def)
  qed
qed (use assms in \<open>simp add: disable_user_def with_user_def\<close>)

lemma change_role_db:
  assumes "get_role_by_name rname (db s) = Inr r"
  shows "active_admins (db (snd (change_role I now x rname actor s)))
    = active_admins (set_user now (u_id x) (\<lambda>u. u\<lparr>u_role_id := r_id r\<rparr>) (db s))"
  using assms by (simp add: change_role_def Let_def case_prod_unfold)

lemma update_role_keeps_admin:
  assumes "distinct_keys u_id (users (db s))" and "distinct_keys r_id (roles (db s))" and "active_admins (db s) \<noteq> []"
  shows "active_admins (db (snd (update_role I now actor rname i s))) \<noteq> []"
proof (cases "row_get u_id i (users (db s))")
  case (Some x)
  note x = row_get_SomeD [OF Some]
  show ?thesis
  proof (cases "role_name_of (db s) x = Some ''ADMIN'' \<and> rname \<noteq> ''ADMIN'' \<and> u_is_active x \<and> length (active_admins (db s)) \<le> 1")
    case True
    then show ?thesis using Some assms(3) by (auto simp: update_role_def with_user_def)
  next
    case False
    let ?r = "change_role I now x rname actor s"
    have db: "db (snd (sys_respond (\<lambda>e. (user_status_400 e, False)) s ?r)) =
        (case get_role_by_name rname (db s) of Inl e \<Rightarrow> db s | Inr r \<Rightarrow> db (snd ?r))"
      by (simp add: change_role_def sys_respond_def Let_def case_prod_unfold split: sum.split)
    have "active_admins (db (snd ?r)) \<noteq> []" if r: "get_role_by_name rname (db s) = Inr r" for r
    proof -
      let ?d = "set_user now (u_id x) (\<lambda>u. u\<lparr>u_role_id := r_id r\<rparr>) (db s)"
      have rname: "r \<in> set (roles (db s))" "r_name r = rname"
        using r by (auto simp: get_role_by_name_def split: option.splits dest: row_get_SomeD)
      obtain y where y: "y \<in> set (users (db s))" "u_is_active y" "role_name_of (db s) y = Some ''ADMIN''"
        using assms(3) unfolding active_admins_iff by blast
      have "active_admins ?d \<noteq> []"
      proof (cases "rname = ''ADMIN''")
        case True
        let ?y = "if u_id y = u_id x then y\<lparr>u_role_id := r_id r, u_updated_at := now\<rparr> else y"
        have "?y \<in> set (users ?d)" using y(1) by (auto simp: set_user_def set_row_update)
        moreover have "role_name_of ?d ?y = Some ''ADMIN''"
          using y(3) rname True row_get_Some [OF assms(2), of "r_id r" r] by (simp add: role_name_of_def)
        moreover have "u_is_active ?y" using y(2) by simp
        ultimately show ?thesis unfolding active_admins_iff by blast
      next
        case demoted: False
        show ?thesis
        proof (cases "u_id y = u_id x")
          case True
          then have "y = x" using distinct_keys_eq [OF assms(1) y(1)] x by simp
          then have "\<not> length (active_admins (db s)) \<le> 1" using False demoted y by simp
          from other_admin [OF this assms(1), of "u_id x"] show ?thesis using set_user_others by metis
        qed (use set_user_others [OF y] in simp)
      qed
      then show ?thesis using change_role_db [OF r] by simp
    qed
    then show ?thesis using Some False assms(3) db
      by (auto simp: update_role_def with_user_def split: sum.split)
  qed
qed (use assms in \<open>simp add: update_role_def with_user_def\<close>)

lemma roles_kept: "actives_kept d e \<Longrightarrow> roles e = roles d"
  by (simp add: actives_kept_def)

lemma sys_respond_roles:
  "roles (db (snd r)) = roles (db s) \<Longrightarrow> roles (db (snd (sys_respond h s r))) = roles (db s)"
  by (cases r; cases "fst r") (auto simp: sys_respond_def Let_def case_prod_unfold)

lemma guarded_roles:
  "roles (db (snd (disable_user now actor i s))) = roles (db s)"
  "roles (db (snd (update_role I now actor rname i s))) = roles (db s)"
proof -
  have "roles (db (snd (change_role I now x rname actor s))) = roles (db s)" for x
    by (simp add: change_role_def user_event_def Let_def case_prod_unfold split: sum.split)
  then show "roles (db (snd (update_role I now actor rname i s))) = roles (db s)"
    by (simp add: update_role_def with_user_def sys_respond_roles split: option.split)
qed (simp add: disable_user_def with_user_def set_active_def user_event_def split: option.split)

lemma account_step_admin:
  assumes "account_step I D st s t" and "redis_laws I" and "distinct_keys u_id (users (db s))"
    and "distinct_keys r_id (roles (db s))" and "active_admins (db s) \<noteq> []"
  shows "active_admins (db t) \<noteq> [] \<and> roles (db t) = roles (db s)"
proof -
  from actives.account_step_kept [OF assms(1,2)] consider "actives_kept (db s) (db t)"
    | now actor i where "t = snd (disable_user now actor i s)"
    | now actor r i where "t = snd (update_role I now actor r i s)" by blast
  then show ?thesis
  proof cases
    case 1
    then show ?thesis using assms(5) admin_kept roles_kept by blast
  next
    case 2
    then show ?thesis using disable_keeps_admin [OF assms(3,5)] guarded_roles(1) by simp
  next
    case 3
    then show ?thesis using update_role_keeps_admin [OF assms(3-5)] guarded_roles(2) by simp
  qed
qed

lemma safe_distinct: "safe I s \<Longrightarrow> distinct_keys u_id (users (db s))"
  by (simp add: safe_def guarded_def accounts_wf_def)

text \<open>
  C9. The installation cannot lock itself out: from a state with an active administrator, however the
  routes for logins, enrolments, account administration and setup are used (directory off), an
  active account with the role ADMIN is left.
\<close>

theorem an_active_admin_remains:
  assumes "account_run I D st s t" and "redis_laws I" and "safe I s"
    and "distinct_keys r_id (roles (db s))" and "active_admins (db s) \<noteq> []"
  shows "active_admins (db t) \<noteq> []"
proof -
  from assms have "active_admins (db t) \<noteq> [] \<and> roles (db t) = roles (db s) \<and> safe I t"
  proof (induction rule: account_run.induct)
    case (account_run_step s t u)
    have t: "active_admins (db t) \<noteq> []" "roles (db t) = roles (db s)" "safe I t"
      using account_run_step.IH [OF account_run_step.prems] by simp_all
    show ?case
      using account_step_admin [OF account_run_step.hyps(2) account_run_step.prems(1) safe_distinct [OF t(3)]]
        account_step_safe [OF account_run_step.hyps(2) account_run_step.prems(1) t(3)] t account_run_step.prems(3) by simp
  qed simp
  then show ?thesis by simp
qed

section \<open>Setup happens once\<close>

definition initialized_kept :: "database \<Rightarrow> database \<Rightarrow> bool" where
  "initialized_kept d e \<longleftrightarrow> (ss_initialized (current_state d) \<longrightarrow> ss_initialized (current_state e))"

lemma current_state_simps [simp]:
  "current_state (set_state g d) = g (current_state d)"
  "current_state (set_user now k f d) = current_state d"
  by (simp_all add: current_state_def set_state_def)

lemma seed_initialized: "ss_initialized (current_state (seed_or_skip now d)) = ss_initialized (current_state d)"
proof -
  have loop: "system_states e = system_states d"
    if "seed_loop now seeded ts d = (r, e)" for seeded ts d r e
    using seed_loop_states [of now seeded ts d] that by simp
  have seed: "ss_initialized (current_state e) = ss_initialized (current_state d)"
    if "seed_standard_policies now d = (Inr r, e)" for r e
    using that loop by (auto simp: seed_standard_policies_def current_state_def split: option.splits prod.splits sum.splits)
  obtain r e where "seed_standard_policies now d = (r, e)" by (metis prod.exhaust)
  then show ?thesis using seed by (cases r) (auto simp: seed_or_skip_def)
qed

lemma current_state_cong: "system_states e = system_states d \<Longrightarrow> current_state e = current_state d"
  by (simp add: current_state_def)

interpretation initialized: route_frame initialized_kept
proof
  show "initialized_kept d e"
    if "users e = users d" "roles e = roles d" "system_states e = system_states d" for d e
    using current_state_cong [OF that(3)] by (simp add: initialized_kept_def)
  show "initialized_kept d (d\<lparr>users := row_insert u (users d)\<rparr>)" for d u
    using current_state_cong [of "d\<lparr>users := row_insert u (users d)\<rparr>" d] by (simp add: initialized_kept_def)
qed (auto simp: initialized_kept_def seed_initialized)

lemma account_step_initialized:
  assumes "account_step I D st s t" and "redis_laws I"
  shows "initialized_kept (db s) (db t)"
proof -
  have role: "current_state (db (snd (change_role I now x rname actor s))) = current_state (db s)" for now x rname actor s
    by (rule current_state_cong) (simp add: change_role_def user_event_def Let_def case_prod_unfold split: sum.split)
  have active: "current_state (set_active now x b actor d) = current_state d" for now x b actor d
    by (rule current_state_cong) (simp add: set_active_def user_event_def)
  have "initialized_kept (db s) (db (snd (disable_user now actor i s)))" for now actor i
    unfolding disable_user_def
    by (rule initialized.kept_with_user) (simp add: initialized_kept_def active)
  note disabled = this
  have changed: "initialized_kept (db s) (db (snd (sys_respond (\<lambda>e. (user_status_400 e, False)) s (change_role I now x rname actor s))))" for now x rname actor
    by (rule initialized.kept_respond) (simp add: role initialized_kept_def)
  have updated: "initialized_kept (db s) (db (snd (update_role I now actor rname i s)))" for now actor rname i
    unfolding update_role_def
    by (rule initialized.kept_with_user) (use changed in simp)
  show ?thesis using initialized.account_step_kept [OF assms] disabled updated by blast
qed

lemma account_run_initialized:
  "account_run I D st s t \<Longrightarrow> redis_laws I \<Longrightarrow> ss_initialized (current_state (db s)) \<Longrightarrow> ss_initialized (current_state (db t))"
  by (induction rule: account_run.induct) (auto simp: initialized_kept_def dest!: account_step_initialized)

text \<open>
  First-run setup happens once: after it, along every run of the account routes, both setup
  routes refuse, creating or changing no account, whatever token or code they are given, and no new
  setup token is issued.
\<close>

theorem setup_happens_once:
  assumes "account_run I D st s t" and "redis_laws I" and "ss_initialized (current_state (db s))"
  shows "isl (fst (create_admin I st now stok name pw t)) \<and> db (snd (create_admin I st now stok name pw t)) = db t
    \<and> confirm_mfa I st now mtok ct t = (Inl (409, ''system already initialized''), t)
    \<and> fst (regenerate_setup_token I now t) = None \<and> accounts_same (db t) (db (snd (regenerate_setup_token I now t)))"
proof -
  have t: "ss_initialized (current_state (db t))" by (rule account_run_initialized [OF assms])
  then have "\<not> is_setup_required (db t)"
    by (auto simp: is_setup_required_def current_state_def fresh_state_def split: option.splits)
  then show ?thesis using t
    by (simp add: create_admin_def create_bootstrap_admin_def confirm_mfa_def regenerate_setup_token_def)
qed

end
