(* ===== verification/Login_Limits.thy ===== *)
theory Login_Limits
  imports Account_Steps
begin

text \<open>
  Guessing is bounded: failed logins per name, wrong codes per MFA challenge, and recovery codes, each
  good for one login. And who is asked: a local password is never bypassed by the directory.
\<close>

section \<open>Failed logins\<close>

text \<open>A directory that leaves Redis alone; every lookup and bind is a call to another server.\<close>

definition directory_quiet :: "'w idp \<Rightarrow> 'w directory \<Rightarrow> bool" where
  "directory_quiet I D \<longleftrightarrow>
     (\<forall>k u w. redis_read I k (snd (ldap_initialize D u w)) = redis_read I k w)
     \<and> (\<forall>k h w. redis_read I k (snd (ldap_start_tls D h w)) = redis_read I k w)
     \<and> (\<forall>k h dn pw w. redis_read I k (snd (ldap_bind D h dn pw w)) = redis_read I k w)
     \<and> (\<forall>k h b sc f a w. redis_read I k (snd (ldap_search D h b sc f a w)) = redis_read I k w)
     \<and> (\<forall>k h w. redis_read I k (snd (ldap_unbind D h w)) = redis_read I k w)"

lemma directory_quietD:
  assumes "directory_quiet I D"
  shows "ldap_initialize D u w = (r1, v) \<Longrightarrow> redis_read I k v = redis_read I k w"
    and "ldap_start_tls D h w = (r2, v) \<Longrightarrow> redis_read I k v = redis_read I k w"
    and "ldap_bind D h dn pw w = (r3, v) \<Longrightarrow> redis_read I k v = redis_read I k w"
    and "ldap_search D h b sc f a w = (r4, v) \<Longrightarrow> redis_read I k v = redis_read I k w"
    and "ldap_unbind D h w = (r5, v) \<Longrightarrow> redis_read I k v = redis_read I k w"
  using assms unfolding directory_quiet_def by (metis snd_conv)+

lemma connection_quiet:
  assumes "directory_quiet I D" and "new_ldap_connection D c w = (r, v)"
  shows "redis_read I k v = redis_read I k w"
  using assms(2) unfolding new_ldap_connection_def
  by (auto split: prod.splits sum.splits if_splits dest!: directory_quietD [OF assms(1), where k = k])

lemma bind_as_user_quiet:
  assumes "directory_quiet I D" and "bind_as_user D c dn pw w = (r, v)"
  shows "redis_read I k v = redis_read I k w"
  using assms(2) unfolding bind_as_user_def
  by (auto split: prod.splits sum.splits if_splits
      dest!: directory_quietD [OF assms(1), where k = k] connection_quiet [OF assms(1), where k = k])

lemma search_user_quiet:
  assumes "directory_quiet I D" and "search_user D c name w = (r, v)"
  shows "redis_read I k v = redis_read I k w"
  using assms(2) unfolding search_user_def
  by (auto split: prod.splits sum.splits option.splits
      dest!: directory_quietD [OF assms(1), where k = k] connection_quiet [OF assms(1), where k = k])

lemma authenticate_quiet:
  assumes "directory_quiet I D" and "ldap_authenticate D c name pw w = (r, v)"
  shows "redis_read I k v = redis_read I k w"
  using assms(2) unfolding ldap_authenticate_def
  by (auto split: prod.splits sum.splits option.splits list.splits if_splits bool.splits
      dest!: search_user_quiet [OF assms(1), where k = k] bind_as_user_quiet [OF assms(1), where k = k])

lemma identify_quiet:
  assumes "directory_quiet I D" and "identify I D st now name pw s = (r, t)"
  shows "redis_read I k (world t) = redis_read I k (world s)"
proof -
  have "redis_read I k (world t) = redis_read I k (world s)" if "directory_login I D st now name pw s = (r, t)"
    using that unfolding directory_login_def
    by (auto split: prod.splits sum.splits option.splits
        dest!: with_worldD authenticate_quiet [OF assms(1), where k = k])
  then show ?thesis using assms(2) by (auto simp: identify_def Let_def split: if_splits)
qed

text \<open>The counter of a name: absent, or a number of failures.\<close>

definition failures_are :: "'w idp \<Rightarrow> string \<Rightarrow> int \<Rightarrow> 'w \<Rightarrow> bool" where
  "failures_are I name n w \<longleftrightarrow> 0 \<le> n \<and> (redis_read I (LOGIN_FAILURE_PREFIX @ name) w = Some (Failures n)
     \<or> n = 0 \<and> redis_read I (LOGIN_FAILURE_PREFIX @ name) w = None)"

lemma failures_are_frame:
  "redis_read I (LOGIN_FAILURE_PREFIX @ name) v = redis_read I (LOGIN_FAILURE_PREFIX @ name) w \<Longrightarrow>
   failures_are I name n v = failures_are I name n w"
  by (simp add: failures_are_def)

lemma failure_recorded:
  assumes "redis_laws I" and "failures_are I name n w"
  shows "failures_are I name (n + 1) (record_login_failure I name w)"
proof -
  let ?k = "LOGIN_FAILURE_PREFIX @ name"
  obtain c v where c: "redis_incr I ?k w = (c, v)" by (metis prod.exhaust)
  have "c = n + 1" using assms redis_incr_value [OF assms(1), of ?k w] c by (auto simp: failures_are_def)
  moreover have "redis_read I ?k v = Some (Failures c)" using redis_lawsD(4) [OF assms(1), of ?k ?k w] c by simp
  ultimately show ?thesis
    using assms c by (simp add: failures_are_def record_login_failure_def Let_def redis_lawsD(3) [OF assms(1)])
qed

text \<open>What the operations of a login do to the counter of another name.\<close>

lemma failure_other:
  assumes "redis_laws I" and "m \<noteq> name"
  shows "redis_read I (LOGIN_FAILURE_PREFIX @ m) (record_login_failure I name w) = redis_read I (LOGIN_FAILURE_PREFIX @ m) w"
    and "redis_read I (LOGIN_FAILURE_PREFIX @ m) (clear_login_failures I name w) = redis_read I (LOGIN_FAILURE_PREFIX @ m) w"
  using assms redis_lawsD(4) [OF assms(1), of "LOGIN_FAILURE_PREFIX @ m" "LOGIN_FAILURE_PREFIX @ name" w]
  by (simp_all add: record_login_failure_def clear_login_failures_def Let_def case_prod_unfold redis_lawsD(2,3))

lemma failure_untouched:
  assumes "redis_laws I"
  shows "redis_read I (LOGIN_FAILURE_PREFIX @ m) (snd (create_mfa_pending I u w)) = redis_read I (LOGIN_FAILURE_PREFIX @ m) w"
    and "redis_read I (LOGIN_FAILURE_PREFIX @ m) (snd (create_login_session I st u r w)) = redis_read I (LOGIN_FAILURE_PREFIX @ m) w"
  using redis_lawsD(5) [OF assms]
  by (simp_all add: create_mfa_pending_def create_login_session_def Let_def case_prod_unfold redis_lawsD(1) [OF assms])

lemma with_world_world [simp]: "world (snd (with_world f s)) = snd (f (world s))"
  by (simp add: with_world_def case_prod_unfold Let_def)

lemma admit_other:
  assumes "redis_laws I" and "m \<noteq> name"
  shows "redis_read I (LOGIN_FAILURE_PREFIX @ m) (world (snd (admit I st now d name x s)))
    = redis_read I (LOGIN_FAILURE_PREFIX @ m) (world s)"
  using failure_other [OF assms] failure_untouched [OF assms(1)]
  by (auto simp: admit_def log_in_def server_error_def Let_def case_prod_unfold split: option.split)

lemma login_other:
  assumes "redis_laws I" and "directory_quiet I D" and "m \<noteq> name"
  shows "redis_read I (LOGIN_FAILURE_PREFIX @ m) (world (snd (login I D st now name pw s)))
    = redis_read I (LOGIN_FAILURE_PREFIX @ m) (world s)"
proof -
  obtain r t where r: "identify I D st now name pw s = (r, t)" by (metis prod.exhaust)
  show ?thesis
    using identify_quiet [OF assms(2) r, of "LOGIN_FAILURE_PREFIX @ m"] failure_other [OF assms(1,3)] admit_other [OF assms(1,3)]
    by (auto simp: login_def r login_failed_def server_error_def split: sum.split option.split)
qed

abbreviation "wrong_credentials \<equiv> (401, ''invalid credentials'') :: http_error"
abbreviation "too_many_failures \<equiv> (429, ''too many failed login attempts'') :: http_error"

lemma login_rejected:
  assumes "redis_laws I" and "directory_quiet I D" and "failures_are I name n (world s)"
    and "login I D st now name pw s = (r, t)"
  shows "r = Inl wrong_credentials \<Longrightarrow> n < 10 \<and> failures_are I name (n + 1) (world t)"
    and "r = Inl too_many_failures \<Longrightarrow> failures_are I name n (world t)"
proof -
  obtain q u where q: "identify I D st now name pw s = (q, u)" by (metis prod.exhaust)
  have u: "failures_are I name n (world u)"
    using identify_quiet [OF assms(2) q] assms(3) by (simp add: failures_are_def)
  have locked: "is_login_locked I name (world s) \<longleftrightarrow> 10 \<le> n"
    using assms(3) by (auto simp: is_login_locked_def failures_are_def LOGIN_FAILURE_MAX_ATTEMPTS_def)
  have admitted: "fst (admit I st now d name x u) \<noteq> Inl wrong_credentials \<and> fst (admit I st now d name x u) \<noteq> Inl too_many_failures"
    for d x by (auto simp: admit_def server_error_def Let_def case_prod_unfold split: option.split)
  have fails: "(r = Inl wrong_credentials \<longrightarrow> n < 10 \<and> failures_are I name (n + 1) (world t)) \<and>
      (r = Inl too_many_failures \<longrightarrow> failures_are I name n (world t))"
  proof (cases "is_login_locked I name (world s)")
    case True
    then show ?thesis using assms(3,4) by (auto simp: login_def)
  next
    case False
    then show ?thesis
      using assms(4) q admitted failure_recorded [OF assms(1) u] locked
      by (auto simp: login_def login_failed_def server_error_def split: sum.splits option.splits if_splits)
        (metis fst_conv)+
  qed
  then show "r = Inl wrong_credentials \<Longrightarrow> n < 10 \<and> failures_are I name (n + 1) (world t)"
    and "r = Inl too_many_failures \<Longrightarrow> failures_are I name n (world t)" by blast+
qed

text \<open>Logins one after the other, each with its time, name and password; the answers with the names.\<close>

fun attempts ::
  "'w idp \<Rightarrow> 'w directory \<Rightarrow> settings \<Rightarrow> (instant \<times> string \<times> string) list \<Rightarrow> 'w sys
   \<Rightarrow> (string \<times> (http_error + login_answer)) list \<times> 'w sys" where
  "attempts I D st [] s = ([], s)"
| "attempts I D st ((now, name, pw) # gs) s =
     (let (r, s) = login I D st now name pw s; (rs, s) = attempts I D st gs s in ((name, r) # rs, s))"

definition rejections :: "string \<Rightarrow> (string \<times> (http_error + login_answer)) list \<Rightarrow> nat" where
  "rejections name rs = length (filter (\<lambda>(m, r). m = name \<and> r = Inl wrong_credentials) rs)"


section \<open>Wrong codes\<close>

lemma pending_reads:
  assumes "redis_laws I"
  shows "get_mfa_pending I tok (delete_mfa_pending I tok w) = None"
    and "get_mfa_pending I tok (snd (create_login_session I st u r w)) = get_mfa_pending I tok w"
  using redis_lawsD(5) [OF assms]
  by (simp_all add: get_mfa_pending_def delete_mfa_pending_def create_login_session_def Let_def case_prod_unfold
      redis_lawsD(1,2) [OF assms])

lemma pending_failure:
  assumes "redis_laws I" and "get_mfa_pending I tok w = Some (u, n)"
  shows "get_mfa_pending I tok (snd (record_mfa_pending_failure I tok w)) = (if n < 4 then Some (u, Suc n) else None)"
proof -
  have "tok \<noteq> []" using assms(2) by (auto simp: get_mfa_pending_def)
  then show ?thesis using assms(2) pending_reads(1) [OF assms(1)]
    by (simp add: record_mfa_pending_failure_def MFA_PENDING_MAX_ATTEMPTS_def Let_def get_mfa_pending_def [of I tok "redis_put I k v t w" for k v t]
        redis_lawsD(1) [OF assms(1)])
qed

text \<open>One code: either the challenge is gone afterwards, or the code was wrong and one more is counted.\<close>

lemma mfa_verify_pending:
  assumes "redis_laws I" and "mfa_verify I st now tok ct s = (r, t)"
    and "get_mfa_pending I tok (world s) = Some (u, n)"
  shows "get_mfa_pending I tok (world t) = None \<or>
    get_mfa_pending I tok (world t) = Some (u, Suc n) \<and> n < 4 \<and> isl r"
proof -
  have "get_mfa_pending I tok (world (snd (mfa_verify I st now tok ct s))) = None \<or>
    get_mfa_pending I tok (world (snd (mfa_verify I st now tok ct s))) = Some (u, Suc n) \<and> n < 4
    \<and> isl (fst (mfa_verify I st now tok ct s))"
    using assms(3) pending_reads [OF assms(1)] pending_failure [OF assms(1,3)]
    by (auto simp: mfa_verify_def server_error_def log_in_def Let_def case_prod_unfold split: option.split bool.split)
  then show ?thesis using assms(2) by simp
qed

lemma mfa_verify_gone:
  "get_mfa_pending I tok (world s) = None \<Longrightarrow> mfa_verify I st now tok ct s = (Inl invalid_challenge, s)"
  by (simp add: mfa_verify_def)

fun challenges ::
  "'w idp \<Rightarrow> settings \<Rightarrow> string \<Rightarrow> (instant \<times> string) list \<Rightarrow> 'w sys \<Rightarrow> (http_error + string) list \<times> 'w sys" where
  "challenges I st tok [] s = ([], s)"
| "challenges I st tok ((now, ct) # cs) s =
     (let (r, s) = mfa_verify I st now tok ct s; (rs, s) = challenges I st tok cs s in (r # rs, s))"

text \<open>
  C20. An MFA challenge is good for one success or five attempts: after five codes were sent for it, or
  one that was accepted, the challenge is gone (and every further code for it is answered 401 without
  being looked at).
\<close>

theorem mfa_challenge_is_bounded:
  assumes "redis_laws I" and "challenges I st tok cs s = (rs, t)" and "5 \<le> length cs \<or> (\<exists>r \<in> set rs. \<not> isl r)"
  shows "mfa_verify I st now tok ct t = (Inl invalid_challenge, t)"
proof -
  have gone: "get_mfa_pending I tok (world t) = None \<and> (\<forall>r \<in> set rs. isl r)"
    if "challenges I st tok cs s = (rs, t)" "get_mfa_pending I tok (world s) = None" for cs s rs
    using that by (induction cs arbitrary: rs) (auto simp: mfa_verify_gone split: prod.splits)
  have spent: "get_mfa_pending I tok (world t) = None"
    if "challenges I st tok cs s = (rs, t)" "get_mfa_pending I tok (world s) = Some (u, n)"
      "5 \<le> length cs + n \<or> (\<exists>r \<in> set rs. \<not> isl r)" "cs \<noteq> []" for cs s rs u n
    using that
  proof (induction cs arbitrary: s rs n)
    case (Cons c cs)
    obtain x y where c: "c = (x, y)" by (cases c)
    obtain r v where r: "mfa_verify I st x tok y s = (r, v)" by (metis prod.exhaust)
    obtain qs where q: "challenges I st tok cs v = (qs, t)" "rs = r # qs"
      using Cons.prems(1) c r by (auto split: prod.splits)
    from mfa_verify_pending [OF assms(1) r Cons.prems(2)] show ?case
    proof
      assume "get_mfa_pending I tok (world v) = None"
      then show ?thesis using gone [OF q(1)] by simp
    next
      assume v: "get_mfa_pending I tok (world v) = Some (u, Suc n) \<and> n < 4 \<and> isl r"
      have "cs \<noteq> []" using Cons.prems(3) v q by (cases cs) auto
      then show ?thesis using Cons.IH [OF q(1), of "Suc n"] v Cons.prems(3) q(2) by auto
    qed
  qed simp
  have "cs \<noteq> []" using assms(2,3) by auto
  have "get_mfa_pending I tok (world t) = None"
  proof (cases "get_mfa_pending I tok (world s)")
    case (Some p)
    then have "get_mfa_pending I tok (world s) = Some (fst p, snd p)" by simp
    then show ?thesis by (rule spent [OF assms(2) _ _ \<open>cs \<noteq> []\<close>]) (use assms(3) in auto)
  qed (use gone [OF assms(2)] in simp)
  then show ?thesis by (rule mfa_verify_gone)
qed

section \<open>Recovery codes\<close>

definition unused_codes :: "uuid \<Rightarrow> database \<Rightarrow> nat" where
  "unused_codes u d = length (filter (\<lambda>c. rc_user_id c = u \<and> rc_used_at c = None) (recovery_codes d))"

lemma filter_update_one:
  assumes "distinct_keys key rows" and "x \<in> set rows" and "P x" and "\<not> P (f x)"
  shows "Suc (length (filter P (row_update key (key x) f rows))) = length (filter P rows)"
  using assms
proof (induction rows)
  case (Cons r rows)
  show ?case
  proof (cases "key r = key x")
    case True
    then have "r = x" "key x \<notin> key ` set rows"
      using Cons.prems distinct_keys_eq [OF Cons.prems(1), of r x] by (auto simp: distinct_keys_def)
    moreover from this(2) have "\<forall>y \<in> set rows. key y \<noteq> key x" by (metis image_eqI)
    ultimately have "r = x" "\<forall>y \<in> set rows. key y \<noteq> key x" by simp_all
    then show ?thesis using Cons.prems row_update_id [of rows key "key x" f] by (simp add: row_update_def)
  next
    case False
    then have "x \<in> set rows" using Cons.prems(2) by auto
    then show ?thesis using Cons False by (simp add: row_update_def distinct_keys_def)
  qed
qed simp

text \<open>
  A recovery code is good once: redeeming a text succeeds exactly when it matches an unused code of
  that account; exactly one such code is then used up, at that time, no other code changes, and the
  redemption is recorded.
\<close>

theorem recovery_codes_are_single_use:
  assumes "distinct_keys rc_id (recovery_codes d)"
  shows "if \<exists>c \<in> set (recovery_codes d). rc_user_id c = u_id x \<and> rc_used_at c = None \<and> argon2_verify I ct (rc_code_hash c)
    then \<exists>c \<in> set (recovery_codes d). rc_user_id c = u_id x \<and> rc_used_at c = None \<and> argon2_verify I ct (rc_code_hash c)
      \<and> redeem_recovery_code I now x ct d = (True, record_security_event now EV_RECOVERY_CODE_USED (Some (u_id x)) None None None
          (d\<lparr>recovery_codes := map (\<lambda>k. if k = c then c\<lparr>rc_used_at := Some now\<rparr> else k) (recovery_codes d)\<rparr>))
      \<and> Suc (unused_codes (u_id x) (snd (redeem_recovery_code I now x ct d))) = unused_codes (u_id x) d
    else redeem_recovery_code I now x ct d = (False, d)"
proof -
  let ?P = "\<lambda>c. rc_user_id c = u_id x \<and> rc_used_at c = None \<and> argon2_verify I ct (rc_code_hash c)"
  let ?f = "\<lambda>k. k\<lparr>rc_used_at := Some now\<rparr>"
  show ?thesis
  proof (cases "find ?P (recovery_codes d)")
    case None
    then have "\<not> (\<exists>c \<in> set (recovery_codes d). ?P c)" by (auto simp: find_None_iff)
    then show ?thesis using None unfolding redeem_recovery_code_def by simp
  next
    case (Some c)
    then have c: "c \<in> set (recovery_codes d)" "?P c" by (auto simp: find_Some_iff)
    have upd: "row_update rc_id (rc_id c) ?f (recovery_codes d) = map (\<lambda>k. if k = c then c\<lparr>rc_used_at := Some now\<rparr> else k) (recovery_codes d)"
      using distinct_keys_eq [OF assms _ c(1)] by (auto simp: row_update_def)
    have red: "redeem_recovery_code I now x ct d = (True, record_security_event now EV_RECOVERY_CODE_USED (Some (u_id x)) None None None
          (d\<lparr>recovery_codes := row_update rc_id (rc_id c) ?f (recovery_codes d)\<rparr>))"
      using Some by (simp add: redeem_recovery_code_def)
    have "Suc (unused_codes (u_id x) (snd (redeem_recovery_code I now x ct d))) = unused_codes (u_id x) d"
      unfolding red unused_codes_def using filter_update_one [OF assms c(1), of "\<lambda>c. rc_user_id c = u_id x \<and> rc_used_at c = None" ?f] c(2)
      by simp
    then show ?thesis using c red upd by auto
  qed
qed

section \<open>Who is asked\<close>

text \<open>
  C22. A local password is authoritative: for a name with a password hash on record the outcome of a
  login does not depend on the directory, which is not asked, and the login gets past the
  credentials only for an active account whose hash the password matches.
\<close>

theorem local_password_is_authoritative:
  assumes "row_get u_username name (users (db s)) = Some x" and "u_password_hash x = Some h"
    and "distinct_keys u_id (users (db s))"
  shows "login I D st now name pw s = login I E st now name pw s
    \<and> (\<not> isl (fst (login I D st now name pw s)) \<longrightarrow> u_is_active x \<and> argon2_verify I pw h)"
proof -
  have x: "row_get u_id (u_id x) (users (db s)) = Some x"
    using row_get_SomeD [OF assms(1)] row_get_Some [OF assms(3)] by simp
  have "identify I D' st now name pw s = (Inr (if u_is_active x \<and> argon2_verify I pw h then Some (u_id x) else None), s)" for D'
    using assms(1,2) x by (simp add: identify_def local_authenticate_def Let_def)
  then show ?thesis by (auto simp: login_def login_failed_def)
qed

end
