(* ===== verification/Directory_Logins.thy ===== *)
theory Directory_Logins
  imports Login_Limits
begin

text \<open>
  Directory logins: what a directory must answer for one to succeed, which role the groups give, what a
  promotion by the groups leaves open, and when the password travels in the clear.
\<close>

section \<open>A successful bind\<close>

text \<open>
  A directory login needs the password: it succeeds only with a non-empty password, when the search
  bound as the service account returned exactly one real entry, and a new connection was bound as that
  entry's DN with that password; the groups are those of that entry.
\<close>

theorem ldap_login_needs_the_password:
  assumes "ldap_authenticate D c name pw w = (Inr (Some group_dns), v)"
  shows "pw \<noteq> [] \<and> (\<exists>rs dn attrs w1 h w2 w3.
    search_user D c name w = (Inr (Some rs), w1) \<and> real_entries rs = [(dn, attrs)]
    \<and> new_ldap_connection D c w1 = (Inr h, w2) \<and> ldap_bind D h dn pw w2 = (Inr (), w3)
    \<and> group_dns = attribute_values (lc_group_attribute c) attrs)"
proof -
  have pw: "pw \<noteq> []" using assms by (auto simp: ldap_authenticate_def)
  then obtain rs w1 where rs: "search_user D c name w = (Inr (Some rs), w1)"
    using assms by (auto simp: ldap_authenticate_def split: prod.splits sum.splits option.splits)
  then obtain dn attrs where e: "real_entries rs = [(dn, attrs)]"
    using assms pw by (auto simp: ldap_authenticate_def split: list.splits)
  have b: "bind_as_user D c dn pw w1 = (True, v)" "group_dns = attribute_values (lc_group_attribute c) attrs"
    using assms pw rs e by (auto simp: ldap_authenticate_def split: prod.splits bool.splits)
  then obtain h w2 where h: "new_ldap_connection D c w1 = (Inr h, w2)"
    by (auto simp: bind_as_user_def split: prod.splits sum.splits)
  obtain r w3 where r: "ldap_bind D h dn pw w2 = (r, w3)" by (metis prod.exhaust)
  then have "r = Inr ()" using b(1) h by (cases r) (auto simp: bind_as_user_def split: prod.splits)
  then show ?thesis using pw rs e b(2) h r by blast
qed

section \<open>The role the groups give\<close>

text \<open>What one group gives: the last entry of the mapping whose DN is equal to it.\<close>

fun given_role :: "'w directory \<Rightarrow> (string \<times> string) list \<Rightarrow> string \<Rightarrow> string option" where
  "given_role D [] g = None"
| "given_role D ((dn, rname) # rest) g =
     (case given_role D rest g of Some r \<Rightarrow> Some r | None \<Rightarrow> if dns_equal D dn g then Some rname else None)"

lemma normalized_mapping_given: "normalized_mapping D mapping (normalize_dn D g) = given_role D mapping g"
  by (induction mapping) (auto simp: normalized_mapping_def dns_equal_def map_add_def map_of_append split: option.split)

definition some_group_gives :: "'w directory \<Rightarrow> string list \<Rightarrow> (string \<times> string) list \<Rightarrow> string \<Rightarrow> bool" where
  "some_group_gives D group_dns mapping rname \<longleftrightarrow> (\<exists>g \<in> set group_dns. given_role D mapping g = Some rname)"

lemma mapped_roles_given:
  "r \<in> set (mapped_roles D group_dns mapping) \<longleftrightarrow> some_group_gives D group_dns mapping r"
  by (auto simp: mapped_roles_def some_group_gives_def normalized_mapping_given split: option.splits) metis

text \<open>
  The role of a directory login is the highest one any of its groups gives: ADMIN, then
  SECURITY_REVIEWER, else USER; DNs compare by their parsed form, the last of colliding entries
  counts, and role names that are no role are ignored.
\<close>

theorem directory_role_is_highest:
  "resolve_role_from_ldap_groups D group_dns mapping =
     (if some_group_gives D group_dns mapping ''ADMIN'' then ''ADMIN''
      else if some_group_gives D group_dns mapping ''SECURITY_REVIEWER'' then ''SECURITY_REVIEWER''
      else ''USER'')"
  by (simp add: resolve_role_from_ldap_groups_def ROLE_PRECEDENCE_def mapped_roles_given)

section \<open>A promotion by the groups\<close>

lemma directory_login_outcome:
  assumes "get_effective_ldap_config I st (db s) = Inr (Some c)"
    and "ldap_authenticate D c name pw (world s) = (Inr (Some gs), v)"
    and "resolve_or_provision_ldap_user D now name gs (get_effective_group_role_mapping st (db s)) (db s) = (Inr i, e)"
  shows "directory_login I D st now name pw s = (Inr (Some i), s\<lparr>world := v, db := e\<rparr>)"
  using assms by (simp add: directory_login_def with_world_def)

text \<open>
  C21. A promotion by the directory keeps the sessions of the account: an active account without local
  password and without MFA, role USER, with a session; its groups now give ADMIN. The login that
  notices this does ask for MFA enrolment, but it has already changed the role, and the session that
  exists is from then on accepted by every ADMIN route, MFA still off.
\<close>

theorem directory_promotion_skips_second_factor:
  assumes "redis_laws I" and "directory_quiet I D"
    and "\<not> is_login_locked I name (world s)"
    and "row_get u_username name (users (db s)) = Some x" and "distinct_keys u_id (users (db s))"
    and "u_is_active x" and "u_password_hash x = None" and "\<not> u_mfa_enabled x"
    and "role_name_of (db s) x = Some ''USER''"
    and "row_get r_name ''ADMIN'' (roles (db s)) = Some r" and "row_get r_id (r_id r) (roles (db s)) = Some r"
    and "get_login_session I tok (world s) = Some (u_id x, old)"
    and "get_effective_ldap_config I st (db s) = Inr (Some c)"
    and "ldap_authenticate D c name pw (world s) = (Inr (Some gs), v)"
    and "some_group_gives D gs (get_effective_group_role_mapping st (db s)) ''ADMIN''"
    and "login I D st now name pw s = (answer, t)"
  shows "(\<exists>m. answer = Inr (Mfa_enrollment_required m))
    \<and> (\<exists>y. require_role I [''ADMIN''] (Some tok) t = Inr y \<and> u_id y = u_id x \<and> \<not> u_mfa_enabled y)"
proof -
  let ?e = "user_event now EV_USER_ROLE_CHANGED (u_id x) [(''reason'', JStr ''ldap_group_mapping''), (''new_role'', JStr ''ADMIN'')]
    (set_user now (u_id x) (\<lambda>u. u\<lparr>u_role_id := r_id r\<rparr>) (db s))"
  let ?y = "x\<lparr>u_role_id := r_id r, u_updated_at := now\<rparr>"
  let ?u = "s\<lparr>world := v, db := ?e\<rparr>"
  have x: "row_get u_id (u_id x) (users (db s)) = Some x" "u_username x = name"
    using row_get_SomeD [OF assms(4)] row_get_Some [OF assms(5)] by auto
  have "r_name r = ''ADMIN''" using row_get_SomeD [OF assms(10)] by simp
  have role: "resolve_role_from_ldap_groups D gs (get_effective_group_role_mapping st (db s)) = ''ADMIN''"
    using assms(15) by (simp add: resolve_role_from_ldap_groups_def ROLE_PRECEDENCE_def mapped_roles_given)
  have prov: "resolve_or_provision_ldap_user D now name gs (get_effective_group_role_mapping st (db s)) (db s) = (Inr (u_id x), ?e)"
    using assms(4,6,7,9,10) role
    by (simp add: resolve_or_provision_ldap_user_def follow_directory_role_def seeded_role_def)
  have ident: "identify I D st now name pw s = (Inr (Some (u_id x)), ?u)"
    using assms(4,6,7) x directory_login_outcome [OF assms(13,14) prov]
    by (simp add: identify_def local_authenticate_def Let_def)
  have row: "row_get u_id (u_id x) (users ?e) = Some ?y"
    using x by (simp add: set_user_row user_event_def)
  have rname: "role_name_of ?e ?y = Some ''ADMIN''"
    using assms(11) \<open>r_name r = ''ADMIN''\<close> by (simp add: role_name_of_def user_event_def)
  have t: "(answer, t) = admit I st now (db s) name ?y ?u"
    using assms(3,6,16) ident row by (simp add: login_def)
  obtain m w where m: "create_mfa_pending I (u_id x) (clear_login_failures I name v) = (m, w)" by (metis prod.exhaust)
  have t': "answer = Inr (Mfa_enrollment_required m)" "db t = ?e" "world t = w"
    using t assms(8) rname m by (simp_all add: admit_def MFA_MANDATORY_ROLES_def with_world_def)
  have "redis_read I (SESSION_PREFIX @ tok) w = redis_read I (SESSION_PREFIX @ tok) (world s)"
    using session_reads(1) [OF assms(1), of tok "u_id x" "clear_login_failures I name v"] m
      session_reads(5) [OF assms(1), of tok name v] authenticate_quiet [OF assms(2,14)] by simp
  then have "get_login_session I tok w = Some (u_id x, old)"
    using assms(12) by (simp add: get_login_session_def split: if_splits)
  then show ?thesis using t' row rname assms(6,8) by (simp add: require_role_def get_current_user_def)
qed

section \<open>Transport and activation\<close>

text \<open>
  Which accepted directory configurations are encrypted: with \<open>ldaps://\<close> StartTLS is off; with
  \<open>ldap://\<close> it is demanded, and a connection is only ever returned after StartTLS succeeded, provided the
  scheme is written in lower case. Written otherwise (\<open>LDAP://\<close>), the same demand is accepted and ignored: the
  connection is the plain one.
\<close>

theorem accepted_directory_transport:
  assumes "validate_ldap_fields f = Some g"
  shows "if startswith (lower (lf_server_uri g)) ''ldaps://'' then \<not> lf_use_starttls g
    else startswith (lower (lf_server_uri g)) ''ldap://'' \<and> lf_use_starttls g
      \<and> (if startswith (lf_server_uri g) ''ldap://''
         then \<forall>h v. new_ldap_connection D (config_from_fields g pw) w = (Inr h, v) \<longrightarrow> (\<exists>u. ldap_start_tls D h u = (Inr (), v))
         else new_ldap_connection D (config_from_fields g pw) w = ldap_initialize D (lf_server_uri g) w)"
proof -
  have g: "g = f\<lparr>lf_server_uri := strip (lf_server_uri f), lf_base_dn := strip (lf_base_dn f)\<rparr>"
    "startswith (lower (lf_server_uri g)) ''ldap://'' \<or> startswith (lower (lf_server_uri g)) ''ldaps://''"
    "startswith (lower (lf_server_uri g)) ''ldaps://'' \<Longrightarrow> \<not> lf_use_starttls g"
    "startswith (lower (lf_server_uri g)) ''ldap://'' \<Longrightarrow> lf_use_starttls g"
    using assms by (auto simp: validate_ldap_fields_def Let_def split: if_splits)
  have tls: "\<exists>u. ldap_start_tls D h u = (Inr (), v)"
    if "new_ldap_connection D (config_from_fields g pw) w = (Inr h, v)" "startswith (lf_server_uri g) ''ldap://''" "lf_use_starttls g" for h v
    using that by (auto simp: new_ldap_connection_def config_from_fields_def split: prod.splits sum.splits)
  have clear: "new_ldap_connection D (config_from_fields g pw) w = ldap_initialize D (lf_server_uri g) w"
    if "\<not> startswith (lf_server_uri g) ''ldap://''"
    using that by (simp add: new_ldap_connection_def config_from_fields_def split: prod.split sum.split)
  show ?thesis
  proof (cases "startswith (lower (lf_server_uri g)) ''ldaps://''")
    case True
    then show ?thesis using g(3) by simp
  next
    case False
    then have l: "startswith (lower (lf_server_uri g)) ''ldap://''" "lf_use_starttls g" using g(2,4) by auto
    show ?thesis using False l tls clear by (cases "startswith (lf_server_uri g) ''ldap://''") auto
  qed
qed

text \<open>
  A directory is activated only after it answered: an update that enables it and is accepted has
  bound as the service account, with the password that is stored, and read the search base with the
  configuration it stores; refused, it changes nothing in the database.
\<close>

theorem directory_activated_after_test:
  assumes "update_config I D now actor payload True password mapping s = (r, t)"
  shows "(isl r \<longrightarrow> db t = db s) \<and> (r = Inr () \<longrightarrow> (\<exists>f sealed pw h w1 w2 w3 es.
    validate_ldap_fields payload = Some f \<and> effective_password I password (db s) = Inr (sealed, pw)
    \<and> new_ldap_connection D (config_from_fields f pw) (world s) = (Inr h, w1)
    \<and> ldap_bind D h (lf_bind_dn f) pw w1 = (Inr (), w2)
    \<and> ldap_search D h (lf_base_dn f) Scope_base ''(objectClass=*)'' [] w2 = (Inr es, w3)
    \<and> db t = write_ldap_config now actor f True mapping sealed (truthy password) (db s)))"
proof (cases "validate_ldap_fields payload")
  case f: (Some f)
  show ?thesis
  proof (cases "effective_password I password (db s)")
    case (Inr p)
    obtain sealed pw where p: "p = (sealed, pw)" by (cases p)
    let ?c = "config_from_fields f pw"
    obtain q u where q: "test_connection D ?c None (world s) = (q, u)" by (metis prod.exhaust)
    have tested: "\<exists>h w1 w2 w3 es. new_ldap_connection D ?c (world s) = (Inr h, w1)
      \<and> ldap_bind D h (lf_bind_dn f) pw w1 = (Inr (), w2)
      \<and> ldap_search D h (lf_base_dn f) Scope_base ''(objectClass=*)'' [] w2 = (Inr es, w3)"
      if "q = Inr x" "tr_success x" for x
      using q that by (auto simp: test_connection_def finish_test_def config_from_fields_def truthy_def Let_def
          split: prod.splits sum.splits ldap_error.splits)
    then show ?thesis using assms f Inr p q
      by (auto simp: update_config_def with_world_def split: sum.splits if_splits)
  qed (use assms f in \<open>auto simp: update_config_def\<close>)
qed (use assms in \<open>auto simp: update_config_def\<close>)

end
