(* ===== verification/Seeding.thy ===== *)
theory Seeding
  imports Route_Frames Policy_Invariant
begin

text \<open>
  The standard policies: seeding them cannot fail once the setup row exists, does nothing the second
  time, keeps the policy tables well-formed, and changes no decision about any user, since a new
  policy is attached to no group.
\<close>

section \<open>What one template adds\<close>

definition only_adds :: "database \<Rightarrow> database \<Rightarrow> bool" where
  "only_adds d e \<longleftrightarrow> group_policies e = group_policies d \<and> user_groups e = user_groups d \<and> next_id d \<le> next_id e
     \<and> (\<exists>ps. policies e = policies d @ ps \<and> (\<forall>p \<in> set ps. next_id d \<le> p_id p))
     \<and> (\<exists>vs. policy_versions e = policy_versions d @ vs \<and> (\<forall>v \<in> set vs. next_id d \<le> pv_id v \<and> next_id d \<le> pv_policy_id v))
     \<and> (\<exists>rs. file_rules e = file_rules d @ rs \<and> (\<forall>r \<in> set rs. next_id d \<le> fr_policy_version_id r))"

lemma only_adds_refl [simp]: "only_adds d d"
  by (simp add: only_adds_def)

lemma only_adds_trans:
  assumes "only_adds a b" and "only_adds b c"
  shows "only_adds a c"
proof -
  obtain ps1 vs1 rs1 where b: "policies b = policies a @ ps1" "\<forall>p \<in> set ps1. next_id a \<le> p_id p"
      "policy_versions b = policy_versions a @ vs1" "\<forall>v \<in> set vs1. next_id a \<le> pv_id v \<and> next_id a \<le> pv_policy_id v"
      "file_rules b = file_rules a @ rs1" "\<forall>r \<in> set rs1. next_id a \<le> fr_policy_version_id r"
    using assms(1) by (auto simp: only_adds_def)
  obtain ps2 vs2 rs2 where c: "policies c = policies b @ ps2" "\<forall>p \<in> set ps2. next_id b \<le> p_id p"
      "policy_versions c = policy_versions b @ vs2" "\<forall>v \<in> set vs2. next_id b \<le> pv_id v \<and> next_id b \<le> pv_policy_id v"
      "file_rules c = file_rules b @ rs2" "\<forall>r \<in> set rs2. next_id b \<le> fr_policy_version_id r"
    using assms(2) by (auto simp: only_adds_def)
  have le: "next_id a \<le> next_id b" using assms(1) by (simp add: only_adds_def)
  have "policies c = policies a @ (ps1 @ ps2)" "policy_versions c = policy_versions a @ (vs1 @ vs2)"
    "file_rules c = file_rules a @ (rs1 @ rs2)" using b c by simp_all
  moreover have "\<forall>p \<in> set (ps1 @ ps2). next_id a \<le> p_id p"
    "\<forall>v \<in> set (vs1 @ vs2). next_id a \<le> pv_id v \<and> next_id a \<le> pv_policy_id v"
    "\<forall>r \<in> set (rs1 @ rs2). next_id a \<le> fr_policy_version_id r"
    using b(2,4,6) c(2,4,6) le by (auto intro: order_trans)
  moreover have "group_policies c = group_policies a" "user_groups c = user_groups a" "next_id a \<le> next_id c"
    using assms by (auto simp: only_adds_def)
  ultimately show ?thesis unfolding only_adds_def by blast
qed

text \<open>The templates of the module are well-formed.\<close>

definition template_ok :: "template \<Rightarrow> bool" where
  "template_ok t \<longleftrightarrow> strip (tp_name t) = tp_name t \<and> policy_type_of_value (tp_policy_type t) \<noteq> None
     \<and> \<not> isl (build_file_rules (tp_file_rules t))"

lemma standard_policies_ok: "list_all template_ok STANDARD_POLICIES"
  by code_simp

lemma row_update_append: "row_update key k f (xs @ ys) = row_update key k f xs @ row_update key k f ys"
  by (simp add: row_update_def)

definition template_policy :: "uuid \<Rightarrow> instant \<Rightarrow> template \<Rightarrow> policy_type \<Rightarrow> uuid option \<Rightarrow> policy" where
  "template_policy i now t ty v = \<lparr> p_id = i, p_created_at = now, p_updated_at = now, p_name = tp_name t,
     p_policy_type = ty, p_description = opt_strip (Some (tp_description t)), p_current_version_id = v, p_archived_at = None \<rparr>"

lemma seed_template_outcome:
  assumes wf: "policy_wf d" and ok: "template_ok t" and free: "\<not> (\<exists>p \<in> set (policies d). p_name p = tp_name t)"
  shows "\<exists>e. seed_template now t d = (Inr (), e) \<and> policy_wf e \<and> only_adds d e \<and> system_states e = system_states d
    \<and> map p_name (policies e) = map p_name (policies d) @ [tp_name t]"
proof -
  obtain ty where ty: "policy_type_of_value (tp_policy_type t) = Some ty" using ok by (auto simp: template_ok_def)
  obtain built where built: "build_file_rules (tp_file_rules t) = Inr built"
    using ok by (cases "build_file_rules (tp_file_rules t)") (auto simp: template_ok_def)
  let ?n = "next_id d"
  let ?p = "template_policy ?n now t ty None"
  let ?d1 = "d\<lparr>next_id := Suc ?n, policies := row_insert ?p (policies d)\<rparr>"
  have p: "create_policy now (tp_name t) (tp_policy_type t) (Some (tp_description t)) d = (Inr ?p, ?d1)"
    using free ty ok by (auto simp: create_policy_def template_ok_def template_policy_def fresh_def Let_def)
  have wf1: "policy_wf ?d1" by (rule create_policy_wf [OF wf p])
  let ?v = "\<lparr> pv_id = Suc ?n, pv_created_at = now, pv_policy_id = ?n, pv_version_number = last_version_number ?n ?d1 + 1,
     pv_status = PV_DRAFT, pv_content = JObj (tp_content t), pv_created_by = None, pv_published_at = None \<rparr>"
  let ?d2 = "add_rules now (Suc ?n) built (?d1\<lparr>next_id := Suc (Suc ?n), policy_versions := row_insert ?v (policy_versions d)\<rparr>)"
  have v: "create_draft_version now ?p (JObj (tp_content t)) (tp_file_rules t) None ?d1 = (Inr ?v, ?d2)"
    using built by (simp add: create_draft_version_def fresh_def template_policy_def Let_def)
  have wf2: "policy_wf ?d2" by (rule create_draft_wf [OF wf1 v])
  obtain e where e: "publish_version now ?p ?v None ?d2 = (Inr (), e)"
    "e = record_security_event now EV_POLICY_PUBLISHED None None None
      (Some [(''policy_id'', JId ?n), (''policy_version_id'', JId (Suc ?n))])
      (set_policy now ?n (\<lambda>p. p\<lparr>p_current_version_id := Some (Suc ?n)\<rparr>)
        (set_version (Suc ?n) (\<lambda>v. v\<lparr>pv_status := PV_PUBLISHED, pv_published_at := Some now\<rparr>) ?d2))"
    by (simp add: publish_version_def supersede_current_def template_policy_def Let_def)
  have old: "\<forall>q \<in> set (policies d). p_id q \<noteq> ?n" "\<forall>w \<in> set (policy_versions d). pv_id w \<noteq> Suc ?n"
    using policy_wfD(5) [OF wf] by (fastforce simp: ids_fresh_def)+
  have rows: "row_get p_id (p_id ?p) (policies ?d2) = Some ?p" "row_get pv_id (pv_id ?v) (policy_versions ?d2) = Some ?v"
    using old by (auto simp: row_get_insert template_policy_def row_get_None split: option.split dest: row_get_SomeD)
  have wf3: "policy_wf e" by (rule publish_wf [OF wf2 rows e(1)])
  obtain rs where rs: "file_rules ?d2 = file_rules d @ rs" "\<forall>r \<in> set rs. fr_policy_version_id r = Suc ?n"
    using add_rules_file_rules [of now "Suc ?n" built "?d1\<lparr>next_id := Suc (Suc ?n), policy_versions := row_insert ?v (policy_versions d)\<rparr>"]
    by auto
  have id: "Suc (Suc ?n) \<le> next_id ?d2"
    using add_rules_next_id [of "?d1\<lparr>next_id := Suc (Suc ?n), policy_versions := row_insert ?v (policy_versions d)\<rparr>" now "Suc ?n" built]
    by simp
  have pol: "policies e = policies d @ [(?p\<lparr>p_current_version_id := Some (Suc ?n), p_updated_at := now\<rparr>)]"
    using old(1) by (simp add: e(2) row_insert_def row_update_append row_update_id) (simp add: row_update_def template_policy_def)
  have ver: "policy_versions e = policy_versions d @ [?v\<lparr>pv_status := PV_PUBLISHED, pv_published_at := Some now\<rparr>]"
    using old(2) by (simp add: e(2) row_insert_def row_update_append row_update_id set_version_def) (simp add: row_update_def)
  have "only_adds d e"
    unfolding only_adds_def pol ver using rs id by (auto simp: e(2) template_policy_def)
  moreover have "system_states e = system_states d"
    by (simp add: e(2) add_rules_states set_policy_def set_version_def)
  moreover have "seed_template now t d = (Inr (), e)" 
    by (simp only: seed_template_def p v e(1) prod.case sum.case)
  ultimately show ?thesis using wf3 pol by (auto simp: template_policy_def)
qed

section \<open>The loop\<close>

lemma seed_loop_outcome:
  assumes "policy_wf d" and "list_all template_ok ts"
  shows "\<exists>created skipped e. seed_loop now seeded ts d = (Inr (created, skipped), e) \<and> policy_wf e \<and> only_adds d e
    \<and> system_states e = system_states d
    \<and> (\<forall>t \<in> set ts. tp_name t \<in> set seeded \<or> tp_name t \<in> p_name ` set (policies e))
    \<and> p_name ` set (policies d) \<subseteq> p_name ` set (policies e)"
  using assms
proof (induction ts arbitrary: seeded d)
  case (Cons t ts)
  show ?case
  proof (cases "tp_name t \<in> set seeded")
    case True
    then show ?thesis using Cons.IH [OF Cons.prems(1)] Cons.prems(2) by simp
  next
    case new: False
    show ?thesis
    proof (cases "\<exists>p \<in> set (policies d). p_name p = tp_name t")
      case True
      obtain created skipped e where e: "seed_loop now (tp_name t # seeded) ts d = (Inr (created, skipped), e)"
        "policy_wf e" "only_adds d e" "system_states e = system_states d"
        "\<forall>u \<in> set ts. tp_name u \<in> set (tp_name t # seeded) \<or> tp_name u \<in> p_name ` set (policies e)"
        "p_name ` set (policies d) \<subseteq> p_name ` set (policies e)"
        using Cons.IH [OF Cons.prems(1), of "tp_name t # seeded"] Cons.prems(2) by auto
      moreover have "tp_name t \<in> p_name ` set (policies e)" using True e(6) by force
      ultimately show ?thesis using new True by auto
    next
      case False
      have ok: "template_ok t" "list_all template_ok ts" using Cons.prems(2) by simp_all
      obtain b where b: "seed_template now t d = (Inr (), b)" "policy_wf b" "only_adds d b" "system_states b = system_states d"
        "map p_name (policies b) = map p_name (policies d) @ [tp_name t]"
        using seed_template_outcome [OF Cons.prems(1) ok(1) False] by blast
      obtain created skipped e where e: "seed_loop now (tp_name t # seeded) ts b = (Inr (created, skipped), e)"
        "policy_wf e" "only_adds b e" "system_states e = system_states b"
        "\<forall>u \<in> set ts. tp_name u \<in> set (tp_name t # seeded) \<or> tp_name u \<in> p_name ` set (policies e)"
        "p_name ` set (policies b) \<subseteq> p_name ` set (policies e)"
        using Cons.IH [OF b(2) ok(2), of "tp_name t # seeded"] by auto
      have names: "p_name ` set (policies b) = insert (tp_name t) (p_name ` set (policies d))"
        using arg_cong [OF b(5), of set] by simp
      have "only_adds d e" by (rule only_adds_trans [OF b(3) e(3)])
      moreover have "seed_loop now seeded (t # ts) d = (Inr (tp_name t # created, skipped), e)"
        using new b(1) e(1) by (simp only: seed_loop.simps if_not_P [OF new] if_not_P [OF False]) simp
      ultimately show ?thesis using e b(4) names by auto
    qed
  qed
qed simp

text \<open>Templates all recorded: the loop passes over every one.\<close>

lemma seed_loop_idle: "\<forall>t \<in> set ts. tp_name t \<in> set seeded \<Longrightarrow> seed_loop now seeded ts d = (Inr ([], []), d)"
  by (induction ts) auto

text \<open>
  Seeding the standard policies always succeeds once the setup row exists, keeps the policy tables
  well-formed, leaves every template either recorded before or present as a policy of that name, and a
  second run finds nothing to do and changes nothing.
\<close>

theorem seeding_succeeds_once:
  assumes "policy_wf d" and "system_states d = Some state"
  shows "\<exists>created skipped e. seed_standard_policies now d = (Inr (created, skipped), e) \<and> policy_wf e
    \<and> (\<forall>t \<in> set STANDARD_POLICIES. tp_name t \<in> set (ss_seeded_policy_templates state) \<or> tp_name t \<in> p_name ` set (policies e))
    \<and> seed_standard_policies later e = (Inr ([], []), e)"
proof -
  let ?all = "ss_seeded_policy_templates state @ map tp_name STANDARD_POLICIES"
  let ?state = "state\<lparr>ss_seeded_policy_templates := sort (remdups ?all)\<rparr>"
  obtain created skipped b where b: "seed_loop now (ss_seeded_policy_templates state) STANDARD_POLICIES d = (Inr (created, skipped), b)"
    "policy_wf b" "\<forall>t \<in> set STANDARD_POLICIES. tp_name t \<in> set (ss_seeded_policy_templates state) \<or> tp_name t \<in> p_name ` set (policies b)"
    using seed_loop_outcome [OF assms(1) standard_policies_ok] by blast
  let ?e = "b\<lparr>system_states := Some ?state\<rparr>"
  have first: "seed_standard_policies now d = (Inr (created, skipped), ?e)"
    using assms(2) b(1) by (simp add: seed_standard_policies_def)
  have wf: "policy_wf ?e" by (rule policy_wf_cong [OF _ _ _ _ b(2)]) simp_all
  have "sort (remdups (sort (remdups ?all) @ map tp_name STANDARD_POLICIES)) = sort (remdups ?all)"
    by (rule sorted_distinct_set_unique) auto
  moreover have "seed_loop later (sort (remdups ?all)) STANDARD_POLICIES ?e = (Inr ([], []), ?e)"
    by (rule seed_loop_idle) simp
  ultimately have "seed_standard_policies later ?e = (Inr ([], []), ?e)"
    by (simp add: seed_standard_policies_def)
  then show ?thesis using first wf b(3) by auto
qed

section \<open>No decision changes\<close>

text \<open>The attachments that lead from a policy to a user; a policy attached to no group has none.\<close>

lemma join_only_adds:
  assumes "only_adds d e" and "\<forall>p. next_id d \<le> p_id p \<longrightarrow> f p = []"
  shows "concat (map f (policies e)) = concat (map f (policies d))"
proof -
  obtain ps where ps: "policies e = policies d @ ps" "\<forall>p \<in> set ps. next_id d \<le> p_id p"
    using assms(1) unfolding only_adds_def by blast
  then have "concat (map f ps) = []" using assms(2) by auto
  then show ?thesis using ps(1) by simp
qed

lemma versions_only_adds:
  assumes "only_adds d e" and "\<forall>v. next_id d \<le> pv_policy_id v \<longrightarrow> f v = []"
  shows "concat (map f (policy_versions e)) = concat (map f (policy_versions d))"
proof -
  obtain vs where vs: "policy_versions e = policy_versions d @ vs" "\<forall>v \<in> set vs. next_id d \<le> pv_policy_id v"
    using assms(1) unfolding only_adds_def by blast
  then have "concat (map f vs) = []" using assms(2) by auto
  then show ?thesis using vs(1) by simp
qed

lemma rules_only_adds:
  assumes "only_adds d e" and "\<forall>r. next_id d \<le> fr_policy_version_id r \<longrightarrow> f r = []"
  shows "concat (map f (file_rules e)) = concat (map f (file_rules d))"
proof -
  obtain rs where rs: "file_rules e = file_rules d @ rs" "\<forall>r \<in> set rs. next_id d \<le> fr_policy_version_id r"
    using assms(1) unfolding only_adds_def by blast
  then have "concat (map f rs) = []" using assms(2) by auto
  then show ?thesis using rs(1) by simp
qed

definition attached_below :: "database \<Rightarrow> bool" where
  "attached_below d \<longleftrightarrow> (\<forall>gp \<in> set (group_policies d). gp_policy_id gp < next_id d)"

lemma contents_unchanged:
  assumes "only_adds d e" and "attached_below d"
  shows "published_contents ty e u = published_contents ty d u"
proof -
  have same: "group_policies e = group_policies d" "user_groups e = user_groups d"
    using assms(1) by (simp_all add: only_adds_def)
  have below: "\<forall>gp \<in> set (group_policies d). \<forall>k. next_id d \<le> k \<longrightarrow> gp_policy_id gp \<noteq> k"
    using assms(2) by (auto simp: attached_below_def)
  show ?thesis
    unfolding published_contents_def same
    apply (subst versions_only_adds [OF assms(1)])
    subgoal using below by (auto simp: concat_eq_Nil_conv)
    apply (subst join_only_adds [OF assms(1)])
    subgoal using below by auto
    apply (rule refl)
    done
qed

lemma rules_unchanged:
  assumes "only_adds d e" and "attached_below d" and "ids_fresh d"
  shows "published_file_rules_for_user e u = published_file_rules_for_user d u"
proof -
  have same: "group_policies e = group_policies d" "user_groups e = user_groups d"
    using assms(1) by (simp_all add: only_adds_def)
  have below: "\<forall>gp \<in> set (group_policies d). \<forall>k. next_id d \<le> k \<longrightarrow> gp_policy_id gp \<noteq> k"
    using assms(2) by (auto simp: attached_below_def)
  show ?thesis
    unfolding published_file_rules_for_user_def same
    apply (subst versions_only_adds [OF assms(1)])
    subgoal using below by (auto simp: concat_eq_Nil_conv)
    apply (subst join_only_adds [OF assms(1)])
    subgoal using below by auto
    apply (subst rules_only_adds [OF assms(1)])
    subgoal using below assms(3) by (auto simp: ids_fresh_def)
    apply (rule refl)
    done
qed

lemma seed_or_skip_adds:
  assumes "policy_wf d"
  shows "only_adds d (seed_or_skip now d)"
proof (cases "system_states d")
  case (Some state)
  obtain created skipped e where "seed_loop now (ss_seeded_policy_templates state) STANDARD_POLICIES d = (Inr (created, skipped), e)"
    "only_adds d e"
    using seed_loop_outcome [OF assms standard_policies_ok] by blast
  then show ?thesis using Some by (simp add: seed_or_skip_def seed_standard_policies_def only_adds_def)
qed (simp add: seed_or_skip_def seed_standard_policies_def)

text \<open>
  Seeding decides nothing: whatever it adds, for every user the decision on every file, the
  clipboard mode and the screen resolution stay what they were, because the new policies are attached
  to no group.
\<close>

theorem seeding_changes_no_decision:
  assumes "policy_wf d" and "attached_below d"
  shows "evaluate_file_action bracket_ok (seed_or_skip now d) u dec = evaluate_file_action bracket_ok d u dec
    \<and> resolve_clipboard_policy (seed_or_skip now d) u = resolve_clipboard_policy d u
    \<and> resolve_session_resolution (seed_or_skip now d) u = resolve_session_resolution d u"
  using contents_unchanged [OF seed_or_skip_adds [OF assms(1)] assms(2)]
    rules_unchanged [OF seed_or_skip_adds [OF assms(1)] assms(2) policy_wfD(5) [OF assms(1)]]
  by (simp add: evaluate_file_action_def resolve_clipboard_policy_def resolve_session_resolution_def)

end
