(* ===== verification/Csrf.thy ===== *)
theory Csrf
  imports Config
begin

text \<open>
  The signed double-submit cookie of \<open>core/csrf.py\<close>: what the middleware lets through and when it sets
  a cookie. \<open>sign\<close> stands for HMAC-SHA256 in hexadecimal, with the message and the key.
\<close>

definition SAFE_METHODS :: "string set" where
  "SAFE_METHODS = {''GET'', ''HEAD'', ''OPTIONS''}"

definition make_csrf_token :: "(string \<Rightarrow> string \<Rightarrow> string) \<Rightarrow> string \<Rightarrow> string \<Rightarrow> string" where
  "make_csrf_token sign secret nonce = nonce @ ''.'' @ sign nonce secret"

text \<open>\<open>token.rsplit(".", 1)\<close>: split at the last dot, if there is one.\<close>

definition rsplit_dot :: "string \<Rightarrow> (string \<times> string) option" where
  "rsplit_dot s =
     (if CHR 0x2E \<in> set s then
        (let last_part = after_last (CHR 0x2E) s in Some (take (length s - length last_part - 1) s, last_part))
      else None)"

text \<open>
  \<open>hmac.compare_digest\<close> on text raises \<open>TypeError\<close> (\<open>None\<close>) when one side is not ASCII, and nothing
  catches it: the request ends with 500.
\<close>

definition is_ascii :: "string \<Rightarrow> bool" where
  "is_ascii s = list_all (\<lambda>c. code c < 128) s"

definition compare_digest :: "string \<Rightarrow> string \<Rightarrow> bool option" where
  "compare_digest a b = (if is_ascii a \<and> is_ascii b then Some (a = b) else None)"

definition csrf_token_valid :: "(string \<Rightarrow> string \<Rightarrow> string) \<Rightarrow> string \<Rightarrow> string \<Rightarrow> bool option" where
  "csrf_token_valid sign secret tok =
     (case rsplit_dot tok of
        None \<Rightarrow> Some False
      | Some (nonce, signature) \<Rightarrow>
          if nonce = [] \<or> signature = [] then Some False else compare_digest (sign nonce secret) signature)"

text \<open>A missing cookie or header is the empty string. The verdict: 403, 500, or passed on with the cookie to set.\<close>

datatype csrf_verdict = Csrf_rejected | Csrf_crashed | Passed "string option"

record http_request =
  rq_method :: string
  rq_cookie :: string
  rq_header :: string

definition csrf_check :: "(string \<Rightarrow> string \<Rightarrow> string) \<Rightarrow> string \<Rightarrow> http_request \<Rightarrow> bool option" where
  "csrf_check sign secret rq =
     (if rq_cookie rq = [] \<or> rq_header rq = [] then Some False
      else case compare_digest (rq_cookie rq) (rq_header rq) of
        Some True \<Rightarrow> csrf_token_valid sign secret (rq_cookie rq)
      | r \<Rightarrow> r)"

definition issue_cookie :: "(string \<Rightarrow> string \<Rightarrow> string) \<Rightarrow> string \<Rightarrow> string \<Rightarrow> http_request \<Rightarrow> csrf_verdict" where
  "issue_cookie sign secret nonce rq =
     (case (if rq_cookie rq = [] then Some False else csrf_token_valid sign secret (rq_cookie rq)) of
        None \<Rightarrow> Csrf_crashed
      | Some True \<Rightarrow> Passed None
      | Some False \<Rightarrow> Passed (Some (make_csrf_token sign secret nonce)))"

definition csrf_middleware :: "(string \<Rightarrow> string \<Rightarrow> string) \<Rightarrow> settings \<Rightarrow> string \<Rightarrow> http_request \<Rightarrow> csrf_verdict" where
  "csrf_middleware sign st nonce rq =
     (if rq_method rq \<in> SAFE_METHODS then issue_cookie sign (csrf_secret_key st) nonce rq
      else case csrf_check sign (csrf_secret_key st) rq of
        None \<Rightarrow> Csrf_crashed
      | Some False \<Rightarrow> Csrf_rejected
      | Some True \<Rightarrow> issue_cookie sign (csrf_secret_key st) nonce rq)"

definition csrf_cookie_value :: "settings \<Rightarrow> string \<Rightarrow> string" where
  "csrf_cookie_value st tok =
     ''csrf_token='' @ tok @ ''; Max-Age='' @ show_int (session_ttl st div 1000000) @ ''; Path=/; SameSite=Lax''
     @ (if environment st \<noteq> ''development'' then ''; Secure'' else [])"

lemma option_bool_cases: "(x = None \<Longrightarrow> P) \<Longrightarrow> (x = Some False \<Longrightarrow> P) \<Longrightarrow> (x = Some True \<Longrightarrow> P) \<Longrightarrow> P"
  by (cases x) auto

lemma after_last_append: "c \<notin> set b \<Longrightarrow> after_last c (a @ c # b) = b"
proof -
  assume "c \<notin> set b"
  then have "takeWhile (\<lambda>x. x \<noteq> c) (rev b @ c # rev a) = rev b" by (subst takeWhile_append2) auto
  then show ?thesis by (simp add: after_last_def)
qed

lemma rsplit_make: "CHR 0x2E \<notin> set sig \<Longrightarrow> rsplit_dot (nonce @ ''.'' @ sig) = Some (nonce, sig)"
  by (simp add: rsplit_dot_def after_last_append)

lemma rsplit_join: "rsplit_dot s = Some (a, b) \<Longrightarrow> s = a @ ''.'' @ b"
proof -
  assume h: "rsplit_dot s = Some (a, b)"
  then have "CHR 0x2E \<in> set s" by (auto simp: rsplit_dot_def split: if_splits)
  then obtain x y where s: "s = x @ CHR 0x2E # y" "CHR 0x2E \<notin> set y" using split_list_last by metis
  then show ?thesis using h by (simp add: rsplit_dot_def after_last_append)
qed

lemma token_valid_iff:
  assumes "\<And>n k. sign n k \<noteq> []" and "\<And>n k. CHR 0x2E \<notin> set (sign n k)" and "\<And>n k. is_ascii (sign n k)"
  shows "csrf_token_valid sign k t = Some True \<longleftrightarrow> (\<exists>n. n \<noteq> [] \<and> t = make_csrf_token sign k n)"
proof
  assume v: "csrf_token_valid sign k t = Some True"
  then obtain n sig where r: "rsplit_dot t = Some (n, sig)" by (auto simp: csrf_token_valid_def split: option.splits)
  then have "n \<noteq> []" "compare_digest (sign n k) sig = Some True" using v by (auto simp: csrf_token_valid_def split: if_splits)
  then have "n \<noteq> [] \<and> t = make_csrf_token sign k n"
    using rsplit_join [OF r] by (auto simp: make_csrf_token_def compare_digest_def split: if_splits)
  then show "\<exists>n. n \<noteq> [] \<and> t = make_csrf_token sign k n" by blast
next
  assume "\<exists>n. n \<noteq> [] \<and> t = make_csrf_token sign k n"
  then obtain n where n: "n \<noteq> []" "t = n @ ''.'' @ sign n k" by (auto simp: make_csrf_token_def)
  then have "rsplit_dot t = Some (n, sign n k)" using rsplit_make [OF assms(2)] by simp
  then show "csrf_token_valid sign k t = Some True"
    using n(1) assms(1,3) by (simp add: csrf_token_valid_def compare_digest_def)
qed

lemma csrf_check_iff:
  "csrf_check sign k rq = Some True \<longleftrightarrow>
     rq_cookie rq \<noteq> [] \<and> rq_header rq = rq_cookie rq \<and> is_ascii (rq_cookie rq) \<and> csrf_token_valid sign k (rq_cookie rq) = Some True"
  unfolding csrf_check_def compare_digest_def
  by (cases "rq_cookie rq = rq_header rq"; cases "is_ascii (rq_cookie rq)"; cases "is_ascii (rq_header rq)") simp_all

lemma csrf_passes_iff:
  assumes "rq_method rq \<notin> SAFE_METHODS"
  shows "(\<exists>c. csrf_middleware sign st n rq = Passed c) = (csrf_check sign (csrf_secret_key st) rq = Some True)"
proof (cases "csrf_check sign (csrf_secret_key st) rq" rule: option_bool_cases)
  case 3
  then have "issue_cookie sign (csrf_secret_key st) n rq = Passed None"
    by (simp add: csrf_check_iff issue_cookie_def)
  then show ?thesis using assms 3 by (simp add: csrf_middleware_def)
qed (use assms in \<open>simp_all add: csrf_middleware_def\<close>)

text \<open>
  A request that changes state is let through exactly when its header repeats its cookie and both are
  a nonce with the signature of that nonce under the configured key; so a value made without the key
  does not pass.
\<close>

theorem csrf_passes_signed_pairs_only:
  assumes "\<And>n k. sign n k \<noteq> []" and "\<And>n k. CHR 0x2E \<notin> set (sign n k)" and "\<And>n k. is_ascii (sign n k)"
    and "rq_method rq \<notin> SAFE_METHODS"
  shows "(\<exists>c. csrf_middleware sign st fresh_nonce rq = Passed c) =
    (rq_header rq = rq_cookie rq \<and> (\<exists>nonce. nonce \<noteq> [] \<and> is_ascii nonce
       \<and> rq_cookie rq = make_csrf_token sign (csrf_secret_key st) nonce))"
proof -
  have "is_ascii (make_csrf_token sign (csrf_secret_key st) n) = is_ascii n" for n
    using assms(3) by (simp add: make_csrf_token_def is_ascii_def code_def)
  moreover have "make_csrf_token sign (csrf_secret_key st) n \<noteq> []" for n by (simp add: make_csrf_token_def)
  ultimately show ?thesis
    unfolding csrf_passes_iff [OF assms(4)] csrf_check_iff token_valid_iff [OF assms(1-3)] by metis
qed

end
