(* ===== verification/Sample_Accounts.thy ===== *)
theory Sample_Accounts
  imports Account_Safety Directory_Logins Seeding Csrf Sample_Deployment
begin

text \<open>
  A Redis kept as an association list, a hash that can be read, a directory with one entry, and two
  accounts, on which the theorems about accounts are tried.
\<close>

section \<open>Redis, hashes and codes\<close>

type_synonym redis = "(string \<times> redis_value) list"

fun sample_incr :: "string \<Rightarrow> redis \<Rightarrow> int \<times> redis" where
  "sample_incr k w = (case map_of w k of Some (Failures n) \<Rightarrow> (n + 1, (k, Failures (n + 1)) # w) | _ \<Rightarrow> (1, (k, Failures 1) # w))"

definition sample_idp :: "redis idp" where
  "sample_idp =
     \<lparr> redis_read = (\<lambda>k w. map_of w k), redis_put = (\<lambda>k v _ w. (k, v) # w),
       redis_delete = (\<lambda>k w. filter (\<lambda>(j, _). j \<noteq> k) w),
       redis_scan = (\<lambda>p w. filter (\<lambda>k. startswith k p) (map fst w)),
       redis_incr = sample_incr, redis_expire = (\<lambda>_ _ w. w), redis_ttl = (\<lambda>_ _. 0),
       new_token = (\<lambda>_ w. (''fresh'', w)), random_base32 = (\<lambda>w. (''SECRET'', w)),
       random_choice = (\<lambda>_ w. (CHR ''A'', w)), argon2_hash = (\<lambda>p w. (''h:'' @ p, w)),
       argon2_verify = (\<lambda>p h. h = ''h:'' @ p), totp_verify = (\<lambda>_ c _. c = ''123456''),
       encrypt_text = (\<lambda>_. [1, 2, 3]), decrypt_text = (\<lambda>_. Some ''SECRET'') \<rparr>"

lemma map_of_filter_key: "map_of (filter (\<lambda>(j, _). j \<noteq> k) w) j = (if j = k then None else map_of w j)"
  by (induction w) auto

lemma sample_redis_laws: "redis_laws sample_idp"
proof -
  have "k \<in> fst ` set w" if "map_of w k = Some v" for w :: redis and k v
    using that by (force dest: map_of_SomeD)
  then show ?thesis
    by (auto simp: redis_laws_def sample_idp_def map_of_filter_key split: option.splits redis_value.splits)
qed

section \<open>The directory\<close>

definition sample_directory :: "'w directory" where
  "sample_directory =
     \<lparr> ldap_initialize = (\<lambda>_ w. (Inr 1, w)), ldap_start_tls = (\<lambda>_ w. (Inr (), w)),
       ldap_bind = (\<lambda>_ _ pw w. (if pw = ''secret'' then Inr () else Inl (Ldap_error Invalid_credentials []), w)),
       ldap_search = (\<lambda>_ _ _ _ _ w. (Inr [(Some ''uid=bob'', [(''memberOf'', [''cn=admins''])])], w)),
       ldap_unbind = (\<lambda>_ w. (Inr (), w)), escape_filter = (\<lambda>t. t), str2dn = (\<lambda>_. None) \<rparr>"

lemma sample_directory_quiet: "directory_quiet I sample_directory"
  by (simp add: directory_quiet_def sample_directory_def)

definition directory_settings :: settings where
  "directory_settings = sample_settings
     \<lparr>ldap_enabled := True, ldap_server_uri := ''ldaps://dc'', ldap_use_starttls := False, ldap_bind_dn := ''cn=svc'',
      ldap_bind_password := ''secret'', ldap_base_dn := ''dc=x'', ldap_user_search_filter := ''(uid={username})'',
      ldap_group_attribute := ''memberOf'', ldap_group_role_mapping := [(''CN=Admins'', ''ADMIN'')]\<rparr>"

section \<open>Accounts\<close>

definition sample_role :: "uuid \<Rightarrow> string \<Rightarrow> role" where
  "sample_role i n = \<lparr> r_id = i, r_created_at = 0, r_name = n, r_description = None \<rparr>"

definition alice :: user where
  "alice = (new_user 7 0 ''alice'' (Some ''h:correct horse'') 1)
     \<lparr>u_mfa_enabled := True, u_totp_secret_encrypted := Some [1, 2, 3]\<rparr>"

definition bob :: user where
  "bob = new_user 8 0 ''bob'' None 2"

definition sample_code :: "uuid \<Rightarrow> string \<Rightarrow> recovery_code" where
  "sample_code i t = \<lparr> rc_id = i, rc_created_at = 0, rc_user_id = 7, rc_code_hash = ''h:'' @ t, rc_used_at = None \<rparr>"

definition accounts_db :: database where
  "accounts_db = (sample_db NE_APPROVED SS_ACTIVE)
     \<lparr>roles := [sample_role 1 ''ADMIN'', sample_role 2 ''USER''], users := [alice, bob],
      recovery_codes := [sample_code 51 ''AAAAA'', sample_code 52 ''BBBBB''],
      system_states := Some (fresh_state\<lparr>ss_initialized := True\<rparr>)\<rparr>"

definition accounts_sys :: "redis \<Rightarrow> redis sys" where
  "accounts_sys w = \<lparr> db = accounts_db, world = w, polling = [], active_connections = [] \<rparr>"

lemmas account_defs = sample_idp_def sample_directory_def directory_settings_def sample_role_def alice_def bob_def
  sample_code_def accounts_db_def accounts_sys_def new_user_def

lemma accounts_sys_simps [simp]: "db (accounts_sys w) = accounts_db" "world (accounts_sys w) = w"
  by (simp_all add: accounts_sys_def)

lemma accounts_users [simp]:
  "row_get u_id 7 (users accounts_db) = Some alice" "row_get u_id 8 (users accounts_db) = Some bob"
  "row_get u_username ''alice'' (users accounts_db) = Some alice" "row_get u_username ''bob'' (users accounts_db) = Some bob"
  by (simp_all add: account_defs row_get_def)

lemma accounts_distinct [simp]:
  "distinct_keys u_id (users accounts_db)" "distinct_keys r_id (roles accounts_db)" "distinct_keys rc_id (recovery_codes accounts_db)"
  by (simp_all add: account_defs distinct_keys_def)

lemma accounts_roles [simp]: "role_name_of accounts_db alice = Some ''ADMIN''" "role_name_of accounts_db bob = Some ''USER''"
  by (simp_all add: account_defs role_name_of_def row_get_def)

lemma accounts_safe: "list_all (\<lambda>(_, v). case v of Login _ _ \<Rightarrow> False | _ \<Rightarrow> True) w \<Longrightarrow> safe sample_idp (accounts_sys w)"
proof -
  assume h: "list_all (\<lambda>(_, v). case v of Login _ _ \<Rightarrow> False | _ \<Rightarrow> True) w"
  have "logged_in sample_idp w tok = None" for tok
  proof -
    have "map_of w k \<noteq> Some (Login u r)" for k u r
      using h by (fastforce simp: list_all_iff dest: map_of_SomeD)
    then show ?thesis by (simp add: logged_in_def sample_idp_def split: option.split redis_value.split)
  qed
  then show ?thesis
    by (simp add: safe_def guarded_def accounts_wf_def distinct_keys_def)
      (simp add: account_defs sample_db_def empty_db_def)
qed

lemma directory_off: "get_effective_ldap_config sample_idp sample_settings accounts_db = Inr None"
  by (simp add: get_effective_ldap_config_def account_defs sample_defs)

lemma directory_on:
  "get_effective_ldap_config sample_idp directory_settings accounts_db = Inr (Some (config_from_settings directory_settings))"
  by (simp add: get_effective_ldap_config_def account_defs sample_defs)

end
