(* ===== verification/Account_Runs.thy ===== *)
theory Account_Runs
  imports Sample_Accounts
begin

text \<open>The theorems about accounts, applied: every hypothesis holds on the sample accounts.\<close>

section \<open>A login with a second factor\<close>

definition challenge_world :: redis where
  "challenge_world = [(''mfa_pending:ch'', Pending 7 0)]"

definition verified :: "redis sys" where
  "verified = snd (mfa_verify sample_idp sample_settings 9 ''ch'' ''123456'' (accounts_sys challenge_world))"

lemma verified_run: "account_run sample_idp sample_directory sample_settings (accounts_sys challenge_world) verified"
  unfolding verified_def by (rule account_run_step [OF account_run_refl account_step.mfa_verify])

lemma challenge_safe: "safe sample_idp (accounts_sys challenge_world)"
  by (rule accounts_safe) (simp add: challenge_world_def)

lemma alice_code: "verify_login_factor sample_idp 9 alice ''123456'' accounts_db = (True, accounts_db)"
  by (simp add: verify_login_factor_def verify_code_def alice_def new_user_def) (simp add: sample_idp_def verify_code_def)

lemma challenge_pending: "get_mfa_pending sample_idp ''ch'' challenge_world = Some (7, 0)"
  by (simp add: get_mfa_pending_def challenge_world_def prefixes sample_idp_def)

lemma alice_fields [simp]:
  "u_id alice = 7" "u_is_active alice" "u_mfa_enabled alice" "u_password_hash alice = Some ''h:correct horse''"
  by (simp_all add: alice_def new_user_def)

lemma bob_fields [simp]:
  "u_id bob = 8" "u_is_active bob" "\<not> u_mfa_enabled bob" "u_password_hash bob = None" "u_username bob = ''bob''"
  by (simp_all add: bob_def new_user_def)

lemma verified_state:
  "db verified = record_security_event 9 EV_USER_LOGIN (Some 7) None None None accounts_db"
  "get_login_session sample_idp ''fresh'' (world verified) = Some (7, ''ADMIN'')"
  by (simp_all add: verified_def mfa_verify_def challenge_pending alice_code log_in_def with_world_def
      create_login_session_def delete_mfa_pending_def get_login_session_def Let_def)
    (simp_all add: sample_idp_def)

lemma role_name_of_event: "role_name_of (record_security_event now e u x q m d) y = role_name_of d y"
  by (simp add: role_name_of_def)

lemma admin_let_in: "require_role sample_idp [''ADMIN'', ''SECURITY_REVIEWER''] (Some ''fresh'') verified = Inr alice"
  by (simp add: require_role_def get_current_user_def verified_state role_name_of_event)

lemma second_factor_witness: "u_mfa_enabled alice"
  by (rule second_factor_is_enforced [OF verified_run sample_redis_laws challenge_safe admin_let_in])

lemma admin_remains_witness: "active_admins (db verified) \<noteq> []"
  by (rule an_active_admin_remains [OF verified_run sample_redis_laws challenge_safe])
    (simp_all add: active_admins_iff, simp add: account_defs role_name_of_def row_get_def)

lemma setup_once_witness:
  "confirm_mfa sample_idp sample_settings 9 ''ch'' ''123456'' verified = (Inl (409, ''system already initialized''), verified)"
proof -
  have "ss_initialized (current_state (db (accounts_sys challenge_world)))"
    by (simp add: account_defs current_state_def)
  from setup_happens_once [OF verified_run sample_redis_laws this, where mtok = "''ch''" and ct = "''123456''" and now = 9]
  show ?thesis by simp
qed

section \<open>Guesses\<close>

lemma alice_wrong:
  "failures_are sample_idp ''alice'' n (world s) \<Longrightarrow> n < 10 \<Longrightarrow> db s = accounts_db \<or> users (db s) = users accounts_db \<Longrightarrow>
   fst (login sample_idp sample_directory sample_settings 9 ''alice'' ''guess'' s) = Inl wrong_credentials
   \<and> users (db (snd (login sample_idp sample_directory sample_settings 9 ''alice'' ''guess'' s))) = users accounts_db"
  by (auto simp: failures_are_def login_def is_login_locked_def LOGIN_FAILURE_MAX_ATTEMPTS_def identify_def local_authenticate_def
      login_failed_def Let_def)
    (simp_all add: account_defs row_get_def)

definition guesses :: "(instant \<times> string \<times> string) list" where
  "guesses = [(9, ''alice'', ''guess''), (9, ''alice'', ''guess'')]"


lemma challenge_witness:
  "mfa_verify sample_idp sample_settings 9 ''ch'' ''123456''
     (snd (challenges sample_idp sample_settings ''ch'' (replicate 5 (9, ''000000'')) (accounts_sys challenge_world)))
   = (Inl invalid_challenge, snd (challenges sample_idp sample_settings ''ch'' (replicate 5 (9, ''000000'')) (accounts_sys challenge_world)))"
  by (rule mfa_challenge_is_bounded [OF sample_redis_laws prod.collapse [symmetric]]) simp

lemma recovery_witness:
  "Suc (unused_codes 7 (snd (redeem_recovery_code sample_idp 9 alice ''AAAAA'' accounts_db))) = unused_codes 7 accounts_db"
  using recovery_codes_are_single_use [OF accounts_distinct(3), of alice sample_idp "''AAAAA''" 9]
  by (auto simp: account_defs split: if_splits)

lemma local_password_witness:
  "login sample_idp sample_directory directory_settings 9 ''alice'' ''guess'' (accounts_sys [])
   = login sample_idp (sample_directory\<lparr>ldap_bind := (\<lambda>_ _ _ w. (Inr (), w))\<rparr>) directory_settings 9 ''alice'' ''guess'' (accounts_sys [])"
  using local_password_is_authoritative [of "''alice''" "accounts_sys []" alice "''h:correct horse''"]
  by (simp add: alice_def new_user_def)

section \<open>The directory\<close>

lemma bob_search:
  "search_user sample_directory (config_from_settings directory_settings) ''bob'' w
   = (Inr (Some [(Some ''uid=bob'', [(''memberOf'', [''cn=admins''])])]), w)"
proof -
  have "format_username ''bob'' ''(uid={username})'' = Some ''(uid=bob)''" by code_simp
  moreover have "lc_user_search_filter (config_from_settings directory_settings) = ''(uid={username})''"
    "lc_server_uri (config_from_settings directory_settings) = ''ldaps://dc''"
    "lc_bind_password (config_from_settings directory_settings) = ''secret''"
    by (simp_all add: config_from_settings_def directory_settings_def)
  ultimately show ?thesis
    by (simp add: search_user_def new_ldap_connection_def startswith_def sample_directory_def)
qed

lemma bob_bind:
  "ldap_authenticate sample_directory (config_from_settings directory_settings) ''bob'' ''secret'' w = (Inr (Some [''cn=admins'']), w)"
proof -
  have "lc_server_uri (config_from_settings directory_settings) = ''ldaps://dc''"
    "lc_group_attribute (config_from_settings directory_settings) = ''memberOf''"
    by (simp_all add: config_from_settings_def directory_settings_def)
  then show ?thesis
    unfolding ldap_authenticate_def bob_search
    by (simp add: real_entries_def bind_as_user_def new_ldap_connection_def startswith_def attribute_values_def sample_directory_def)
qed

lemma ldap_login_witness:
  "\<exists>w1 h w2 w3. new_ldap_connection (sample_directory :: unit directory) (config_from_settings directory_settings) w1 = (Inr h, w2)
    \<and> ldap_bind sample_directory h ''uid=bob'' ''secret'' w2 = (Inr (), w3)"
proof -
  have one: "real_entries rs = [(dn, attrs)] \<Longrightarrow> rs = [(Some ''uid=bob'', x)] \<Longrightarrow> dn = ''uid=bob''" for rs dn attrs x
    by (simp add: real_entries_def)
  show ?thesis
    using ldap_login_needs_the_password [OF bob_bind [of "()"]] by (auto simp: bob_search dest!: one [OF _ refl])
qed

definition bob_world :: redis where
  "bob_world = [(''session:old'', Login 8 ''USER'')]"

lemma bob_mapped:
  "some_group_gives sample_directory [''cn=admins''] (get_effective_group_role_mapping directory_settings accounts_db) ''ADMIN''"
proof -
  have "lower (strip ''CN=Admins'') = lower (strip ''cn=admins'')" by code_simp
  then show ?thesis
    by (simp add: some_group_gives_def get_effective_group_role_mapping_def dns_equal_def normalize_dn_def)
      (simp add: account_defs sample_defs dns_equal_def normalize_dn_def)
qed

lemma promotion_witness:
  "\<exists>y. require_role sample_idp [''ADMIN''] (Some ''old'')
     (snd (login sample_idp sample_directory directory_settings 9 ''bob'' ''secret'' (accounts_sys bob_world))) = Inr y
   \<and> \<not> u_mfa_enabled y"
proof -
  have session: "get_login_session sample_idp ''old'' (world (accounts_sys bob_world)) = Some (u_id bob, ''USER'')"
    by (simp add: get_login_session_def prefixes bob_world_def sample_idp_def bob_def new_user_def)
  have roles: "row_get r_name ''ADMIN'' (roles (db (accounts_sys bob_world))) = Some (sample_role 1 ''ADMIN'')"
    "row_get r_id (r_id (sample_role 1 ''ADMIN'')) (roles (db (accounts_sys bob_world))) = Some (sample_role 1 ''ADMIN'')"
    by (simp_all add: account_defs row_get_def)
  have "\<not> is_login_locked sample_idp ''bob'' (world (accounts_sys bob_world))"
    by (simp add: is_login_locked_def prefixes bob_world_def sample_idp_def)
  note directory_promotion_skips_second_factor [OF sample_redis_laws sample_directory_quiet this _ _ _ _ _ _ roles session _ bob_bind _
      prod.collapse [symmetric], where st = directory_settings and now = 9]
  then show ?thesis using directory_on bob_mapped by auto
qed

definition upper_fields :: ldap_fields where
  "upper_fields = \<lparr> lf_server_uri = ''LDAP://dc'', lf_use_starttls = True, lf_bind_dn = ''cn=svc'', lf_base_dn = ''dc=x'',
     lf_user_search_filter = ''(uid={username})'', lf_group_attribute = ''memberOf'' \<rparr>"

lemma upper_valid: "validate_ldap_fields upper_fields = Some upper_fields"
  by code_simp

lemma transport_witness:
  "new_ldap_connection sample_directory (config_from_fields upper_fields ''secret'') () = ldap_initialize sample_directory ''LDAP://dc'' ()"
proof -
  have "\<not> startswith (lower ''LDAP://dc'') ''ldaps://''" "\<not> startswith ''LDAP://dc'' ''ldap://''" by code_simp+
  with accepted_directory_transport [OF upper_valid, of sample_directory "''secret''" "()"]
  show ?thesis by (simp add: upper_fields_def)
qed

definition refusing_directory :: "'w directory" where
  "refusing_directory = sample_directory\<lparr>ldap_bind := (\<lambda>_ _ _ w. (Inl (Ldap_error Invalid_credentials []), w))\<rparr>"

lemma refused:
  "isl (fst (update_config sample_idp refusing_directory 9 7 upper_fields True (Some ''secret'') [] (accounts_sys [])))"
proof -
  have c: "lc_server_uri (config_from_fields upper_fields ''secret'') = ''LDAP://dc''" "\<not> startswith ''LDAP://dc'' ''ldap://''"
    by (simp_all add: config_from_fields_def upper_fields_def startswith_def)
  show ?thesis
    by (simp add: update_config_def upper_valid effective_password_def truthy_def with_world_def test_connection_def
        new_ldap_connection_def c) (simp add: refusing_directory_def sample_directory_def Let_def)
qed

lemma activation_witness:
  "db (snd (update_config sample_idp refusing_directory 9 7 upper_fields True (Some ''secret'') [] (accounts_sys []))) = accounts_db"
  using directory_activated_after_test [OF prod.collapse [symmetric], of sample_idp refusing_directory 9 7 upper_fields
      "Some ''secret''" "[]" "accounts_sys []"] refused by simp

section \<open>Seeding\<close>

lemma accounts_policy_wf: "policy_wf accounts_db"
  by (simp add: accounts_db_def policy_wf_def policy_parts sample_defs distinct_keys_def)

lemma seeding_witness:
  "\<exists>created skipped e. seed_standard_policies 9 accounts_db = (Inr (created, skipped), e) \<and> seed_standard_policies 10 e = (Inr ([], []), e)"
  using seeding_succeeds_once [OF accounts_policy_wf, of "fresh_state\<lparr>ss_initialized := True\<rparr>" 9 10] by (auto simp: accounts_db_def)

lemma no_decision_witness:
  "resolve_clipboard_policy (seed_or_skip 9 accounts_db) 7 = resolve_clipboard_policy accounts_db 7"
proof -
  have "attached_below accounts_db" by (simp add: attached_below_def accounts_db_def sample_db_def)
  from seeding_changes_no_decision [OF accounts_policy_wf this] show ?thesis by simp
qed

section \<open>CSRF\<close>

lemma csrf_witness:
  "\<exists>c. csrf_middleware (\<lambda>_ _. ''5f'') sample_settings ''n'' \<lparr> rq_method = ''POST'', rq_cookie = ''n.5f'', rq_header = ''n.5f'' \<rparr> = Passed c"
proof -
  have "(\<exists>c. csrf_middleware (\<lambda>_ _. ''5f'') sample_settings ''n'' \<lparr> rq_method = ''POST'', rq_cookie = ''n.5f'', rq_header = ''n.5f'' \<rparr> = Passed c)
     = (rq_header \<lparr> rq_method = ''POST'', rq_cookie = ''n.5f'', rq_header = ''n.5f'' \<rparr> = rq_cookie \<lparr> rq_method = ''POST'', rq_cookie = ''n.5f'', rq_header = ''n.5f'' \<rparr>
      \<and> (\<exists>nonce. nonce \<noteq> [] \<and> is_ascii nonce \<and> rq_cookie \<lparr> rq_method = ''POST'', rq_cookie = ''n.5f'', rq_header = ''n.5f'' \<rparr>
         = make_csrf_token (\<lambda>_ _. ''5f'') (csrf_secret_key sample_settings) nonce))"
    by (rule csrf_passes_signed_pairs_only) (simp_all add: SAFE_METHODS_def is_ascii_def code_def)
  moreover have "is_ascii ''n''" by (simp add: is_ascii_def code_def)
  ultimately show ?thesis by (auto simp: make_csrf_token_def intro!: exI [of _ "''n''"])
qed

end
