(* ===== verification/Node_Agent.thy ===== *)
theory Node_Agent
  imports Csrf Agent_Client
begin

text \<open>
  The Session Agent of a node, first part: its settings and their validators (\<open>session-agent/app/config.py\<close>),
  the credential scopes (\<open>app/auth.py\<close>) and the capacity it reports (\<open>app/main.py\<close>). Floating-point
  readings are rationals, so the rounding of floats is not modelled.
\<close>

section \<open>Settings\<close>

record agent_settings =
  ag_environment :: string
  ag_api_token :: string
  ag_api_token_user :: string
  ag_api_token_admin :: string
  ag_node_name :: string
  ag_sandbox_image :: string
  ag_sandbox_command :: "string list option"
  ag_capacity :: "int option"
  ag_reserved_ram_mb :: int
  ag_capacity_recovery_polls :: int
  ag_sandbox_network_name :: string
  ag_enrollment_token :: string
  ag_control_plane_url :: string
  ag_default_cpu_limit :: rat
  ag_default_ram_limit_mb :: int
  ag_default_pid_limit :: int
  ag_default_disk_limit_mb :: int
  ag_default_screen_width :: int
  ag_default_screen_height :: int

definition default_agent_settings :: agent_settings where
  "default_agent_settings =
     \<lparr> ag_environment = ''development'', ag_api_token = [], ag_api_token_user = [], ag_api_token_admin = [],
       ag_node_name = ''default-node'', ag_sandbox_image = ''openrbi-browser:latest'', ag_sandbox_command = None,
       ag_capacity = None, ag_reserved_ram_mb = 512, ag_capacity_recovery_polls = 3,
       ag_sandbox_network_name = ''openrbi_browser-plane'', ag_enrollment_token = [],
       ag_control_plane_url = ''http://backend:8000'', ag_default_cpu_limit = 2, ag_default_ram_limit_mb = 2048,
       ag_default_pid_limit = 512, ag_default_disk_limit_mb = 2048, ag_default_screen_width = 1280,
       ag_default_screen_height = 800 \<rparr>"

definition AGENT_PLACEHOLDER_SECRET :: string where
  "AGENT_PLACEHOLDER_SECRET = ''changeme-generate-a-strong-secret''"

datatype agent_config_error = Placeholder_tokens "string list" | No_usable_credential

definition placeholder_tokens :: "agent_settings \<Rightarrow> string list" where
  "placeholder_tokens st =
     map fst (filter (\<lambda>(_, v). v = AGENT_PLACEHOLDER_SECRET)
       [(''api_token'', ag_api_token st), (''api_token_user'', ag_api_token_user st), (''api_token_admin'', ag_api_token_admin st)])"

definition at_least_one_complete_credential_set :: "agent_settings \<Rightarrow> bool" where
  "at_least_one_complete_credential_set st =
     (ag_api_token st \<noteq> [] \<or> ag_api_token_user st \<noteq> [] \<and> ag_api_token_admin st \<noteq> [])"

text \<open>Every field is checked; the check across fields runs only if they all passed.\<close>

definition validate_agent_settings :: "agent_settings \<Rightarrow> agent_config_error + agent_settings" where
  "validate_agent_settings st =
     (if placeholder_tokens st \<noteq> [] then Inl (Placeholder_tokens (placeholder_tokens st))
      else if \<not> at_least_one_complete_credential_set st then Inl No_usable_credential
      else Inr st)"

section \<open>Credential scopes\<close>

datatype scope = User_scope | Admin_scope

definition token_matches :: "string \<Rightarrow> string \<Rightarrow> bool option" where
  "token_matches presented candidate = (if candidate = [] then Some False else compare_digest presented candidate)"

text \<open>
  \<open>_matches(...) or _matches(...)\<close> stops at a match; \<open>None\<close> is the \<open>TypeError\<close> of \<open>compare_digest\<close>, which
  ends the request with 500.
\<close>

definition full_access :: "agent_settings \<Rightarrow> string \<Rightarrow> bool option" where
  "full_access st presented =
     (case token_matches presented (ag_api_token st) of
        Some False \<Rightarrow> token_matches presented (ag_api_token_admin st)
      | r \<Rightarrow> r)"

definition authorized :: "agent_settings \<Rightarrow> scope \<Rightarrow> string \<Rightarrow> bool option" where
  "authorized st required presented =
     (case full_access st presented of
        None \<Rightarrow> None
      | Some full \<Rightarrow>
          (case token_matches presented (ag_api_token_user st) of
             None \<Rightarrow> None
           | Some is_user \<Rightarrow> Some (full \<or> required = User_scope \<and> is_user)))"

text \<open>
  A handler answers with a body or an \<open>HTTPException\<close>: its status and detail. The dependency runs before
  the handler.
\<close>

type_synonym ('a, 'w) handler = "'w \<Rightarrow> (http_error + 'a) \<times> 'w"

definition require_scope :: "agent_settings \<Rightarrow> scope \<Rightarrow> string \<Rightarrow> ('a, 'w) handler \<Rightarrow> ('a, 'w) handler" where
  "require_scope st required presented call w =
     (case authorized st required presented of
        None \<Rightarrow> (Inl (500, ''Internal Server Error''), w)
      | Some False \<Rightarrow> (Inl (401, ''invalid agent token''), w)
      | Some True \<Rightarrow> call w)"

section \<open>Capacity\<close>

text \<open>The readings of the host: CPU load in per cent over all cores, cores, memory in bytes.\<close>

record host_reading =
  hr_cpu_percent :: rat
  hr_cpu_count :: int
  hr_memory_total :: int
  hr_memory_available :: int

definition mb :: "int \<Rightarrow> rat" where
  "mb n = of_int n / 1048576"

record capacity_breakdown =
  cb_capacity :: int
  cb_ram_capacity :: int
  cb_cpu_capacity :: int
  cb_bound :: string

text \<open>\<open>max(0, int(x // y))\<close>; division by zero raises (\<open>None\<close>).\<close>

definition slots :: "rat \<Rightarrow> rat \<Rightarrow> int option" where
  "slots free unit_size = (if unit_size = 0 then None else Some (max 0 \<lfloor>free / unit_size\<rfloor>))"

definition compute_capacity :: "agent_settings \<Rightarrow> host_reading \<Rightarrow> int \<Rightarrow> capacity_breakdown option" where
  "compute_capacity st h active_sessions =
     (let used_ram = mb (hr_memory_total h) - mb (hr_memory_available h);
          free_ram = mb (hr_memory_total h) - of_int (ag_reserved_ram_mb st) - used_ram;
          free_cpu = max 0 (of_int (hr_cpu_count h) * (100 - hr_cpu_percent h))
      in case slots free_ram (of_int (ag_default_ram_limit_mb st)) of
           None \<Rightarrow> None
         | Some ram_slots \<Rightarrow>
        (case slots free_cpu (ag_default_cpu_limit st * 100) of
           None \<Rightarrow> None
         | Some cpu_slots \<Rightarrow>
             (let ram = ram_slots + active_sessions; cpu = cpu_slots + active_sessions;
                  bound = (if ram \<le> cpu then ''ram'' else ''cpu'');
                  both = min ram cpu
              in case ag_capacity st of
                   Some cap \<Rightarrow>
                     if cap < both
                     then Some \<lparr> cb_capacity = cap, cb_ram_capacity = ram, cb_cpu_capacity = cpu, cb_bound = ''ceiling'' \<rparr>
                     else Some \<lparr> cb_capacity = both, cb_ram_capacity = ram, cb_cpu_capacity = cpu, cb_bound = bound \<rparr>
                 | None \<Rightarrow> Some \<lparr> cb_capacity = both, cb_ram_capacity = ram, cb_cpu_capacity = cpu, cb_bound = bound \<rparr>)))"

section \<open>Hysteresis\<close>

record hysteresis =
  hy_last_reported :: "int option"
  hy_recovery_streak :: int

definition new_hysteresis :: hysteresis where
  "new_hysteresis = \<lparr> hy_last_reported = None, hy_recovery_streak = 0 \<rparr>"

definition apply_hysteresis :: "int \<Rightarrow> int \<Rightarrow> hysteresis \<Rightarrow> int \<times> hysteresis" where
  "apply_hysteresis recovery_polls raw h =
     (case hy_last_reported h of
        None \<Rightarrow> (raw, \<lparr> hy_last_reported = Some raw, hy_recovery_streak = 0 \<rparr>)
      | Some prev \<Rightarrow>
          if raw \<le> prev then (raw, \<lparr> hy_last_reported = Some raw, hy_recovery_streak = 0 \<rparr>)
          else if hy_recovery_streak h + 1 \<ge> recovery_polls
          then (raw, \<lparr> hy_last_reported = Some raw, hy_recovery_streak = 0 \<rparr>)
          else (prev, h\<lparr>hy_recovery_streak := hy_recovery_streak h + 1\<rparr>))"

fun reported :: "int \<Rightarrow> hysteresis \<Rightarrow> int list \<Rightarrow> int list" where
  "reported polls h [] = []"
| "reported polls h (raw # raws) = (let (c, h) = apply_hysteresis polls raw h in c # reported polls h raws)"

section \<open>What the scopes admit\<close>

text \<open>
  Who the agent lets in, for credentials in ASCII: with an accepted configuration an admin route takes
  exactly the shared and the admin token, a user route those and the user token, and an empty or
  missing token is never taken.
\<close>

theorem agent_scopes:
  assumes "validate_agent_settings st = Inr st'" and "is_ascii presented"
    and "list_all is_ascii [ag_api_token st, ag_api_token_user st, ag_api_token_admin st]"
  shows "authorized st required presented = Some (presented \<noteq> [] \<and>
      (presented = ag_api_token st \<or> presented = ag_api_token_admin st
       \<or> required = User_scope \<and> presented = ag_api_token_user st))
    \<and> (\<exists>t. authorized st required t = Some True)"
proof -
  have m: "token_matches p c = Some (p \<noteq> [] \<and> p = c)" if "is_ascii p" "is_ascii c" for p c
    using that by (auto simp: token_matches_def compare_digest_def)
  have iff: "authorized st required p = Some (p \<noteq> [] \<and> (p = ag_api_token st \<or> p = ag_api_token_admin st
       \<or> required = User_scope \<and> p = ag_api_token_user st))" if "is_ascii p" for p
    using that assms(3) by (auto simp: authorized_def full_access_def m split: option.split bool.split)
  have "ag_api_token st \<noteq> [] \<or> ag_api_token_admin st \<noteq> []"
    using assms(1) by (auto simp: validate_agent_settings_def at_least_one_complete_credential_set_def split: if_splits)
  then have "\<exists>t. authorized st required t = Some True"
    using iff assms(3) by fastforce
  then show ?thesis using iff [OF assms(2)] by blast
qed

section \<open>What is reported is there\<close>

lemma slots_room:
  assumes "slots free unit_size = Some n" and "0 < unit_size"
  shows "0 \<le> n" and "k \<le> n \<Longrightarrow> 0 < k \<Longrightarrow> of_int k * unit_size \<le> free"
proof -
  have n: "n = max 0 \<lfloor>free / unit_size\<rfloor>" using assms by (simp add: slots_def)
  then show "0 \<le> n" by simp
  assume "k \<le> n" "0 < k"
  then have "k \<le> \<lfloor>free / unit_size\<rfloor>" using n by linarith
  then have "of_int k \<le> free / unit_size" by (simp add: le_floor_iff)
  then show "of_int k * unit_size \<le> free" using assms(2) by (simp add: pos_le_divide_eq)
qed

text \<open>
  C31. A free slot is real: when the capacity computed for a node exceeds its running sessions by k, the
  memory available beyond the reserve and the idle CPU share hold k more sandboxes at their
  configured limits; and an administrator's ceiling is never exceeded.
\<close>

theorem free_slots_have_room:
  assumes "compute_capacity st h active = Some b" and "0 < ag_default_ram_limit_mb st" and "0 < ag_default_cpu_limit st"
    and "0 < k" and "active + k \<le> cb_capacity b"
  shows "of_int (k * ag_default_ram_limit_mb st) \<le> mb (hr_memory_available h) - of_int (ag_reserved_ram_mb st)
    \<and> of_int k * (ag_default_cpu_limit st * 100) \<le> of_int (hr_cpu_count h) * (100 - hr_cpu_percent h)
    \<and> (\<forall>c. ag_capacity st = Some c \<longrightarrow> cb_capacity b \<le> c)"
proof -
  let ?ram = "mb (hr_memory_total h) - of_int (ag_reserved_ram_mb st) - (mb (hr_memory_total h) - mb (hr_memory_available h))"
  let ?cpu = "max 0 (of_int (hr_cpu_count h) * (100 - hr_cpu_percent h))"
  obtain r c where rc: "slots ?ram (of_int (ag_default_ram_limit_mb st)) = Some r" "slots ?cpu (ag_default_cpu_limit st * 100) = Some c"
    using assms(1) by (auto simp: compute_capacity_def Let_def split: option.splits)
  have b: "cb_capacity b \<le> min (r + active) (c + active)" "\<forall>c. ag_capacity st = Some c \<longrightarrow> cb_capacity b \<le> c"
    using assms(1) rc by (auto simp: compute_capacity_def Let_def split: option.splits if_splits)
  have k: "k \<le> r" "k \<le> c" using b(1) assms(5) by simp_all
  have "of_int k * of_int (ag_default_ram_limit_mb st) \<le> ?ram"
    by (rule slots_room(2) [OF rc(1) _ k(1) assms(4)]) (use assms(2) in simp)
  moreover have cpu: "of_int k * (ag_default_cpu_limit st * 100) \<le> ?cpu"
    by (rule slots_room(2) [OF rc(2) _ k(2) assms(4)]) (use assms(3) in simp)
  moreover have "0 < of_int k * (ag_default_cpu_limit st * 100)" using assms(3,4) by simp
  ultimately show ?thesis using b(2) by (simp add: max_def split: if_splits)
qed

text \<open>A poll never reports more than it measured.\<close>

lemma apply_hysteresis_le: "fst (apply_hysteresis polls raw h) \<le> raw"
  by (simp add: apply_hysteresis_def split: option.split)

text \<open>
  C32. The smoothing of the reported capacity is safe and does not starve: no poll reports more than it
  measured, and once every poll measures v, more than what was reported last, the configured number of
  such polls (at least one) reports v.
\<close>

theorem smoothing_is_safe_and_recovers:
  assumes "hy_last_reported h = Some prev" and "hy_recovery_streak h = 0" and "prev < v" and "0 < polls"
  shows "list_all2 (\<le>) (reported (int polls) g raws) raws
    \<and> reported (int polls) h (replicate polls v) = replicate (polls - 1) prev @ [v]"
proof
  show "list_all2 (\<le>) (reported (int polls) g raws) raws"
    by (induction raws arbitrary: g) (simp_all add: case_prod_unfold Let_def apply_hysteresis_le)
  have "reported (int polls) (h\<lparr>hy_recovery_streak := int (polls - n)\<rparr>) (replicate n v) = replicate (n - 1) prev @ [v]"
    if "0 < n" "n \<le> polls" for n
    using that
  proof (induction n)
    case (Suc n)
    show ?case
    proof (cases "n = 0")
      case True
      then show ?thesis using assms(1,3,4) by (simp add: apply_hysteresis_def)
    next
      case False
      have "apply_hysteresis (int polls) v (h\<lparr>hy_recovery_streak := int (polls - Suc n)\<rparr>)
          = (prev, h\<lparr>hy_recovery_streak := int (polls - n)\<rparr>)"
        using False Suc.prems assms(1,3) by (simp add: apply_hysteresis_def of_nat_diff)
      then have "reported (int polls) (h\<lparr>hy_recovery_streak := int (polls - Suc n)\<rparr>) (replicate (Suc n) v)
          = prev # reported (int polls) (h\<lparr>hy_recovery_streak := int (polls - n)\<rparr>) (replicate n v)"
        by simp
      also have "\<dots> = prev # replicate (n - 1) prev @ [v]"
        using False Suc.prems Suc.IH by simp
      finally show ?thesis using False by (cases n) simp_all
    qed
  qed simp
  note steps = this [of polls]
  have "h\<lparr>hy_recovery_streak := 0\<rparr> = h" using assms(2) by (cases h) simp
  with steps show "reported (int polls) h (replicate polls v) = replicate (polls - 1) prev @ [v]"
    using assms(4) by simp
qed

text \<open>
  The rise may still rest on one poll: with three polls of recovery, measuring 2, 2 and 10 after 1
  reports 10 at once, although only the last poll measured that much.
\<close>

lemma one_spike_is_reported: "reported 3 (snd (apply_hysteresis 3 1 new_hysteresis)) [2, 2, 10] = [1, 1, 10]"
  by (simp add: apply_hysteresis_def new_hysteresis_def)

end
