(* ===== verification/Docker_Provider.thy ===== *)
theory Docker_Provider
  imports Csrf Agent_Client "HOL-Library.AList"
begin

text \<open>
  \<open>DockerSandboxProvider\<close> of the Session Agent (\<open>session-agent/app/providers/docker_provider.py\<close>): every
  operation on a sandbox as a sequence of calls to the Docker engine.

  The engine is third-party: \<open>'w\<close> is its state and a \<open>'w engine\<close> has one function per call of docker-py the
  provider makes. What the proofs rely on of it is the predicate \<open>engine_laws\<close> of \<open>Docker_Guarantees\<close>.
\<close>

section \<open>What the provider sees of Docker\<close>

record container =
  ct_id :: string
  ct_name :: string
  ct_labels :: "(string \<times> string) list"
  ct_status :: string
  ct_networks :: "(string \<times> string) list"
  ct_started_at :: "string option"

record container_options =
  co_image :: string
  co_name :: string
  co_command :: "string list option"
  co_labels :: "(string \<times> string) list"
  co_environment :: "(string \<times> string) list"
  co_user :: string
  co_cap_drop :: "string list"
  co_security_opt :: "string list"
  co_read_only :: bool
  co_tmpfs :: "(string \<times> string) list"
  co_mem_limit :: string
  co_nano_cpus :: int
  co_pids_limit :: int
  co_network :: string
  co_network_disabled :: bool
  co_detach :: bool

text \<open>One sample of \<open>container.stats\<close>; the entries read with \<open>get\<close> may be missing.\<close>

record container_stats =
  st_cpu_usage :: int
  st_precpu_usage :: int
  st_system_cpu :: "int option"
  st_presystem_cpu :: "int option"
  st_online_cpus :: "int option"
  st_percpu_count :: "nat option"
  st_memory_usage :: "int option"
  st_memory_limit :: "int option"
  st_pids :: "int option"

text \<open>Exceptions, with their text: \<open>docker.errors.NotFound\<close>, any other of docker-py, and the provider's own.\<close>

datatype provider_error =
    Not_found string
  | Engine_error string
  | Runtime_error string
  | Value_error string

primrec error_text :: "provider_error \<Rightarrow> string" where
  "error_text (Not_found m) = m"
| "error_text (Engine_error m) = m"
| "error_text (Runtime_error m) = m"
| "error_text (Value_error m) = m"

type_synonym ('a, 'w) provider_call = "'w \<Rightarrow> (provider_error + 'a) \<times> 'w"

record 'w engine =
  containers_get :: "string \<Rightarrow> (container, 'w) provider_call"
  containers_create :: "container_options \<Rightarrow> (unit, 'w) provider_call"
  containers_list :: "bool \<Rightarrow> string \<Rightarrow> (container list, 'w) provider_call"
  container_reload :: "string \<Rightarrow> (container, 'w) provider_call"
  container_start :: "string \<Rightarrow> (unit, 'w) provider_call"
  container_remove :: "string \<Rightarrow> (unit, 'w) provider_call"
  container_stats_of :: "string \<Rightarrow> (container_stats, 'w) provider_call"
  networks_get :: "string \<Rightarrow> (string, 'w) provider_call"
  network_connect :: "string \<Rightarrow> string \<Rightarrow> (unit, 'w) provider_call"
  network_disconnect :: "string \<Rightarrow> string \<Rightarrow> (unit, 'w) provider_call"
  exec_run :: "string \<Rightarrow> string list \<Rightarrow> (int \<times> bytes, 'w) provider_call"
  exec_create :: "string \<Rightarrow> string list \<Rightarrow> (string, 'w) provider_call"
  exec_feed :: "string \<Rightarrow> bytes \<Rightarrow> (unit, 'w) provider_call"
  exec_inspect :: "string \<Rightarrow> (int option, 'w) provider_call"
  images_get :: "string \<Rightarrow> (unit, 'w) provider_call"
  engine_version :: "(string option, 'w) provider_call"
  decode_utf8 :: "bytes \<Rightarrow> string"

definition and_then :: "('a, 'w) provider_call \<Rightarrow> ('a \<Rightarrow> ('b, 'w) provider_call) \<Rightarrow> ('b, 'w) provider_call" where
  "and_then m f w = (case m w of (Inl e, w') \<Rightarrow> (Inl e, w') | (Inr x, w') \<Rightarrow> f x w')"

definition give :: "'a \<Rightarrow> ('a, 'w) provider_call" where
  "give x w = (Inr x, w)"

definition fail :: "provider_error \<Rightarrow> ('a, 'w) provider_call" where
  "fail e w = (Inl e, w)"

section \<open>Names\<close>

definition MANAGED_LABEL :: string where "MANAGED_LABEL = ''openrbi.managed''"

definition SESSION_LABEL :: string where "SESSION_LABEL = ''openrbi.session_id''"

definition NETWORK_LABEL :: string where "NETWORK_LABEL = ''openrbi.network''"

definition VNC_PORT :: int where "VNC_PORT = 5900"

definition DOWNLOAD_DIR :: string where "DOWNLOAD_DIR = ''/tmp/home/downloads''"

definition UPLOAD_DIR :: string where "UPLOAD_DIR = ''/tmp/home/uploads''"

definition container_name :: "string \<Rightarrow> string" where
  "container_name session_id = ''openrbi-session-'' @ session_id"

definition label :: "container \<Rightarrow> string \<Rightarrow> string option" where
  "label c k = map_of (ct_labels c) k"

definition get_managed_container :: "'w engine \<Rightarrow> string \<Rightarrow> (container, 'w) provider_call" where
  "get_managed_container D session_id =
     and_then (containers_get D (container_name session_id)) (\<lambda>c.
       if label c MANAGED_LABEL \<noteq> Some ''true'' \<or> label c SESSION_LABEL \<noteq> Some session_id
       then fail (Runtime_error (''container for session '' @ session_id @ '' is not OpenRBI-managed''))
       else give c)"

section \<open>Creating and starting\<close>

record sandbox_config =
  sc_image :: string
  sc_cpu_limit :: rat
  sc_ram_limit_mb :: int
  sc_pid_limit :: int
  sc_disk_limit_mb :: int
  sc_network_name :: string
  sc_screen_width :: int
  sc_screen_height :: int
  sc_command :: "string list option"
  sc_labels :: "(string \<times> string) list"

text \<open>\<open>int(x)\<close> of a number drops the fraction.\<close>

definition truncated :: "rat \<Rightarrow> int" where
  "truncated x = (if x < 0 then - \<lfloor>- x\<rfloor> else \<lfloor>x\<rfloor>)"

text \<open>\<open>{..., **config.labels}\<close>: a label of the configuration replaces one of the provider.\<close>

definition sandbox_labels :: "string \<Rightarrow> sandbox_config \<Rightarrow> (string \<times> string) list" where
  "sandbox_labels session_id cf =
     AList.merge [(MANAGED_LABEL, ''true''), (SESSION_LABEL, session_id), (NETWORK_LABEL, sc_network_name cf)] (sc_labels cf)"

definition sandbox_options :: "string \<Rightarrow> sandbox_config \<Rightarrow> container_options" where
  "sandbox_options session_id cf =
     \<lparr> co_image = sc_image cf, co_name = container_name session_id, co_command = sc_command cf,
       co_labels = sandbox_labels session_id cf,
       co_environment = [(''SCREEN_WIDTH'', show_int (sc_screen_width cf)), (''SCREEN_HEIGHT'', show_int (sc_screen_height cf))],
       co_user = ''10001:10001'', co_cap_drop = [''ALL''], co_security_opt = [''no-new-privileges:true''],
       co_read_only = True, co_tmpfs = [(''/tmp'', ''size='' @ show_int (sc_disk_limit_mb cf) @ ''m'')],
       co_mem_limit = show_int (sc_ram_limit_mb cf) @ ''m'', co_nano_cpus = truncated (sc_cpu_limit cf * 1000000000),
       co_pids_limit = sc_pid_limit cf, co_network = sc_network_name cf, co_network_disabled = False, co_detach = True \<rparr>"

definition create_session_sync :: "'w engine \<Rightarrow> string \<Rightarrow> sandbox_config \<Rightarrow> (unit, 'w) provider_call" where
  "create_session_sync D session_id cf w =
     (case containers_get D (container_name session_id) w of
        (Inr existing, w') \<Rightarrow>
          if label existing MANAGED_LABEL \<noteq> Some ''true''
          then fail (Runtime_error (''container name collision with an unmanaged container: '' @ container_name session_id)) w'
          else give () w'
      | (Inl (Not_found _), w') \<Rightarrow> containers_create D (sandbox_options session_id cf) w'
      | (Inl e, w') \<Rightarrow> fail e w')"

definition start_session_sync :: "'w engine \<Rightarrow> string \<Rightarrow> (unit, 'w) provider_call" where
  "start_session_sync D session_id =
     and_then (get_managed_container D session_id) (\<lambda>c.
     and_then (container_reload D (ct_id c)) (\<lambda>c.
       if ct_status c \<noteq> ''running'' then container_start D (ct_id c) else give ()))"

section \<open>Isolating, restoring, removing\<close>

fun disconnect_all :: "'w engine \<Rightarrow> string \<Rightarrow> string list \<Rightarrow> (unit, 'w) provider_call" where
  "disconnect_all D i [] = give ()"
| "disconnect_all D i (n # ns) =
     and_then (networks_get D n) (\<lambda>net.
     and_then (network_disconnect D net i) (\<lambda>_. disconnect_all D i ns))"

definition isolate_session_sync :: "'w engine \<Rightarrow> string \<Rightarrow> (unit, 'w) provider_call" where
  "isolate_session_sync D session_id =
     and_then (get_managed_container D session_id) (\<lambda>c.
     and_then (container_reload D (ct_id c)) (\<lambda>c.
       disconnect_all D (ct_id c) (map fst (ct_networks c))))"

definition reattach :: "'w engine \<Rightarrow> string \<Rightarrow> string \<Rightarrow> (unit, 'w) provider_call" where
  "reattach D network_name i =
     and_then (container_reload D i) (\<lambda>c.
       if network_name \<notin> fst ` set (ct_networks c)
       then and_then (networks_get D network_name) (\<lambda>net. network_connect D net (ct_id c))
       else give ())"

text \<open>A missing label and an empty one are both falsy.\<close>

definition restore_session_sync :: "'w engine \<Rightarrow> string \<Rightarrow> (unit, 'w) provider_call" where
  "restore_session_sync D session_id =
     and_then (get_managed_container D session_id) (\<lambda>c.
       case label c NETWORK_LABEL of
         None \<Rightarrow> fail (Runtime_error (''session '' @ session_id @ '' has no recorded network to restore''))
       | Some network_name \<Rightarrow>
           if network_name = []
           then fail (Runtime_error (''session '' @ session_id @ '' has no recorded network to restore''))
           else reattach D network_name (ct_id c))"

definition terminate_session_sync :: "'w engine \<Rightarrow> string \<Rightarrow> (unit, 'w) provider_call" where
  "terminate_session_sync D session_id w =
     (case containers_get D (container_name session_id) w of
        (Inl (Not_found _), w') \<Rightarrow> give () w'
      | (Inl e, w') \<Rightarrow> fail e w'
      | (Inr c, w') \<Rightarrow>
          if label c MANAGED_LABEL \<noteq> Some ''true''
          then fail (Runtime_error (''refusing to remove an unmanaged container: '' @ container_name session_id)) w'
          else container_remove D (ct_id c) w')"

section \<open>Observing\<close>

datatype sandbox_runtime_status =
    Sb_not_found | Sb_created | Sb_running | Sb_isolated | Sb_exited | Sb_error

primrec runtime_status_value :: "sandbox_runtime_status \<Rightarrow> string" where
  "runtime_status_value Sb_not_found = ''NOT_FOUND''"
| "runtime_status_value Sb_created = ''CREATED''"
| "runtime_status_value Sb_running = ''RUNNING''"
| "runtime_status_value Sb_isolated = ''ISOLATED''"
| "runtime_status_value Sb_exited = ''EXITED''"
| "runtime_status_value Sb_error = ''ERROR''"

record sandbox_status =
  ss_status :: sandbox_runtime_status
  ss_container_id :: "string option"
  ss_started_at :: "string option"
  ss_detail :: "string option"

definition observed_status :: "container \<Rightarrow> sandbox_runtime_status" where
  "observed_status c =
     (if ct_status c = ''running'' \<and> ct_networks c = [] then Sb_isolated
      else if ct_status c = ''running'' then Sb_running
      else if ct_status c = ''created'' then Sb_created
      else if ct_status c \<in> {''exited'', ''dead''} then Sb_exited
      else Sb_error)"

definition get_status_sync :: "'w engine \<Rightarrow> string \<Rightarrow> (sandbox_status, 'w) provider_call" where
  "get_status_sync D session_id w =
     (case get_managed_container D session_id w of
        (Inl (Not_found _), w') \<Rightarrow>
          give \<lparr> ss_status = Sb_not_found, ss_container_id = None, ss_started_at = None, ss_detail = None \<rparr> w'
      | (Inl e, w') \<Rightarrow> fail e w'
      | (Inr c, w') \<Rightarrow>
          and_then (container_reload D (ct_id c)) (\<lambda>c.
            give \<lparr> ss_status = observed_status c, ss_container_id = Some (ct_id c), ss_started_at = ct_started_at c,
                   ss_detail = Some (ct_status c) \<rparr>) w')"

record sandbox_metrics =
  sm_cpu_percent :: rat
  sm_memory_usage_mb :: rat
  sm_memory_limit_mb :: rat
  sm_pids :: int

text \<open>\<open>round(x, 2)\<close>: to the nearest hundredth, a tie going to the even one.\<close>

definition round2 :: "rat \<Rightarrow> rat" where
  "round2 x =
     (let y = x * 100; f = \<lfloor>y\<rfloor>; r = y - of_int f
      in of_int (if r < 1 / 2 \<or> r = 1 / 2 \<and> even f then f else f + 1) / 100)"

definition or_zero :: "int option \<Rightarrow> int" where
  "or_zero x = (case x of None \<Rightarrow> 0 | Some n \<Rightarrow> n)"

definition metrics_of :: "container_stats \<Rightarrow> sandbox_metrics" where
  "metrics_of s =
     (let cpu_delta = st_cpu_usage s - st_precpu_usage s;
          system_delta = or_zero (st_system_cpu s) - or_zero (st_presystem_cpu s);
          online_cpus = (if or_zero (st_online_cpus s) \<noteq> 0 then or_zero (st_online_cpus s)
                         else (case st_percpu_count s of None \<Rightarrow> 1 | Some n \<Rightarrow> int n));
          cpu_percent = (if system_delta > 0 then of_int cpu_delta / of_int system_delta * of_int online_cpus * 100 else 0)
      in \<lparr> sm_cpu_percent = round2 cpu_percent,
           sm_memory_usage_mb = round2 (of_int (or_zero (st_memory_usage s)) / 1048576),
           sm_memory_limit_mb = round2 (of_int (or_zero (st_memory_limit s)) / 1048576),
           sm_pids = or_zero (st_pids s) \<rparr>)"

definition get_metrics_sync :: "'w engine \<Rightarrow> string \<Rightarrow> (sandbox_metrics, 'w) provider_call" where
  "get_metrics_sync D session_id =
     and_then (get_managed_container D session_id) (\<lambda>c.
     and_then (container_stats_of D (ct_id c)) (\<lambda>s. give (metrics_of s)))"

record display_info =
  dp_host :: string
  dp_port :: int

definition label_text :: "string option \<Rightarrow> string" where
  "label_text x = (case x of None \<Rightarrow> ''None'' | Some t \<Rightarrow> t)"

definition get_display_info_sync :: "'w engine \<Rightarrow> string \<Rightarrow> (display_info, 'w) provider_call" where
  "get_display_info_sync D session_id =
     and_then (get_managed_container D session_id) (\<lambda>c.
       let network_name = label c NETWORK_LABEL in
       and_then (container_reload D (ct_id c)) (\<lambda>c.
         case Option.bind network_name (map_of (ct_networks c)) of
           Some (x # xs) \<Rightarrow> give \<lparr> dp_host = x # xs, dp_port = VNC_PORT \<rparr>
         | _ \<Rightarrow> fail (Runtime_error (''session '' @ session_id @ '' has no address on network '' @ label_text network_name))))"

section \<open>Files in the sandbox\<close>

text \<open>\<open>str.splitlines\<close>: a line ends at any of Python's line breaks, \<open>\r\n\<close> being one.\<close>

definition is_line_break :: "char \<Rightarrow> bool" where
  "is_line_break c = (let n = code c in 10 \<le> n \<and> n \<le> 13 \<or> 28 \<le> n \<and> n \<le> 30 \<or> n = 133)"

lemma dropWhile_shorter: "dropWhile P s = b # bs \<Longrightarrow> length bs < length s"
  using length_dropWhile_le [of P s] by simp

function splitlines :: "string \<Rightarrow> string list" where
  "splitlines s =
     (if s = [] then []
      else let line = takeWhile (\<lambda>c. \<not> is_line_break c) s; rest = dropWhile (\<lambda>c. \<not> is_line_break c) s
        in line # (case rest of [] \<Rightarrow> [] | b # bs \<Rightarrow>
             if code b = 13 \<and> bs \<noteq> [] \<and> code (hd bs) = 10 then splitlines (tl bs) else splitlines bs))"
  by pat_completeness auto
termination by (relation "measure length") (auto dest!: dropWhile_shorter [OF sym])

declare splitlines.simps [simp del]

text \<open>\<open>int(text)\<close>: blanks around, one sign, decimal digits with single underscores between them.\<close>

definition is_digit :: "char \<Rightarrow> bool" where
  "is_digit c = (48 \<le> code c \<and> code c \<le> 57)"

fun digits_value :: "nat \<Rightarrow> string \<Rightarrow> nat option" where
  "digits_value a [] = Some a"
| "digits_value a (c # cs) =
     (if is_digit c then digits_value (a * 10 + (code c - 48)) cs
      else if c = CHR ''_'' \<and> cs \<noteq> [] \<and> is_digit (hd cs) then digits_value a cs
      else None)"

definition int_literal :: "string \<Rightarrow> int option" where
  "int_literal txt =
     (case txt of
        [] \<Rightarrow> None
      | c # cs \<Rightarrow>
          (let (neg, ds) = (if c = CHR ''-'' then (True, cs) else if c = CHR ''+'' then (False, cs) else (False, c # cs))
           in if ds = [] \<or> \<not> is_digit (hd ds) then None
              else map_option (\<lambda>n. if neg then - int n else int n) (digits_value 0 ds)))"

definition int_of_text :: "string \<Rightarrow> int option" where
  "int_of_text txt = int_literal (strip txt)"

definition find_command :: "string list" where
  "find_command =
     [''find'', DOWNLOAD_DIR, ''-maxdepth'', ''1'', ''-type'', ''f'', ''!'', ''-name'', ''*.part'', ''-printf'',
      ''%s %f'' @ [CHR 0x5C, CHR ''n'']]"

definition listed_file :: "string \<Rightarrow> downloaded_file option" where
  "listed_file line =
     (let l = strip line in
      if l = [] then None
      else let (size_str, _, filename) = partition_at (CHR '' '') l
        in map_option (\<lambda>n. \<lparr> df_filename = filename, df_size_bytes = n \<rparr>) (int_of_text size_str))"

definition parse_listing :: "string \<Rightarrow> downloaded_file list" where
  "parse_listing output = List.map_filter listed_file (splitlines output)"

definition list_downloads_sync :: "'w engine \<Rightarrow> string \<Rightarrow> (downloaded_file list, 'w) provider_call" where
  "list_downloads_sync D session_id =
     and_then (get_managed_container D session_id) (\<lambda>c.
     and_then (exec_run D (ct_id c) find_command) (\<lambda>(exit_code, output).
       give (if exit_code \<noteq> 0 then [] else parse_listing (decode_utf8 D output))))"

definition fetch_download_sync :: "'w engine \<Rightarrow> string \<Rightarrow> string \<Rightarrow> (bytes \<times> string option, 'w) provider_call" where
  "fetch_download_sync D session_id filename =
     and_then (get_managed_container D session_id) (\<lambda>c.
       let path = DOWNLOAD_DIR @ ''/'' @ filename in
       and_then (exec_run D (ct_id c) [''cat'', path]) (\<lambda>(exit_code, output).
         if exit_code \<noteq> 0
         then fail (Runtime_error (''failed to read '' @ filename @ '' (exit '' @ show_int exit_code @ ''): '' @ decode_utf8 D output))
         else and_then (exec_run D (ct_id c)
             [''sh'', ''-c'', ''getfattr --only-values -n user.xdg.origin.url '' @ [CHR 0x27] @ path @ [CHR 0x27] @ '' 2>/dev/null''])
           (\<lambda>(origin_exit, origin_output).
             let origin_url = (if origin_exit = 0 then strip (decode_utf8 D origin_output) else [])
             in give (output, if origin_url = [] then None else Some origin_url))))"

definition delete_download_sync :: "'w engine \<Rightarrow> string \<Rightarrow> string \<Rightarrow> (unit, 'w) provider_call" where
  "delete_download_sync D session_id filename =
     and_then (get_managed_container D session_id) (\<lambda>c.
     and_then (exec_run D (ct_id c) [''rm'', ''-f'', DOWNLOAD_DIR @ ''/'' @ filename]) (\<lambda>_. give ()))"

text \<open>At most 30 looks at the exit code, ending at the first one that is settled.\<close>

fun await_exit :: "'w engine \<Rightarrow> nat \<Rightarrow> string \<Rightarrow> (int option, 'w) provider_call" where
  "await_exit D 0 exec_id = give None"
| "await_exit D (Suc n) exec_id =
     and_then (exec_inspect D exec_id) (\<lambda>exit_code.
       if exit_code \<noteq> None then give exit_code else await_exit D n exec_id)"

text \<open>\<open>int(size_output.strip() or -1)\<close> on bytes, where only the ASCII blanks are stripped.\<close>

definition ascii_strip :: "string \<Rightarrow> string" where
  "ascii_strip txt =
     (let blank = (\<lambda>c. 9 \<le> code c \<and> code c \<le> 13 \<or> code c = 32) in rstrip_by blank (lstrip_by blank txt))"

definition reported_size :: "bytes \<Rightarrow> int option" where
  "reported_size bs =
     (let txt = ascii_strip (map (\<lambda>b. char_of (unat b)) bs) in if txt = [] then Some (-1) else int_literal txt)"

definition exit_text :: "int option \<Rightarrow> string" where
  "exit_text x = (case x of None \<Rightarrow> ''None'' | Some n \<Rightarrow> show_int n)"

definition write_upload_sync :: "'w engine \<Rightarrow> string \<Rightarrow> string \<Rightarrow> bytes \<Rightarrow> (unit, 'w) provider_call" where
  "write_upload_sync D session_id filename data =
     and_then (get_managed_container D session_id) (\<lambda>c.
       let path = UPLOAD_DIR @ ''/'' @ filename in
       and_then (exec_create D (ct_id c) [''sh'', ''-c'', ''cat > '' @ path]) (\<lambda>exec_id.
       and_then (exec_feed D exec_id data) (\<lambda>_.
       and_then (await_exit D 30 exec_id) (\<lambda>exit_code.
         if exit_code \<notin> {Some 0, None}
         then fail (Runtime_error (''upload write failed for '' @ filename @ '': exit '' @ exit_text exit_code))
         else and_then (exec_run D (ct_id c) [''stat'', ''-c'', ''%s'', path]) (\<lambda>(size_exit, size_output).
           let unverified = fail (Runtime_error (''upload write could not be verified for '' @ filename
                 @ '' (exit_code='' @ exit_text exit_code @ '')''))
           in if size_exit \<noteq> 0 then unverified
              else case reported_size size_output of
                  None \<Rightarrow> fail (Value_error ''invalid literal for int() with base 10'')
                | Some n \<Rightarrow> if n \<noteq> int (length data) then unverified else give ())))))"

section \<open>The node as a whole\<close>

definition managed_filter :: string where
  "managed_filter = MANAGED_LABEL @ ''=true''"

definition count_active_sessions_sync :: "'w engine \<Rightarrow> (int, 'w) provider_call" where
  "count_active_sessions_sync D = and_then (containers_list D False managed_filter) (\<lambda>cs. give (int (length cs)))"

definition session_ids_of :: "container list \<Rightarrow> string list" where
  "session_ids_of cs = List.map_filter (\<lambda>c. label c SESSION_LABEL) cs"

definition list_active_session_ids_sync :: "'w engine \<Rightarrow> (string list, 'w) provider_call" where
  "list_active_session_ids_sync D = and_then (containers_list D False managed_filter) (\<lambda>cs. give (session_ids_of cs))"

definition list_managed_session_ids_sync :: "'w engine \<Rightarrow> (string list, 'w) provider_call" where
  "list_managed_session_ids_sync D = and_then (containers_list D True managed_filter) (\<lambda>cs. give (session_ids_of cs))"

definition runtime_version :: "'w engine \<Rightarrow> (string, 'w) provider_call" where
  "runtime_version D =
     and_then (engine_version D) (\<lambda>v. give (case v of None \<Rightarrow> ''unknown'' | Some t \<Rightarrow> t))"

definition sandbox_image_available_sync :: "'w engine \<Rightarrow> string \<Rightarrow> (bool, 'w) provider_call" where
  "sandbox_image_available_sync D img w =
     (case images_get D img w of
        (Inr _, w') \<Rightarrow> give True w'
      | (Inl (Not_found _), w') \<Rightarrow> give False w'
      | (Inl e, w') \<Rightarrow> fail e w')"

section \<open>The calls as data\<close>

text \<open>Every operation on one sandbox, for statements about all of them; the result is not looked at.\<close>

datatype sandbox_op =
    Op_create sandbox_config | Op_start | Op_isolate | Op_restore | Op_terminate | Op_status | Op_metrics | Op_display
  | Op_list | Op_fetch string | Op_delete string | Op_upload string bytes

definition ignored :: "('a, 'w) provider_call \<Rightarrow> (unit, 'w) provider_call" where
  "ignored m = and_then m (\<lambda>_. give ())"

primrec perform :: "'w engine \<Rightarrow> string \<Rightarrow> sandbox_op \<Rightarrow> (unit, 'w) provider_call" where
  "perform D i (Op_create cf) = create_session_sync D i cf"
| "perform D i Op_start = start_session_sync D i"
| "perform D i Op_isolate = isolate_session_sync D i"
| "perform D i Op_restore = restore_session_sync D i"
| "perform D i Op_terminate = terminate_session_sync D i"
| "perform D i Op_status = ignored (get_status_sync D i)"
| "perform D i Op_metrics = ignored (get_metrics_sync D i)"
| "perform D i Op_display = ignored (get_display_info_sync D i)"
| "perform D i Op_list = ignored (list_downloads_sync D i)"
| "perform D i (Op_fetch f) = ignored (fetch_download_sync D i f)"
| "perform D i (Op_delete f) = delete_download_sync D i f"
| "perform D i (Op_upload f data) = write_upload_sync D i f data"

end
