(* ===== verification/Agent_Routes.thy ===== *)
theory Agent_Routes
  imports Node_Agent Docker_Provider
begin

text \<open>
  The routes of the Session Agent (\<open>session-agent/app/api/sandboxes.py\<close> and \<open>node_status\<close> of \<open>app/main.py\<close>), its
  enrolment loop (\<open>app/enrollment.py\<close>), and a \<open>backend\<close> whose HTTP calls are answered by such agents: the
  end of the wire that \<open>Agent_Client\<close> leaves open.

  An agent process is its settings, the engine it talks to, the host readings, and the dialling of a port. The
  state of a node is the hysteresis of the process and the outside state \<open>'w\<close>.
\<close>

section \<open>An agent process\<close>

record 'w agent_process =
  ap_settings :: agent_settings
  ap_engine :: "'w engine"
  ap_host :: "'w \<Rightarrow> host_reading"
  ap_started_at :: instant
  ap_dial :: "string \<Rightarrow> int \<Rightarrow> 'w \<Rightarrow> string option \<times> 'w"

type_synonym 'w node_state = "hysteresis \<times> 'w"

definition on_engine :: "('a, 'w) handler \<Rightarrow> ('a, 'w node_state) handler" where
  "on_engine h s = (case h (snd s) of (r, w) \<Rightarrow> (r, (fst s, w)))"

text \<open>The \<open>except Exception\<close> of a route, and a call outside every \<open>try\<close>.\<close>

definition bad_gateway :: "('a, 'w) provider_call \<Rightarrow> ('a, 'w) handler" where
  "bad_gateway m w = (case m w of (Inl e, w') \<Rightarrow> (Inl (502, error_text e), w') | (Inr x, w') \<Rightarrow> (Inr x, w'))"

definition uncaught :: "('a, 'w) provider_call \<Rightarrow> ('a, 'w) handler" where
  "uncaught m w =
     (case m w of (Inl e, w') \<Rightarrow> (Inl (500, ''Internal Server Error''), w') | (Inr x, w') \<Rightarrow> (Inr x, w'))"

text \<open>The dependency of the router, and with it the one of an admin route.\<close>

definition user_route :: "'w agent_process \<Rightarrow> string \<Rightarrow> ('a, 'w) handler \<Rightarrow> ('a, 'w) handler" where
  "user_route A presented h = require_scope (ap_settings A) User_scope presented h"

definition admin_route :: "'w agent_process \<Rightarrow> string \<Rightarrow> ('a, 'w) handler \<Rightarrow> ('a, 'w) handler" where
  "admin_route A presented h =
     require_scope (ap_settings A) User_scope presented (require_scope (ap_settings A) Admin_scope presented h)"

section \<open>Sandbox routes\<close>

record create_request =
  cr_cpu_limit :: "rat option"
  cr_ram_limit_mb :: "int option"
  cr_pid_limit :: "int option"
  cr_disk_limit_mb :: "int option"
  cr_image :: "string option"
  cr_screen_width :: "int option"
  cr_screen_height :: "int option"

text \<open>\<open>value or default\<close>: zero counts as missing.\<close>

definition or_default :: "'a :: zero option \<Rightarrow> 'a \<Rightarrow> 'a" where
  "or_default x d = (case x of None \<Rightarrow> d | Some n \<Rightarrow> if n = 0 then d else n)"

definition sandbox_config_of :: "agent_settings \<Rightarrow> create_request \<Rightarrow> sandbox_config" where
  "sandbox_config_of st p =
     \<lparr> sc_image = (if truthy (cr_image p) then the (cr_image p) else ag_sandbox_image st),
       sc_cpu_limit = or_default (cr_cpu_limit p) (ag_default_cpu_limit st),
       sc_ram_limit_mb = or_default (cr_ram_limit_mb p) (ag_default_ram_limit_mb st),
       sc_pid_limit = or_default (cr_pid_limit p) (ag_default_pid_limit st),
       sc_disk_limit_mb = or_default (cr_disk_limit_mb p) (ag_default_disk_limit_mb st),
       sc_network_name = ag_sandbox_network_name st,
       sc_screen_width = or_default (cr_screen_width p) (ag_default_screen_width st),
       sc_screen_height = or_default (cr_screen_height p) (ag_default_screen_height st),
       sc_command = ag_sandbox_command st, sc_labels = [] \<rparr>"

definition create_sandbox_route :: "'w agent_process \<Rightarrow> string \<Rightarrow> string \<Rightarrow> create_request \<Rightarrow> (unit, 'w) handler" where
  "create_sandbox_route A presented i p =
     user_route A presented (\<lambda>w.
       case create_session_sync (ap_engine A) i (sandbox_config_of (ap_settings A) p) w of
         (Inl (Runtime_error m), w') \<Rightarrow> (Inl (409, m), w')
       | (Inl e, w') \<Rightarrow> (Inl (502, error_text e), w')
       | (Inr x, w') \<Rightarrow> (Inr x, w'))"

definition start_sandbox_route :: "'w agent_process \<Rightarrow> string \<Rightarrow> string \<Rightarrow> (unit, 'w) handler" where
  "start_sandbox_route A presented i = user_route A presented (bad_gateway (start_session_sync (ap_engine A) i))"

definition isolate_sandbox_route :: "'w agent_process \<Rightarrow> string \<Rightarrow> string \<Rightarrow> (unit, 'w) handler" where
  "isolate_sandbox_route A presented i = admin_route A presented (bad_gateway (isolate_session_sync (ap_engine A) i))"

definition restore_sandbox_route :: "'w agent_process \<Rightarrow> string \<Rightarrow> string \<Rightarrow> (unit, 'w) handler" where
  "restore_sandbox_route A presented i = admin_route A presented (bad_gateway (restore_session_sync (ap_engine A) i))"

definition terminate_sandbox_route :: "'w agent_process \<Rightarrow> string \<Rightarrow> string \<Rightarrow> (unit, 'w) handler" where
  "terminate_sandbox_route A presented i = user_route A presented (bad_gateway (terminate_session_sync (ap_engine A) i))"

definition list_sandboxes_route :: "'w agent_process \<Rightarrow> string \<Rightarrow> bool \<Rightarrow> (string list, 'w) handler" where
  "list_sandboxes_route A presented include_stopped =
     admin_route A presented (uncaught
       (if include_stopped then list_managed_session_ids_sync (ap_engine A) else list_active_session_ids_sync (ap_engine A)))"

definition sandbox_status_route :: "'w agent_process \<Rightarrow> string \<Rightarrow> string \<Rightarrow> (sandbox_status, 'w) handler" where
  "sandbox_status_route A presented i = user_route A presented (uncaught (get_status_sync (ap_engine A) i))"

definition display_info_route :: "'w agent_process \<Rightarrow> string \<Rightarrow> string \<Rightarrow> (display_info, 'w) handler" where
  "display_info_route A presented i = user_route A presented (bad_gateway (get_display_info_sync (ap_engine A) i))"

definition display_ready_route :: "'w agent_process \<Rightarrow> string \<Rightarrow> string \<Rightarrow> (unit, 'w) handler" where
  "display_ready_route A presented i =
     user_route A presented (\<lambda>w.
       case bad_gateway (get_display_info_sync (ap_engine A) i) w of
         (Inl e, w') \<Rightarrow> (Inl e, w')
       | (Inr info, w') \<Rightarrow>
           (case ap_dial A (dp_host info) (dp_port info) w' of
              (Some m, w'') \<Rightarrow> (Inl (502, ''display not ready: '' @ m), w'')
            | (None, w'') \<Rightarrow> (Inr (), w'')))"

definition list_downloads_route :: "'w agent_process \<Rightarrow> string \<Rightarrow> string \<Rightarrow> (downloaded_file list, 'w) handler" where
  "list_downloads_route A presented i = user_route A presented (bad_gateway (list_downloads_sync (ap_engine A) i))"

definition fetch_download_route ::
  "'w agent_process \<Rightarrow> string \<Rightarrow> string \<Rightarrow> string \<Rightarrow> (bytes \<times> string option, 'w) handler" where
  "fetch_download_route A presented i filename =
     user_route A presented (bad_gateway (fetch_download_sync (ap_engine A) i filename))"

definition delete_download_route :: "'w agent_process \<Rightarrow> string \<Rightarrow> string \<Rightarrow> string \<Rightarrow> (unit, 'w) handler" where
  "delete_download_route A presented i filename =
     user_route A presented (bad_gateway (delete_download_sync (ap_engine A) i filename))"

definition write_upload_route :: "'w agent_process \<Rightarrow> string \<Rightarrow> string \<Rightarrow> string \<Rightarrow> bytes \<Rightarrow> (unit, 'w) handler" where
  "write_upload_route A presented i filename data =
     user_route A presented (bad_gateway (write_upload_sync (ap_engine A) i filename data))"

definition sandbox_metrics_route :: "'w agent_process \<Rightarrow> string \<Rightarrow> string \<Rightarrow> (sandbox_metrics, 'w) handler" where
  "sandbox_metrics_route A presented i =
     user_route A presented (\<lambda>w.
       case uncaught (get_status_sync (ap_engine A) i) w of
         (Inl e, w') \<Rightarrow> (Inl e, w')
       | (Inr s, w') \<Rightarrow>
           if ss_status s = Sb_not_found then (Inl (404, ''sandbox not found''), w')
           else bad_gateway (get_metrics_sync (ap_engine A) i) w')"

section \<open>The node report\<close>

definition node_figures :: "'w agent_process \<Rightarrow> (int \<times> string \<times> bool, 'w) provider_call" where
  "node_figures A =
     and_then (count_active_sessions_sync (ap_engine A)) (\<lambda>active.
     and_then (runtime_version (ap_engine A)) (\<lambda>ver.
     and_then (sandbox_image_available_sync (ap_engine A) (ag_sandbox_image (ap_settings A))) (\<lambda>available.
       give (active, ver, available))))"

definition node_report_of ::
  "'w agent_process \<Rightarrow> host_reading \<Rightarrow> capacity_breakdown \<Rightarrow> int \<Rightarrow> int \<Rightarrow> string \<Rightarrow> bool \<Rightarrow> node_report" where
  "node_report_of A h b capacity active ver available =
     \<lparr> ns_hostname = ag_node_name (ap_settings A), ns_status = ''ONLINE'', ns_capacity = capacity,
       ns_capacity_bound = cb_bound b, ns_ram_capacity = cb_ram_capacity b, ns_cpu_capacity = cb_cpu_capacity b,
       ns_active_sessions = active, ns_runtime = ''docker'', ns_version = ver,
       ns_sandbox_image_available = available, ns_cpu_percent = hr_cpu_percent h,
       ns_ram_total_mb = truncated (mb (hr_memory_total h)),
       ns_ram_used_mb = truncated (mb (hr_memory_total h - hr_memory_available h)),
       ns_node_started_at = ap_started_at A \<rparr>"

definition node_status :: "'w agent_process \<Rightarrow> string \<Rightarrow> (node_report, 'w node_state) handler" where
  "node_status A presented =
     require_scope (ap_settings A) User_scope presented (\<lambda>(hy, w).
       case uncaught (node_figures A) w of
         (Inl e, w') \<Rightarrow> (Inl e, (hy, w'))
       | (Inr (active, ver, available), w') \<Rightarrow>
           (let h = ap_host A w' in
            case compute_capacity (ap_settings A) h active of
              None \<Rightarrow> (Inl (500, ''Internal Server Error''), (hy, w'))
            | Some b \<Rightarrow>
                (let (capacity, hy') = apply_hysteresis (ag_capacity_recovery_polls (ap_settings A)) (cb_capacity b) hy
                 in (Inr (node_report_of A h b capacity active ver available), (hy', w')))))"

section \<open>A fleet of agents as the backend's outside\<close>

text \<open>
  The nodes by address. Of the HTTP library: the text of a transport error, the text of an error body and how
  a file name set into a URL comes out at the route (\<open>None\<close>: no route matches, a 404). Of the standard
  library: the text of a UUID and the reading of one.
\<close>

type_synonym 'w fleet = "string \<Rightarrow> 'w node_state option"

record 'w fleet_env =
  fl_process :: "string \<Rightarrow> 'w agent_process"
  fl_unreachable :: "string \<Rightarrow> string"
  fl_error_body :: "nat \<times> string \<Rightarrow> string"
  fl_id_text :: "uuid \<Rightarrow> string"
  fl_read_id :: "string \<Rightarrow> reported_id"
  fl_url_name :: "string \<Rightarrow> string option"

definition reply_of :: "'w fleet_env \<Rightarrow> nat \<Rightarrow> 'b \<Rightarrow> ('a \<Rightarrow> 'b) \<Rightarrow> http_error + 'a \<Rightarrow> 'b reply" where
  "reply_of E ok no_body f r =
     (case r of Inl e \<Rightarrow> Response (fst e) (fl_error_body E e) no_body | Inr x \<Rightarrow> Response ok [] (f x))"

definition at_node ::
  "'w fleet_env \<Rightarrow> nat \<Rightarrow> 'b \<Rightarrow> ('a \<Rightarrow> 'b) \<Rightarrow> ('w agent_process \<Rightarrow> string \<Rightarrow> ('a, 'w node_state) handler)
     \<Rightarrow> connection \<Rightarrow> 'w fleet \<Rightarrow> 'b reply \<times> 'w fleet" where
  "at_node E ok no_body f h c w =
     (case w (base_url c) of
        None \<Rightarrow> (Unreachable (fl_unreachable E (base_url c)), w)
      | Some s \<Rightarrow>
          (case h (fl_process E (base_url c)) (token c) s of
             (r, s') \<Rightarrow> (reply_of E ok no_body f r, w(base_url c \<mapsto> s'))))"

definition request_of_limits :: "sandbox_limits \<Rightarrow> create_request" where
  "request_of_limits l =
     \<lparr> cr_cpu_limit = Some (sl_cpu_limit l), cr_ram_limit_mb = Some (sl_ram_limit_mb l), cr_pid_limit = Some (sl_pid_limit l),
       cr_disk_limit_mb = Some (sl_disk_limit_mb l), cr_image = None, cr_screen_width = Some (sl_screen_width l),
       cr_screen_height = Some (sl_screen_height l) \<rparr>"

definition with_file ::
  "'w fleet_env \<Rightarrow> string \<Rightarrow> (string \<Rightarrow> 'w agent_process \<Rightarrow> string \<Rightarrow> ('a, 'w) handler)
     \<Rightarrow> 'w agent_process \<Rightarrow> string \<Rightarrow> ('a, 'w) handler" where
  "with_file E filename h A presented =
     (case fl_url_name E filename of
        None \<Rightarrow> (\<lambda>w. (Inl (404, ''Not Found''), w))
      | Some received \<Rightarrow> h received A presented)"

text \<open>What stands for the body of an error response, which the client does not read.\<close>

definition no_report :: node_report where
  "no_report =
     \<lparr> ns_hostname = [], ns_status = [], ns_capacity = 0, ns_capacity_bound = [], ns_ram_capacity = 0,
       ns_cpu_capacity = 0, ns_active_sessions = 0, ns_runtime = [], ns_version = [],
       ns_sandbox_image_available = False, ns_cpu_percent = 0, ns_ram_total_mb = 0, ns_ram_used_mb = 0,
       ns_node_started_at = 0 \<rparr>"

definition fleet_backend :: "settings \<Rightarrow> (string \<Rightarrow> bytes) \<Rightarrow> (bytes \<Rightarrow> string) \<Rightarrow> 'w fleet_env \<Rightarrow> 'w fleet backend" where
  "fleet_backend cf enc dec E =
     \<lparr> cfg = cf, encrypt_secret = enc, decrypt_secret = dec,
       http_node_self = at_node E 200 no_report id node_status,
       http_display_ready = (\<lambda>i. at_node E 200 () id (\<lambda>A t. on_engine (display_ready_route A t (fl_id_text E i)))),
       http_sandboxes = (\<lambda>stopped. at_node E 200 [] (map (fl_read_id E)) (\<lambda>A t. on_engine (list_sandboxes_route A t stopped))),
       http_create = (\<lambda>i l. at_node E 201 () id
         (\<lambda>A t. on_engine (create_sandbox_route A t (fl_id_text E i) (request_of_limits l)))),
       http_start = (\<lambda>i. at_node E 200 () id (\<lambda>A t. on_engine (start_sandbox_route A t (fl_id_text E i)))),
       http_isolate = (\<lambda>i. at_node E 200 () id (\<lambda>A t. on_engine (isolate_sandbox_route A t (fl_id_text E i)))),
       http_restore = (\<lambda>i. at_node E 200 () id (\<lambda>A t. on_engine (restore_sandbox_route A t (fl_id_text E i)))),
       http_terminate = (\<lambda>i. at_node E 200 () id (\<lambda>A t. on_engine (terminate_sandbox_route A t (fl_id_text E i)))),
       http_list_downloads = (\<lambda>i. at_node E 200 [] id (\<lambda>A t. on_engine (list_downloads_route A t (fl_id_text E i)))),
       http_fetch_download = (\<lambda>i f. at_node E 200 ([], None) id
         (\<lambda>A t. on_engine (with_file E f (\<lambda>f A t. fetch_download_route A t (fl_id_text E i) f) A t))),
       http_delete_download = (\<lambda>i f. at_node E 200 () id
         (\<lambda>A t. on_engine (with_file E f (\<lambda>f A t. delete_download_route A t (fl_id_text E i) f) A t))),
       http_write_upload = (\<lambda>i f data. at_node E 200 () id
         (\<lambda>A t. on_engine (with_file E f (\<lambda>f A t. write_upload_route A t (fl_id_text E i) f data) A t))) \<rparr>"

end
