(* ===== verification/Docker_Guarantees.thy ===== *)
theory Docker_Guarantees
  imports Docker_Provider
begin

text \<open>
  What the provider of \<open>Docker_Provider\<close> guarantees, given how Docker behaves: it acts on the one container of
  the session and only if it carries the OpenRBI label, each successful operation refines a small abstract
  sandbox, and the listing of downloads is read back exactly.
\<close>

section \<open>The behaviour of Docker relied on\<close>

text \<open>
  \<open>view w\<close> are the containers of the engine by name. Nobody else changes them during one operation. A call
  that names a container by id changes at most that one, and never its id or labels.
\<close>

definition updated :: "('w \<Rightarrow> string \<Rightarrow> container option) \<Rightarrow> string \<Rightarrow> (container \<Rightarrow> container \<Rightarrow> bool) \<Rightarrow> 'w \<Rightarrow> 'w \<Rightarrow> bool" where
  "updated view i P w w' =
     (\<forall>n. case view w n of
        None \<Rightarrow> view w' n = None
      | Some c \<Rightarrow>
          if ct_id c = i
          then \<exists>c'. view w' n = Some c' \<and> ct_id c' = i \<and> ct_labels c' = ct_labels c \<and> P c c'
          else view w' n = Some c)"

definition law_ids :: "('w \<Rightarrow> string \<Rightarrow> container option) \<Rightarrow> bool" where
  "law_ids view = (\<forall>w n m c d. view w n = Some c \<longrightarrow> view w m = Some d \<longrightarrow> ct_id c = ct_id d \<longrightarrow> n = m)"

definition law_get :: "'w engine \<Rightarrow> ('w \<Rightarrow> string \<Rightarrow> container option) \<Rightarrow> bool" where
  "law_get D view =
     (\<forall>n w r w'. containers_get D n w = (r, w') \<longrightarrow>
        view w' = view w \<and> (\<forall>c. r = Inr c \<longrightarrow> view w n = Some c) \<and> (\<forall>m. r = Inl (Not_found m) \<longrightarrow> view w n = None))"

definition law_reload :: "'w engine \<Rightarrow> ('w \<Rightarrow> string \<Rightarrow> container option) \<Rightarrow> bool" where
  "law_reload D view =
     (\<forall>i w r w'. container_reload D i w = (r, w') \<longrightarrow>
        view w' = view w \<and> (\<forall>c. r = Inr c \<longrightarrow> ct_id c = i \<and> (\<exists>n. view w n = Some c)))"

definition law_network :: "'w engine \<Rightarrow> ('w \<Rightarrow> string \<Rightarrow> container option) \<Rightarrow> bool" where
  "law_network D view =
     (\<forall>n w r w'. networks_get D n w = (r, w') \<longrightarrow> view w' = view w \<and> (\<forall>net. r = Inr net \<longrightarrow> net = n))"

definition law_stats :: "'w engine \<Rightarrow> ('w \<Rightarrow> string \<Rightarrow> container option) \<Rightarrow> bool" where
  "law_stats D view =
     (\<forall>i w. view (snd (container_stats_of D i w)) = view w)"

definition law_create :: "'w engine \<Rightarrow> ('w \<Rightarrow> string \<Rightarrow> container option) \<Rightarrow> bool" where
  "law_create D view =
     (\<forall>opts w r w'. containers_create D opts w = (r, w') \<longrightarrow>
        (case r of
           Inl _ \<Rightarrow> view w' = view w
         | Inr _ \<Rightarrow> view w (co_name opts) = None \<and> (\<exists>c. view w' = (view w)(co_name opts \<mapsto> c)
             \<and> (\<forall>k v. map_of (co_labels opts) k = Some v \<longrightarrow> label c k = Some v)
             \<and> ct_status c = ''created'' \<and> map fst (ct_networks c) = [co_network opts])))"

definition law_start :: "'w engine \<Rightarrow> ('w \<Rightarrow> string \<Rightarrow> container option) \<Rightarrow> bool" where
  "law_start D view =
     (\<forall>i w r w'. container_start D i w = (r, w') \<longrightarrow>
        updated view i (\<lambda>c c'. map fst (ct_networks c') = map fst (ct_networks c)
          \<and> (r = Inr () \<longrightarrow> ct_status c' = ''running'')) w w')"

definition law_remove :: "'w engine \<Rightarrow> ('w \<Rightarrow> string \<Rightarrow> container option) \<Rightarrow> bool" where
  "law_remove D view =
     (\<forall>i w r w'. container_remove D i w = (r, w') \<longrightarrow>
        (\<forall>n. view w' n = view w n \<or> view w' n = None \<and> (\<exists>c. view w n = Some c \<and> ct_id c = i))
      \<and> (r = Inr () \<longrightarrow> (\<forall>n c. view w' n = Some c \<longrightarrow> ct_id c \<noteq> i)))"

definition law_disconnect :: "'w engine \<Rightarrow> ('w \<Rightarrow> string \<Rightarrow> container option) \<Rightarrow> bool" where
  "law_disconnect D view =
     (\<forall>net i w r w'. network_disconnect D net i w = (r, w') \<longrightarrow>
        updated view i (\<lambda>c c'. ct_status c' = ct_status c
          \<and> ct_networks c' = (if r = Inr () then filter (\<lambda>x. fst x \<noteq> net) (ct_networks c) else ct_networks c)) w w')"

definition law_connect :: "'w engine \<Rightarrow> ('w \<Rightarrow> string \<Rightarrow> container option) \<Rightarrow> bool" where
  "law_connect D view =
     (\<forall>net i w r w'. network_connect D net i w = (r, w') \<longrightarrow>
        updated view i (\<lambda>c c'. ct_status c' = ct_status c
          \<and> fst ` set (ct_networks c') = (if r = Inr () then {net} else {}) \<union> fst ` set (ct_networks c)) w w')"

text \<open>A process started in a container affects at most that container; \<open>exec_of\<close> gives the container of an exec.\<close>

definition law_exec :: "'w engine \<Rightarrow> ('w \<Rightarrow> string \<Rightarrow> container option) \<Rightarrow> (string \<Rightarrow> string) \<Rightarrow> bool" where
  "law_exec D view exec_of =
     ((\<forall>i cmd w. updated view i (\<lambda>_ _. True) w (snd (exec_run D i cmd w)))
    \<and> (\<forall>i cmd w. updated view i (\<lambda>_ _. True) w (snd (exec_create D i cmd w)))
    \<and> (\<forall>i cmd w e w'. exec_create D i cmd w = (Inr e, w') \<longrightarrow> exec_of e = i)
    \<and> (\<forall>e bs w. updated view (exec_of e) (\<lambda>_ _. True) w (snd (exec_feed D e bs w)))
    \<and> (\<forall>e w. updated view (exec_of e) (\<lambda>_ _. True) w (snd (exec_inspect D e w))))"

definition engine_laws :: "'w engine \<Rightarrow> ('w \<Rightarrow> string \<Rightarrow> container option) \<Rightarrow> (string \<Rightarrow> string) \<Rightarrow> bool" where
  "engine_laws D view exec_of =
     (law_ids view \<and> law_get D view \<and> law_reload D view \<and> law_network D view \<and> law_stats D view \<and> law_create D view
    \<and> law_start D view \<and> law_remove D view \<and> law_disconnect D view \<and> law_connect D view \<and> law_exec D view exec_of)"

section \<open>Sequencing\<close>

lemma and_then_eq:
  "and_then m f w = (r, w'') \<longleftrightarrow>
     (\<exists>e w'. m w = (Inl e, w') \<and> r = Inl e \<and> w'' = w') \<or> (\<exists>x w'. m w = (Inr x, w') \<and> f x w' = (r, w''))"
  by (auto simp: and_then_def split: prod.split sum.split)

lemma give_eq: "give x w = (r, w') \<longleftrightarrow> r = Inr x \<and> w' = w"
  by (auto simp: give_def)

lemma fail_eq: "fail e w = (r, w') \<longleftrightarrow> r = Inl e \<and> w' = w"
  by (auto simp: fail_def)

lemmas call_simps = and_then_eq give_eq fail_eq

section \<open>Only the container of the session\<close>

text \<open>
  \<open>owns view n i w\<close>: the container named n has the id i and carries the label. \<open>confined view n i m\<close>: from such a
  state, m keeps it so and leaves every other name alone.
\<close>

definition owns :: "('w \<Rightarrow> string \<Rightarrow> container option) \<Rightarrow> string \<Rightarrow> string \<Rightarrow> 'w \<Rightarrow> bool" where
  "owns view n i w = (\<exists>c. view w n = Some c \<and> ct_id c = i \<and> label c MANAGED_LABEL = Some ''true'')"

definition confined :: "('w \<Rightarrow> string \<Rightarrow> container option) \<Rightarrow> string \<Rightarrow> string \<Rightarrow> ('a, 'w) provider_call \<Rightarrow> bool" where
  "confined view n i m =
     (\<forall>w. owns view n i w \<longrightarrow> owns view n i (snd (m w)) \<and> (\<forall>k. k \<noteq> n \<longrightarrow> view (snd (m w)) k = view w k))"

lemma confined_give [intro]: "confined view n i (give x)"
  by (simp add: confined_def give_def)

lemma confined_fail [intro]: "confined view n i (fail e)"
  by (simp add: confined_def fail_def)

lemma confined_then [intro]:
  assumes "confined view n i m" and "\<And>x. confined view n i (f x)"
  shows "confined view n i (and_then m f)"
  unfolding confined_def
proof (intro allI impI)
  fix w assume o: "owns view n i w"
  show "owns view n i (snd (and_then m f w)) \<and> (\<forall>k. k \<noteq> n \<longrightarrow> view (snd (and_then m f w)) k = view w k)"
  proof (cases "m w")
    case (Pair r w')
    have 1: "owns view n i w'" "\<And>k. k \<noteq> n \<Longrightarrow> view w' k = view w k"
      using assms(1) o Pair unfolding confined_def by force+
    show ?thesis
    proof (cases r)
      case (Inr x)
      then show ?thesis using 1 Pair assms(2) [of x] unfolding confined_def and_then_def by simp
    qed (use 1 Pair in \<open>simp add: and_then_def\<close>)
  qed
qed

lemma confined_if:
  "(P \<Longrightarrow> confined view n i m) \<Longrightarrow> (\<not> P \<Longrightarrow> confined view n i m') \<Longrightarrow> confined view n i (if P then m else m')"
  by simp

text \<open>The same with what the first call is known to return.\<close>

lemma confined_then_returning:
  assumes "confined view n i m" and "\<And>w x w'. m w = (Inr x, w') \<Longrightarrow> Q x" and "\<And>x. Q x \<Longrightarrow> confined view n i (f x)"
  shows "confined view n i (and_then m f)"
proof -
  have "and_then m f = and_then m (\<lambda>x. if Q x then f x else fail (Value_error []))"
    using assms(2) by (fastforce simp: and_then_def fun_eq_iff split: prod.split sum.split)
  then show ?thesis using assms(1,3) by (auto intro!: confined_then)
qed

lemma updated_confined:
  assumes ids: "\<And>w n m c d. view w n = Some c \<Longrightarrow> view w m = Some d \<Longrightarrow> ct_id c = ct_id d \<Longrightarrow> n = m"
    and u: "\<And>w. updated view i (P w) w (snd (m w))"
  shows "confined view n i m"
  unfolding confined_def
proof (intro allI impI conjI)
  fix w assume "owns view n i w"
  then obtain c where c: "view w n = Some c" "ct_id c = i" "label c MANAGED_LABEL = Some ''true''"
    by (auto simp: owns_def)
  then show "owns view n i (snd (m w))"
    using u [of w, unfolded updated_def, rule_format, of n] by (auto simp: owns_def label_def)
  fix k assume "k \<noteq> n"
  then have "view w k = Some d \<Longrightarrow> ct_id d \<noteq> i" for d using ids [OF c(1)] c(2) by metis
  then show "view (snd (m w)) k = view w k"
    using u [of w, unfolded updated_def, rule_format, of k] by (auto split: option.splits)
qed

lemma same_view_confined: "(\<And>w. view (snd (m w)) = view w) \<Longrightarrow> confined view n i m"
  by (simp add: confined_def owns_def)

text \<open>\<open>frames view n m\<close>: m changes at most the container named n, and that only if it carries the label.\<close>

definition frames :: "('w \<Rightarrow> string \<Rightarrow> container option) \<Rightarrow> string \<Rightarrow> ('a, 'w) provider_call \<Rightarrow> bool" where
  "frames view n m =
     (\<forall>w. (\<forall>k. k \<noteq> n \<longrightarrow> view (snd (m w)) k = view w k)
        \<and> (\<forall>c. view w n = Some c \<longrightarrow> label c MANAGED_LABEL \<noteq> Some ''true'' \<longrightarrow> view (snd (m w)) n = Some c))"

lemma engine_lawsD:
  assumes "engine_laws D view ex"
  shows "law_ids view" and "law_get D view" and "law_reload D view" and "law_network D view" and "law_stats D view"
    and "law_create D view" and "law_start D view" and "law_remove D view" and "law_disconnect D view"
    and "law_connect D view" and "law_exec D view ex"
  using assms by (simp_all add: engine_laws_def)

lemma engine_ids:
  assumes "engine_laws D view ex" and "view w n = Some c" and "view w m = Some d" and "ct_id c = ct_id d"
  shows "n = m"
  using engine_lawsD(1) [OF assms(1)] assms(2-4) unfolding law_ids_def by blast

lemma engine_get:
  assumes "engine_laws D view ex" and "containers_get D n w = (r, w')"
  shows "view w' = view w" and "r = Inr c \<Longrightarrow> view w n = Some c" and "r = Inl (Not_found m) \<Longrightarrow> view w n = None"
  using engine_lawsD(2) [OF assms(1)] assms(2) unfolding law_get_def by blast+

lemma engine_reload:
  assumes "engine_laws D view ex" and "container_reload D i w = (r, w')"
  shows "view w' = view w" and "r = Inr c \<Longrightarrow> ct_id c = i \<and> (\<exists>n. view w n = Some c)"
  using engine_lawsD(3) [OF assms(1)] assms(2) unfolding law_reload_def by blast+

lemma engine_network:
  assumes "engine_laws D view ex" and "networks_get D n w = (r, w')"
  shows "view w' = view w" and "r = Inr net \<Longrightarrow> net = n"
  using engine_lawsD(4) [OF assms(1)] assms(2) unfolding law_network_def by blast+

lemma updated_any: "updated view i P w w' \<Longrightarrow> updated view i (\<lambda>_ _. True) w w'"
  unfolding updated_def by (fastforce split: option.splits if_splits)

lemma engine_writes_updated:
  assumes "engine_laws D view ex"
  shows "updated view i (\<lambda>_ _. True) w (snd (container_start D i w))"
    and "updated view i (\<lambda>_ _. True) w (snd (network_disconnect D net i w))"
    and "updated view i (\<lambda>_ _. True) w (snd (network_connect D net i w))"
  using engine_lawsD(7,9,10) [OF assms] unfolding law_start_def law_disconnect_def law_connect_def
  by (blast intro: updated_any prod.collapse [symmetric])+

lemma engine_execs_updated:
  assumes "engine_laws D view ex"
  shows "updated view i (\<lambda>_ _. True) w (snd (exec_run D i cmd w))"
    and "updated view i (\<lambda>_ _. True) w (snd (exec_create D i cmd w))"
    and "updated view (ex e) (\<lambda>_ _. True) w (snd (exec_feed D e bs w))"
    and "updated view (ex e) (\<lambda>_ _. True) w (snd (exec_inspect D e w))"
    and "exec_create D i cmd w = (Inr e, w') \<Longrightarrow> ex e = i"
  using engine_lawsD(11) [OF assms] unfolding law_exec_def by blast+

lemma confined_engine:
  assumes "engine_laws D view ex"
  shows "confined view n i (container_start D i)" and "confined view n i (network_disconnect D net i)"
    and "confined view n i (network_connect D net i)" and "confined view n i (exec_run D i cmd)"
    and "confined view n i (exec_create D i cmd)" and "confined view n (ex e) (exec_feed D e bs)"
    and "confined view n (ex e) (exec_inspect D e)"
    and "confined view n i (container_reload D j)" and "confined view n i (networks_get D k)"
    and "confined view n i (container_stats_of D j)"
  by (rule updated_confined, rule engine_ids [OF assms], assumption+,
      rule engine_writes_updated [OF assms] engine_execs_updated [OF assms])+
    (rule same_view_confined, metis engine_reload(1) [OF assms] engine_network(1) [OF assms] prod.collapse,
     rule same_view_confined, metis engine_network(1) [OF assms] prod.collapse,
     rule same_view_confined, use engine_lawsD(5) [OF assms] in \<open>simp add: law_stats_def\<close>)


lemma confined_reload:
  assumes "engine_laws D view ex" and "\<And>c. ct_id c = i \<Longrightarrow> confined view n i (f c)"
  shows "confined view n i (and_then (container_reload D i) f)"
  by (rule confined_then_returning [where Q = "\<lambda>c. ct_id c = i"])
    (use confined_engine(8) [OF assms(1)] engine_reload(2) [OF assms(1)] assms(2) in blast)+

lemma confined_disconnect_all:
  assumes "engine_laws D view ex"
  shows "confined view n i (disconnect_all D i ns)"
  by (induction ns) (auto intro: confined_engine [OF assms])

lemma confined_await_exit:
  assumes "engine_laws D view ex" and "ex e = i"
  shows "confined view n i (await_exit D k e)"
  unfolding assms(2) [symmetric]
  by (induction k) (auto simp del: not_None_eq intro!: confined_then confined_if confined_engine(7) [OF assms(1)])

lemma get_managed_container_eq:
  assumes "engine_laws D view ex" and "get_managed_container D i w = (r, w')"
  shows "view w' = view w"
    and "r = Inr c \<Longrightarrow> view w (container_name i) = Some c \<and> label c MANAGED_LABEL = Some ''true'' \<and> label c SESSION_LABEL = Some i"
    and "r = Inl (Not_found m) \<Longrightarrow> view w (container_name i) = None"
  using assms(2) engine_get [OF assms(1)]
  by (auto simp: get_managed_container_def call_simps split: if_splits)

text \<open>Whatever runs on the container that was looked up stays within it.\<close>

lemma frames_managed:
  assumes "engine_laws D view ex" and "\<And>c. confined view (container_name i) (ct_id c) (f c)"
  shows "frames view (container_name i) (and_then (get_managed_container D i) f)"
  unfolding frames_def
proof (intro allI conjI impI)
  fix w
  let ?m = "and_then (get_managed_container D i) f"
  obtain r w' where g: "get_managed_container D i w = (r, w')" by (metis prod.exhaust)
  have v: "view w' = view w" by (rule get_managed_container_eq(1) [OF assms(1) g])
  show "view (snd (?m w)) k = view w k" if "k \<noteq> container_name i" for k
  proof (cases r)
    case (Inr c)
    then have "owns view (container_name i) (ct_id c) w'"
      using get_managed_container_eq(2) [OF assms(1) g] v by (simp add: owns_def)
    then show ?thesis using assms(2) [of c] g Inr v that unfolding confined_def by (simp add: and_then_def)
  qed (use g v in \<open>simp add: and_then_def\<close>)
  show "view (snd (?m w)) (container_name i) = Some c"
    if "view w (container_name i) = Some c" "label c MANAGED_LABEL \<noteq> Some ''true''" for c
    using get_managed_container_eq(2) [OF assms(1) g] g v that
    by (cases r) (auto simp: and_then_def)
qed

lemma snd_ignored: "snd (ignored m w) = snd (m w)"
  by (simp add: ignored_def and_then_def give_def split: prod.split sum.split)

lemma frames_ignored: "frames view n m \<Longrightarrow> frames view n (ignored m)"
  by (simp add: frames_def snd_ignored)

lemma frames_create:
  assumes "engine_laws D view ex"
  shows "frames view (container_name i) (create_session_sync D i cf)"
  unfolding frames_def
proof (intro allI conjI impI)
  fix w
  obtain r w' where g: "containers_get D (container_name i) w = (r, w')" by (metis prod.exhaust)
  note get = engine_get [OF assms g]
  obtain q v where c: "containers_create D (sandbox_options i cf) w' = (q, v)" by (metis prod.exhaust)
  have create: "view v = view w' \<or> view w' (container_name i) = None \<and> (\<exists>c. view v = (view w')(container_name i \<mapsto> c))"
    using engine_lawsD(6) [OF assms, unfolded law_create_def, rule_format, OF c]
    by (auto simp: sandbox_options_def split: sum.splits)
  have res: "snd (create_session_sync D i cf w) = w' \<or> snd (create_session_sync D i cf w) = v"
    using g c by (auto simp: create_session_sync_def fail_def give_def split: sum.splits provider_error.splits)
  show "view (snd (create_session_sync D i cf w)) k = view w k" if "k \<noteq> container_name i" for k
    using res create get(1) that by auto
  show "view (snd (create_session_sync D i cf w)) (container_name i) = Some c" if "view w (container_name i) = Some c" for c
    using res create get(1) that by auto
qed

lemma frames_terminate:
  assumes "engine_laws D view ex"
  shows "frames view (container_name i) (terminate_session_sync D i)"
  unfolding frames_def
proof (intro allI conjI impI)
  fix w
  obtain r w' where g: "containers_get D (container_name i) w = (r, w')" by (metis prod.exhaust)
  note get = engine_get [OF assms g]
  have rem: "view (snd (container_remove D j w')) k = view w' k \<or> (\<exists>c. view w' k = Some c \<and> ct_id c = j)" for j k
    using engine_lawsD(8) [OF assms, unfolded law_remove_def, rule_format, OF prod.collapse [symmetric], THEN conjunct1]
    by blast
  have removed: "view (snd (container_remove D (ct_id c) w')) k = view w k" if "r = Inr c" "k \<noteq> container_name i" for c k
    using rem [of "ct_id c" k] engine_ids [OF assms, of w "container_name i" c k] get(1) get(2) [OF that(1)] that(2) by metis
  show "view (snd (terminate_session_sync D i w)) k = view w k" if "k \<noteq> container_name i" for k
    using get g removed [OF _ that]
    by (auto simp: terminate_session_sync_def fail_def give_def split: sum.splits provider_error.splits)
  show "view (snd (terminate_session_sync D i w)) (container_name i) = Some c"
    if "view w (container_name i) = Some c" "label c MANAGED_LABEL \<noteq> Some ''true''" for c
    using get g that
    by (auto simp: terminate_session_sync_def fail_def give_def split: sum.splits provider_error.splits)
qed


lemmas confined_rules = confined_then confined_give confined_fail confined_if

lemmas confined_calls = confined_reload confined_disconnect_all confined_await_exit confined_engine(1-5,8-10)

lemma confined_exec_create:
  assumes "engine_laws D view ex" and "\<And>e. ex e = i \<Longrightarrow> confined view n i (f e)"
  shows "confined view n i (and_then (exec_create D i cmd) f)"
  by (rule confined_then_returning [where Q = "\<lambda>e. ex e = i"])
    (use confined_engine(5) [OF assms(1)] engine_execs_updated(5) [OF assms(1)] assms(2) in blast)+

lemma frames_start:
  assumes "engine_laws D view ex"
  shows "frames view (container_name i) (start_session_sync D i)"
  unfolding start_session_sync_def
  by (intro frames_managed [OF assms] confined_reload [OF assms] confined_if) (auto intro: confined_calls [OF assms])

lemma frames_isolate:
  assumes "engine_laws D view ex"
  shows "frames view (container_name i) (isolate_session_sync D i)"
  unfolding isolate_session_sync_def
  by (intro frames_managed [OF assms] confined_reload [OF assms]) (auto intro: confined_calls [OF assms])

lemma frames_restore:
  assumes "engine_laws D view ex"
  shows "frames view (container_name i) (restore_session_sync D i)"
proof -
  have "confined view n j (reattach D k j)" for n j k
    unfolding reattach_def
    by (intro confined_reload [OF assms] confined_if) (auto intro: confined_calls [OF assms])
  then show ?thesis
    unfolding restore_session_sync_def by (intro frames_managed [OF assms]) (auto split: option.split)
qed

lemma frames_observe:
  assumes "engine_laws D view ex"
  shows "frames view (container_name i) (get_status_sync D i)"
    and "frames view (container_name i) (get_metrics_sync D i)"
    and "frames view (container_name i) (get_display_info_sync D i)"
proof -
  have "view (snd (get_status_sync D i w)) = view w" for w
  proof -
    obtain r w' where g: "get_managed_container D i w = (r, w')" by (metis prod.exhaust)
    then show ?thesis using get_managed_container_eq(1) [OF assms g]
      by (auto simp: get_status_sync_def fail_def give_def and_then_def dest!: engine_reload(1) [OF assms]
          split: sum.splits provider_error.splits prod.splits)
  qed
  then show "frames view (container_name i) (get_status_sync D i)" by (simp add: frames_def)
  show "frames view (container_name i) (get_metrics_sync D i)"
    unfolding get_metrics_sync_def by (intro frames_managed [OF assms]) (auto intro: confined_calls [OF assms])
  show "frames view (container_name i) (get_display_info_sync D i)"
    unfolding get_display_info_sync_def Let_def
    by (intro frames_managed [OF assms] confined_reload [OF assms]) (auto split: option.split list.split)
qed

lemma frames_downloads:
  assumes "engine_laws D view ex"
  shows "frames view (container_name i) (list_downloads_sync D i)"
    and "frames view (container_name i) (fetch_download_sync D i f)"
    and "frames view (container_name i) (delete_download_sync D i f)"
  unfolding list_downloads_sync_def fetch_download_sync_def delete_download_sync_def Let_def case_prod_unfold
  by (intro frames_managed [OF assms] confined_rules; auto intro!: confined_rules confined_calls [OF assms])+

lemma frames_upload:
  assumes "engine_laws D view ex"
  shows "frames view (container_name i) (write_upload_sync D i f data)"
  unfolding write_upload_sync_def Let_def case_prod_unfold
proof (intro frames_managed [OF assms] confined_exec_create [OF assms])
  fix c e assume "ex e = ct_id c"
  then have "confined view (container_name i) (ct_id c) (exec_feed D e data)"
    "confined view (container_name i) (ct_id c) (await_exit D 30 e)"
    using confined_engine(6) [OF assms, of _ e] confined_await_exit [OF assms] by metis+
  then show "confined view (container_name i) (ct_id c) (and_then (exec_feed D e data) (\<lambda>_.
      and_then (await_exit D 30 e) (\<lambda>exit_code.
        if exit_code \<notin> {Some 0, None}
        then fail (Runtime_error (''upload write failed for '' @ f @ '': exit '' @ exit_text exit_code))
        else and_then (exec_run D (ct_id c) [''stat'', ''-c'', ''%s'', UPLOAD_DIR @ ''/'' @ f]) (\<lambda>p.
          if fst p \<noteq> 0
          then fail (Runtime_error (''upload write could not be verified for '' @ f @ '' (exit_code='' @ exit_text exit_code @ '')''))
          else case reported_size (snd p) of
              None \<Rightarrow> fail (Value_error ''invalid literal for int() with base 10'')
            | Some n \<Rightarrow>
                if n \<noteq> int (length data)
                then fail (Runtime_error (''upload write could not be verified for '' @ f @ '' (exit_code='' @ exit_text exit_code @ '')''))
                else give ()))))"
    by (intro confined_rules) (auto intro: confined_rules confined_calls [OF assms] split: option.split)
qed


lemma frames_perform:
  assumes "engine_laws D view ex"
  shows "frames view (container_name i) (perform D i op)"
  by (cases op) (auto intro!: frames_ignored frames_create [OF assms] frames_start [OF assms]
      frames_isolate [OF assms] frames_restore [OF assms] frames_terminate [OF assms]
      frames_observe [OF assms] frames_downloads [OF assms] frames_upload [OF assms])

text \<open>
  C15. Whatever the agent does for a session, with whatever outcome, it leaves every container but the
  session's own alone, and that one too if it does not carry the OpenRBI label.
\<close>

theorem only_own_managed_container_touched:
  assumes "engine_laws D view exec_of" and "perform D i op w = (r, w')"
  shows "(\<forall>k. k \<noteq> container_name i \<longrightarrow> view w' k = view w k)
    \<and> (\<forall>c. view w (container_name i) = Some c \<longrightarrow> label c MANAGED_LABEL \<noteq> Some ''true''
          \<longrightarrow> view w' (container_name i) = Some c)"
proof -
  have "frames view (container_name i) (perform D i op)"
    by (rule frames_perform [OF assms(1)])
  then show ?thesis using assms(2) unfolding frames_def by (metis snd_conv)
qed

section \<open>Refinement of an abstract sandbox\<close>

text \<open>
  The contract of \<open>SandboxProvider\<close>: a sandbox does not exist, or has a run state, the networks it is attached
  to and the one it returns to.
\<close>

datatype sandbox = Absent | Sandbox string "string set" "string option"

definition sandbox_of :: "('w \<Rightarrow> string \<Rightarrow> container option) \<Rightarrow> string \<Rightarrow> 'w \<Rightarrow> sandbox" where
  "sandbox_of view i w =
     (case view w (container_name i) of
        None \<Rightarrow> Absent
      | Some c \<Rightarrow> Sandbox (ct_status c) (fst ` set (ct_networks c)) (label c NETWORK_LABEL))"

fun sandbox_step :: "string \<Rightarrow> sandbox_op \<Rightarrow> sandbox \<Rightarrow> sandbox" where
  "sandbox_step i (Op_create cf) Absent =
     Sandbox ''created'' {sc_network_name cf} (map_of (sandbox_labels i cf) NETWORK_LABEL)"
| "sandbox_step i Op_start (Sandbox st ns h) = Sandbox ''running'' ns h"
| "sandbox_step i Op_isolate (Sandbox st ns h) = Sandbox st {} h"
| "sandbox_step i Op_restore (Sandbox st ns (Some h)) = Sandbox st (insert h ns) (Some h)"
| "sandbox_step i Op_terminate sb = Absent"
| "sandbox_step i _ sb = sb"

fun status_of_sandbox :: "sandbox \<Rightarrow> sandbox_runtime_status" where
  "status_of_sandbox Absent = Sb_not_found"
| "status_of_sandbox (Sandbox st ns h) =
     (if st = ''running'' then if ns = {} then Sb_isolated else Sb_running
      else if st = ''created'' then Sb_created
      else if st = ''exited'' \<or> st = ''dead'' then Sb_exited
      else Sb_error)"

text \<open>The two halves of an operation on a labelled container: finding it, and the call on its id.\<close>

lemma managed_result:
  assumes "engine_laws D view ex" and "and_then (get_managed_container D i) f w = (Inr x, w'')"
  obtains c w' where "view w' = view w" and "view w' (container_name i) = Some c" and "f c w' = (Inr x, w'')"
proof -
  obtain c w' where c: "get_managed_container D i w = (Inr c, w')" "f c w' = (Inr x, w'')"
    using assms(2) by (auto simp: and_then_eq)
  show ?thesis
    using that [OF get_managed_container_eq(1) [OF assms(1) c(1)] _ c(2)] get_managed_container_eq(1,2) [OF assms(1) c(1)]
    by simp
qed

lemma reload_result:
  assumes "engine_laws D view ex" and "view w n = Some c"
    and "and_then (container_reload D (ct_id c)) f w = (Inr x, w'')"
  obtains w' where "view w' = view w" and "f c w' = (Inr x, w'')"
proof -
  obtain d w' where d: "container_reload D (ct_id c) w = (Inr d, w')" "f d w' = (Inr x, w'')"
    using assms(3) by (auto simp: and_then_eq)
  have "view w' = view w" "ct_id d = ct_id c" "\<exists>m. view w m = Some d"
    using engine_reload [OF assms(1) d(1)] by auto
  moreover then have "d = c" using engine_ids [OF assms(1) assms(2)] assms(2) by (metis option.inject)
  ultimately show ?thesis using that d(2) by blast
qed

lemma updated_at:
  assumes "updated view i P w w'" and "view w n = Some c" and "ct_id c = i"
  obtains c' where "view w' n = Some c'" and "ct_id c' = i" and "ct_labels c' = ct_labels c" and "P c c'"
proof -
  have "\<exists>c'. view w' n = Some c' \<and> ct_id c' = i \<and> ct_labels c' = ct_labels c \<and> P c c'"
    using assms(1) [unfolded updated_def, rule_format, of n] assms(2,3) by simp
  then show ?thesis using that by blast
qed

lemma disconnect_all_result:
  assumes "engine_laws D view ex" and "disconnect_all D i ns w = (Inr (), w')" and "view w n = Some c" and "ct_id c = i"
  shows "\<exists>c'. view w' n = Some c' \<and> ct_labels c' = ct_labels c \<and> ct_status c' = ct_status c
    \<and> ct_networks c' = filter (\<lambda>x. fst x \<notin> set ns) (ct_networks c)"
  using assms(2-)
proof (induction ns arbitrary: w c)
  case (Cons m ns)
  obtain net w1 w2 where steps: "networks_get D m w = (Inr net, w1)" "network_disconnect D net i w1 = (Inr (), w2)"
    "disconnect_all D i ns w2 = (Inr (), w')"
    using Cons.prems(1) by (auto simp: and_then_eq)
  have w1: "view w1 = view w" "net = m" using engine_network [OF assms(1) steps(1)] by auto
  obtain d where d: "view w2 n = Some d" "ct_id d = i" "ct_labels d = ct_labels c" "ct_status d = ct_status c"
    "ct_networks d = filter (\<lambda>x. fst x \<noteq> m) (ct_networks c)"
    using updated_at [OF engine_lawsD(9) [OF assms(1), unfolded law_disconnect_def, rule_format, OF steps(2)], of n c]
      w1 Cons.prems(2,3) by auto
  show ?case using Cons.IH [OF steps(3) d(1,2)] d by (auto simp: conj_commute)
qed (simp add: give_def)


lemma create_refines:
  assumes "engine_laws D view ex" and "create_session_sync D i cf w = (Inr (), w')"
  shows "sandbox_of view i w' = sandbox_step i (Op_create cf) (sandbox_of view i w)"
proof -
  obtain r v where g: "containers_get D (container_name i) w = (r, v)" by (metis prod.exhaust)
  note get = engine_get [OF assms(1) g]
  show ?thesis
  proof (cases r)
    case (Inr c)
    then have "view w' = view v" "view w (container_name i) = Some c" using g assms(2) get(2)
      by (auto simp: create_session_sync_def call_simps split: if_splits)
    then show ?thesis using get(1) by (simp add: sandbox_of_def)
  next
    case (Inl e)
    then obtain m where e: "r = Inl (Not_found m)" "containers_create D (sandbox_options i cf) v = (Inr (), w')"
      using g assms(2) by (auto simp: create_session_sync_def call_simps split: provider_error.splits)
    obtain c where c: "view w' = (view v)(container_name i \<mapsto> c)" "ct_status c = ''created''"
      "map fst (ct_networks c) = [sc_network_name cf]"
      "\<And>k t. map_of (sandbox_labels i cf) k = Some t \<Longrightarrow> label c k = Some t"
      using engine_lawsD(6) [OF assms(1), unfolded law_create_def, rule_format, OF e(2)]
      by (auto simp: sandbox_options_def)
    obtain t where t: "map_of (sandbox_labels i cf) NETWORK_LABEL = Some t"
      by (cases "map_of (sc_labels cf) NETWORK_LABEL") (auto simp: sandbox_labels_def merge_conv NETWORK_LABEL_def
          MANAGED_LABEL_def SESSION_LABEL_def map_add_def)
    have "fst ` set (ct_networks c) = {sc_network_name cf}" using c(3) by (metis list.simps(15) list.set(1) set_map)
    then show ?thesis using get(3) [OF e(1)] c(1,2) c(4) [OF t] t by (simp add: sandbox_of_def)
  qed
qed

lemma start_refines:
  assumes "engine_laws D view ex" and "start_session_sync D i w = (Inr (), w')"
  shows "sandbox_of view i w' = sandbox_step i Op_start (sandbox_of view i w)"
proof -
  from managed_result [OF assms(1) assms(2) [unfolded start_session_sync_def]] obtain c v where
    v: "view v = view w" "view v (container_name i) = Some c" and
    m: "and_then (container_reload D (ct_id c)) (\<lambda>c. if ct_status c \<noteq> ''running'' then container_start D (ct_id c) else give ()) v = (Inr (), w')"
    by blast
  from reload_result [OF assms(1) v(2) m] obtain u where u: "view u = view v"
    "(if ct_status c \<noteq> ''running'' then container_start D (ct_id c) else give ()) u = (Inr (), w')" by blast
  show ?thesis
  proof (cases "ct_status c = ''running''")
    case True
    then show ?thesis using u v by (simp add: give_def sandbox_of_def)
  next
    case False
    then have "container_start D (ct_id c) u = (Inr (), w')" using u(2) by simp
    from updated_at [OF engine_lawsD(7) [OF assms(1), unfolded law_start_def, rule_format, OF this], of "container_name i" c]
    obtain d where d: "view w' (container_name i) = Some d" "ct_labels d = ct_labels c"
      "map fst (ct_networks d) = map fst (ct_networks c)" "ct_status d = ''running''"
      using u(1) v(2) by auto
    then have "fst ` set (ct_networks d) = fst ` set (ct_networks c)" by (metis set_map)
    then show ?thesis using d v by (simp add: sandbox_of_def label_def)
  qed
qed

lemma isolate_refines:
  assumes "engine_laws D view ex" and "isolate_session_sync D i w = (Inr (), w')"
  shows "sandbox_of view i w' = sandbox_step i Op_isolate (sandbox_of view i w)"
proof -
  from managed_result [OF assms(1) assms(2) [unfolded isolate_session_sync_def]] obtain c v where
    v: "view v = view w" "view v (container_name i) = Some c" and
    m: "and_then (container_reload D (ct_id c)) (\<lambda>c. disconnect_all D (ct_id c) (map fst (ct_networks c))) v = (Inr (), w')"
    by blast
  from reload_result [OF assms(1) v(2) m] obtain u where u: "view u = view v"
    "disconnect_all D (ct_id c) (map fst (ct_networks c)) u = (Inr (), w')" by blast
  from disconnect_all_result [OF assms(1) u(2), of "container_name i" c] u(1) v(2)
  obtain d where "view w' (container_name i) = Some d" "ct_labels d = ct_labels c" "ct_status d = ct_status c"
    "ct_networks d = filter (\<lambda>x. fst x \<notin> set (map fst (ct_networks c))) (ct_networks c)"
    by auto
  moreover from this(4) have "ct_networks d = []" by (auto simp: filter_empty_conv)
  ultimately show ?thesis using v by (simp add: sandbox_of_def label_def)
qed

lemma reattach_refines:
  assumes "engine_laws D view ex" and "reattach D k (ct_id c) v = (Inr (), w')" and "view v n = Some c"
  obtains d where "view w' n = Some d" and "ct_labels d = ct_labels c" and "ct_status d = ct_status c"
    and "fst ` set (ct_networks d) = insert k (fst ` set (ct_networks c))"
proof -
  from reload_result [OF assms(1,3) assms(2) [unfolded reattach_def]] obtain u where u: "view u = view v"
    "(if k \<notin> fst ` set (ct_networks c) then and_then (networks_get D k) (\<lambda>net. network_connect D net (ct_id c))
      else give ()) u = (Inr (), w')" .
  show ?thesis
  proof (cases "k \<in> fst ` set (ct_networks c)")
    case True
    then show ?thesis using u assms(3) that [of c] by (simp add: give_def insert_absorb)
  next
    case False
    then obtain net u' where n: "networks_get D k u = (Inr net, u')" "network_connect D net (ct_id c) u' = (Inr (), w')"
      using u(2) by (auto simp: and_then_eq)
    have "view u' = view u" "net = k" using engine_network [OF assms(1) n(1)] by auto
    then show ?thesis
      using updated_at [OF engine_lawsD(10) [OF assms(1), unfolded law_connect_def, rule_format, OF n(2)], of n c]
        u(1) assms(3) that by auto
  qed
qed

lemma restore_refines:
  assumes "engine_laws D view ex" and "restore_session_sync D i w = (Inr (), w')"
  shows "sandbox_of view i w' = sandbox_step i Op_restore (sandbox_of view i w)"
proof -
  from managed_result [OF assms(1) assms(2) [unfolded restore_session_sync_def]] obtain c v where
    v: "view v = view w" "view v (container_name i) = Some c" and
    f: "(case label c NETWORK_LABEL of None \<Rightarrow> fail (Runtime_error (''session '' @ i @ '' has no recorded network to restore''))
       | Some k \<Rightarrow> if k = [] then fail (Runtime_error (''session '' @ i @ '' has no recorded network to restore''))
           else reattach D k (ct_id c)) v = (Inr (), w')" .
  obtain k where k: "label c NETWORK_LABEL = Some k" "reattach D k (ct_id c) v = (Inr (), w')"
    using f by (auto simp: fail_def split: option.splits if_splits)
  show ?thesis
    by (rule reattach_refines [OF assms(1) k(2) v(2)]) (use v k(1) in \<open>simp add: sandbox_of_def label_def\<close>)
qed

lemma terminate_refines:
  assumes "engine_laws D view ex" and "terminate_session_sync D i w = (Inr (), w')"
  shows "sandbox_of view i w' = Absent"
proof -
  obtain r v where g: "containers_get D (container_name i) w = (r, v)" by (metis prod.exhaust)
  note get = engine_get [OF assms(1) g]
  show ?thesis
  proof (cases r)
    case (Inl e)
    then obtain m where "r = Inl (Not_found m)" "w' = v"
      using g assms(2) by (auto simp: terminate_session_sync_def call_simps split: provider_error.splits)
    then show ?thesis using get by (simp add: sandbox_of_def)
  next
    case (Inr c)
    then have "container_remove D (ct_id c) v = (Inr (), w')"
      using g assms(2) by (auto simp: terminate_session_sync_def call_simps split: if_splits)
    from engine_lawsD(8) [OF assms(1), unfolded law_remove_def, rule_format, OF this]
    have "view w' (container_name i) = None \<or> view w' (container_name i) = view v (container_name i)"
      "\<And>d. view w' (container_name i) = Some d \<Longrightarrow> ct_id d \<noteq> ct_id c" by blast+
    then have "view w' (container_name i) = None" using get(1) get(2) [OF Inr] by auto
    then show ?thesis by (simp add: sandbox_of_def)
  qed
qed


primrec lifecycle :: "sandbox_op \<Rightarrow> bool" where
  "lifecycle (Op_create cf) = True"
| "lifecycle Op_start = True"
| "lifecycle Op_isolate = True"
| "lifecycle Op_restore = True"
| "lifecycle Op_terminate = True"
| "lifecycle Op_status = False"
| "lifecycle Op_metrics = False"
| "lifecycle Op_display = False"
| "lifecycle Op_list = False"
| "lifecycle (Op_fetch f) = False"
| "lifecycle (Op_delete f) = False"
| "lifecycle (Op_upload f data) = False"

lemma perform_refines:
  assumes "engine_laws D view ex" and "lifecycle op" and "perform D i op w = (Inr (), w')"
  shows "sandbox_of view i w' = sandbox_step i op (sandbox_of view i w)"
  using assms
  by (cases op) (auto dest: create_refines start_refines isolate_refines restore_refines terminate_refines)

lemma container_name_inj [simp]: "container_name i = container_name j \<longleftrightarrow> i = j"
  by (simp add: container_name_def)

lemma sandbox_of_container: "view w' (container_name j) = view w (container_name j) \<Longrightarrow> sandbox_of view j w' = sandbox_of view j w"
  by (simp add: sandbox_of_def)

lemma perform_frames:
  assumes "engine_laws D view ex" and "perform D i op w = (r, w')" and "j \<noteq> i"
  shows "sandbox_of view j w' = sandbox_of view j w"
  using frames_perform [OF assms(1), of i op, unfolded frames_def] assms(2,3)
  by (intro sandbox_of_container) (metis container_name_inj snd_conv)

text \<open>
  The contract as an interface: what a provider promises of a successful operation on a session, and of any
  operation on another one. A provider that keeps it runs every session's sandbox by its own operations.
\<close>

fun perform_all :: "(string \<Rightarrow> sandbox_op \<Rightarrow> (unit, 'w) provider_call) \<Rightarrow> (string \<times> sandbox_op) list \<Rightarrow> (unit, 'w) provider_call" where
  "perform_all act [] = give ()"
| "perform_all act ((i, op) # ops) = and_then (act i op) (\<lambda>_. perform_all act ops)"

definition ops_of :: "string \<Rightarrow> (string \<times> sandbox_op) list \<Rightarrow> sandbox_op list" where
  "ops_of j ops = map snd (filter (\<lambda>p. fst p = j) ops)"

locale sandbox_provider =
  fixes act :: "'p \<Rightarrow> string \<Rightarrow> sandbox_op \<Rightarrow> 'w \<Rightarrow> (provider_error + unit) \<times> 'w"
    and lawful :: "'p \<Rightarrow> ('w \<Rightarrow> string \<Rightarrow> container option) \<Rightarrow> bool"
  assumes refines: "lawful D view \<Longrightarrow> lifecycle op \<Longrightarrow> act D i op w = (Inr (), w')
      \<Longrightarrow> sandbox_of view i w' = sandbox_step i op (sandbox_of view i w)"
    and others: "lawful D view \<Longrightarrow> act D i op w = (r, w') \<Longrightarrow> j \<noteq> i \<Longrightarrow> sandbox_of view j w' = sandbox_of view j w"
begin

lemma runs_refine:
  assumes "lawful D view" and "list_all (\<lambda>p. lifecycle (snd p)) ops" and "perform_all (act D) ops w = (Inr (), w')"
  shows "sandbox_of view j w' = fold (sandbox_step j) (ops_of j ops) (sandbox_of view j w)"
  using assms(2,3)
proof (induction ops arbitrary: w)
  case (Cons p ops)
  obtain i op where p: "p = (i, op)" by (cases p)
  obtain v where v: "act D i op w = (Inr (), v)" "perform_all (act D) ops v = (Inr (), w')"
    using Cons.prems(2) p by (auto simp: and_then_eq)
  show ?case
  proof (cases "i = j")
    case True
    then show ?thesis using Cons.IH [OF _ v(2)] refines [OF assms(1) _ v(1)] Cons.prems(1) p by (simp add: ops_of_def)
  next
    case False
    then show ?thesis using Cons.IH [OF _ v(2)] others [OF assms(1) v(1)] Cons.prems(1) p by (simp add: ops_of_def)
  qed
qed (simp add: give_def ops_of_def)

end

definition lawful_engine :: "'w engine \<Rightarrow> ('w \<Rightarrow> string \<Rightarrow> container option) \<Rightarrow> bool" where
  "lawful_engine D view = (\<exists>ex. engine_laws D view ex)"

lemma lawful_provider: "sandbox_provider perform lawful_engine"
proof
  fix D :: "'w engine" and view op i w w'
  assume l: "lawful_engine D view"
  then obtain ex where ex: "engine_laws D view ex" by (auto simp: lawful_engine_def)
  show "sandbox_of view i w' = sandbox_step i op (sandbox_of view i w)"
    if "lifecycle op" "perform D i op w = (Inr (), w')"
    by (rule perform_refines [OF ex that])
  show "sandbox_of view j w' = sandbox_of view j w" if "perform D i op w = (r, w')" "j \<noteq> i" for r j
    by (rule perform_frames [OF ex that])
qed

interpretation docker: sandbox_provider perform lawful_engine
  by (rule lawful_provider)

lemma status_refines:
  assumes "engine_laws D view ex" and "get_status_sync D i w = (Inr s, w')"
  shows "ss_status s = status_of_sandbox (sandbox_of view i w)"
proof -
  obtain r v where g: "get_managed_container D i w = (r, v)" by (metis prod.exhaust)
  note get = get_managed_container_eq [OF assms(1) g]
  show ?thesis
  proof (cases r)
    case (Inl e)
    then obtain m where m: "e = Not_found m" "ss_status s = Sb_not_found"
      using g assms(2) by (cases e) (auto simp: get_status_sync_def give_def fail_def)
    then have "view w (container_name i) = None" using get(3) Inl by simp
    then show ?thesis using m by (simp add: sandbox_of_def)
  next
    case (Inr c)
    have c: "view v (container_name i) = Some c" "view v = view w" using get Inr by auto
    have "and_then (container_reload D (ct_id c)) (\<lambda>c.
        give \<lparr> ss_status = observed_status c, ss_container_id = Some (ct_id c), ss_started_at = ct_started_at c,
               ss_detail = Some (ct_status c) \<rparr>) v = (Inr s, w')"
      using g Inr assms(2) by (simp add: get_status_sync_def)
    then have "ss_status s = observed_status c"
      by (rule reload_result [OF assms(1) c(1)]) (auto simp: give_def)
    then show ?thesis using c by (simp add: sandbox_of_def observed_status_def)
  qed
qed

text \<open>
  C14. The Docker provider implements the abstract sandbox: after any sequence of successful operations on any
  sessions the sandbox of each session is where its own operations, run on the abstract machine, take it,
  and the status the agent reports is the one of the abstract sandbox.
\<close>

theorem provider_refines_sandbox:
  assumes "engine_laws D view exec_of" and "list_all (\<lambda>p. lifecycle (snd p)) ops"
    and "perform_all (perform D) ops w = (Inr (), w')"
  shows "sandbox_of view i w' = fold (sandbox_step i) (ops_of i ops) (sandbox_of view i w)
    \<and> (\<forall>s w''. get_status_sync D i w' = (Inr s, w'')
          \<longrightarrow> ss_status s = status_of_sandbox (fold (sandbox_step i) (ops_of i ops) (sandbox_of view i w)))"
proof -
  have "sandbox_of view i w' = fold (sandbox_step i) (ops_of i ops) (sandbox_of view i w)"
    using docker.runs_refine [OF _ assms(2,3)] assms(1) by (auto simp: lawful_engine_def)
  then show ?thesis using status_refines [OF assms(1), of i w'] by simp
qed

end
