(* ===== verification/Agent_Guarantees.thy ===== *)
theory Agent_Guarantees
  imports Agent_Routes Docker_Guarantees Session_Guarantees
begin

text \<open>
  The backend and its agents together: what a call of the backend does to the sandboxes of a fleet, and what
  ending or isolating a session therefore means for the container behind it.
\<close>

section \<open>The state of a sandbox in the fleet\<close>

definition fleet_sandbox ::
  "'w fleet_env \<Rightarrow> ('w \<Rightarrow> string \<Rightarrow> container option) \<Rightarrow> string \<Rightarrow> uuid \<Rightarrow> 'w fleet \<Rightarrow> sandbox option" where
  "fleet_sandbox E view url i w = map_option (\<lambda>s. sandbox_of view (fl_id_text E i) (snd s)) (w url)"

definition lawful_fleet :: "'w fleet_env \<Rightarrow> ('w \<Rightarrow> string \<Rightarrow> container option) \<Rightarrow> bool" where
  "lawful_fleet E view =
     ((\<forall>url. lawful_engine (ap_engine (fl_process E url)) view) \<and> (\<forall>i j. fl_id_text E i = fl_id_text E j \<longrightarrow> i = j))"

section \<open>From the client's call to the provider\<close>

lemma require_scope_ok:
  "require_scope st sc t h w = (Inr x, w') \<Longrightarrow> h w = (Inr x, w') \<and> authorized st sc t = Some True"
  by (auto simp: require_scope_def split: option.splits bool.splits)

lemma routes_ok:
  "user_route A t h w = (Inr x, w') \<Longrightarrow> h w = (Inr x, w') \<and> authorized (ap_settings A) User_scope t = Some True"
  "admin_route A t h w = (Inr x, w') \<Longrightarrow> h w = (Inr x, w') \<and> authorized (ap_settings A) Admin_scope t = Some True"
  by (auto simp: user_route_def admin_route_def dest!: require_scope_ok)

lemma bad_gateway_ok: "bad_gateway m w = (Inr x, w') \<longleftrightarrow> m w = (Inr x, w')"
  by (auto simp: bad_gateway_def split: prod.splits sum.splits)

text \<open>A refused or failed call of a handler becomes a response the client raises on.\<close>

lemma request_at_node:
  assumes "request (at_node E ok no_body f h) c w = (Inr x, w')" and "ok < 400"
    and "\<And>A t s e s'. h A t s = (Inl e, s') \<Longrightarrow> 400 \<le> fst e"
  obtains s y s' where "w (base_url c) = Some s" and "h (fl_process E (base_url c)) (token c) s = (Inr y, s')"
    and "w' = w(base_url c \<mapsto> s')"
proof -
  obtain s where s: "w (base_url c) = Some s"
    using assms(1) by (cases "w (base_url c)") (auto simp: request_def at_node_def split: if_splits)
  obtain r s' where r: "h (fl_process E (base_url c)) (token c) s = (r, s')" by (metis prod.exhaust)
  show ?thesis
  proof (cases r)
    case (Inl e)
    then have "400 \<le> fst e" using assms(3) r by blast
    then show ?thesis using assms(1) s r Inl by (auto simp: request_def at_node_def reply_of_def split: if_splits)
  next
    case (Inr y)
    then show ?thesis using assms(1,2) s r that by (auto simp: request_def at_node_def reply_of_def split: if_splits)
  qed
qed

lemma require_scope_fails:
  "require_scope st sc t h w = (Inl e, w') \<Longrightarrow> 400 \<le> fst e \<or> h w = (Inl e, w')"
  by (auto simp: require_scope_def split: option.splits bool.splits)

lemma route_fails:
  "user_route A t (bad_gateway m) w = (Inl e, w') \<Longrightarrow> 400 \<le> fst e"
  "admin_route A t (bad_gateway m) w = (Inl e, w') \<Longrightarrow> 400 \<le> fst e"
  by (auto simp: user_route_def admin_route_def bad_gateway_def dest!: require_scope_fails split: prod.splits sum.splits)

text \<open>Starting, isolating and restoring need the container.\<close>

lemma perform_exists:
  assumes "engine_laws D view ex" and "op \<in> {Op_start, Op_isolate, Op_restore}" and "perform D i op w = (Inr (), w')"
  shows "sandbox_of view i w \<noteq> Absent"
proof -
  have "\<exists>f. perform D i op = and_then (get_managed_container D i) f"
    using assms(2) by (auto simp: start_session_sync_def isolate_session_sync_def restore_session_sync_def)
  then obtain f where "and_then (get_managed_container D i) f w = (Inr (), w')" using assms(3) by auto
  then show ?thesis by (rule managed_result [OF assms(1)]) (simp add: sandbox_of_def)
qed

lemma on_engine_eq: "on_engine h s = (r, s') \<longleftrightarrow> (\<exists>w. h (snd s) = (r, w) \<and> s' = (fst s, w))"
  by (auto simp: on_engine_def split: prod.split)

text \<open>
  A successful call of the backend for a session does to its sandbox, on the node called, exactly the step of
  the abstract machine, and to no other sandbox of any node anything; and it succeeded only because the
  node's agent accepts the credential for the scope of the route (isolate and restore: admin).
\<close>

lemma agent_calls_act_on_the_sandbox:
  assumes "lawful_fleet E view" and "call (fleet_backend cf enc dec E) i c w = (Inr (), w')"
    and "(call, op, sc) \<in> {(start_sandbox, Op_start, User_scope), (isolate_sandbox, Op_isolate, Admin_scope),
           (restore_sandbox, Op_restore, Admin_scope), (terminate_sandbox, Op_terminate, User_scope)}"
  shows "fleet_sandbox E view (base_url c) i w \<noteq> None
    \<and> (op \<noteq> Op_terminate \<longrightarrow> fleet_sandbox E view (base_url c) i w \<noteq> Some Absent)
    \<and> fleet_sandbox E view (base_url c) i w' =
        map_option (sandbox_step (fl_id_text E i) op) (fleet_sandbox E view (base_url c) i w)
    \<and> (\<forall>url j. (url, j) \<noteq> (base_url c, i) \<longrightarrow> fleet_sandbox E view url j w' = fleet_sandbox E view url j w)
    \<and> authorized (ap_settings (fl_process E (base_url c))) sc (token c) = Some True"
proof -
  let ?A = "fl_process E (base_url c)"
  let ?op = "perform (ap_engine ?A) (fl_id_text E i) op"
  let ?route = "\<lambda>sc A t. if sc = User_scope then user_route A t (bad_gateway (perform (ap_engine A) (fl_id_text E i) op))
     else admin_route A t (bad_gateway (perform (ap_engine A) (fl_id_text E i) op))"
  have call: "call (fleet_backend cf enc dec E) i c w = request (at_node E 200 () id (\<lambda>A t. on_engine (?route sc A t))) c w"
    using assms(3) by (auto simp: fleet_backend_def start_sandbox_def isolate_sandbox_def restore_sandbox_def
        terminate_sandbox_def start_sandbox_route_def isolate_sandbox_route_def restore_sandbox_route_def
        terminate_sandbox_route_def)
  obtain s y s' where s: "w (base_url c) = Some s" "on_engine (?route sc ?A (token c)) s = (Inr y, s')"
    "w' = w(base_url c \<mapsto> s')"
    using assms(2) unfolding call
    by (rule request_at_node) (auto simp: on_engine_eq split: if_splits dest: route_fails)
  then obtain v where v: "?route sc ?A (token c) (snd s) = (Inr y, v)" "s' = (fst s, v)" by (auto simp: on_engine_eq)
  have act: "?op (snd s) = (Inr (), v)" "authorized (ap_settings ?A) sc (token c) = Some True"
    using v(1) assms(3) by (auto simp: bad_gateway_ok split: if_splits dest!: routes_ok)
  obtain ex where ex: "engine_laws (ap_engine ?A) view ex"
    using assms(1) unfolding lawful_fleet_def lawful_engine_def by blast
  have inj: "\<And>j. fl_id_text E j = fl_id_text E i \<Longrightarrow> j = i"
    using assms(1) unfolding lawful_fleet_def by blast
  have "lifecycle op" using assms(3) by auto
  moreover have "op \<noteq> Op_terminate \<Longrightarrow> sandbox_of view (fl_id_text E i) (snd s) \<noteq> Absent"
    using perform_exists [OF ex _ act(1)] assms(3) by auto
  ultimately show ?thesis
    using perform_refines [OF ex _ act(1)] perform_frames [OF ex act(1)] s v act(2) inj
    by (auto simp: fleet_sandbox_def)
qed


section \<open>What ending and isolating a session means\<close>

lemma agent_ok: "agent call s = (r, t) \<Longrightarrow> call (world s) = (r, world t)"
  by (auto simp: agent_def split: prod.splits)

lemma world_frame [simp]:
  "world (on_db f s) = world s" "world (stop_polling i s) = world s"
  by (simp_all add: stop_polling_def)

lemma connection_frame:
  "session_connection B x (set_session_status now i st d) = session_connection B x d"
  by (cases "s_node_id x") (simp_all add: session_connection_def get_node_def)

text \<open>
  C12. A session that ends TERMINATED has no container left: when the backend's termination succeeds, the node
  the session is connected to runs no container of it, stopped or running, and no other sandbox of any
  node has changed.
\<close>

theorem terminated_sessions_leave_no_container:
  assumes "lawful_fleet E view" and "B = fleet_backend cf enc dec E"
    and "terminate_session B now x actor s = (Inr u, s')" and "s_status x \<noteq> SS_TERMINATED"
  shows "fleet_sandbox E view (base_url (session_connection B x (db s))) (s_id x) (world s') = Some Absent
    \<and> (\<forall>url j. (url, j) \<noteq> (base_url (session_connection B x (db s)), s_id x)
          \<longrightarrow> fleet_sandbox E view url j (world s') = fleet_sandbox E view url j (world s))"
proof -
  let ?c = "session_connection B x (db s)"
  obtain v where t: "terminate_sandbox B (s_id x) ?c (world s) = (Inr (), v)" "world s' = v"
    using assms(3,4)
    by (auto simp: terminate_session_def Let_def stop_polling_def connection_frame split: prod.splits sum.splits dest!: agent_ok)
  from agent_calls_act_on_the_sandbox [where call = terminate_sandbox and op = Op_terminate and sc = User_scope,
      OF assms(1) t(1) [unfolded assms(2)]]
  show ?thesis using t(2) assms(2) by auto
qed

text \<open>
  C13. Isolation cuts the sandbox off, and restoring undoes exactly that: when isolating a session succeeds its
  container still exists, in the same run state, attached to no network at all; when restoring succeeds it
  is attached again to its recorded network, besides those it was attached to.
\<close>

theorem isolation_cuts_every_network:
  assumes "lawful_fleet E view" and "B = fleet_backend cf enc dec E"
    and "c = session_connection B x (db s)"
    and "act = isolate_session \<and> op = Op_isolate \<or> act = restore_session \<and> op = Op_restore"
    and "act B now x actor s = (Inr u, s')"
  shows "\<exists>st nets home. fleet_sandbox E view (base_url c) (s_id x) (world s) = Some (Sandbox st nets home)
    \<and> fleet_sandbox E view (base_url c) (s_id x) (world s') =
        Some (if op = Op_isolate then Sandbox st {} home
              else Sandbox st (case home of None \<Rightarrow> nets | Some h \<Rightarrow> insert h nets) home)"
proof -
  have t: "(if op = Op_isolate then isolate_sandbox else restore_sandbox) B (s_id x) c (world s) = (Inr (), world s')"
    using assms(4,5) unfolding assms(3)
    by (auto simp: isolate_session_def restore_session_def Let_def connection_frame
        split: if_splits sum.splits prod.splits dest!: agent_ok)
  have "fleet_sandbox E view (base_url c) (s_id x) (world s) \<noteq> None \<and> fleet_sandbox E view (base_url c) (s_id x) (world s) \<noteq> Some Absent
    \<and> fleet_sandbox E view (base_url c) (s_id x) (world s') =
        map_option (sandbox_step (fl_id_text E (s_id x)) op) (fleet_sandbox E view (base_url c) (s_id x) (world s))"
    using agent_calls_act_on_the_sandbox [where sc = Admin_scope and op = op
        and call = "if op = Op_isolate then isolate_sandbox else restore_sandbox", OF assms(1) t [unfolded assms(2)]] assms(4)
    by auto
  then obtain sb where sb: "fleet_sandbox E view (base_url c) (s_id x) (world s) = Some sb" "sb \<noteq> Absent"
    "fleet_sandbox E view (base_url c) (s_id x) (world s') = Some (sandbox_step (fl_id_text E (s_id x)) op sb)"
    by auto
  then show ?thesis using assms(4) by (cases sb) (auto split: option.split)
qed

section \<open>What is created\<close>

definition hardened :: "agent_settings \<Rightarrow> string \<Rightarrow> container_options \<Rightarrow> bool" where
  "hardened st i opts =
     (map_of (co_labels opts) MANAGED_LABEL = Some ''true'' \<and> map_of (co_labels opts) SESSION_LABEL = Some i
    \<and> map_of (co_labels opts) NETWORK_LABEL = Some (ag_sandbox_network_name st)
    \<and> co_name opts = container_name i \<and> co_network opts = ag_sandbox_network_name st
    \<and> co_user opts = ''10001:10001'' \<and> co_cap_drop opts = [''ALL''] \<and> co_security_opt opts = [''no-new-privileges:true'']
    \<and> co_read_only opts \<and> 0 < co_pids_limit opts \<and> (\<exists>n > 0. co_mem_limit opts = show_int n @ ''m''))"


end
