(* ===== verification/Sandbox_Listing.thy ===== *)
theory Sandbox_Listing
  imports Docker_Provider
begin

text \<open>
  The listing of a sandbox's downloads: what \<open>find\<close> prints for a set of files is read back as exactly those
  files, for every name it can print on one line that does not end in a blank.
\<close>

section \<open>Decimal numbers\<close>

lemma code_char_of [simp]: "n < 256 \<Longrightarrow> code (char_of n) = n"
  by (simp add: code_def)

lemma digits_value_append:
  "digits_value a xs = Some b \<Longrightarrow> list_all is_digit xs \<Longrightarrow> digits_value a (xs @ ys) = digits_value b ys"
  by (induction xs arbitrary: a) (auto split: if_splits)

lemma show_nat_digits: "list_all is_digit (show_nat n) \<and> show_nat n \<noteq> []"
proof (induction n rule: show_nat.induct)
  case (1 n)
  then show ?case
    by (cases "n < 10") (simp_all add: show_nat.simps [of n] is_digit_def)
qed

lemma digits_value_show_nat: "digits_value 0 (show_nat n) = Some n"
proof (induction n rule: show_nat.induct)
  case (1 n)
  show ?case
  proof (cases "n < 10")
    case True
    then show ?thesis by (subst show_nat.simps) (simp add: is_digit_def)
  next
    case False
    then have "digits_value 0 (show_nat (n div 10) @ [char_of (48 + n mod 10)]) = Some (n div 10 * 10 + n mod 10)"
      using digits_value_append [OF 1 [OF False]] show_nat_digits by (simp add: is_digit_def)
    then show ?thesis using False by (subst show_nat.simps) simp
  qed
qed

lemma digit_not_break: "is_digit c \<Longrightarrow> \<not> is_line_break c"
  by (auto simp: is_digit_def is_line_break_def Let_def)

lemma digit_not_blank: "is_digit c \<Longrightarrow> \<not> is_space c" "is_digit c \<Longrightarrow> c \<noteq> CHR '' ''"
  by (auto simp: is_digit_def is_space_def Let_def code_def)

lemma int_literal_show_nat: "int_literal (show_nat n) = Some (int n)"
proof (cases "show_nat n")
  case (Cons c cs)
  then have c: "is_digit c" using show_nat_digits [of n] by simp
  then have "c \<noteq> CHR ''-''" "c \<noteq> CHR ''+''" by (auto simp: is_digit_def code_def)
  then show ?thesis using c digits_value_show_nat [of n] Cons by (simp add: int_literal_def)
qed (use show_nat_digits in simp)

lemma strip_id:
  assumes "xs \<noteq> []" and "\<not> is_space (hd xs)" and "\<not> is_space (last xs)"
  shows "strip xs = xs"
proof -
  have "dropWhile is_space xs = xs" using assms(1,2) by (cases xs) auto
  moreover have "dropWhile is_space (rev xs) = rev xs"
    using assms(1,3) by (cases xs rule: rev_cases) auto
  ultimately show ?thesis by (simp add: strip_def lstrip_by_def rstrip_by_def)
qed

lemma int_of_text_show_nat: "int_of_text (show_nat n) = Some (int n)"
proof -
  have "is_digit (hd (show_nat n))" "is_digit (last (show_nat n))"
    using show_nat_digits [of n] by (auto simp: list_all_iff)
  then have "strip (show_nat n) = show_nat n"
    using show_nat_digits [of n] digit_not_blank(1) by (intro strip_id) auto
  then show ?thesis by (simp add: int_of_text_def int_literal_show_nat)
qed

section \<open>Lines\<close>

lemma partition_at_append:
  "list_all (\<lambda>c. c \<noteq> s) xs \<Longrightarrow> partition_at s (xs @ s # ys) = (xs, True, ys)"
  by (induction xs) auto

text \<open>One line of \<open>-printf "%s %f\n"\<close>: the size, a blank and the name.\<close>

definition find_line :: "downloaded_file \<Rightarrow> string" where
  "find_line f = show_nat (nat (df_size_bytes f)) @ '' '' @ df_filename f @ [CHR 0x0A]"

definition printable_name :: "string \<Rightarrow> bool" where
  "printable_name n = (n \<noteq> [] \<and> list_all (\<lambda>c. \<not> is_line_break c) n \<and> \<not> is_space (last n))"

lemma listed_file_line:
  assumes "printable_name (df_filename f)" and "0 \<le> df_size_bytes f"
  shows "listed_file (show_nat (nat (df_size_bytes f)) @ '' '' @ df_filename f) = Some f"
proof -
  let ?n = "show_nat (nat (df_size_bytes f))" and ?f = "df_filename f"
  have d: "list_all is_digit ?n" "?n \<noteq> []" using show_nat_digits by auto
  have "\<not> is_space (hd ?n)" using d digit_not_blank(1) by (cases ?n) auto
  then have s: "strip (?n @ '' '' @ ?f) = ?n @ '' '' @ ?f"
    using assms(1) d by (intro strip_id) (auto simp: printable_name_def)
  have p: "partition_at (CHR '' '') (?n @ '' '' @ ?f) = (?n, True, ?f)"
    using partition_at_append [of "CHR '' ''" ?n ?f] d(1) digit_not_blank(2) by (auto simp: list_all_iff)
  show ?thesis
    using d(2) assms(2) by (simp add: listed_file_def s [simplified] p [simplified] int_of_text_show_nat)
qed

lemma splitlines_line:
  assumes "list_all (\<lambda>c. \<not> is_line_break c) l"
  shows "splitlines (l @ CHR 0x0A # rest) = l # splitlines rest"
proof -
  have "is_line_break (CHR 0x0A)" by (simp add: is_line_break_def code_def)
  then have "takeWhile (\<lambda>c. \<not> is_line_break c) (l @ CHR 0x0A # rest) = l"
    "dropWhile (\<lambda>c. \<not> is_line_break c) (l @ CHR 0x0A # rest) = CHR 0x0A # rest"
    using assms by (auto simp: takeWhile_append dropWhile_append list_all_iff)
  then show ?thesis by (subst splitlines.simps) (simp add: code_def)
qed

text \<open>
  Listing the downloads loses and invents nothing: whatever files the sandbox holds, if none of their names
  is empty, holds a line break or ends in a blank, the agent reports exactly these files with their sizes.
\<close>

theorem listing_reads_back:
  assumes "list_all (\<lambda>f. printable_name (df_filename f) \<and> 0 \<le> df_size_bytes f) fs"
  shows "parse_listing (concat (map find_line fs)) = fs"
  using assms
proof (induction fs)
  case Nil
  show ?case by (simp add: parse_listing_def splitlines.simps map_filter_simps)
next
  case (Cons f fs)
  let ?l = "show_nat (nat (df_size_bytes f)) @ '' '' @ df_filename f"
  have "list_all (\<lambda>c. \<not> is_line_break c) ?l"
    using Cons.prems show_nat_digits [of "nat (df_size_bytes f)"] digit_not_break
    by (auto simp: printable_name_def list_all_iff is_line_break_def [of "CHR '' ''"] code_def)
  then have "splitlines (concat (map find_line (f # fs))) = ?l # splitlines (concat (map find_line fs))"
    using splitlines_line [of ?l] by (simp add: find_line_def)
  then show ?case
    using Cons listed_file_line [of f] by (simp add: parse_listing_def map_filter_simps)
qed

text \<open>A name ending in a blank is reported without it, so fetching it asks for a file that is not there.\<close>

lemma trailing_blank_is_lost:
  "parse_listing (find_line \<lparr> df_filename = ''a '', df_size_bytes = 1 \<rparr>) = [\<lparr> df_filename = ''a'', df_size_bytes = 1 \<rparr>]"
  by code_simp

end
