(* ===== verification/Node_Enrollment.thy ===== *)
theory Node_Enrollment
  imports Node_Agent Login_Sessions Nodes
begin

text \<open>
  How a new host joins: the single-use enrolment tokens (\<open>core/node_enrollment_tokens.py\<close>), the open endpoint that
  takes one (\<open>api/node_enrollment.py\<close>), and the loop of the Session Agent that presents it
  (\<open>session-agent/app/enrollment.py\<close>), composed over the backend's CSRF check.
\<close>

section \<open>Enrolment tokens\<close>

definition ENROLLMENT_PREFIX :: string where "ENROLLMENT_PREFIX = ''node_enrollment_token:''"

definition ENROLLMENT_TTL :: instant where "ENROLLMENT_TTL = seconds (60 * 60)"

text \<open>What is stored is the text 1, which is what INCR stores for a counter of one. GETDEL is one command.\<close>

definition create_enrollment_token :: "'w idp \<Rightarrow> 'w \<Rightarrow> string \<times> 'w" where
  "create_enrollment_token I w =
     (let (tok, w) = new_token I 32 w in (tok, redis_put I (ENROLLMENT_PREFIX @ tok) (Failures 1) ENROLLMENT_TTL w))"

definition consume_enrollment_token :: "'w idp \<Rightarrow> string \<Rightarrow> 'w \<Rightarrow> bool \<times> 'w" where
  "consume_enrollment_token I tok w =
     (if tok = [] then (False, w)
      else (redis_read I (ENROLLMENT_PREFIX @ tok) w \<noteq> None, redis_delete I (ENROLLMENT_PREFIX @ tok) w))"

section \<open>The endpoint\<close>

definition RATE_LIMIT_KEY :: string where "RATE_LIMIT_KEY = ''__node_enrollment__''"

definition enroll_node_endpoint ::
  "'w backend \<Rightarrow> 'w idp \<Rightarrow> instant \<Rightarrow> string \<Rightarrow> string \<Rightarrow> string \<Rightarrow> 'w sys \<Rightarrow> (http_error + uuid) \<times> 'w sys" where
  "enroll_node_endpoint B I now enrollment_token hostname api_token s =
     (if is_login_locked I RATE_LIMIT_KEY (world s) then (Inl (429, ''too many failed enrollment attempts''), s)
      else case with_world (consume_enrollment_token I enrollment_token) s of
        (False, s) \<Rightarrow> (Inl (400, ''invalid or expired enrollment token''), on_world (record_login_failure I RATE_LIMIT_KEY) s)
      | (True, s) \<Rightarrow>
          (let s = on_world (clear_login_failures I RATE_LIMIT_KEY) s in
           case enroll_node B now hostname api_token (db s) of
             (Inl e, _) \<Rightarrow> (Inl (409, error_detail e), s)
           | (Inr i, d) \<Rightarrow> (Inr i, s\<lparr>db := d\<rparr>)))"

section \<open>The agent's side\<close>

text \<open>
  The two requests of an attempt; the body of the first stands for the CSRF cookie it sets. \<open>raise_for_status\<close>
  raises for anything but a 2xx.
\<close>

record 'w control_plane =
  cp_health :: "'w \<Rightarrow> string option reply \<times> 'w"
  cp_enroll :: "string \<Rightarrow> string \<Rightarrow> string \<Rightarrow> string option \<Rightarrow> 'w \<Rightarrow> unit reply \<times> 'w"

definition try_enroll_once :: "agent_settings \<Rightarrow> 'w control_plane \<Rightarrow> 'w \<Rightarrow> bool \<times> 'w" where
  "try_enroll_once st P w =
     (case cp_health P w of
        (Unreachable _, w) \<Rightarrow> (False, w)
      | (Response status _ cookie, w) \<Rightarrow>
          if status < 200 \<or> 300 \<le> status then (False, w)
          else (case cp_enroll P (ag_enrollment_token st) (ag_node_name st) (ag_api_token st)
                  (if truthy cookie then cookie else None) w of
             (Unreachable _, w) \<Rightarrow> (False, w)
           | (Response status _ _, w) \<Rightarrow> (status = 200 \<or> status \<in> {400, 409, 429}, w)))"

text \<open>\<open>_enroll_loop\<close>; \<open>pause\<close> is what happens outside during the ten seconds. A loop that never ends is \<open>None\<close>.\<close>

partial_function (option) enroll_loop ::
  "agent_settings \<Rightarrow> 'w control_plane \<Rightarrow> ('w \<Rightarrow> 'w) \<Rightarrow> 'w \<Rightarrow> 'w option" where
  "enroll_loop st P pause w =
     (if fst (try_enroll_once st P w) then Some (snd (try_enroll_once st P w))
      else enroll_loop st P pause (pause (snd (try_enroll_once st P w))))"

text \<open>\<open>start\<close>: whether a task is created.\<close>

definition enrollment_starts :: "agent_settings \<Rightarrow> bool \<Rightarrow> bool" where
  "enrollment_starts st has_task = (ag_enrollment_token st \<noteq> [] \<and> \<not> has_task)"

section \<open>The backend as the control plane\<close>

text \<open>
  GET /health through the CSRF middleware for a client without a cookie, and the POST with the cookie and header the
  agent sends. \<open>up\<close> says whether the backend is reachable.
\<close>

definition backend_control_plane ::
  "'w backend \<Rightarrow> 'w idp \<Rightarrow> (string \<Rightarrow> string \<Rightarrow> string) \<Rightarrow> string \<Rightarrow> instant \<Rightarrow> ('w sys \<Rightarrow> bool) \<Rightarrow> 'w sys control_plane" where
  "backend_control_plane B I sign nonce now up =
     \<lparr> cp_health = (\<lambda>s.
         if \<not> up s then (Unreachable ''connection refused'', s)
         else (case csrf_middleware sign (cfg B) nonce \<lparr> rq_method = ''GET'', rq_cookie = [], rq_header = [] \<rparr> of
             Passed cookie \<Rightarrow> (Response 200 [] cookie, s)
           | _ \<Rightarrow> (Response 500 [] None, s))),
       cp_enroll = (\<lambda>tok host api csrf s.
         if \<not> up s then (Unreachable ''connection refused'', s)
         else (let c = (case csrf of None \<Rightarrow> [] | Some c \<Rightarrow> c) in
           case csrf_middleware sign (cfg B) nonce \<lparr> rq_method = ''POST'', rq_cookie = c, rq_header = c \<rparr> of
             Csrf_rejected \<Rightarrow> (Response 403 [] (), s)
           | Csrf_crashed \<Rightarrow> (Response 500 [] (), s)
           | Passed _ \<Rightarrow>
               (case enroll_node_endpoint B I now tok host api s of
                  (Inl e, s) \<Rightarrow> (Response (fst e) (snd e) (), s)
                | (Inr i, s) \<Rightarrow> (Response 200 [] (), s)))) \<rparr>"

section \<open>Guarantees\<close>

lemma row_get_update_by:
  "(\<And>r. key (f r) = key r) \<Longrightarrow>
     row_get key k (row_update by_key j f rows) = map_option (\<lambda>r. if by_key r = j then f r else r) (row_get key k rows)"
  by (induction rows) (auto simp: row_get_def row_update_def)

lemma world_on_world [simp]: "world (on_world f s) = f (world s)" "db (on_world f s) = db s"
  by (simp_all add: on_world_def)

lemma enroll_node_endpoint_status:
  "enroll_node_endpoint B I now tok host api s = (Inl e, s') \<Longrightarrow> fst e \<in> {400, 409, 429} \<and> db s' = db s"
  by (auto simp: enroll_node_endpoint_def Let_def with_world_def split: if_splits prod.splits sum.splits bool.splits)

text \<open>
  An enrolment token is good for one attempt: after it was presented without being turned away by the rate limit,
  whatever came of it, presenting it again registers nothing and is answered 400, or 429 when limited.
\<close>

theorem enrollment_tokens_are_single_use:
  assumes "redis_laws I" and "enroll_node_endpoint B I now tok host api s = (r, s')"
    and "\<forall>e. r = Inl e \<longrightarrow> fst e \<noteq> 429"
    and "enroll_node_endpoint B' I now' tok host' api' s' = (r', s'')"
  shows "(\<exists>e. r' = Inl e \<and> fst e \<in> {400, 429}) \<and> db s'' = db s'"
proof -
  have k: "ENROLLMENT_PREFIX @ tok \<noteq> LOGIN_FAILURE_PREFIX @ name" for name
    by (simp add: ENROLLMENT_PREFIX_def LOGIN_FAILURE_PREFIX_def)
  have frame: "redis_read I (ENROLLMENT_PREFIX @ tok) (record_login_failure I RATE_LIMIT_KEY w) = redis_read I (ENROLLMENT_PREFIX @ tok) w"
    "redis_read I (ENROLLMENT_PREFIX @ tok) (clear_login_failures I RATE_LIMIT_KEY w) = redis_read I (ENROLLMENT_PREFIX @ tok) w" for w
    using redis_lawsD(4) [OF assms(1), of "ENROLLMENT_PREFIX @ tok" "LOGIN_FAILURE_PREFIX @ RATE_LIMIT_KEY" w] k
    by (cases "redis_incr I (LOGIN_FAILURE_PREFIX @ RATE_LIMIT_KEY) w";
      simp add: record_login_failure_def clear_login_failures_def Let_def redis_lawsD(2,3) [OF assms(1)])+
  have "tok = [] \<or> redis_read I (ENROLLMENT_PREFIX @ tok) (world s') = None"
    using assms(2,3)
    by (auto simp: enroll_node_endpoint_def Let_def with_world_def consume_enrollment_token_def frame
        redis_lawsD(2) [OF assms(1)] split: if_splits prod.splits sum.splits bool.splits)
  then show ?thesis using assms(4)
    by (auto simp: enroll_node_endpoint_def Let_def with_world_def consume_enrollment_token_def
        split: if_splits prod.splits)
qed

lemma reachable_attempt_is_final:
  assumes "\<And>n k. sign n k \<noteq> []" and "\<And>n k. CHR 0x2E \<notin> set (sign n k)" and "\<And>n k. is_ascii (sign n k)"
    and "nonce \<noteq> []" and "is_ascii nonce" and "up s"
  shows "fst (try_enroll_once st (backend_control_plane B I sign nonce now up) s)"
    and "snd (try_enroll_once st (backend_control_plane B I sign nonce now up) s)
       = snd (enroll_node_endpoint B I now (ag_enrollment_token st) (ag_node_name st) (ag_api_token st) s)"
proof -
  let ?k = "csrf_secret_key (cfg B)"
  let ?t = "make_csrf_token sign ?k nonce"
  have get: "csrf_middleware sign (cfg B) nonce \<lparr> rq_method = ''GET'', rq_cookie = [], rq_header = [] \<rparr> = Passed (Some ?t)"
    by (simp add: csrf_middleware_def SAFE_METHODS_def issue_cookie_def)
  have "csrf_token_valid sign ?k ?t = Some True" using assms(4) by (auto simp: token_valid_iff [OF assms(1-3)])
  moreover have "is_ascii ?t" using assms(3,5) by (simp add: make_csrf_token_def is_ascii_def code_def)
  moreover have t: "?t \<noteq> []" by (simp add: make_csrf_token_def)
  ultimately have "csrf_check sign ?k \<lparr> rq_method = ''POST'', rq_cookie = ?t, rq_header = ?t \<rparr> = Some True"
    by (simp add: csrf_check_iff)
  then obtain c where post: "csrf_middleware sign (cfg B) nonce \<lparr> rq_method = ''POST'', rq_cookie = ?t, rq_header = ?t \<rparr> = Passed c"
    using csrf_passes_iff [of "\<lparr> rq_method = ''POST'', rq_cookie = ?t, rq_header = ?t \<rparr>" sign "cfg B" nonce]
    by (auto simp: SAFE_METHODS_def)
  obtain r s' where e: "enroll_node_endpoint B I now (ag_enrollment_token st) (ag_node_name st) (ag_api_token st) s = (r, s')"
    by (metis prod.exhaust)
  have "fst e \<in> {400, 409, 429}" if "r = Inl e" for e
    using enroll_node_endpoint_status e that by metis
  then have "fst (try_enroll_once st (backend_control_plane B I sign nonce now up) s)
      \<and> snd (try_enroll_once st (backend_control_plane B I sign nonce now up) s) = s'"
    using assms(6) t by (cases r) (auto simp: try_enroll_once_def backend_control_plane_def get post e truthy_def)
  then show "fst (try_enroll_once st (backend_control_plane B I sign nonce now up) s)"
    and "snd (try_enroll_once st (backend_control_plane B I sign nonce now up) s)
       = snd (enroll_node_endpoint B I now (ag_enrollment_token st) (ag_node_name st) (ag_api_token st) s)"
    using e by simp_all
qed

lemma unreachable_attempt: "\<not> up s \<Longrightarrow> try_enroll_once st (backend_control_plane B I sign nonce now up) s = (False, s)"
  by (simp add: try_enroll_once_def backend_control_plane_def)


text \<open>
  A host that runs with the two scoped tokens only cannot be enrolled: its accepted configuration sends an empty
  token, which the endpoint takes, and once the node is approved every agent call for it fails for lack of a
  credential, without a request being sent.
\<close>

theorem scoped_tokens_cannot_enroll:
  assumes "validate_agent_settings st = Inr st'" and "ag_api_token st = []"
    and "\<And>t. decrypt_secret B (encrypt_secret B t) = t" and "\<And>t. encrypt_secret B t \<noteq> []"
    and "enroll_node_endpoint B I now tok host (ag_api_token st) s = (Inr i, s')"
    and "row_get n_hostname host (nodes (db s')) = Some n"
    and "approve_node now' n url actor (db s') = (Inr (), d)" and "url \<noteq> []" and "row_get n_hostname host (nodes d) = Some m"
  shows "n_enrollment_status m = NE_APPROVED
    \<and> request call (connection_for_node B (Some m)) w = (Inl (no_credential (connection_for_node B (Some m))), w)"
proof -
  obtain d0 d1 where e: "enroll_node B now host [] d0 = (Inr i, d1)" "db s' = d1"
    using assms(5) unfolding assms(2)
    by (auto simp: enroll_node_endpoint_def Let_def with_world_def split: if_splits prod.splits sum.splits bool.splits)
  have n: "n_agent_token_encrypted n = Some (encrypt_secret B [])" "n_enrollment_status n = NE_PENDING"
    using e(1) assms(6) unfolding e(2)
    by (auto simp: enroll_node_def Let_def fresh_def set_node_def row_get_update_by tbl simp del: row_get_None
        split: option.splits if_splits prod.splits)
  then have m: "n_agent_token_encrypted m = Some (encrypt_secret B [])" "n_enrollment_status m = NE_APPROVED" "n_endpoint_url m = Some url"
    using assms(6,7,9) by (auto simp: approve_node_def Let_def set_node_def row_get_update_by tbl split: if_splits)
  then have "token (connection_for_node B (Some m)) = []"
    using assms(3,4,8) by (simp add: connection_for_node_def truthy_def)
  then show ?thesis using m(2) by (simp add: request_no_token)
qed

end
