(* ===== verification/Sample_Node.thy ===== *)
theory Sample_Node
  imports Agent_Guarantees Sandbox_Listing Node_Enrollment Sample_Accounts
begin

text \<open>
  A Docker engine kept as a map from names to containers (a container's id is its name), a node agent on it and
  a fleet of that one node, on which the theorems about the Session Agent are tried.
\<close>

section \<open>The engine\<close>

type_synonym shelf = "string \<Rightarrow> container option"

definition sample_view :: "shelf \<Rightarrow> string \<Rightarrow> container option" where
  "sample_view w n = map_option (\<lambda>c. c\<lparr>ct_id := n, ct_name := n\<rparr>) (w n)"

definition lookup_container :: "string \<Rightarrow> (container, shelf) provider_call" where
  "lookup_container n w =
     (case sample_view w n of None \<Rightarrow> (Inl (Not_found ''No such container''), w) | Some c \<Rightarrow> (Inr c, w))"

definition change_container :: "string \<Rightarrow> (container \<Rightarrow> container) \<Rightarrow> (unit, shelf) provider_call" where
  "change_container n f w = (Inr (), w(n := map_option f (w n)))"

definition sample_engine :: "shelf engine" where
  "sample_engine =
     \<lparr> containers_get = lookup_container,
       containers_create = (\<lambda>opts w. case w (co_name opts) of
           Some _ \<Rightarrow> (Inl (Engine_error ''Conflict''), w)
         | None \<Rightarrow> (Inr (), w(co_name opts \<mapsto> \<lparr> ct_id = [], ct_name = [], ct_labels = co_labels opts, ct_status = ''created'',
             ct_networks = [(co_network opts, [])], ct_started_at = None \<rparr>))),
       containers_list = (\<lambda>_ _ w. (Inr [], w)), container_reload = lookup_container,
       container_start = (\<lambda>i. change_container i (\<lambda>c. c\<lparr>ct_status := ''running''\<rparr>)),
       container_remove = (\<lambda>i w. (Inr (), w(i := None))),
       container_stats_of = (\<lambda>_ w. (Inl (Engine_error ''no stats''), w)),
       networks_get = (\<lambda>n w. (Inr n, w)),
       network_connect = (\<lambda>net i. change_container i (\<lambda>c. c\<lparr>ct_networks := (net, []) # ct_networks c\<rparr>)),
       network_disconnect = (\<lambda>net i. change_container i (\<lambda>c. c\<lparr>ct_networks := filter (\<lambda>x. fst x \<noteq> net) (ct_networks c)\<rparr>)),
       exec_run = (\<lambda>_ _ w. (Inr (0, []), w)), exec_create = (\<lambda>i _ w. (Inr i, w)), exec_feed = (\<lambda>_ _ w. (Inr (), w)),
       exec_inspect = (\<lambda>_ w. (Inr (Some 0), w)), images_get = (\<lambda>_ w. (Inr (), w)),
       engine_version = (\<lambda>w. (Inr (Some ''27''), w)), decode_utf8 = map (\<lambda>b. char_of (unat b)) \<rparr>"

lemma sample_view_put: "sample_view (w(n \<mapsto> c)) = (sample_view w)(n \<mapsto> c\<lparr>ct_id := n, ct_name := n\<rparr>)"
  by (simp add: sample_view_def fun_eq_iff)

lemma updated_change:
  assumes "\<And>c. ct_labels (f c) = ct_labels c"
    and "\<And>c. P (c\<lparr>ct_id := i, ct_name := i\<rparr>) ((f c)\<lparr>ct_id := i, ct_name := i\<rparr>)"
  shows "updated sample_view i P w (w(i := map_option f (w i)))"
  unfolding updated_def
proof
  fix n
  show "case sample_view w n of
      None \<Rightarrow> sample_view (w(i := map_option f (w i))) n = None
    | Some c \<Rightarrow>
        if ct_id c = i
        then \<exists>c'. sample_view (w(i := map_option f (w i))) n = Some c' \<and> ct_id c' = i \<and> ct_labels c' = ct_labels c \<and> P c c'
        else sample_view (w(i := map_option f (w i))) n = Some c"
    using assms by (cases "w n") (auto simp: sample_view_def)
qed

lemma updated_refl: "updated view i (\<lambda>_ _. True) w w"
  by (simp add: updated_def split: option.split)

lemma sample_engine_laws: "engine_laws sample_engine sample_view id"
proof -
  have "law_ids sample_view" by (auto simp: law_ids_def sample_view_def)
  moreover have "law_get sample_engine sample_view" "law_reload sample_engine sample_view"
    by (auto simp: law_get_def law_reload_def sample_engine_def lookup_container_def sample_view_def split: option.splits)
  moreover have "law_network sample_engine sample_view" "law_stats sample_engine sample_view"
    by (auto simp: law_network_def law_stats_def sample_engine_def)
  moreover have "law_create sample_engine sample_view"
    by (auto simp: law_create_def sample_engine_def sample_view_put label_def sample_view_def [of _ "co_name _"]
        split: option.splits)
  moreover have "law_start sample_engine sample_view" "law_disconnect sample_engine sample_view"
    "law_connect sample_engine sample_view"
    by (auto simp: law_start_def law_disconnect_def law_connect_def sample_engine_def change_container_def
        intro!: updated_change)
  moreover have "sample_view (w(i := None)) n = sample_view w n
      \<or> sample_view (w(i := None)) n = None \<and> (\<exists>c. sample_view w n = Some c \<and> ct_id c = i)" for w i n
    by (cases "w n") (auto simp: sample_view_def)
  then have "law_remove sample_engine sample_view"
    by (auto simp: law_remove_def sample_engine_def) (auto simp: sample_view_def split: if_splits)
  moreover have "law_exec sample_engine sample_view id"
    by (simp add: law_exec_def sample_engine_def updated_refl)
  ultimately show ?thesis by (simp add: engine_laws_def)
qed

section \<open>The node\<close>

definition sample_agent_settings :: agent_settings where
  "sample_agent_settings = default_agent_settings\<lparr>ag_api_token := ''node-token''\<rparr>"

definition sample_host :: host_reading where
  "sample_host = \<lparr> hr_cpu_percent = 10, hr_cpu_count = 8, hr_memory_total = 17179869184, hr_memory_available = 12884901888 \<rparr>"

definition sample_process :: "shelf agent_process" where
  "sample_process =
     \<lparr> ap_settings = sample_agent_settings, ap_engine = sample_engine, ap_host = (\<lambda>_. sample_host), ap_started_at = 0,
       ap_dial = (\<lambda>_ _ w. (None, w)) \<rparr>"

definition sample_fleet_env :: "shelf fleet_env" where
  "sample_fleet_env =
     \<lparr> fl_process = (\<lambda>_. sample_process), fl_unreachable = (\<lambda>u. u), fl_error_body = snd, fl_id_text = show_nat,
       fl_read_id = Malformed, fl_url_name = Some \<rparr>"

lemma show_nat_inj: "show_nat i = show_nat j \<Longrightarrow> i = j"
  by (metis digits_value_show_nat option.inject)

lemma sample_fleet_lawful: "lawful_fleet sample_fleet_env sample_view"
  using sample_engine_laws show_nat_inj
  by (auto simp: lawful_fleet_def lawful_engine_def sample_fleet_env_def sample_process_def)

definition fleet_of :: "settings \<Rightarrow> shelf fleet backend" where
  "fleet_of st = fleet_backend st (\<lambda>_. [1, 2, 3]) (\<lambda>_. ''node-token'') sample_fleet_env"

text \<open>The container of session 1 on the node, running and attached, beside a container that is not managed.\<close>

definition sample_container :: container where
  "sample_container =
     \<lparr> ct_id = [], ct_name = [], ct_labels = [(MANAGED_LABEL, ''true''), (SESSION_LABEL, ''1''), (NETWORK_LABEL, ''plane'')],
       ct_status = ''running'', ct_networks = [(''plane'', ''172.20.0.2''), (''extra'', [])], ct_started_at = None \<rparr>"

definition foreign_container :: container where
  "foreign_container =
     \<lparr> ct_id = [], ct_name = [], ct_labels = [], ct_status = ''running'', ct_networks = [(''bridge'', [])], ct_started_at = None \<rparr>"

definition sample_shelf :: shelf where
  "sample_shelf n =
     (if n = container_name ''1'' then Some sample_container
      else if n = container_name ''2'' then Some foreign_container else None)"

definition sample_fleet :: "shelf fleet" where
  "sample_fleet url = (if url = ''http://node-1:9000'' then Some (new_hysteresis, sample_shelf) else None)"

definition node_sys :: "session_status \<Rightarrow> shelf fleet sys" where
  "node_sys st = \<lparr> db = sample_db NE_APPROVED st, world = sample_fleet, polling = [1], active_connections = [] \<rparr>"

end
