(* ===== verification/Agent_Runs.thy ===== *)
theory Agent_Runs
  imports Sample_Node
begin

text \<open>
  The theorems about the Session Agent, its Docker provider and enrolment, applied to the sample node.
\<close>

lemma pair_fst: "fst r = x \<Longrightarrow> r = (x, snd r)"
  by (cases r) simp

section \<open>The provider\<close>

lemma foreign_untouched_witness:
  "sample_view (snd (perform sample_engine ''2'' Op_terminate sample_shelf)) (container_name ''2'')
     = sample_view sample_shelf (container_name ''2'')
   \<and> sample_view (snd (perform sample_engine ''2'' Op_terminate sample_shelf)) (container_name ''1'')
     = sample_view sample_shelf (container_name ''1'')"
proof -
  have "sample_view sample_shelf (container_name ''2'') = Some (foreign_container\<lparr>ct_id := container_name ''2'', ct_name := container_name ''2''\<rparr>)"
    by (simp add: sample_view_def sample_shelf_def)
  then show ?thesis
    using only_own_managed_container_touched [OF sample_engine_laws prod.collapse [symmetric], of "''2''" Op_terminate sample_shelf]
    by (simp add: label_def foreign_container_def)
qed

definition sample_ops :: "(string \<times> sandbox_op) list" where
  "sample_ops =
     [(''3'', Op_create (sandbox_config_of sample_agent_settings (request_of_limits
         \<lparr> sl_cpu_limit = 1, sl_ram_limit_mb = 512, sl_pid_limit = 100, sl_disk_limit_mb = 100, sl_screen_width = 800,
           sl_screen_height = 600 \<rparr>))), (''3'', Op_start), (''1'', Op_isolate)]"

lemma refinement_witness:
  "sandbox_of sample_view ''3'' (snd (perform_all (perform sample_engine) sample_ops sample_shelf))
     = fold (sandbox_step ''3'') (ops_of ''3'' sample_ops) (sandbox_of sample_view ''3'' sample_shelf)
   \<and> status_of_sandbox (fold (sandbox_step ''3'') (ops_of ''3'' sample_ops) (sandbox_of sample_view ''3'' sample_shelf)) = Sb_running"
proof -
  have "isl (fst (perform_all (perform sample_engine) sample_ops sample_shelf)) = False" by code_simp
  then have "fst (perform_all (perform sample_engine) sample_ops sample_shelf) = Inr ()"
    by (cases "fst (perform_all (perform sample_engine) sample_ops sample_shelf)") auto
  from provider_refines_sandbox [OF sample_engine_laws _ pair_fst [OF this], of "''3''"]
  show ?thesis by (auto simp: sample_ops_def ops_of_def sandbox_of_def sample_view_def sample_shelf_def container_name_def
        sandbox_config_of_def)
qed

lemma listing_witness:
  "parse_listing (concat (map find_line [\<lparr> df_filename = ''a b.pdf'', df_size_bytes = 7 \<rparr>]))
     = [\<lparr> df_filename = ''a b.pdf'', df_size_bytes = 7 \<rparr>]"
  by (rule listing_reads_back) code_simp

section \<open>Scopes, capacity and smoothing\<close>

lemma scopes_witness:
  "authorized sample_agent_settings Admin_scope ''node-token'' = Some True
   \<and> authorized sample_agent_settings Admin_scope [] = Some False"
proof -
  have "validate_agent_settings sample_agent_settings = Inr sample_agent_settings" by code_simp
  note ok = agent_scopes [OF this]
  have "authorized sample_agent_settings Admin_scope ''node-token'' = Some True"
    using ok [of "''node-token''" Admin_scope]
    by (simp add: sample_agent_settings_def default_agent_settings_def is_ascii_def code_def)
  moreover have "authorized sample_agent_settings Admin_scope [] = Some False"
    using ok [of "[]" Admin_scope]
    by (simp add: sample_agent_settings_def default_agent_settings_def is_ascii_def code_def)
  ultimately show ?thesis by simp
qed

lemma capacity_witness:
  "\<exists>b. compute_capacity sample_agent_settings sample_host 1 = Some b \<and> cb_capacity b = 4
     \<and> (of_int (3 * ag_default_ram_limit_mb sample_agent_settings) :: rat)
        \<le> mb (hr_memory_available sample_host) - of_int (ag_reserved_ram_mb sample_agent_settings)"
proof -
  have "map_option cb_capacity (compute_capacity sample_agent_settings sample_host 1) = Some 4" by code_simp
  then obtain b where b: "compute_capacity sample_agent_settings sample_host 1 = Some b" "cb_capacity b = 4" by auto
  then show ?thesis
    using free_slots_have_room [OF b(1), of 3] by (simp add: sample_agent_settings_def default_agent_settings_def)
qed

lemma smoothing_witness:
  "reported 3 \<lparr> hy_last_reported = Some 1, hy_recovery_streak = 0 \<rparr> [4, 4, 4] = [1, 1, 4]"
  using smoothing_is_safe_and_recovers [of "\<lparr> hy_last_reported = Some 1, hy_recovery_streak = 0 \<rparr>" 1 4 3]
  by (simp add: numeral_3_eq_3)

section \<open>Sessions and their containers\<close>

lemma node_connection:
  "base_url (session_connection (fleet_of sample_settings) (sample_session st) (db (node_sys st'))) = ''http://node-1:9000''"
  by code_simp

lemma terminated_witness:
  "fleet_sandbox sample_fleet_env sample_view ''http://node-1:9000'' 1
     (world (snd (terminate_session (fleet_of sample_settings) 9 (sample_session SS_ACTIVE) 7 (node_sys SS_ACTIVE)))) = Some Absent"
proof -
  have "isl (fst (terminate_session (fleet_of sample_settings) 9 (sample_session SS_ACTIVE) 7 (node_sys SS_ACTIVE))) = False"
    by code_simp
  then obtain u where "fst (terminate_session (fleet_of sample_settings) 9 (sample_session SS_ACTIVE) 7 (node_sys SS_ACTIVE)) = Inr u"
    by (cases "fst (terminate_session (fleet_of sample_settings) 9 (sample_session SS_ACTIVE) 7 (node_sys SS_ACTIVE))") auto
  from terminated_sessions_leave_no_container [OF sample_fleet_lawful fleet_of_def pair_fst [OF this]]
  show ?thesis by (simp add: node_connection)
qed

lemma show_nat_1: "show_nat (Suc 0) = ''1''"
  by code_simp

lemma isolation_cut_witness:
  "\<exists>home. fleet_sandbox sample_fleet_env sample_view ''http://node-1:9000'' 1
     (world (snd (isolate_session (fleet_of sample_settings) 9 (sample_session SS_ACTIVE) 7 (node_sys SS_ACTIVE))))
       = Some (Sandbox ''running'' {} home)"
proof -
  have "isl (fst (isolate_session (fleet_of sample_settings) 9 (sample_session SS_ACTIVE) 7 (node_sys SS_ACTIVE))) = False"
    by code_simp
  then obtain u where "fst (isolate_session (fleet_of sample_settings) 9 (sample_session SS_ACTIVE) 7 (node_sys SS_ACTIVE)) = Inr u"
    by (cases "fst (isolate_session (fleet_of sample_settings) 9 (sample_session SS_ACTIVE) 7 (node_sys SS_ACTIVE))") auto
  note cut = isolation_cuts_every_network [where act = isolate_session and op = Op_isolate, OF sample_fleet_lawful fleet_of_def refl _ pair_fst [OF this]]
  have "fleet_sandbox sample_fleet_env sample_view ''http://node-1:9000'' 1 sample_fleet
      = Some (Sandbox ''running'' {''plane'', ''extra''} (Some ''plane''))"
    by (simp add: fleet_sandbox_def sample_fleet_env_def sample_fleet_def sandbox_of_def sample_view_def sample_shelf_def
        sample_container_def show_nat_1 label_def MANAGED_LABEL_def SESSION_LABEL_def NETWORK_LABEL_def)
  then show ?thesis using cut by (auto simp: node_connection) (simp add: node_sys_def)
qed

definition no_limits :: create_request where
  "no_limits = request_of_limits \<lparr> sl_cpu_limit = 1, sl_ram_limit_mb = 0, sl_pid_limit = 0, sl_disk_limit_mb = 0,
     sl_screen_width = 0, sl_screen_height = 0 \<rparr>"


section \<open>Enrolment\<close>

definition enroll_sys :: "redis sys" where
  "enroll_sys = accounts_sys [(ENROLLMENT_PREFIX @ ''tok'', Failures 1)]"

lemma single_use_token_witness:
  "\<not> isl (fst (enroll_node_endpoint sample_backend sample_idp 9 ''tok'' ''node-2'' ''secret'' enroll_sys))
   \<and> isl (fst (enroll_node_endpoint sample_backend sample_idp 10 ''tok'' ''node-3'' ''other''
         (snd (enroll_node_endpoint sample_backend sample_idp 9 ''tok'' ''node-2'' ''secret'' enroll_sys))))"
proof -
  have first: "\<not> isl (fst (enroll_node_endpoint sample_backend sample_idp 9 ''tok'' ''node-2'' ''secret'' enroll_sys))" by code_simp
  then have "\<forall>e. fst (enroll_node_endpoint sample_backend sample_idp 9 ''tok'' ''node-2'' ''secret'' enroll_sys) = Inl e \<longrightarrow> fst e \<noteq> 429"
    by auto
  from enrollment_tokens_are_single_use [OF sample_redis_laws prod.collapse [symmetric] this prod.collapse [symmetric],
      of sample_backend 10 "''node-3''" "''other''"]
  obtain e where "fst (enroll_node_endpoint sample_backend sample_idp 10 ''tok'' ''node-3'' ''other''
      (snd (enroll_node_endpoint sample_backend sample_idp 9 ''tok'' ''node-2'' ''secret'' enroll_sys))) = Inl e" by blast
  then show ?thesis using first by simp
qed


definition segmented_settings :: agent_settings where
  "segmented_settings = default_agent_settings\<lparr>ag_api_token_user := ''u'', ag_api_token_admin := ''a''\<rparr>"

text \<open>A reversible encryption: a marker byte and the text.\<close>

definition marked_backend :: "'w backend" where
  "marked_backend = sample_backend
     \<lparr>encrypt_secret := (\<lambda>t. 1 # map (\<lambda>c. word_of_nat (code c)) t),
      decrypt_secret := (\<lambda>bs. map (\<lambda>b. char_of (unat b)) (tl bs))\<rparr>"

lemma marked_round_trip: "decrypt_secret marked_backend (encrypt_secret marked_backend t) = t"
proof -
  have "unat (word_of_nat (code c) :: 8 word) = code c" for c
    using code_less [of c] by (simp add: unsigned_of_nat take_bit_eq_mod)
  then show ?thesis by (simp add: marked_backend_def comp_def code_def)
qed

lemma marked_nonempty: "encrypt_secret marked_backend t \<noteq> []"
  by (simp add: marked_backend_def)

lemma scoped_tokens_witness:
  "\<exists>m. n_enrollment_status m = NE_APPROVED
     \<and> get_node_status (marked_backend :: redis backend) (connection_for_node (marked_backend :: redis backend) (Some m)) ([] :: redis)
        = (Inl (no_credential (connection_for_node (marked_backend :: redis backend) (Some m))), [])"
proof -
  let ?r = "enroll_node_endpoint (marked_backend :: redis backend) sample_idp 9 ''tok'' ''node-2'' (ag_api_token segmented_settings) enroll_sys"
  have v: "validate_agent_settings segmented_settings = Inr segmented_settings" by code_simp
  have t: "ag_api_token segmented_settings = []" by code_simp
  have "\<not> isl (fst ?r)" by code_simp
  then obtain i where i: "fst ?r = Inr i" by (cases "fst ?r") auto
  have "row_get n_hostname ''node-2'' (nodes (db (snd ?r))) \<noteq> None" by code_simp
  then obtain n where n: "row_get n_hostname ''node-2'' (nodes (db (snd ?r))) = Some n" by auto
  let ?a = "approve_node 10 n ''http://node-2:9000'' 2 (db (snd ?r))"
  have "\<not> isl (fst (approve_node 10 (the (row_get n_hostname ''node-2'' (nodes (db (snd ?r))))) ''http://node-2:9000'' 2 (db (snd ?r))))
      \<and> row_get n_hostname ''node-2'' (nodes (snd (approve_node 10 (the (row_get n_hostname ''node-2'' (nodes (db (snd ?r)))))
          ''http://node-2:9000'' 2 (db (snd ?r))))) \<noteq> None"
    by code_simp
  then have a: "\<not> isl (fst ?a)" "row_get n_hostname ''node-2'' (nodes (snd ?a)) \<noteq> None" using n by simp_all
  then have u: "fst ?a = Inr ()" by (cases "fst ?a") auto
  obtain m where m: "row_get n_hostname ''node-2'' (nodes (snd ?a)) = Some m" using a(2) by auto
  have "n_enrollment_status m = NE_APPROVED
      \<and> request (http_node_self (marked_backend :: redis backend)) (connection_for_node (marked_backend :: redis backend) (Some m)) ([] :: redis)
        = (Inl (no_credential (connection_for_node (marked_backend :: redis backend) (Some m))), [])"
    by (rule scoped_tokens_cannot_enroll [OF v t marked_round_trip marked_nonempty pair_fst [OF i] n pair_fst [OF u] _ m]) simp
  then show ?thesis by (auto simp: get_node_status_def)
qed

end
