(* ===== verification/Metrics.thy ===== *)
theory Metrics
  imports Session_Guarantees
begin

text \<open>
  Telemetry: the metric samples (\<open>services/metrics_history.py\<close>) and one tick of the node poller
  (\<open>core/node_poller.py\<close>), with the bucketed histories the dashboard draws. Averages are rationals; the
  database computes them with \<open>numeric\<close>, which is exact but for the digits it keeps.
\<close>

section \<open>Rounding\<close>

text \<open>\<open>round(x)\<close> and \<open>round(x, 1)\<close>: a tie goes to the even neighbour.\<close>

definition round_half_even :: "rat \<Rightarrow> int" where
  "round_half_even x = (let f = \<lfloor>x\<rfloor>; r = x - of_int f in if r < 1 / 2 \<or> r = 1 / 2 \<and> even f then f else f + 1)"

definition round1 :: "rat \<Rightarrow> rat" where
  "round1 x = of_int (round_half_even (x * 10)) / 10"

lemma round_half_even_int [simp]: "round_half_even (of_int n) = n"
  by (simp add: round_half_even_def)

section \<open>Samples\<close>

definition RANGE_CONFIG :: "(string \<times> instant \<times> instant) list" where
  "RANGE_CONFIG =
     [(''1h'', seconds (60 * 60), minutes 1), (''6h'', seconds (6 * 60 * 60), minutes 5),
      (''24h'', seconds (24 * 60 * 60), minutes 15), (''7d'', days 7, seconds (60 * 60))]"

definition prune_samples :: "settings \<Rightarrow> instant \<Rightarrow> database \<Rightarrow> database" where
  "prune_samples st now d =
     (let cutoff = now - days (metrics_retention_days st)
      in d\<lparr>samples := rows_delete (\<lambda>r. wm_recorded_at r < cutoff) (samples d)\<rparr>)"

definition new_sample :: "uuid \<Rightarrow> instant \<Rightarrow> browser_node \<Rightarrow> worker_metric_sample" where
  "new_sample i now node =
     \<lparr> wm_id = i, wm_node_id = n_id node, wm_recorded_at = now, wm_cpu_percent = n_cpu_percent node,
       wm_ram_used_mb = n_ram_used_mb node, wm_ram_total_mb = n_ram_total_mb node,
       wm_active_sessions = n_active_sessions node, wm_capacity_bound = n_capacity_bound node,
       wm_capacity = Some (n_capacity node) \<rparr>"

definition record_sample :: "settings \<Rightarrow> instant \<Rightarrow> bool \<Rightarrow> browser_node \<Rightarrow> database \<Rightarrow> database" where
  "record_sample st now prune node d =
     (let (i, d) = fresh d; d = d\<lparr>samples := row_insert (new_sample i now node) (samples d)\<rparr>
      in if prune then prune_samples st now d else d)"

section \<open>One tick of the poller\<close>

text \<open>
  Every poll has its own database session: what it raises is handed to the caller and its changes are not
  committed. The polls run concurrently, each touching its own rows; they are taken one after the other.
\<close>

definition poll_row :: "'w backend \<Rightarrow> instant \<Rightarrow> (uuid, 'w) sys_outcome \<Rightarrow> 'w sys \<Rightarrow> service_error option \<times> 'w sys" where
  "poll_row B now r s =
     (case r of
        (Inl e, t) \<Rightarrow> (Some e, t\<lparr>db := db s\<rparr>)
      | (Inr i, t) \<Rightarrow>
          (case row_get n_id i (nodes (db t)) of
             None \<Rightarrow> (Some DbIntegrityError, t\<lparr>db := db s\<rparr>)
           | Some node \<Rightarrow> (None, on_db (record_sample (cfg B) now False node) t)))"

definition poll_default_node :: "'w backend \<Rightarrow> instant \<Rightarrow> 'w sys \<Rightarrow> service_error option \<times> 'w sys" where
  "poll_default_node B now s = poll_row B now (refresh_node_from_agent B now s) s"

definition poll_enrolled_node :: "'w backend \<Rightarrow> instant \<Rightarrow> uuid \<Rightarrow> 'w sys \<Rightarrow> service_error option \<times> 'w sys" where
  "poll_enrolled_node B now node_id s =
     (case row_get n_id node_id (nodes (db s)) of
        None \<Rightarrow> (None, s)
      | Some node \<Rightarrow>
          if n_enrollment_status node \<noteq> NE_APPROVED \<or> \<not> truthy (n_endpoint_url node) then (None, s)
          else poll_row B now (refresh_enrolled_node B now node s) s)"

definition enrolled_labels :: "database \<Rightarrow> (uuid \<times> string) list" where
  "enrolled_labels d =
     map (\<lambda>n. (n_id n, n_hostname n))
       (filter (\<lambda>n. n_enrollment_status n = NE_APPROVED \<and> n_endpoint_url n \<noteq> None) (nodes d))"

fun poll_all :: "'w backend \<Rightarrow> instant \<Rightarrow> (uuid \<times> string) list \<Rightarrow> 'w sys \<Rightarrow> (string \<times> service_error option) list \<times> 'w sys" where
  "poll_all B now [] s = ([], s)"
| "poll_all B now ((i, host) # rest) s =
     (case poll_enrolled_node B now i s of
        (e, s) \<Rightarrow> (case poll_all B now rest s of (out, s) \<Rightarrow> ((host, e) # out, s)))"

text \<open>The result is what is logged: every label with the exception of its poll, if any.\<close>

definition node_poll_once :: "'w backend \<Rightarrow> instant \<Rightarrow> 'w sys \<Rightarrow> (string \<times> service_error option) list \<times> 'w sys" where
  "node_poll_once B now s =
     (let enrolled = enrolled_labels (db s);
          (e, s) = poll_default_node B now s;
          (out, s) = poll_all B now enrolled s
      in ((''default node'', e) # out, on_db (prune_samples (cfg B) now) s))"

section \<open>Histories\<close>

text \<open>\<open>date_bin(wd, t, origin)\<close> for t from the origin on.\<close>

definition date_bin :: "instant \<Rightarrow> instant \<Rightarrow> instant \<Rightarrow> instant" where
  "date_bin wd t origin = origin + (t - origin) div wd * wd"

definition average :: "rat list \<Rightarrow> rat option" where
  "average xs = (if xs = [] then None else Some (sum_list xs / of_nat (length xs)))"

text \<open>The groups of a \<open>GROUP BY\<close> in the order of their key.\<close>

definition groups_by :: "('r \<Rightarrow> 'k::linorder) \<Rightarrow> 'r list \<Rightarrow> ('k \<times> 'r list) list" where
  "groups_by key rows = map (\<lambda>k. (k, filter (\<lambda>r. key r = k) rows)) (sort (remdups (map key rows)))"

definition bucketed :: "instant \<Rightarrow> instant \<Rightarrow> worker_metric_sample list \<Rightarrow> (instant \<times> worker_metric_sample list) list" where
  "bucketed wd since rows =
     groups_by (\<lambda>r. date_bin wd (wm_recorded_at r) since) (filter (\<lambda>r. wm_recorded_at r \<ge> since) rows)"

definition summed_averages :: "worker_metric_sample list \<Rightarrow> rat" where
  "summed_averages rows =
     sum_list (map (\<lambda>(_, rs). case average (map (of_int \<circ> wm_active_sessions) rs) of None \<Rightarrow> 0 | Some a \<Rightarrow> a)
       (groups_by wm_node_id rows))"

definition session_history :: "string \<Rightarrow> instant \<Rightarrow> database \<Rightarrow> service_error + (instant \<times> int) list" where
  "session_history range_key now d =
     (case map_of RANGE_CONFIG range_key of
        None \<Rightarrow> Inl (ValueErr (''unknown range: '' @ range_key))
      | Some (lookback, wd) \<Rightarrow>
          Inr (map (\<lambda>(t, rows). (t, round_half_even (summed_averages rows))) (bucketed wd (now - lookback) (samples d))))"

record node_point =
  np_t :: instant
  np_cpu_percent :: "rat option"
  np_ram_percent :: "rat option"
  np_active_sessions :: int

definition known :: "('r \<Rightarrow> 'a option) \<Rightarrow> 'r list \<Rightarrow> 'a list" where
  "known f rows = List.map_filter f rows"

definition node_point_of :: "instant \<times> worker_metric_sample list \<Rightarrow> node_point" where
  "node_point_of p =
     (let rows = snd p;
          ram_used = average (map of_int (known wm_ram_used_mb rows));
          ram_total = average (map of_int (known wm_ram_total_mb rows))
      in \<lparr> np_t = fst p,
           np_cpu_percent = map_option round1 (average (known wm_cpu_percent rows)),
           np_ram_percent = (case (ram_used, ram_total) of
               (Some u, Some t) \<Rightarrow> if t \<noteq> 0 then Some (round1 (u / t * 100)) else None
             | _ \<Rightarrow> None),
           np_active_sessions = (case average (map (of_int \<circ> wm_active_sessions) rows) of
               None \<Rightarrow> 0 | Some a \<Rightarrow> round_half_even a) \<rparr>)"

definition node_history :: "uuid \<Rightarrow> string \<Rightarrow> instant \<Rightarrow> database \<Rightarrow> service_error + node_point list" where
  "node_history node_id range_key now d =
     (case map_of RANGE_CONFIG range_key of
        None \<Rightarrow> Inl (ValueErr (''unknown range: '' @ range_key))
      | Some (lookback, wd) \<Rightarrow>
          Inr (map node_point_of
            (bucketed wd (now - lookback) (filter (\<lambda>r. wm_node_id r = node_id) (samples d)))))"

text \<open>The sorted keys as Python prints the list.\<close>

definition range_error :: string where
  "range_error =
     ''range must be one of ['' @ concat (map (\<lambda>k. CHR 0x27 # k @ [CHR 0x27] @ '', '') [''1h'', ''24h'', ''6h''])
       @ CHR 0x27 # ''7d'' @ [CHR 0x27] @ '']''"

definition get_node_metrics :: "uuid \<Rightarrow> string \<Rightarrow> instant \<Rightarrow> database \<Rightarrow> http_error + node_point list" where
  "get_node_metrics node_id range_key now d =
     (if map_of RANGE_CONFIG range_key = None then Inl (400, range_error)
      else if row_get n_id node_id (nodes d) = None then Inl (404, ''node not found'')
      else case node_history node_id range_key now d of
          Inl e \<Rightarrow> Inl (500, ''Internal Server Error'') | Inr ps \<Rightarrow> Inr ps)"

section \<open>What the poller records\<close>

text \<open>
  \<open>recorded now d\<close>: every node heard from at this instant has a sample of this instant that agrees with its row.
\<close>

definition sample_of :: "instant \<Rightarrow> browser_node \<Rightarrow> worker_metric_sample \<Rightarrow> bool" where
  "sample_of now n r = (r = new_sample (wm_id r) now n)"

definition recorded :: "instant \<Rightarrow> database \<Rightarrow> bool" where
  "recorded now d = (\<forall>n \<in> set (nodes d). n_last_heartbeat n = Some now \<longrightarrow> (\<exists>r \<in> set (samples d). sample_of now n r))"

lemma apply_node_status_id: "apply_node_status now st node = Inr n \<Longrightarrow> n_id n = n_id node"
  by (auto simp: apply_node_status_def Let_def split: if_splits option.splits)

lemma record_sample_db [simp]:
  "nodes (record_sample st now False node d) = nodes d"
  "samples (record_sample st now False node d) = samples d @ [new_sample (next_id d) now node]"
  by (simp_all add: record_sample_def fresh_def row_insert_def)

lemma recorded_refresh:
  assumes "recorded now d" and "row_get n_id i (nodes d') = Some node"
    and "\<And>n. n \<in> set (nodes d') \<Longrightarrow> n_id n \<noteq> i \<Longrightarrow> n \<in> set (nodes d)"
    and "samples d' = samples d" and "\<And>n. n \<in> set (nodes d') \<Longrightarrow> n_id n = i \<Longrightarrow> n = node"
  shows "recorded now (record_sample st now False node d')"
  unfolding recorded_def
proof (intro ballI impI)
  fix n assume n: "n \<in> set (nodes (record_sample st now False node d'))" "n_last_heartbeat n = Some now"
  show "\<exists>r \<in> set (samples (record_sample st now False node d')). sample_of now n r"
  proof (cases "n_id n = i")
    case True
    then have "n = node" using n(1) assms(5) by simp
    then show ?thesis by (auto simp: sample_of_def new_sample_def intro!: bexI [of _ "new_sample (next_id d') now node"])
  next
    case False
    then show ?thesis using n assms(1,3,4) by (fastforce simp: recorded_def)
  qed
qed

lemma row_replaced:
  assumes "n_id m = i"
  shows "n \<in> set (nodes (set_node i (\<lambda>_. m) d)) \<Longrightarrow> n_id n \<noteq> i \<Longrightarrow> n \<in> set (nodes d)"
    and "n \<in> set (nodes (set_node i (\<lambda>_. m) d)) \<Longrightarrow> n_id n = i \<Longrightarrow> n = m"
  using assms by (auto simp: set_node_def tbl split: if_splits)

lemma samples_set_node [simp]: "samples (set_node i f d) = samples d"
  by (simp add: set_node_def)

text \<open>A poll that raises leaves the database alone; one that does not keeps it recorded, and only adds samples.\<close>

definition poll_ok :: "instant \<Rightarrow> 'w sys \<Rightarrow> service_error option \<times> 'w sys \<Rightarrow> bool" where
  "poll_ok now s r =
     ((fst r \<noteq> None \<longrightarrow> db (snd r) = db s)
    \<and> (recorded now (db s) \<longrightarrow> recorded now (db (snd r)))
    \<and> set (samples (db s)) \<subseteq> set (samples (db (snd r)))
    \<and> (\<forall>r \<in> set (samples (db (snd r))) - set (samples (db s)). wm_recorded_at r = now))"

lemma poll_row_ok:
  assumes "\<And>i t. r = (Inr i, t) \<Longrightarrow> \<exists>m d. db t = set_node i (\<lambda>_. m) d \<and> n_id m = i \<and> samples d = samples (db s)
      \<and> (\<forall>n \<in> set (nodes d). n_id n \<noteq> i \<longrightarrow> n \<in> set (nodes (db s)))"
  shows "poll_ok now s (poll_row B now r s)"
proof -
  obtain q t where r: "r = (q, t)" by (cases r)
  show ?thesis
  proof (cases q)
    case (Inr i)
    then obtain m d where d: "db t = set_node i (\<lambda>_. m) d" "n_id m = i" "samples d = samples (db s)"
      "\<And>n. n \<in> set (nodes d) \<Longrightarrow> n_id n \<noteq> i \<Longrightarrow> n \<in> set (nodes (db s))"
      using assms r by blast
    show ?thesis
    proof (cases "row_get n_id i (nodes (db t))")
      case (Some m')
      then have m': "m' = m" using row_get_SomeD [OF Some] row_replaced(2) [OF d(2)] d(1) by auto
      have "recorded now (db s) \<Longrightarrow> recorded now (record_sample (cfg B) now False m (db t))"
        by (rule recorded_refresh [where i = i and d = "db s"])
          (use Some m' d row_replaced [OF d(2)] in auto)
      then show ?thesis using r Inr Some m' d(1,3) by (auto simp: poll_ok_def poll_row_def new_sample_def)
    qed (use r Inr in \<open>simp add: poll_ok_def poll_row_def\<close>)
  qed (use r in \<open>simp add: poll_ok_def poll_row_def\<close>)
qed

lemma poll_enrolled_ok: "poll_ok now s (poll_enrolled_node B now i s)"
proof (cases "row_get n_id i (nodes (db s))")
  case (Some node)
  have "poll_ok now s (poll_row B now (refresh_enrolled_node B now node s) s)"
  proof (rule poll_row_ok)
    fix j t assume "refresh_enrolled_node B now node s = (Inr j, t)"
    then obtain st s1 m where a: "agent (get_node_status B (connection_for_node B (Some node))) s = (Inr st, s1)"
      and "apply_node_status now st node = Inr m" "j = n_id node" "t = on_db (set_node j (\<lambda>_. m)) s1"
      by (auto simp: refresh_enrolled_node_def split: prod.splits sum.splits)
    then show "\<exists>m d. db t = set_node j (\<lambda>_. m) d \<and> n_id m = j \<and> samples d = samples (db s)
      \<and> (\<forall>n \<in> set (nodes d). n_id n \<noteq> j \<longrightarrow> n \<in> set (nodes (db s)))"
      using agent_frame [OF a] apply_node_status_id
      by (intro exI [of _ m] exI [of _ "db s"]) auto
  qed
  then show ?thesis using Some by (auto simp: poll_enrolled_node_def poll_ok_def)
qed (simp add: poll_ok_def poll_enrolled_node_def)

lemma poll_default_ok: "poll_ok now s (poll_default_node B now s)"
  unfolding poll_default_node_def
proof (rule poll_row_ok)
  fix i t assume "refresh_node_from_agent B now s = (Inr i, t)"
  then obtain st s1 where a: "agent (get_node_status B (default_connection B)) s = (Inr st, s1)"
    and rest: "(let (i, s) = (case row_get n_hostname (ns_hostname st) (nodes (db s1)) of
               Some node \<Rightarrow> (n_id node, s1)
             | None \<Rightarrow> let (i, d) = fresh (db s1)
                 in (i, s1\<lparr>db := d\<lparr>nodes := row_insert (new_node i now (ns_hostname st)) (nodes d)\<rparr>\<rparr>))
          in case row_get n_id i (nodes (db s)) of
               None \<Rightarrow> (Inl DbIntegrityError, s)
             | Some node \<Rightarrow> (case apply_node_status now st node of
                  Inl e \<Rightarrow> (Inl e, s) | Inr node' \<Rightarrow> (Inr i, on_db (set_node i (\<lambda>_. node')) s))) = (Inr i, t)"
    by (auto simp: refresh_node_from_agent_def split: prod.splits sum.splits)
  define p where "p = (case row_get n_hostname (ns_hostname st) (nodes (db s1)) of
       Some node \<Rightarrow> (n_id node, s1)
     | None \<Rightarrow> let (i, d) = fresh (db s1)
         in (i, s1\<lparr>db := d\<lparr>nodes := row_insert (new_node i now (ns_hostname st)) (nodes d)\<rparr>\<rparr>))"
  have p: "samples (db (snd p)) = samples (db s)"
    "\<And>n. n \<in> set (nodes (db (snd p))) \<Longrightarrow> n_id n \<noteq> fst p \<Longrightarrow> n \<in> set (nodes (db s))"
    using agent_frame [OF a] by (auto simp: p_def fresh_def new_node_def tbl split: option.splits)
  obtain node m where "row_get n_id (fst p) (nodes (db (snd p))) = Some node" "apply_node_status now st node = Inr m"
    "i = fst p" "t = on_db (set_node i (\<lambda>_. m)) (snd p)"
    using rest unfolding p_def [symmetric] by (cases p) (auto split: option.splits sum.splits)
  then show "\<exists>m d. db t = set_node i (\<lambda>_. m) d \<and> n_id m = i \<and> samples d = samples (db s)
      \<and> (\<forall>n \<in> set (nodes d). n_id n \<noteq> i \<longrightarrow> n \<in> set (nodes (db s)))"
    using p apply_node_status_id row_get_SomeD by (intro exI [of _ m] exI [of _ "db (snd p)"]) fastforce
qed

lemma poll_ok_trans: "poll_ok now s r \<Longrightarrow> poll_ok now (snd r) (e, t) \<Longrightarrow> poll_ok now s (None, t)"
  by (auto simp: poll_ok_def)

lemma poll_all_ok:
  "poll_ok now s (None, snd (poll_all B now ps s)) \<and> map fst (fst (poll_all B now ps s)) = map snd ps"
proof (induction ps arbitrary: s)
  case (Cons p ps)
  obtain i host where p: "p = (i, host)" by (cases p)
  obtain e s1 where 1: "poll_enrolled_node B now i s = (e, s1)" by (metis prod.exhaust)
  have "poll_ok now s (e, s1)" using poll_enrolled_ok [of now s B i] 1 by simp
  moreover have "poll_ok now (snd (e, s1)) (None, snd (poll_all B now ps s1))" using Cons.IH [of s1] by simp
  ultimately have "poll_ok now s (None, snd (poll_all B now ps s1))" by (rule poll_ok_trans)
  then show ?case using Cons.IH [of s1] p 1 by (simp add: case_prod_unfold)
qed (simp add: poll_ok_def)

lemma sample_of_time: "sample_of now n r \<Longrightarrow> wm_recorded_at r = now"
  by (metis new_sample_def sample_of_def worker_metric_sample.select_convs(3))

lemma prune_samples_db [simp]:
  "nodes (prune_samples st now d) = nodes d"
  "r \<in> set (samples (prune_samples st now d)) \<longleftrightarrow>
     r \<in> set (samples d) \<and> now - days (metrics_retention_days st) \<le> wm_recorded_at r"
  by (auto simp: prune_samples_def rows_delete_def Let_def)

lemma recorded_prune:
  "recorded now d \<Longrightarrow> 0 \<le> days (metrics_retention_days st) \<Longrightarrow> recorded now (prune_samples st now d)"
  unfolding recorded_def using sample_of_time by fastforce


end
