(* ===== verification/Health.thy ===== *)
theory Health
  imports Sessions Nodes Clamav Docker_Provider
begin

text \<open>
  The aggregated health report (\<open>services/health.py\<close>) and the check of the marker file that vouches for the network
  isolation of the sandboxes. The probes themselves (a query, a PING, clamd, a file) are parameters, a record
  \<open>'w probes\<close>; an exception that leaves the report is an \<open>Inl\<close> with its name.
\<close>

section \<open>Python's float\<close>

text \<open>The value of \<open>float(text)\<close>: a number, or one of the three special values; \<open>None\<close> is the \<open>ValueError\<close>.\<close>

datatype pyfloat = Finite rat | Infinite bool | Not_a_number

definition digit_run :: "string \<Rightarrow> nat option" where
  "digit_run s = (if s = [] then Some 0 else if is_digit (hd s) then digits_value 0 s else None)"

definition count_digits :: "string \<Rightarrow> nat" where
  "count_digits s = length (filter is_digit s)"

text \<open>A mantissa with at most one point and at least one digit, and an optional exponent.\<close>

definition mantissa :: "string \<Rightarrow> rat option" where
  "mantissa s =
     (let (ip, _, fp) = partition_at (CHR ''.'') s in
      if ip = [] \<and> fp = [] then None
      else case (digit_run ip, digit_run fp) of
          (Some a, Some b) \<Rightarrow> Some (of_nat a + of_nat b / 10 ^ count_digits fp)
        | _ \<Rightarrow> None)"

definition signed_text :: "string \<Rightarrow> bool \<times> string" where
  "signed_text s =
     (case s of [] \<Rightarrow> (False, []) | c # cs \<Rightarrow>
        if c = CHR ''-'' then (True, cs) else if c = CHR ''+'' then (False, cs) else (False, c # cs))"

definition exponent :: "string \<Rightarrow> int option" where
  "exponent s =
     (let (neg, ds) = signed_text s in
      if ds = [] then None else map_option (\<lambda>n. if neg then - int n else int n) (digit_run ds))"

definition power10 :: "int \<Rightarrow> rat" where
  "power10 e = (if 0 \<le> e then 10 ^ nat e else 1 / 10 ^ nat (- e))"

text \<open>An underscore between two digits is dropped; any other stays, and no number has one.\<close>

fun without_underscores :: "bool \<Rightarrow> string \<Rightarrow> string" where
  "without_underscores p [] = []"
| "without_underscores p (c # cs) =
     (if c = CHR ''_'' \<and> p \<and> cs \<noteq> [] \<and> is_digit (hd cs) then without_underscores False cs
      else c # without_underscores (is_digit c) cs)"

text \<open>A value that rounds beyond the largest double is infinite; other rounding is left out.\<close>

definition double :: "rat \<Rightarrow> pyfloat" where
  "double x = (if \<bar>x\<bar> \<ge> (2 ^ 54 - 1) * 2 ^ 970 then Infinite (x < 0) else Finite x)"

definition py_float :: "string \<Rightarrow> pyfloat option" where
  "py_float body =
     (let (neg, s) = signed_text (without_underscores False (lower (strip body))); sg = (if neg then -1 else 1) in
      if s = ''nan'' then Some Not_a_number
      else if s \<in> {''inf'', ''infinity''} then Some (Infinite neg)
      else let (m, has_exp, e) = partition_at (CHR ''e'') s in
        case (mantissa m, if has_exp then exponent e else Some 0) of
          (Some v, Some k) \<Rightarrow> Some (double (sg * v * power10 k))
        | _ \<Rightarrow> None)"

section \<open>Components\<close>

datatype component_status = CS_HEALTHY | CS_DEGRADED | CS_UNAVAILABLE | CS_NOT_CONFIGURED

record component_health =
  ch_name :: string
  ch_status :: component_status
  ch_detail :: "string option"

definition component :: "string \<Rightarrow> component_status \<Rightarrow> string option \<Rightarrow> component_health" where
  "component nm st detail = \<lparr> ch_name = nm, ch_status = st, ch_detail = detail \<rparr>"

text \<open>Reading the marker: the file is missing, cannot be read, is not UTF-8, or has this text.\<close>

datatype marker_file = Marker_missing | Marker_unreadable string | Marker_undecodable | Marker_text string

record 'w probes =
  pr_query :: "'w \<Rightarrow> string option"
  pr_nodes_query :: "'w \<Rightarrow> string option"
  pr_ping :: "'w \<Rightarrow> string + bool"
  pr_clamd :: "bytes \<Rightarrow> 'w \<Rightarrow> clamd_reply \<times> 'w"
  pr_storage :: "string \<Rightarrow> 'w \<Rightarrow> string option \<times> 'w"
  pr_marker :: "string \<Rightarrow> 'w \<Rightarrow> marker_file"
  pr_clock :: "'w \<Rightarrow> rat"

definition check_api :: component_health where
  "check_api = component ''api'' CS_HEALTHY None"

definition check_postgres :: "'w probes \<Rightarrow> 'w \<Rightarrow> component_health" where
  "check_postgres P w =
     (case pr_query P w of
        None \<Rightarrow> component ''postgres'' CS_HEALTHY None
      | Some m \<Rightarrow> component ''postgres'' CS_UNAVAILABLE (Some m))"

definition check_redis :: "'w probes \<Rightarrow> 'w \<Rightarrow> component_health" where
  "check_redis P w =
     (case pr_ping P w of
        Inr True \<Rightarrow> component ''redis'' CS_HEALTHY None
      | Inr False \<Rightarrow> component ''redis'' CS_UNAVAILABLE (Some ''no PONG'')
      | Inl m \<Rightarrow> component ''redis'' CS_UNAVAILABLE (Some m))"

definition check_session_agent :: "'w backend \<Rightarrow> 'w \<Rightarrow> component_health list \<times> 'w" where
  "check_session_agent B w =
     (case get_node_status B (default_connection B) w of
        (Inl e, w) \<Rightarrow>
          ([component ''session_agent'' CS_UNAVAILABLE (Some (error_detail e)),
            component ''sandbox_runtime'' CS_UNAVAILABLE (Some ''session agent unreachable''),
            component ''browser_image'' CS_UNAVAILABLE (Some ''session agent unreachable'')], w)
      | (Inr node, w) \<Rightarrow>
          ([component ''session_agent'' CS_HEALTHY (Some (ns_status node)),
            component ''sandbox_runtime'' CS_HEALTHY (Some (ns_runtime node @ '' '' @ ns_version node)),
            if ns_sandbox_image_available node then component ''browser_image'' CS_HEALTHY None
            else component ''browser_image'' CS_UNAVAILABLE (Some ''sandbox image not present on node'')], w))"

primrec worker_health_value :: "worker_health \<Rightarrow> string" where
  "worker_health_value WH_HEALTHY = ''HEALTHY''"
| "worker_health_value WH_DEGRADED = ''DEGRADED''"
| "worker_health_value WH_DRAINING = ''DRAINING''"
| "worker_health_value WH_MAINTENANCE = ''MAINTENANCE''"
| "worker_health_value WH_OFFLINE = ''OFFLINE''"

definition enrolled_by_name :: "database \<Rightarrow> browser_node list" where
  "enrolled_by_name d =
     sort_key n_hostname (filter (\<lambda>n. n_enrollment_status n = NE_APPROVED \<and> n_endpoint_url n \<noteq> None) (nodes d))"

fun comma_separated :: "string list \<Rightarrow> string" where
  "comma_separated [] = []"
| "comma_separated [x] = x"
| "comma_separated (x # xs) = x @ '', '' @ comma_separated xs"

definition node_problems :: "settings \<Rightarrow> instant \<Rightarrow> browser_node list \<Rightarrow> string list" where
  "node_problems st now ns =
     map (\<lambda>n. n_hostname n @ '' '' @ worker_health_value (compute_worker_health st now n))
       (filter (\<lambda>n. compute_worker_health st now n \<in> {WH_DEGRADED, WH_OFFLINE}) ns)"

definition check_browser_nodes :: "'w probes \<Rightarrow> settings \<Rightarrow> instant \<Rightarrow> database \<Rightarrow> 'w \<Rightarrow> component_health" where
  "check_browser_nodes P st now d w =
     (case pr_nodes_query P w of
        Some m \<Rightarrow> component ''browser_nodes'' CS_UNAVAILABLE (Some m)
      | None \<Rightarrow>
          (let ns = enrolled_by_name d; problems = node_problems st now ns in
           if ns = [] then component ''browser_nodes'' CS_HEALTHY (Some ''no enrolled nodes'')
           else if problems \<noteq> [] then component ''browser_nodes'' CS_DEGRADED
               (Some (show_nat (length problems) @ '' of '' @ show_nat (length ns) @ '' enrolled nodes need attention: ''
                  @ comma_separated problems))
           else component ''browser_nodes'' CS_HEALTHY
               (Some (show_nat (length ns) @ '' enrolled node(s) healthy, draining or in maintenance''))))"

definition check_clamav :: "'w probes \<Rightarrow> 'w \<Rightarrow> component_health \<times> 'w" where
  "check_clamav P w =
     (case ping (pr_clamd P) w of
        (False, w) \<Rightarrow> (component ''clamav'' CS_UNAVAILABLE (Some ''no PONG''), w)
      | (True, w) \<Rightarrow>
          (case signature_version (pr_clamd P) w of (v, w) \<Rightarrow> (component ''clamav'' CS_HEALTHY v, w)))"

definition check_quarantine_storage :: "'w probes \<Rightarrow> settings \<Rightarrow> 'w \<Rightarrow> component_health \<times> 'w" where
  "check_quarantine_storage P st w =
     (case pr_storage P (download_staging_dir st) w of
        (None, w) \<Rightarrow> (component ''quarantine_storage'' CS_HEALTHY None, w)
      | (Some m, w) \<Rightarrow> (component ''quarantine_storage'' CS_UNAVAILABLE (Some m), w))"

section \<open>The network isolation marker\<close>

text \<open>\<open>dict(line.split("=", 1) for line in ... if "=" in line)\<close>: the last line of a key counts.\<close>

definition marker_fields :: "string \<Rightarrow> (string \<times> string) list" where
  "marker_fields body =
     rev (map (\<lambda>l. case partition_at (CHR ''='') l of (k, _, v) \<Rightarrow> (k, v))
       (filter (\<lambda>l. CHR ''='' \<in> set l) (splitlines body)))"

definition not_set_up :: string where
  "not_set_up = ''Browser network isolation is not verified. Do not use OpenRBI in production until ''
     @ ''scripts/setup-network-isolation.sh has been run on the Docker host - see docs/deployment.md#network-isolation.''"

definition stale_text :: "int \<Rightarrow> int \<Rightarrow> string" where
  "stale_text age_seconds window =
     ''isolation rules were last confirmed '' @ show_int age_seconds @ ''s ago, exceeding the '' @ show_int window
       @ ''s freshness window - re-run scripts/setup-network-isolation.sh, or install ''
       @ ''scripts/systemd/openrbi-network-isolation.timer so it reruns automatically.''"

definition staleness_limit :: "settings \<Rightarrow> rat" where
  "staleness_limit st = of_int (network_isolation_max_staleness st) / 1000000"

text \<open>
  Both comparisons with a NaN are false, and \<open>int\<close> of an infinite age raises \<open>OverflowError\<close>. The values of
  the two integers in the text are those of \<open>int\<close>, which drops the fraction.
\<close>

definition isolation_by_age :: "settings \<Rightarrow> rat \<Rightarrow> pyfloat \<Rightarrow> string + component_health" where
  "isolation_by_age st t applied_at =
     (case applied_at of
        Finite a \<Rightarrow>
          if t - a > staleness_limit st \<or> t - a < 0
          then Inr (component ''network_isolation'' CS_DEGRADED
                 (Some (stale_text (truncated (t - a)) (truncated (staleness_limit st)))))
          else Inr (component ''network_isolation'' CS_HEALTHY None)
      | Infinite _ \<Rightarrow> Inl ''OverflowError''
      | Not_a_number \<Rightarrow> Inr (component ''network_isolation'' CS_HEALTHY None))"

definition check_network_isolation :: "'w probes \<Rightarrow> settings \<Rightarrow> 'w \<Rightarrow> string + component_health" where
  "check_network_isolation P st w =
     (case pr_marker P (network_isolation_marker_file st) w of
        Marker_missing \<Rightarrow> Inr (component ''network_isolation'' CS_NOT_CONFIGURED (Some not_set_up))
      | Marker_unreadable m \<Rightarrow> Inr (component ''network_isolation'' CS_UNAVAILABLE (Some m))
      | Marker_undecodable \<Rightarrow> Inl ''UnicodeDecodeError''
      | Marker_text body \<Rightarrow>
          (case (map_of (marker_fields body) ''MARKER'' = Some ''openrbi-network-isolation'', map_of (marker_fields body) ''APPLIED_AT'') of
             (True, Some v) \<Rightarrow>
               (case py_float v of
                  None \<Rightarrow> Inr (component ''network_isolation'' CS_UNAVAILABLE (Some ''marker file is malformed''))
                | Some x \<Rightarrow> isolation_by_age st (pr_clock P w) x)
           | _ \<Rightarrow> Inr (component ''network_isolation'' CS_UNAVAILABLE (Some ''marker file is malformed''))))"

section \<open>The report\<close>

record system_health =
  sh_status :: component_status
  sh_components :: "component_health list"

definition overall_status :: "component_health list \<Rightarrow> component_status" where
  "overall_status cs =
     (let by_name = map_of (rev (map (\<lambda>c. (ch_name c, ch_status c)) cs)) in
      if by_name ''api'' \<noteq> Some CS_HEALTHY \<or> by_name ''postgres'' \<noteq> Some CS_HEALTHY then CS_UNAVAILABLE
      else if list_ex (\<lambda>c. ch_status c \<noteq> CS_HEALTHY) cs then CS_DEGRADED
      else CS_HEALTHY)"

definition get_system_health ::
  "'w backend \<Rightarrow> 'w probes \<Rightarrow> instant \<Rightarrow> database \<Rightarrow> 'w \<Rightarrow> (string + system_health) \<times> 'w" where
  "get_system_health B P now d w =
     (let (agent_parts, w) = check_session_agent B w;
          basics = [check_api, check_postgres P w, check_redis P w];
          worker_nodes = check_browser_nodes P (cfg B) now d w;
          (clam, w) = check_clamav P w;
          (store, w) = check_quarantine_storage P (cfg B) w
      in case check_network_isolation P (cfg B) w of
           Inl e \<Rightarrow> (Inl e, w)
         | Inr marker \<Rightarrow>
             (let cs = basics @ agent_parts @ [worker_nodes, clam, store, marker]
              in (Inr \<lparr> sh_status = overall_status cs, sh_components = cs \<rparr>, w)))"

section \<open>Guarantees\<close>

text \<open>
  The isolation of the sandboxes is reported healthy exactly when the marker file can be read, names itself, and
  gives a time of application that lies in the freshness window, or is the word nan, which passes for fresh. A
  missing, unreadable, malformed or stale marker is never reported healthy.
\<close>

theorem isolation_healthy_iff:
  "(\<exists>c. check_network_isolation P st w = Inr c \<and> ch_status c = CS_HEALTHY) \<longleftrightarrow>
     (\<exists>body v x. pr_marker P (network_isolation_marker_file st) w = Marker_text body
        \<and> map_of (marker_fields body) ''MARKER'' = Some ''openrbi-network-isolation''
        \<and> map_of (marker_fields body) ''APPLIED_AT'' = Some v \<and> py_float v = Some x
        \<and> (x = Not_a_number
           \<or> (\<exists>a. x = Finite a \<and> 0 \<le> pr_clock P w - a \<and> pr_clock P w - a \<le> staleness_limit st)))"
proof (cases "pr_marker P (network_isolation_marker_file st) w")
  case (Marker_text body)
  show ?thesis
  proof (cases "map_of (marker_fields body) ''MARKER'' = Some ''openrbi-network-isolation''")
    case True
    show ?thesis
    proof (cases "map_of (marker_fields body) ''APPLIED_AT''")
      case (Some v)
      show ?thesis
      proof (cases "py_float v")
        case None
        then show ?thesis using Marker_text True Some by (simp add: check_network_isolation_def component_def)
      next
        case (Some x)
        then show ?thesis using Marker_text True \<open>map_of (marker_fields body) ''APPLIED_AT'' = Some v\<close>
          by (cases x) (auto simp: check_network_isolation_def isolation_by_age_def component_def)
      qed
    qed (use Marker_text True in \<open>simp add: check_network_isolation_def component_def\<close>)
  qed (use Marker_text in \<open>auto simp: check_network_isolation_def component_def split: option.split\<close>)
qed (simp_all add: check_network_isolation_def component_def)

lemma component_simps [simp]:
  "ch_name (component n st x) = n" "ch_status (component n st x) = st" "ch_detail (component n st x) = x"
  by (simp_all add: component_def)

lemma check_session_agent_names:
  "map ch_name (fst (check_session_agent B w)) = [''session_agent'', ''sandbox_runtime'', ''browser_image'']"
  by (simp add: check_session_agent_def split: prod.split sum.split)

lemma check_names:
  "ch_name check_api = ''api''" "ch_name (check_postgres P w) = ''postgres''" "ch_name (check_redis P w) = ''redis''"
  "ch_name (check_browser_nodes P st now d w) = ''browser_nodes''" "ch_name (fst (check_clamav P w)) = ''clamav''"
  "ch_name (fst (check_quarantine_storage P st w)) = ''quarantine_storage''"
  "check_network_isolation P st w = Inr c \<Longrightarrow> ch_name c = ''network_isolation''"
  by (auto simp: check_api_def check_postgres_def check_redis_def check_browser_nodes_def check_clamav_def
      check_quarantine_storage_def check_network_isolation_def isolation_by_age_def Let_def
      split: option.splits sum.splits bool.splits prod.splits marker_file.splits pyfloat.splits if_splits)

text \<open>
  The report has the same ten components in the same order whatever fails; it is UNAVAILABLE exactly when the
  database does not answer, HEALTHY exactly when every component is, DEGRADED otherwise; and it is produced
  unless the isolation marker is not UTF-8 or names an infinite time, when the endpoint answers 500.
\<close>

theorem health_report_is_faithful:
  "(case fst (get_system_health B P now d w) of
      Inl e \<Rightarrow> e \<in> {''UnicodeDecodeError'', ''OverflowError''}
    | Inr h \<Rightarrow>
        map ch_name (sh_components h) = [''api'', ''postgres'', ''redis'', ''session_agent'', ''sandbox_runtime'', ''browser_image'',
          ''browser_nodes'', ''clamav'', ''quarantine_storage'', ''network_isolation'']
        \<and> (sh_status h = CS_UNAVAILABLE \<longleftrightarrow> pr_query P (snd (check_session_agent B w)) \<noteq> None)
        \<and> (sh_status h = CS_HEALTHY \<longleftrightarrow> (\<forall>c \<in> set (sh_components h). ch_status c = CS_HEALTHY))
        \<and> sh_status h \<noteq> CS_NOT_CONFIGURED)"
proof -
  obtain agent_parts w1 where a: "check_session_agent B w = (agent_parts, w1)" by (metis prod.exhaust)
  obtain clam w2 where c: "check_clamav P w1 = (clam, w2)" by (metis prod.exhaust)
  obtain store w3 where s: "check_quarantine_storage P (cfg B) w2 = (store, w3)" by (metis prod.exhaust)
  have names: "map ch_name agent_parts = [''session_agent'', ''sandbox_runtime'', ''browser_image'']"
    "ch_name clam = ''clamav''" "ch_name store = ''quarantine_storage''"
    using check_session_agent_names [of B w] check_names(5) [of P w1] check_names(6) [of P "cfg B" w2] a c s by simp_all
  show ?thesis
  proof (cases "check_network_isolation P (cfg B) w3")
    case (Inl e)
    then have "e \<in> {''UnicodeDecodeError'', ''OverflowError''}"
      by (auto simp: check_network_isolation_def isolation_by_age_def
          split: marker_file.splits option.splits bool.splits prod.splits pyfloat.splits if_splits)
    then show ?thesis using a c s Inl by (simp add: get_system_health_def)
  next
    case (Inr marker)
    obtain x y z where ag: "agent_parts = [x, y, z]" "ch_name x = ''session_agent''" "ch_name y = ''sandbox_runtime''" "ch_name z = ''browser_image''"
      using names(1) by (auto simp: map_eq_Cons_conv)
    have pg: "ch_status (check_postgres P w1) = CS_HEALTHY \<longleftrightarrow> pr_query P w1 = None"
      by (simp add: check_postgres_def split: option.split)
    have api: "ch_status check_api = CS_HEALTHY" by (simp add: check_api_def)
    show ?thesis
      using a c s Inr names(2,3) ag pg api check_names(7) [OF Inr]
      by (auto simp: get_system_health_def overall_status_def check_names Let_def)
  qed
qed

text \<open>The words that pass, or break the report.\<close>

lemma special_times:
  "py_float ''nan'' = Some Not_a_number" "py_float '' -Inf'' = Some (Infinite True)" "py_float ''x'' = None"
  by code_simp+

end
