(* ===== verification/Dashboard.thy ===== *)
theory Dashboard
  imports Metrics Health
begin

text \<open>
  The dashboard of the admin portal (\<open>services/dashboard.py\<close>): its figures, its warnings and the endpoint. The text of
  a UUID is the parameter \<open>id_text\<close>. Rows a query returns without an order come in storage order.
\<close>

section \<open>Records\<close>

record worker_summary =
  ws_id :: string
  ws_hostname :: string
  ws_health :: string
  ws_cpu_percent :: "rat option"
  ws_ram_percent :: "rat option"
  ws_active_sessions :: int
  ws_capacity :: int

record dash_warning =
  dw_kind :: string
  dw_message :: string
  dw_worker_hostname :: "string option"
  dw_username :: "string option"

record dashboard_kpis =
  kp_active_sessions :: int
  kp_active_sessions_delta_last_hour :: "int option"
  kp_workers_healthy :: int
  kp_workers_total :: int
  kp_system_health :: component_status
  kp_avg_cpu_percent :: "rat option"
  kp_avg_ram_percent :: "rat option"
  kp_users :: int
  kp_files_processed_24h :: int
  kp_blocked_files_24h :: int
  kp_incidents_24h :: int

record recent_incident =
  ri_id :: string
  ri_severity :: incident_severity
  ri_status :: incident_status
  ri_title :: string
  ri_created_at :: instant

record dashboard =
  da_generated_at :: instant
  da_telemetry_stale :: bool
  da_kpis :: dashboard_kpis
  da_session_history :: "(instant \<times> int) list"
  da_workers :: "worker_summary list"
  da_warnings :: "dash_warning list"
  da_file_statuses_24h :: "(quarantine_status \<times> int) list"
  da_quarantine_pending :: int
  da_quarantine_high_risk :: int
  da_recent_incidents :: "recent_incident list"

definition count :: "('r \<Rightarrow> bool) \<Rightarrow> 'r list \<Rightarrow> int" where
  "count P rows = int (length (filter P rows))"

definition hours :: "int \<Rightarrow> instant" where
  "hours n = minutes (60 * n)"

section \<open>Figures\<close>

definition ACTIVE_SESSION_STATUSES :: "session_status set" where
  "ACTIVE_SESSION_STATUSES = {SS_ACTIVE, SS_DISCONNECTED}"

text \<open>The oldest start, NULLs sorting last; then the number of sessions running an hour ago.\<close>

definition earliest_start :: "database \<Rightarrow> instant option" where
  "earliest_start d =
     (case sort (known s_started_at (sessions d)) of [] \<Rightarrow> None | t # _ \<Rightarrow> Some t)"

definition running_at :: "instant \<Rightarrow> browser_session \<Rightarrow> bool" where
  "running_at t x =
     ((case s_started_at x of None \<Rightarrow> False | Some b \<Rightarrow> b \<le> t)
    \<and> (case s_ended_at x of None \<Rightarrow> True | Some e \<Rightarrow> t < e))"

definition active_sessions_delta_last_hour :: "instant \<Rightarrow> database \<Rightarrow> int option" where
  "active_sessions_delta_last_hour now d =
     (let an_hour_ago = now - hours 1 in
      case earliest_start d of
        None \<Rightarrow> None
      | Some t \<Rightarrow> if t > an_hour_ago then None else Some (count (running_at an_hour_ago) (sessions d)))"

definition ram_percent_of :: "browser_node \<Rightarrow> rat option" where
  "ram_percent_of n =
     (case (n_ram_total_mb n, n_ram_used_mb n) of
        (Some tot, Some used) \<Rightarrow> if tot > 0 then Some (round1 (of_int used / of_int tot * 100)) else None
      | _ \<Rightarrow> None)"

definition worker_summary_of :: "(uuid \<Rightarrow> string) \<Rightarrow> settings \<Rightarrow> instant \<Rightarrow> browser_node \<Rightarrow> worker_summary" where
  "worker_summary_of id_text st now n =
     \<lparr> ws_id = id_text (n_id n), ws_hostname = n_hostname n,
       ws_health = worker_health_value (compute_worker_health st now n), ws_cpu_percent = n_cpu_percent n,
       ws_ram_percent = ram_percent_of n, ws_active_sessions = n_active_sessions n, ws_capacity = n_capacity n \<rparr>"

definition telemetry_stale :: "settings \<Rightarrow> instant \<Rightarrow> browser_node list \<Rightarrow> bool" where
  "telemetry_stale st now ns = (ns = [] \<or> list_ex (is_heartbeat_stale st now) ns)"

definition quarantine_high_risk :: "database \<Rightarrow> int" where
  "quarantine_high_risk d =
     count (\<lambda>k. i_quarantine_file_id k \<noteq> None \<and> i_severity k \<in> {IV_HIGH, IV_CRITICAL}
              \<and> i_status k \<in> {IS_NEW, IS_INVESTIGATING}) (incidents d)"

definition recent_incidents :: "(uuid \<Rightarrow> string) \<Rightarrow> database \<Rightarrow> recent_incident list" where
  "recent_incidents id_text d =
     map (\<lambda>k. \<lparr> ri_id = id_text (i_id k), ri_severity = i_severity k, ri_status = i_status k, ri_title = i_title k,
                ri_created_at = i_created_at k \<rparr>)
       (take 5 (sort_key (\<lambda>k. - i_created_at k) (incidents d)))"

definition file_status_count :: "instant \<Rightarrow> database \<Rightarrow> quarantine_status \<Rightarrow> int" where
  "file_status_count since d st = count (\<lambda>f. q_created_at f \<ge> since \<and> q_status f = st) (quarantine_files d)"

section \<open>Warnings\<close>

definition SUSTAINED_HIGH_LOAD_WINDOW :: instant where "SUSTAINED_HIGH_LOAD_WINDOW = minutes 10"
definition FAILED_LOGIN_WARNING_WINDOW :: instant where "FAILED_LOGIN_WARNING_WINDOW = minutes 15"
definition FAILED_LOGIN_WARNING_THRESHOLD :: nat where "FAILED_LOGIN_WARNING_THRESHOLD = 3"
definition ORPHAN_RECONCILED_WARNING_WINDOW :: instant where "ORPHAN_RECONCILED_WARNING_WINDOW = hours 24"

definition warn :: "string \<Rightarrow> string option \<Rightarrow> string option \<Rightarrow> string \<Rightarrow> dash_warning" where
  "warn kind host user msg = \<lparr> dw_kind = kind, dw_message = msg, dw_worker_hostname = host, dw_username = user \<rparr>"

definition samples_since :: "instant \<Rightarrow> database \<Rightarrow> uuid \<Rightarrow> worker_metric_sample list" where
  "samples_since since d i = filter (\<lambda>r. wm_recorded_at r \<ge> since \<and> wm_node_id r = i) (samples d)"

definition sustained_high_load_warnings ::
  "settings \<Rightarrow> browser_node list \<Rightarrow> (uuid \<Rightarrow> worker_metric_sample list) \<Rightarrow> dash_warning list" where
  "sustained_high_load_warnings st ns samples_by_node =
     concat (map (\<lambda>n.
       let recent = known wm_cpu_percent (samples_by_node (n_id n)) in
       if length recent < 2 then []
       else if list_all (\<lambda>c. c \<ge> node_cpu_degraded_percent st) recent
       then [warn ''high_cpu'' (Some (n_hostname n)) None
         (n_hostname n @ '' CPU above '' @ show_int (round_half_even (node_cpu_degraded_percent st)) @ ''% for over ''
            @ show_int (SUSTAINED_HIGH_LOAD_WINDOW div minutes 1) @ '' minutes'')]
       else []) ns)"

definition upper_bound_text :: "string \<Rightarrow> string" where
  "upper_bound_text b = (if b = ''ram'' then ''RAM'' else ''CPU'')"

definition bound_samples :: "worker_metric_sample list \<Rightarrow> (string \<times> int \<times> int) list" where
  "bound_samples rows =
     List.map_filter (\<lambda>r. case (wm_capacity_bound r, wm_capacity r) of
         (Some b, Some c) \<Rightarrow> Some (b, wm_active_sessions r, c) | _ \<Rightarrow> None) rows"

definition capacity_bound_warnings ::
  "browser_node list \<Rightarrow> (uuid \<Rightarrow> worker_metric_sample list) \<Rightarrow> instant \<Rightarrow> dash_warning list" where
  "capacity_bound_warnings ns samples_by_node window =
     concat (map (\<lambda>n.
       let recent = bound_samples (samples_by_node (n_id n)) in
       if length recent < 2 then []
       else if list_all (\<lambda>(b, active, cap). b \<in> {''ram'', ''cpu''} \<and> active \<ge> cap) recent
       then [warn ''capacity_bound'' (Some (n_hostname n)) None
         (n_hostname n @ '' has had no free session slots for over '' @ show_int (window div minutes 1) @ '' minutes (''
            @ upper_bound_text (fst (last recent)) @ ''-bound)'')]
       else []) ns)"

definition held_warnings :: "settings \<Rightarrow> instant \<Rightarrow> browser_node list \<Rightarrow> dash_warning list" where
  "held_warnings st now ns =
     concat (map (\<lambda>n. case compute_worker_health st now n of
         WH_DRAINING \<Rightarrow> [warn ''draining'' (Some (n_hostname n)) None (n_hostname n @ '' is draining'')]
       | WH_MAINTENANCE \<Rightarrow> [warn ''maintenance'' (Some (n_hostname n)) None (n_hostname n @ '' is in maintenance'')]
       | WH_OFFLINE \<Rightarrow> [warn ''offline'' (Some (n_hostname n)) None (n_hostname n @ '' is offline'')]
       | _ \<Rightarrow> []) ns)"

text \<open>
  Names are counted in the order of their first failure. A login failure is logged with the name as typed, so the
  value is a string.
\<close>

definition failed_names :: "instant \<Rightarrow> database \<Rightarrow> string list" where
  "failed_names since d =
     List.map_filter (\<lambda>e.
       if e_event_type e = EV_USER_LOGIN_FAILED \<and> e_created_at e \<ge> since
       then (case Option.bind (e_metadata_json e) (\<lambda>m. Some (jget m ''username'')) of
           Some (JStr (c # cs)) \<Rightarrow> Some (c # cs) | _ \<Rightarrow> None)
       else None) (events d)"

definition failed_login_warnings :: "string list \<Rightarrow> dash_warning list" where
  "failed_login_warnings names =
     concat (map (\<lambda>u.
       let n = length (filter (\<lambda>v. v = u) names) in
       if n \<ge> FAILED_LOGIN_WARNING_THRESHOLD
       then [warn ''failed_logins'' None (Some u) (show_nat n @ '' failed login attempts for user '' @ u)] else [])
       (rev (remdups (rev names))))"

definition event_count :: "security_event_type \<Rightarrow> instant \<Rightarrow> database \<Rightarrow> int" where
  "event_count t since d = count (\<lambda>e. e_event_type e = t \<and> e_created_at e \<ge> since) (events d)"

definition counted_warning :: "int \<Rightarrow> string \<Rightarrow> string \<Rightarrow> dash_warning list" where
  "counted_warning n kind msg = (if n \<noteq> 0 then [warn kind None None (show_int n @ msg)] else [])"

definition dashboard_warnings :: "settings \<Rightarrow> instant \<Rightarrow> database \<Rightarrow> dash_warning list" where
  "dashboard_warnings st now d =
     (let since = now - ORPHAN_RECONCILED_WARNING_WINDOW;
          window_hours = show_int (ORPHAN_RECONCILED_WARNING_WINDOW div hours 1)
      in sustained_high_load_warnings st (nodes d) (samples_since (now - SUSTAINED_HIGH_LOAD_WINDOW) d)
       @ capacity_bound_warnings (nodes d) (samples_since (now - capacity_bound_warning st) d) (capacity_bound_warning st)
       @ held_warnings st now (nodes d)
       @ failed_login_warnings (failed_names (now - FAILED_LOGIN_WARNING_WINDOW) d)
       @ counted_warning (event_count EV_ORPHAN_SESSION_RECONCILED since d) ''orphan_sessions''
           ('' orphaned session container(s) auto-reconciled in the last '' @ window_hours @ ''h'')
       @ counted_warning (event_count EV_SESSION_LOST_RECONCILED since d) ''lost_sessions''
           ('' session(s) auto-reconciled as lost (container missing) in the last '' @ window_hours @ ''h'')
       @ counted_warning (event_count EV_SESSION_START_FAILED since d) ''session_start_failures''
           '' browser session startup failure(s) in the last 24h'')"

section \<open>The dashboard\<close>

definition kpis_of :: "settings \<Rightarrow> instant \<Rightarrow> component_status \<Rightarrow> database \<Rightarrow> dashboard_kpis" where
  "kpis_of st now health d =
     (let since_24h = now - hours 24; ns = nodes d in
      \<lparr> kp_active_sessions = count (\<lambda>x. s_status x \<in> ACTIVE_SESSION_STATUSES) (sessions d),
        kp_active_sessions_delta_last_hour = active_sessions_delta_last_hour now d,
        kp_workers_healthy = count (\<lambda>n. compute_worker_health st now n = WH_HEALTHY) ns,
        kp_workers_total = int (length ns), kp_system_health = health,
        kp_avg_cpu_percent = map_option round1 (average (known n_cpu_percent ns)),
        kp_avg_ram_percent = map_option round1 (average (known ram_percent_of ns)),
        kp_users = int (length (users d)),
        kp_files_processed_24h = count (\<lambda>f. q_created_at f \<ge> since_24h) (quarantine_files d),
        kp_blocked_files_24h = file_status_count since_24h d QS_REJECTED,
        kp_incidents_24h = count (\<lambda>k. i_created_at k \<ge> since_24h) (incidents d) \<rparr>)"

definition get_dashboard ::
  "'w backend \<Rightarrow> 'w probes \<Rightarrow> (uuid \<Rightarrow> string) \<Rightarrow> instant \<Rightarrow> string \<Rightarrow> 'w sys \<Rightarrow> (http_error + dashboard) \<times> 'w sys" where
  "get_dashboard B P id_text now range_key s =
     (case get_system_health B P now (db s) (world s) of
        (Inl _, w) \<Rightarrow> (Inl (500, ''Internal Server Error''), s\<lparr>world := w\<rparr>)
      | (Inr h, w) \<Rightarrow>
          (case session_history range_key now (db s) of
             Inl e \<Rightarrow> (Inl (500, ''Internal Server Error''), s\<lparr>world := w\<rparr>)
           | Inr hist \<Rightarrow>
               (let d = db s; st = cfg B in
                (Inr \<lparr> da_generated_at = now, da_telemetry_stale = telemetry_stale st now (nodes d),
                      da_kpis = kpis_of st now (sh_status h) d, da_session_history = hist,
                      da_workers = map (worker_summary_of id_text st now) (nodes d),
                      da_warnings = dashboard_warnings st now d,
                      da_file_statuses_24h = filter (\<lambda>(_, n). n > 0)
                        (map (\<lambda>q. (q, file_status_count (now - hours 24) d q)) all_quarantine_status),
                      da_quarantine_pending = count (\<lambda>f. q_status f = QS_QUARANTINED) (quarantine_files d),
                      da_quarantine_high_risk = quarantine_high_risk d,
                      da_recent_incidents = recent_incidents id_text d \<rparr>, s\<lparr>world := w\<rparr>))))"

definition dashboard_endpoint ::
  "'w backend \<Rightarrow> 'w probes \<Rightarrow> (uuid \<Rightarrow> string) \<Rightarrow> instant \<Rightarrow> string \<Rightarrow> 'w sys \<Rightarrow> (http_error + dashboard) \<times> 'w sys" where
  "dashboard_endpoint B P id_text now range_key s =
     (if map_of RANGE_CONFIG range_key = None then (Inl (400, range_error), s)
      else get_dashboard B P id_text now range_key s)"

section \<open>Histories\<close>

lemma groups_by_keys [simp]: "map fst (groups_by key rows) = sort (remdups (map key rows))"
  by (simp add: groups_by_def comp_def)

lemma groups_by_mem: "(k, rs) \<in> set (groups_by key rows) \<longleftrightarrow> k \<in> key ` set rows \<and> rs = filter (\<lambda>r. key r = k) rows"
  by (auto simp: groups_by_def)

lemma groups_by_ascending: "sorted_wrt (<) (map fst (groups_by key rows))"
  by (simp add: strict_sorted_iff)

lemma average_const: "xs \<noteq> [] \<Longrightarrow> (\<And>x. x \<in> set xs \<Longrightarrow> x = c) \<Longrightarrow> average xs = Some c"
proof -
  assume xs: "xs \<noteq> []" "\<And>x. x \<in> set xs \<Longrightarrow> x = c"
  then have "xs = replicate (length xs) c" by (metis replicate_eqI)
  then have "sum_list xs = of_nat (length xs) * c" by (metis sum_list_replicate)
  then show "average xs = Some c" using xs(1) by (simp add: average_def)
qed

text \<open>However often a node was polled, a node whose value is steady counts once.\<close>

lemma summed_averages_steady:
  assumes "\<And>r. r \<in> set rows \<Longrightarrow> wm_active_sessions r = f (wm_node_id r)"
  shows "summed_averages rows = of_int (\<Sum>i \<in> wm_node_id ` set rows. f i)"
proof -
  let ?g = "\<lambda>(i::uuid, rs). case average (map (of_int \<circ> wm_active_sessions) rs) of None \<Rightarrow> (0::rat) | Some a \<Rightarrow> a"
  have "?g p = of_int (f (fst p))" if "p \<in> set (groups_by wm_node_id rows)" for p
  proof -
    obtain i rs where p: "p = (i, rs)" by (cases p)
    then have rs: "i \<in> wm_node_id ` set rows" "rs = filter (\<lambda>r. wm_node_id r = i) rows"
      using that by (simp_all add: groups_by_mem)
    have "average (map (of_int \<circ> wm_active_sessions) rs) = Some (of_int (f i))"
      using rs assms by (intro average_const) (auto simp: filter_empty_conv)
    then show ?thesis using p by simp
  qed
  then have eq: "map ?g (groups_by wm_node_id rows) = map (\<lambda>p. of_int (f (fst p))) (groups_by wm_node_id rows)"
    by (intro map_cong refl)
  have "summed_averages rows = sum_list (map (of_int \<circ> f) (map fst (groups_by wm_node_id rows)))"
    unfolding summed_averages_def eq by (simp only: map_map comp_def)
  also have "\<dots> = (\<Sum>i \<in> set (map fst (groups_by wm_node_id rows)). (of_int \<circ> f) i)"
    by (rule sum_list_distinct_conv_sum_set) simp
  finally show ?thesis by (simp add: of_int_sum)
qed

lemma date_bin_eq:
  assumes "(0::int) < wd"
  shows "date_bin wd x origin = t \<longleftrightarrow> t \<le> x \<and> x < t + wd \<and> (\<exists>k. t = origin + k * wd)"
proof
  assume t: "date_bin wd x origin = t"
  define k m where "k = (x - origin) div wd" and "m = (x - origin) mod wd"
  then have "k * wd + m = x - origin" by (simp only: div_mult_mod_eq)
  then have "x = origin + k * wd + m" by linarith
  moreover have "0 \<le> m \<and> m < wd" using assms by (simp add: m_def)
  moreover have "t = origin + k * wd" using t by (simp add: date_bin_def k_def)
  ultimately show "t \<le> x \<and> x < t + wd \<and> (\<exists>k. t = origin + k * wd)" by auto
next
  assume "t \<le> x \<and> x < t + wd \<and> (\<exists>k. t = origin + k * wd)"
  then obtain k where k: "t = origin + k * wd" "t \<le> x" "x < t + wd" by blast
  have "(x - origin) div wd = k"
    using k by (intro int_div_pos_eq [where r = "x - t"]) (auto simp: algebra_simps)
  then show "date_bin wd x origin = t" using k(1) by (simp add: date_bin_def)
qed

lemma range_widths: "map_of RANGE_CONFIG key = Some (lookback, wd) \<Longrightarrow> 0 < wd"
  by (auto simp: RANGE_CONFIG_def minutes_def seconds_def split: if_splits)

definition in_bucket :: "instant \<Rightarrow> instant \<Rightarrow> worker_metric_sample \<Rightarrow> bool" where
  "in_bucket wd t r = (t \<le> wm_recorded_at r \<and> wm_recorded_at r < t + wd)"

lemma bucketed_mem:
  assumes "0 < wd"
  shows "(t, rs) \<in> set (bucketed wd since rows) \<longleftrightarrow>
     since \<le> t \<and> (\<exists>k. t = since + k * wd) \<and> (\<exists>r \<in> set rows. in_bucket wd t r)
     \<and> rs = filter (in_bucket wd t) rows"
proof -
  have start: "since \<le> since + k * wd" if "since \<le> wm_recorded_at r" "in_bucket wd (since + k * wd) r" for r k
  proof (rule ccontr)
    assume "\<not> since \<le> since + k * wd"
    then have "k \<le> - 1" using assms by (simp add: zero_le_mult_iff)
    then have "k * wd \<le> - 1 * wd" using assms by (intro mult_right_mono) auto
    then show False using that by (simp add: in_bucket_def)
  qed
  have bin: "date_bin wd (wm_recorded_at r) since = t \<longleftrightarrow> in_bucket wd t r \<and> (\<exists>k. t = since + k * wd)" for r
    using date_bin_eq [OF assms] by (auto simp: in_bucket_def)
  let ?on = "since \<le> t \<and> (\<exists>k. t = since + k * wd)"
  have on: "since \<le> wm_recorded_at r \<and> date_bin wd (wm_recorded_at r) since = t \<longleftrightarrow> ?on \<and> in_bucket wd t r" for r
  proof
    assume "since \<le> wm_recorded_at r \<and> date_bin wd (wm_recorded_at r) since = t"
    moreover from this obtain k where "t = since + k * wd" "in_bucket wd t r" using bin [of r] by blast
    ultimately show "?on \<and> in_bucket wd t r" using start [of r k] by auto
  next
    assume "?on \<and> in_bucket wd t r"
    then show "since \<le> wm_recorded_at r \<and> date_bin wd (wm_recorded_at r) since = t" using bin [of r] by (simp add: in_bucket_def)
  qed
  have "(t, rs) \<in> set (bucketed wd since rows) \<longleftrightarrow>
      (\<exists>r \<in> set rows. since \<le> wm_recorded_at r \<and> date_bin wd (wm_recorded_at r) since = t)
      \<and> rs = filter (\<lambda>r. since \<le> wm_recorded_at r \<and> date_bin wd (wm_recorded_at r) since = t) rows"
    unfolding bucketed_def groups_by_mem by (auto simp: image_iff)
  then show ?thesis unfolding on by (cases ?on) auto
qed

text \<open>
  C38. The session history counts every node once: its points ascend, start at the beginning of the range and lie on
  multiples of the bucket width; every sample of the range falls in exactly one of them; and a bucket in which each
  node reports a steady number of sessions shows the sum over the nodes heard from, however often each was polled.
\<close>

theorem history_counts_each_node_once:
  assumes "map_of RANGE_CONFIG range_key = Some (lookback, wd)" and "session_history range_key now d = Inr pts"
  shows "sorted_wrt (<) (map fst pts)
    \<and> (\<forall>p \<in> set pts. now - lookback \<le> fst p \<and> (\<exists>k. fst p = now - lookback + k * wd))
    \<and> (\<forall>r \<in> set (samples d). now - lookback \<le> wm_recorded_at r \<longrightarrow> (\<exists>!t. t \<in> fst ` set pts \<and> in_bucket wd t r))
    \<and> (\<forall>p \<in> set pts. \<forall>f. (\<forall>r \<in> set (samples d). in_bucket wd (fst p) r \<longrightarrow> wm_active_sessions r = f (wm_node_id r))
         \<longrightarrow> snd p = (\<Sum>i \<in> wm_node_id ` {r \<in> set (samples d). in_bucket wd (fst p) r}. f i))"
proof -
  let ?since = "now - lookback"
  let ?b = "bucketed wd ?since (samples d)"
  have wd: "0 < wd" using assms(1) by (rule range_widths)
  have pts: "pts = map (\<lambda>(t, rows). (t, round_half_even (summed_averages rows))) ?b"
    using assms by (simp add: session_history_def)
  then have fst: "map fst pts = map fst ?b" by (simp add: case_prod_unfold)
  have ascending: "sorted_wrt (<) (map fst pts)"
    unfolding fst bucketed_def by (rule groups_by_ascending)
  have point: "\<exists>rs. (fst p, rs) \<in> set ?b \<and> snd p = round_half_even (summed_averages rs)" if "p \<in> set pts" for p
    using that pts by auto
  have times: "t \<in> fst ` set pts \<longleftrightarrow> (\<exists>rs. (t, rs) \<in> set ?b)" for t
    using arg_cong [OF fst, of set] by (force simp: image_iff)
  have unique: "\<exists>!t. t \<in> fst ` set pts \<and> in_bucket wd t r" if "r \<in> set (samples d)" "?since \<le> wm_recorded_at r" for r
  proof -
    let ?t = "date_bin wd (wm_recorded_at r) ?since"
    have t: "in_bucket wd ?t r" "\<exists>k. ?t = ?since + k * wd"
      using date_bin_eq [OF wd, of "wm_recorded_at r" ?since ?t] by (auto simp: in_bucket_def)
    have "?since \<le> ?t" using that(2) wd by (simp add: date_bin_def pos_imp_zdiv_nonneg_iff)
    then have shown: "?t \<in> fst ` set pts" using t that(1) unfolding times bucketed_mem [OF wd] by blast
    have only: "t' = ?t" if "t' \<in> fst ` set pts" "in_bucket wd t' r" for t'
    proof -
      have "\<exists>k. t' = ?since + k * wd" using that(1) unfolding times bucketed_mem [OF wd] by blast
      then show ?thesis using that(2) date_bin_eq [OF wd, of "wm_recorded_at r" ?since t'] unfolding in_bucket_def by (metis (no_types))
    qed
    show ?thesis by (rule ex1I [of _ ?t], rule conjI [OF shown t(1)]) (erule conjE, rule only)
  qed
  have steady: "snd p = (\<Sum>i \<in> wm_node_id ` {r \<in> set (samples d). in_bucket wd (fst p) r}. f i)"
    if "p \<in> set pts" "\<forall>r \<in> set (samples d). in_bucket wd (fst p) r \<longrightarrow> wm_active_sessions r = f (wm_node_id r)" for p f
  proof -
    note p = point [OF that(1)]
    obtain rs where rs: "(fst p, rs) \<in> set ?b" "snd p = round_half_even (summed_averages rs)" using p by blast
    then have "rs = filter (in_bucket wd (fst p)) (samples d)" unfolding bucketed_mem [OF wd] by blast
    then have set: "set rs = {r \<in> set (samples d). in_bucket wd (fst p) r}" by simp
    have "summed_averages rs = of_int (\<Sum>i \<in> wm_node_id ` set rs. f i)"
      by (rule summed_averages_steady) (use that(2) set in simp)
    then show ?thesis using rs(2) unfolding set by (simp only: round_half_even_int)
  qed
  have start: "now - lookback \<le> fst p \<and> (\<exists>k. fst p = now - lookback + k * wd)" if "p \<in> set pts" for p
    using point [OF that] unfolding bucketed_mem [OF wd] by blast
  show ?thesis by (intro conjI ballI allI impI) (simp_all add: ascending start unique steady)
qed

section \<open>The figure that is not a difference\<close>

text \<open>
  The figure shown as the change of the last hour is no change: when every session began more than an hour ago and
  none has ended, so that nothing changed, it is the whole number of active sessions.
\<close>

theorem steady_sessions_shown_as_growth:
  assumes "sessions d \<noteq> []"
    and "\<And>x. x \<in> set (sessions d) \<Longrightarrow> s_status x \<in> ACTIVE_SESSION_STATUSES \<and> s_ended_at x = None
      \<and> (\<exists>b. s_started_at x = Some b \<and> b \<le> now - hours 1)"
  shows "kp_active_sessions_delta_last_hour (kpis_of st now h d) = Some (kp_active_sessions (kpis_of st now h d))"
proof -
  have "earliest_start d \<noteq> None \<and> the (earliest_start d) \<le> now - hours 1"
  proof -
    obtain x xs where d: "sessions d = x # xs" using assms(1) by (cases "sessions d") auto
    let ?ts = "known s_started_at (sessions d)"
    have "?ts \<noteq> []" using assms(2) [of x] d by (auto simp: known_def map_filter_def)
    then obtain t ts where t: "sort ?ts = t # ts" by (cases "sort ?ts") (auto dest: arg_cong [of _ _ set])
    have "t \<in> set (sort ?ts)" using t by simp
    then obtain y where "y \<in> set (sessions d)" "s_started_at y = Some t"
      by (auto simp: known_def map_filter_def)
    then show ?thesis using assms(2) [of y] t by (auto simp: earliest_start_def)
  qed
  moreover have "count (running_at (now - hours 1)) (sessions d) = count (\<lambda>x. s_status x \<in> ACTIVE_SESSION_STATUSES) (sessions d)"
    using assms(2) unfolding count_def by (intro arg_cong [where f = int] arg_cong [where f = length] filter_cong)
      (fastforce simp: running_at_def)+
  ultimately show ?thesis
    by (auto simp: kpis_of_def Let_def active_sessions_delta_last_hour_def split: option.splits)
qed

end
