(* ===== verification/Monitor_Runs.thy ===== *)
theory Monitor_Runs
  imports Dashboard Sample_Deployment
begin

text \<open>The theorems about telemetry and the dashboard, applied on the sample deployment.\<close>

section \<open>One tick of the poller\<close>

lemma quiet_recorded: "recorded 9 (db (sample_sys NE_APPROVED SS_ACTIVE))"
  by (simp add: recorded_def) (simp add: sample_node_def new_node_def)


section \<open>The session history\<close>

text \<open>Two polls of one node and one of another in the same minute.\<close>

definition polled :: "uuid \<Rightarrow> uuid \<Rightarrow> instant \<Rightarrow> int \<Rightarrow> worker_metric_sample" where
  "polled i n t a = (new_sample i t (sample_node NE_APPROVED))\<lparr>wm_node_id := n, wm_active_sessions := a\<rparr>"

definition polled_db :: database where
  "polled_db = (sample_db NE_APPROVED SS_ACTIVE)\<lparr>samples := [polled 61 3 10 4, polled 62 3 20 4, polled 63 8 15 1]\<rparr>"

lemma polled_fields [simp]: "wm_recorded_at (polled i n t a) = t" "wm_node_id (polled i n t a) = n" "wm_active_sessions (polled i n t a) = a"
  by (simp_all add: polled_def new_sample_def)

lemma history_witness:
  "\<exists>p pts. session_history ''1h'' (seconds 3600) polled_db = Inr pts \<and> p \<in> set pts \<and> snd p = 5"
proof -
  have range: "map_of RANGE_CONFIG ''1h'' = Some (seconds (60 * 60), minutes 1)" by (simp add: RANGE_CONFIG_def)
  then obtain pts where pts: "session_history ''1h'' (seconds 3600) polled_db = Inr pts" by (simp add: session_history_def)
  note h = history_counts_each_node_once [OF range pts]
  let ?r = "polled 61 3 10 4"
  have r: "?r \<in> set (samples polled_db)" "seconds 3600 - seconds (60 * 60) \<le> wm_recorded_at ?r"
    by (simp_all add: polled_db_def seconds_def)
  then have "\<exists>!t. t \<in> fst ` set pts \<and> in_bucket (minutes 1) t ?r" using h by blast
  then obtain p where p: "p \<in> set pts" "in_bucket (minutes 1) (fst p) ?r" by auto
  have "seconds 3600 - seconds (60 * 60) \<le> fst p \<and> (\<exists>k. fst p = seconds 3600 - seconds (60 * 60) + k * minutes 1)"
    using h p(1) by blast
  then obtain k where k: "0 \<le> fst p" "fst p = k * minutes 1" by (auto simp: seconds_def)
  have t: "fst p = 0" using p(2) k by (simp add: in_bucket_def minutes_def seconds_def)
  have "snd p = (\<Sum>i \<in> wm_node_id ` {r \<in> set (samples polled_db). in_bucket (minutes 1) (fst p) r}. if i = 3 then 4 else 1)"
    using h p(1) by (fastforce simp: polled_db_def)
  moreover have "{r \<in> set (samples polled_db). in_bucket (minutes 1) (fst p) r} = set (samples polled_db)"
    by (auto simp: polled_db_def in_bucket_def t minutes_def seconds_def)
  ultimately have "snd p = 5" by (simp add: polled_db_def)
  then show ?thesis using pts p(1) by blast
qed

section \<open>The change of the last hour\<close>

lemma growth_witness:
  "kp_active_sessions_delta_last_hour (kpis_of sample_settings (hours 2) CS_HEALTHY (sample_db NE_APPROVED SS_ACTIVE)) = Some 1"
proof -
  have "s_status x \<in> ACTIVE_SESSION_STATUSES \<and> s_ended_at x = None \<and> (\<exists>b. s_started_at x = Some b \<and> b \<le> hours 2 - hours 1)"
    if "x \<in> set (sessions (sample_db NE_APPROVED SS_ACTIVE))" for x
    using that by (simp add: ACTIVE_SESSION_STATUSES_def) (simp add: sample_session_def new_session_def hours_def minutes_def seconds_def)
  from steady_sessions_shown_as_growth [of "sample_db NE_APPROVED SS_ACTIVE", OF _ this] show ?thesis
    by (simp add: kpis_of_def Let_def count_def ACTIVE_SESSION_STATUSES_def)
qed

end
