(* ===== verification/Operator_Accounts.thy ===== *)
theory Operator_Accounts
  imports Login Session_Lifecycle
begin

text \<open>
  The break-glass password reset (\<open>backend/scripts/reset_local_password.py\<close>) and the purge of test accounts
  (\<open>scripts/purge-test-accounts.py\<close>). What they print is reduced to an outcome. The purge deletes rows of many
  tables, so the foreign keys of the models are stated here, and every statement is checked against them as the
  database checks it.
\<close>

section \<open>Resetting a password\<close>

definition BREAK_GLASS_CLI_ACTOR_ID :: uuid where "BREAK_GLASS_CLI_ACTOR_ID = 192849089"

text \<open>A terminal asks twice; otherwise one line is read.\<close>

datatype password_input = Typed string string | Piped string

definition is_line_end :: "char \<Rightarrow> bool" where
  "is_line_end c = (code c = 13 \<or> code c = 10)"

definition read_new_password :: "password_input \<Rightarrow> string + string" where
  "read_new_password inp =
     (let r = (case inp of
          Typed a b \<Rightarrow> if a \<noteq> b then Inl ''refusing: the two passwords don't match.'' else Inr a
        | Piped l \<Rightarrow> Inr (rstrip_by is_line_end l))
      in case r of Inl m \<Rightarrow> Inl m | Inr p \<Rightarrow> if p = [] then Inl ''refusing: empty password.'' else Inr p)"

record reset_report =
  rr_role :: string
  rr_user_id :: uuid
  rr_lockout_cleared :: bool
  rr_still_disabled :: bool
  rr_mfa_unchanged :: bool

text \<open>The account joined with its role.\<close>

definition account_with_role :: "string \<Rightarrow> database \<Rightarrow> (user \<times> string) option" where
  "account_with_role username d =
     (case row_get u_username username (users d) of
        None \<Rightarrow> None
      | Some user \<Rightarrow> map_option (\<lambda>r. (user, r_name r)) (row_get r_id (u_role_id user) (roles d)))"

definition reset_local_password ::
  "'w idp \<Rightarrow> instant \<Rightarrow> string \<Rightarrow> bool \<Rightarrow> password_input \<Rightarrow> 'w sys \<Rightarrow> (string + reset_report) \<times> 'w sys" where
  "reset_local_password I now username enable inp s =
     (case account_with_role username (db s) of
        None \<Rightarrow> (Inl (''refusing: no account named '' @ username), s)
      | Some (user, rname) \<Rightarrow>
          if u_password_hash user = None then (Inl (''refusing: LDAP-provisioned '' @ username), s)
          else case read_new_password inp of
            Inl m \<Rightarrow> (Inl m, s)
          | Inr password \<Rightarrow>
              (let s = reset_password I now user password BREAK_GLASS_CLI_ACTOR_ID s;
                   lock = get_login_lockout_status I username (world s);
                   s = (if lo_locked lock then unlock_account I now user BREAK_GLASS_CLI_ACTOR_ID s
                        else if lo_failure_count lock \<noteq> 0 then on_world (clear_login_failures I username) s else s);
                   enabled = (enable \<and> \<not> u_is_active user);
                   s = (if enabled then on_db (set_active now user True BREAK_GLASS_CLI_ACTOR_ID) s else s)
               in (Inr \<lparr> rr_role = rname, rr_user_id = u_id user, rr_lockout_cleared = lo_locked lock,
                         rr_still_disabled = (\<not> u_is_active user \<and> \<not> enabled), rr_mfa_unchanged = u_mfa_enabled user \<rparr>, s)))"

section \<open>Foreign keys\<close>

definition opt_ref :: "uuid option \<Rightarrow> uuid set \<Rightarrow> bool" where
  "opt_ref x keys = (case x of None \<Rightarrow> True | Some i \<Rightarrow> i \<in> keys)"

lemma opt_ref_simps [simp]: "opt_ref None keys" "opt_ref (Some i) keys \<longleftrightarrow> i \<in> keys"
  by (simp_all add: opt_ref_def)

abbreviation user_ids :: "database \<Rightarrow> uuid set" where "user_ids d \<equiv> u_id ` set (users d)"
abbreviation session_ids :: "database \<Rightarrow> uuid set" where "session_ids d \<equiv> s_id ` set (sessions d)"
abbreviation file_ids :: "database \<Rightarrow> uuid set" where "file_ids d \<equiv> q_id ` set (quarantine_files d)"
abbreviation version_ids :: "database \<Rightarrow> uuid set" where "version_ids d \<equiv> pv_id ` set (policy_versions d)"

definition user_refs :: "database \<Rightarrow> bool" where
  "user_refs d = (\<forall>u \<in> set (users d). u_role_id u \<in> r_id ` set (roles d))"

definition user_group_refs :: "database \<Rightarrow> bool" where
  "user_group_refs d = (\<forall>m \<in> set (user_groups d). ug_user_id m \<in> user_ids d \<and> ug_group_id m \<in> g_id ` set (groups d))"

definition recovery_code_refs :: "database \<Rightarrow> bool" where
  "recovery_code_refs d = (\<forall>c \<in> set (recovery_codes d). rc_user_id c \<in> user_ids d)"

definition policy_refs :: "database \<Rightarrow> bool" where
  "policy_refs d =
     ((\<forall>p \<in> set (policies d). opt_ref (p_current_version_id p) (version_ids d))
    \<and> (\<forall>v \<in> set (policy_versions d). pv_policy_id v \<in> p_id ` set (policies d) \<and> opt_ref (pv_created_by v) (user_ids d))
    \<and> (\<forall>g \<in> set (group_policies d). gp_group_id g \<in> g_id ` set (groups d) \<and> gp_policy_id g \<in> p_id ` set (policies d))
    \<and> (\<forall>r \<in> set (file_rules d). fr_policy_version_id r \<in> version_ids d))"

definition sample_refs :: "database \<Rightarrow> bool" where
  "sample_refs d = (\<forall>r \<in> set (samples d). wm_node_id r \<in> n_id ` set (nodes d))"

definition session_refs :: "database \<Rightarrow> bool" where
  "session_refs d = (\<forall>x \<in> set (sessions d). s_user_id x \<in> user_ids d \<and> opt_ref (s_node_id x) (n_id ` set (nodes d)))"

definition file_refs :: "database \<Rightarrow> bool" where
  "file_refs d = (\<forall>f \<in> set (quarantine_files d). q_session_id f \<in> session_ids d \<and> q_user_id f \<in> user_ids d
     \<and> opt_ref (q_policy_version_id f) (version_ids d) \<and> opt_ref (q_reviewed_by f) (user_ids d))"

definition incident_refs :: "database \<Rightarrow> bool" where
  "incident_refs d = (\<forall>k \<in> set (incidents d). opt_ref (i_user_id k) (user_ids d) \<and> opt_ref (i_session_id k) (session_ids d)
     \<and> opt_ref (i_quarantine_file_id k) (file_ids d) \<and> opt_ref (i_assigned_to k) (user_ids d))"

definition event_refs :: "database \<Rightarrow> bool" where
  "event_refs d = (\<forall>e \<in> set (events d). opt_ref (e_user_id e) (user_ids d) \<and> opt_ref (e_session_id e) (session_ids d)
     \<and> opt_ref (e_quarantine_file_id e) (file_ids d))"

definition ldap_refs :: "database \<Rightarrow> bool" where
  "ldap_refs d = opt_ref (Option.bind (ldap_configs d) l_updated_by) (user_ids d)"

definition state_refs :: "database \<Rightarrow> bool" where
  "state_refs d = opt_ref (Option.bind (system_states d) ss_setup_admin_user_id) (user_ids d)"

definition references_ok :: "database \<Rightarrow> bool" where
  "references_ok d = (user_refs d \<and> user_group_refs d \<and> recovery_code_refs d \<and> policy_refs d \<and> sample_refs d \<and> session_refs d
     \<and> file_refs d \<and> incident_refs d \<and> event_refs d \<and> ldap_refs d \<and> state_refs d)"

lemmas refs_defs = user_refs_def user_group_refs_def recovery_code_refs_def policy_refs_def sample_refs_def session_refs_def
  file_refs_def incident_refs_def event_refs_def ldap_refs_def state_refs_def

section \<open>The purge\<close>

definition MIN_PREFIX_LENGTH :: nat where "MIN_PREFIX_LENGTH = 6"

text \<open>The ids a sub-select names, over the tables as they are when the statement runs.\<close>

definition own_sessions :: "uuid list \<Rightarrow> database \<Rightarrow> uuid set" where
  "own_sessions ids d = s_id ` {x \<in> set (sessions d). s_user_id x \<in> set ids}"

definition own_files :: "uuid list \<Rightarrow> database \<Rightarrow> uuid set" where
  "own_files ids d = q_id ` {f \<in> set (quarantine_files d). q_user_id f \<in> set ids \<or> q_session_id f \<in> own_sessions ids d}"

definition among :: "uuid option \<Rightarrow> uuid set \<Rightarrow> bool" where
  "among x keys = (case x of None \<Rightarrow> False | Some i \<Rightarrow> i \<in> keys)"

lemma among_simps [simp]: "\<not> among None keys" "among (Some i) keys \<longleftrightarrow> i \<in> keys"
  by (simp_all add: among_def)

definition unassign_incidents :: "instant \<Rightarrow> uuid list \<Rightarrow> database \<Rightarrow> database" where
  "unassign_incidents now ids d = d\<lparr>incidents :=
     map (\<lambda>k. if among (i_assigned_to k) (set ids) then k\<lparr>i_assigned_to := None, i_updated_at := now\<rparr> else k) (incidents d)\<rparr>"

definition delete_incidents :: "uuid list \<Rightarrow> database \<Rightarrow> database" where
  "delete_incidents ids d = d\<lparr>incidents := rows_delete (\<lambda>k. among (i_user_id k) (set ids)
     \<or> among (i_session_id k) (own_sessions ids d) \<or> among (i_quarantine_file_id k) (own_files ids d)) (incidents d)\<rparr>"

definition delete_events :: "uuid list \<Rightarrow> database \<Rightarrow> database" where
  "delete_events ids d = d\<lparr>events := rows_delete (\<lambda>e. among (e_user_id e) (set ids)
     \<or> among (e_session_id e) (own_sessions ids d) \<or> among (e_quarantine_file_id e) (own_files ids d)) (events d)\<rparr>"

definition forget_reviewer :: "uuid list \<Rightarrow> database \<Rightarrow> database" where
  "forget_reviewer ids d = d\<lparr>quarantine_files :=
     map (\<lambda>f. if among (q_reviewed_by f) (set ids) then f\<lparr>q_reviewed_by := None\<rparr> else f) (quarantine_files d)\<rparr>"

definition delete_files :: "uuid list \<Rightarrow> database \<Rightarrow> database" where
  "delete_files ids d = d\<lparr>quarantine_files := rows_delete (\<lambda>f. q_id f \<in> own_files ids d) (quarantine_files d)\<rparr>"

definition delete_sessions :: "uuid list \<Rightarrow> database \<Rightarrow> database" where
  "delete_sessions ids d = d\<lparr>sessions := rows_delete (\<lambda>x. s_user_id x \<in> set ids) (sessions d)\<rparr>"

definition delete_recovery_codes :: "uuid list \<Rightarrow> database \<Rightarrow> database" where
  "delete_recovery_codes ids d = d\<lparr>recovery_codes := rows_delete (\<lambda>c. rc_user_id c \<in> set ids) (recovery_codes d)\<rparr>"

definition delete_memberships :: "uuid list \<Rightarrow> database \<Rightarrow> database" where
  "delete_memberships ids d = d\<lparr>user_groups := rows_delete (\<lambda>m. ug_user_id m \<in> set ids) (user_groups d)\<rparr>"

definition forget_author :: "uuid list \<Rightarrow> database \<Rightarrow> database" where
  "forget_author ids d = d\<lparr>policy_versions :=
     map (\<lambda>v. if among (pv_created_by v) (set ids) then v\<lparr>pv_created_by := None\<rparr> else v) (policy_versions d)\<rparr>"

text \<open>\<open>ON DELETE SET NULL\<close> of the setup administrator comes with it.\<close>

definition delete_users :: "uuid list \<Rightarrow> database \<Rightarrow> database" where
  "delete_users ids d = d\<lparr>users := rows_delete (\<lambda>u. u_id u \<in> set ids) (users d),
     system_states := map_option (\<lambda>x. if among (ss_setup_admin_user_id x) (set ids)
       then x\<lparr>ss_setup_admin_user_id := None\<rparr> else x) (system_states d)\<rparr>"

definition purge_statements :: "instant \<Rightarrow> uuid list \<Rightarrow> (database \<Rightarrow> database) list" where
  "purge_statements now ids =
     [unassign_incidents now ids, delete_incidents ids, delete_events ids, forget_reviewer ids, delete_files ids,
      delete_sessions ids, delete_recovery_codes ids, delete_memberships ids, forget_author ids, delete_users ids]"

text \<open>A statement after which a foreign key points nowhere raises.\<close>

fun run_statements :: "(database \<Rightarrow> database) list \<Rightarrow> database \<Rightarrow> service_error + database" where
  "run_statements [] d = Inr d"
| "run_statements (f # fs) d = (if references_ok (f d) then run_statements fs (f d) else Inl DbIntegrityError)"

fun purge_sessions :: "'w backend \<Rightarrow> 'w idp \<Rightarrow> instant \<Rightarrow> user list \<Rightarrow> 'w sys \<Rightarrow> nat \<times> 'w sys" where
  "purge_sessions B I now [] s = (0, s)"
| "purge_sessions B I now (u # us) s =
     (let (ended, s) = revoke_user_sessions B now (u_id u) (u_id u) s;
          (_, s) = with_world (revoke_all_sessions_for_user I (u_id u)) s;
          (n, s) = purge_sessions B I now us s
      in (length ended + n, s))"

definition purge :: "'w backend \<Rightarrow> 'w idp \<Rightarrow> instant \<Rightarrow> string \<Rightarrow> 'w sys \<Rightarrow> (nat \<times> nat, 'w) sys_outcome" where
  "purge B I now pre s =
     (let us = filter (\<lambda>u. startswith (u_username u) pre) (users (db s));
          (ended, t) = purge_sessions B I now us s
      in case run_statements (purge_statements now (map u_id us)) (db t) of
           Inl e \<Rightarrow> (Inl e, t\<lparr>db := db s\<rparr>)
         | Inr d \<Rightarrow> (Inr (length us, ended), t\<lparr>db := d\<rparr>))"

definition purge_main :: "'w backend \<Rightarrow> 'w idp \<Rightarrow> instant \<Rightarrow> string \<Rightarrow> 'w sys \<Rightarrow> (nat \<times> nat, 'w) sys_outcome" where
  "purge_main B I now pre s =
     (if length pre < MIN_PREFIX_LENGTH
      then (Inl (RuntimeErr ''usage: purge-test-accounts.py <username prefix, at least 6 chars>''), s)
      else purge B I now pre s)"

section \<open>Ending the sessions of the accounts\<close>

text \<open>
  What ending sessions of some users does to the database: session rows keep their keys, and the events appended
  name one of these users.
\<close>

definition ends_for :: "uuid set \<Rightarrow> database \<Rightarrow> database \<Rightarrow> bool" where
  "ends_for U d e \<longleftrightarrow> (\<exists>f evs n. e = d\<lparr>sessions := map f (sessions d), events := events d @ evs, next_id := n\<rparr>
     \<and> (\<forall>x. s_id (f x) = s_id x \<and> s_user_id (f x) = s_user_id x \<and> s_node_id (f x) = s_node_id x)
     \<and> (\<forall>x \<in> set (sessions d). s_user_id x \<notin> U \<longrightarrow> f x = x)
     \<and> (\<forall>v \<in> set evs. \<exists>u \<in> U. e_user_id v = Some u \<and> opt_ref (e_session_id v) (session_ids d) \<and> e_quarantine_file_id v = None))"

lemma ends_forI:
  assumes "e = d\<lparr>sessions := map f (sessions d), events := events d @ evs, next_id := n\<rparr>"
    and "\<And>x. s_id (f x) = s_id x \<and> s_user_id (f x) = s_user_id x \<and> s_node_id (f x) = s_node_id x"
    and "\<And>x. x \<in> set (sessions d) \<Longrightarrow> s_user_id x \<notin> U \<Longrightarrow> f x = x"
    and "\<And>v. v \<in> set evs \<Longrightarrow> \<exists>u \<in> U. e_user_id v = Some u \<and> opt_ref (e_session_id v) (session_ids d) \<and> e_quarantine_file_id v = None"
  shows "ends_for U d e"
  unfolding ends_for_def using assms by blast

lemma ends_forE:
  assumes "ends_for U d e"
  obtains f evs n where "e = d\<lparr>sessions := map f (sessions d), events := events d @ evs, next_id := n\<rparr>"
    and "\<And>x. s_id (f x) = s_id x" and "\<And>x. s_user_id (f x) = s_user_id x" and "\<And>x. s_node_id (f x) = s_node_id x"
    and "\<And>x. x \<in> set (sessions d) \<Longrightarrow> s_user_id x \<notin> U \<Longrightarrow> f x = x"
    and "\<And>v. v \<in> set evs \<Longrightarrow> \<exists>u \<in> U. e_user_id v = Some u \<and> opt_ref (e_session_id v) (session_ids d) \<and> e_quarantine_file_id v = None"
  using assms unfolding ends_for_def by blast

lemma ends_for_refl [simp]: "ends_for U d d"
  by (rule ends_forI [where f = id and evs = "[]" and n = "next_id d"]) simp_all

lemma ends_for_keys: "ends_for U d e \<Longrightarrow> map (\<lambda>x. (s_id x, s_user_id x)) (sessions e) = map (\<lambda>x. (s_id x, s_user_id x)) (sessions d)"
  by (erule ends_forE) (simp add: comp_def)

lemma ends_for_ids: "ends_for U d e \<Longrightarrow> session_ids e = session_ids d"
  by (erule ends_forE) (simp add: image_image)

text \<open>Every row with the key of a session belongs to one of the users.\<close>

definition owned_by :: "uuid set \<Rightarrow> uuid \<Rightarrow> database \<Rightarrow> bool" where
  "owned_by U k d = (\<forall>y \<in> set (sessions d). s_id y = k \<longrightarrow> s_user_id y \<in> U)"

lemma ends_for_owned: "ends_for U d e \<Longrightarrow> owned_by V k d \<Longrightarrow> owned_by V k e"
  by (erule ends_forE) (auto simp: owned_by_def)

lemma ends_for_trans: "ends_for U d e \<Longrightarrow> ends_for U e h \<Longrightarrow> ends_for U d h"
proof -
  assume 1: "ends_for U d e" and 2: "ends_for U e h"
  note ids = ends_for_ids [OF 1]
  obtain f evs n where f: "e = d\<lparr>sessions := map f (sessions d), events := events d @ evs, next_id := n\<rparr>"
    "\<And>x. s_id (f x) = s_id x" "\<And>x. s_user_id (f x) = s_user_id x" "\<And>x. s_node_id (f x) = s_node_id x"
    "\<And>x. x \<in> set (sessions d) \<Longrightarrow> s_user_id x \<notin> U \<Longrightarrow> f x = x"
    "\<And>v. v \<in> set evs \<Longrightarrow> \<exists>u \<in> U. e_user_id v = Some u \<and> opt_ref (e_session_id v) (session_ids d) \<and> e_quarantine_file_id v = None"
    using 1 by (rule ends_forE) blast
  obtain g evs' m where g: "h = e\<lparr>sessions := map g (sessions e), events := events e @ evs', next_id := m\<rparr>"
    "\<And>x. s_id (g x) = s_id x" "\<And>x. s_user_id (g x) = s_user_id x" "\<And>x. s_node_id (g x) = s_node_id x"
    "\<And>x. x \<in> set (sessions e) \<Longrightarrow> s_user_id x \<notin> U \<Longrightarrow> g x = x"
    "\<And>v. v \<in> set evs' \<Longrightarrow> \<exists>u \<in> U. e_user_id v = Some u \<and> opt_ref (e_session_id v) (session_ids e) \<and> e_quarantine_file_id v = None"
    using 2 by (rule ends_forE) blast
  show ?thesis
  proof (rule ends_forI)
    show "h = d\<lparr>sessions := map (g \<circ> f) (sessions d), events := events d @ (evs @ evs'), next_id := m\<rparr>"
      using f(1) g(1) by simp
    show "(g \<circ> f) x = x" if x: "x \<in> set (sessions d)" "s_user_id x \<notin> U" for x
    proof -
      have "f x = x" using f(5) [OF x] .
      moreover have "f x \<in> set (sessions e)" using f(1) x(1) by simp
      ultimately show ?thesis using g(5) [of x] x(2) by simp
    qed
    show "\<exists>u \<in> U. e_user_id v = Some u \<and> opt_ref (e_session_id v) (session_ids d) \<and> e_quarantine_file_id v = None"
      if "v \<in> set (evs @ evs')" for v
      using that f(6) [of v] g(6) [of v] unfolding ids by auto
  qed (simp add: f g)
qed

lemma ends_for_row:
  assumes "\<And>x. s_id (f x) = s_id x \<and> s_user_id (f x) = s_user_id x \<and> s_node_id (f x) = s_node_id x" and "owned_by U k d"
  shows "ends_for U d (set_session now k f d)"
  using assms by (intro ends_forI [where f = "\<lambda>x. if s_id x = k then (f x)\<lparr>s_updated_at := now\<rparr> else x" and evs = "[]" and n = "next_id d"])
    (auto simp: set_session_def row_update_def owned_by_def)

lemma ends_for_event:
  assumes "u \<in> U" and "opt_ref q (session_ids d)"
  shows "ends_for U d (record_security_event now t (Some u) q None m d)"
  using assms by (intro ends_forI [where f = id and evs = "[\<lparr> e_id = next_id d, e_created_at = now, e_event_type = t, e_user_id = Some u,
      e_session_id = q, e_quarantine_file_id = None, e_metadata_json = m \<rparr>]" and n = "Suc (next_id d)"])
    (simp_all add: record_security_event_def fresh_def Let_def row_insert_def)

lemma ends_for_terminate:
  assumes "terminate_session B now x actor s = (r, t)" and "s_user_id x \<in> U" and "s_id x \<in> session_ids (db s)"
    and own: "owned_by U (s_id x) (db s)"
  shows "ends_for U (db s) (db t)"
proof (cases "s_status x = SS_TERMINATED")
  case False
  let ?d1 = "set_session_status now (s_id x) SS_TERMINATING (db s)"
  have 1: "ends_for U (db s) ?d1" unfolding set_session_status_def by (rule ends_for_row [OF _ own]) simp
  note own1 = ends_for_owned [OF 1 own]
  have t: "db t = set_session_status now (s_id x) SS_FAILED ?d1
      \<or> db t = record_security_event now EV_SESSION_TERMINATED (Some (s_user_id x)) (Some (s_id x)) None (actor_meta actor)
                (set_session now (s_id x) (\<lambda>x. x\<lparr>s_status := SS_TERMINATED, s_ended_at := Some now\<rparr>) ?d1)"
    using assms(1) False by (auto simp: terminate_session_def Let_def stop_polling_def dest: agent_frame split: prod.splits sum.splits)
  from t show ?thesis
  proof
    assume t: "db t = set_session_status now (s_id x) SS_FAILED ?d1"
    have "ends_for U ?d1 (db t)" unfolding t set_session_status_def [of _ _ SS_FAILED] by (rule ends_for_row [OF _ own1]) simp
    then show ?thesis by (rule ends_for_trans [OF 1])
  next
    let ?d2 = "set_session now (s_id x) (\<lambda>x. x\<lparr>s_status := SS_TERMINATED, s_ended_at := Some now\<rparr>) ?d1"
    assume t: "db t = record_security_event now EV_SESSION_TERMINATED (Some (s_user_id x)) (Some (s_id x)) None (actor_meta actor) ?d2"
    have 2: "ends_for U ?d1 ?d2" by (rule ends_for_row [OF _ own1]) simp
    have "s_id x \<in> session_ids ?d2" using assms(3) ends_for_ids [OF 1] ends_for_ids [OF 2] by simp
    then have "ends_for U ?d2 (db t)" unfolding t using assms(2) by (intro ends_for_event) simp_all
    then show ?thesis by (intro ends_for_trans [OF 1] ends_for_trans [OF 2])
  qed
qed (use assms(1) in \<open>simp add: terminate_session_def\<close>)

lemma ends_for_terminate_all:
  assumes "\<And>x. x \<in> set xs \<Longrightarrow> s_user_id x \<in> U \<and> s_id x \<in> session_ids (db s) \<and> owned_by U (s_id x) (db s)"
  shows "ends_for U (db s) (db (snd (terminate_all B now actor xs s)))"
  using assms
proof (induction xs arbitrary: s)
  case (Cons x xs)
  obtain r t where t: "terminate_session B now x actor s = (r, t)" by (metis prod.exhaust)
  have 1: "ends_for U (db s) (db t)" using ends_for_terminate [OF t] Cons.prems by simp
  have "ends_for U (db t) (db (snd (terminate_all B now actor xs t)))"
    using Cons.prems ends_for_ids [OF 1] ends_for_owned [OF 1] by (intro Cons.IH) simp
  then show ?case using ends_for_trans [OF 1] t by (cases r; cases "terminate_all B now actor xs t") simp_all
qed simp

lemma ends_for_revoke:
  assumes "u \<in> U" and "distinct_keys s_id (sessions (db s))"
  shows "ends_for U (db s) (db (snd (revoke_user_sessions B now u actor s)))"
proof -
  let ?live = "filter (\<lambda>x. s_user_id x = u \<and> s_status x \<in> LIVE_STATUSES) (sessions (db s))"
  have "owned_by U (s_id x) (db s)" if "x \<in> set ?live" for x
    using that assms(1) distinct_keys_eq [OF assms(2)] by (fastforce simp: owned_by_def)
  then have 1: "ends_for U (db s) (db (snd (terminate_all B now actor ?live s)))"
    using assms(1) by (intro ends_for_terminate_all) auto
  show ?thesis
    using 1 assms(1) by (auto simp: revoke_user_sessions_def Let_def case_prod_unfold intro!: ends_for_trans [OF 1] ends_for_event)
qed

lemma with_world_same_db: "with_world f s = (r, t) \<Longrightarrow> db t = db s"
  by (auto simp: with_world_def Let_def case_prod_unfold)

lemma ends_for_purge_sessions:
  "u_id ` set us \<subseteq> U \<Longrightarrow> distinct_keys s_id (sessions (db s)) \<Longrightarrow>
     ends_for U (db s) (db (snd (purge_sessions B I now us s)))"
proof (induction us arbitrary: s)
  case (Cons u us)
  obtain ended t where t: "revoke_user_sessions B now (u_id u) (u_id u) s = (ended, t)" by (metis prod.exhaust)
  obtain k t' where t': "with_world (revoke_all_sessions_for_user I (u_id u)) t = (k, t')" by (metis prod.exhaust)
  have 1: "ends_for U (db s) (db t)" using ends_for_revoke [of "u_id u" U s B now "u_id u"] Cons.prems t by simp
  have "map s_id (sessions (db t)) = map s_id (sessions (db s))"
    using arg_cong [OF ends_for_keys [OF 1], of "map fst"] by (simp add: comp_def)
  then have "distinct_keys s_id (sessions (db t'))"
    using Cons.prems(2) with_world_same_db [OF t'] by (simp add: distinct_keys_def)
  then have "ends_for U (db t) (db (snd (purge_sessions B I now us t')))"
    using Cons.IH [of t'] Cons.prems(1) with_world_same_db [OF t'] by simp
  then show ?case using ends_for_trans [OF 1] t t' by (simp add: case_prod_unfold Let_def)
qed simp

section \<open>What is left\<close>

lemma references_step:
  assumes "references_ok d" and "user_refs d \<Longrightarrow> user_refs e" and "user_group_refs d \<Longrightarrow> user_group_refs e"
    and "recovery_code_refs d \<Longrightarrow> recovery_code_refs e" and "policy_refs d \<Longrightarrow> policy_refs e" and "sample_refs d \<Longrightarrow> sample_refs e"
    and "session_refs d \<Longrightarrow> session_refs e" and "file_refs d \<Longrightarrow> file_refs e" and "incident_refs d \<Longrightarrow> incident_refs e"
    and "event_refs d \<Longrightarrow> event_refs e" and "ldap_refs d \<Longrightarrow> ldap_refs e" and "state_refs d \<Longrightarrow> state_refs e"
  shows "references_ok e"
  using assms by (simp add: references_ok_def)

lemma keys_map_if: "(\<And>r. key (g r) = key r) \<Longrightarrow> key ` set (map (\<lambda>r. if P r then g r else r) xs) = key ` set xs"
  by (induction xs) auto

lemma opt_ref_mono: "opt_ref x A \<Longrightarrow> (\<And>i. x = Some i \<Longrightarrow> i \<in> A \<Longrightarrow> i \<in> B) \<Longrightarrow> opt_ref x B"
  by (cases x) auto

lemmas statement_defs = unassign_incidents_def delete_incidents_def delete_events_def forget_reviewer_def delete_files_def
  delete_sessions_def delete_recovery_codes_def delete_memberships_def forget_author_def delete_users_def

lemma refs_unassign: "references_ok d \<Longrightarrow> references_ok (unassign_incidents now ids d)"
  by (erule references_step) (auto simp: refs_defs unassign_incidents_def)

lemma refs_delete_incidents: "references_ok d \<Longrightarrow> references_ok (delete_incidents ids d)"
  by (erule references_step) (simp_all add: refs_defs delete_incidents_def tbl)

lemma refs_delete_events: "references_ok d \<Longrightarrow> references_ok (delete_events ids d)"
  by (erule references_step) (simp_all add: refs_defs delete_events_def tbl)

lemma refs_forget_reviewer: "references_ok d \<Longrightarrow> references_ok (forget_reviewer ids d)"
proof -
  have ids: "file_ids (forget_reviewer ids d) = file_ids d"
    unfolding forget_reviewer_def by (simp add: keys_map_if del: set_map)
  show "references_ok d \<Longrightarrow> references_ok (forget_reviewer ids d)"
    by (erule references_step) (use ids in \<open>auto simp: refs_defs forget_reviewer_def\<close>)
qed

lemma refs_delete_codes: "references_ok d \<Longrightarrow> references_ok (delete_recovery_codes ids d)"
  by (erule references_step) (simp_all add: refs_defs delete_recovery_codes_def tbl)

lemma refs_delete_memberships: "references_ok d \<Longrightarrow> references_ok (delete_memberships ids d)"
  by (erule references_step) (simp_all add: refs_defs delete_memberships_def tbl)

lemma refs_forget_author: "references_ok d \<Longrightarrow> references_ok (forget_author ids d)"
proof -
  have ids: "version_ids (forget_author ids d) = version_ids d"
    unfolding forget_author_def by (simp add: keys_map_if del: set_map)
  show "references_ok d \<Longrightarrow> references_ok (forget_author ids d)"
    by (erule references_step) (use ids in \<open>auto simp: refs_defs forget_author_def\<close>)
qed

text \<open>The rows of the accounts that hold the keys deleted later are gone before.\<close>

definition no_mention :: "uuid list \<Rightarrow> database \<Rightarrow> bool" where
  "no_mention ids d = ((\<forall>k \<in> set (incidents d). \<not> among (i_user_id k) (set ids) \<and> \<not> among (i_assigned_to k) (set ids)
       \<and> \<not> among (i_session_id k) (own_sessions ids d) \<and> \<not> among (i_quarantine_file_id k) (own_files ids d))
     \<and> (\<forall>e \<in> set (events d). \<not> among (e_user_id e) (set ids)
       \<and> \<not> among (e_session_id e) (own_sessions ids d) \<and> \<not> among (e_quarantine_file_id e) (own_files ids d)))"

lemma opt_ref_remove: "opt_ref x A \<Longrightarrow> \<not> among x D \<Longrightarrow> opt_ref x (A - D)"
  by (cases x) auto

lemma own_unchanged:
  "sessions e = sessions d \<Longrightarrow> own_sessions ids e = own_sessions ids d"
  "sessions e = sessions d \<Longrightarrow> quarantine_files e = quarantine_files d \<Longrightarrow> own_files ids e = own_files ids d"
  by (simp_all add: own_sessions_def own_files_def)

lemma refs_delete_files:
  assumes "references_ok d" and "no_mention ids d"
  shows "references_ok (delete_files ids d)"
proof -
  have ids: "file_ids (delete_files ids d) = file_ids d - own_files ids d"
    by (auto simp: delete_files_def tbl)
  show ?thesis
  proof (rule references_step [OF assms(1)])
    show "incident_refs d \<Longrightarrow> incident_refs (delete_files ids d)"
      using assms(2) ids by (auto simp: incident_refs_def no_mention_def delete_files_def intro: opt_ref_remove)
    show "event_refs d \<Longrightarrow> event_refs (delete_files ids d)"
      using assms(2) ids by (auto simp: event_refs_def no_mention_def delete_files_def intro: opt_ref_remove)
  qed (simp_all add: refs_defs delete_files_def tbl)
qed

lemma refs_delete_sessions:
  assumes "references_ok d" and "no_mention ids d" and "own_files ids d = {}"
  shows "references_ok (delete_sessions ids d)"
proof -
  have mine: "s_id x \<in> own_sessions ids d" if "x \<in> set (sessions d)" "s_user_id x \<in> set ids" for x
    using that by (auto simp: own_sessions_def)
  have ids: "session_ids d - own_sessions ids d \<subseteq> session_ids (delete_sessions ids d)"
    using mine by (fastforce simp: delete_sessions_def tbl)
  have kept: "opt_ref x (session_ids (delete_sessions ids d))" if "opt_ref x (session_ids d)" "\<not> among x (own_sessions ids d)" for x
    using that ids by (cases x) auto
  show ?thesis
  proof (rule references_step [OF assms(1)])
    show "incident_refs d \<Longrightarrow> incident_refs (delete_sessions ids d)"
      using assms(2) kept unfolding incident_refs_def no_mention_def by (simp add: delete_sessions_def)
    show "event_refs d \<Longrightarrow> event_refs (delete_sessions ids d)"
      using assms(2) kept unfolding event_refs_def no_mention_def by (simp add: delete_sessions_def)
    show "file_refs d \<Longrightarrow> file_refs (delete_sessions ids d)"
      using assms(3) kept unfolding file_refs_def own_files_def by (auto simp: delete_sessions_def) (metis among_simps(2) opt_ref_simps(2))
  qed (simp_all add: refs_defs delete_sessions_def tbl)
qed

text \<open>What remains when the accounts are deleted: every other row that could name them is gone or blank.\<close>

definition unreferenced :: "uuid list \<Rightarrow> database \<Rightarrow> bool" where
  "unreferenced ids d =
     ((\<forall>m \<in> set (user_groups d). ug_user_id m \<notin> set ids) \<and> (\<forall>c \<in> set (recovery_codes d). rc_user_id c \<notin> set ids)
    \<and> (\<forall>v \<in> set (policy_versions d). \<not> among (pv_created_by v) (set ids))
    \<and> (\<forall>x \<in> set (sessions d). s_user_id x \<notin> set ids)
    \<and> (\<forall>f \<in> set (quarantine_files d). q_user_id f \<notin> set ids \<and> \<not> among (q_reviewed_by f) (set ids))
    \<and> (\<forall>k \<in> set (incidents d). \<not> among (i_user_id k) (set ids) \<and> \<not> among (i_assigned_to k) (set ids))
    \<and> (\<forall>e \<in> set (events d). \<not> among (e_user_id e) (set ids))
    \<and> \<not> among (Option.bind (ldap_configs d) l_updated_by) (set ids))"

lemma refs_delete_users:
  assumes "references_ok d" and "unreferenced ids d"
  shows "references_ok (delete_users ids d)"
proof -
  have ids: "user_ids (delete_users ids d) = user_ids d - set ids" by (auto simp: delete_users_def tbl)
  have here: "i \<in> user_ids (delete_users ids d)" if "i \<in> user_ids d" "i \<notin> set ids" for i using that ids by simp
  have opt: "opt_ref x (user_ids (delete_users ids d))" if "opt_ref x (user_ids d)" "\<not> among x (set ids)" for x
    using that ids by (cases x) auto
  note u = assms(2) [unfolded unreferenced_def]
  show ?thesis
  proof (rule references_step [OF assms(1)])
    show "state_refs d \<Longrightarrow> state_refs (delete_users ids d)"
      unfolding state_refs_def ids
      by (cases "system_states d"; cases "ss_setup_admin_user_id (the (system_states d))") (auto simp: delete_users_def)
    show "user_refs d \<Longrightarrow> user_refs (delete_users ids d)" by (simp add: user_refs_def delete_users_def tbl)
    show "user_group_refs d \<Longrightarrow> user_group_refs (delete_users ids d)"
      using u unfolding user_group_refs_def ids by (simp add: delete_users_def)
    show "recovery_code_refs d \<Longrightarrow> recovery_code_refs (delete_users ids d)"
      using u unfolding recovery_code_refs_def ids by (simp add: delete_users_def)
    show "policy_refs d \<Longrightarrow> policy_refs (delete_users ids d)"
      using u opt unfolding policy_refs_def by (simp add: delete_users_def)
    show "session_refs d \<Longrightarrow> session_refs (delete_users ids d)"
      using u unfolding session_refs_def ids by (simp add: delete_users_def)
    show "file_refs d \<Longrightarrow> file_refs (delete_users ids d)"
      using u opt here unfolding file_refs_def by (simp add: delete_users_def)
    show "incident_refs d \<Longrightarrow> incident_refs (delete_users ids d)"
      using u opt unfolding incident_refs_def by (simp add: delete_users_def)
    show "event_refs d \<Longrightarrow> event_refs (delete_users ids d)"
      using u opt unfolding event_refs_def by (simp add: delete_users_def)
    show "ldap_refs d \<Longrightarrow> ldap_refs (delete_users ids d)"
      using u opt unfolding ldap_refs_def by (simp add: delete_users_def)
  qed (simp add: sample_refs_def delete_users_def)
qed

end
