(* ===== verification/Operator_Guarantees.thy ===== *)
theory Operator_Guarantees
  imports Operator_Accounts Login_Limits
begin

text \<open>What the two account scripts guarantee, and where the purge stops.\<close>

section \<open>The statements of the purge\<close>

lemma keys_where_map:
  assumes "\<And>r. key (g r) = key r" and "\<And>r. P (g r) = P r"
  shows "key ` {r \<in> set (map g rows). P r} = key ` {r \<in> set rows. P r}"
proof -
  have "{r \<in> set (map g rows). P r} = g ` {r \<in> set rows. P r}" using assms(2) by auto
  then show ?thesis by (simp only: image_image assms(1))
qed

lemma own_files_forget: "own_files ids (forget_reviewer ids d) = own_files ids d"
proof -
  have "own_sessions ids (forget_reviewer ids d) = own_sessions ids d" by (simp add: own_sessions_def forget_reviewer_def)
  moreover have "quarantine_files (forget_reviewer ids d) =
      map (\<lambda>f. if among (q_reviewed_by f) (set ids) then f\<lparr>q_reviewed_by := None\<rparr> else f) (quarantine_files d)"
    by (simp add: forget_reviewer_def)
  ultimately show ?thesis unfolding own_files_def by (simp only:) (rule keys_where_map; simp)
qed

lemma no_mention_after:
  "no_mention ids (forget_reviewer ids (delete_events ids (delete_incidents ids (unassign_incidents now ids d))))"
proof -
  let ?d3 = "delete_events ids (delete_incidents ids (unassign_incidents now ids d))"
  have own: "own_sessions ids (delete_incidents ids x) = own_sessions ids x" "own_files ids (delete_incidents ids x) = own_files ids x"
    "own_sessions ids (delete_events ids x) = own_sessions ids x" "own_files ids (delete_events ids x) = own_files ids x"
    "own_sessions ids (unassign_incidents now ids x) = own_sessions ids x" "own_files ids (unassign_incidents now ids x) = own_files ids x"
    "own_sessions ids (forget_reviewer ids x) = own_sessions ids x" for x
    by (simp_all add: own_sessions_def own_files_def delete_incidents_def delete_events_def unassign_incidents_def forget_reviewer_def)
  have "own_sessions ids (forget_reviewer ids ?d3) = own_sessions ids d" "own_files ids (forget_reviewer ids ?d3) = own_files ids d"
    by (simp_all add: own own_files_forget)
  moreover have "incidents (forget_reviewer ids ?d3) = rows_delete (\<lambda>k. among (i_user_id k) (set ids)
      \<or> among (i_session_id k) (own_sessions ids d) \<or> among (i_quarantine_file_id k) (own_files ids d)) (incidents (unassign_incidents now ids d))"
    by (simp add: forget_reviewer_def delete_events_def delete_incidents_def own)
  moreover have "events (forget_reviewer ids ?d3) = rows_delete (\<lambda>e. among (e_user_id e) (set ids)
      \<or> among (e_session_id e) (own_sessions ids d) \<or> among (e_quarantine_file_id e) (own_files ids d)) (events d)"
    by (simp add: forget_reviewer_def delete_events_def own) (simp add: delete_incidents_def unassign_incidents_def)
  ultimately show ?thesis
    by (auto simp: no_mention_def tbl unassign_incidents_def)
qed

lemma own_files_deleted: "own_files ids (delete_files ids d) = {}"
  by (auto simp: own_files_def delete_files_def own_sessions_def tbl)

lemma purge_runs:
  assumes "references_ok d" and "\<not> among (Option.bind (ldap_configs d) l_updated_by) (set ids)"
  shows "\<exists>e. run_statements (purge_statements now ids) d = Inr e \<and> references_ok e \<and> unreferenced ids e
    \<and> users e = rows_delete (\<lambda>u. u_id u \<in> set ids) (users d)
    \<and> sessions e = rows_delete (\<lambda>x. s_user_id x \<in> set ids) (sessions d)
    \<and> (\<forall>v \<in> set (events d). v \<in> set (events e) \<or> among (e_user_id v) (set ids)
          \<or> among (e_session_id v) (own_sessions ids d) \<or> among (e_quarantine_file_id v) (own_files ids d))"
proof -
  define d1 where "d1 = unassign_incidents now ids d"
  define d2 where "d2 = delete_incidents ids d1"
  define d3 where "d3 = delete_events ids d2"
  define d4 where "d4 = forget_reviewer ids d3"
  define d5 where "d5 = delete_files ids d4"
  define d6 where "d6 = delete_sessions ids d5"
  define d7 where "d7 = delete_recovery_codes ids d6"
  define d8 where "d8 = delete_memberships ids d7"
  define d9 where "d9 = forget_author ids d8"
  note ds = d1_def d2_def d3_def d4_def d5_def d6_def d7_def d8_def d9_def
  have quiet: "no_mention ids d4" unfolding d4_def d3_def d2_def d1_def by (rule no_mention_after)
  have r4: "references_ok d1" "references_ok d2" "references_ok d3" "references_ok d4"
    using assms(1) by (simp_all add: d1_def d2_def d3_def d4_def refs_unassign refs_delete_incidents refs_delete_events refs_forget_reviewer)
  have r5: "references_ok d5" unfolding d5_def by (rule refs_delete_files [OF r4(4) quiet])
  have none: "own_files ids d5 = {}" unfolding d5_def by (rule own_files_deleted)
  have "own_sessions ids d5 = own_sessions ids d4" "incidents d5 = incidents d4" "events d5 = events d4"
    by (simp_all add: d5_def delete_files_def own_sessions_def)
  moreover have "\<not> among x {}" for x by (cases x) simp_all
  ultimately have quiet5: "no_mention ids d5" using quiet none by (simp add: no_mention_def)
  have r6: "references_ok d6" unfolding d6_def by (rule refs_delete_sessions [OF r5 quiet5 none])
  have r9: "references_ok d7" "references_ok d8" "references_ok d9"
    using r6 by (simp_all add: d7_def d8_def d9_def refs_delete_codes refs_delete_memberships refs_forget_author)
  have "unreferenced ids d9"
    unfolding unreferenced_def
  proof (intro conjI)
    show "\<forall>m \<in> set (user_groups d9). ug_user_id m \<notin> set ids"
      by (simp add: d9_def d8_def forget_author_def delete_memberships_def tbl)
    show "\<forall>c \<in> set (recovery_codes d9). rc_user_id c \<notin> set ids"
      by (simp add: d9_def d8_def d7_def forget_author_def delete_memberships_def delete_recovery_codes_def tbl)
    show "\<forall>v \<in> set (policy_versions d9). \<not> among (pv_created_by v) (set ids)"
      by (auto simp: d9_def forget_author_def)
    show "\<forall>x \<in> set (sessions d9). s_user_id x \<notin> set ids"
      by (simp add: d9_def d8_def d7_def d6_def forget_author_def delete_memberships_def delete_recovery_codes_def delete_sessions_def tbl)
    have files: "quarantine_files d9 = quarantine_files d5"
      by (simp add: d9_def d8_def d7_def d6_def forget_author_def delete_memberships_def delete_recovery_codes_def delete_sessions_def)
    have "\<forall>f \<in> set (quarantine_files d5). q_user_id f \<notin> set ids" using none by (auto simp: own_files_def)
    moreover have "\<forall>f \<in> set (quarantine_files d5). \<not> among (q_reviewed_by f) (set ids)"
      by (auto simp: d5_def delete_files_def d4_def forget_reviewer_def rows_delete_def)
    ultimately show "\<forall>f \<in> set (quarantine_files d9). q_user_id f \<notin> set ids \<and> \<not> among (q_reviewed_by f) (set ids)"
      unfolding files by blast
    have "incidents d9 = incidents d5" "events d9 = events d5"
      by (simp_all add: d9_def d8_def d7_def d6_def forget_author_def delete_memberships_def delete_recovery_codes_def delete_sessions_def)
    then show "\<forall>k \<in> set (incidents d9). \<not> among (i_user_id k) (set ids) \<and> \<not> among (i_assigned_to k) (set ids)"
      and "\<forall>e \<in> set (events d9). \<not> among (e_user_id e) (set ids)"
      using quiet5 by (auto simp: no_mention_def)
    show "\<not> among (Option.bind (ldap_configs d9) l_updated_by) (set ids)"
      using assms(2) by (simp add: ds statement_defs)
  qed
  then have r: "references_ok (delete_users ids d9)" "unreferenced ids (delete_users ids d9)"
    using refs_delete_users [OF r9(3)] by (auto simp: unreferenced_def delete_users_def)
  have "run_statements (purge_statements now ids) d = Inr (delete_users ids d9)"
    using r4 r5 r6 r9 r(1) by (simp add: purge_statements_def ds)
  moreover have "users (delete_users ids d9) = rows_delete (\<lambda>u. u_id u \<in> set ids) (users d)"
    "sessions (delete_users ids d9) = rows_delete (\<lambda>x. s_user_id x \<in> set ids) (sessions d)"
    by (simp_all add: ds statement_defs)
  moreover have "events (delete_users ids d9) = events d3"
    by (simp add: d9_def d8_def d7_def d6_def d5_def d4_def statement_defs)
  moreover have "v \<in> set (events d3) \<or> among (e_user_id v) (set ids)
      \<or> among (e_session_id v) (own_sessions ids d) \<or> among (e_quarantine_file_id v) (own_files ids d)" if "v \<in> set (events d)" for v
    using that by (auto simp: d3_def d2_def d1_def delete_events_def tbl own_sessions_def own_files_def delete_incidents_def unassign_incidents_def)
  ultimately show ?thesis using r by auto
qed

section \<open>The purge\<close>

text \<open>Ending sessions of accounts that exist keeps the foreign keys.\<close>

lemma ends_for_references:
  assumes "ends_for U d e" and "references_ok d" and "U \<subseteq> user_ids d"
  shows "references_ok e"
proof -
  note ids = ends_for_ids [OF assms(1)]
  obtain f evs n where f: "e = d\<lparr>sessions := map f (sessions d), events := events d @ evs, next_id := n\<rparr>"
    "\<And>x. s_id (f x) = s_id x" "\<And>x. s_user_id (f x) = s_user_id x" "\<And>x. s_node_id (f x) = s_node_id x"
    "\<And>v. v \<in> set evs \<Longrightarrow> \<exists>u \<in> U. e_user_id v = Some u \<and> opt_ref (e_session_id v) (session_ids d) \<and> e_quarantine_file_id v = None"
    using assms(1) by (rule ends_forE) blast
  have same: "user_ids e = user_ids d" "file_ids e = file_ids d" by (simp_all add: f(1))
  have new: "opt_ref (e_user_id v) (user_ids d) \<and> opt_ref (e_session_id v) (session_ids d) \<and> opt_ref (e_quarantine_file_id v) (file_ids d)"
    if "v \<in> set evs" for v using f(5) [OF that] assms(3) by auto
  show ?thesis
  proof (rule references_step [OF assms(2)])
    show "event_refs d \<Longrightarrow> event_refs e"
      unfolding event_refs_def ids same using new by (auto simp: f(1))
    show "file_refs d \<Longrightarrow> file_refs e" unfolding file_refs_def ids same by (simp add: f(1))
    show "incident_refs d \<Longrightarrow> incident_refs e" unfolding incident_refs_def ids same by (simp add: f(1))
    show "session_refs d \<Longrightarrow> session_refs e" unfolding session_refs_def same by (simp add: f)
  qed (simp_all add: refs_defs f(1))
qed

lemma ends_for_kept_sessions:
  "ends_for (set ids) d e \<Longrightarrow> rows_delete (\<lambda>x. s_user_id x \<in> set ids) (sessions e) = rows_delete (\<lambda>x. s_user_id x \<in> set ids) (sessions d)"
proof (erule ends_forE)
  fix f evs n
  assume "e = d\<lparr>sessions := map f (sessions d), events := events d @ evs, next_id := n\<rparr>"
    "\<And>x. s_user_id (f x) = s_user_id x" "\<And>x. x \<in> set (sessions d) \<Longrightarrow> s_user_id x \<notin> set ids \<Longrightarrow> f x = x"
  then show ?thesis by (auto simp: rows_delete_def filter_map comp_def intro!: map_idI)
qed

text \<open>
  C34. The purge keeps the tables well-typed: run on a database whose foreign keys hold, with no directory settings
  saved by a purged account, it succeeds; exactly the accounts with the prefix are gone, nothing names them any
  more, every foreign key still holds, and the sessions of the others and their part of the audit log are as they were.
\<close>

theorem purge_keeps_references:
  assumes "purge_main B I now pre s = (r, s')" and "MIN_PREFIX_LENGTH \<le> length pre" and "references_ok (db s)"
    and "distinct_keys u_id (users (db s))" and "distinct_keys s_id (sessions (db s))"
    and "ids = map u_id (filter (\<lambda>u. startswith (u_username u) pre) (users (db s)))"
    and "\<not> among (Option.bind (ldap_configs (db s)) l_updated_by) (set ids)"
  shows "(\<exists>n. r = Inr (length ids, n)) \<and> references_ok (db s') \<and> unreferenced ids (db s')
    \<and> users (db s') = filter (\<lambda>u. \<not> startswith (u_username u) pre) (users (db s))
    \<and> sessions (db s') = filter (\<lambda>x. s_user_id x \<notin> set ids) (sessions (db s))
    \<and> (\<forall>v \<in> set (events (db s)). v \<in> set (events (db s')) \<or> among (e_user_id v) (set ids)
          \<or> among (e_session_id v) (own_sessions ids (db s)) \<or> among (e_quarantine_file_id v) (own_files ids (db s)))"
proof -
  let ?us = "filter (\<lambda>u. startswith (u_username u) pre) (users (db s))"
  obtain n t where t: "purge_sessions B I now ?us s = (n, t)" by (metis prod.exhaust)
  have ends: "ends_for (set ids) (db s) (db t)"
    using ends_for_purge_sessions [of ?us "set ids" s B I now] assms(5,6) t by simp
  have refs: "references_ok (db t)" by (rule ends_for_references [OF ends assms(3)]) (auto simp: assms(6))
  have frame: "ldap_configs (db t) = ldap_configs (db s)" "users (db t) = users (db s)" "quarantine_files (db t) = quarantine_files (db s)"
    using ends by (auto elim!: ends_forE)
  have own: "own_sessions ids (db t) = own_sessions ids (db s)"
    by (rule ends_forE [OF ends]) (simp add: own_sessions_def keys_where_map del: set_map)
  have own_f: "own_files ids (db t) = own_files ids (db s)" by (simp add: own_files_def own frame)
  have grow: "set (events (db s)) \<subseteq> set (events (db t))" using ends by (auto elim!: ends_forE)
  obtain e where e: "run_statements (purge_statements now ids) (db t) = Inr e" "references_ok e" "unreferenced ids e"
    "users e = rows_delete (\<lambda>u. u_id u \<in> set ids) (users (db t))"
    "sessions e = rows_delete (\<lambda>x. s_user_id x \<in> set ids) (sessions (db t))"
    "\<forall>v \<in> set (events (db t)). v \<in> set (events e) \<or> among (e_user_id v) (set ids)
          \<or> among (e_session_id v) (own_sessions ids (db t)) \<or> among (e_quarantine_file_id v) (own_files ids (db t))"
    using purge_runs [OF refs, of ids now] assms(7) frame by auto
  have r: "r = Inr (length ids, n)" "db s' = e"
    using assms(1,2) t e(1) by (auto simp: purge_main_def purge_def Let_def assms(6))
  have "u_id u \<in> set ids \<longleftrightarrow> startswith (u_username u) pre" if "u \<in> set (users (db s))" for u
    using that distinct_keys_eq [OF assms(4)] by (auto simp: assms(6))
  then have "rows_delete (\<lambda>u. u_id u \<in> set ids) (users (db s)) = filter (\<lambda>u. \<not> startswith (u_username u) pre) (users (db s))"
    by (auto simp: rows_delete_def intro!: filter_cong)
  moreover have "sessions e = filter (\<lambda>x. s_user_id x \<notin> set ids) (sessions (db s))"
    using e(5) ends_for_kept_sessions [OF ends] by (simp add: rows_delete_def)
  ultimately show ?thesis using r e(2,3,4,6) frame(2) own own_f grow by auto
qed

text \<open>
  Where the purge stops: when one of the accounts ever saved the directory settings, the last statement violates
  a foreign key, everything is rolled back and the accounts stay, while their sandboxes have been terminated.
\<close>

theorem purge_stops_at_directory_settings:
  assumes "purge_main B I now pre s = (r, s')" and "MIN_PREFIX_LENGTH \<le> length pre"
    and "distinct_keys s_id (sessions (db s))" and "ldap_configs (db s) = Some row" and "l_updated_by row = Some (u_id u)"
    and "u \<in> set (users (db s))" and "startswith (u_username u) pre"
  shows "r = Inl DbIntegrityError \<and> db s' = db s
    \<and> world s' = world (snd (purge_sessions B I now (filter (\<lambda>u. startswith (u_username u) pre) (users (db s))) s))"
proof -
  let ?us = "filter (\<lambda>u. startswith (u_username u) pre) (users (db s))"
  let ?ids = "map u_id ?us"
  obtain n t where t: "purge_sessions B I now ?us s = (n, t)" by (metis prod.exhaust)
  have "ends_for (set ?ids) (db s) (db t)"
    using ends_for_purge_sessions [of ?us "set ?ids" s B I now] assms(3) t by simp
  then have l: "ldap_configs (db t) = Some row" using assms(4) by (auto elim!: ends_forE)
  have only: "\<exists>e. run_statements fs d = Inl DbIntegrityError \<or> run_statements fs d = Inr e \<and> (fs \<noteq> [] \<longrightarrow> references_ok e)
      \<and> e = fold (\<lambda>f d. f d) fs d" for fs d
  proof (induction fs arbitrary: d)
    case (Cons f fs)
    then show ?case by (cases fs) auto
  qed simp
  have "\<not> references_ok (fold (\<lambda>f d. f d) (purge_statements now ?ids) (db t))"
  proof -
    have "u_id u \<in> set ?ids" using assms(6,7) by auto
    then have "\<not> ldap_refs (fold (\<lambda>f d. f d) (purge_statements now ?ids) (db t))"
      by (auto simp: ldap_refs_def purge_statements_def statement_defs l assms(5) tbl)
    then show ?thesis by (simp add: references_ok_def)
  qed
  then have "run_statements (purge_statements now ?ids) (db t) = Inl DbIntegrityError"
    using only [of "purge_statements now ?ids" "db t"] by (auto simp: purge_statements_def)
  then show ?thesis using assms(1,2) t by (auto simp: purge_main_def purge_def Let_def)
qed

section \<open>The password reset\<close>

lemma cleared_is_unlocked:
  assumes "redis_laws I"
  shows "\<not> is_login_locked I name (clear_login_failures I name w)"
    and "get_login_session I tok (clear_login_failures I name w) = get_login_session I tok w"
  using assms by (simp_all add: is_login_locked_def clear_login_failures_def get_login_session_def redis_laws_def prefixes)

text \<open>
  The break-glass reset either refuses and changes nothing, or sets exactly the password (and, if asked, the active
  flag) of the one local account named, keeps its second factor and role, ends its lockout, and leaves events that
  name the break-glass actor, the first the reset. It ends no login session.
\<close>

theorem break_glass_reset:
  assumes "reset_local_password I now name enable inp s = (out, s')" and "redis_laws I" and "distinct_keys u_id (users (db s))"
  shows "case out of Inl m \<Rightarrow> s' = s
    | Inr rep \<Rightarrow> \<exists>user pw. row_get u_username name (users (db s)) = Some user \<and> u_password_hash user \<noteq> None
        \<and> read_new_password inp = Inr pw
        \<and> row_get u_id (u_id user) (users (db s')) = Some (user\<lparr>u_password_hash := Some (fst (argon2_hash I pw (world s))),
            u_is_active := u_is_active user \<or> enable, u_updated_at := now\<rparr>)
        \<and> (\<forall>u \<in> set (users (db s)). u_id u \<noteq> u_id user \<longrightarrow> u \<in> set (users (db s')))
        \<and> rr_still_disabled rep = (\<not> (u_is_active user \<or> enable))
        \<and> \<not> is_login_locked I name (world s')
        \<and> (\<forall>tok. get_login_session I tok (world s') = get_login_session I tok (world s))
        \<and> (\<exists>v evs. events (db s') = events (db s) @ v # evs \<and> e_event_type v = EV_PASSWORD_RESET_BY_ADMIN
            \<and> (\<forall>e \<in> set (v # evs). e_user_id e = Some (u_id user)
                \<and> e_metadata_json e = Some [(''actor'', JId BREAK_GLASS_CLI_ACTOR_ID)]))"
proof (cases out)
  case (Inl m)
  then show ?thesis using assms(1) by (auto simp: reset_local_password_def Let_def split: option.splits prod.splits sum.splits if_splits)
next
  case (Inr rep)
  then obtain user rname pw where a: "account_with_role name (db s) = Some (user, rname)" "u_password_hash user \<noteq> None"
    "read_new_password inp = Inr pw"
    using assms(1) by (auto simp: reset_local_password_def split: option.splits prod.splits sum.splits if_splits)
  then have row: "row_get u_username name (users (db s)) = Some user"
    by (auto simp: account_with_role_def split: option.splits)
  then have name: "u_username user = name" and mem: "user \<in> set (users (db s))" using row_get_SomeD by fastforce+
  have key: "row_get u_id (u_id user) (users (db s)) = Some user" using row_get_Some [OF assms(3)] mem by simp
  define s1 where "s1 = reset_password I now user pw BREAK_GLASS_CLI_ACTOR_ID s"
  define lock where "lock = get_login_lockout_status I name (world s1)"
  define s2 where "s2 = (if lo_locked lock then unlock_account I now user BREAK_GLASS_CLI_ACTOR_ID s1
      else if lo_failure_count lock \<noteq> 0 then on_world (clear_login_failures I name) s1 else s1)"
  define enabled where "enabled = (enable \<and> \<not> u_is_active user)"
  have s': "s' = (if enabled then on_db (set_active now user True BREAK_GLASS_CLI_ACTOR_ID) s2 else s2)"
    and rep: "rep = \<lparr> rr_role = rname, rr_user_id = u_id user, rr_lockout_cleared = lo_locked lock,
                    rr_still_disabled = (\<not> u_is_active user \<and> \<not> enabled), rr_mfa_unchanged = u_mfa_enabled user \<rparr>"
    using assms(1) a Inr by (auto simp: reset_local_password_def Let_def s1_def lock_def s2_def enabled_def)
  let ?h = "fst (argon2_hash I pw (world s))"
  have d1: "users (db s1) = row_update u_id (u_id user) (\<lambda>u. u\<lparr>u_password_hash := Some ?h, u_updated_at := now\<rparr>) (users (db s))"
    "events (db s1) = events (db s) @ [\<lparr> e_id = next_id (db s), e_created_at = now, e_event_type = EV_PASSWORD_RESET_BY_ADMIN,
        e_user_id = Some (u_id user), e_session_id = None, e_quarantine_file_id = None,
        e_metadata_json = Some [(''actor'', JId BREAK_GLASS_CLI_ACTOR_ID)] \<rparr>]"
    "world s1 = snd (argon2_hash I pw (world s))"
    by (simp_all add: s1_def reset_password_def with_world_def on_db_def user_event_def set_user_def case_prod_unfold Let_def)
  have d2: "users (db s2) = users (db s1)"
    "\<exists>evs. events (db s2) = events (db s1) @ evs \<and> (\<forall>e \<in> set evs. e_user_id e = Some (u_id user)
        \<and> e_metadata_json e = Some [(''actor'', JId BREAK_GLASS_CLI_ACTOR_ID)])"
    by (simp_all add: s2_def unlock_account_def on_db_def on_world_def user_event_def)
  have d3: "users (db s') = row_update u_id (u_id user)
        (\<lambda>u. u\<lparr>u_password_hash := Some ?h, u_is_active := u_is_active u \<or> enabled, u_updated_at := now\<rparr>) (users (db s))"
    "\<exists>evs. events (db s') = events (db s2) @ evs \<and> (\<forall>e \<in> set evs. e_user_id e = Some (u_id user)
        \<and> e_metadata_json e = Some [(''actor'', JId BREAK_GLASS_CLI_ACTOR_ID)])"
    by (auto simp: s' d1 d2 set_active_def on_db_def user_event_def set_user_def row_update_def)
  have w: "\<not> is_login_locked I name (world s2) \<and> (\<forall>tok. get_login_session I tok (world s2) = get_login_session I tok (world s1))"
    using cleared_is_unlocked [OF assms(2)]
    by (auto simp: s2_def unlock_account_def on_db_def on_world_def name lock_def get_login_lockout_status_def is_login_locked_def
        LOGIN_FAILURE_MAX_ATTEMPTS_def Let_def split: option.splits redis_value.splits)
  have "get_login_session I tok (world s1) = get_login_session I tok (world s)" for tok
    using assms(2) by (simp add: d1(3) get_login_session_def redis_laws_def)
  moreover have "world s' = world s2" by (simp add: s' on_db_def)
  moreover have "row_get u_id (u_id user) (users (db s')) = Some (user\<lparr>u_password_hash := Some ?h,
      u_is_active := u_is_active user \<or> enable, u_updated_at := now\<rparr>)"
    unfolding d3(1) by (simp add: row_get_update_same key enabled_def) (cases "u_is_active user"; simp)
  moreover have "u \<in> set (users (db s'))" if "u \<in> set (users (db s))" "u_id u \<noteq> u_id user" for u
    unfolding d3(1) using that by (force simp: tbl)
  moreover obtain evs where "events (db s') = events (db s1) @ evs"
    "\<forall>e \<in> set evs. e_user_id e = Some (u_id user) \<and> e_metadata_json e = Some [(''actor'', JId BREAK_GLASS_CLI_ACTOR_ID)]"
    using d2(2) d3(2) by (metis Un_iff append.assoc set_append)
  ultimately show ?thesis using Inr row a w rep d1(2) by (auto simp: enabled_def)
qed

end
