(* ===== verification/Key_Rotation.thy ===== *)
theory Key_Rotation
  imports Login
begin

text \<open>
  The rotation of the key that seals the secrets at rest (\<open>backend/scripts/rotate_totp_key.py\<close>) and the key
  handling of \<open>core/crypto.py\<close>. Fernet is a parameter, a record \<open>'w fernet\<close>: encrypting draws its
  initialisation vector from the world; decrypting answers the text, or \<open>None\<close> for \<open>InvalidToken\<close>.
  Every sealed value is an encoded text, so the codec around Fernet is left out. What the script prints is reduced
  to its outcome.
\<close>

section \<open>Keys\<close>

record 'w fernet =
  fernet_encrypt :: "bytes \<Rightarrow> string \<Rightarrow> 'w \<Rightarrow> bytes \<times> 'w"
  fernet_decrypt :: "bytes \<Rightarrow> bytes \<Rightarrow> string option"

text \<open>What Fernet promises: the key that sealed opens, and no other key does.\<close>

definition fernet_laws :: "'w fernet \<Rightarrow> bool" where
  "fernet_laws F \<longleftrightarrow>
     (\<forall>k m w. fernet_decrypt F k (fst (fernet_encrypt F k m w)) = Some m)
     \<and> (\<forall>k k' m w. k' \<noteq> k \<longrightarrow> fernet_decrypt F k' (fst (fernet_encrypt F k m w)) = None)
     \<and> (\<forall>k m w. fst (fernet_encrypt F k m w) \<noteq> [])"

text \<open>\<open>bytes.fromhex\<close>: pairs of digits, with blanks allowed between them.\<close>

definition hex_value :: "char \<Rightarrow> nat option" where
  "hex_value c = (let n = code c in
     if 48 \<le> n \<and> n \<le> 57 then Some (n - 48)
     else if 97 \<le> n \<and> n \<le> 102 then Some (n - 87)
     else if 65 \<le> n \<and> n \<le> 70 then Some (n - 55) else None)"

definition ascii_blank :: "char \<Rightarrow> bool" where
  "ascii_blank c = (code c = 32 \<or> 9 \<le> code c \<and> code c \<le> 13)"

fun from_hex :: "string \<Rightarrow> bytes option" where
  "from_hex [] = Some []"
| "from_hex [c] = (if ascii_blank c then Some [] else None)"
| "from_hex (c # d # cs) =
     (if ascii_blank c then from_hex (d # cs)
      else case (hex_value c, hex_value d) of
          (Some a, Some b) \<Rightarrow> map_option (\<lambda>bs. word_of_nat (16 * a + b) # bs) (from_hex cs)
        | _ \<Rightarrow> None)"

definition fernet_from_hex :: "string \<Rightarrow> service_error + bytes" where
  "fernet_from_hex hex_key =
     (case from_hex hex_key of
        None \<Rightarrow> Inl (ValueErr ''non-hexadecimal number found in fromhex() arg'')
      | Some raw \<Rightarrow>
          if length raw \<noteq> 32 then Inl (ValueErr ''key must decode to exactly 32 bytes (openssl rand -hex 32)'')
          else Inr raw)"

text \<open>
  The key the application works with; \<open>crypto_decrypt\<close> fails closed. The two functions of \<open>core/crypto.py\<close>
  over the configured key.
\<close>

definition configured_key :: "settings \<Rightarrow> service_error + bytes" where
  "configured_key st =
     (if totp_secret_encryption_key st = [] then Inl (RuntimeErr ''OPENRBI_TOTP_SECRET_ENCRYPTION_KEY is not configured'')
      else case from_hex (totp_secret_encryption_key st) of
        None \<Rightarrow> Inl (ValueErr ''non-hexadecimal number found in fromhex() arg'')
      | Some raw \<Rightarrow>
          if length raw \<noteq> 32 then Inl (RuntimeErr ''OPENRBI_TOTP_SECRET_ENCRYPTION_KEY must decode to exactly 32 bytes'')
          else Inr raw)"

definition crypto_encrypt :: "'w fernet \<Rightarrow> settings \<Rightarrow> string \<Rightarrow> 'w \<Rightarrow> (service_error + bytes) \<times> 'w" where
  "crypto_encrypt F st plaintext w =
     (case configured_key st of
        Inl e \<Rightarrow> (Inl e, w)
      | Inr k \<Rightarrow> (case fernet_encrypt F k plaintext w of (c, w) \<Rightarrow> (Inr c, w)))"

definition crypto_decrypt :: "'w fernet \<Rightarrow> settings \<Rightarrow> bytes \<Rightarrow> service_error + string" where
  "crypto_decrypt F st ciphertext =
     (case configured_key st of
        Inl e \<Rightarrow> Inl e
      | Inr k \<Rightarrow>
          (case fernet_decrypt F k ciphertext of
             None \<Rightarrow> Inl (ValueErr ''could not decrypt stored secret'') | Some t \<Rightarrow> Inr t))"

lemma configured_from_hex: "fernet_from_hex t = Inr k \<Longrightarrow> totp_secret_encryption_key st = t \<Longrightarrow> configured_key st = Inr k"
  by (auto simp: fernet_from_hex_def configured_key_def split: option.splits if_splits)

section \<open>The script\<close>

datatype rotation =
    Bad_key service_error
  | Not_committed "string list"
  | Dry_run nat
  | Committed nat

text \<open>The loop over the accounts; the result is the names that neither key opens.\<close>

fun rotate_all ::
  "'w fernet \<Rightarrow> instant \<Rightarrow> bytes \<Rightarrow> bytes \<Rightarrow> bool \<Rightarrow> user list \<Rightarrow> 'w sys \<Rightarrow> string list \<times> 'w sys" where
  "rotate_all F now old new dry [] s = ([], s)"
| "rotate_all F now old new dry (u # us) s =
     (let sealed = the (u_totp_secret_encrypted u) in
      case fernet_decrypt F old sealed of
        Some plaintext \<Rightarrow>
          if dry then rotate_all F now old new dry us s
          else (let (c, s) = with_world (fernet_encrypt F new plaintext) s in
                rotate_all F now old new dry us
                  (on_db (set_user now (u_id u) (\<lambda>u. u\<lparr>u_totp_secret_encrypted := Some c\<rparr>)) s))
      | None \<Rightarrow>
          (case fernet_decrypt F new sealed of
             Some _ \<Rightarrow> rotate_all F now old new dry us s
           | None \<Rightarrow> (let (failures, s) = rotate_all F now old new dry us s in (u_username u # failures, s))))"

text \<open>\<open>sys.exit\<close> leaves the database session without a commit.\<close>

definition rotate :: "'w fernet \<Rightarrow> instant \<Rightarrow> string \<Rightarrow> string \<Rightarrow> bool \<Rightarrow> 'w sys \<Rightarrow> rotation \<times> 'w sys" where
  "rotate F now old_key new_key dry s =
     (case fernet_from_hex old_key of
        Inl e \<Rightarrow> (Bad_key e, s)
      | Inr old \<Rightarrow>
     (case fernet_from_hex new_key of
        Inl e \<Rightarrow> (Bad_key e, s)
      | Inr new \<Rightarrow>
          (let sealed = filter (\<lambda>u. u_totp_secret_encrypted u \<noteq> None) (users (db s));
               (failures, t) = rotate_all F now old new dry sealed s
           in if failures \<noteq> [] then (Not_committed failures, t\<lparr>db := db s\<rparr>)
              else if dry then (Dry_run (length sealed), t\<lparr>db := db s\<rparr>)
              else (Committed (length sealed), t))))"

section \<open>What a rotation does\<close>

text \<open>The secret of an account as one of the keys opens it, the first that does.\<close>

definition secret_under :: "'w fernet \<Rightarrow> bytes list \<Rightarrow> user \<Rightarrow> string option" where
  "secret_under F ks u =
     (case u_totp_secret_encrypted u of
        None \<Rightarrow> None
      | Some c \<Rightarrow> (case List.map_filter (\<lambda>k. fernet_decrypt F k c) ks of [] \<Rightarrow> None | m # _ \<Rightarrow> Some m))"

text \<open>An account after the rotation: the secret it had, sealed with the new key, and nothing else changed.\<close>

definition resealed :: "'w fernet \<Rightarrow> bytes \<Rightarrow> bytes \<Rightarrow> user \<Rightarrow> user \<Rightarrow> bool" where
  "resealed F old new u v =
     (v\<lparr>u_totp_secret_encrypted := u_totp_secret_encrypted u, u_updated_at := u_updated_at u\<rparr> = u
    \<and> (u_totp_secret_encrypted u = None \<longrightarrow> v = u)
    \<and> (u_totp_secret_encrypted u \<noteq> None \<longrightarrow> secret_under F [new] v = secret_under F [old, new] u
         \<and> secret_under F [new] v \<noteq> None))"

lemma fernet_opens: "fernet_laws F \<Longrightarrow> fernet_decrypt F k (fst (fernet_encrypt F k m w)) = Some m"
  unfolding fernet_laws_def by blast

lemma fernet_closed: "fernet_laws F \<Longrightarrow> k' \<noteq> k \<Longrightarrow> fernet_decrypt F k' (fst (fernet_encrypt F k m w)) = None"
  unfolding fernet_laws_def by blast

lemma fernet_nonempty: "fernet_laws F \<Longrightarrow> fst (fernet_encrypt F k m w) \<noteq> []"
  unfolding fernet_laws_def by blast

lemma with_world_db: "with_world f s = (r, t) \<Longrightarrow> db t = db s"
  by (auto simp: with_world_def split: prod.splits)

lemma with_world_fst: "with_world f s = (r, t) \<Longrightarrow> r = fst (f (world s))"
  by (simp add: with_world_def Let_def case_prod_unfold)

text \<open>The loop touches only the rows it is given, and reseals them if it reports no failure.\<close>

lemma rotate_all_rows:
  assumes "rotate_all F now old new False us s = (fs, t)" and "distinct (map u_id us)" and "fernet_laws F"
    and "\<And>u. u \<in> set us \<Longrightarrow> u_totp_secret_encrypted u \<noteq> None"
  shows "db t = (db s)\<lparr>users := users (db t)\<rparr>
    \<and> (\<exists>f. users (db t) = map f (users (db s)) \<and> (\<forall>u. u_id (f u) = u_id u \<and> u_password_hash (f u) = u_password_hash u
             \<and> u_username (f u) = u_username u)
         \<and> (\<forall>u. u_id u \<notin> u_id ` set us \<longrightarrow> f u = u)
         \<and> (fs = [] \<longrightarrow> (\<forall>u \<in> set us. resealed F old new u (f u))))"
  using assms
proof (induction us arbitrary: s fs)
  case Nil
  then show ?case by (intro conjI exI [of _ id]) auto
next
  case (Cons u us)
  obtain sealed where c: "u_totp_secret_encrypted u = Some sealed" using Cons.prems(4) [of u] by auto
  have rest: "distinct (map u_id us)" "u_id u \<notin> u_id ` set us" "\<And>v. v \<in> set us \<Longrightarrow> u_totp_secret_encrypted v \<noteq> None"
    using Cons.prems by auto
  note IH = Cons.IH [OF _ rest(1) Cons.prems(3) rest(3)]
  show ?case
  proof (cases "fernet_decrypt F old sealed")
    case (Some m)
    obtain d s1 where d: "with_world (fernet_encrypt F new m) s = (d, s1)" by (metis prod.exhaust)
    let ?g = "\<lambda>v. if u_id v = u_id u then v\<lparr>u_totp_secret_encrypted := Some d, u_updated_at := now\<rparr> else v"
    let ?s2 = "on_db (set_user now (u_id u) (\<lambda>u. u\<lparr>u_totp_secret_encrypted := Some d\<rparr>)) s1"
    have run: "rotate_all F now old new False us ?s2 = (fs, t)" using Cons.prems(1) c Some d by simp
    have s2: "db ?s2 = (db s)\<lparr>users := map ?g (users (db s))\<rparr>"
      using with_world_db [OF d] by (simp add: on_db_def set_user_def row_update_def)
    obtain f where f: "db t = (db ?s2)\<lparr>users := users (db t)\<rparr>" "users (db t) = map f (users (db ?s2))"
      "\<And>v. u_id (f v) = u_id v \<and> u_password_hash (f v) = u_password_hash v \<and> u_username (f v) = u_username v"
      "\<And>v. u_id v \<notin> u_id ` set us \<Longrightarrow> f v = v" "fs = [] \<Longrightarrow> \<forall>v \<in> set us. resealed F old new v (f v)"
      using IH [OF run] by blast
    have opens: "fernet_decrypt F new d = Some m"
      unfolding with_world_fst [OF d] by (rule fernet_opens [OF Cons.prems(3)])
    have "resealed F old new u (f (?g u))"
      using f(4) [of "?g u"] rest(2) c Some opens by (simp add: resealed_def secret_under_def map_filter_def)
    moreover have "?g v = v" if "v \<in> set us" for v
      using that rest(2) imageI [OF that, of u_id] by (metis (no_types))
    ultimately have new: "fs = [] \<longrightarrow> (\<forall>v \<in> set (u # us). resealed F old new v ((f \<circ> ?g) v))" using f(5) by auto
    have old: "u_id v \<notin> u_id ` set (u # us) \<longrightarrow> (f \<circ> ?g) v = v" for v using f(4) by auto
    have kept: "\<forall>v. u_id ((f \<circ> ?g) v) = u_id v \<and> u_password_hash ((f \<circ> ?g) v) = u_password_hash v \<and> u_username ((f \<circ> ?g) v) = u_username v"
      using f(3) by simp
    have tab: "users (db t) = map (f \<circ> ?g) (users (db s))" using f(2) s2 by simp
    have "db t = (db s)\<lparr>users := users (db t)\<rparr>" using f(1) s2 by simp
    then show ?thesis using new old tab kept by blast
  next
    case None
    obtain gs t' where g: "rotate_all F now old new False us s = (gs, t')" by (metis prod.exhaust)
    have t: "t' = t" and fs: "fs = [] \<Longrightarrow> gs = [] \<and> fernet_decrypt F new sealed \<noteq> None"
      using Cons.prems(1) c None g by (auto split: option.splits)
    obtain f where f: "db t = (db s)\<lparr>users := users (db t)\<rparr>" "users (db t) = map f (users (db s))"
      "\<And>v. u_id (f v) = u_id v \<and> u_password_hash (f v) = u_password_hash v \<and> u_username (f v) = u_username v"
      "\<And>v. u_id v \<notin> u_id ` set us \<Longrightarrow> f v = v" "gs = [] \<Longrightarrow> \<forall>v \<in> set us. resealed F old new v (f v)"
      using IH [OF g [unfolded t]] by blast
    have "resealed F old new u (f u)" if "fs = []"
      using f(4) [of u] rest(2) c None fs [OF that] by (auto simp: resealed_def secret_under_def map_filter_def)
    then have "fs = [] \<longrightarrow> (\<forall>v \<in> set (u # us). resealed F old new v (f v))" using f(5) fs by auto
    moreover have "u_id v \<notin> u_id ` set (u # us) \<longrightarrow> f v = v" for v using f(4) by auto
    ultimately show ?thesis using f(1,2,3) by blast
  qed
qed

lemma rotation_rows:
  assumes "rotate_all F now old new False (filter (\<lambda>u. u_totp_secret_encrypted u \<noteq> None) (users (db s))) s = (fs, t)"
    and "fernet_laws F" and "distinct_keys u_id (users (db s))"
  obtains f where "db t = (db s)\<lparr>users := users (db t)\<rparr>" and "users (db t) = map f (users (db s))"
    and "\<And>u. u_id (f u) = u_id u" and "\<And>u. u_password_hash (f u) = u_password_hash u" and "\<And>u. u_username (f u) = u_username u"
    and "\<And>u. u_id u \<notin> u_id ` set (filter (\<lambda>u. u_totp_secret_encrypted u \<noteq> None) (users (db s))) \<Longrightarrow> f u = u"
    and "fs = [] \<Longrightarrow> \<forall>u \<in> set (filter (\<lambda>u. u_totp_secret_encrypted u \<noteq> None) (users (db s))). resealed F old new u (f u)"
proof -
  let ?us = "filter (\<lambda>u. u_totp_secret_encrypted u \<noteq> None) (users (db s))"
  have "distinct (map u_id ?us)" using assms(3) by (simp add: distinct_keys_def distinct_map_filter)
  moreover have "u_totp_secret_encrypted u \<noteq> None" if "u \<in> set ?us" for u using that by simp
  ultimately have "db t = (db s)\<lparr>users := users (db t)\<rparr> \<and> (\<exists>f. users (db t) = map f (users (db s))
      \<and> (\<forall>u. u_id (f u) = u_id u \<and> u_password_hash (f u) = u_password_hash u \<and> u_username (f u) = u_username u)
      \<and> (\<forall>u. u_id u \<notin> u_id ` set ?us \<longrightarrow> f u = u) \<and> (fs = [] \<longrightarrow> (\<forall>u \<in> set ?us. resealed F old new u (f u))))"
    by (rule rotate_all_rows [OF assms(1) _ assms(2)])
  then show ?thesis using that by blast
qed

text \<open>
  C35. A rotation is all or nothing: unless it commits the database is as it was, a dry run included; when it commits,
  every account is as it was but for the seal of its second factor, which the new key now opens to the very secret
  the old key (or, for an account of an earlier run, the new key) opened before.
\<close>

theorem rotation_keeps_every_secret:
  assumes "rotate F now old_key new_key dry s = (out, s')" and "fernet_laws F" and "distinct_keys u_id (users (db s))"
    and "fernet_from_hex old_key = Inr old" and "fernet_from_hex new_key = Inr new"
  shows "case out of
      Committed n \<Rightarrow> \<not> dry \<and> n = length (filter (\<lambda>u. u_totp_secret_encrypted u \<noteq> None) (users (db s)))
        \<and> db s' = (db s)\<lparr>users := users (db s')\<rparr> \<and> list_all2 (resealed F old new) (users (db s)) (users (db s'))
    | _ \<Rightarrow> db s' = db s"
proof -
  let ?us = "filter (\<lambda>u. u_totp_secret_encrypted u \<noteq> None) (users (db s))"
  obtain fs t where r: "rotate_all F now old new dry ?us s = (fs, t)" by (metis prod.exhaust)
  show ?thesis
  proof (cases "fs = [] \<and> \<not> dry")
    case False
    then show ?thesis using assms(1,4,5) r by (auto simp: rotate_def Let_def split: if_splits)
  next
    case True
    then have out: "out = Committed (length ?us)" "s' = t" using assms(1,4,5) r by (auto simp: rotate_def Let_def)
    have run: "rotate_all F now old new False ?us s = ([], t)" using r True by simp
    obtain f where f: "db t = (db s)\<lparr>users := users (db t)\<rparr>" "users (db t) = map f (users (db s))"
      "\<And>u. u_id u \<notin> u_id ` set ?us \<Longrightarrow> f u = u" "\<forall>u \<in> set ?us. resealed F old new u (f u)"
      by (rule rotation_rows [OF run assms(2,3)]) blast
    have "resealed F old new u (f u)" if u: "u \<in> set (users (db s))" for u
    proof (cases "u_totp_secret_encrypted u = None")
      case True
      have "u_id u \<notin> u_id ` set ?us"
      proof
        assume "u_id u \<in> u_id ` set ?us"
        then obtain v where "v \<in> set (users (db s))" "u_totp_secret_encrypted v \<noteq> None" "u_id v = u_id u" by auto
        then show False using True u distinct_keys_eq [OF assms(3)] by metis
      qed
      then show ?thesis using f(3) True by (simp add: resealed_def)
    next
      case False
      then show ?thesis using f(4) u by simp
    qed
    then have "list_all2 (resealed F old new) (users (db s)) (users (db t))"
      using f(2) by (simp add: list_all2_conv_all_nth)
    then show ?thesis using out True f(1) by simp
  qed
qed

text \<open>
  C36. The rotation forgets what else the key seals. After a committed rotation and the restart with the new key, when
  the directory is enabled with a bind password sealed under the old key, every login by a name without a local
  password, known or not, is answered 500; and the agent token of every enrolled node can no longer be read either.
\<close>

theorem rotation_breaks_directory_and_nodes:
  assumes "rotate F now old_key new_key False s = (Committed n, s')" and "fernet_laws F" and "distinct_keys u_id (users (db s))"
    and "fernet_from_hex old_key = Inr old" and "fernet_from_hex new_key = Inr new" and "old \<noteq> new"
    and "ldap_configs (db s) = Some row" and "l_enabled row"
    and "l_bind_password_encrypted row = Some (fst (fernet_encrypt F old password w))"
    and "\<not> (listener_mode st = Listener_user \<and> database_url_user st \<noteq> [])"
    and "\<And>u. row_get u_username name (users (db s)) = Some u \<Longrightarrow> u_password_hash u = None" and "\<not> is_login_locked I name (world s')"
    and "totp_secret_encryption_key st = new_key"
    and "\<And>c. decrypt_text I c = (case crypto_decrypt F st c of Inl _ \<Rightarrow> None | Inr t \<Rightarrow> Some t)"
  shows "fst (login I D st later name typed s') = Inl (500, ''Internal Server Error'')
    \<and> (\<forall>node \<in> set (nodes (db s')). \<forall>tok v. n_agent_token_encrypted node = Some (fst (fernet_encrypt F old tok v))
         \<longrightarrow> node \<in> set (nodes (db s)) \<and> fernet_decrypt F new (the (n_agent_token_encrypted node)) = None)"
proof -
  let ?us = "filter (\<lambda>u. u_totp_secret_encrypted u \<noteq> None) (users (db s))"
  obtain fs t where r: "rotate_all F now old new False ?us s = (fs, t)" by (metis prod.exhaust)
  then have s': "s' = t" using assms(1,4,5) by (auto simp: rotate_def Let_def split: if_splits)
  obtain f where frame: "db s' = (db s)\<lparr>users := users (db s')\<rparr>" and f: "users (db s') = map f (users (db s))"
    and kept: "\<And>u. u_id (f u) = u_id u" "\<And>u. u_password_hash (f u) = u_password_hash u" "\<And>u. u_username (f u) = u_username u"
    unfolding s' by (rule rotation_rows [OF r assms(2,3)]) blast
  have found: "row_get key k (map f us) = map_option f (row_get key k us)" if "\<And>u. key (f u) = key u" for key :: "user \<Rightarrow> 'k" and k us
    using that by (induction us) (auto simp: row_get_def)
  have closed: "fernet_decrypt F new (fst (fernet_encrypt F old m v)) = None" for m v
    using fernet_closed [OF assms(2), of new old] assms(6) by simp
  have "decrypt_text I (fst (fernet_encrypt F old password w)) = None"
    using configured_from_hex [OF assms(5,13)] closed by (simp add: assms(14) crypto_decrypt_def)
  then have "stored_password I row = Inl (ValueErr ''could not decrypt stored secret'')"
    using assms(9) fernet_nonempty [OF assms(2)] by (simp add: stored_password_def)
  moreover have "ldap_configs (db s') = Some row" using assms(7) by (subst frame) simp
  ultimately have "get_effective_ldap_config I st (db s') = Inl (ValueErr ''could not decrypt stored secret'')"
    using assms(8,10) by (auto simp: get_effective_ldap_config_def)
  then have dir: "directory_login I D st later name typed s' = (Inl (ValueErr ''could not decrypt stored secret''), s')"
    by (simp add: directory_login_def)
  have "identify I D st later name typed s' = (Inl (ValueErr ''could not decrypt stored secret''), s')"
  proof (cases "row_get u_username name (users (db s))")
    case None
    then have "row_get u_username name (users (db s')) = None" using f found [of u_username, OF kept(3)] by simp
    then show ?thesis using dir by (simp add: identify_def local_authenticate_def)
  next
    case (Some u)
    then have u: "row_get u_username name (users (db s')) = Some (f u)" "u \<in> set (users (db s))" "u_password_hash u = None"
      using f found [of u_username, OF kept(3)] assms(11) row_get_SomeD [OF Some] by auto
    then have "row_get u_id (u_id u) (users (db s)) = Some u" using row_get_Some [OF assms(3)] by simp
    then have "row_get u_id (u_id u) (users (db s')) = Some (f u)" using f found [of u_id, OF kept(1)] by simp
    then show ?thesis using dir u by (simp add: identify_def local_authenticate_def kept)
  qed
  then have "fst (login I D st later name typed s') = Inl (500, ''Internal Server Error'')"
    using assms(12) by (simp add: login_def server_error_def)
  moreover have "nodes (db s') = nodes (db s)" by (subst frame) simp
  ultimately show ?thesis using closed by auto
qed

end
