(* ===== verification/Operator_Runs.thy ===== *)
theory Operator_Runs
  imports Operator_Guarantees Key_Rotation Sample_Accounts
begin

text \<open>The theorems about the scripts of the operator, applied.\<close>

section \<open>A Fernet that satisfies the laws\<close>

text \<open>The length of the key in unary, the key, the text.\<close>

definition octets_of :: "string \<Rightarrow> bytes" where
  "octets_of t = map (\<lambda>c. word_of_nat (code c)) t"

definition sample_fernet :: "'w fernet" where
  "sample_fernet =
     \<lparr> fernet_encrypt = (\<lambda>k m w. (replicate (length k) 1 @ 0 # k @ octets_of m, w)),
       fernet_decrypt = (\<lambda>k c. let n = length (takeWhile (\<lambda>x. x = 1) c); rest = drop (n + 1) c in
         if n = length k \<and> take n rest = k then Some (map (\<lambda>b. char_of (unat b)) (drop n rest)) else None) \<rparr>"

definition seal :: "bytes \<Rightarrow> string \<Rightarrow> bytes" where
  "seal k m = replicate (length k) 1 @ 0 # k @ octets_of m"

lemma sealed_with: "fst (fernet_encrypt sample_fernet k m w) = seal k m"
  by (simp add: sample_fernet_def seal_def)

lemma octets_round_trip: "map (\<lambda>b. char_of (unat b)) (octets_of t) = t"
proof -
  have "char_of (unat (word_of_nat (code c) :: 8 word)) = c" for c
    using code_less [of c] by (simp add: unat_of_nat code_def)
  then show ?thesis by (simp add: octets_of_def comp_def)
qed

lemma sample_fernet_laws: "fernet_laws sample_fernet"
proof -
  have n: "takeWhile (\<lambda>x. x = (1 :: 8 word)) (replicate n 1 @ 0 # r) = replicate n 1" for n r
    by (simp add: takeWhile_append)
  show ?thesis by (auto simp: fernet_laws_def sample_fernet_def n octets_round_trip)
qed

section \<open>Rotation\<close>

definition old_text :: string where "old_text = replicate 64 CHR ''0''"
definition new_text :: string where "new_text = replicate 64 CHR ''a''"
definition old_raw :: bytes where "old_raw = replicate 32 0"
definition new_raw :: bytes where "new_raw = replicate 32 170"

lemma keys_read: "fernet_from_hex old_text = Inr old_raw" "fernet_from_hex new_text = Inr new_raw"
  by code_simp+

lemma keys_differ: "old_raw \<noteq> new_raw"
  by code_simp

definition sealed_alice :: user where
  "sealed_alice = alice\<lparr>u_totp_secret_encrypted := Some (seal old_raw ''SECRET'')\<rparr>"

definition directory_row :: ldap_config where
  "directory_row =
     \<lparr> l_created_at = 0, l_updated_at = 0, l_enabled = True, l_server_uri = ''ldaps://dc'', l_use_starttls = False,
       l_bind_dn = ''cn=svc'', l_bind_password_encrypted = Some (seal old_raw ''secret''),
       l_base_dn = ''dc=x'', l_user_search_filter = ''(uid={username})'', l_group_attribute = ''memberOf'',
       l_group_role_mapping = [], l_updated_by = Some 7 \<rparr>"

definition sealed_sys :: "redis sys" where
  "sealed_sys = (accounts_sys [])\<lparr>db := accounts_db\<lparr>users := [sealed_alice, bob], ldap_configs := Some directory_row\<rparr>\<rparr>"

lemma sealed_users [simp]: "users (db sealed_sys) = [sealed_alice, bob]" "ldap_configs (db sealed_sys) = Some directory_row"
  by (simp_all add: sealed_sys_def)

lemma sealed_fields: "u_id sealed_alice = 7" "u_id bob = 8" "u_username sealed_alice = ''alice''" "u_username bob = ''bob''"
  "u_password_hash bob = None" "u_totp_secret_encrypted bob = None"
  "u_totp_secret_encrypted sealed_alice = Some (seal old_raw ''SECRET'')"
  by (simp_all add: sealed_alice_def alice_def bob_def new_user_def)

lemma sealed_distinct: "distinct_keys u_id (users (db sealed_sys))"
  by (simp add: distinct_keys_def sealed_fields)

lemma sealed_rotation:
  "\<exists>s'. rotate sample_fernet 9 old_text new_text False sealed_sys = (Committed 1, s') \<and> world s' = []"
proof -
  have opens: "fernet_decrypt (sample_fernet :: redis fernet) old_raw (seal old_raw ''SECRET'') = Some ''SECRET''"
    using fernet_opens [OF sample_fernet_laws] unfolding sealed_with .
  show ?thesis
    by (simp add: rotate_def keys_read sealed_fields opens with_world_def case_prod_unfold Let_def)
      (simp add: sealed_sys_def accounts_sys_def on_db_def sample_fernet_def)
qed

lemma rotation_witness:
  "\<exists>s'. rotate sample_fernet 9 old_text new_text False sealed_sys = (Committed 1, s')
     \<and> list_all2 (resealed (sample_fernet :: redis fernet) old_raw new_raw) [sealed_alice, bob] (users (db s'))"
proof -
  obtain s' where s': "rotate sample_fernet 9 old_text new_text False sealed_sys = (Committed 1, s')" using sealed_rotation by blast
  from rotation_keeps_every_secret [OF s' sample_fernet_laws sealed_distinct keys_read] show ?thesis using s' unfolding sealed_users by auto
qed

definition restarted_settings :: settings where
  "restarted_settings = sample_settings\<lparr>totp_secret_encryption_key := new_text\<rparr>"

definition restarted_idp :: "redis idp" where
  "restarted_idp = sample_idp
     \<lparr>decrypt_text := (\<lambda>c. case crypto_decrypt (sample_fernet :: redis fernet) restarted_settings c of Inl _ \<Rightarrow> None | Inr t \<Rightarrow> Some t)\<rparr>"

lemma directory_lost_witness:
  "\<exists>s'. rotate sample_fernet 9 old_text new_text False sealed_sys = (Committed 1, s')
     \<and> fst (login restarted_idp sample_directory restarted_settings 10 ''bob'' ''secret'' s') = Inl (500, ''Internal Server Error'')"
proof -
  obtain s' where s': "rotate sample_fernet 9 old_text new_text False sealed_sys = (Committed 1, s')" "world s' = []"
    using sealed_rotation by blast
  have "\<not> is_login_locked restarted_idp ''bob'' (world s')"
    by (simp add: s'(2) is_login_locked_def restarted_idp_def sample_idp_def)
  moreover have "u_password_hash u = None" if "row_get u_username ''bob'' (users (db sealed_sys)) = Some u" for u
    using that by (auto simp: row_get_def sealed_fields)
  moreover have "\<not> (listener_mode restarted_settings = Listener_user \<and> database_url_user restarted_settings \<noteq> [])"
    by (simp add: restarted_settings_def sample_settings_def default_settings_def)
  moreover have "l_bind_password_encrypted directory_row = Some (fst (fernet_encrypt sample_fernet old_raw ''secret'' ([] :: redis)))"
    by (simp add: directory_row_def sealed_with)
  ultimately have "fst (login restarted_idp sample_directory restarted_settings 10 ''bob'' ''secret'' s') = Inl (500, ''Internal Server Error'')"
    using rotation_breaks_directory_and_nodes [OF s'(1) sample_fernet_laws sealed_distinct keys_read keys_differ, of directory_row "''secret''" "[]"
        restarted_settings "''bob''" restarted_idp sample_directory 10 "''secret''"]
    by (simp add: directory_row_def restarted_settings_def restarted_idp_def)
  then show ?thesis using s'(1) by blast
qed

section \<open>The break-glass reset\<close>

lemma reset_witness:
  "\<exists>rep s'. reset_local_password sample_idp 9 ''alice'' True (Piped ''battery staple'') (accounts_sys []) = (Inr rep, s')
     \<and> row_get u_id 7 (users (db s')) = Some (alice\<lparr>u_password_hash := Some ''h:battery staple'', u_is_active := True, u_updated_at := 9\<rparr>)"
proof -
  have read: "read_new_password (Piped ''battery staple'') = Inr ''battery staple''" by code_simp
  have acc: "account_with_role ''alice'' accounts_db = Some (alice, ''ADMIN'')"
    by (simp add: account_with_role_def) (simp add: account_defs row_get_def)
  have "u_password_hash alice \<noteq> None" by (simp add: alice_def new_user_def)
  then obtain rep s' where r: "reset_local_password sample_idp 9 ''alice'' True (Piped ''battery staple'') (accounts_sys []) = (Inr rep, s')"
    by (auto simp: reset_local_password_def acc read Let_def)
  have "distinct_keys u_id (users (db (accounts_sys [])))" by simp
  from break_glass_reset [OF r sample_redis_laws this] show ?thesis
    using r read by (auto simp: sample_idp_def) (simp add: alice_def new_user_def)
qed

section \<open>The purge\<close>

definition probe :: user where
  "probe = new_user 9 0 ''fault-probe'' (Some ''h:x'') 2"

definition probed_sys :: "redis sys" where
  "probed_sys = (accounts_sys [])\<lparr>db := accounts_db\<lparr>users := [alice, bob, probe],
     user_groups := [\<lparr> ug_id = 6, ug_created_at = 0, ug_user_id = 9, ug_group_id = 5 \<rparr>],
     sessions := [sample_session SS_ACTIVE, (sample_session SS_ACTIVE)\<lparr>s_id := 2, s_user_id := 9\<rparr>]\<rparr>\<rparr>"

lemma probed_refs: "references_ok (db probed_sys)"
  by (simp add: references_ok_def refs_defs probed_sys_def)
    (simp add: account_defs sample_defs fresh_state_def probe_def)

lemma probed_tables:
  "users (db probed_sys) = [alice, bob, probe]" "ldap_configs (db probed_sys) = None"
  "distinct_keys u_id (users (db probed_sys))" "distinct_keys s_id (sessions (db probed_sys))"
  "filter (\<lambda>u. startswith (u_username u) (''fault-'' :: string)) (users (db probed_sys)) = [probe]"
  by (simp_all add: probed_sys_def distinct_keys_def sealed_fields probe_def new_user_def startswith_def)
    (simp_all add: account_defs sample_defs startswith_def)

lemma purge_witness:
  "references_ok (db (snd (purge_main sample_backend sample_idp 9 ''fault-'' probed_sys)))
   \<and> users (db (snd (purge_main sample_backend sample_idp 9 ''fault-'' probed_sys))) = [alice, bob]"
proof -
  have "MIN_PREFIX_LENGTH \<le> length ''fault-''" by (simp add: MIN_PREFIX_LENGTH_def)
  moreover have "map u_id (filter (\<lambda>u. startswith (u_username u) ''fault-'') (users (db probed_sys))) = [9]"
    unfolding probed_tables(5) by (simp add: probe_def new_user_def)
  moreover have "filter (\<lambda>u. \<not> startswith (u_username u) ''fault-'') (users (db probed_sys)) = [alice, bob]"
    unfolding probed_tables(1) by (simp add: account_defs probe_def startswith_def)
  ultimately show ?thesis
    using purge_keeps_references [OF prod.collapse [symmetric] _ probed_refs probed_tables(3,4) refl, of "''fault-''" sample_backend sample_idp 9]
    by (simp add: probed_tables(2))
qed

definition saved_by_probe :: "redis sys" where
  "saved_by_probe = probed_sys\<lparr>db := (db probed_sys)\<lparr>ldap_configs := Some (directory_row\<lparr>l_updated_by := Some 9\<rparr>)\<rparr>\<rparr>"

lemma purge_stop_witness:
  "fst (purge_main sample_backend sample_idp 9 ''fault-'' saved_by_probe) = Inl DbIntegrityError
   \<and> db (snd (purge_main sample_backend sample_idp 9 ''fault-'' saved_by_probe)) = db saved_by_probe"
proof -
  have t: "users (db saved_by_probe) = [alice, bob, probe]" "sessions (db saved_by_probe) = sessions (db probed_sys)"
    "ldap_configs (db saved_by_probe) = Some (directory_row\<lparr>l_updated_by := Some 9\<rparr>)"
    by (simp_all add: saved_by_probe_def probed_tables)
  have p: "u_id probe = 9" "startswith (u_username probe) ''fault-''" by (simp_all add: probe_def new_user_def startswith_def)
  have "MIN_PREFIX_LENGTH \<le> length ''fault-''" by (simp add: MIN_PREFIX_LENGTH_def)
  from purge_stops_at_directory_settings [OF prod.collapse [symmetric] this, of saved_by_probe "directory_row\<lparr>l_updated_by := Some 9\<rparr>" probe]
  show ?thesis using t p probed_tables(4) by simp
qed

end
