(* ===== verification/Queries.thy ===== *)
theory Queries
  imports Dashboard
begin

text \<open>
  What the listings of the administration pages are made of: Python's stable sort and slices, \<open>ORDER BY\<close> with
  \<open>OFFSET\<close> and \<open>LIMIT\<close>, \<open>ILIKE\<close>, \<open>casefold\<close>; and the contract of a paged listing as the locale \<open>paged\<close>.

  PostgreSQL promises nothing about rows with equal keys and may read a table in another order at every query, so
  a query has a parameter \<open>arrive\<close>, the order in which the rows reach the sort; all that is known of it is that it
  loses and adds no row. Text is compared by the collation of the database, the parameter \<open>collate\<close>, which gives
  the sort key of a text. Listings that no client cuts into pages take the rows in storage order.
\<close>

section \<open>Order\<close>

text \<open>\<open>list.sort(key=..., reverse=...)\<close>: stable in both directions.\<close>

definition sorted_by :: "('r \<Rightarrow> 'k::linorder) \<Rightarrow> bool \<Rightarrow> 'r list \<Rightarrow> 'r list" where
  "sorted_by key desc rows = (if desc then rev (sort_key key (rev rows)) else sort_key key rows)"

text \<open>\<open>ORDER BY key ASC|DESC NULLS LAST\<close>.\<close>

definition nulls_last_by :: "('r \<Rightarrow> 'k::linorder option) \<Rightarrow> bool \<Rightarrow> 'r list \<Rightarrow> 'r list" where
  "nulls_last_by key desc rows =
     sorted_by (the \<circ> key) desc (filter (\<lambda>r. key r \<noteq> None) rows) @ filter (\<lambda>r. key r = None) rows"

definition sort_direction :: "string \<Rightarrow> bool option" where
  "sort_direction s = (if s = ''desc'' then Some True else if s = ''asc'' then Some False else None)"

definition newest_first :: "('r \<Rightarrow> instant) \<Rightarrow> 'r list \<Rightarrow> 'r list" where
  "newest_first created rows = sort_key (\<lambda>r. - created r) rows"

text \<open>\<open>max(..., default=None)\<close> and \<open>func.max\<close>.\<close>

fun latest :: "'a::linorder list \<Rightarrow> 'a option" where
  "latest [] = None"
| "latest (x # xs) = Some (fold max xs x)"

section \<open>Pages\<close>

definition page_of :: "int \<Rightarrow> int \<Rightarrow> 'r list \<Rightarrow> 'r list" where
  "page_of off sz rows = take (nat sz) (drop (nat off) rows)"

definition page_allowed :: "int \<Rightarrow> int \<Rightarrow> bool" where
  "page_allowed off sz = (0 \<le> off \<and> 1 \<le> sz \<and> sz \<le> 100)"

text \<open>The driver refuses an offset that is no \<open>bigint\<close>.\<close>

definition bigint :: "int \<Rightarrow> bool" where
  "bigint n = (n < 2 ^ 63)"

definition query_refused :: http_error where
  "query_refused = (500, ''Internal Server Error'')"

definition invalid_request :: http_error where
  "invalid_request = (422, ''invalid request'')"

record ('r, 's) listing =
  li_items :: "'r list"
  li_total :: nat
  li_offset :: int
  li_limit :: int
  li_stats :: 's

section \<open>Filters\<close>

text \<open>A filter parameter counts only when it is given and not empty.\<close>

fun given :: "string option \<Rightarrow> string option" where
  "given (Some (c # cs)) = Some (c # cs)"
| "given _ = None"

definition wanted :: "('r \<Rightarrow> string) \<Rightarrow> string option \<Rightarrow> 'r \<Rightarrow> bool" where
  "wanted f x r = (case given x of None \<Rightarrow> True | Some v \<Rightarrow> f r = v)"

definition one_of :: "string \<Rightarrow> (string \<times> ('r \<Rightarrow> bool)) list \<Rightarrow> string option \<Rightarrow> http_error + ('r \<Rightarrow> bool)" where
  "one_of message options x =
     (case given x of
        None \<Rightarrow> Inr (\<lambda>_. True)
      | Some v \<Rightarrow> (case map_of options v of None \<Rightarrow> Inl (400, message) | Some P \<Rightarrow> Inr P))"

text \<open>
  A comparison of an enumeration column with a text that is no member of it is refused by the database.
\<close>

definition enum_filter :: "(string \<Rightarrow> 'e option) \<Rightarrow> ('r \<Rightarrow> 'e) \<Rightarrow> string option \<Rightarrow> http_error + ('r \<Rightarrow> bool)" where
  "enum_filter of_value f x =
     (case given x of
        None \<Rightarrow> Inr (\<lambda>_. True)
      | Some v \<Rightarrow> (case of_value v of None \<Rightarrow> Inl query_refused | Some e \<Rightarrow> Inr (\<lambda>r. f r = e)))"

section \<open>ILIKE\<close>

text \<open>
  The pattern language: a percent sign stands for any text, an underscore for any character, a backslash takes the
  next character as it is. (Every pattern of the code ends in a percent sign, never in a lone backslash.)
\<close>

datatype like_item = Any_text | Any_char | Exactly char

fun like_items :: "string \<Rightarrow> like_item list" where
  "like_items [] = []"
| "like_items (c # cs) =
     (if c = CHR 0x25 then Any_text # like_items cs
      else if c = CHR 0x5F then Any_char # like_items cs
      else if c = CHR 0x5C then (case cs of [] \<Rightarrow> [] | e # es \<Rightarrow> Exactly e # like_items es)
      else Exactly c # like_items cs)"

fun like :: "like_item list \<Rightarrow> string \<Rightarrow> bool" where
  "like [] s = (s = [])"
| "like (Exactly c # p) [] = False"
| "like (Exactly c # p) (x # xs) = (x = c \<and> like p xs)"
| "like (Any_char # p) [] = False"
| "like (Any_char # p) (x # xs) = like p xs"
| "like (Any_text # p) [] = like p []"
| "like (Any_text # p) (x # xs) = (like p (x # xs) \<or> like (Any_text # p) xs)"

definition ilike :: "string \<Rightarrow> string \<Rightarrow> bool" where
  "ilike s pattern = like (like_items (lower pattern)) (lower s)"

text \<open>\<open>f"%{search.strip()}%"\<close>, applied to some columns, NULL matching nothing.\<close>

definition search_term :: "string \<Rightarrow> string" where
  "search_term search = CHR 0x25 # strip search @ [CHR 0x25]"

definition found_in :: "('r \<Rightarrow> string option list) \<Rightarrow> string option \<Rightarrow> 'r \<Rightarrow> bool" where
  "found_in columns search r =
     (case given search of
        None \<Rightarrow> True
      | Some s \<Rightarrow> list_ex (\<lambda>c. case c of None \<Rightarrow> False | Some t \<Rightarrow> ilike t (search_term s)) (columns r))"

section \<open>Case folding\<close>

text \<open>\<open>str.casefold\<close> as code points: the micro sign folds to a Greek letter, the sharp s to two letters.\<close>

definition fold_char :: "char \<Rightarrow> nat list" where
  "fold_char c = (if code c = 181 then [956] else if code c = 223 then [115, 115] else [code (lower_char c)])"

definition casefold :: "string \<Rightarrow> nat list" where
  "casefold s = concat (map fold_char s)"

fun has_part :: "'a list \<Rightarrow> 'a list \<Rightarrow> bool" where
  "has_part [] needle = (needle = [])"
| "has_part (x # xs) needle = (take (length needle) (x # xs) = needle \<or> has_part xs needle)"

section \<open>Laws of the sorts\<close>

lemma mset_sorted_by [simp]: "mset (sorted_by key desc rows) = mset rows"
  by (simp add: sorted_by_def)

lemma set_sorted_by [simp]: "set (sorted_by key desc rows) = set rows"
  by (simp add: sorted_by_def)

lemma length_sorted_by [simp]: "length (sorted_by key desc rows) = length rows"
  by (simp add: sorted_by_def)

lemma sort_key_mset_cong:
  assumes "mset xs = mset ys" and "inj_on key (set xs)"
  shows "sort_key key xs = sort_key key ys"
  using assms by (metis mset_sort properties_for_sort_key sort_key_inj_key_eq sorted_sort_key)

text \<open>Sorted by a key no two rows share, the order in which the rows were read does not matter.\<close>

lemma sorted_by_mset_cong:
  assumes "mset xs = mset ys" and "inj_on key (set xs)"
  shows "sorted_by key desc xs = sorted_by key desc ys"
proof -
  have "mset (rev xs) = mset (rev ys)" "inj_on key (set (rev xs))" using assms by simp_all
  from sort_key_mset_cong [OF this] sort_key_mset_cong [OF assms] show ?thesis by (simp add: sorted_by_def)
qed

lemma mset_nulls_last_by [simp]: "mset (nulls_last_by key desc rows) = mset rows"
  using multiset_partition [of "mset rows" "\<lambda>r. key r \<noteq> None", symmetric] by (simp add: nulls_last_by_def)

lemma mset_newest_first [simp]: "mset (newest_first f rows) = mset rows"
  by (simp add: newest_first_def)

lemma set_newest_first [simp]: "set (newest_first f rows) = set rows"
  by (simp add: newest_first_def)

section \<open>The contract of a paged listing\<close>

text \<open>
  \<open>rows q\<close> are the rows a query stands for, \<open>fetch w q off sz\<close> the answer to one request, which may depend on the
  circumstances \<open>w\<close> of the request. Where the circumstances are \<open>fair\<close> the answer is the part asked for and the
  total number of rows.
\<close>

locale paged =
  fixes rows :: "'q \<Rightarrow> 'r list"
    and fetch :: "'w \<Rightarrow> 'q \<Rightarrow> int \<Rightarrow> int \<Rightarrow> http_error + ('r list \<times> nat)"
    and fair :: "'w \<Rightarrow> 'q \<Rightarrow> bool"
  assumes fetch_part: "fair w q \<Longrightarrow> page_allowed off sz \<Longrightarrow> bigint off
      \<Longrightarrow> fetch w q off sz = Inr (page_of off sz (rows q), length (rows q))"
begin

definition items_of :: "http_error + ('r list \<times> nat) \<Rightarrow> 'r list" where
  "items_of answer = (case answer of Inl _ \<Rightarrow> [] | Inr (xs, _) \<Rightarrow> xs)"

lemma fetch_small:
  assumes "fair w q" and "page_allowed off sz" and "bigint off"
  shows "length (items_of (fetch w q off sz)) \<le> nat sz \<and> set (items_of (fetch w q off sz)) \<subseteq> set (rows q)"
  using fetch_part [OF assms] set_take_subset set_drop_subset by (fastforce simp: items_of_def page_of_def)

text \<open>Asking page after page gives every row once and in order, whatever changed between the requests.\<close>

lemma pages_in_order:
  assumes "\<And>k. k < n \<Longrightarrow> fair (w k) q" and "1 \<le> sz" and "sz \<le> 100" and "bigint (int n * sz)"
  shows "concat (map (\<lambda>k. items_of (fetch (w k) q (int k * sz) sz)) [0..<n]) = take (n * nat sz) (rows q)"
  using assms
proof (induction n)
  case (Suc n)
  have "int n * sz \<le> int (Suc n) * sz" using \<open>1 \<le> sz\<close> by (simp add: mult_right_mono)
  then have b: "bigint (int n * sz)" using Suc.prems(4) by (simp add: bigint_def)
  have part: "fetch (w n) q (int n * sz) sz = Inr (page_of (int n * sz) sz (rows q), length (rows q))"
    using Suc.prems b by (intro fetch_part) (auto simp: page_allowed_def)
  have "nat (int n * sz) = n * nat sz" using \<open>1 \<le> sz\<close> by (simp add: nat_mult_distrib)
  with part have "items_of (fetch (w n) q (int n * sz) sz) = take (nat sz) (drop (n * nat sz) (rows q))"
    by (simp add: items_of_def page_of_def)
  moreover have "concat (map (\<lambda>k. items_of (fetch (w k) q (int k * sz) sz)) [0..<n]) = take (n * nat sz) (rows q)"
    using Suc b by auto
  moreover have "Suc n * nat sz = n * nat sz + nat sz" by simp
  ultimately show ?case by (simp only: take_add upt_Suc_append [OF le0] map_append concat_append list.map concat.simps append_Nil2)
qed simp

end

section \<open>What a search finds\<close>

lemma like_Any_text: "like (Any_text # p) s \<longleftrightarrow> (\<exists>a b. s = a @ b \<and> like p b)"
proof (induction s)
  case (Cons x xs)
  show ?case
  proof
    assume "like (Any_text # p) (x # xs)"
    then show "\<exists>a b. x # xs = a @ b \<and> like p b"
      using Cons by (metis append_Cons append_Nil like.simps(7))
  next
    assume "\<exists>a b. x # xs = a @ b \<and> like p b"
    then obtain a b where ab: "x # xs = a @ b" "like p b" by blast
    show "like (Any_text # p) (x # xs)"
      using ab Cons by (cases a) auto
  qed
qed auto

definition plain_text :: "string \<Rightarrow> bool" where
  "plain_text s = (set s \<inter> {CHR 0x25, CHR 0x5F, CHR 0x5C} = {})"

lemma like_items_plain: "plain_text s \<Longrightarrow> like_items (s @ t) = map Exactly s @ like_items t"
  by (induction s) (auto simp: plain_text_def)

lemma like_Exactly: "like (map Exactly s @ p) t \<longleftrightarrow> (\<exists>r. t = s @ r \<and> like p r)"
proof (induction s arbitrary: t)
  case (Cons c s)
  show ?case using Cons by (cases t) auto
qed simp

lemma contains_iff: "contains s needle \<longleftrightarrow> (\<exists>a b. s = a @ needle @ b)"
proof (induction s)
  case (Cons c s)
  note IH = Cons.IH
  show ?case
  proof
    assume "contains (c # s) needle"
    then show "\<exists>a b. c # s = a @ needle @ b"
      using Cons by (metis append_Cons append_Nil contains.simps(2) startswith_iff)
  next
    assume "\<exists>a b. c # s = a @ needle @ b"
    then obtain a b where ab: "c # s = a @ needle @ b" by blast
    then show "contains (c # s) needle"
    proof (cases a)
      case Nil
      then show ?thesis using ab by (metis append_Nil contains.simps(2) startswith_append)
    next
      case (Cons x xs)
      then show ?thesis using ab IH by auto
    qed
  qed
qed auto

lemma lower_char_changed:
  assumes "lower_char c \<noteq> c"
  shows "97 \<le> code (lower_char c)"
proof -
  have n: "65 \<le> code c \<and> code c \<le> 222" and l: "lower_char c = char_of (code c + 32)"
    using assms by (auto simp: lower_char_def Let_def split: if_splits)
  have "code (lower_char c) = code c + 32" using n unfolding l by (simp add: code_def)
  with n show ?thesis by simp
qed

lemma plain_lower:
  assumes "plain_text s"
  shows "plain_text (lower s)"
proof -
  let ?W = "{CHR 0x25, CHR 0x5F, CHR 0x5C}"
  have codes: "code ` ?W = {37, 95, 92}" by (simp add: code_def)
  have keep: "lower_char c \<notin> ?W" if "c \<notin> ?W" for c
  proof (cases "lower_char c = c")
    case False
    then have ge: "97 \<le> code (lower_char c)" using lower_char_changed by blast
    show ?thesis
    proof
      assume "lower_char c \<in> ?W"
      then have "code (lower_char c) \<in> {37, 95, 92}" using codes by blast
      with ge show False by simp
    qed
  qed (use that in simp)
  have "set s \<inter> ?W = {}" using assms unfolding plain_text_def .
  then have "lower_char ` set s \<inter> ?W = {}" using keep by blast
  then show ?thesis unfolding plain_text_def lower_def set_map .
qed

lemma set_strip: "set (strip s) \<subseteq> set s"
  unfolding strip_def rstrip_by_def lstrip_by_def by (auto dest!: set_dropWhileD)

text \<open>
  Without a wildcard in the search text a search finds exactly the texts that contain it, without regard to case
  and to blanks around it.
\<close>

theorem search_is_literal:
  assumes "plain_text s"
  shows "ilike t (search_term s) \<longleftrightarrow> contains (lower t) (lower (strip s))"
proof -
  have plain: "plain_text (lower (strip s))"
    using assms set_strip by (intro plain_lower) (auto simp: plain_text_def)
  have "lower (search_term s) = CHR 0x25 # lower (strip s) @ [CHR 0x25]"
    by (simp add: search_term_def lower_def lower_char_def code_def Let_def)
  then have "like_items (lower (search_term s)) = Any_text # map Exactly (lower (strip s)) @ [Any_text]"
    using like_items_plain [OF plain] by simp
  then show ?thesis
    by (auto simp: ilike_def like_Any_text like_Exactly contains_iff)
qed

end
