(* ===== verification/Sql_Listings.thy ===== *)
theory Sql_Listings
  imports Queries Accounts Policies Files Incidents
begin

text \<open>
  The listings the database filters, sorts and cuts: users and groups (\<open>api/admin.py\<close>), sessions
  (\<open>api/admin_sessions.py\<close>), files (\<open>api/files.py\<close>, \<open>api/admin_quarantine.py\<close>), incidents and the audit log. A route
  reads the database and changes nothing.
\<close>

section \<open>Users\<close>

record user_summary =
  us_id :: uuid
  us_username :: string
  us_role :: string
  us_is_active :: bool
  us_mfa_enabled :: bool
  us_groups :: "(uuid \<times> string) list"
  us_created_at :: instant
  us_auth_source :: string
  us_last_login_at :: "instant option"

record user_stats =
  um_total :: nat
  um_active :: nat
  um_mfa_enabled :: nat
  um_administrators :: nat
  um_groups :: nat

record user_query =
  uq_search :: "string option"
  uq_role :: "string option"
  uq_group_id :: "uuid option"
  uq_status :: "string option"
  uq_auth_source :: "string option"
  uq_mfa :: "string option"
  uq_sort_by :: string
  uq_sort_dir :: string

type_synonym user_row = "user \<times> string"

text \<open>The join of users and roles.\<close>

definition users_with_role :: "database \<Rightarrow> user_row list" where
  "users_with_role d =
     concat (map (\<lambda>u. case row_get r_id (u_role_id u) (roles d) of None \<Rightarrow> [] | Some r \<Rightarrow> [(u, r_name r)]) (users d))"

definition group_refs :: "(string \<Rightarrow> string) \<Rightarrow> database \<Rightarrow> uuid \<Rightarrow> (uuid \<times> string) list" where
  "group_refs collate d i = sort_key (collate \<circ> snd) (get_groups d i)"

definition user_summary_of ::
  "(string \<Rightarrow> string) \<Rightarrow> database \<Rightarrow> instant option \<Rightarrow> user_row \<Rightarrow> user_summary" where
  "user_summary_of collate d seen x =
     (let u = fst x in
      \<lparr> us_id = u_id u, us_username = u_username u, us_role = snd x, us_is_active = u_is_active u,
        us_mfa_enabled = u_mfa_enabled u, us_groups = group_refs collate d (u_id u), us_created_at = u_created_at u,
        us_auth_source = (if u_password_hash u \<noteq> None then ''LOCAL'' else ''LDAP''), us_last_login_at = seen \<rparr>)"

text \<open>The summary every single-user route answers with leaves the last login out.\<close>

definition to_summary :: "(string \<Rightarrow> string) \<Rightarrow> database \<Rightarrow> user \<Rightarrow> user_summary" where
  "to_summary collate d u =
     user_summary_of collate d None (u, case row_get r_id (u_role_id u) (roles d) of None \<Rightarrow> [] | Some r \<Rightarrow> r_name r)"

definition get_user :: "(string \<Rightarrow> string) \<Rightarrow> uuid \<Rightarrow> database \<Rightarrow> http_error + user_summary" where
  "get_user collate i d =
     (case row_get u_id i (users d) of None \<Rightarrow> Inl (404, ''user not found'') | Some u \<Rightarrow> Inr (to_summary collate d u))"

definition last_login :: "database \<Rightarrow> uuid \<Rightarrow> instant option" where
  "last_login d i = latest (map e_created_at
     (filter (\<lambda>e. e_event_type e = EV_USER_LOGIN \<and> e_user_id e = Some i) (events d)))"

definition member_of :: "database \<Rightarrow> uuid option \<Rightarrow> user_row \<Rightarrow> bool" where
  "member_of d g x =
     (case g of None \<Rightarrow> True
      | Some i \<Rightarrow> list_ex (\<lambda>m. ug_group_id m = i \<and> ug_user_id m = u_id (fst x)) (user_groups d))"

definition user_filter :: "user_query \<Rightarrow> database \<Rightarrow> http_error + (user_row \<Rightarrow> bool)" where
  "user_filter q d =
     (case one_of ''unknown user status''
             [(''ACTIVE'', u_is_active \<circ> fst), (''DISABLED'', Not \<circ> u_is_active \<circ> fst)] (uq_status q) of
        Inl e \<Rightarrow> Inl e
      | Inr P \<Rightarrow>
     (case one_of ''unknown authentication source''
             [(''LOCAL'', \<lambda>x. u_password_hash (fst x) \<noteq> None), (''LDAP'', \<lambda>x. u_password_hash (fst x) = None)]
             (uq_auth_source q) of
        Inl e \<Rightarrow> Inl e
      | Inr Q \<Rightarrow>
     (case one_of ''unknown MFA filter''
             [(''ENABLED'', u_mfa_enabled \<circ> fst), (''NOT_ENABLED'', Not \<circ> u_mfa_enabled \<circ> fst)] (uq_mfa q) of
        Inl e \<Rightarrow> Inl e
      | Inr R \<Rightarrow>
          Inr (\<lambda>x. found_in (\<lambda>x. [Some (u_username (fst x))]) (uq_search q) x \<and> wanted snd (uq_role q) x
             \<and> P x \<and> Q x \<and> R x \<and> member_of d (uq_group_id q) x))))"

definition user_order :: "(string \<Rightarrow> string) \<Rightarrow> string \<Rightarrow> bool \<Rightarrow> user_row list \<Rightarrow> user_row list option" where
  "user_order collate sort_by desc rows =
     (if sort_by = ''username'' then Some (sorted_by (collate \<circ> u_username \<circ> fst) desc rows)
      else if sort_by = ''role'' then Some (sorted_by (collate \<circ> snd) desc rows)
      else if sort_by = ''status'' then Some (sorted_by (u_is_active \<circ> fst) desc rows)
      else if sort_by = ''created_at'' then Some (sorted_by (u_created_at \<circ> fst) desc rows)
      else None)"

definition user_stats_of :: "database \<Rightarrow> user_stats" where
  "user_stats_of d =
     \<lparr> um_total = length (users d), um_active = length (filter u_is_active (users d)),
       um_mfa_enabled = length (filter u_mfa_enabled (users d)),
       um_administrators = length (filter (\<lambda>x. snd x = ''ADMIN'') (users_with_role d)),
       um_groups = length (groups d) \<rparr>"

record user_listing = "(user_summary, user_stats) listing" +
  ul_roles :: "string list"

definition list_users ::
  "(string \<Rightarrow> string) \<Rightarrow> (user_row list \<Rightarrow> user_row list) \<Rightarrow> user_query \<Rightarrow> int \<Rightarrow> int \<Rightarrow> database
   \<Rightarrow> http_error + user_listing" where
  "list_users collate arrive q off sz d =
     (if \<not> page_allowed off sz then Inl invalid_request
      else case user_filter q d of
        Inl e \<Rightarrow> Inl e
      | Inr P \<Rightarrow>
          let found = filter P (users_with_role d) in
          case Option.bind (sort_direction (uq_sort_dir q)) (\<lambda>desc. user_order collate (uq_sort_by q) desc (arrive found)) of
            None \<Rightarrow> Inl (400, ''invalid sort option'')
          | Some rows \<Rightarrow>
              if \<not> bigint off then Inl query_refused
              else Inr
                \<lparr> li_items = map (\<lambda>x. user_summary_of collate d (last_login d (u_id (fst x))) x) (page_of off sz rows),
                  li_total = length found, li_offset = off, li_limit = sz, li_stats = user_stats_of d,
                  ul_roles = sort_key collate (map r_name (roles d)) \<rparr>)"

section \<open>Groups\<close>

record group_summary =
  gs_id :: uuid
  gs_name :: string
  gs_description :: "string option"
  gs_member_count :: nat

record group_overview_item = group_summary +
  gs_policies :: "string list"
  gs_created_at :: instant

record policy_ref =
  pr_id :: uuid
  pr_name :: string
  pr_policy_type :: string

record group_detail = group_summary +
  gd_created_at :: instant
  gd_policies :: "policy_ref list"
  gd_members :: "(uuid \<times> string) list"

record group_stats =
  gt_total :: nat
  gt_memberships :: nat
  gt_with_policies :: nat

record group_query =
  gq_search :: "string option"
  gq_policy_id :: "uuid option"
  gq_sort_by :: string
  gq_sort_dir :: string

type_synonym group_row = "group \<times> nat"

definition member_count :: "database \<Rightarrow> group \<Rightarrow> nat" where
  "member_count d g = length (filter (\<lambda>m. ug_group_id m = g_id g) (user_groups d))"

definition list_groups_with_member_counts :: "(string \<Rightarrow> string) \<Rightarrow> database \<Rightarrow> group_row list" where
  "list_groups_with_member_counts collate d =
     sort_key (collate \<circ> g_name \<circ> fst) (map (\<lambda>g. (g, member_count d g)) (groups d))"

definition group_summary_of :: "group_row \<Rightarrow> group_summary" where
  "group_summary_of x =
     \<lparr> gs_id = g_id (fst x), gs_name = g_name (fst x), gs_description = g_description (fst x),
       gs_member_count = snd x \<rparr>"

definition list_groups :: "(string \<Rightarrow> string) \<Rightarrow> database \<Rightarrow> group_summary list" where
  "list_groups collate d = map group_summary_of (list_groups_with_member_counts collate d)"

definition get_group_with_member_count :: "database \<Rightarrow> uuid \<Rightarrow> group_row option" where
  "get_group_with_member_count d i = map_option (\<lambda>g. (g, member_count d g)) (row_get g_id i (groups d))"

definition attached_policies :: "(string \<Rightarrow> string) \<Rightarrow> database \<Rightarrow> uuid \<Rightarrow> policy list" where
  "attached_policies collate d i =
     sort_key (collate \<circ> p_name)
       (List.map_filter (\<lambda>a. if gp_group_id a = i then row_get p_id (gp_policy_id a) (policies d) else None)
          (group_policies d))"

definition members_of :: "(string \<Rightarrow> string) \<Rightarrow> database \<Rightarrow> uuid \<Rightarrow> user list" where
  "members_of collate d i =
     sort_key (collate \<circ> u_username)
       (List.map_filter (\<lambda>m. if ug_group_id m = i then row_get u_id (ug_user_id m) (users d) else None) (user_groups d))"

definition get_group :: "(string \<Rightarrow> string) \<Rightarrow> uuid \<Rightarrow> database \<Rightarrow> http_error + group_detail" where
  "get_group collate i d =
     (case get_group_with_member_count d i of
        None \<Rightarrow> Inl (404, ''group not found'')
      | Some (g, n) \<Rightarrow> Inr
          \<lparr> gs_id = g_id g, gs_name = g_name g, gs_description = g_description g, gs_member_count = n,
            gd_created_at = g_created_at g,
            gd_policies = map (\<lambda>p. \<lparr> pr_id = p_id p, pr_name = p_name p,
                pr_policy_type = policy_type_value (p_policy_type p) \<rparr>) (attached_policies collate d i),
            gd_members = map (\<lambda>u. (u_id u, u_username u)) (members_of collate d i) \<rparr>)"

definition group_filter :: "group_query \<Rightarrow> database \<Rightarrow> group_row \<Rightarrow> bool" where
  "group_filter q d x =
     (found_in (\<lambda>x. [Some (g_name (fst x)), g_description (fst x)]) (gq_search q) x
    \<and> (case gq_policy_id q of None \<Rightarrow> True
       | Some p \<Rightarrow> list_ex (\<lambda>a. gp_policy_id a = p \<and> gp_group_id a = g_id (fst x)) (group_policies d)))"

definition group_order :: "(string \<Rightarrow> string) \<Rightarrow> string \<Rightarrow> bool \<Rightarrow> group_row list \<Rightarrow> group_row list option" where
  "group_order collate sort_by desc rows =
     (if sort_by = ''name'' then Some (sorted_by (collate \<circ> g_name \<circ> fst) desc rows)
      else if sort_by = ''members'' then Some (sorted_by snd desc rows)
      else if sort_by = ''created_at'' then Some (sorted_by (g_created_at \<circ> fst) desc rows)
      else None)"

definition group_overview_item_of :: "(string \<Rightarrow> string) \<Rightarrow> database \<Rightarrow> group_row \<Rightarrow> group_overview_item" where
  "group_overview_item_of collate d x =
     \<lparr> gs_id = g_id (fst x), gs_name = g_name (fst x), gs_description = g_description (fst x),
       gs_member_count = snd x, gs_policies = map p_name (attached_policies collate d (g_id (fst x))),
       gs_created_at = g_created_at (fst x) \<rparr>"

definition groups_overview ::
  "(string \<Rightarrow> string) \<Rightarrow> (group_row list \<Rightarrow> group_row list) \<Rightarrow> group_query \<Rightarrow> int \<Rightarrow> int \<Rightarrow> database
   \<Rightarrow> http_error + (group_overview_item, group_stats) listing" where
  "groups_overview collate arrive q off sz d =
     (if \<not> page_allowed off sz then Inl invalid_request
      else let found = filter (group_filter q d) (map (\<lambda>g. (g, member_count d g)) (groups d)) in
        case Option.bind (sort_direction (gq_sort_dir q)) (\<lambda>desc. group_order collate (gq_sort_by q) desc (arrive found)) of
          None \<Rightarrow> Inl (400, ''invalid sort option'')
        | Some rows \<Rightarrow>
            if \<not> bigint off then Inl query_refused
            else Inr \<lparr> li_items = map (group_overview_item_of collate d) (page_of off sz rows), li_total = length found,
              li_offset = off, li_limit = sz,
              li_stats = \<lparr> gt_total = length (groups d), gt_memberships = length (user_groups d),
                gt_with_policies = length (remdups (map gp_group_id (group_policies d))) \<rparr> \<rparr>)"

end
