(* ===== verification/Activity_Listings.thy ===== *)
theory Activity_Listings
  imports Queries Sessions Files Incidents
begin

text \<open>
  The listings of what happened: sessions (\<open>api/sessions.py\<close>, \<open>api/admin_sessions.py\<close>), files (\<open>api/files.py\<close>,
  \<open>api/admin_quarantine.py\<close>), incidents (\<open>api/admin_incidents.py\<close>) and the audit log (\<open>api/admin_audit.py\<close>), each
  with its response schema. The text of a UUID is the parameter \<open>id_text\<close>; days are counted from the epoch.
\<close>

section \<open>Sessions\<close>

record session_response =
  sr_id :: uuid
  sr_status :: string
  sr_browser :: string
  sr_sandbox_backend :: string
  sr_display_backend :: string
  sr_cpu_limit :: rat
  sr_ram_limit_mb :: int
  sr_pid_limit :: int
  sr_disk_limit_mb :: int
  sr_screen_width :: int
  sr_screen_height :: int
  sr_clipboard_mode :: string
  sr_created_at :: instant
  sr_started_at :: "instant option"
  sr_ended_at :: "instant option"

record admin_session_response = session_response +
  as_user_id :: uuid
  as_username :: string
  as_node_id :: "uuid option"
  as_worker_hostname :: "string option"

definition session_response_of :: "browser_session \<Rightarrow> session_response" where
  "session_response_of x =
     \<lparr> sr_id = s_id x, sr_status = session_status_value (s_status x), sr_browser = s_browser x,
       sr_sandbox_backend = s_sandbox_backend x, sr_display_backend = s_display_backend x,
       sr_cpu_limit = s_cpu_limit x, sr_ram_limit_mb = s_ram_limit_mb x, sr_pid_limit = s_pid_limit x,
       sr_disk_limit_mb = s_disk_limit_mb x, sr_screen_width = s_screen_width x, sr_screen_height = s_screen_height x,
       sr_clipboard_mode = clipboard_mode_value (s_clipboard_mode x), sr_created_at = s_created_at x,
       sr_started_at = s_started_at x, sr_ended_at = s_ended_at x \<rparr>"

definition session_with_user :: "browser_session \<Rightarrow> string \<Rightarrow> string option \<Rightarrow> admin_session_response" where
  "session_with_user x username worker_hostname =
     session_response.extend (session_response_of x)
       (admin_session_response.fields (s_user_id x) username (s_node_id x) worker_hostname)"

definition hostname_of :: "database \<Rightarrow> uuid option \<Rightarrow> string option" where
  "hostname_of d i = Option.bind i (\<lambda>i. map_option n_hostname (row_get n_id i (nodes d)))"

definition admin_session_response_of :: "database \<Rightarrow> browser_session \<Rightarrow> admin_session_response" where
  "admin_session_response_of d x =
     session_with_user x (case row_get u_id (s_user_id x) (users d) of None \<Rightarrow> ''?'' | Some u \<Rightarrow> u_username u)
       (hostname_of d (s_node_id x))"

definition get_admin_session :: "uuid \<Rightarrow> database \<Rightarrow> http_error + admin_session_response" where
  "get_admin_session i d =
     (case row_get s_id i (sessions d) of
        None \<Rightarrow> Inl (404, ''session not found'') | Some x \<Rightarrow> Inr (admin_session_response_of d x))"

definition get_session_detail :: "uuid \<Rightarrow> uuid \<Rightarrow> database \<Rightarrow> http_error + session_response" where
  "get_session_detail i user d =
     (case get_own_session_or_404 d i user of Inl e \<Rightarrow> Inl e | Inr x \<Rightarrow> Inr (session_response_of x))"

definition list_user_sessions :: "uuid \<Rightarrow> database \<Rightarrow> http_error + admin_session_response list" where
  "list_user_sessions i d =
     (case row_get u_id i (users d) of
        None \<Rightarrow> Inl (404, ''user not found'')
      | Some u \<Rightarrow> Inr (map (\<lambda>x. session_with_user x (u_username u) None)
          (newest_first s_created_at (filter (\<lambda>x. s_user_id x = u_id u) (sessions d)))))"

record session_query =
  sq_search :: "string option"
  sq_status :: "string option"
  sq_worker_id :: "uuid option"
  sq_since :: "instant option"
  sq_sort_by :: string
  sq_sort_dir :: string

record session_stats =
  st_active :: nat
  st_sessions_today :: nat
  st_average_duration_seconds_24h :: "rat option"
  st_failed_24h :: nat
  st_terminated_24h :: nat

record session_listing = "(admin_session_response, session_stats) listing" +
  sl_statuses :: "string list"

text \<open>The join with the users and the outer join with the nodes.\<close>

type_synonym session_row = "browser_session \<times> string \<times> string option"

definition session_rows :: "database \<Rightarrow> session_row list" where
  "session_rows d = List.map_filter (\<lambda>x.
     map_option (\<lambda>u. (x, u_username u, hostname_of d (s_node_id x))) (row_get u_id (s_user_id x) (users d))) (sessions d)"

definition session_filter :: "(uuid \<Rightarrow> string) \<Rightarrow> session_query \<Rightarrow> http_error + (session_row \<Rightarrow> bool)" where
  "session_filter id_text q =
     (case (case given (sq_status q) of None \<Rightarrow> Inr (\<lambda>_. True)
            | Some v \<Rightarrow> (case session_status_of_value v of
                None \<Rightarrow> Inl (400, ''unknown session status'') | Some e \<Rightarrow> Inr (\<lambda>x. s_status (fst x) = e))) of
        Inl e \<Rightarrow> Inl e
      | Inr P \<Rightarrow> Inr (\<lambda>x.
          found_in (\<lambda>x. [Some (fst (snd x)), Some (id_text (s_id (fst x)))]) (sq_search q) x \<and> P x
        \<and> (case sq_worker_id q of None \<Rightarrow> True | Some w \<Rightarrow> s_node_id (fst x) = Some w)
        \<and> (case sq_since q of None \<Rightarrow> True
           | Some t \<Rightarrow> (case s_started_at (fst x) of None \<Rightarrow> False | Some b \<Rightarrow> b \<ge> t))))"

text \<open>An enumeration column is ordered as its type was declared, which is the order of the members.\<close>

definition status_rank :: "session_status \<Rightarrow> nat" where
  "status_rank st = length (takeWhile (\<lambda>x. x \<noteq> st) all_session_status)"

definition duration_of :: "instant \<Rightarrow> browser_session \<Rightarrow> int option" where
  "duration_of now x = map_option (\<lambda>b. (case s_ended_at x of None \<Rightarrow> now | Some e \<Rightarrow> e) - b) (s_started_at x)"

definition session_order ::
  "(string \<Rightarrow> string) \<Rightarrow> instant \<Rightarrow> string \<Rightarrow> bool \<Rightarrow> session_row list \<Rightarrow> session_row list option" where
  "session_order collate now sort_by desc rows =
     (if sort_by = ''started_at'' then Some (nulls_last_by (s_started_at \<circ> fst) desc rows)
      else if sort_by = ''duration'' then Some (nulls_last_by (duration_of now \<circ> fst) desc rows)
      else if sort_by = ''username'' then Some (nulls_last_by (\<lambda>x. Some (collate (fst (snd x)))) desc rows)
      else if sort_by = ''status'' then Some (nulls_last_by (\<lambda>x. Some (status_rank (s_status (fst x)))) desc rows)
      else None)"

definition COUNTED_STATUSES :: "session_status set" where
  "COUNTED_STATUSES = {SS_QUEUED, SS_STARTING, SS_ACTIVE, SS_DISCONNECTED, SS_ISOLATING, SS_ISOLATED}"

text \<open>A comparison with NULL is not true.\<close>

definition not_before :: "instant \<Rightarrow> instant option \<Rightarrow> bool" where
  "not_before t x = (case x of None \<Rightarrow> False | Some y \<Rightarrow> y \<ge> t)"

definition session_stats_of :: "instant \<Rightarrow> database \<Rightarrow> session_stats" where
  "session_stats_of now d =
     (let today = now - now mod days 1; since_24h = now - hours 24; xs = sessions d in
      \<lparr> st_active = length (filter (\<lambda>x. s_status x \<in> COUNTED_STATUSES) xs),
        st_sessions_today = length (filter (\<lambda>x. not_before today (s_started_at x)) xs),
        st_average_duration_seconds_24h = average (List.map_filter (\<lambda>x. case (s_started_at x, s_ended_at x) of
            (Some b, Some e) \<Rightarrow> if e \<ge> since_24h then Some (of_int (e - b) / 1000000) else None | _ \<Rightarrow> None) xs),
        st_failed_24h = length (filter (\<lambda>x. s_status x = SS_FAILED \<and> s_created_at x \<ge> since_24h) xs),
        st_terminated_24h = length (filter (\<lambda>x. s_status x = SS_TERMINATED \<and> not_before since_24h (s_ended_at x)) xs) \<rparr>)"

definition list_sessions ::
  "(string \<Rightarrow> string) \<Rightarrow> (uuid \<Rightarrow> string) \<Rightarrow> (session_row list \<Rightarrow> session_row list) \<Rightarrow> session_query \<Rightarrow> int \<Rightarrow> int
   \<Rightarrow> instant \<Rightarrow> database \<Rightarrow> http_error + session_listing" where
  "list_sessions collate id_text arrive q off sz now d =
     (if \<not> page_allowed off sz then Inl (400, ''invalid pagination'')
      else case session_filter id_text q of
        Inl e \<Rightarrow> Inl e
      | Inr P \<Rightarrow>
          let found = filter P (session_rows d) in
          case Option.bind (sort_direction (sq_sort_dir q))
                 (\<lambda>desc. session_order collate now (sq_sort_by q) desc (arrive found)) of
            None \<Rightarrow> Inl (400, ''invalid sort option'')
          | Some rows \<Rightarrow>
              if \<not> bigint off then Inl query_refused
              else Inr \<lparr> li_items = map (\<lambda>(x, username, host). session_with_user x username host) (page_of off sz rows),
                li_total = length found, li_offset = off, li_limit = sz, li_stats = session_stats_of now d,
                sl_statuses = map session_status_value all_session_status \<rparr>)"

section \<open>Files\<close>

record file_response =
  qr_id :: uuid
  qr_session_id :: uuid
  qr_user_id :: uuid
  qr_original_name :: string
  qr_extension :: "string option"
  qr_declared_mime :: "string option"
  qr_detected_mime :: "string option"
  qr_size_bytes :: int
  qr_sha256 :: string
  qr_initial_url :: "string option"
  qr_final_url :: "string option"
  qr_source_host :: "string option"
  qr_tls_used :: "bool option"
  qr_scanner_status :: string
  qr_scanner_result :: "string option"
  qr_policy_action :: "string option"
  qr_status :: string
  qr_created_at :: instant
  qr_reviewed_at :: "instant option"
  qr_reviewed_by :: "uuid option"
  qr_review_comment :: "string option"

definition file_response_of :: "quarantine_file \<Rightarrow> file_response" where
  "file_response_of f =
     \<lparr> qr_id = q_id f, qr_session_id = q_session_id f, qr_user_id = q_user_id f, qr_original_name = q_original_name f,
       qr_extension = q_extension f, qr_declared_mime = q_declared_mime f, qr_detected_mime = q_detected_mime f,
       qr_size_bytes = q_size_bytes f, qr_sha256 = q_sha256 f, qr_initial_url = q_initial_url f,
       qr_final_url = q_final_url f, qr_source_host = q_source_host f, qr_tls_used = q_tls_used f,
       qr_scanner_status = scanner_status_value (q_scanner_status f), qr_scanner_result = q_scanner_result f,
       qr_policy_action = map_option file_action_value (q_policy_action f),
       qr_status = quarantine_status_value (q_status f), qr_created_at = q_created_at f,
       qr_reviewed_at = q_reviewed_at f, qr_reviewed_by = q_reviewed_by f, qr_review_comment = q_review_comment f \<rparr>"

definition list_quarantine_files :: "string option \<Rightarrow> database \<Rightarrow> http_error + file_response list" where
  "list_quarantine_files status_filter d =
     (case enum_filter quarantine_status_of_value q_status status_filter of
        Inl e \<Rightarrow> Inl e
      | Inr P \<Rightarrow> Inr (map file_response_of (newest_first q_created_at (filter P (quarantine_files d)))))"

definition get_quarantine_file :: "uuid \<Rightarrow> database \<Rightarrow> http_error + file_response" where
  "get_quarantine_file i d =
     (case row_get q_id i (quarantine_files d) of
        None \<Rightarrow> Inl (404, ''quarantine file not found'') | Some f \<Rightarrow> Inr (file_response_of f))"

definition list_my_files :: "uuid \<Rightarrow> database \<Rightarrow> file_response list" where
  "list_my_files user d =
     map file_response_of (newest_first q_created_at (filter (\<lambda>f. q_user_id f = user) (quarantine_files d)))"

record file_query =
  fq_status :: "string option"
  fq_search :: "string option"
  fq_date_from :: "int option"
  fq_date_to :: "int option"

record file_summary =
  fs_total :: nat
  fs_pending :: nat
  fs_approved :: nat
  fs_blocked :: nat

definition status_groups :: "(string \<times> quarantine_status list) list" where
  "status_groups = [(''pending'', [QS_PENDING_SCAN, QS_SCANNING, QS_QUARANTINED]), (''approved'', [QS_RELEASED]),
     (''blocked'', [QS_REJECTED]), (''deleted'', [QS_DELETED])]"

definition in_group :: "string \<Rightarrow> quarantine_file \<Rightarrow> bool" where
  "in_group g f = (case map_of status_groups g of None \<Rightarrow> False | Some states \<Rightarrow> q_status f \<in> set states)"

text \<open>\<open>time.min\<close> is the first instant of a day, \<open>time.max\<close> its last microsecond.\<close>

definition file_filter :: "file_query \<Rightarrow> http_error + (quarantine_file \<Rightarrow> bool)" where
  "file_filter q =
     (case (case given (fq_status q) of
              None \<Rightarrow> Inr (\<lambda>_. True)
            | Some v \<Rightarrow> if v = ''all'' then Inr (\<lambda>_. True)
                else if map_of status_groups (lower v) = None then Inl (422, ''unknown file status filter'')
                else Inr (in_group (lower v))) of
        Inl e \<Rightarrow> Inl e
      | Inr P \<Rightarrow> Inr (\<lambda>f. P f
          \<and> found_in (\<lambda>f. [Some (q_original_name f), q_detected_mime f]) (fq_search q) f
          \<and> (case fq_date_from q of None \<Rightarrow> True | Some n \<Rightarrow> q_created_at f \<ge> days n)
          \<and> (case fq_date_to q of None \<Rightarrow> True | Some n \<Rightarrow> q_created_at f \<le> days (n + 1) - 1)))"

definition file_summary_of :: "quarantine_file list \<Rightarrow> file_summary" where
  "file_summary_of own =
     \<lparr> fs_total = length own, fs_pending = length (filter (in_group ''pending'') own),
       fs_approved = length (filter (in_group ''approved'') own), fs_blocked = length (filter (in_group ''blocked'') own) \<rparr>"

definition list_my_files_page ::
  "(quarantine_file list \<Rightarrow> quarantine_file list) \<Rightarrow> file_query \<Rightarrow> int \<Rightarrow> int \<Rightarrow> uuid \<Rightarrow> database
   \<Rightarrow> http_error + (file_response, file_summary) listing" where
  "list_my_files_page arrive q off sz user d =
     (if \<not> page_allowed off sz then Inl invalid_request
      else case file_filter q of
        Inl e \<Rightarrow> Inl e
      | Inr P \<Rightarrow>
          let own = filter (\<lambda>f. q_user_id f = user) (quarantine_files d); found = filter P own in
          if \<not> bigint off then Inl query_refused
          else Inr \<lparr> li_items = map file_response_of (page_of off sz (newest_first q_created_at (arrive found))),
            li_total = length found, li_offset = off, li_limit = sz, li_stats = file_summary_of own \<rparr>)"

section \<open>Incidents and the audit log\<close>

record incident_response =
  ir_id :: uuid
  ir_severity :: string
  ir_status :: string
  ir_title :: string
  ir_description :: string
  ir_user_id :: "uuid option"
  ir_session_id :: "uuid option"
  ir_quarantine_file_id :: "uuid option"
  ir_assigned_to :: "uuid option"
  ir_resolution :: "string option"
  ir_created_at :: instant
  ir_updated_at :: instant

definition incident_response_of :: "incident \<Rightarrow> incident_response" where
  "incident_response_of k =
     \<lparr> ir_id = i_id k, ir_severity = incident_severity_value (i_severity k),
       ir_status = incident_status_value (i_status k), ir_title = i_title k, ir_description = i_description k,
       ir_user_id = i_user_id k, ir_session_id = i_session_id k, ir_quarantine_file_id = i_quarantine_file_id k,
       ir_assigned_to = i_assigned_to k, ir_resolution = i_resolution k, ir_created_at = i_created_at k,
       ir_updated_at = i_updated_at k \<rparr>"

definition list_incidents :: "string option \<Rightarrow> string option \<Rightarrow> database \<Rightarrow> http_error + incident_response list" where
  "list_incidents status_filter severity_filter d =
     (case enum_filter incident_status_of_value i_status status_filter of
        Inl e \<Rightarrow> Inl e
      | Inr P \<Rightarrow>
     (case enum_filter incident_severity_of_value i_severity severity_filter of
        Inl e \<Rightarrow> Inl e
      | Inr Q \<Rightarrow> Inr (map incident_response_of (newest_first i_created_at (filter (\<lambda>k. P k \<and> Q k) (incidents d))))))"

definition get_incident :: "uuid \<Rightarrow> database \<Rightarrow> http_error + incident_response" where
  "get_incident i d =
     (case row_get i_id i (incidents d) of
        None \<Rightarrow> Inl (404, ''incident not found'') | Some k \<Rightarrow> Inr (incident_response_of k))"

record event_response =
  er_id :: uuid
  er_event_type :: string
  er_user_id :: "uuid option"
  er_session_id :: "uuid option"
  er_quarantine_file_id :: "uuid option"
  er_metadata_json :: "jobj option"
  er_created_at :: instant

definition event_response_of :: "security_event \<Rightarrow> event_response" where
  "event_response_of e =
     \<lparr> er_id = e_id e, er_event_type = security_event_type_value (e_event_type e), er_user_id = e_user_id e,
       er_session_id = e_session_id e, er_quarantine_file_id = e_quarantine_file_id e,
       er_metadata_json = e_metadata_json e, er_created_at = e_created_at e \<rparr>"

definition list_security_events ::
  "(security_event list \<Rightarrow> security_event list) \<Rightarrow> string option \<Rightarrow> uuid option \<Rightarrow> uuid option \<Rightarrow> int \<Rightarrow> int \<Rightarrow> database
   \<Rightarrow> http_error + event_response list" where
  "list_security_events arrive event_type user_id session_id off sz d =
     (if off < 0 \<or> sz < 1 \<or> 500 < sz then Inl invalid_request
      else case enum_filter security_event_type_of_value e_event_type event_type of
        Inl e \<Rightarrow> Inl e
      | Inr P \<Rightarrow>
          if \<not> bigint off then Inl query_refused
          else Inr (map event_response_of (page_of off sz (newest_first e_created_at (arrive (filter (\<lambda>e. P e
            \<and> (case user_id of None \<Rightarrow> True | Some u \<Rightarrow> e_user_id e = Some u)
            \<and> (case session_id of None \<Rightarrow> True | Some x \<Rightarrow> e_session_id e = Some x)) (events d)))))))"

end
