(* ===== verification/Overview_Listings.thy ===== *)
theory Overview_Listings
  imports Queries Policies
begin

text \<open>
  The listings the backend filters, sorts and cuts itself: the workers (\<open>api/admin_nodes.py\<close>) and the policies
  (\<open>api/policies.py\<close>), with the responses for one worker, one policy and one version. The clock is read once for a
  request, and a query without an order returns the rows in storage order.
\<close>

section \<open>Workers\<close>

record node_response =
  nr_id :: uuid
  nr_hostname :: string
  nr_status :: string
  nr_enrollment_status :: string
  nr_endpoint_url :: "string option"
  nr_health :: string
  nr_capacity :: int
  nr_capacity_bound :: "string option"
  nr_ram_capacity :: "int option"
  nr_cpu_capacity :: "int option"
  nr_active_sessions :: int
  nr_runtime :: string
  nr_version :: "string option"
  nr_last_heartbeat :: "instant option"
  nr_cpu_percent :: "rat option"
  nr_ram_total_mb :: "int option"
  nr_ram_used_mb :: "int option"
  nr_uptime_seconds :: "int option"

definition node_response_of :: "settings \<Rightarrow> instant \<Rightarrow> browser_node \<Rightarrow> node_response" where
  "node_response_of st now n =
     \<lparr> nr_id = n_id n, nr_hostname = n_hostname n, nr_status = browser_node_status_value (n_status n),
       nr_enrollment_status = node_enrollment_status_value (n_enrollment_status n), nr_endpoint_url = n_endpoint_url n,
       nr_health = worker_health_value (compute_worker_health st now n), nr_capacity = n_capacity n,
       nr_capacity_bound = n_capacity_bound n, nr_ram_capacity = n_ram_capacity n, nr_cpu_capacity = n_cpu_capacity n,
       nr_active_sessions = n_active_sessions n, nr_runtime = n_runtime n, nr_version = n_version n,
       nr_last_heartbeat = n_last_heartbeat n, nr_cpu_percent = n_cpu_percent n, nr_ram_total_mb = n_ram_total_mb n,
       nr_ram_used_mb = n_ram_used_mb n, nr_uptime_seconds = worker_uptime_seconds now n \<rparr>"

definition list_nodes :: "(string \<Rightarrow> string) \<Rightarrow> settings \<Rightarrow> instant \<Rightarrow> database \<Rightarrow> node_response list" where
  "list_nodes collate st now d = map (node_response_of st now) (sort_key (collate \<circ> n_hostname) (nodes d))"

definition get_node :: "settings \<Rightarrow> instant \<Rightarrow> uuid \<Rightarrow> database \<Rightarrow> http_error + node_response" where
  "get_node st now i d =
     (case row_get n_id i (nodes d) of
        None \<Rightarrow> Inl (404, ''node not found'') | Some n \<Rightarrow> Inr (node_response_of st now n))"

record worker_stats =
  wo_total :: nat
  wo_healthy :: nat
  wo_needs_attention :: nat
  wo_active_sessions :: int
  wo_total_capacity :: int
  wo_average_cpu_percent :: "rat option"
  wo_average_ram_percent :: "rat option"
  wo_latest_heartbeat :: "instant option"

record worker_query =
  wq_search :: "string option"
  wq_health :: "string option"
  wq_status :: "string option"
  wq_sort_by :: string
  wq_sort_dir :: string

definition ram_share :: "node_response \<Rightarrow> rat option" where
  "ram_share n = (case (nr_ram_total_mb n, nr_ram_used_mb n) of
     (Some tot, Some used) \<Rightarrow> if tot \<noteq> 0 then Some (of_int used / of_int tot * 100) else None | _ \<Rightarrow> None)"

definition worker_stats_of :: "node_response list \<Rightarrow> worker_stats" where
  "worker_stats_of ns =
     \<lparr> wo_total = length ns, wo_healthy = length (filter (\<lambda>n. nr_health n = ''HEALTHY'') ns),
       wo_needs_attention = length (filter (\<lambda>n. nr_health n \<in> {''DEGRADED'', ''OFFLINE''}) ns),
       wo_active_sessions = sum_list (map nr_active_sessions ns), wo_total_capacity = sum_list (map nr_capacity ns),
       wo_average_cpu_percent = average (known nr_cpu_percent ns), wo_average_ram_percent = average (known ram_share ns),
       wo_latest_heartbeat = latest (known nr_last_heartbeat ns) \<rparr>"

text \<open>\<open>search.casefold()\<close> in the host name, as given.\<close>

definition folded_in :: "('r \<Rightarrow> string list) \<Rightarrow> string option \<Rightarrow> 'r \<Rightarrow> bool" where
  "folded_in columns search r =
     (case given search of
        None \<Rightarrow> True
      | Some s \<Rightarrow> list_ex (\<lambda>t. has_part (casefold t) (casefold s)) (columns r))"

definition worker_filter :: "worker_query \<Rightarrow> node_response \<Rightarrow> bool" where
  "worker_filter q n =
     (folded_in (\<lambda>n. [nr_hostname n]) (wq_search q) n \<and> wanted nr_health (wq_health q) n \<and> wanted nr_status (wq_status q) n)"

text \<open>\<open>datetime.min\<close> stands for a heartbeat never seen.\<close>

definition EARLIEST :: instant where
  "EARLIEST = - seconds 62135596800"

definition worker_order :: "string \<Rightarrow> bool \<Rightarrow> node_response list \<Rightarrow> node_response list option" where
  "worker_order sort_by desc ns =
     (if sort_by = ''hostname'' then Some (sorted_by (casefold \<circ> nr_hostname) desc ns)
      else if sort_by = ''health'' then Some (sorted_by nr_health desc ns)
      else if sort_by = ''cpu'' then Some (sorted_by (\<lambda>n. case nr_cpu_percent n of None \<Rightarrow> - 1 | Some c \<Rightarrow> c) desc ns)
      else if sort_by = ''ram'' then Some (sorted_by (\<lambda>n. case ram_share n of None \<Rightarrow> - 1 | Some c \<Rightarrow> c) desc ns)
      else if sort_by = ''sessions'' then Some (sorted_by nr_active_sessions desc ns)
      else if sort_by = ''heartbeat''
        then Some (sorted_by (\<lambda>n. case nr_last_heartbeat n of None \<Rightarrow> EARLIEST | Some t \<Rightarrow> t) desc ns)
      else None)"

definition worker_overview ::
  "settings \<Rightarrow> worker_query \<Rightarrow> int \<Rightarrow> int \<Rightarrow> instant \<Rightarrow> database \<Rightarrow> http_error + (node_response, worker_stats) listing" where
  "worker_overview st q off sz now d =
     (if \<not> page_allowed off sz then Inl (422, ''invalid pagination'')
      else let responses = map (node_response_of st now) (nodes d); found = filter (worker_filter q) responses in
        case Option.bind (sort_direction (wq_sort_dir q)) (\<lambda>desc. worker_order (wq_sort_by q) desc found) of
          None \<Rightarrow> Inl (422, ''invalid sort'')
        | Some rows \<Rightarrow> Inr \<lparr> li_items = page_of off sz rows, li_total = length found, li_offset = off, li_limit = sz,
            li_stats = worker_stats_of responses \<rparr>)"

section \<open>Policies\<close>

record rule_response =
  rr_id :: uuid
  rr_rule_type :: string
  rr_match_pattern :: string
  rr_action :: string
  rr_priority :: int

record version_response =
  vr_id :: uuid
  vr_version_number :: int
  vr_status :: string
  vr_content :: json
  vr_file_rules :: "rule_response list"
  vr_created_at :: instant
  vr_published_at :: "instant option"

record policy_summary =
  py_id :: uuid
  py_name :: string
  py_policy_type :: string
  py_description :: "string option"
  py_current_version_id :: "uuid option"
  py_current_version_number :: "int option"
  py_has_draft :: bool
  py_version_count :: nat
  py_assigned_groups :: "(uuid \<times> string) list"
  py_created_at :: instant
  py_updated_at :: instant
  py_updated_by :: "string option"
  py_archived_at :: "instant option"

record policy_detail = policy_summary +
  pd_versions :: "version_response list"

record policy_stats =
  ps_total :: nat
  ps_published :: nat
  ps_drafts :: nat
  ps_in_use :: nat
  ps_total_versions :: nat
  ps_archived :: nat
  ps_last_updated_at :: "instant option"
  ps_last_updated_by :: "string option"

record policy_query =
  pq_search :: "string option"
  pq_policy_type :: "string option"
  pq_status :: "string option"
  pq_usage :: "string option"
  pq_archived :: bool
  pq_sort_by :: string
  pq_sort_dir :: string

definition rule_response_of :: "file_policy_rule \<Rightarrow> rule_response" where
  "rule_response_of r =
     \<lparr> rr_id = fr_id r, rr_rule_type = file_rule_type_value (fr_rule_type r), rr_match_pattern = fr_match_pattern r,
       rr_action = file_action_value (fr_action r), rr_priority = fr_priority r \<rparr>"

definition version_response_of :: "database \<Rightarrow> policy_version \<Rightarrow> version_response" where
  "version_response_of d v =
     \<lparr> vr_id = pv_id v, vr_version_number = pv_version_number v,
       vr_status = policy_version_status_value (pv_status v), vr_content = pv_content v,
       vr_file_rules = map rule_response_of
         (sort_key fr_priority (filter (\<lambda>r. fr_policy_version_id r = pv_id v) (file_rules d))),
       vr_created_at = pv_created_at v, vr_published_at = pv_published_at v \<rparr>"

text \<open>\<open>max(rows, key=..., default=None)\<close>: of rows with equal keys the first.\<close>

fun first_max :: "('r \<Rightarrow> 'k::linorder) \<Rightarrow> 'r list \<Rightarrow> 'r option" where
  "first_max key [] = None"
| "first_max key (r # rs) = Some (fold (\<lambda>x best. if key x > key best then x else best) rs r)"

definition versions_of :: "database \<Rightarrow> policy \<Rightarrow> policy_version list" where
  "versions_of d p = filter (\<lambda>v. pv_policy_id v = p_id p) (policy_versions d)"

definition assigned_groups :: "(string \<Rightarrow> string) \<Rightarrow> database \<Rightarrow> policy \<Rightarrow> (uuid \<times> string) list" where
  "assigned_groups collate d p =
     sort_key (collate \<circ> snd) (List.map_filter (\<lambda>a. if gp_policy_id a = p_id p
        then map_option (\<lambda>g. (g_id g, g_name g)) (row_get g_id (gp_group_id a) (groups d)) else None) (group_policies d))"

definition last_author :: "database \<Rightarrow> policy_version list \<Rightarrow> string option" where
  "last_author d vs =
     Option.bind (first_max pv_created_at vs) (\<lambda>v.
       Option.bind (pv_created_by v) (\<lambda>u. map_option u_username (row_get u_id u (users d))))"

definition policy_summary_of :: "(string \<Rightarrow> string) \<Rightarrow> database \<Rightarrow> policy \<Rightarrow> policy_summary" where
  "policy_summary_of collate d p =
     (let vs = versions_of d p in
      \<lparr> py_id = p_id p, py_name = p_name p, py_policy_type = policy_type_value (p_policy_type p),
        py_description = p_description p, py_current_version_id = p_current_version_id p,
        py_current_version_number = Option.bind (p_current_version_id p)
          (\<lambda>i. map_option pv_version_number (row_get pv_id i (policy_versions d))),
        py_has_draft = list_ex (\<lambda>v. policy_version_status_value (pv_status v) = ''DRAFT'') vs,
        py_version_count = length vs, py_assigned_groups = assigned_groups collate d p,
        py_created_at = p_created_at p, py_updated_at = fold max (map pv_created_at vs) (p_updated_at p),
        py_updated_by = last_author d vs, py_archived_at = p_archived_at p \<rparr>)"

definition policy_stats_of :: "policy_summary list \<Rightarrow> policy_summary list \<Rightarrow> policy_stats" where
  "policy_stats_of everything live =
     \<lparr> ps_total = length live, ps_published = length (filter (\<lambda>x. py_current_version_id x \<noteq> None) live),
       ps_drafts = length (filter py_has_draft live),
       ps_in_use = length (filter (\<lambda>x. py_assigned_groups x \<noteq> []) live),
       ps_total_versions = sum_list (map py_version_count live), ps_archived = length everything - length live,
       ps_last_updated_at = latest (map py_updated_at live),
       ps_last_updated_by = Option.bind (first_max py_updated_at live) py_updated_by \<rparr>"

text \<open>A status or usage that is none of the two values is ignored.\<close>

definition policy_filter :: "policy_query \<Rightarrow> policy_summary \<Rightarrow> bool" where
  "policy_filter q x =
     (folded_in (\<lambda>x. [py_name x, case py_description x of None \<Rightarrow> [] | Some t \<Rightarrow> t]) (pq_search q) x
    \<and> wanted py_policy_type (pq_policy_type q) x
    \<and> (pq_status q = Some ''PUBLISHED'' \<longrightarrow> py_current_version_id x \<noteq> None)
    \<and> (pq_status q = Some ''DRAFT'' \<longrightarrow> py_has_draft x)
    \<and> (pq_usage q = Some ''IN_USE'' \<longrightarrow> py_assigned_groups x \<noteq> [])
    \<and> (pq_usage q = Some ''UNASSIGNED'' \<longrightarrow> py_assigned_groups x = []))"

definition policy_order :: "string \<Rightarrow> bool \<Rightarrow> policy_summary list \<Rightarrow> policy_summary list option" where
  "policy_order sort_by desc xs =
     (if sort_by = ''name'' then Some (sorted_by (casefold \<circ> py_name) desc xs)
      else if sort_by = ''policy_type'' then Some (sorted_by py_policy_type desc xs)
      else if sort_by = ''status''
        then Some (sorted_by (\<lambda>x. (py_current_version_id x \<noteq> None, py_has_draft x)) desc xs)
      else if sort_by = ''updated_at'' then Some (sorted_by py_updated_at desc xs)
      else None)"

definition shown_policies :: "(string \<Rightarrow> string) \<Rightarrow> policy_query \<Rightarrow> database \<Rightarrow> policy_summary list" where
  "shown_policies collate q d =
     filter (policy_filter q) (filter (\<lambda>x. (py_archived_at x \<noteq> None) = pq_archived q)
       (map (policy_summary_of collate d) (policies d)))"

definition list_policies ::
  "(string \<Rightarrow> string) \<Rightarrow> policy_query \<Rightarrow> int \<Rightarrow> int \<Rightarrow> database \<Rightarrow> http_error + (policy_summary, policy_stats) listing" where
  "list_policies collate q off sz d =
     (if \<not> page_allowed off sz then Inl (422, ''invalid pagination'')
      else let everything = map (policy_summary_of collate d) (policies d);
               live = filter (\<lambda>x. py_archived_at x = None) everything;
               found = shown_policies collate q d in
        case Option.bind (sort_direction (pq_sort_dir q)) (\<lambda>desc. policy_order (pq_sort_by q) desc found) of
          None \<Rightarrow> Inl (422, ''invalid sort'')
        | Some rows \<Rightarrow> Inr \<lparr> li_items = page_of off sz rows, li_total = length found, li_offset = off, li_limit = sz,
            li_stats = policy_stats_of everything live \<rparr>)"

definition get_policy :: "(string \<Rightarrow> string) \<Rightarrow> uuid \<Rightarrow> database \<Rightarrow> http_error + policy_detail" where
  "get_policy collate i d =
     (case row_get p_id i (policies d) of
        None \<Rightarrow> Inl (404, ''policy not found'')
      | Some p \<Rightarrow> Inr (policy_summary.extend (policy_summary_of collate d p)
          (policy_detail.fields (map (version_response_of d) (sort_key pv_version_number (versions_of d p))))))"

end
