(* ===== verification/Listing_Guarantees.thy ===== *)
theory Listing_Guarantees
  imports Sql_Listings Activity_Listings Overview_Listings
begin

text \<open>
  What the listings promise: the ones that are ordered by a column no two rows share, and the ones the backend sorts
  itself, keep the contract \<open>paged\<close>; the ones ordered by a column with equal values do not.
\<close>

section \<open>The contract\<close>

definition part_of :: "http_error + ('r, 's, 'z) listing_scheme \<Rightarrow> http_error + ('r list \<times> nat)" where
  "part_of answer = (case answer of Inl e \<Rightarrow> Inl e | Inr x \<Rightarrow> Inr (li_items x, li_total x))"

definition permutes_rows :: "('r list \<Rightarrow> 'r list) \<Rightarrow> bool" where
  "permutes_rows arrive \<longleftrightarrow> (\<forall>xs. mset (arrive xs) = mset xs)"

lemma permutes_set: "permutes_rows arrive \<Longrightarrow> set (arrive xs) = set xs"
  unfolding permutes_rows_def by (metis mset_eq_setD)

lemma page_of_map: "page_of off sz (map f rows) = map f (page_of off sz rows)"
  by (simp add: page_of_def take_map drop_map)

text \<open>Workers and policies: sorted in Python over a list in hand.\<close>

definition worker_rows :: "settings \<times> worker_query \<times> instant \<times> database \<Rightarrow> node_response list" where
  "worker_rows = (\<lambda>(st, q, now, d).
     the (Option.bind (sort_direction (wq_sort_dir q)) (\<lambda>desc. worker_order (wq_sort_by q) desc
       (filter (worker_filter q) (map (node_response_of st now) (nodes d))))))"

definition worker_sortable :: "worker_query \<Rightarrow> bool" where
  "worker_sortable q = (sort_direction (wq_sort_dir q) \<noteq> None
     \<and> wq_sort_by q \<in> {''hostname'', ''health'', ''cpu'', ''ram'', ''sessions'', ''heartbeat''})"

lemma worker_order_mset: "worker_order sort_by desc ns = Some rows \<Longrightarrow> mset rows = mset ns"
  unfolding worker_order_def by (auto split: if_splits)

lemma worker_order_defined:
  "sort_by \<in> {''hostname'', ''health'', ''cpu'', ''ram'', ''sessions'', ''heartbeat''}
   \<Longrightarrow> \<exists>rows. worker_order sort_by desc ns = Some rows"
  unfolding worker_order_def by (elim insertE) simp_all

interpretation workers: paged worker_rows
  "\<lambda>_ x off sz. case x of (st, q, now, d) \<Rightarrow> part_of (worker_overview st q off sz now d)"
  "\<lambda>(_ :: unit) x. worker_sortable (fst (snd x))"
proof unfold_locales
  fix w :: unit and x :: "settings \<times> worker_query \<times> instant \<times> database" and off sz
  assume ok: "worker_sortable (fst (snd x))" and page: "page_allowed off sz"
  obtain st q now d where x: "x = (st, q, now, d)" by (cases x)
  let ?found = "filter (worker_filter q) (map (node_response_of st now) (nodes d))"
  obtain desc where desc: "sort_direction (wq_sort_dir q) = Some desc" using ok x by (auto simp: worker_sortable_def)
  obtain rows where rows: "worker_order (wq_sort_by q) desc ?found = Some rows"
    using ok x worker_order_defined [of "wq_sort_by q" desc ?found] by (auto simp: worker_sortable_def)
  have "length rows = length ?found" using worker_order_mset [OF rows] by (metis size_mset)
  with page desc rows show "(case x of (st, q, now, d) \<Rightarrow> part_of (worker_overview st q off sz now d)) =
      Inr (page_of off sz (worker_rows x), length (worker_rows x))"
    by (simp add: x worker_overview_def worker_rows_def part_of_def Let_def)
qed

definition policy_rows :: "(string \<Rightarrow> string) \<times> policy_query \<times> database \<Rightarrow> policy_summary list" where
  "policy_rows = (\<lambda>(collate, q, d).
     the (Option.bind (sort_direction (pq_sort_dir q)) (\<lambda>desc. policy_order (pq_sort_by q) desc (shown_policies collate q d))))"

definition policy_sortable :: "policy_query \<Rightarrow> bool" where
  "policy_sortable q = (sort_direction (pq_sort_dir q) \<noteq> None
     \<and> pq_sort_by q \<in> {''name'', ''policy_type'', ''status'', ''updated_at''})"

lemma policy_order_mset: "policy_order sort_by desc xs = Some rows \<Longrightarrow> mset rows = mset xs"
  unfolding policy_order_def by (auto split: if_splits)

lemma policy_order_defined:
  "sort_by \<in> {''name'', ''policy_type'', ''status'', ''updated_at''} \<Longrightarrow> \<exists>rows. policy_order sort_by desc xs = Some rows"
  unfolding policy_order_def by (elim insertE) simp_all

interpretation policy_pages: paged policy_rows
  "\<lambda>_ x off sz. case x of (collate, q, d) \<Rightarrow> part_of (list_policies collate q off sz d)"
  "\<lambda>(_ :: unit) x. policy_sortable (fst (snd x))"
proof unfold_locales
  fix w :: unit and x :: "(string \<Rightarrow> string) \<times> policy_query \<times> database" and off sz
  assume ok: "policy_sortable (fst (snd x))" and page: "page_allowed off sz"
  obtain collate q d where x: "x = (collate, q, d)" by (cases x)
  let ?found = "shown_policies collate q d"
  obtain desc where desc: "sort_direction (pq_sort_dir q) = Some desc" using ok x by (auto simp: policy_sortable_def)
  obtain rows where rows: "policy_order (pq_sort_by q) desc ?found = Some rows"
    using ok x policy_order_defined [of "pq_sort_by q" desc ?found] by (auto simp: policy_sortable_def)
  have "length rows = length ?found" using policy_order_mset [OF rows] by (metis size_mset)
  with page desc rows show "(case x of (collate, q, d) \<Rightarrow> part_of (list_policies collate q off sz d)) =
      Inr (page_of off sz (policy_rows x), length (policy_rows x))"
    by (simp add: x list_policies_def policy_rows_def part_of_def Let_def)
qed

section \<open>Users by name\<close>

text \<open>The rows of a user query, in an order that does not depend on how the table was read.\<close>

definition users_by_name :: "(string \<Rightarrow> string) \<times> user_query \<times> database \<Rightarrow> user_summary list" where
  "users_by_name = (\<lambda>(collate, q, d).
     map (\<lambda>x. user_summary_of collate d (last_login d (u_id (fst x))) x)
       (sorted_by (collate \<circ> u_username \<circ> fst) (sort_direction (uq_sort_dir q) = Some True)
         (case user_filter q d of Inl _ \<Rightarrow> [] | Inr P \<Rightarrow> filter P (users_with_role d))))"

definition by_name :: "(string \<Rightarrow> string) \<times> user_query \<times> database \<Rightarrow> bool" where
  "by_name = (\<lambda>(collate, q, d). inj collate \<and> distinct_keys u_username (users d) \<and> uq_sort_by q = ''username''
     \<and> sort_direction (uq_sort_dir q) \<noteq> None \<and> (\<exists>P. user_filter q d = Inr P))"

lemma users_with_role_names:
  "map (u_username \<circ> fst) (users_with_role d) =
     map u_username (filter (\<lambda>u. row_get r_id (u_role_id u) (roles d) \<noteq> None) (users d))"
proof -
  have "map (u_username \<circ> fst) (concat (map (\<lambda>u. case row_get r_id (u_role_id u) R of None \<Rightarrow> [] | Some r \<Rightarrow> [(u, r_name r)]) us)) =
     map u_username (filter (\<lambda>u. row_get r_id (u_role_id u) R \<noteq> None) us)" for R us
    by (induction us) (auto split: option.splits)
  then show ?thesis by (simp add: users_with_role_def)
qed

lemma names_distinct:
  assumes "distinct_keys u_username (users d)"
  shows "distinct (map (u_username \<circ> fst) (users_with_role d))"
  using assms by (simp add: users_with_role_names distinct_keys_def distinct_map_filter)

interpretation user_pages: paged users_by_name
  "\<lambda>arrive x off sz. case x of (collate, q, d) \<Rightarrow> part_of (list_users collate arrive q off sz d)"
  "\<lambda>arrive x. permutes_rows arrive \<and> by_name x"
proof unfold_locales
  fix arrive :: "user_row list \<Rightarrow> user_row list" and x :: "(string \<Rightarrow> string) \<times> user_query \<times> database" and off sz
  assume fair: "permutes_rows arrive \<and> by_name x" and page: "page_allowed off sz" and big: "bigint off"
  obtain collate q d where x: "x = (collate, q, d)" by (cases x)
  obtain desc P where q: "sort_direction (uq_sort_dir q) = Some desc" "user_filter q d = Inr P" "uq_sort_by q = ''username''"
    and inj: "inj collate" and names: "distinct_keys u_username (users d)"
    using fair by (auto simp: x by_name_def)
  let ?found = "filter P (users_with_role d)"
  have "distinct (map (u_username \<circ> fst) ?found)" using names_distinct [OF names] by (rule distinct_map_filter)
  then have "inj_on (u_username \<circ> fst) (set (arrive ?found))"
    using fair by (simp add: distinct_map permutes_set)
  then have "inj_on (collate \<circ> u_username \<circ> fst) (set (arrive ?found))"
    using inj by (metis comp_assoc comp_inj_on inj_on_subset subset_UNIV)
  then have same: "sorted_by (collate \<circ> u_username \<circ> fst) desc (arrive ?found) = sorted_by (collate \<circ> u_username \<circ> fst) desc ?found"
    using fair by (intro sorted_by_mset_cong) (simp_all add: permutes_rows_def)
  show "(case x of (collate, q, d) \<Rightarrow> part_of (list_users collate arrive q off sz d)) =
      Inr (page_of off sz (users_by_name x), length (users_by_name x))"
    using page big q same
    by (simp add: x list_users_def users_by_name_def part_of_def Let_def user_order_def page_of_map eq_commute [of "Some True"])
qed

lemma strictly_sorted_by:
  assumes "distinct (map key rows)"
  shows "sorted_wrt (if desc then (>) else (<)) (map key (sorted_by key desc rows))"
proof -
  have up: "sorted_wrt (<) (map key (sort_key key xs))" if "distinct (map key xs)" for xs
  proof -
    have "distinct (map key (sort_key key xs))"
      using that by (metis distinct_map distinct_sort set_sort)
    then show ?thesis by (simp add: strict_sorted_iff)
  qed
  show ?thesis
  proof (cases desc)
    case True
    have "sorted_wrt (<) (map key (sort_key key (rev rows)))" using assms by (intro up) (simp add: rev_map [symmetric])
    with True show ?thesis by (simp add: sorted_by_def rev_map [symmetric] sorted_wrt_rev)
  qed (use up [OF assms] in \<open>simp add: sorted_by_def\<close>)
qed

lemma part_items: "user_pages.items_of (part_of answer) = (case answer of Inl _ \<Rightarrow> [] | Inr x \<Rightarrow> li_items x)"
  by (cases answer) (simp_all add: user_pages.items_of_def part_of_def)

text \<open>
  C39. Paging through the users by name misses nobody and shows nobody twice: in whatever order PostgreSQL reads the
  table at each request, the pages put together hold each user the filters admit exactly once, in strictly ascending
  or descending order of the name.
\<close>

theorem user_pages_complete:
  assumes "inj collate" and "distinct_keys u_username (users d)" and "uq_sort_by q = ''username''"
    and "sort_direction (uq_sort_dir q) = Some desc" and "user_filter q d = Inr P"
    and "\<And>k. permutes_rows (arrive k)" and "1 \<le> sz" and "sz \<le> 100" and "bigint (int n * sz)"
    and "length (users d) \<le> n * nat sz"
    and "shown = concat (map (\<lambda>k. case list_users collate (arrive k) q (int k * sz) sz d of
        Inl _ \<Rightarrow> [] | Inr x \<Rightarrow> li_items x) [0..<n])"
  shows "sorted_wrt (if desc then (>) else (<)) (map (collate \<circ> us_username) shown)
    \<and> set (map us_username shown) = {u_username u | u r. (u, r) \<in> set (users_with_role d) \<and> P (u, r)}"
proof -
  let ?x = "(collate, q, d)" and ?found = "filter P (users_with_role d)"
  have "by_name ?x" using assms(1-5) by (simp add: by_name_def)
  then have "shown = take (n * nat sz) (users_by_name ?x)"
    using user_pages.pages_in_order [of n arrive ?x sz] assms(6-9) by (simp add: assms(11) part_items)
  moreover have "length (users_by_name ?x) \<le> length (users d)"
  proof -
    have "length (users_with_role d) \<le> length (users d)"
      using arg_cong [OF users_with_role_names, of length] by (simp add: le_trans [OF length_filter_le])
    then show ?thesis using assms(5) by (simp add: users_by_name_def le_trans [OF length_filter_le])
  qed
  ultimately have all: "shown = users_by_name ?x" using assms(10) by simp
  have names: "map us_username shown = map (u_username \<circ> fst) (sorted_by (collate \<circ> u_username \<circ> fst) desc ?found)"
    using assms(4,5) by (simp add: all users_by_name_def user_summary_of_def Let_def o_def eq_commute [of "Some True"])
  have "distinct (map (u_username \<circ> fst) ?found)" using names_distinct [OF assms(2)] by (rule distinct_map_filter)
  then have "distinct (map collate (map (u_username \<circ> fst) ?found))"
    using assms(1) by (metis distinct_map inj_on_subset subset_UNIV)
  then have "distinct (map (collate \<circ> u_username \<circ> fst) ?found)" by (simp add: o_assoc)
  from strictly_sorted_by [OF this, of desc]
  have "sorted_wrt (if desc then (>) else (<)) (map collate (map us_username shown))" by (simp add: names o_assoc)
  moreover have "set (map us_username shown) = {u_username u | u r. (u, r) \<in> set (users_with_role d) \<and> P (u, r)}"
    unfolding names set_map set_sorted_by set_filter by force
  ultimately show ?thesis by simp
qed

section \<open>Users by role\<close>

lemma swap_permutes:
  assumes "i < length ys" and "j < length ys"
  shows "permutes_rows (\<lambda>xs. if xs = ys then ys[i := ys ! j, j := ys ! i] else xs)"
  using assms by (simp add: permutes_rows_def mset_swap)

lemma sort_key_constant: "(\<And>x. x \<in> set xs \<Longrightarrow> key x = c) \<Longrightarrow> sort_key key xs = xs"
  by (induction xs) (auto intro: insort_is_Cons)

lemma sorted_by_constant: "(\<And>x. x \<in> set xs \<Longrightarrow> key x = c) \<Longrightarrow> sorted_by key desc xs = xs"
  using sort_key_constant [of xs key c] sort_key_constant [of "rev xs" key c] by (simp add: sorted_by_def)

text \<open>
  C40. Paging through the users by role promises nothing: when all users found have the same role, as when the list is
  filtered by it, any of them may be shown at any place, so one page after the other may show the same user while
  another is never shown.
\<close>

theorem role_pages_may_repeat:
  assumes "uq_sort_by q = ''role''" and "sort_direction (uq_sort_dir q) = Some desc" and "user_filter q d = Inr P"
    and "\<And>y. y \<in> set (filter P (users_with_role d)) \<Longrightarrow> snd y = rname"
    and "x \<in> set (filter P (users_with_role d))"
    and "0 \<le> off" and "nat off < length (filter P (users_with_role d))" and "bigint off"
  shows "\<exists>arrive. permutes_rows arrive
    \<and> (case list_users collate arrive q off 1 d of Inl _ \<Rightarrow> False | Inr p \<Rightarrow> map us_id (li_items p) = [u_id (fst x)])"
proof -
  let ?found = "filter P (users_with_role d)"
  obtain i where i: "i < length ?found" "?found ! i = x" using assms(5) by (metis in_set_conv_nth)
  let ?swapped = "?found[nat off := ?found ! i, i := ?found ! nat off]"
  let ?arrive = "\<lambda>xs. if xs = ?found then ?swapped else xs"
  have perm: "permutes_rows ?arrive" using assms(7) i(1) by (intro swap_permutes)
  have "set ?swapped = set ?found" using perm permutes_set [of ?arrive ?found] by simp
  then have order: "sorted_by (collate \<circ> snd) desc ?swapped = ?swapped"
    using assms(4) by (intro sorted_by_constant [where c = "collate rname"]) auto
  have "?swapped ! nat off = x" using assms(7) i by (cases "i = nat off") simp_all
  then have "page_of off 1 ?swapped = [x]"
    using assms(7) by (simp add: page_of_def take_Suc_conv_app_nth [of 0, simplified] hd_drop_conv_nth take_Suc)
  then have "case list_users collate ?arrive q off 1 d of Inl _ \<Rightarrow> False | Inr p \<Rightarrow> map us_id (li_items p) = [u_id (fst x)]"
    using assms(1-3,6,8) order by (simp add: list_users_def page_allowed_def user_order_def Let_def user_summary_of_def)
  with perm show ?thesis by blast
qed

section \<open>The files of a user\<close>

text \<open>
  The page of a user holds at most the number of files asked for, each a file of that user; the summary counts all
  files of the user, whatever the filters, and leaves the deleted ones out of its three groups.
\<close>

theorem own_files_page_is_own:
  assumes "list_my_files_page arrive q off sz user d = Inr p" and "permutes_rows arrive"
  shows "length (li_items p) \<le> nat sz \<and> sz \<le> 100
    \<and> (\<forall>x \<in> set (li_items p). \<exists>f \<in> set (quarantine_files d). q_user_id f = user \<and> x = file_response_of f)
    \<and> li_total p \<le> fs_total (li_stats p)
    \<and> fs_total (li_stats p) = fs_pending (li_stats p) + fs_approved (li_stats p) + fs_blocked (li_stats p)
        + length (filter (\<lambda>f. q_user_id f = user \<and> q_status f = QS_DELETED) (quarantine_files d))"
proof -
  obtain P where P: "file_filter q = Inr P" and page: "page_allowed off sz"
    and p: "li_items p = map file_response_of (page_of off sz (newest_first q_created_at
        (arrive (filter P (filter (\<lambda>f. q_user_id f = user) (quarantine_files d))))))"
      "li_total p = length (filter P (filter (\<lambda>f. q_user_id f = user) (quarantine_files d)))"
      "li_stats p = file_summary_of (filter (\<lambda>f. q_user_id f = user) (quarantine_files d))"
    using assms(1) by (auto simp: list_my_files_page_def Let_def split: if_splits sum.splits)
  have sub: "set (page_of off sz ys) \<subseteq> set ys" for ys :: "quarantine_file list"
    by (auto simp: page_of_def dest!: in_set_takeD in_set_dropD)
  have own: "\<forall>x \<in> set (li_items p). \<exists>f \<in> set (quarantine_files d). q_user_id f = user \<and> x = file_response_of f"
    using sub permutes_set [OF assms(2)] unfolding p(1) by fastforce
  have groups: "length own = length (filter (in_group ''pending'') own) + length (filter (in_group ''approved'') own)
      + length (filter (in_group ''blocked'') own) + length (filter (\<lambda>f. q_status f = QS_DELETED) own)" for own
  proof (induction own)
    case (Cons f own)
    then show ?case by (cases "q_status f") (simp_all add: in_group_def status_groups_def)
  qed simp
  have "length (li_items p) \<le> nat sz" by (simp add: p(1) page_of_def)
  moreover have "sz \<le> 100" using page by (simp add: page_allowed_def)
  moreover have "li_total p \<le> fs_total (li_stats p)"
    unfolding p(2,3) file_summary_of_def file_summary.simps by (rule length_filter_le)
  moreover have "filter (\<lambda>f. q_user_id f = user \<and> q_status f = QS_DELETED) (quarantine_files d)
      = filter (\<lambda>f. q_status f = QS_DELETED) (filter (\<lambda>f. q_user_id f = user) (quarantine_files d))"
    by (simp add: conj_commute)
  ultimately show ?thesis
    using own groups [of "filter (\<lambda>f. q_user_id f = user) (quarantine_files d)"]
    by (simp only: p(3) file_summary_of_def file_summary.simps)
qed

section \<open>Policies\<close>

text \<open>
  Paging through the policies shows each policy the filters admit exactly once, archived ones only when asked for;
  the figures beside the list count the live ones, whatever the filters.
\<close>

theorem policy_pages_complete:
  assumes "policy_sortable q" and "1 \<le> sz" and "sz \<le> 100" and "bigint (int n * sz)"
    and "length (policies d) \<le> n * nat sz"
    and "shown = concat (map (\<lambda>k. case list_policies collate q (int k * sz) sz d of
        Inl _ \<Rightarrow> [] | Inr x \<Rightarrow> li_items x) [0..<n])"
  shows "mset shown = mset (shown_policies collate q d)
    \<and> (\<forall>x \<in> set shown. (py_archived_at x \<noteq> None) = pq_archived q)"
proof -
  let ?x = "(collate, q, d)"
  have "policy_pages.items_of (part_of answer) = (case answer of Inl _ \<Rightarrow> [] | Inr x \<Rightarrow> li_items x)"
    for answer :: "http_error + (policy_summary, policy_stats) listing"
    by (cases answer) (simp_all add: policy_pages.items_of_def part_of_def)
  then have "shown = take (n * nat sz) (policy_rows ?x)"
    using policy_pages.pages_in_order [where n = n and q = ?x and sz = sz] assms(1-4) by (simp add: assms(6))
  moreover obtain desc where "sort_direction (pq_sort_dir q) = Some desc"
    using assms(1) by (auto simp: policy_sortable_def)
  moreover then obtain rows where "policy_order (pq_sort_by q) desc (shown_policies collate q d) = Some rows"
    using assms(1) policy_order_defined unfolding policy_sortable_def by metis
  ultimately have rows: "shown = take (n * nat sz) rows" and "mset rows = mset (shown_policies collate q d)"
    using policy_order_mset by (simp_all add: policy_rows_def)
  moreover have "length (shown_policies collate q d) \<le> length (policies d)"
    unfolding shown_policies_def by (metis length_filter_le length_map le_trans)
  ultimately have same: "mset shown = mset (shown_policies collate q d)"
    using assms(5) by (metis le_trans size_mset take_all)
  moreover have "set shown = set (shown_policies collate q d)" using same by (rule mset_eq_setD)
  ultimately show ?thesis by (simp add: shown_policies_def)
qed

end
