(* ===== verification/Listing_Runs.thy ===== *)
theory Listing_Runs
  imports Listing_Guarantees
begin

text \<open>
  The listings of users applied to three accounts, the table read in one order for the first page and in the
  opposite order for the others.
\<close>

definition listed_user :: "uuid \<Rightarrow> string \<Rightarrow> user" where
  "listed_user i name = \<lparr> u_id = i, u_created_at = 0, u_updated_at = 0, u_username = name, u_password_hash = None,
     u_role_id = 7, u_is_active = True, u_mfa_enabled = False, u_totp_secret_encrypted = None, u_disabled_at = None \<rparr>"

definition listed_db :: database where
  "listed_db = empty_db\<lparr>roles := [\<lparr> r_id = 7, r_created_at = 0, r_name = ''USER'', r_description = None \<rparr>],
     users := [listed_user 1 ''carl'', listed_user 2 ''anna'', listed_user 3 ''bert'']\<rparr>"

definition sorting_by :: "string \<Rightarrow> user_query" where
  "sorting_by column = \<lparr> uq_search = None, uq_role = None, uq_group_id = None, uq_status = None, uq_auth_source = None,
     uq_mfa = None, uq_sort_by = column, uq_sort_dir = ''asc'' \<rparr>"

definition reading :: "nat \<Rightarrow> user_row list \<Rightarrow> user_row list" where
  "reading k = (if k = 0 then (\<lambda>xs. xs) else rev)"

lemma listed_rows:
  "users_with_role listed_db =
     [(listed_user 1 ''carl'', ''USER''), (listed_user 2 ''anna'', ''USER''), (listed_user 3 ''bert'', ''USER'')]"
  by (simp add: users_with_role_def listed_db_def listed_user_def row_get_def)

lemma listed_filter: "\<exists>P. user_filter (sorting_by c) listed_db = Inr P \<and> (\<forall>x. P x)"
  by (simp add: user_filter_def sorting_by_def one_of_def found_in_def wanted_def member_of_def)

lemma reading_permutes: "permutes_rows (reading k)"
  by (simp add: permutes_rows_def reading_def)

theorem user_pages_witness:
  "set (map us_username (concat (map (\<lambda>k. case list_users id (reading k) (sorting_by ''username'') (int k * 2) 2 listed_db of
      Inl _ \<Rightarrow> [] | Inr x \<Rightarrow> li_items x) [0..<2]))) = {''anna'', ''bert'', ''carl''}"
proof -
  obtain P where P: "user_filter (sorting_by ''username'') listed_db = Inr P" "\<forall>x. P x" using listed_filter by blast
  have keys: "distinct_keys u_username (users listed_db)"
    by (simp add: distinct_keys_def listed_db_def listed_user_def)
  have "sort_direction (uq_sort_dir (sorting_by ''username'')) = Some False"
    by (simp add: sorting_by_def sort_direction_def)
  note t = user_pages_complete [OF inj_on_id keys _ this P(1) reading_permutes, of 2 2]
  have "length (users listed_db) \<le> 2 * nat 2" by (simp add: listed_db_def)
  with t [OF _ _ _ _ _ refl]
  have "set (map us_username (concat (map (\<lambda>k. case list_users id (reading k) (sorting_by ''username'') (int k * 2) 2 listed_db of
      Inl _ \<Rightarrow> [] | Inr x \<Rightarrow> li_items x) [0..<2]))) = {u_username u | u r. (u, r) \<in> set (users_with_role listed_db) \<and> P (u, r)}"
    by (simp add: sorting_by_def bigint_def)
  also have "\<dots> = {''anna'', ''bert'', ''carl''}"
  proof -
    have "{u_username u | u r. (u, r) \<in> set (users_with_role listed_db) \<and> P (u, r)}
        = (u_username \<circ> fst) ` set (users_with_role listed_db)" using P(2) by force
    then show ?thesis by (simp add: listed_rows listed_user_def insert_commute)
  qed
  finally show ?thesis .
qed

theorem role_pages_witness:
  "\<exists>first next. permutes_rows first \<and> permutes_rows next
    \<and> (case list_users id first (sorting_by ''role'') 0 1 listed_db of Inl _ \<Rightarrow> False | Inr p \<Rightarrow> map us_id (li_items p) = [2])
    \<and> (case list_users id next (sorting_by ''role'') 1 1 listed_db of Inl _ \<Rightarrow> False | Inr p \<Rightarrow> map us_id (li_items p) = [2])"
proof -
  obtain P where P: "user_filter (sorting_by ''role'') listed_db = Inr P" "\<forall>x. P x" using listed_filter by blast
  then have found: "filter P (users_with_role listed_db) = users_with_role listed_db" by (intro filter_True) blast
  have "\<exists>arrive. permutes_rows arrive
      \<and> (case list_users id arrive (sorting_by ''role'') off 1 listed_db of Inl _ \<Rightarrow> False
         | Inr p \<Rightarrow> map us_id (li_items p) = [u_id (fst (listed_user 2 ''anna'', ''USER''))])"
    if "0 \<le> off" "off \<le> 1" for off
    by (rule role_pages_may_repeat [where rname = "''USER''" and desc = False])
      (use P that in \<open>auto simp: found listed_rows sorting_by_def sort_direction_def bigint_def\<close>)
  note shows_anna = this
  have two: "u_id (fst (listed_user 2 ''anna'', ''USER'')) = 2" by (simp add: listed_user_def)
  have "(0 :: int) \<le> 0" "(0 :: int) \<le> 1" "(1 :: int) \<le> 1" by simp_all
  with shows_anna [of 0, unfolded two] shows_anna [of 1, unfolded two] show ?thesis by blast
qed

end
