(* ===== verification/Application.thy ===== *)
theory Application
  imports Csrf Display Setup Account_Steps
begin

text \<open>
  How \<open>backend/app/main.py\<close> puts the backend together: the CSRF middleware around every request, the routes each
  listener registers, and the guards a router and a route put before a handler. FastAPI is taken as documented:
  routes are tried in the order of registration, a path parameter stands for one segment, a path known with another
  method is 405, one known with or without its final slash is redirected, any other is 404; the guards of a router
  run before those of the route, and the first that raises ends the request. A path is the list of its segments.
\<close>

section \<open>Routes\<close>

datatype segment = Fixed string | Any

datatype request_kind = Http string | Websocket

datatype guard = Signed_in | Has_role "string list"

record route =
  ro_kind :: request_kind
  ro_path :: "segment list"
  ro_guards :: "guard list"
  ro_name :: string

text \<open>\<open>APIRouter(prefix=..., dependencies=...)\<close> with its decorated functions.\<close>

definition router ::
  "segment list \<Rightarrow> guard list \<Rightarrow> (request_kind \<times> segment list \<times> guard list \<times> string) list \<Rightarrow> route list" where
  "router path_prefix guards rows =
     map (\<lambda>(k, p, g, n). \<lparr> ro_kind = k, ro_path = path_prefix @ p, ro_guards = guards @ g, ro_name = n \<rparr>) rows"

definition health_routes :: "route list" where
  "health_routes = router [Fixed ''health''] []
     [(Http ''GET'', [], [], ''health'')]"

definition auth_routes :: "route list" where
  "auth_routes = router [Fixed ''auth''] []
     [(Http ''POST'', [Fixed ''login''], [], ''login''),
      (Http ''POST'', [Fixed ''logout''], [Signed_in], ''logout''),
      (Http ''GET'', [Fixed ''me''], [Signed_in], ''me''),
      (Http ''POST'', [Fixed ''change-password''], [Signed_in], ''change_password''),
      (Http ''POST'', [Fixed ''mfa'', Fixed ''verify''], [], ''mfa_verify'')]"

definition mfa_routes :: "route list" where
  "mfa_routes = router [Fixed ''mfa''] []
     [(Http ''POST'', [Fixed ''enroll''], [Signed_in], ''enroll''),
      (Http ''POST'', [Fixed ''enroll'', Fixed ''confirm''], [Signed_in], ''enroll_confirm''),
      (Http ''POST'', [Fixed ''setup'', Fixed ''enroll''], [], ''setup_enroll''),
      (Http ''POST'', [Fixed ''setup'', Fixed ''confirm''], [], ''setup_confirm''),
      (Http ''POST'', [Fixed ''reset-self''], [Signed_in], ''reset_self'')]"

definition sessions_routes :: "route list" where
  "sessions_routes = router [Fixed ''sessions''] []
     [(Http ''POST'', [], [Signed_in], ''start_session''),
      (Http ''GET'', [Fixed ''me''], [Signed_in], ''list_my_sessions''),
      (Http ''GET'', [Any], [Signed_in], ''get_session_detail''),
      (Http ''POST'', [Any, Fixed ''uploads''], [Signed_in], ''upload_file''),
      (Http ''POST'', [Any, Fixed ''terminate''], [Signed_in], ''terminate_session'')]"

definition files_routes :: "route list" where
  "files_routes = router [Fixed ''files''] []
     [(Http ''GET'', [Fixed ''me''], [Signed_in], ''list_my_files''),
      (Http ''GET'', [Fixed ''me'', Fixed ''page''], [Signed_in], ''list_my_files_page''),
      (Http ''POST'', [Any, Fixed ''download-token''], [Signed_in], ''request_download_token''),
      (Http ''GET'', [Fixed ''download'', Any], [Signed_in], ''download_with_token'')]"

definition display_routes :: "route list" where
  "display_routes = router [Fixed ''display''] []
     [(Websocket, [Any, Fixed ''ws''], [Signed_in], ''display_ws'')]"

definition admin_routes :: "route list" where
  "admin_routes = router [Fixed ''admin''] [Has_role [''ADMIN'']]
     [(Http ''GET'', [Fixed ''users''], [], ''list_users''),
      (Http ''POST'', [Fixed ''users''], [Signed_in], ''create_user_endpoint''),
      (Http ''GET'', [Fixed ''users'', Any], [], ''get_user''),
      (Http ''POST'', [Fixed ''users'', Any, Fixed ''disable''], [Signed_in], ''disable_user''),
      (Http ''POST'', [Fixed ''users'', Any, Fixed ''enable''], [Signed_in], ''enable_user''),
      (Http ''POST'', [Fixed ''users'', Any, Fixed ''reset-password''], [Signed_in], ''reset_password_endpoint''),
      (Http ''GET'', [Fixed ''users'', Any, Fixed ''lockout''], [], ''get_lockout_status_endpoint''),
      (Http ''POST'', [Fixed ''users'', Any, Fixed ''lock''], [Signed_in], ''lock_account_endpoint''),
      (Http ''POST'', [Fixed ''users'', Any, Fixed ''unlock''], [Signed_in], ''unlock_account_endpoint''),
      (Http ''PUT'', [Fixed ''users'', Any, Fixed ''role''], [Signed_in], ''update_role''),
      (Http ''PUT'', [Fixed ''users'', Any, Fixed ''groups''], [Signed_in], ''update_groups''),
      (Http ''GET'', [Fixed ''groups''], [], ''list_groups''),
      (Http ''GET'', [Fixed ''groups'', Any], [], ''get_group''),
      (Http ''POST'', [Fixed ''groups'', Any, Fixed ''members'', Any], [Signed_in], ''add_group_member''),
      (Http ''DELETE'', [Fixed ''groups'', Any, Fixed ''members'', Any], [Signed_in], ''remove_group_member''),
      (Http ''GET'', [Fixed ''groups-overview''], [], ''groups_overview''),
      (Http ''POST'', [Fixed ''groups''], [Signed_in], ''create_group_endpoint''),
      (Http ''DELETE'', [Fixed ''groups'', Any], [Signed_in], ''delete_group_endpoint''),
      (Http ''GET'', [Fixed ''users'', Any, Fixed ''sessions''], [], ''list_user_sessions''),
      (Http ''POST'', [Fixed ''users'', Any, Fixed ''sessions'', Fixed ''revoke''], [Signed_in], ''revoke_sessions'')]"

definition admin_dashboard_routes :: "route list" where
  "admin_dashboard_routes = router [Fixed ''admin''] [Has_role [''ADMIN'', ''SECURITY_REVIEWER'']]
     [(Http ''GET'', [Fixed ''dashboard''], [], ''dashboard_endpoint'')]"

definition admin_sessions_routes :: "route list" where
  "admin_sessions_routes = router [Fixed ''admin'', Fixed ''sessions''] [Has_role [''ADMIN'', ''SECURITY_REVIEWER'']]
     [(Http ''GET'', [], [], ''list_sessions''),
      (Http ''GET'', [Any], [], ''get_session''),
      (Http ''POST'', [Any, Fixed ''disconnect''], [Signed_in], ''admin_disconnect''),
      (Http ''POST'', [Any, Fixed ''isolate''], [Signed_in], ''admin_isolate''),
      (Http ''POST'', [Any, Fixed ''restore''], [Signed_in], ''admin_restore''),
      (Http ''POST'', [Any, Fixed ''kill''], [Has_role [''ADMIN''], Signed_in], ''admin_kill'')]"

definition admin_quarantine_routes :: "route list" where
  "admin_quarantine_routes = router [Fixed ''admin'', Fixed ''quarantine''] [Has_role [''ADMIN'', ''SECURITY_REVIEWER'']]
     [(Http ''GET'', [], [], ''list_quarantine_files''),
      (Http ''GET'', [Any], [], ''get_quarantine_file''),
      (Http ''POST'', [Any, Fixed ''release''], [Signed_in], ''release_quarantine_file''),
      (Http ''POST'', [Any, Fixed ''reject''], [Signed_in], ''reject_quarantine_file'')]"

definition admin_incidents_routes :: "route list" where
  "admin_incidents_routes = router [Fixed ''admin'', Fixed ''incidents''] [Has_role [''ADMIN'', ''SECURITY_REVIEWER'']]
     [(Http ''GET'', [], [], ''list_incidents''),
      (Http ''GET'', [Any], [], ''get_incident''),
      (Http ''PUT'', [Any], [], ''update_incident_endpoint'')]"

definition admin_ldap_routes :: "route list" where
  "admin_ldap_routes = router [Fixed ''admin'', Fixed ''ldap''] [Has_role [''ADMIN'']]
     [(Http ''GET'', [Fixed ''config''], [Signed_in], ''get_config''),
      (Http ''POST'', [Fixed ''test''], [Signed_in], ''test_config''),
      (Http ''PUT'', [Fixed ''config''], [Signed_in], ''update_config'')]"

definition admin_nodes_routes :: "route list" where
  "admin_nodes_routes = router [Fixed ''admin'', Fixed ''nodes''] [Has_role [''ADMIN'', ''SECURITY_REVIEWER'']]
     [(Http ''GET'', [], [], ''list_nodes''),
      (Http ''GET'', [Fixed ''overview''], [], ''worker_overview''),
      (Http ''GET'', [Any], [], ''get_node''),
      (Http ''GET'', [Any, Fixed ''metrics''], [], ''get_node_metrics''),
      (Http ''POST'', [Any, Fixed ''drain''], [Has_role [''ADMIN''], Signed_in], ''drain_node_endpoint''),
      (Http ''POST'', [Any, Fixed ''undrain''], [Has_role [''ADMIN''], Signed_in], ''undrain_node_endpoint''),
      (Http ''POST'', [Any, Fixed ''maintenance''], [Has_role [''ADMIN''], Signed_in], ''maintenance_node_endpoint''),
      (Http ''POST'', [Any, Fixed ''unmaintenance''], [Has_role [''ADMIN''], Signed_in], ''unmaintenance_node_endpoint''),
      (Http ''POST'', [Fixed ''enrollment-tokens''], [Has_role [''ADMIN'']], ''create_enrollment_token_endpoint''),
      (Http ''POST'', [Any, Fixed ''approve''], [Has_role [''ADMIN''], Signed_in], ''approve_node_endpoint''),
      (Http ''POST'', [Any, Fixed ''revoke''], [Has_role [''ADMIN''], Signed_in], ''revoke_node_endpoint'')]"

definition admin_audit_routes :: "route list" where
  "admin_audit_routes = router [Fixed ''admin'', Fixed ''security-events''] [Has_role [''ADMIN'', ''SECURITY_REVIEWER'']]
     [(Http ''GET'', [], [], ''list_security_events'')]"

definition admin_health_routes :: "route list" where
  "admin_health_routes = router [Fixed ''admin'', Fixed ''health''] [Has_role [''ADMIN'', ''SECURITY_REVIEWER'']]
     [(Http ''GET'', [], [], ''system_health'')]"

definition policies_routes :: "route list" where
  "policies_routes = router [Fixed ''admin'', Fixed ''policies''] [Has_role [''ADMIN'']]
     [(Http ''GET'', [], [], ''list_policies''),
      (Http ''POST'', [], [Signed_in], ''create_policy_endpoint''),
      (Http ''GET'', [Any], [], ''get_policy''),
      (Http ''PUT'', [Any], [], ''update_policy''),
      (Http ''POST'', [Any, Fixed ''versions''], [Signed_in], ''create_version''),
      (Http ''PUT'', [Any, Fixed ''versions'', Any], [], ''update_version''),
      (Http ''POST'', [Any, Fixed ''versions'', Any, Fixed ''publish''], [Signed_in], ''publish''),
      (Http ''POST'', [Any, Fixed ''rollback''], [Signed_in], ''rollback_endpoint''),
      (Http ''POST'', [Any, Fixed ''archive''], [Signed_in], ''archive_policy_endpoint''),
      (Http ''POST'', [Any, Fixed ''restore''], [Signed_in], ''restore_policy_endpoint''),
      (Http ''POST'', [Any, Fixed ''groups'', Any], [], ''attach_to_group''),
      (Http ''DELETE'', [Any, Fixed ''groups'', Any], [], ''detach_from_group'')]"

definition admin_mfa_routes :: "route list" where
  "admin_mfa_routes = router [Fixed ''mfa'', Fixed ''admin''] [Has_role [''ADMIN'']]
     [(Http ''POST'', [Fixed ''users'', Any, Fixed ''reset''], [Signed_in], ''admin_reset_mfa'')]"

definition setup_routes :: "route list" where
  "setup_routes = router [Fixed ''setup''] []
     [(Http ''GET'', [Fixed ''status''], [], ''status_endpoint''),
      (Http ''POST'', [Fixed ''admin''], [], ''create_admin''),
      (Http ''POST'', [Fixed ''mfa'', Fixed ''confirm''], [], ''confirm_mfa'')]"

definition node_enrollment_routes :: "route list" where
  "node_enrollment_routes = router [Fixed ''admin'', Fixed ''nodes''] []
     [(Http ''POST'', [Fixed ''enroll''], [], ''enroll_node_endpoint'')]"

section \<open>The listeners\<close>

definition shared_surface :: "route list" where
  "shared_surface = health_routes @ auth_routes @ mfa_routes"

definition user_surface :: "route list" where
  "user_surface = sessions_routes @ files_routes @ display_routes"

definition admin_surface :: "route list" where
  "admin_surface = admin_routes @ admin_dashboard_routes @ admin_sessions_routes @ admin_quarantine_routes
     @ admin_incidents_routes @ admin_ldap_routes @ admin_nodes_routes @ admin_audit_routes @ admin_health_routes
     @ policies_routes @ admin_mfa_routes @ setup_routes @ node_enrollment_routes"

definition registered :: "listener \<Rightarrow> route list" where
  "registered l = shared_surface
     @ (if l \<in> {Listener_user, Listener_both} then user_surface else [])
     @ (if l \<in> {Listener_admin, Listener_both} then admin_surface else [])"

text \<open>
  Start-up. Both attempts are best effort: with the database down or not migrated (\<open>db_ready\<close> false) they are
  logged and skipped. The answer is the token to print and the background jobs started.
\<close>

datatype background_job = Node_poller | Orphan_reconciler | Quarantine_retention | Session_reaper

definition start_up ::
  "'w idp \<Rightarrow> settings \<Rightarrow> instant \<Rightarrow> bool \<Rightarrow> 'w sys \<Rightarrow> (string option \<times> background_job list) \<times> 'w sys" where
  "start_up I st now db_ready s =
     (let l = listener_mode st;
          s = (if l \<in> {Listener_user, Listener_both} \<and> db_ready then reset_viewer_stamps now s else s);
          (tok, s) = (if l \<in> {Listener_admin, Listener_both} \<and> db_ready then regenerate_setup_token I now s else (None, s));
          jobs = (if l \<in> {Listener_admin, Listener_both}
                  then [Node_poller, Orphan_reconciler, Quarantine_retention, Session_reaper] else [])
      in ((tok, jobs), s))"

section \<open>A request\<close>

fun path_matches :: "segment list \<Rightarrow> string list \<Rightarrow> bool" where
  "path_matches [] [] = True"
| "path_matches (Fixed a # p) (x # xs) = (x = a \<and> path_matches p xs)"
| "path_matches (Any # p) (x # xs) = (x \<noteq> [] \<and> path_matches p xs)"
| "path_matches _ _ = False"

definition other_slash :: "string list \<Rightarrow> string list" where
  "other_slash xs = (if xs \<noteq> [] \<and> last xs = [] then butlast xs else xs @ [[]])"

definition is_http :: "route \<Rightarrow> bool" where
  "is_http r = (case ro_kind r of Http _ \<Rightarrow> True | Websocket \<Rightarrow> False)"

datatype served = Refused http_error | Redirected | Reached route

definition dispatch :: "route list \<Rightarrow> request_kind \<Rightarrow> string list \<Rightarrow> served" where
  "dispatch rs k xs =
     (case find (\<lambda>r. ro_kind r = k \<and> path_matches (ro_path r) xs) rs of
        Some r \<Rightarrow> Reached r
      | None \<Rightarrow>
          if k = Websocket then Refused (403, ''Forbidden'')
          else if list_ex (\<lambda>r. is_http r \<and> path_matches (ro_path r) xs) rs then Refused (405, ''Method Not Allowed'')
          else if list_ex (\<lambda>r. is_http r \<and> path_matches (ro_path r) (other_slash xs)) rs then Redirected
          else Refused (404, ''Not Found''))"

definition guard_passes :: "'w idp \<Rightarrow> string option \<Rightarrow> 'w sys \<Rightarrow> guard \<Rightarrow> http_error + user" where
  "guard_passes I cookie s g =
     (case g of Signed_in \<Rightarrow> get_current_user I cookie s | Has_role rs \<Rightarrow> require_role I rs cookie s)"

fun guards_stop :: "'w idp \<Rightarrow> string option \<Rightarrow> 'w sys \<Rightarrow> guard list \<Rightarrow> http_error option" where
  "guards_stop I cookie s [] = None"
| "guards_stop I cookie s (g # gs) =
     (case guard_passes I cookie s g of Inl e \<Rightarrow> Some e | Inr _ \<Rightarrow> guards_stop I cookie s gs)"

text \<open>The middleware sees HTTP requests only; the method in the CSRF part of the request is that of the request.\<close>

definition middleware :: "(string \<Rightarrow> string \<Rightarrow> string) \<Rightarrow> settings \<Rightarrow> string \<Rightarrow> request_kind \<Rightarrow> string \<Rightarrow> string \<Rightarrow> http_error option" where
  "middleware sign st nonce k csrf_cookie csrf_header =
     (case k of
        Websocket \<Rightarrow> None
      | Http m \<Rightarrow>
          (case csrf_middleware sign st nonce \<lparr> rq_method = m, rq_cookie = csrf_cookie, rq_header = csrf_header \<rparr> of
             Csrf_rejected \<Rightarrow> Some (403, ''CSRF token missing or invalid'')
           | Csrf_crashed \<Rightarrow> Some (500, ''Internal Server Error'')
           | Passed _ \<Rightarrow> None))"

definition serve ::
  "(string \<Rightarrow> string \<Rightarrow> string) \<Rightarrow> settings \<Rightarrow> string \<Rightarrow> 'w idp \<Rightarrow> request_kind \<Rightarrow> string list \<Rightarrow> string \<Rightarrow> string
   \<Rightarrow> string option \<Rightarrow> 'w sys \<Rightarrow> served" where
  "serve sign st nonce I k xs csrf_cookie csrf_header cookie s =
     (case middleware sign st nonce k csrf_cookie csrf_header of
        Some e \<Rightarrow> Refused e
      | None \<Rightarrow>
          (case dispatch (registered (listener_mode st)) k xs of
             Reached r \<Rightarrow> (case guards_stop I cookie s (ro_guards r) of None \<Rightarrow> Reached r | Some e \<Rightarrow> Refused e)
           | a \<Rightarrow> a))"

end
