(* ===== verification/Application_Guarantees.thy ===== *)
theory Application_Guarantees
  imports Application
begin

text \<open>
  What the composition guarantees: which listener offers which surface, and who reaches the administration.
\<close>

section \<open>What was reached\<close>

lemma served_route:
  assumes "serve sign st nonce I k xs cc ch cookie s = Reached r"
  shows "r \<in> set (registered (listener_mode st)) \<and> ro_kind r = k \<and> path_matches (ro_path r) xs
    \<and> guards_stop I cookie s (ro_guards r) = None"
proof -
  have "dispatch (registered (listener_mode st)) k xs = Reached r" and g: "guards_stop I cookie s (ro_guards r) = None"
    using assms by (auto simp: serve_def split: option.splits served.splits)
  then have "find (\<lambda>r. ro_kind r = k \<and> path_matches (ro_path r) xs) (registered (listener_mode st)) = Some r"
    by (auto simp: dispatch_def split: option.splits if_splits)
  then have "r \<in> set (registered (listener_mode st)) \<and> ro_kind r = k \<and> path_matches (ro_path r) xs"
    by (auto simp: find_Some_iff)
  with g show ?thesis by blast
qed

lemma guards_hold:
  "guards_stop I cookie s gs = None \<Longrightarrow> g \<in> set gs \<Longrightarrow> \<exists>u. guard_passes I cookie s g = Inr u"
  by (induction gs) (auto split: sum.splits)

text \<open>The administration is what lies under \<open>/admin\<close>, \<open>/mfa/admin\<close> and \<open>/setup\<close>.\<close>

definition administers :: "string list \<Rightarrow> bool" where
  "administers xs = (take 1 xs = [''admin''] \<or> take 2 xs = [''mfa'', ''admin''])"

lemmas router_tables = health_routes_def auth_routes_def mfa_routes_def sessions_routes_def files_routes_def
  display_routes_def admin_routes_def admin_dashboard_routes_def admin_sessions_routes_def admin_quarantine_routes_def
  admin_incidents_routes_def admin_ldap_routes_def admin_nodes_routes_def admin_audit_routes_def
  admin_health_routes_def policies_routes_def admin_mfa_routes_def setup_routes_def node_enrollment_routes_def

lemmas surfaces = shared_surface_def user_surface_def admin_surface_def router_def router_tables

text \<open>No path outside the administration surface begins like one of its own.\<close>

definition outside_administration :: "segment list \<Rightarrow> bool" where
  "outside_administration p = (\<exists>a q. p = Fixed a # q \<and> a \<notin> {''admin'', ''setup''}
     \<and> (a = ''mfa'' \<longrightarrow> (\<exists>b q'. q = Fixed b # q' \<and> b \<noteq> ''admin'')))"

lemma plain_surface_outside: "r \<in> set (shared_surface @ user_surface) \<Longrightarrow> outside_administration (ro_path r)"
  by (simp add: surfaces outside_administration_def) (elim disjE; simp)

lemma outside_not_administers:
  assumes "outside_administration p" and "path_matches p xs"
  shows "\<not> administers xs \<and> take 1 xs \<noteq> [''setup'']"
proof -
  obtain a q where p: "p = Fixed a # q" "a \<notin> {''admin'', ''setup''}"
    "a = ''mfa'' \<longrightarrow> (\<exists>b q'. q = Fixed b # q' \<and> b \<noteq> ''admin'')"
    using assms(1) unfolding outside_administration_def by blast
  then obtain ys where xs: "xs = a # ys" "path_matches q ys" using assms(2) by (cases xs) auto
  moreover have "take 1 ys \<noteq> [''admin'']" if "a = ''mfa''"
    using p(3) that xs(2) by (cases ys) auto
  ultimately show ?thesis using p(2) by (cases ys) (auto simp: administers_def)
qed

definition REVIEWER_HANDLERS :: "string list" where
  "REVIEWER_HANDLERS = [''dashboard_endpoint'', ''list_sessions'', ''get_session'', ''admin_disconnect'', ''admin_isolate'',
     ''admin_restore'', ''list_quarantine_files'', ''get_quarantine_file'', ''release_quarantine_file'',
     ''reject_quarantine_file'', ''list_incidents'', ''get_incident'', ''update_incident_endpoint'', ''list_nodes'',
     ''worker_overview'', ''get_node'', ''get_node_metrics'', ''list_security_events'', ''system_health'']"

lemma admin_surface_guarded:
  assumes "r \<in> set admin_surface" and "ro_name r \<noteq> ''enroll_node_endpoint''" and "ro_path r \<noteq> []" and "hd (ro_path r) \<noteq> Fixed ''setup''"
  shows "Has_role [''ADMIN''] \<in> set (ro_guards r)
    \<or> Has_role [''ADMIN'', ''SECURITY_REVIEWER''] \<in> set (ro_guards r) \<and> ro_name r \<in> set REVIEWER_HANDLERS"
  using assms by (simp add: surfaces REVIEWER_HANDLERS_def) (elim disjE; simp)

section \<open>Who reaches what\<close>

lemma other_slash_stays:
  "administers xs \<or> take 1 xs = [''setup''] \<Longrightarrow> administers (other_slash xs) \<or> take 1 (other_slash xs) = [''setup'']"
  unfolding administers_def other_slash_def
  by (cases xs; cases "tl xs"; cases "tl (tl xs)") (auto split: if_splits)


text \<open>
  C6. Nobody administers without a second factor: along every run of the account routes with the directory off, a
  request on any listener that reaches a handler under /admin or /mfa/admin, the enrolment of a node excepted, comes
  with a session of an active account whose MFA is enabled; its role is ADMIN, or SECURITY_REVIEWER at one of the
  handlers open to reviewers (the pages to read, and work on sessions, files and incidents).
\<close>

theorem administration_needs_second_factor:
  assumes "account_run I D st0 s t" and "redis_laws I" and "safe I s"
    and "serve sign st nonce I k xs csrf_cookie csrf_header cookie t = Reached r"
    and "administers xs" and "ro_name r \<noteq> ''enroll_node_endpoint''"
  shows "\<exists>u rname. get_current_user I cookie t = Inr u \<and> u_is_active u \<and> u_mfa_enabled u \<and> role_name_of (db t) u = Some rname
    \<and> (rname = ''ADMIN'' \<or> rname = ''SECURITY_REVIEWER'' \<and> ro_name r \<in> set REVIEWER_HANDLERS)"
proof -
  have t: "safe I t" by (rule account_run_safe [OF assms(1-3)])
  have r: "r \<in> set (registered (listener_mode st))" "path_matches (ro_path r) xs" "guards_stop I cookie t (ro_guards r) = None"
    using served_route [OF assms(4)] by blast+
  have "r \<notin> set (shared_surface @ user_surface)"
    using outside_not_administers [OF plain_surface_outside r(2)] assms(5) by blast
  then have admin: "r \<in> set admin_surface" using r(1) by (auto simp: registered_def split: if_splits)
  obtain x ys where xs: "xs = x # ys" "x \<noteq> ''setup''" using assms(5) by (cases xs) (auto simp: administers_def)
  then have "ro_path r \<noteq> []" "hd (ro_path r) \<noteq> Fixed ''setup''"
    using r(2) by (auto elim: path_matches.elims)
  from admin_surface_guarded [OF admin assms(6) this]
  obtain rs where rs: "Has_role rs \<in> set (ro_guards r)"
      "rs = [''ADMIN''] \<or> rs = [''ADMIN'', ''SECURITY_REVIEWER''] \<and> ro_name r \<in> set REVIEWER_HANDLERS" by blast
  then obtain u where "require_role I rs cookie t = Inr u"
    using guards_hold [OF r(3) rs(1)] by (auto simp: guard_passes_def)
  then obtain rname where u: "get_current_user I cookie t = Inr u" "role_name_of (db t) u = Some rname" "rname \<in> set rs"
    by (auto simp: require_role_def split: sum.splits option.splits if_splits)
  then have "require_role I [''ADMIN'', ''SECURITY_REVIEWER''] cookie t = Inr u"
    using rs(2) by (auto simp: require_role_def)
  then have "u_mfa_enabled u" by (rule safe_role_has_factor [OF t])
  moreover have "u_is_active u" using u(1) by (auto simp: get_current_user_def split: option.splits if_splits)
  moreover have "rname = ''ADMIN'' \<or> rname = ''SECURITY_REVIEWER'' \<and> ro_name r \<in> set REVIEWER_HANDLERS"
    using u(3) rs(2) by auto
  ultimately show ?thesis using u(1,2) by blast
qed

end
