(* ===== verification/Agent_Display.thy ===== *)
theory Agent_Display
  imports Agent_Routes Display_Relay Agent_Client "HOL-Library.Sublist"
begin

text \<open>
  The display websocket of the Session Agent (\<open>sandbox_display_relay\<close> in \<open>session-agent/app/api/sandboxes.py\<close>), the
  other half of the wire whose near half is \<open>Display_Relay\<close>: how it opens, and the two pumps that carry bytes between
  the backend and the VNC port of the sandbox. Both end as soon as one of them does.
\<close>

section \<open>Opening\<close>

definition CLOSE_DISPLAY_UNREACHABLE :: int where
  "CLOSE_DISPLAY_UNREACHABLE = 4502"

datatype display_opening =
    Handshake_refused http_error
  | Closed_unaccepted int
  | Closed_accepted int
  | Relaying string int

definition open_display :: "'w agent_process \<Rightarrow> string \<Rightarrow> 'w \<Rightarrow> (http_error + display_opening) \<times> 'w" where
  "open_display A i w =
     (case get_display_info_sync (ap_engine A) i w of
        (Inl _, w) \<Rightarrow> (Inr (Closed_unaccepted CLOSE_DISPLAY_UNREACHABLE), w)
      | (Inr info, w) \<Rightarrow>
          (case ap_dial A (dp_host info) (dp_port info) w of
             (Some _, w) \<Rightarrow> (Inr (Closed_accepted CLOSE_DISPLAY_UNREACHABLE), w)
           | (None, w) \<Rightarrow> (Inr (Relaying (dp_host info) (dp_port info)), w)))"

definition sandbox_display_relay :: "'w agent_process \<Rightarrow> string \<Rightarrow> string \<Rightarrow> 'w \<Rightarrow> display_opening \<times> 'w" where
  "sandbox_display_relay A presented i w =
     (case user_route A presented (open_display A i) w of
        (Inl e, w) \<Rightarrow> (Handshake_refused e, w) | (Inr x, w) \<Rightarrow> (x, w))"

text \<open>The call of the backend that asks a node where a display is; nothing in the backend uses the answer.\<close>

definition get_display_info ::
  "(uuid \<Rightarrow> connection \<Rightarrow> 'w \<Rightarrow> (string \<times> int) reply \<times> 'w) \<Rightarrow> uuid \<Rightarrow> connection \<Rightarrow> 'w \<Rightarrow> (string \<times> int, 'w) agent_call" where
  "get_display_info http_display session_id c w = request (http_display session_id) c w"

section \<open>The pumps\<close>

datatype pipe_event = Ws_frame octets | Ws_gone | Tcp_read octets | Tcp_gone

record pipe =
  pi_open :: bool
  pi_to_sandbox :: octets
  pi_to_backend :: octets

definition start_pipe :: pipe where
  "start_pipe = \<lparr> pi_open = True, pi_to_sandbox = [], pi_to_backend = [] \<rparr>"

definition pump_ws_to_tcp :: "octets option \<Rightarrow> pipe \<Rightarrow> pipe" where
  "pump_ws_to_tcp data p =
     (case data of None \<Rightarrow> p\<lparr>pi_open := False\<rparr> | Some bs \<Rightarrow> p\<lparr>pi_to_sandbox := pi_to_sandbox p @ bs\<rparr>)"

text \<open>\<open>Tcp_read\<close> is what one read of at most 65536 bytes returned; an empty one is the end of the stream.\<close>

definition pump_tcp_to_ws :: "octets option \<Rightarrow> pipe \<Rightarrow> pipe" where
  "pump_tcp_to_ws data p =
     (case data of None \<Rightarrow> p\<lparr>pi_open := False\<rparr>
      | Some bs \<Rightarrow> if bs = [] then p\<lparr>pi_open := False\<rparr> else p\<lparr>pi_to_backend := pi_to_backend p @ bs\<rparr>)"

definition pipe_step :: "pipe_event \<Rightarrow> pipe \<Rightarrow> pipe" where
  "pipe_step e p =
     (if \<not> pi_open p then p
      else case e of
        Ws_frame bs \<Rightarrow> pump_ws_to_tcp (Some bs) p
      | Ws_gone \<Rightarrow> pump_ws_to_tcp None p
      | Tcp_read bs \<Rightarrow> pump_tcp_to_ws (Some bs) p
      | Tcp_gone \<Rightarrow> pump_tcp_to_ws None p)"

definition pipe_run :: "pipe_event list \<Rightarrow> pipe" where
  "pipe_run es = fold pipe_step es start_pipe"

definition frames_sent :: "pipe_event list \<Rightarrow> octets" where
  "frames_sent es = concat (map (\<lambda>e. case e of Ws_frame bs \<Rightarrow> bs | _ \<Rightarrow> []) es)"

lemma pipe_run_snoc [simp]: "pipe_run (es @ [e]) = pipe_step e (pipe_run es)"
  by (simp add: pipe_run_def)

lemma frames_sent_snoc [simp]: "frames_sent (es @ [e]) = frames_sent es @ (case e of Ws_frame bs \<Rightarrow> bs | _ \<Rightarrow> [])"
  by (simp add: frames_sent_def)

lemmas pipe_defs = pipe_step_def pump_ws_to_tcp_def pump_tcp_to_ws_def

text \<open>The pipe neither invents, reorders nor drops: what it wrote is what came, up to the moment it closed.\<close>

lemma pipe_carries:
  "prefix (pi_to_sandbox (pipe_run es)) (frames_sent es)
   \<and> (pi_open (pipe_run es) \<longrightarrow> pi_to_sandbox (pipe_run es) = frames_sent es)"
proof (induction es rule: rev_induct)
  case Nil
  show ?case by (simp add: pipe_run_def frames_sent_def start_pipe_def)
next
  case (snoc e es)
  then show ?case by (cases e) (auto simp: pipe_defs intro: prefix_prefix)
qed

section \<open>The whole way\<close>

text \<open>
  C3. Whoever sends what into the display of a session whose mode closes the clipboard towards the sandbox: the VNC port
  receives a part from the beginning of a stream of well-formed client messages none of which is a ClientCutText. The
  frames that reach the agent are those the backend sent, in order, up to where the connection broke.
\<close>

theorem no_clipboard_reaches_the_port:
  assumes "mode = CM_NONE \<or> mode = CM_REMOTE_TO_LOCAL"
    and "prefix (frames_sent es) (rl_to_agent (relay_run mode inputs))"
  shows "\<exists>ms. list_all (\<lambda>m. client_message_ok m \<and> \<not> is_client_cut_text m) ms
    \<and> prefix (pi_to_sandbox (pipe_run es)) (concat (map encode_client ms))"
proof -
  obtain ms where "list_all (\<lambda>m. client_message_ok m \<and> \<not> is_client_cut_text m) ms"
    "rl_to_agent (relay_run mode inputs) = concat (map encode_client ms)"
    using to_agent_clean [OF assms(1)] by blast
  then show ?thesis using pipe_carries [of es] assms(2) by (metis prefix_order.trans)
qed

end
