(* ===== verification/Application_Runs.thy ===== *)
theory Application_Runs
  imports Application_Guarantees Account_Runs Agent_Display
begin

text \<open>
  The composition applied to an administrator who has logged in with the second factor and asks for the list of
  users, on a listener that serves everything and on one for users; and the display path, carrying a pasted text.
\<close>

definition sample_sign :: "string \<Rightarrow> string \<Rightarrow> string" where
  "sample_sign nonce key = ''sig''"

definition users_route :: route where
  "users_route = \<lparr> ro_kind = Http ''GET'', ro_path = [Fixed ''admin'', Fixed ''users''],
     ro_guards = [Has_role [''ADMIN'']], ro_name = ''list_users'' \<rparr>"

lemma sample_listener: "listener_mode sample_settings = Listener_both"
  by (simp add: sample_settings_def default_settings_def)

lemma get_passes: "middleware sample_sign st nonce (Http ''GET'') [] [] = None"
  by (simp add: middleware_def csrf_middleware_def SAFE_METHODS_def issue_cookie_def)

lemma users_dispatched: "dispatch (registered Listener_both) (Http ''GET'') [''admin'', ''users''] = Reached users_route"
  by (simp add: dispatch_def registered_def surfaces users_route_def)

lemma alice_is_admin: "require_role sample_idp [''ADMIN''] (Some ''fresh'') verified = Inr alice"
  by (simp add: require_role_def get_current_user_def verified_state role_name_of_event)

lemma users_reached:
  "serve sample_sign sample_settings ''n'' sample_idp (Http ''GET'') [''admin'', ''users''] [] [] (Some ''fresh'') verified
     = Reached users_route"
  by (simp add: serve_def get_passes sample_listener users_dispatched, simp add: users_route_def guard_passes_def alice_is_admin)

theorem administration_witness:
  "\<exists>u rname. get_current_user sample_idp (Some ''fresh'') verified = Inr u \<and> u_is_active u \<and> u_mfa_enabled u
    \<and> role_name_of (db verified) u = Some rname
    \<and> (rname = ''ADMIN'' \<or> rname = ''SECURITY_REVIEWER'' \<and> ro_name users_route \<in> set REVIEWER_HANDLERS)"
  by (rule administration_needs_second_factor [OF verified_run sample_redis_laws challenge_safe users_reached])
    (simp_all add: administers_def users_route_def)


theorem port_witness:
  "\<exists>ms. list_all (\<lambda>m. client_message_ok m \<and> \<not> is_client_cut_text m) ms
    \<and> prefix (pi_to_sandbox (pipe_run
        [Ws_frame (rl_to_agent (relay_run CM_NONE [From_browser [4, 1, 0, 0, 0, 0, 0, 97, 6, 0, 0, 0, 0, 0, 0, 2, 104, 105]])),
         Tcp_gone])) (concat (map encode_client ms))"
  by (rule no_clipboard_reaches_the_port
        [where mode = CM_NONE
           and inputs = "[From_browser [4, 1, 0, 0, 0, 0, 0, 97, 6, 0, 0, 0, 0, 0, 0, 2, 104, 105]]"])
    (simp_all add: frames_sent_def)

end
