(* ===== verification/Spec2Isabelle.thy ===== *)
theory Spec2Isabelle
  imports Concrete_Runs File_Runs Account_Runs Agent_Runs Monitor_Runs Operator_Runs Listing_Runs Application_Runs
begin

text \<open>
  OpenRBI, remote browser isolation: a user works in a browser that runs in a disposable sandbox on
  another machine. The backend (\<open>src/backend/app\<close>, Python, PostgreSQL and Redis) decides who may start a
  session, on which node it runs, what may cross the boundary (clipboard, uploads, downloads), and what
  is recorded. The agent on each node (\<open>src/session-agent\<close>) starts and stops the sandboxes.

  \<^bold>\<open>The state.\<close> One record \<open>database\<close> (theory \<open>Models\<close>) with a list of rows per table; every ORM class of
  \<open>models/\<close> is a record with a field per column, and \<open>Enums\<close> holds the enumerations with their stored
  values. Everything outside the backend (agents, scanner, Redis, directory, staging area) is a type
  variable \<open>'w\<close>, changed only by the operations of parameter records: \<open>'w backend\<close> (HTTP calls to agents,
  secrets), \<open>'w tools\<close> (clamd, SHA-256, libmagic, staging), \<open>'w idp\<close> (Redis, Argon2, pyotp, Fernet, random
  sources), \<open>'w directory\<close> (python-ldap), \<open>'w engine\<close> (Docker, behind the agent). A request is a function from a system state (\<open>'w sys\<close>: database,
  world, running pollers, open displays) to an answer and the next state. Errors are values
  (\<open>service_error\<close>, \<open>http_error\<close>), so every raise of the code is a branch; \<open>respond\<close> and \<open>sys_respond\<close>
  write out which errors commit and which roll back (theory \<open>Service\<close>).

  \<^bold>\<open>Parts and theories.\<close> \<open>Prelude_RBI\<close>: tables (locale \<open>keyed_table\<close>), text, time. \<open>Matching\<close> and \<open>Policy_Engine\<close>:
  which file rule matches, which action wins, clipboard mode and resolution (\<open>services/policy_engine.py\<close>).
  \<open>Policies\<close>, \<open>Policy_Invariant\<close>: versions, publishing, groups. \<open>Rfb_Messages\<close>, \<open>Rfb_Filter\<close>, \<open>Display_Relay\<close>,
  \<open>Display\<close>: the RFB grammar, the stream filters of \<open>core/rfb_clipboard_filter.py\<close> and the websocket relay
  of \<open>api/display.py\<close>. \<open>Agent_Client\<close>, \<open>Nodes\<close>: calls to node agents, enrolment and trust. \<open>Sessions\<close>,
  \<open>Session_Jobs\<close>, \<open>Session_Lifecycle\<close>, \<open>Session_Guarantees\<close>: the life of a session, the reaper and the
  reconciler. \<open>Incidents\<close>, \<open>Bytes\<close>, \<open>Clamav\<close>, \<open>Files\<close>, \<open>File_Guarantees\<close>, \<open>File_Safety\<close>: file transfer,
  scanning, quarantine, release, retention. \<open>Config\<close>: the accepted settings. \<open>Csrf\<close>: the middleware.
  \<open>Login_Sessions\<close>, \<open>Accounts\<close>, \<open>Mfa\<close>, \<open>Ldap\<close>, \<open>Login\<close>, \<open>Setup\<close>: accounts, the second factor, the directory,
  logins, first-run setup and the standard policies; \<open>Account_Guarantees\<close>, \<open>Account_Steps\<close>,
  \<open>Route_Frames\<close> (locale \<open>route_frame\<close>), \<open>Account_Safety\<close>, \<open>Login_Limits\<close>, \<open>Directory_Logins\<close>, \<open>Seeding\<close> hold
  what they guarantee. \<open>Sample_Deployment\<close>, \<open>Sample_Accounts\<close>, \<open>Concrete_Runs\<close>, \<open>File_Runs\<close>, \<open>Account_Runs\<close>
  apply the theorems to a small concrete deployment.

  \<^bold>\<open>The node's side.\<close> \<open>Node_Agent\<close>: settings, credential scopes and reported capacity of the Session Agent;
  \<open>Docker_Provider\<close>: every operation of its Docker provider as a sequence of engine calls; \<open>Agent_Routes\<close>: its
  HTTP routes and a fleet of such agents as the outside of a \<open>backend\<close> (\<open>fleet_backend\<close>); \<open>Node_Enrollment\<close>: how a
  host joins. \<open>Docker_Guarantees\<close> states the behaviour of Docker relied on (\<open>engine_laws\<close>), the contract of a
  provider (locale \<open>sandbox_provider\<close>, interpreted for the Docker provider) and the refinement of an abstract
  sandbox; \<open>Sandbox_Listing\<close> the listing of downloads; \<open>Agent_Guarantees\<close> what ending or isolating a session in
  the backend means for the container. \<open>Sample_Node\<close> and \<open>Agent_Runs\<close> apply them to an engine kept as a map.

  \<^bold>\<open>Watching and operating.\<close> \<open>Metrics\<close>: one tick of \<open>core/node_poller.py\<close>, the samples it records and the two history
  queries of \<open>services/metrics_history.py\<close>; \<open>Health\<close>: every check of \<open>services/health.py\<close>, with Python's \<open>float()\<close> on
  the age of the isolation marker; \<open>Dashboard\<close>: the figures and warnings of \<open>services/dashboard.py\<close>. \<open>Key_Rotation\<close>:
  \<open>scripts/rotate_totp_key.py\<close> and what else is sealed by that key; \<open>Operator_Accounts\<close>, \<open>Operator_Guarantees\<close>: the
  break-glass reset of a password and the cleanup of test accounts, each SQL statement of which is checked
  against all foreign keys of the schema (\<open>references_ok\<close>). \<open>Monitor_Runs\<close> and \<open>Operator_Runs\<close> apply them.

  \<^bold>\<open>What the pages show.\<close> \<open>Queries\<close>: sorts, pages, \<open>ILIKE\<close>, case folding, and the contract of a paged listing (locale
  \<open>paged\<close>); \<open>Sql_Listings\<close> (users, groups), \<open>Activity_Listings\<close> (sessions, files, incidents, audit log) and
  \<open>Overview_Listings\<close> (workers, policies) the routes that only read, with their response schemas;
  \<open>Listing_Guarantees\<close> which of them keep the contract; \<open>Listing_Runs\<close> applies it.

  \<^bold>\<open>The whole.\<close> \<open>Application\<close> is \<open>main.py\<close>: the surfaces a listener registers, every route with its guards, and the way
  of a request through the middleware, the routing and the guards to a handler; \<open>Application_Guarantees\<close> combines it
  with the invariant of the accounts: nobody administers without a second factor, and a user listener has no
  administration. \<open>Agent_Display\<close> is the far half of the display path, composed with the relay of the backend.
  \<open>Application_Runs\<close> applies both.

  \<^bold>\<open>What the lemmas show.\<close> Step relations (\<open>policy_step\<close>, the session and file steps, \<open>account_step\<close>) collect the
  operations of a part; a frame or preservation lemma per operation and rule induction give the
  invariants along every run. The stream filters are proved against the RFB grammar, in whatever frames
  the bytes arrive. Optimised loops are proved equal to what they mean (strictest action, clipboard
  directions, label-wise host match).

  \<^bold>\<open>Bounds.\<close> The wait for the display makes at most 15 attempts, as the code does, so it is a primitive
  recursion, as are the 30 looks at the exit code of an upload; the enrolment loop may run forever and is a
  partial function whose return is proved; every other loop is structural or has a measure. Endless background
  loops are modelled by one cycle each. UUIDs are numbers given out by a counter, instants are integers (microseconds),
  characters are code points below 256, and an em dash in an error text is a hyphen.

  \<^bold>\<open>Not modelled.\<close> Request schemas beyond those whose validators decide something, cookies and QR codes, the internals of
  the framework, migrations, the probes and acceptance scripts that drive a deployment, and the frontend.
  Two requests interleave at the points where the code reads again what it locked or claimed
  (the reaper and the recovery claim rows and are proved for any change in between); elsewhere a request
  is one step.
\<close>

end
